(* ===== verification/Prelude.thy ===== *)
theory Prelude
  imports Main "HOL-Library.Char_ord" "HOL-Library.List_Lexorder"
begin

text \<open>
  Shared vocabulary of the development: results that may be an exception, insertion-ordered
  dictionaries with string keys, the string operations of Python that the program uses, and
  the generic lemmas on them. Characters are code points below 256.
\<close>

named_theorems exc_simps \<open>equations of the exception monad\<close>
named_theorems dict_simps \<open>lookup after an update of a dictionary\<close>
named_theorems str_simps \<open>equations of the string helpers\<close>

section \<open>Results that may be an exception\<close>

text \<open>
  A Python call returns a value or raises. \<open>exn\<close> holds the exceptions the modelled code raises
  or catches; the argument is \<open>str(exc)\<close>.
\<close>

text \<open>\<open>ApiErrorCode\<close>, and its values\<close>

datatype api_error_code = BAD_REQUEST | UNAUTHORIZED | FORBIDDEN | NOT_FOUND | CONFLICT | TOO_MANY_REQUESTS
  | VALIDATION_ERROR | DATABASE_ERROR | INTERNAL_ERROR

fun error_code_text :: "api_error_code \<Rightarrow> string" where
  "error_code_text BAD_REQUEST = ''bad_request''" | "error_code_text UNAUTHORIZED = ''unauthorized''"
| "error_code_text FORBIDDEN = ''forbidden''" | "error_code_text NOT_FOUND = ''not_found''"
| "error_code_text CONFLICT = ''conflict''" | "error_code_text TOO_MANY_REQUESTS = ''too_many_requests''"
| "error_code_text VALIDATION_ERROR = ''validation_error''" | "error_code_text DATABASE_ERROR = ''database_error''"
| "error_code_text INTERNAL_ERROR = ''internal_error''"

text \<open>The details of an \<open>ApiError\<close>, where there are any, are a dictionary of texts.\<close>

datatype exn =
    ValueError string
  | AttributeValidationError string
  | TypeError string
  | OverflowError string
  | KeyError string
  | IndexError string
  | TimeoutError string
  | RuntimeError string
  | OperationalError string
  | IntegrityError string
  | AttributeError string
  | JWTError string
  | OSError string
  | ConnectionError string
  | ImportError string
  | RedisError string
  | BootstrapError string
  | HTTPException nat string
  | ApiError nat api_error_code string "(string \<times> string) list"

text \<open>\<open>str(exc)\<close>\<close>

fun exn_text :: "exn \<Rightarrow> string" where
  "exn_text (ValueError m) = m" | "exn_text (AttributeValidationError m) = m" | "exn_text (TypeError m) = m"
| "exn_text (OverflowError m) = m" | "exn_text (KeyError m) = m" | "exn_text (IndexError m) = m"
| "exn_text (TimeoutError m) = m" | "exn_text (RuntimeError m) = m" | "exn_text (OperationalError m) = m"
| "exn_text (IntegrityError m) = m" | "exn_text (AttributeError m) = m" | "exn_text (JWTError m) = m"
| "exn_text (OSError m) = m" | "exn_text (ConnectionError m) = m" | "exn_text (ImportError m) = m"
  | "exn_text (RedisError m) = m" | "exn_text (BootstrapError m) = m"
| "exn_text (HTTPException status m) = m"
| "exn_text (ApiError status error_code m details) = m"

type_synonym 'a result = "exn + 'a"

definition ebind :: "'a result \<Rightarrow> ('a \<Rightarrow> 'b result) \<Rightarrow> 'b result" where
  "ebind m f = (case m of Inl e \<Rightarrow> Inl e | Inr x \<Rightarrow> f x)"

lemma ebind_Inl [simp, exc_simps]: "ebind (Inl e) f = Inl e"
  by (simp add: ebind_def)

lemma ebind_Inr [simp, exc_simps]: "ebind (Inr x) f = f x"
  by (simp add: ebind_def)

lemma ebind_assoc: "ebind (ebind m f) g = ebind m (\<lambda>x. ebind (f x) g)"
  by (cases m) simp_all

lemma ebind_eq_Inr: "ebind m f = Inr y \<longleftrightarrow> (\<exists>x. m = Inr x \<and> f x = Inr y)"
  by (cases m) simp_all

lemma ebind_eq_Inl: "ebind m f = Inl e \<longleftrightarrow> m = Inl e \<or> (\<exists>x. m = Inr x \<and> f x = Inl e)"
  by (cases m) simp_all

lemma ebind_cong [fundef_cong]:
  "m = m' \<Longrightarrow> (\<And>x. m' = Inr x \<Longrightarrow> f x = g x) \<Longrightarrow> ebind m f = ebind m' g"
  by (cases m') (simp_all add: ebind_def)

text \<open>A list comprehension whose element expression may raise: the first exception wins.\<close>

fun emap :: "('a \<Rightarrow> 'b result) \<Rightarrow> 'a list \<Rightarrow> 'b list result" where
  "emap f [] = Inr []"
| "emap f (x # xs) = ebind (f x) (\<lambda>y. ebind (emap f xs) (\<lambda>ys. Inr (y # ys)))"

lemma emap_Inr_map: "(\<And>x. x \<in> set xs \<Longrightarrow> f x = Inr (g x)) \<Longrightarrow> emap f xs = Inr (map g xs)"
  by (induction xs) simp_all

lemma emap_length: "emap f xs = Inr ys \<Longrightarrow> length ys = length xs"
  by (induction xs arbitrary: ys) (auto simp: ebind_eq_Inr)

lemma emap_nth: "emap f xs = Inr ys \<Longrightarrow> i < length xs \<Longrightarrow> f (xs ! i) = Inr (ys ! i)"
proof (induction xs arbitrary: ys i)
  case (Cons x xs)
  then show ?case by (cases i) (auto simp: ebind_eq_Inr)
qed simp

lemma emap_append: "emap f (xs @ ys) = ebind (emap f xs) (\<lambda>us. ebind (emap f ys) (\<lambda>vs. Inr (us @ vs)))"
proof (induction xs)
  case Nil
  show ?case by (cases "emap f ys") simp_all
qed (simp add: ebind_assoc)

lemma emap_cong [fundef_cong]:
  "xs = ys \<Longrightarrow> (\<And>x. x \<in> set ys \<Longrightarrow> f x = g x) \<Longrightarrow> emap f xs = emap g ys"
  by (induction ys arbitrary: xs) auto

section \<open>Dictionaries\<close>

text \<open>
  A Python dictionary is an association list in insertion order. \<open>dset\<close> overwrites in place
  or appends, \<open>dpop\<close> removes, \<open>dunion\<close> is the operator \<open>|\<close> (the right side wins and new keys
  come last).
\<close>

type_synonym 'v dict = "(string \<times> 'v) list"

abbreviation dget :: "('k \<times> 'v) list \<Rightarrow> 'k \<Rightarrow> 'v option" where
  "dget d k \<equiv> map_of d k"

definition dget_or :: "('k \<times> 'v) list \<Rightarrow> 'k \<Rightarrow> 'v \<Rightarrow> 'v" where
  "dget_or d k v = (case dget d k of None \<Rightarrow> v | Some w \<Rightarrow> w)"

fun dset :: "('k \<times> 'v) list \<Rightarrow> 'k \<Rightarrow> 'v \<Rightarrow> ('k \<times> 'v) list" where
  "dset [] k v = [(k, v)]"
| "dset ((k', v') # d) k v = (if k' = k then (k, v) # d else (k', v') # dset d k v)"

definition dpop :: "('k \<times> 'v) list \<Rightarrow> 'k \<Rightarrow> ('k \<times> 'v) list" where
  "dpop d k = filter (\<lambda>(k', v). k' \<noteq> k) d"

definition dunion :: "('k \<times> 'v) list \<Rightarrow> ('k \<times> 'v) list \<Rightarrow> ('k \<times> 'v) list" where
  "dunion d e = foldl (\<lambda>acc (k, v). dset acc k v) d e"

definition dkeys :: "('k \<times> 'v) list \<Rightarrow> 'k list" where
  "dkeys d = map fst d"

lemma dget_dset [simp, dict_simps]: "dget (dset d k v) k' = (if k' = k then Some v else dget d k')"
  by (induction d k v rule: dset.induct) auto

lemma dget_dpop [simp, dict_simps]: "dget (dpop d k) k' = (if k' = k then None else dget d k')"
  unfolding dpop_def by (induction d) auto

lemma keys_dset: "fst ` set (dset d k v) = insert k (fst ` set d)"
  by (induction d k v rule: dset.induct) auto

lemma distinct_dset: "distinct (map fst d) \<Longrightarrow> distinct (map fst (dset d k v))"
  by (induction d k v rule: dset.induct) (auto simp: keys_dset)

lemma distinct_dpop: "distinct (map fst d) \<Longrightarrow> distinct (map fst (dpop d k))"
  unfolding dpop_def by (induction d) auto

lemma dpop_absent: "k \<notin> fst ` set d \<Longrightarrow> dpop d k = d"
  unfolding dpop_def by (induction d) auto

lemma dget_foldl_dset:
  "dget (foldl (\<lambda>acc (k, v). dset acc k v) d e) x
     = (case dget (rev e) x of None \<Rightarrow> dget d x | Some v \<Rightarrow> Some v)"
  by (induction e arbitrary: d) (auto simp: map_add_def split: option.splits)

lemma dget_dunion:
  "distinct (map fst e) \<Longrightarrow>
   dget (dunion d e) x = (case dget e x of None \<Rightarrow> dget d x | Some v \<Rightarrow> Some v)"
proof -
  assume dist: "distinct (map fst e)"
  then have "distinct (map fst (rev e))" by (simp flip: rev_map)
  then have "map_of (rev e) = map_of e"
    using dist by (intro map_of_eqI) (auto simp: map_of_is_SomeI)
  then show ?thesis by (simp add: dunion_def dget_foldl_dset)
qed

section \<open>Strings\<close>

definition code :: "char \<Rightarrow> int" where
  "code c = of_char c"

definition is_space :: "char \<Rightarrow> bool" where
  "is_space c = (let n = code c in (9 \<le> n \<and> n \<le> 13) \<or> (28 \<le> n \<and> n \<le> 32) \<or> n = 133 \<or> n = 160)"

definition is_digit :: "char \<Rightarrow> bool" where
  "is_digit c = (48 \<le> code c \<and> code c \<le> 57)"

definition digit_val :: "char \<Rightarrow> int" where
  "digit_val c = code c - 48"

definition digit_char :: "int \<Rightarrow> char" where
  "digit_char n = char_of (48 + n)"

definition lower_char :: "char \<Rightarrow> char" where
  "lower_char c = (let n = code c in
     if (65 \<le> n \<and> n \<le> 90) \<or> (192 \<le> n \<and> n \<le> 222 \<and> n \<noteq> 215) then char_of (n + 32) else c)"

definition lower :: "string \<Rightarrow> string" where
  "lower s = map lower_char s"

definition upper_ascii :: "string \<Rightarrow> string" where
  "upper_ascii s = map (\<lambda>c. let n = code c in if 97 \<le> n \<and> n \<le> 122 then char_of (n - 32) else c) s"

definition lstrip :: "string \<Rightarrow> string" where
  "lstrip s = dropWhile is_space s"

definition rstrip :: "string \<Rightarrow> string" where
  "rstrip s = rev (dropWhile is_space (rev s))"

definition strip :: "string \<Rightarrow> string" where
  "strip s = rstrip (lstrip s)"

definition starts_with :: "string \<Rightarrow> string \<Rightarrow> bool" where
  "starts_with p s = (take (length p) s = p)"

definition ends_with :: "string \<Rightarrow> string \<Rightarrow> bool" where
  "ends_with p s = starts_with (rev p) (rev s)"

definition remove_char :: "char \<Rightarrow> string \<Rightarrow> string" where
  "remove_char c s = filter (\<lambda>x. x \<noteq> c) s"

text \<open>\<open>s.split(c, 1)\<close>: the text before the first \<open>c\<close>, and the text after it if there is one.\<close>

definition split1 :: "char \<Rightarrow> string \<Rightarrow> string \<times> string option" where
  "split1 c s = (case dropWhile (\<lambda>x. x \<noteq> c) s of
     [] \<Rightarrow> (s, None) | _ # rest \<Rightarrow> (takeWhile (\<lambda>x. x \<noteq> c) s, Some rest))"

text \<open>\<open>s.split(c)\<close>: all fields, empty ones included.\<close>

fun split_char :: "char \<Rightarrow> string \<Rightarrow> string list" where
  "split_char c [] = [[]]"
| "split_char c (x # xs) =
     (if x = c then [] # split_char c xs
      else (case split_char c xs of [] \<Rightarrow> [[x]] | f # fs \<Rightarrow> (x # f) # fs))"

text \<open>\<open>s.split()\<close>: the maximal runs of non-space characters.\<close>

fun split_ws_aux :: "string \<Rightarrow> string \<Rightarrow> string list" where
  "split_ws_aux acc [] = (if acc = [] then [] else [rev acc])"
| "split_ws_aux acc (x # xs) =
     (if is_space x then (if acc = [] then split_ws_aux [] xs else rev acc # split_ws_aux [] xs)
      else split_ws_aux (x # acc) xs)"

definition split_ws :: "string \<Rightarrow> string list" where
  "split_ws s = split_ws_aux [] s"

text \<open>\<open>s.splitlines()\<close>: the line boundaries of Python below code point 256.\<close>

definition is_linebreak :: "char \<Rightarrow> bool" where
  "is_linebreak c = (let n = code c in (10 \<le> n \<and> n \<le> 13) \<or> (28 \<le> n \<and> n \<le> 30) \<or> n = 133)"

fun splitlines_aux :: "string \<Rightarrow> string \<Rightarrow> string list" where
  "splitlines_aux acc [] = (if acc = [] then [] else [rev acc])"
| "splitlines_aux acc (x # y # xs) =
     (if code x = 13 \<and> code y = 10 then rev acc # splitlines_aux [] xs
      else if is_linebreak x then rev acc # splitlines_aux [] (y # xs)
      else splitlines_aux (x # acc) (y # xs))"
| "splitlines_aux acc [x] = (if is_linebreak x then [rev acc] else [rev (x # acc)])"

definition splitlines :: "string \<Rightarrow> string list" where
  "splitlines s = splitlines_aux [] s"

fun join :: "string \<Rightarrow> string list \<Rightarrow> string" where
  "join sep [] = []"
| "join sep [x] = x"
| "join sep (x # y # ys) = x @ sep @ join sep (y # ys)"

text \<open>\<open>sorted({...})\<close>\<close>

definition sorted_set :: "string list \<Rightarrow> string list" where
  "sorted_set xs = sort (remdups xs)"

text \<open>\<open>str(n)\<close> for an integer: the digits of a non-negative number, then the sign.\<close>

function nat_str :: "int \<Rightarrow> string" where
  "nat_str n = (if n < 10 then [digit_char n] else nat_str (n div 10) @ [digit_char (n mod 10)])"
  by pat_completeness auto
termination by (relation "measure nat") auto

declare nat_str.simps [simp del]

definition int_str :: "int \<Rightarrow> string" where
  "int_str i = (if i < 0 then CHR ''-'' # nat_str (- i) else nat_str i)"

definition digits_val :: "string \<Rightarrow> int" where
  "digits_val s = foldl (\<lambda>acc c. 10 * acc + digit_val c) 0 s"

lemma digit_char_eval [str_simps]:
  "digit_char 0 = CHR ''0''" "digit_char 1 = CHR ''1''" "digit_char 2 = CHR ''2''"
  "digit_char 3 = CHR ''3''" "digit_char 4 = CHR ''4''" "digit_char 5 = CHR ''5''"
  "digit_char 6 = CHR ''6''" "digit_char 7 = CHR ''7''" "digit_char 8 = CHR ''8''"
  "digit_char 9 = CHR ''9''"
  by code_simp+

lemma code_digit_char: "0 \<le> n \<Longrightarrow> n < 10 \<Longrightarrow> code (digit_char n) = 48 + n"
  by (simp add: code_def digit_char_def)

lemma is_digit_digit_char [simp]: "0 \<le> n \<Longrightarrow> n < 10 \<Longrightarrow> is_digit (digit_char n)"
  by (simp add: is_digit_def code_digit_char)

lemma digit_val_digit_char [simp]: "0 \<le> n \<Longrightarrow> n < 10 \<Longrightarrow> digit_val (digit_char n) = n"
  by (simp add: digit_val_def code_digit_char)

lemma nat_str_digits: "0 \<le> n \<Longrightarrow> \<forall>c \<in> set (nat_str n). is_digit c"
proof (induction n rule: nat_str.induct)
  case (1 n)
  then show ?case by (subst nat_str.simps) auto
qed

lemma nat_str_nonempty [simp]: "nat_str n \<noteq> []"
  by (subst nat_str.simps) simp

lemma digits_val_snoc: "digits_val (s @ [c]) = 10 * digits_val s + digit_val c"
  by (simp add: digits_val_def)

lemma digits_val_nat_str [simp]: "0 \<le> n \<Longrightarrow> digits_val (nat_str n) = n"
proof (induction n rule: nat_str.induct)
  case (1 n)
  then show ?case
    by (subst nat_str.simps) (auto simp: digits_val_snoc, simp add: digits_val_def)
qed

lemma nat_str_inj: "0 \<le> m \<Longrightarrow> 0 \<le> n \<Longrightarrow> nat_str m = nat_str n \<longleftrightarrow> m = n"
  by (metis digits_val_nat_str)

lemma minus_not_digit: "\<not> is_digit (CHR ''-'')"
  by (simp add: is_digit_def code_def)

lemma nat_str_no_minus:
  assumes "0 \<le> n"
  shows "CHR ''-'' # s \<noteq> nat_str n" "nat_str n \<noteq> CHR ''-'' # s"
  using nat_str_digits [OF assms] minus_not_digit by (metis list.set_intros(1))+

lemma int_str_inj: "int_str i = int_str j \<longleftrightarrow> i = j"
  by (auto simp: int_str_def nat_str_inj nat_str_no_minus)

lemma int_str_nonempty [simp]: "int_str i \<noteq> []"
  by (simp add: int_str_def)

lemma int_str_chars: "c \<in> set (int_str i) \<Longrightarrow> is_digit c \<or> c = CHR ''-''"
  using nat_str_digits [of i] nat_str_digits [of "- i"] by (auto simp: int_str_def split: if_splits)

lemma split1_append: "c \<notin> set s \<Longrightarrow> split1 c (s @ c # t) = (s, Some t)"
proof -
  assume "c \<notin> set s"
  then have "\<forall>x \<in> set s. x \<noteq> c" by auto
  then show ?thesis by (simp add: split1_def dropWhile_append2 takeWhile_append2)
qed

lemma split1_absent: "c \<notin> set s \<Longrightarrow> split1 c s = (s, None)"
proof -
  assume "c \<notin> set s"
  then have "dropWhile (\<lambda>x. x \<noteq> c) s = []" by (induction s) auto
  then show ?thesis unfolding split1_def by (simp only: list.case)
qed

lemma append_sep_inj:
  fixes a :: string
  assumes "a @ c # b = a' @ c # b'" "c \<notin> set a" "c \<notin> set a'"
  shows "a = a' \<and> b = b'"
proof -
  have "split1 c (a @ c # b) = (a, Some b)" using assms(2) by (rule split1_append)
  moreover have "split1 c (a' @ c # b') = (a', Some b')" using assms(3) by (rule split1_append)
  ultimately have "(a, Some b) = (a', Some b')" unfolding assms(1) by (rule subst)
  then show ?thesis by simp
qed

section \<open>Trimmed strings\<close>

lemma length_lstrip: "length (lstrip s) \<le> length s"
  by (simp add: lstrip_def length_dropWhile_le)

lemma length_rstrip: "length (rstrip s) \<le> length s"
  using length_dropWhile_le [of is_space "rev s"] by (simp add: rstrip_def)

lemma strip_fixed_first: "strip (c # s) = c # s \<Longrightarrow> \<not> is_space c"
proof
  assume "strip (c # s) = c # s" "is_space c"
  then have "length (strip (c # s)) = Suc (length s)" "lstrip (c # s) = lstrip s"
    by (simp_all add: lstrip_def)
  moreover have "length (strip (c # s)) \<le> length (lstrip (c # s))"
    unfolding strip_def by (rule length_rstrip)
  ultimately show False using length_lstrip [of s] by simp
qed

lemma strip_fixed_last: "strip s = s \<Longrightarrow> s \<noteq> [] \<Longrightarrow> \<not> is_space (last s)"
proof
  assume s: "strip s = s" "s \<noteq> []" "is_space (last s)"
  then obtain t c where t: "s = t @ [c]" "is_space c" by (metis append_butlast_last_id)
  have "lstrip s = s" using s(1,2) strip_fixed_first [of "hd s" "tl s"] by (cases s) (simp_all add: lstrip_def)
  then have "strip s = rstrip t" using t by (simp add: strip_def rstrip_def)
  then show False using s(1) t length_rstrip [of t] by simp
qed

lemma strip_id: "s = [] \<or> \<not> is_space (hd s) \<and> \<not> is_space (last s) \<Longrightarrow> strip s = s"
proof (cases s rule: rev_cases)
  case (snoc t c)
  moreover assume "s = [] \<or> \<not> is_space (hd s) \<and> \<not> is_space (last s)"
  ultimately show ?thesis by (cases t) (simp_all add: strip_def lstrip_def rstrip_def)
qed (simp add: strip_def lstrip_def rstrip_def)

section \<open>Lines and words\<close>

lemma linebreak_is_space: "is_linebreak c \<Longrightarrow> is_space c"
  by (auto simp: is_linebreak_def is_space_def Let_def)

lemma newline_breaks: "is_linebreak (char_of (10 :: nat))" "code (char_of (10 :: nat)) \<noteq> 13"
  by code_simp+

lemma splitlines_aux_line:
  "\<forall>c \<in> set l. \<not> is_linebreak c \<Longrightarrow>
   splitlines_aux acc (l @ char_of (10 :: nat) # rest) = (rev acc @ l) # splitlines_aux [] rest"
proof (induction l arbitrary: acc)
  case Nil
  then show ?case using newline_breaks by (cases rest) simp_all
next
  case (Cons x l)
  obtain y ys where ys: "l @ char_of (10 :: nat) # rest = y # ys" by (cases l) auto
  have "code x \<noteq> 13" using Cons.prems by (auto simp: is_linebreak_def Let_def)
  then have "splitlines_aux acc (x # y # ys) = splitlines_aux (x # acc) (y # ys)" using Cons.prems by simp
  then show ?case using Cons by (simp add: ys)
qed

lemma splitlines_aux_last:
  "\<forall>c \<in> set l. \<not> is_linebreak c \<Longrightarrow> splitlines_aux acc l = (if acc = [] \<and> l = [] then [] else [rev acc @ l])"
proof (induction l arbitrary: acc)
  case (Cons x l)
  have x: "code x \<noteq> 13" "\<not> is_linebreak x" using Cons.prems by (auto simp: is_linebreak_def Let_def)
  show ?case
  proof (cases l)
    case Nil
    then show ?thesis using x by simp
  next
    case (Cons y ys)
    then show ?thesis using x Cons.IH [of "x # acc"] Cons.prems by simp
  qed
qed simp

lemma splitlines_join:
  assumes "ls \<noteq> []" "\<forall>l \<in> set ls. l \<noteq> [] \<and> (\<forall>c \<in> set l. \<not> is_linebreak c)"
  shows "splitlines (join [char_of (10 :: nat)] ls) = ls"
  using assms
proof (induction ls rule: list_nonempty_induct)
  case (single l)
  then show ?case by (simp add: splitlines_def splitlines_aux_last)
next
  case (cons l ls)
  obtain l' ls' where "ls = l' # ls'" using cons.hyps by (cases ls) auto
  then have "join [char_of (10 :: nat)] (l # ls) = l @ char_of (10 :: nat) # join [char_of (10 :: nat)] ls" by simp
  then show ?case using cons by (simp add: splitlines_def splitlines_aux_line)
qed

lemma split_ws_aux_word:
  "\<forall>c \<in> set w. \<not> is_space c \<Longrightarrow> acc @ w \<noteq> [] \<Longrightarrow> is_space s \<Longrightarrow>
   split_ws_aux acc (w @ s # rest) = (rev acc @ w) # split_ws_aux [] rest"
  by (induction w arbitrary: acc) auto

lemma split_ws_aux_last:
  "\<forall>c \<in> set w. \<not> is_space c \<Longrightarrow> split_ws_aux acc w = (if acc = [] \<and> w = [] then [] else [rev acc @ w])"
  by (induction w arbitrary: acc) auto

lemma blank_is_space: "is_space (CHR '' '')"
  by code_simp

lemma split_ws_join:
  assumes "\<forall>w \<in> set ws. w \<noteq> [] \<and> (\<forall>c \<in> set w. \<not> is_space c)"
  shows "split_ws (join '' '' ws) = ws"
  using assms
proof (induction ws)
  case (Cons w ws)
  show ?case
  proof (cases ws)
    case Nil
    then show ?thesis using Cons.prems by (simp add: split_ws_def split_ws_aux_last)
  next
    case (Cons w' ws')
    then have "join '' '' (w # ws) = w @ CHR '' '' # join '' '' ws" by simp
    then show ?thesis using Cons.IH Cons.prems blank_is_space by (simp add: split_ws_def split_ws_aux_word)
  qed
qed (simp add: split_ws_def)

lemma set_join: "set (join sep ws) \<subseteq> set sep \<union> \<Union> (set ` set ws)"
  by (induction sep ws rule: join.induct) auto

lemma join_nonempty: "ws \<noteq> [] \<Longrightarrow> \<forall>w \<in> set ws. w \<noteq> [] \<Longrightarrow> join sep ws \<noteq> []"
  by (induction sep ws rule: join.induct) auto

lemma hd_join: "ws \<noteq> [] \<Longrightarrow> \<forall>w \<in> set ws. w \<noteq> [] \<Longrightarrow> hd (join sep ws) = hd (hd ws)"
  by (induction sep ws rule: join.induct) auto

lemma last_join: "ws \<noteq> [] \<Longrightarrow> \<forall>w \<in> set ws. w \<noteq> [] \<Longrightarrow> last (join sep ws) = last (last ws)"
proof (induction sep ws rule: join.induct)
  case (3 sep x y ys)
  moreover have "join sep (y # ys) \<noteq> []" using 3 by (intro join_nonempty) auto
  ultimately show ?case by simp
qed simp_all

lemma strip_join:
  assumes "ws \<noteq> []" "\<forall>w \<in> set ws. w \<noteq> [] \<and> (\<forall>c \<in> set w. \<not> is_space c)"
  shows "strip (join sep ws) = join sep ws"
proof (rule strip_id)
  have "\<not> is_space (hd (hd ws))" "\<not> is_space (last (last ws))"
    using assms hd_in_set last_in_set by metis+
  then show "join sep ws = [] \<or> \<not> is_space (hd (join sep ws)) \<and> \<not> is_space (last (join sep ws))"
    using assms hd_join [of ws sep] last_join [of ws sep] by simp
qed

lemma strip_word: "\<forall>c \<in> set w. \<not> is_space c \<Longrightarrow> strip w = w"
  by (rule strip_id) (cases w; auto)

section \<open>Sorting with an extra element\<close>

lemma insort_around:
  assumes "sorted (map f (us @ x # vs))"
  shows "\<exists>us' vs'. insort_key f a (us @ vs) = us' @ vs' \<and> insort_key f a (us @ x # vs) = us' @ x # vs'"
  using assms
proof (induction us)
  case Nil
  show ?case
  proof (cases "f a \<le> f x")
    case True
    then have "insort_key f a vs = a # vs" using Nil by (cases vs) auto
    then show ?thesis using True by (intro exI [of _ "[a]"] exI [of _ vs]) simp
  next
    case False
    then show ?thesis by (intro exI [of _ "[]"] exI [of _ "insort_key f a vs"]) simp
  qed
next
  case (Cons u us)
  show ?case
  proof (cases "f a \<le> f u")
    case True
    then show ?thesis by (intro exI [of _ "a # u # us"] exI [of _ vs]) simp
  next
    case False
    from Cons obtain us' vs' where "insort_key f a (us @ vs) = us' @ vs'" "insort_key f a (us @ x # vs) = us' @ x # vs'"
      by auto
    then show ?thesis using False by (intro exI [of _ "u # us'"] exI [of _ vs']) simp
  qed
qed

lemma sort_snoc: "\<exists>us vs. sort_key f xs = us @ vs \<and> sort_key f (xs @ [x]) = us @ x # vs"
proof (induction xs)
  case (Cons a xs)
  then obtain us vs where s: "sort_key f xs = us @ vs" "sort_key f (xs @ [x]) = us @ x # vs" by blast
  have "sorted (map f (us @ x # vs))" using s(2) [symmetric] by (simp add: sorted_sort_key)
  from insort_around [OF this, of a] s show ?case by simp
qed simp

end
