(* ===== verification/PyValue.thy ===== *)
theory PyValue
  imports Complex_Main Prelude
begin

text \<open>
  The dynamically typed values that flow through the program: what \<open>json.loads\<close>, the request
  models and the repositories produce. The section also fixes the pieces of the language the
  program relies on: truth values, \<open>==\<close>, \<open>in\<close>, \<open>str()\<close>, \<open>repr()\<close>, \<open>int()\<close> and \<open>float()\<close>.
  A float is held as its \<open>repr\<close>, which determines it; its numeric value is the nearest double.
  Dictionary keys are strings, as in JSON documents and in every \<open>dict[str, Any]\<close> of the source.
\<close>

datatype pyval =
    PNone
  | PBool bool
  | PInt int
  | PFloat string
  | PStr string
  | PList "pyval list"
  | PTuple "pyval list"
  | PDict "(string \<times> pyval) list"

type_synonym pydict = "pyval dict"

section \<open>Numbers\<close>

datatype num_v = Fin rat | PosInf | NegInf | NaN

fun num_eq :: "num_v \<Rightarrow> num_v \<Rightarrow> bool" where
  "num_eq (Fin a) (Fin b) = (a = b)"
| "num_eq PosInf PosInf = True"
| "num_eq NegInf NegInf = True"
| "num_eq _ _ = False"

fun num_le :: "num_v \<Rightarrow> num_v \<Rightarrow> bool" where
  "num_le NaN _ = False"
| "num_le _ NaN = False"
| "num_le NegInf _ = True"
| "num_le _ PosInf = True"
| "num_le (Fin a) (Fin b) = (a \<le> b)"
| "num_le _ _ = False"

text \<open>
  Rounding to the nearest double, ties to even. \<open>n / d\<close> is scaled by \<open>2 ^ e\<close> so that the
  quotient has 53 bits (fewer in the subnormal range), rounded, and scaled back. Integers up to
  \<open>2 ^ 53\<close> are doubles and take the short way.
\<close>

function bitlen :: "int \<Rightarrow> nat" where
  "bitlen n = (if n \<le> 0 then 0 else Suc (bitlen (n div 2)))"
  by pat_completeness auto
termination by (relation "measure nat") auto

declare bitlen.simps [simp del]

definition half_even :: "int \<Rightarrow> int \<Rightarrow> int" where
  "half_even n d = (let q = n div d; r = n mod d in
     if 2 * r > d \<or> (2 * r = d \<and> odd q) then q + 1 else q)"

definition round_pos :: "int \<Rightarrow> int \<Rightarrow> num_v" where
  "round_pos n d =
     (if n = 0 then Fin 0
      else if d = 1 \<and> n \<le> 9007199254740992 then Fin (of_int n)
      else
        let k = int (bitlen n) - int (bitlen d);
            e0 = (if (if 0 \<le> k then d * 2 ^ nat k \<le> n else d \<le> n * 2 ^ nat (- k))
                  then k else k - 1);
            e = max (e0 - 52) (- 1074);
            m = (if 0 \<le> e then half_even n (d * 2 ^ nat e) else half_even (n * 2 ^ nat (- e)) d)
        in if 0 \<le> e
           then (if 2 ^ 1024 \<le> m * 2 ^ nat e then PosInf else Fin (of_int (m * 2 ^ nat e)))
           else Fin (of_int m / of_int (2 ^ nat (- e))))"

fun num_neg :: "num_v \<Rightarrow> num_v" where
  "num_neg (Fin a) = Fin (- a)"
| "num_neg PosInf = NegInf"
| "num_neg NegInf = PosInf"
| "num_neg NaN = NaN"

definition double_of_int :: "int \<Rightarrow> num_v" where
  "double_of_int i = (if i < 0 then num_neg (round_pos (- i) 1) else round_pos i 1)"

text \<open>
  The text accepted by \<open>float()\<close>: digits with single underscores between them, an optional
  fraction and exponent, or a spelling of infinity or NaN.
\<close>

fun digit_tail :: "string \<Rightarrow> bool" where
  "digit_tail [] = True"
| "digit_tail (c # cs) =
     (if is_digit c then digit_tail cs
      else if c = CHR ''_'' then (case cs of [] \<Rightarrow> False | c' # cs' \<Rightarrow> is_digit c' \<and> digit_tail cs')
      else False)"

definition digit_group :: "string \<Rightarrow> bool" where
  "digit_group s = (case s of [] \<Rightarrow> False | c # cs \<Rightarrow> is_digit c \<and> digit_tail cs)"

definition group_val :: "string \<Rightarrow> int" where
  "group_val s = digits_val (remove_char (CHR ''_'') s)"

definition split_sign :: "string \<Rightarrow> bool \<times> string" where
  "split_sign s = (case s of [] \<Rightarrow> (False, s)
     | c # cs \<Rightarrow> if c = CHR ''-'' then (True, cs) else if c = CHR ''+'' then (False, cs) else (False, s))"

definition parse_int :: "string \<Rightarrow> int option" where
  "parse_int s = (let (neg, t) = split_sign (strip s) in
     if digit_group t \<and> length (remove_char (CHR ''_'') t) \<le> 4300
     then Some (if neg then - group_val t else group_val t) else None)"

definition scale10 :: "int \<Rightarrow> int \<Rightarrow> num_v" where
  "scale10 n e = (if 0 \<le> e then round_pos (n * 10 ^ nat e) 1 else round_pos n (10 ^ nat (- e)))"

definition parse_decimal :: "string \<Rightarrow> num_v option" where
  "parse_decimal t =
     (let (mant, ex) = split1 (CHR ''e'') (lower t);
          (ip, fp) = split1 (CHR ''.'') mant;
          frac = (case fp of None \<Rightarrow> [] | Some f \<Rightarrow> f);
          mant_ok = (digit_group ip \<and> (frac = [] \<or> digit_group frac)
                     \<or> ip = [] \<and> digit_group frac);
          exv = (case ex of None \<Rightarrow> Some 0
                 | Some x \<Rightarrow> let (neg, ds) = split_sign x in
                     if digit_group ds then Some (if neg then - group_val ds else group_val ds)
                     else None);
          fd = remove_char (CHR ''_'') frac
      in if mant_ok then
           (case exv of None \<Rightarrow> None
            | Some x \<Rightarrow> Some (scale10 (digits_val (remove_char (CHR ''_'') ip @ fd)) (x - int (length fd))))
         else None)"

definition parse_float :: "string \<Rightarrow> num_v option" where
  "parse_float s =
     (let (neg, t) = split_sign (strip s); l = lower t;
          v = (if l = ''inf'' \<or> l = ''infinity'' then Some PosInf
               else if l = ''nan'' then Some NaN else parse_decimal t)
      in if neg then map_option num_neg v else v)"

definition float_val :: "string \<Rightarrow> num_v" where
  "float_val s = (case parse_float s of None \<Rightarrow> NaN | Some v \<Rightarrow> v)"

text \<open>The exact numeric value, for \<open>==\<close>: Python compares an int with a float exactly.\<close>

fun num_of :: "pyval \<Rightarrow> num_v option" where
  "num_of (PBool b) = Some (Fin (if b then 1 else 0))"
| "num_of (PInt i) = Some (Fin (of_int i))"
| "num_of (PFloat s) = Some (float_val s)"
| "num_of _ = None"

definition num_same :: "num_v \<Rightarrow> pyval \<Rightarrow> bool" where
  "num_same x v = (case num_of v of None \<Rightarrow> False | Some y \<Rightarrow> num_eq x y)"

section \<open>Truth value and equality\<close>

fun truthy :: "pyval \<Rightarrow> bool" where
  "truthy PNone = False"
| "truthy (PBool b) = b"
| "truthy (PInt i) = (i \<noteq> 0)"
| "truthy (PFloat s) = (\<not> num_eq (float_val s) (Fin 0))"
| "truthy (PStr s) = (s \<noteq> [])"
| "truthy (PList xs) = (xs \<noteq> [])"
| "truthy (PTuple xs) = (xs \<noteq> [])"
| "truthy (PDict d) = (d \<noteq> [])"

text \<open>\<open>a or b\<close>\<close>

definition por :: "pyval \<Rightarrow> pyval \<Rightarrow> pyval" where
  "por a b = (if truthy a then a else b)"

fun py_eq :: "pyval \<Rightarrow> pyval \<Rightarrow> bool"
  and py_eq_list :: "pyval list \<Rightarrow> pyval list \<Rightarrow> bool"
  and py_eq_items :: "pydict \<Rightarrow> pydict \<Rightarrow> bool" where
  "py_eq PNone v = (v = PNone)"
| "py_eq (PBool b) v = num_same (Fin (if b then 1 else 0)) v"
| "py_eq (PInt i) v = num_same (Fin (of_int i)) v"
| "py_eq (PFloat s) v = num_same (float_val s) v"
| "py_eq (PStr s) v = (v = PStr s)"
| "py_eq (PList xs) v = (case v of PList ys \<Rightarrow> py_eq_list xs ys | _ \<Rightarrow> False)"
| "py_eq (PTuple xs) v = (case v of PTuple ys \<Rightarrow> py_eq_list xs ys | _ \<Rightarrow> False)"
| "py_eq (PDict d) v = (case v of PDict e \<Rightarrow> length d = length e \<and> py_eq_items d e | _ \<Rightarrow> False)"
| "py_eq_list [] ys = (ys = [])"
| "py_eq_list (x # xs) ys = (case ys of [] \<Rightarrow> False | y # ys' \<Rightarrow> py_eq x y \<and> py_eq_list xs ys')"
| "py_eq_items [] e = True"
| "py_eq_items ((k, v) # d) e =
     ((case dget e k of None \<Rightarrow> False | Some w \<Rightarrow> py_eq v w) \<and> py_eq_items d e)"

text \<open>\<open>v in xs\<close> for a list\<close>

definition py_in :: "pyval \<Rightarrow> pyval list \<Rightarrow> bool" where
  "py_in v xs = list_ex (\<lambda>x. py_eq x v) xs"

lemma py_eq_str_right [simp]: "py_eq v (PStr s) = (v = PStr s)"
  by (cases v) (auto simp: num_same_def)

lemma py_eq_none_right [simp]: "py_eq v PNone = (v = PNone)"
  by (cases v) (auto simp: num_same_def)

lemma py_in_str [simp]: "py_in (PStr s) xs = (PStr s \<in> set xs)"
  by (auto simp: py_in_def list_ex_iff)

section \<open>Text\<close>

definition hex_digit :: "int \<Rightarrow> char" where
  "hex_digit n = char_of (if n < 10 then 48 + n else 87 + n)"

definition repr_char :: "char \<Rightarrow> char \<Rightarrow> string" where
  "repr_char q c = (let n = code c; bs = char_of (92 :: nat) in
     if c = q \<or> n = 92 then [bs, c]
     else if n = 9 then [bs, CHR ''t''] else if n = 10 then [bs, CHR ''n'']
     else if n = 13 then [bs, CHR ''r'']
     else if n < 32 \<or> (127 \<le> n \<and> n \<le> 160) \<or> n = 173
       then [bs, CHR ''x'', hex_digit (n div 16), hex_digit (n mod 16)]
     else [c])"

definition repr_str :: "string \<Rightarrow> string" where
  "repr_str s = (let sq = char_of (39 :: nat); dq = char_of (34 :: nat);
       q = (if sq \<in> set s \<and> dq \<notin> set s then dq else sq)
     in q # concat (map (repr_char q) s) @ [q])"

fun py_repr :: "pyval \<Rightarrow> string"
  and py_repr_items :: "pydict \<Rightarrow> string list" where
  "py_repr PNone = ''None''"
| "py_repr (PBool b) = (if b then ''True'' else ''False'')"
| "py_repr (PInt i) = int_str i"
| "py_repr (PFloat s) = s"
| "py_repr (PStr s) = repr_str s"
| "py_repr (PList xs) = ''['' @ join '', '' (map py_repr xs) @ '']''"
| "py_repr (PTuple xs) = (case xs of [x] \<Rightarrow> ''('' @ py_repr x @ '',)''
     | _ \<Rightarrow> ''('' @ join '', '' (map py_repr xs) @ '')'')"
| "py_repr (PDict d) = ''{'' @ join '', '' (py_repr_items d) @ ''}''"
| "py_repr_items [] = []"
| "py_repr_items ((k, v) # d) = (repr_str k @ '': '' @ py_repr v) # py_repr_items d"

definition py_str :: "pyval \<Rightarrow> string" where
  "py_str v = (case v of PStr s \<Rightarrow> s | _ \<Rightarrow> py_repr v)"

lemma py_str_simps [simp]:
  "py_str (PStr s) = s" "py_str PNone = ''None''" "py_str (PInt i) = int_str i"
  "py_str (PBool b) = (if b then ''True'' else ''False'')"
  by (simp_all add: py_str_def)

definition opt_val :: "pyval option \<Rightarrow> pyval" where
  "opt_val v = (case v of None \<Rightarrow> PNone | Some x \<Rightarrow> x)"

text \<open>\<open>d.get(k)\<close>\<close>

abbreviation pget :: "pydict \<Rightarrow> string \<Rightarrow> pyval" where
  "pget d k \<equiv> opt_val (dget d k)"

lemma opt_val_simps [simp]: "opt_val None = PNone" "opt_val (Some v) = v"
  by (simp_all add: opt_val_def)

definition ostr_val :: "string option \<Rightarrow> pyval" where
  "ostr_val v = (case v of None \<Rightarrow> PNone | Some s \<Rightarrow> PStr s)"

lemma ostr_val_simps [simp]: "ostr_val None = PNone" "ostr_val (Some s) = PStr s"
  by (simp_all add: ostr_val_def)

text \<open>\<open>f"{x}"\<close> of an optional string, and \<open>x or y\<close> on strings\<close>

definition ostr_text :: "string option \<Rightarrow> string" where
  "ostr_text v = (case v of None \<Rightarrow> ''None'' | Some s \<Rightarrow> s)"

definition str_or :: "string option \<Rightarrow> string \<Rightarrow> string" where
  "str_or v d = (case v of None \<Rightarrow> d | Some s \<Rightarrow> if s = [] then d else s)"

lemma str_or_simps [simp]:
  "str_or None d = d" "str_or (Some s) d = (if s = [] then d else s)"
  by (simp_all add: str_or_def)

definition is_str :: "pyval \<Rightarrow> bool" where
  "is_str v = (case v of PStr _ \<Rightarrow> True | _ \<Rightarrow> False)"

definition is_list :: "pyval \<Rightarrow> bool" where
  "is_list v = (case v of PList _ \<Rightarrow> True | _ \<Rightarrow> False)"

definition is_dict :: "pyval \<Rightarrow> bool" where
  "is_dict v = (case v of PDict _ \<Rightarrow> True | _ \<Rightarrow> False)"

text \<open>The elements when the value is a list, none otherwise: \<open>isinstance(v, list)\<close> guards.\<close>

definition list_items :: "pyval \<Rightarrow> pyval list" where
  "list_items v = (case v of PList xs \<Rightarrow> xs | _ \<Rightarrow> [])"

section \<open>Conversions\<close>

fun type_name :: "pyval \<Rightarrow> string" where
  "type_name PNone = ''NoneType''" | "type_name (PBool _) = ''bool''"
| "type_name (PInt _) = ''int''" | "type_name (PFloat _) = ''float''"
| "type_name (PStr _) = ''str''" | "type_name (PList _) = ''list''"
| "type_name (PTuple _) = ''tuple''" | "type_name (PDict _) = ''dict''"

definition quoted :: "string \<Rightarrow> string" where
  "quoted s = [char_of (39 :: nat)] @ s @ [char_of (39 :: nat)]"

definition trunc_rat :: "rat \<Rightarrow> int" where
  "trunc_rat r = (if 0 \<le> r then \<lfloor>r\<rfloor> else \<lceil>r\<rceil>)"

definition py_int :: "pyval \<Rightarrow> int result" where
  "py_int v = (case v of
     PBool b \<Rightarrow> Inr (if b then 1 else 0)
   | PInt i \<Rightarrow> Inr i
   | PFloat s \<Rightarrow> (case float_val s of
        Fin r \<Rightarrow> Inr (trunc_rat r)
      | NaN \<Rightarrow> Inl (ValueError ''cannot convert float NaN to integer'')
      | _ \<Rightarrow> Inl (OverflowError ''cannot convert float infinity to integer''))
   | PStr s \<Rightarrow> (case parse_int s of Some i \<Rightarrow> Inr i
      | None \<Rightarrow> Inl (ValueError (''invalid literal for int() with base 10: '' @ repr_str s)))
   | _ \<Rightarrow> Inl (TypeError (''int() argument must be a string, a bytes-like object or a real number, not ''
            @ quoted (type_name v))))"

lemma py_int_int [simp]: "py_int (PInt i) = Inr i"
  by (simp add: py_int_def)

definition py_float :: "pyval \<Rightarrow> num_v result" where
  "py_float v = (case v of
     PBool b \<Rightarrow> Inr (Fin (if b then 1 else 0))
   | PInt i \<Rightarrow> (case double_of_int i of
        Fin r \<Rightarrow> Inr (Fin r)
      | _ \<Rightarrow> Inl (OverflowError ''int too large to convert to float''))
   | PFloat s \<Rightarrow> Inr (float_val s)
   | PStr s \<Rightarrow> (case parse_float s of Some x \<Rightarrow> Inr x
      | None \<Rightarrow> Inl (ValueError (''could not convert string to float: '' @ repr_str s)))
   | _ \<Rightarrow> Inl (TypeError (''float() argument must be a string or a real number, not ''
            @ quoted (type_name v))))"

lemma round_pos_small: "n \<le> 9007199254740992 \<Longrightarrow> round_pos n 1 = Fin (of_int n)"
  by (simp add: round_pos_def)

lemma double_of_int_exact: "\<bar>i\<bar> \<le> 9007199254740992 \<Longrightarrow> double_of_int i = Fin (of_int i)"
  by (auto simp: double_of_int_def round_pos_small)

lemma bitlen_bounds: "0 < n \<Longrightarrow> 2 ^ (bitlen n - 1) \<le> n \<and> n < 2 ^ bitlen n \<and> 0 < bitlen n"
proof (induction n rule: bitlen.induct)
  case (1 n)
  show ?case
  proof (cases "n = 1")
    case True
    then show ?thesis by (simp add: bitlen.simps)
  next
    case False
    with "1.prems" have "0 < n div 2" by simp
    with 1 have ih: "2 ^ (bitlen (n div 2) - 1) \<le> n div 2" "n div 2 < 2 ^ bitlen (n div 2)"
      "0 < bitlen (n div 2)" by auto
    then obtain k where k: "bitlen (n div 2) = Suc k" by (cases "bitlen (n div 2)") auto
    have "bitlen n = Suc (Suc k)" using "1.prems" k by (subst bitlen.simps) simp
    moreover from ih k have "2 * 2 ^ k \<le> n" "n < 4 * 2 ^ k" by simp_all
    ultimately show ?thesis by simp
  qed
qed

lemma half_even_ge: "0 < d \<Longrightarrow> n div d \<le> half_even n d"
  by (simp add: half_even_def Let_def)

lemma scaled_ge:
  fixes n :: int
  assumes "2 ^ k \<le> n" "e \<le> k"
  shows "2 ^ k \<le> half_even n (2 ^ e) * 2 ^ e"
proof -
  have "(2::int) ^ (k - e) = 2 ^ k div 2 ^ e"
    using assms(2) by (simp add: power_diff)
  also have "\<dots> \<le> n div 2 ^ e" using assms(1) by (rule zdiv_mono1) simp
  also have "\<dots> \<le> half_even n (2 ^ e)" by (rule half_even_ge) simp
  finally have "(2::int) ^ (k - e) * 2 ^ e \<le> half_even n (2 ^ e) * 2 ^ e" by simp
  moreover have "(2::int) ^ (k - e) * 2 ^ e = 2 ^ k" using assms(2) by (simp flip: power_add)
  ultimately show ?thesis by simp
qed

lemma round_pos_overflow:
  assumes n: "2 ^ 1024 \<le> n"
  shows "round_pos n 1 = PosInf"
proof -
  define K where "K = bitlen n - 1"
  have pos: "0 < n" using n by (rule less_le_trans [rotated]) simp
  note b = bitlen_bounds [OF pos]
  have "(2::int) ^ 1024 < 2 ^ bitlen n" using n b by (meson le_less_trans)
  then have len: "1024 < bitlen n" by (rule power_less_imp_less_exp [rotated]) simp
  then have K: "bitlen n = Suc K" "1024 \<le> K" by (auto simp: K_def)
  have low: "2 ^ K \<le> n" using b K by simp
  have b1: "bitlen 1 = 1" by (simp add: bitlen.simps)
  have big: "\<not> n \<le> 9007199254740992"
  proof -
    have "(9007199254740992 :: int) = 2 ^ 53" by simp
    also have "\<dots> < 2 ^ 1024" by (rule power_strict_increasing) simp_all
    finally show ?thesis using n by (meson le_less_trans not_less)
  qed
  have j: "nat (int K - 52) = K - 52" using K by simp
  have e: "max (int K - 52) (- 1074) = int (K - 52)" using K by simp
  have "2 ^ 1024 \<le> (2 :: int) ^ K" using K by (intro power_increasing) simp_all
  also have "\<dots> \<le> half_even n (2 ^ (K - 52)) * 2 ^ (K - 52)" by (rule scaled_ge [OF low]) simp
  finally have top: "2 ^ 1024 \<le> half_even n (2 ^ (K - 52)) * 2 ^ (K - 52)" .
  show ?thesis
    unfolding round_pos_def Let_def
    using pos big low b1 K e j top by (simp del: power_numeral power_numeral_even)
qed

lemma double_of_int_overflow: "2 ^ 1024 \<le> i \<Longrightarrow> double_of_int i = PosInf"
proof -
  assume i: "2 ^ 1024 \<le> i"
  have "(0::int) < 2 ^ 1024" by (rule zero_less_power) simp
  then have "\<not> i < 0" using i by (meson le_less_trans less_asym)
  then show ?thesis using round_pos_overflow [OF i] by (simp only: double_of_int_def if_False)
qed

lemma py_float_overflow:
  "2 ^ 1024 \<le> i \<Longrightarrow> py_float (PInt i) = Inl (OverflowError ''int too large to convert to float'')"
  unfolding py_float_def pyval.case double_of_int_overflow num_v.case ..

lemma py_float_int_exact: "\<bar>i\<bar> \<le> 9007199254740992 \<Longrightarrow> py_float (PInt i) = Inr (Fin (of_int i))"
  by (simp add: py_float_def double_of_int_exact)

text \<open>
  A hashable value can be a dictionary key. Using any other value as a key raises; a hashable
  non-string is never found, because the keys are strings.
\<close>

fun hashable :: "pyval \<Rightarrow> bool" where
  "hashable (PList _) = False"
| "hashable (PDict _) = False"
| "hashable (PTuple xs) = list_all hashable xs"
| "hashable _ = True"

definition get_by_value :: "pydict \<Rightarrow> pyval \<Rightarrow> pyval result" where
  "get_by_value d k = (case k of PStr s \<Rightarrow> Inr (pget d s)
     | _ \<Rightarrow> if hashable k then Inr PNone
            else Inl (TypeError (''unhashable type: '' @ quoted (type_name k))))"

lemma get_by_value_str [simp]: "get_by_value d (PStr s) = Inr (pget d s)"
  by (simp add: get_by_value_def)

section \<open>Reading digits\<close>

lemma length_nat_str: "0 \<le> n \<Longrightarrow> n < 10 ^ Suc k \<Longrightarrow> length (nat_str n) \<le> Suc k"
proof (induction k arbitrary: n)
  case 0
  then show ?case by (subst nat_str.simps) simp
next
  case (Suc k)
  show ?case
  proof (cases "n < 10")
    case False
    then have "length (nat_str (n div 10)) \<le> Suc k" using Suc.prems by (intro Suc.IH) auto
    then show ?thesis using False by (subst nat_str.simps) simp
  qed (subst nat_str.simps, simp)
qed

lemma length_nat_str_le: "0 \<le> n \<Longrightarrow> n < 10 ^ k \<Longrightarrow> 0 < k \<Longrightarrow> length (nat_str n) \<le> k"
  by (cases k) (simp_all only: length_nat_str less_irrefl)

lemma digit_no_underscore: "is_digit c \<Longrightarrow> c \<noteq> CHR ''_'' \<and> c \<noteq> CHR ''-'' \<and> c \<noteq> CHR ''+'' \<and> \<not> is_space c"
  by (auto simp: is_digit_def is_space_def code_def)

lemma digit_tail_digits: "\<forall>c \<in> set s. is_digit c \<Longrightarrow> digit_tail s"
  by (induction s) auto

lemma remove_char_absent: "c \<notin> set s \<Longrightarrow> remove_char c s = s"
  by (induction s) (auto simp: remove_char_def)

lemma parse_int_digits:
  assumes "s \<noteq> []" "\<forall>c \<in> set s. is_digit c"
  shows "parse_int s = (if length s \<le> 4300 then Some (digits_val s) else None)"
proof -
  have d: "\<And>c. c \<in> set s \<Longrightarrow> c \<noteq> CHR ''_'' \<and> c \<noteq> CHR ''-'' \<and> c \<noteq> CHR ''+'' \<and> \<not> is_space c"
    using assms(2) digit_no_underscore by blast
  then have "strip s = s" using assms(1) by (intro strip_id) auto
  moreover have "remove_char (CHR ''_'') s = s" using d by (intro remove_char_absent) blast
  moreover have "split_sign s = (False, s)"
    using d assms(1) by (cases s) (auto simp: split_sign_def)
  moreover have "digit_group s"
    using assms digit_tail_digits by (cases s) (auto simp: digit_group_def)
  ultimately show ?thesis by (simp add: parse_int_def group_val_def)
qed

end
