(* ===== verification/Modeling.thy ===== *)
theory Modeling
  imports PyValue
begin

text \<open>
  The authorization modelling language: \<open>keynetra/modeling/schema_parser.py\<close> (lines, tokens,
  recursive descent), \<open>model_validator.py\<close> and \<open>permission_compiler.py\<close>. The parser functions
  take the tokens from the current index on and return those that are left; the recursion is
  bounded by fuel, of which \<open>parse_permission\<close> supplies enough.
\<close>

section \<open>Expressions and schemas\<close>

datatype expr =
    IdentifierExpr string
  | NotExpr expr
  | AndExpr expr expr
  | OrExpr expr expr

record authorization_schema =
  sch_version :: int
  sch_types :: "string list"
  sch_relations :: "string list dict"
  sch_permissions :: "expr dict"
  sch_raw :: string

section \<open>Tokens\<close>

definition is_ident_start :: "char \<Rightarrow> bool" where
  "is_ident_start c = (let n = code c in
     (65 \<le> n \<and> n \<le> 90) \<or> (97 \<le> n \<and> n \<le> 122) \<or> n = 95)"

definition is_ident_char :: "char \<Rightarrow> bool" where
  "is_ident_char c = (is_ident_start c \<or> is_digit c \<or> code c = 58 \<or> code c = 45)"

text \<open>The characters of the class \<open>\w\<close> of Python's \<open>re\<close> below code point 256.\<close>

definition is_word :: "char \<Rightarrow> bool" where
  "is_word c = (let n = code c in is_ident_start c \<or> is_digit c \<or>
     n \<in> {170, 178, 179, 181, 185, 186, 188, 189, 190} \<or>
     (192 \<le> n \<and> n \<le> 255 \<and> n \<noteq> 215 \<and> n \<noteq> 247))"

text \<open>A keyword alternative \<open>kw\b\<close> of the token pattern.\<close>

definition match_word :: "string \<Rightarrow> string \<Rightarrow> (string \<times> string) option" where
  "match_word kw s =
     (if starts_with kw s \<and> (case drop (length kw) s of [] \<Rightarrow> True | c # _ \<Rightarrow> \<not> is_word c)
      then Some (kw, drop (length kw) s) else None)"

text \<open>The group of \<open>_TOKEN_RE\<close>, its alternatives in order.\<close>

definition match_token :: "string \<Rightarrow> (string \<times> string) option" where
  "match_token s = (case s of [] \<Rightarrow> None
     | c # cs \<Rightarrow>
        if c = CHR ''('' then Some (''('', cs)
        else if c = CHR '')'' then Some ('')'', cs)
        else case match_word ''and'' s of Some r \<Rightarrow> Some r
        | None \<Rightarrow> case match_word ''or'' s of Some r \<Rightarrow> Some r
        | None \<Rightarrow> case match_word ''not'' s of Some r \<Rightarrow> Some r
        | None \<Rightarrow> if is_ident_start c
                  then Some (c # takeWhile is_ident_char cs, dropWhile is_ident_char cs)
                  else None)"

lemma match_word_length: "kw \<noteq> [] \<Longrightarrow> match_word kw s = Some (t, r) \<Longrightarrow> length r < length s"
  by (cases kw; cases s) (auto simp: match_word_def starts_with_def split: if_splits)

lemma match_token_length: "match_token s = Some (t, r) \<Longrightarrow> length r < length s"
  by (auto simp: match_token_def le_imp_less_Suc length_dropWhile_le
      dest: match_word_length [rotated] split: list.splits if_splits option.splits)

text \<open>\<open>_TOKEN_RE.finditer\<close>: characters where no token starts are skipped.\<close>

function find_tokens :: "string \<Rightarrow> string list" where
  "find_tokens s = (case s of [] \<Rightarrow> []
     | c # cs \<Rightarrow> (case match_token (lstrip s) of
          Some (t, r) \<Rightarrow> t # find_tokens r
        | None \<Rightarrow> find_tokens cs))"
  by pat_completeness auto
termination
proof (relation "measure length")
  fix s :: string and c cs p t r
  assume "match_token (lstrip s) = Some p" "(t, r) = p"
  then have "length r < length (lstrip s)" by (auto dest: match_token_length)
  also have "\<dots> \<le> length s" by (simp add: lstrip_def length_dropWhile_le)
  finally show "(r, s) \<in> measure length" by simp
qed auto

declare find_tokens.simps [simp del]

definition tokenize :: "string \<Rightarrow> string list result" where
  "tokenize expr_text =
     (let tokens = find_tokens expr_text in
      if remove_char (CHR '' '') (concat tokens) \<noteq> remove_char (CHR '' '') expr_text
      then Inl (ValueError (''invalid permission expression: '' @ expr_text))
      else Inr tokens)"

section \<open>Recursive descent\<close>

definition out_of_fuel :: "'a result" where
  "out_of_fuel = Inl (RuntimeError ''maximum recursion depth exceeded'')"

function (sequential) parse_expr :: "nat \<Rightarrow> string list \<Rightarrow> (expr \<times> string list) result"
  and parse_or_tail :: "nat \<Rightarrow> expr \<Rightarrow> string list \<Rightarrow> (expr \<times> string list) result"
  and parse_term :: "nat \<Rightarrow> string list \<Rightarrow> (expr \<times> string list) result"
  and parse_and_tail :: "nat \<Rightarrow> expr \<Rightarrow> string list \<Rightarrow> (expr \<times> string list) result"
  and parse_factor :: "nat \<Rightarrow> string list \<Rightarrow> (expr \<times> string list) result" where
  "parse_expr 0 ts = out_of_fuel"
| "parse_expr (Suc n) ts = ebind (parse_term n ts) (\<lambda>(left, r). parse_or_tail n left r)"
| "parse_or_tail 0 left ts = out_of_fuel"
| "parse_or_tail (Suc n) left ts = (case ts of [] \<Rightarrow> Inr (left, ts)
     | t # ts' \<Rightarrow> if lower t = ''or''
         then ebind (parse_term n ts') (\<lambda>(right, r). parse_or_tail n (OrExpr left right) r)
         else Inr (left, ts))"
| "parse_term 0 ts = out_of_fuel"
| "parse_term (Suc n) ts = ebind (parse_factor n ts) (\<lambda>(left, r). parse_and_tail n left r)"
| "parse_and_tail 0 left ts = out_of_fuel"
| "parse_and_tail (Suc n) left ts = (case ts of [] \<Rightarrow> Inr (left, ts)
     | t # ts' \<Rightarrow> if lower t = ''and''
         then ebind (parse_factor n ts') (\<lambda>(right, r). parse_and_tail n (AndExpr left right) r)
         else Inr (left, ts))"
| "parse_factor 0 ts = out_of_fuel"
| "parse_factor (Suc n) ts = (case ts of
       [] \<Rightarrow> Inl (ValueError ''unexpected end of expression'')
     | token # ts' \<Rightarrow>
         if lower token = ''not'' then ebind (parse_factor n ts') (\<lambda>(v, r). Inr (NotExpr v, r))
         else if token = ''('' then
           ebind (parse_expr n ts') (\<lambda>(e, r). case r of
               [] \<Rightarrow> Inl (ValueError ''missing closing parenthesis'')
             | c # r' \<Rightarrow> if c \<noteq> '')'' then Inl (ValueError ''missing closing parenthesis'')
                        else Inr (e, r'))
         else if token = '')'' \<or> token = ''and'' \<or> token = ''or''
           then Inl (ValueError ''invalid expression'')
         else Inr (IdentifierExpr token, ts'))"
  by pat_completeness auto
termination
  by (relation "measure (\<lambda>x. case x of
        Inl (Inl (n, _)) \<Rightarrow> n | Inl (Inr (n, _, _)) \<Rightarrow> n | Inr (Inl (n, _)) \<Rightarrow> n
      | Inr (Inr (Inl (n, _, _))) \<Rightarrow> n | Inr (Inr (Inr (n, _))) \<Rightarrow> n)") auto

definition parse_fuel :: "string list \<Rightarrow> nat" where
  "parse_fuel ts = 4 * length ts + 4"

section \<open>Lines\<close>

definition parse_relation :: "string \<Rightarrow> (string \<times> string list) result" where
  "parse_relation line = (case split1 (CHR '':'') line of
     (_, None) \<Rightarrow> Inl (ValueError (''invalid relation: '' @ line))
   | (a, Some b) \<Rightarrow>
       (let name = strip a; subject_text = strip b in
        if name = [] then Inl (ValueError (''invalid relation: '' @ line))
        else if \<not> starts_with ''['' subject_text \<or> \<not> ends_with '']'' subject_text
          then Inl (ValueError (''invalid relation subjects: '' @ line))
        else
          (let subjects = filter (\<lambda>x. x \<noteq> [])
                 (map strip (split_char (CHR '','') (butlast (tl subject_text)))) in
           if subjects = [] then Inl (ValueError (''invalid relation subjects: '' @ line))
           else Inr (name, subjects))))"

definition parse_permission :: "string \<Rightarrow> (string \<times> expr) result" where
  "parse_permission line = (case split1 (CHR ''='') line of
     (_, None) \<Rightarrow> Inl (ValueError (''invalid permission: '' @ line))
   | (a, Some b) \<Rightarrow>
       (let name = strip a; expr_text = strip b in
        if name = [] \<or> expr_text = [] then Inl (ValueError (''invalid permission: '' @ line))
        else ebind (tokenize expr_text) (\<lambda>tokens.
          ebind (parse_expr (parse_fuel tokens) tokens) (\<lambda>(e, r).
            if r \<noteq> [] then Inl (ValueError (''invalid permission expression: '' @ line))
            else Inr (name, e)))))"

text \<open>\<open>re.fullmatch("model\s+schema\s+(\d+)", header, IGNORECASE)\<close>: the digits.\<close>

definition header_version :: "string \<Rightarrow> string option" where
  "header_version h =
     (let a = drop 5 h; b = lstrip a; c = drop 6 b; d = lstrip c in
      if lower (take 5 h) = ''model'' \<and> b \<noteq> a \<and> lower (take 6 b) = ''schema'' \<and> d \<noteq> c
         \<and> d \<noteq> [] \<and> list_all is_digit d
      then Some d else None)"

text \<open>\<open>line.split(None, 1)[1].strip()\<close>: the text after the first word.\<close>

definition after_first_word :: "string \<Rightarrow> string" where
  "after_first_word s = strip (dropWhile (\<lambda>c. \<not> is_space c) (lstrip s))"

fun parse_lines :: "authorization_schema \<Rightarrow> string option \<Rightarrow> string list \<Rightarrow> authorization_schema result"
where
  "parse_lines sch section [] = Inr sch"
| "parse_lines sch section (line # lines) =
     (let lowered = lower line in
      if lowered = ''relations'' \<or> lowered = ''permissions'' then parse_lines sch (Some lowered) lines
      else if starts_with ''type '' lowered then
        parse_lines (sch\<lparr>sch_types := sch_types sch @ [after_first_word line]\<rparr>) section lines
      else if section = Some ''relations'' then
        ebind (parse_relation line) (\<lambda>(name, subjects).
          parse_lines (sch\<lparr>sch_relations := dset (sch_relations sch) name subjects\<rparr>) section lines)
      else if section = Some ''permissions'' then
        ebind (parse_permission line) (\<lambda>(name, e).
          parse_lines (sch\<lparr>sch_permissions := dset (sch_permissions sch) name e\<rparr>) section lines)
      else Inl (ValueError (''unexpected schema line: '' @ line)))"

definition schema_lines :: "string \<Rightarrow> string list" where
  "schema_lines text =
     filter (\<lambda>l. l \<noteq> []) (map (\<lambda>line. strip (fst (split1 (CHR ''#'') line))) (splitlines text))"

definition parse_authorization_schema :: "string \<Rightarrow> authorization_schema result" where
  "parse_authorization_schema schema_text = (case schema_lines schema_text of
     [] \<Rightarrow> Inl (ValueError ''schema is empty'')
   | header # lines \<Rightarrow> (case header_version header of
       None \<Rightarrow> Inl (ValueError (''schema must start with '' @ quoted ''model schema <version>''))
     | Some v \<Rightarrow> ebind (py_int (PStr v)) (\<lambda>version.
         parse_lines \<lparr>sch_version = version, sch_types = [], sch_relations = [],
                      sch_permissions = [], sch_raw = schema_text\<rparr> None lines)))"

section \<open>Validation\<close>

fun validate_expr :: "expr \<Rightarrow> authorization_schema \<Rightarrow> unit result" where
  "validate_expr (IdentifierExpr name) sch =
     (if dget (sch_relations sch) name = None \<and> dget (sch_permissions sch) name = None
      then Inl (ValueError (''unknown relation or permission '' @ name)) else Inr ())"
| "validate_expr (NotExpr e) sch = validate_expr e sch"
| "validate_expr (AndExpr a b) sch = ebind (validate_expr a sch) (\<lambda>_. validate_expr b sch)"
| "validate_expr (OrExpr a b) sch = ebind (validate_expr a sch) (\<lambda>_. validate_expr b sch)"

fun validate_subjects :: "string \<Rightarrow> string list \<Rightarrow> string list \<Rightarrow> unit result" where
  "validate_subjects relation types [] = Inr ()"
| "validate_subjects relation types (s # ss) =
     (if s \<notin> set types
      then Inl (ValueError (''relation '' @ relation @ '' references unknown type '' @ s))
      else validate_subjects relation types ss)"

fun validate_relations :: "string list dict \<Rightarrow> string list \<Rightarrow> unit result" where
  "validate_relations [] types = Inr ()"
| "validate_relations ((relation, subjects) # rs) types =
     (if relation = [] then Inl (ValueError ''relation names must be non-empty'')
      else ebind (validate_subjects relation types subjects) (\<lambda>_. validate_relations rs types))"

fun validate_permissions :: "expr dict \<Rightarrow> authorization_schema \<Rightarrow> unit result" where
  "validate_permissions [] sch = Inr ()"
| "validate_permissions ((permission, e) # ps) sch =
     (if permission = [] then Inl (ValueError ''permission names must be non-empty'')
      else ebind (validate_expr e sch) (\<lambda>_. validate_permissions ps sch))"

definition validate_authorization_schema :: "authorization_schema \<Rightarrow> unit result" where
  "validate_authorization_schema sch =
     (if sch_version sch < 1 then Inl (ValueError ''schema version must be >= 1'')
      else if sch_types sch = [] then Inl (ValueError ''schema must define at least one type'')
      else if ''user'' \<notin> set (sch_types sch) then Inl (ValueError ''schema must define type user'')
      else if sch_permissions sch = [] then Inl (ValueError ''schema must define permissions'')
      else ebind (validate_relations (sch_relations sch) (sch_types sch))
        (\<lambda>_. validate_permissions (sch_permissions sch) sch))"

section \<open>Compilation\<close>

record compiled_permission =
  cp_name :: string
  cp_expression :: expr

record compiled_model =
  cm_version :: int
  cm_types :: "string list"
  cm_relations :: "string list dict"
  cm_permissions :: "compiled_permission dict"
  cm_raw :: string

definition compile_schema :: "authorization_schema \<Rightarrow> compiled_model result" where
  "compile_schema sch = ebind (validate_authorization_schema sch) (\<lambda>_.
     Inr \<lparr>cm_version = sch_version sch, cm_types = sch_types sch, cm_relations = sch_relations sch,
          cm_permissions = map (\<lambda>(name, e). (name, \<lparr>cp_name = name, cp_expression = e\<rparr>))
                               (sch_permissions sch),
          cm_raw = sch_raw sch\<rparr>)"

definition compile_authorization_schema :: "string \<Rightarrow> compiled_model result" where
  "compile_authorization_schema text = ebind (parse_authorization_schema text) compile_schema"

fun expr_to_dict :: "expr \<Rightarrow> pyval" where
  "expr_to_dict (IdentifierExpr name) = PDict [(''kind'', PStr ''identifier''), (''name'', PStr name)]"
| "expr_to_dict (NotExpr e) = PDict [(''kind'', PStr ''not''), (''value'', expr_to_dict e)]"
| "expr_to_dict (AndExpr a b) =
     PDict [(''kind'', PStr ''and''), (''left'', expr_to_dict a), (''right'', expr_to_dict b)]"
| "expr_to_dict (OrExpr a b) =
     PDict [(''kind'', PStr ''or''), (''left'', expr_to_dict a), (''right'', expr_to_dict b)]"

definition model_to_dict :: "compiled_model \<Rightarrow> pydict" where
  "model_to_dict m =
     [(''version'', PInt (cm_version m)),
      (''types'', PList (map PStr (cm_types m))),
      (''relations'', PDict (map (\<lambda>(n, ss). (n, PList (map PStr ss))) (cm_relations m))),
      (''permissions'', PDict (map (\<lambda>(n, p). (n, expr_to_dict (cp_expression p))) (cm_permissions m))),
      (''raw'', PStr (cm_raw m))]"

section \<open>The parser: progress and enough fuel\<close>

text \<open>
  Every successful call leaves fewer tokens, so four units of fuel per token suffice: the bound
  never decides the result.
\<close>


lemmas parse_induct = parse_expr_parse_or_tail_parse_term_parse_and_tail_parse_factor.induct

lemma parse_consumes:
  "parse_expr n ts = Inr (e, r) \<Longrightarrow> length r < length ts"
  "parse_or_tail n l ts = Inr (e, r) \<Longrightarrow> length r \<le> length ts"
  "parse_term n ts = Inr (e, r) \<Longrightarrow> length r < length ts"
  "parse_and_tail n l ts = Inr (e, r) \<Longrightarrow> length r \<le> length ts"
  "parse_factor n ts = Inr (e, r) \<Longrightarrow> length r < length ts"
proof (induction n ts and n l ts and n ts and n l ts and n ts arbitrary: e r and e r and e r and e r and e r
    rule: parse_induct)
  case (2 n ts)
  then show ?case by (auto simp: ebind_eq_Inr) (meson le_less_trans)
next
  case (4 n left ts)
  then show ?case by (cases ts) (fastforce simp: ebind_eq_Inr split: if_splits)+
next
  case (6 n ts)
  then show ?case by (auto simp: ebind_eq_Inr) (meson le_less_trans)
next
  case (8 n left ts)
  then show ?case by (cases ts) (fastforce simp: ebind_eq_Inr split: if_splits)+
next
  case (10 n ts)
  show ?case
  proof (cases ts)
    case (Cons t ts')
    consider "lower t = ''not''" | "lower t \<noteq> ''not''" "t = ''(''" | "lower t \<noteq> ''not''" "t \<noteq> ''(''"
      by blast
    then show ?thesis
    proof cases
      case 1
      with "10.prems" Cons obtain v where "parse_factor n ts' = Inr (v, r)"
        by (auto simp: ebind_eq_Inr)
      with "10.IH"(1) [OF Cons 1] Cons show ?thesis by fastforce
    next
      case 2
      with "10.prems" Cons obtain v c where "parse_expr n ts' = Inr (v, c # r)"
        by (cases "parse_expr n ts'") (auto split: list.splits if_splits)
      with "10.IH"(2) [OF Cons 2] Cons show ?thesis by fastforce
    next
      case 3
      with "10.prems" Cons show ?thesis by (auto split: if_splits)
    qed
  qed (use "10.prems" in simp)
qed (simp_all add: out_of_fuel_def)

lemma parse_enough_fuel:
  "4 * length ts + 3 \<le> n \<Longrightarrow> parse_expr n ts \<noteq> out_of_fuel"
  "4 * length ts + 1 \<le> n \<Longrightarrow> parse_or_tail n l ts \<noteq> out_of_fuel"
  "4 * length ts + 2 \<le> n \<Longrightarrow> parse_term n ts \<noteq> out_of_fuel"
  "4 * length ts + 1 \<le> n \<Longrightarrow> parse_and_tail n l ts \<noteq> out_of_fuel"
  "4 * length ts + 1 \<le> n \<Longrightarrow> parse_factor n ts \<noteq> out_of_fuel"
proof (induction n ts and n l ts and n ts and n l ts and n ts rule: parse_induct)
  case (2 n ts)
  show ?case
  proof (cases "parse_term n ts")
    case (Inr x)
    then have "length (snd x) < length ts" using parse_consumes(3) [of n ts "fst x" "snd x"] by simp
    with 2 Inr show ?thesis by (cases x) simp
  qed (use 2 in \<open>simp add: out_of_fuel_def\<close>)
next
  case (4 n left ts)
  show ?case
  proof (cases ts)
    case (Cons t ts')
    show ?thesis
    proof (cases "parse_term n ts'")
      case (Inr x)
      then have "length (snd x) < length ts'"
        using parse_consumes(3) [of n ts' "fst x" "snd x"] by simp
      with 4 Cons Inr show ?thesis by (cases x) (simp add: out_of_fuel_def)
    qed (use 4 Cons in \<open>simp add: out_of_fuel_def\<close>)
  qed (simp add: out_of_fuel_def)
next
  case (6 n ts)
  show ?case
  proof (cases "parse_factor n ts")
    case (Inr x)
    then have "length (snd x) < length ts" using parse_consumes(5) [of n ts "fst x" "snd x"] by simp
    with 6 Inr show ?thesis by (cases x) simp
  qed (use 6 in \<open>simp add: out_of_fuel_def\<close>)
next
  case (8 n left ts)
  show ?case
  proof (cases ts)
    case (Cons t ts')
    show ?thesis
    proof (cases "parse_factor n ts'")
      case (Inr x)
      then have "length (snd x) < length ts'"
        using parse_consumes(5) [of n ts' "fst x" "snd x"] by simp
      with 8 Cons Inr show ?thesis by (cases x) (simp add: out_of_fuel_def)
    qed (use 8 Cons in \<open>simp add: out_of_fuel_def\<close>)
  qed (simp add: out_of_fuel_def)
next
  case (10 n ts)
  show ?case
  proof (cases ts)
    case (Cons t ts')
    consider "lower t = ''not''" | "lower t \<noteq> ''not''" "t = ''(''" | "lower t \<noteq> ''not''" "t \<noteq> ''(''"
      by blast
    then show ?thesis
    proof cases
      case 1
      with "10.prems" "10.IH"(1) [OF Cons 1] Cons show ?thesis
        by (auto simp: out_of_fuel_def ebind_eq_Inl)
    next
      case 2
      with "10.prems" "10.IH"(2) [OF Cons 2] Cons show ?thesis
        by (auto simp: out_of_fuel_def ebind_eq_Inl split: list.splits if_splits)
    next
      case 3
      with Cons show ?thesis by (auto simp: out_of_fuel_def)
    qed
  qed (simp add: out_of_fuel_def)
qed simp_all

text \<open>
  C39. The recursive descent parser always answers: with the fuel that \<open>parse_permission\<close> hands
  it, \<open>_parse_expr\<close> never runs out, on any token list, well formed or not.
\<close>

theorem parse_expr_total: "parse_expr (parse_fuel ts) ts \<noteq> out_of_fuel"
  by (rule parse_enough_fuel) (simp add: parse_fuel_def)

section \<open>Printing and parsing\<close>

text \<open>
  \<open>pp\<close> prints an expression as tokens with exactly the parentheses that precedence (\<open>not\<close> over
  \<open>and\<close> over \<open>or\<close>) and left associativity require.
\<close>


datatype level = LExpr | LTerm | LFactor

fun pp :: "level \<Rightarrow> expr \<Rightarrow> string list" where
  "pp lvl (IdentifierExpr x) = [x]"
| "pp lvl (NotExpr e) = ''not'' # pp LFactor e"
| "pp lvl (AndExpr a b) =
     (let ts = pp LTerm a @ ''and'' # pp LFactor b in if lvl = LFactor then ''('' # ts @ ['')''] else ts)"
| "pp lvl (OrExpr a b) =
     (let ts = pp LExpr a @ ''or'' # pp LTerm b in if lvl \<noteq> LExpr then ''('' # ts @ ['')''] else ts)"

definition ident_ok :: "string \<Rightarrow> bool" where
  "ident_ok x = (x \<noteq> [] \<and> is_ident_start (hd x) \<and> list_all is_ident_char (tl x)
     \<and> lower x \<notin> {''not'', ''and'', ''or''})"

definition stops :: "string \<Rightarrow> string list \<Rightarrow> bool" where
  "stops kw rest = (case rest of [] \<Rightarrow> True | t # _ \<Rightarrow> lower t \<noteq> kw)"

lemma lower_eval [str_simps]: "lower [] = []" "lower (c # s) = lower_char c # lower s"
  by (simp_all add: lower_def)

lemma lower_kw [simp]:
  "lower ''not'' = ''not''" "lower ''and'' = ''and''" "lower ''or'' = ''or''"
  "lower ''('' = ''(''" "lower '')'' = '')''"
  by code_simp+

lemma ident_not_reserved:
  "ident_ok x \<Longrightarrow> x \<notin> {''not'', ''and'', ''or'', ''('', '')''} \<and> lower x \<noteq> ''not''"
  by (auto simp: ident_ok_def is_ident_start_def code_def)

lemma parse_factor_ident [simp]:
  "ident_ok x \<Longrightarrow> parse_factor (Suc n) (x # ts) = Inr (IdentifierExpr x, ts)"
  using ident_not_reserved [of x] by auto

lemma and_tail_stop: "stops ''and'' rest \<Longrightarrow> parse_and_tail (Suc m) e rest = Inr (e, rest)"
  by (cases rest) (auto simp: stops_def)

lemma or_tail_stop: "stops ''or'' rest \<Longrightarrow> parse_or_tail (Suc m) e rest = Inr (e, rest)"
  by (cases rest) (auto simp: stops_def)

definition factor_ok :: "expr \<Rightarrow> bool" where
  "factor_ok e = (\<forall>rest n. 4 * length (pp LFactor e @ rest) + 1 \<le> n \<longrightarrow>
     parse_factor n (pp LFactor e @ rest) = Inr (e, rest))"

definition term_ok :: "expr \<Rightarrow> bool" where
  "term_ok e = (\<forall>rest n. 4 * length (pp LTerm e @ rest) + 2 \<le> n \<longrightarrow>
     (\<exists>m \<ge> 4 * length rest. parse_term n (pp LTerm e @ rest) = parse_and_tail (Suc m) e rest))"

definition expr_ok :: "expr \<Rightarrow> bool" where
  "expr_ok e = (\<forall>rest n. stops ''and'' rest \<longrightarrow> 4 * length (pp LExpr e @ rest) + 3 \<le> n \<longrightarrow>
     (\<exists>m \<ge> 4 * length rest. parse_expr n (pp LExpr e @ rest) = parse_or_tail (Suc m) e rest))"

lemma pp_nonempty [simp]: "pp lvl e \<noteq> []"
  by (cases e) (auto simp: Let_def)

lemma pp_length [simp]: "0 < length (pp lvl e)"
  by simp

lemma term_of_factor: "factor_ok e \<Longrightarrow> pp LTerm e = pp LFactor e \<Longrightarrow> term_ok e"
  unfolding term_ok_def
proof (intro allI impI)
  fix rest n
  assume f: "factor_ok e" and eq: "pp LTerm e = pp LFactor e" and n: "4 * length (pp LTerm e @ rest) + 2 \<le> n"
  obtain k where k: "n = Suc (Suc k)" using n by (cases n; cases "n - 1") auto
  have "parse_factor (Suc k) (pp LFactor e @ rest) = Inr (e, rest)"
    using f n k eq unfolding factor_ok_def by (simp del: parse_factor.simps)
  moreover have "4 * length rest \<le> k" using n k pp_length [of LTerm e] by simp
  ultimately show "\<exists>m \<ge> 4 * length rest. parse_term n (pp LTerm e @ rest) = parse_and_tail (Suc m) e rest"
    using k eq by (intro exI [of _ k]) (simp del: parse_factor.simps parse_and_tail.simps)
qed

lemma expr_of_term: "term_ok e \<Longrightarrow> pp LExpr e = pp LTerm e \<Longrightarrow> expr_ok e"
  unfolding expr_ok_def
proof (intro allI impI)
  fix rest n
  assume t: "term_ok e" and eq: "pp LExpr e = pp LTerm e" and st: "stops ''and'' rest"
    and n: "4 * length (pp LExpr e @ rest) + 3 \<le> n"
  obtain k where k: "n = Suc (Suc k)" using n by (cases n; cases "n - 1") auto
  have "4 * length (pp LTerm e @ rest) + 2 \<le> Suc k" using n k eq by simp
  then obtain m where "parse_term (Suc k) (pp LTerm e @ rest) = parse_and_tail (Suc m) e rest"
    using t unfolding term_ok_def by blast
  with st have "parse_term (Suc k) (pp LTerm e @ rest) = Inr (e, rest)" by (simp only: and_tail_stop)
  moreover have "4 * length rest \<le> k" using n k pp_length [of LExpr e] by simp
  ultimately show "\<exists>m \<ge> 4 * length rest. parse_expr n (pp LExpr e @ rest) = parse_or_tail (Suc m) e rest"
    using k eq by (intro exI [of _ k]) (simp del: parse_term.simps parse_or_tail.simps)
qed

lemma factor_of_expr:
  "expr_ok e \<Longrightarrow> pp LFactor e = ''('' # pp LExpr e @ ['')''] \<Longrightarrow> factor_ok e"
  unfolding factor_ok_def
proof (intro allI impI)
  fix rest n
  assume x: "expr_ok e" and eq: "pp LFactor e = ''('' # pp LExpr e @ ['')'']"
    and n: "4 * length (pp LFactor e @ rest) + 1 \<le> n"
  obtain k where k: "n = Suc k" using n by (cases n) auto
  have "stops ''and'' ('')'' # rest)" "stops ''or'' ('')'' # rest)" by (simp_all add: stops_def)
  moreover have "4 * length (pp LExpr e @ '')'' # rest) + 3 \<le> k" using n k eq by simp
  then obtain m where "parse_expr k (pp LExpr e @ '')'' # rest) = parse_or_tail (Suc m) e ('')'' # rest)"
    using x calculation(1) unfolding expr_ok_def by blast
  ultimately have "parse_expr k (pp LExpr e @ '')'' # rest) = Inr (e, '')'' # rest)"
    by (simp only: or_tail_stop)
  with k eq show "parse_factor n (pp LFactor e @ rest) = Inr (e, rest)"
    by (simp del: parse_expr.simps)
qed

lemma pp_levels:
  "pp LExpr (AndExpr a b) = pp LTerm (AndExpr a b)"
  "pp LFactor (AndExpr a b) = ''('' # pp LExpr (AndExpr a b) @ ['')'']"
  "pp LTerm (OrExpr a b) = pp LFactor (OrExpr a b)"
  "pp LFactor (OrExpr a b) = ''('' # pp LExpr (OrExpr a b) @ ['')'']"
  by (simp_all add: Let_def)

fun idents :: "expr \<Rightarrow> string list" where
  "idents (IdentifierExpr x) = [x]"
| "idents (NotExpr e) = idents e"
| "idents (AndExpr a b) = idents a @ idents b"
| "idents (OrExpr a b) = idents a @ idents b"

lemma term_ok_and: "term_ok a \<Longrightarrow> factor_ok b \<Longrightarrow> term_ok (AndExpr a b)"
  unfolding term_ok_def
proof (intro allI impI)
  fix rest n
  let ?r = "''and'' # pp LFactor b @ rest"
  assume a: "\<forall>rest n. 4 * length (pp LTerm a @ rest) + 2 \<le> n \<longrightarrow>
      (\<exists>m \<ge> 4 * length rest. parse_term n (pp LTerm a @ rest) = parse_and_tail (Suc m) a rest)"
    and b: "factor_ok b" and n: "4 * length (pp LTerm (AndExpr a b) @ rest) + 2 \<le> n"
  have "4 * length (pp LTerm a @ ?r) + 2 \<le> n" using n by simp
  then obtain m where m: "4 * length ?r \<le> m"
    "parse_term n (pp LTerm a @ ?r) = parse_and_tail (Suc m) a ?r" using a by blast
  then obtain k where k: "m = Suc k" by (cases m) auto
  have "parse_factor m (pp LFactor b @ rest) = Inr (b, rest)"
    using b m(1) unfolding factor_ok_def by (simp del: parse_factor.simps)
  then have "parse_and_tail (Suc m) a ?r = parse_and_tail m (AndExpr a b) rest"
    by (simp del: parse_factor.simps)
  with m k show "\<exists>m \<ge> 4 * length rest.
      parse_term n (pp LTerm (AndExpr a b) @ rest) = parse_and_tail (Suc m) (AndExpr a b) rest"
    by (intro exI [of _ k]) (simp del: parse_term.simps parse_and_tail.simps)
qed

lemma expr_ok_or: "expr_ok a \<Longrightarrow> term_ok b \<Longrightarrow> expr_ok (OrExpr a b)"
  unfolding expr_ok_def
proof (intro allI impI)
  fix rest n
  let ?r = "''or'' # pp LTerm b @ rest"
  assume a: "\<forall>rest n. stops ''and'' rest \<longrightarrow> 4 * length (pp LExpr a @ rest) + 3 \<le> n \<longrightarrow>
      (\<exists>m \<ge> 4 * length rest. parse_expr n (pp LExpr a @ rest) = parse_or_tail (Suc m) a rest)"
    and b: "term_ok b" and st: "stops ''and'' rest"
    and n: "4 * length (pp LExpr (OrExpr a b) @ rest) + 3 \<le> n"
  have "4 * length (pp LExpr a @ ?r) + 3 \<le> n" "stops ''and'' ?r"
    using n by (simp_all add: stops_def)
  then obtain m where m: "4 * length ?r \<le> m"
    "parse_expr n (pp LExpr a @ ?r) = parse_or_tail (Suc m) a ?r" using a by blast
  then obtain k where k: "m = Suc k" by (cases m) auto
  have "4 * length (pp LTerm b @ rest) + 2 \<le> m" using m(1) by simp
  then obtain j where "parse_term m (pp LTerm b @ rest) = parse_and_tail (Suc j) b rest"
    using b unfolding term_ok_def by blast
  with st have "parse_term m (pp LTerm b @ rest) = Inr (b, rest)" by (simp only: and_tail_stop)
  then have "parse_or_tail (Suc m) a ?r = parse_or_tail m (OrExpr a b) rest"
    by (simp del: parse_term.simps)
  with m k show "\<exists>m \<ge> 4 * length rest.
      parse_expr n (pp LExpr (OrExpr a b) @ rest) = parse_or_tail (Suc m) (OrExpr a b) rest"
    by (intro exI [of _ k]) (simp del: parse_expr.simps parse_or_tail.simps)
qed

lemma factor_ok_not: "factor_ok e \<Longrightarrow> factor_ok (NotExpr e)"
  unfolding factor_ok_def
proof (intro allI impI)
  fix rest n
  assume e: "\<forall>rest n. 4 * length (pp LFactor e @ rest) + 1 \<le> n \<longrightarrow>
      parse_factor n (pp LFactor e @ rest) = Inr (e, rest)"
    and n: "4 * length (pp LFactor (NotExpr e) @ rest) + 1 \<le> n"
  obtain k where k: "n = Suc k" using n by (cases n) auto
  have "parse_factor k (pp LFactor e @ rest) = Inr (e, rest)" using e n k by simp
  with k show "parse_factor n (pp LFactor (NotExpr e) @ rest) = Inr (NotExpr e, rest)" by simp
qed

lemma factor_ok_ident: "ident_ok x \<Longrightarrow> factor_ok (IdentifierExpr x)"
  unfolding factor_ok_def
proof (intro allI impI)
  fix rest n
  assume "ident_ok x" "4 * length (pp LFactor (IdentifierExpr x) @ rest) + 1 \<le> n"
  then show "parse_factor n (pp LFactor (IdentifierExpr x) @ rest) = Inr (IdentifierExpr x, rest)"
    by (cases n) (simp_all del: parse_factor.simps)
qed

lemma pp_parses:
  "list_all ident_ok (idents e) \<Longrightarrow> factor_ok e \<and> term_ok e \<and> expr_ok e"
proof (induction e)
  case (IdentifierExpr x)
  then show ?case
    by (simp add: factor_ok_ident term_of_factor expr_of_term)
next
  case (NotExpr e)
  then show ?case
    by (simp add: factor_ok_not term_of_factor expr_of_term)
next
  case (AndExpr a b)
  then have "term_ok (AndExpr a b)" by (simp add: term_ok_and)
  then show ?case by (metis expr_of_term factor_of_expr pp_levels)
next
  case (OrExpr a b)
  then have "expr_ok (OrExpr a b)" by (simp add: expr_ok_or)
  then show ?case by (metis term_of_factor factor_of_expr pp_levels)
qed

section \<open>From tokens to text\<close>


definition plain_ident :: "string \<Rightarrow> bool" where
  "plain_ident x = (ident_ok x \<and> match_word ''and'' x = None \<and> match_word ''or'' x = None
     \<and> match_word ''not'' x = None)"

definition good_token :: "string \<Rightarrow> bool" where
  "good_token t = (t \<in> {''('', '')'', ''and'', ''or'', ''not''} \<or> plain_ident t)"

definition at_gap :: "string \<Rightarrow> bool" where
  "at_gap rest = (rest = [] \<or> hd rest = CHR '' '')"

lemma space_class [simp]:
  "is_space (CHR '' '')" "\<not> is_ident_char (CHR '' '')" "\<not> is_word (CHR '' '')"
  by code_simp+

lemma starts_with_append [simp]: "starts_with p (p @ s)"
  by (simp add: starts_with_def)

lemma match_word_gap:
  assumes none: "match_word kw x = None" and gap: "at_gap rest" and kw: "CHR '' '' \<notin> set kw"
  shows "match_word kw (x @ rest) = None"
proof (cases "starts_with kw (x @ rest)")
  case True
  show ?thesis
  proof (cases "length kw \<le> length x")
    case le: True
    then have "starts_with kw x" "drop (length kw) x \<noteq> []"
      using True none by (auto simp: match_word_def starts_with_def split: if_splits list.splits)
    then show ?thesis
      using none le by (auto simp: match_word_def starts_with_def split: if_splits list.splits)
  next
    case False
    then have "kw = x @ take (length kw - length x) rest" "rest \<noteq> []"
      using True by (auto simp: starts_with_def)
    then have "hd rest \<in> set kw"
      using False by (cases rest) (auto simp: take_Cons', metis in_set_conv_decomp)
    with gap kw \<open>rest \<noteq> []\<close> show ?thesis by (simp add: at_gap_def)
  qed
qed (simp add: match_word_def)

lemma match_word_self: "at_gap rest \<Longrightarrow> match_word kw (kw @ rest) = Some (kw, rest)"
  by (cases rest) (auto simp: match_word_def at_gap_def starts_with_def)

lemma match_token_good:
  assumes "good_token t" "at_gap rest"
  shows "match_token (t @ rest) = Some (t, rest)"
proof -
  have self: "match_word ''and'' (''and'' @ rest) = Some (''and'', rest)"
    "match_word ''or'' (''or'' @ rest) = Some (''or'', rest)"
    "match_word ''not'' (''not'' @ rest) = Some (''not'', rest)"
    using assms(2) by (rule match_word_self)+
  have o: "match_word ''and'' (''or'' @ rest) = None" "match_word ''and'' (''not'' @ rest) = None"
    "match_word ''or'' (''not'' @ rest) = None"
    by (simp_all add: match_word_def starts_with_def)
  consider "t = ''(''" | "t = '')''" | "t = ''and''" | "t = ''or''" | "t = ''not''" | "plain_ident t"
    using assms(1) by (auto simp: good_token_def)
  then show ?thesis
  proof cases
    case 6
    then obtain c cs where t: "t = c # cs" "is_ident_start c" "list_all is_ident_char cs"
      by (cases t) (auto simp: plain_ident_def ident_ok_def)
    have "match_word kw (t @ rest) = None" if "kw \<in> {''and'', ''or'', ''not''}" for kw
      using that 6 assms(2) by (intro match_word_gap) (auto simp: plain_ident_def)
    moreover have "takeWhile is_ident_char (cs @ rest) = cs" "dropWhile is_ident_char (cs @ rest) = rest"
      using t(3) assms(2) by (cases rest; auto simp: list_all_iff at_gap_def takeWhile_append2 dropWhile_append2)+
    moreover have "c \<noteq> CHR ''(''" "c \<noteq> CHR '')''"
      using t(2) by (auto simp: is_ident_start_def code_def)
    ultimately show ?thesis using t by (simp add: match_token_def)
  qed (use self o in \<open>simp_all add: match_token_def\<close>)
qed

lemma ident_char_not_space: "is_ident_char c \<Longrightarrow> \<not> is_space c"
  by (auto simp: is_ident_char_def is_ident_start_def is_digit_def is_space_def Let_def)

lemma plain_ident_no_space: "plain_ident t \<Longrightarrow> \<forall>c \<in> set t. \<not> is_space c"
  by (cases t) (auto simp: plain_ident_def ident_ok_def list_all_iff ident_char_not_space
      is_ident_char_def intro!: ident_char_not_space)

lemma good_token_no_space: "good_token t \<Longrightarrow> t \<noteq> [] \<and> (\<forall>c \<in> set t. \<not> is_space c)"
  unfolding good_token_def
proof (elim disjE)
  assume "t \<in> {''('', '')'', ''and'', ''or'', ''not''}"
  then show ?thesis by (auto simp: is_space_def code_def)
qed (auto simp: plain_ident_no_space, simp add: plain_ident_def ident_ok_def)

lemma good_token_head: "good_token t \<Longrightarrow> \<exists>c cs. t = c # cs \<and> \<not> is_space c"
  using good_token_no_space by (cases t) auto

lemma find_tokens_good:
  assumes "good_token t" "at_gap rest"
  shows "find_tokens (t @ rest) = t # find_tokens rest"
    and "find_tokens (CHR '' '' # t @ rest) = t # find_tokens rest"
proof -
  obtain c cs where t: "t = c # cs" "\<not> is_space c" using good_token_head [OF assms(1)] by blast
  then have "lstrip (t @ rest) = t @ rest" "lstrip (CHR '' '' # t @ rest) = t @ rest"
    by (simp_all add: lstrip_def)
  then show "find_tokens (t @ rest) = t # find_tokens rest"
    "find_tokens (CHR '' '' # t @ rest) = t # find_tokens rest"
    using match_token_good [OF assms] t
    by (subst find_tokens.simps, simp)+
qed

lemma find_tokens_join_aux:
  "list_all good_token ts \<Longrightarrow> ts \<noteq> [] \<Longrightarrow>
   find_tokens (join '' '' ts) = ts \<and> find_tokens (CHR '' '' # join '' '' ts) = ts"
proof (induction ts rule: induct_list012)
  case (2 t)
  have "find_tokens [] = []" by (simp add: find_tokens.simps)
  then show ?case
    using 2 find_tokens_good [of t "[]"] by (simp add: at_gap_def)
next
  case (3 t u ts)
  let ?r = "CHR '' '' # join '' '' (u # ts)"
  have "find_tokens (t @ ?r) = t # find_tokens ?r"
    "find_tokens (CHR '' '' # t @ ?r) = t # find_tokens ?r"
    using 3(3) by (auto simp: at_gap_def intro!: find_tokens_good)
  with 3 show ?case by simp
qed simp

lemma find_tokens_join: "list_all good_token ts \<Longrightarrow> find_tokens (join '' '' ts) = ts"
  using find_tokens_join_aux [of ts] by (cases ts) (auto simp: find_tokens.simps)

lemma remove_char_append [simp]: "remove_char c (s @ t) = remove_char c s @ remove_char c t"
  by (simp add: remove_char_def)

lemma remove_space_join: "remove_char (CHR '' '') (join '' '' ts) = remove_char (CHR '' '') (concat ts)"
  by (induction ts rule: induct_list012) (simp_all add: remove_char_def)

lemma tokenize_join: "list_all good_token ts \<Longrightarrow> tokenize (join '' '' ts) = Inr ts"
  by (simp add: tokenize_def find_tokens_join remove_space_join)

lemma pp_good_tokens: "list_all plain_ident (idents e) \<Longrightarrow> list_all good_token (pp lvl e)"
  by (induction e arbitrary: lvl) (auto simp: Let_def good_token_def)

text \<open>The text of an expression, with the parentheses that precedence and associativity need.\<close>

definition show_expr :: "expr \<Rightarrow> string" where
  "show_expr e = join '' '' (pp LExpr e)"

lemma parse_pp: "list_all ident_ok (idents e) \<Longrightarrow> parse_expr (parse_fuel (pp LExpr e)) (pp LExpr e) = Inr (e, [])"
proof -
  assume "list_all ident_ok (idents e)"
  then have "expr_ok e" using pp_parses by blast
  moreover have "4 * length (pp LExpr e @ []) + 3 \<le> parse_fuel (pp LExpr e)"
    by (simp add: parse_fuel_def)
  ultimately obtain m where
    "parse_expr (parse_fuel (pp LExpr e)) (pp LExpr e @ []) = parse_or_tail (Suc m) e []"
    unfolding expr_ok_def by (metis list.case(1) stops_def)
  then show ?thesis by simp
qed

lemma dropWhile_id: "s \<noteq> [] \<Longrightarrow> \<not> P (hd s) \<Longrightarrow> dropWhile P s = s"
  by (cases s) auto

lemma strip_trimmed: "s \<noteq> [] \<Longrightarrow> \<not> is_space (hd s) \<Longrightarrow> \<not> is_space (last s) \<Longrightarrow> strip s = s"
  by (simp add: strip_def lstrip_def rstrip_def dropWhile_id hd_rev)

lemma strip_pad_left [simp]: "is_space c \<Longrightarrow> strip (c # s) = strip s"
  by (simp add: strip_def lstrip_def)

lemma strip_pad_right [simp]: "is_space c \<Longrightarrow> strip (s @ [c]) = strip s"
proof -
  assume c: "is_space c"
  show ?thesis
  proof (cases "dropWhile is_space s = []")
    case True
    with c have "\<forall>x \<in> set (s @ [c]). is_space x" by (auto simp: dropWhile_eq_Nil_conv)
    then have d: "dropWhile is_space (s @ [c]) = []" by (simp only: dropWhile_eq_Nil_conv)
    show ?thesis unfolding strip_def lstrip_def True d by (rule refl)
  next
    case False
    then obtain x where "x \<in> set s" "\<not> is_space x" by (auto simp: dropWhile_eq_Nil_conv)
    then have "dropWhile is_space (s @ [c]) = dropWhile is_space s @ [c]" by (rule dropWhile_append1)
    with c show ?thesis by (simp add: strip_def lstrip_def rstrip_def)
  qed
qed

lemma join_ends:
  "ts \<noteq> [] \<Longrightarrow> list_all good_token ts \<Longrightarrow>
   join '' '' ts \<noteq> [] \<and> \<not> is_space (hd (join '' '' ts)) \<and> \<not> is_space (last (join '' '' ts))"
proof (induction ts rule: induct_list012)
  case (2 t)
  then show ?case using good_token_no_space [of t] by simp
next
  case (3 t u ts)
  then show ?case using good_token_no_space [of t] by simp
qed simp

lemma strip_show_expr:
  "list_all plain_ident (idents e) \<Longrightarrow> strip (show_expr e) = show_expr e \<and> show_expr e \<noteq> []"
  unfolding show_expr_def using join_ends [of "pp LExpr e"] pp_good_tokens [of e LExpr]
  by (simp add: strip_trimmed)

lemma plain_ident_ident_ok: "list_all plain_ident xs \<Longrightarrow> list_all ident_ok xs"
  by (auto simp: list_all_iff plain_ident_def)

lemma plain_ident_chars: "plain_ident x \<Longrightarrow> x \<noteq> [] \<and> strip x = x \<and> CHR ''='' \<notin> set x"
proof -
  assume x: "plain_ident x"
  then have "x \<noteq> []" by (simp add: plain_ident_def ident_ok_def)
  moreover from this have "strip x = x" using plain_ident_no_space [OF x] by (simp add: strip_trimmed)
  moreover have "list_all is_ident_char x"
    using x by (cases x) (auto simp: plain_ident_def ident_ok_def is_ident_char_def)
  then have "CHR ''='' \<notin> set x"
    by (auto simp: list_all_iff is_ident_char_def is_ident_start_def is_digit_def code_def)
  ultimately show ?thesis by blast
qed

lemma parse_permission_show:
  assumes "plain_ident name" and "list_all plain_ident (idents e)"
  shows "parse_permission (name @ '' = '' @ show_expr e) = Inr (name, e)"
proof -
  have n: "name \<noteq> []" "strip name = name" "CHR ''='' \<notin> set (name @ '' '')"
    using plain_ident_chars [OF assms(1)] by auto
  have split: "split1 (CHR ''='') (name @ '' = '' @ show_expr e) = (name @ '' '', Some ('' '' @ show_expr e))"
    using split1_append [OF n(3), of "'' '' @ show_expr e"] by simp
  have tok: "tokenize (show_expr e) = Inr (pp LExpr e)"
    unfolding show_expr_def using pp_good_tokens [OF assms(2)] by (rule tokenize_join)
  show ?thesis
    unfolding parse_permission_def split
    using n tok strip_show_expr [OF assms(2)] parse_pp [OF plain_ident_ident_ok [OF assms(2)]]
    by (simp add: Let_def del: parse_expr.simps)
qed

text \<open>
  Parsing inverts printing: for every expression over plain identifiers and every plain
  name, \<open>_parse_permission\<close> (with \<open>_tokenize\<close> and the recursive descent) reads the line
  \<open>name = <printed expression>\<close> back as exactly that name and that expression tree, so
  precedence, associativity and parentheses are what the printer says.
\<close>

lemma parse_permission_roundtrip:
  assumes "plain_ident name" and "list_all plain_ident (idents e)"
  shows "parse_permission (name @ '' = '' @ show_expr e) = Inr (name, e)"
  using assms by (rule parse_permission_show)

lemma parse_permission_roundtrip_example:
  "parse_permission ''view = a or not (b or c) and d'' = Inr (''view'',
     OrExpr (IdentifierExpr ''a'') (AndExpr (NotExpr (OrExpr (IdentifierExpr ''b'')
       (IdentifierExpr ''c''))) (IdentifierExpr ''d'')))"
proof -
  let ?e = "OrExpr (IdentifierExpr ''a'') (AndExpr (NotExpr (OrExpr (IdentifierExpr ''b'')
       (IdentifierExpr ''c''))) (IdentifierExpr ''d''))"
  have "plain_ident ''view''" "list_all plain_ident (idents ?e)" by code_simp+
  moreover have "show_expr ?e = ''a or not ( b or c ) and d''" by code_simp
  ultimately have "parse_permission ''view = a or not ( b or c ) and d'' = Inr (''view'', ?e)"
    using parse_permission_roundtrip [of "''view''" ?e] by simp
  moreover have "parse_permission ''view = a or not (b or c) and d''
      = parse_permission ''view = a or not ( b or c ) and d''" by code_simp
  ultimately show ?thesis by simp
qed

section \<open>Validation\<close>

text \<open>What a valid schema is, stated without the order of the checks.\<close>

definition wf_schema :: "authorization_schema \<Rightarrow> bool" where
  "wf_schema sch = (1 \<le> sch_version sch \<and> ''user'' \<in> set (sch_types sch)
     \<and> sch_permissions sch \<noteq> []
     \<and> (\<forall>(r, ss) \<in> set (sch_relations sch). r \<noteq> [] \<and> set ss \<subseteq> set (sch_types sch))
     \<and> (\<forall>(p, e) \<in> set (sch_permissions sch). p \<noteq> []
          \<and> set (idents e) \<subseteq> fst ` set (sch_relations sch) \<union> fst ` set (sch_permissions sch)))"

lemma validate_expr_ok:
  "validate_expr e sch = Inr () \<longleftrightarrow>
   set (idents e) \<subseteq> fst ` set (sch_relations sch) \<union> fst ` set (sch_permissions sch)"
  by (induction e) (auto simp: ebind_eq_Inr map_of_eq_None_iff)

lemma validate_subjects_ok: "validate_subjects r types ss = Inr () \<longleftrightarrow> set ss \<subseteq> set types"
  by (induction ss) auto

lemma validate_relations_ok:
  "validate_relations rs types = Inr () \<longleftrightarrow> (\<forall>(r, ss) \<in> set rs. r \<noteq> [] \<and> set ss \<subseteq> set types)"
  by (induction rs) (auto simp: ebind_eq_Inr validate_subjects_ok split: if_splits)

lemma validate_permissions_ok:
  "validate_permissions ps sch = Inr () \<longleftrightarrow>
   (\<forall>(p, e) \<in> set ps. p \<noteq> [] \<and> validate_expr e sch = Inr ())"
  by (induction ps) (auto simp: ebind_eq_Inr split: if_splits)

text \<open>
  \<open>compile_authorization_schema\<close> on a parsed schema succeeds exactly on the valid schemas
  (version, the type \<open>user\<close>, known subject types, every identifier a declared relation or
  permission), and then the compiled model holds, for every permission name, the expression of
  the schema.
\<close>

lemma compile_schema_iff_wf:
  "(\<exists>m. compile_schema sch = Inr m) = wf_schema sch
   \<and> (compile_schema sch = Inr m \<longrightarrow>
      (\<forall>p. map_option cp_expression (dget (cm_permissions m) p) = dget (sch_permissions sch) p))"
proof -
  have "(\<exists>m. compile_schema sch = Inr m) = (validate_authorization_schema sch = Inr ())"
    by (auto simp: compile_schema_def ebind_eq_Inr)
  also have "\<dots> = wf_schema sch"
    by (auto simp: validate_authorization_schema_def wf_schema_def ebind_eq_Inr
        validate_relations_ok validate_permissions_ok
        validate_expr_ok)
  finally have "(\<exists>m. compile_schema sch = Inr m) = wf_schema sch" .
  moreover have "map_option cp_expression
      (dget (map (\<lambda>(name, e). (name, \<lparr>cp_name = name, cp_expression = e\<rparr>)) d) p) = dget d p" for d p
    by (induction d) auto
  ultimately show ?thesis by (auto simp: compile_schema_def ebind_eq_Inr)
qed

definition small_schema :: authorization_schema where
  "small_schema = \<lparr>sch_version = 1, sch_types = [''user''], sch_relations = [(''owner'', [''user''])],
     sch_permissions = [(''edit'', NotExpr (IdentifierExpr ''owner''))], sch_raw = []\<rparr>"

definition small_compiled :: compiled_model where
  "small_compiled = \<lparr>cm_version = 1, cm_types = [''user''], cm_relations = [(''owner'', [''user''])],
     cm_permissions = [(''edit'', \<lparr>cp_name = ''edit'', cp_expression = NotExpr (IdentifierExpr ''owner'')\<rparr>)],
     cm_raw = []\<rparr>"

lemma compile_schema_iff_wf_example:
  "wf_schema small_schema
   \<and> (\<forall>p. map_option cp_expression (dget (cm_permissions small_compiled) p)
        = dget (sch_permissions small_schema) p)"
proof -
  have "compile_schema small_schema = Inr small_compiled"
    by (simp add: small_schema_def small_compiled_def compile_schema_def validate_authorization_schema_def)
  then show ?thesis using compile_schema_iff_wf [of small_schema small_compiled] by blast
qed

end
