(* ===== verification/AuthInput.thy ===== *)
theory AuthInput
  imports Modeling
begin

text \<open>
  The explicit request of the decision engine and the data it carries: \<open>AuthorizationInput\<close>,
  \<open>PolicyDefinition\<close>, \<open>ExplainTraceStep\<close> and \<open>AuthorizationDecision\<close> of
  \<open>engine/keynetra_engine.py\<close>, the compiled policy nodes of \<open>engine/compiled/decision_graph.py\<close>
  and the compiled permission graph. A compiled node holds a closure over its list of checks;
  here it holds the checks, and the closure's body is \<open>node_evaluate\<close>.
\<close>

datatype decision_value = Allow | Deny

datatype stage_outcome = SAllow | SDeny | SAbstain

fun outcome_of :: "decision_value \<Rightarrow> stage_outcome" where
  "outcome_of Allow = SAllow"
| "outcome_of Deny = SDeny"

fun decision_text :: "decision_value \<Rightarrow> string" where
  "decision_text Allow = ''allow''"
| "decision_text Deny = ''deny''"

fun outcome_text :: "stage_outcome \<Rightarrow> string" where
  "outcome_text SAllow = ''allow''"
| "outcome_text SDeny = ''deny''"
| "outcome_text SAbstain = ''abstain''"

record policy_node =
  node_policy_id :: "string option"
  node_action :: string
  node_effect :: decision_value
  node_priority :: int
  node_checks :: pydict

record decision_graph =
  dg_nodes :: "policy_node list"

record permission_graph =
  pg_tenant_key :: string
  pg_model :: compiled_model

record authorization_input =
  in_user :: pydict
  in_resource :: pydict
  in_action :: string
  in_context :: pydict
  in_acl_entries :: "pydict list"
  in_index_entries :: "pydict list"
  in_permission_graph :: "permission_graph option"
  in_compiled_graph :: "decision_graph option"
  in_tenant_key :: "string option"

text \<open>\<open>AuthorizationInput(user, resource, action, context)\<close> with the defaults of the class.\<close>

definition plain_input :: "pydict \<Rightarrow> pydict \<Rightarrow> string \<Rightarrow> pydict \<Rightarrow> authorization_input" where
  "plain_input user resource action context =
     \<lparr>in_user = user, in_resource = resource, in_action = action, in_context = context,
      in_acl_entries = [], in_index_entries = [], in_permission_graph = None,
      in_compiled_graph = None, in_tenant_key = None\<rparr>"

record policy_definition =
  pd_action :: string
  pd_effect :: decision_value
  pd_conditions :: pydict
  pd_priority :: int
  pd_policy_id :: "string option"

text \<open>\<open>"allow" if str(v) == "allow" else "deny"\<close>\<close>

definition effect_of :: "pyval \<Rightarrow> decision_value" where
  "effect_of v = (if py_str v = ''allow'' then Allow else Deny)"

text \<open>\<open>str(v) if v is not None else None\<close>\<close>

definition opt_str :: "pyval \<Rightarrow> string option" where
  "opt_str v = (if v = PNone then None else Some (py_str v))"

lemma opt_str_simps [simp]: "opt_str PNone = None" "opt_str (PStr s) = Some s"
  "opt_str (ostr_val v) = v"
  by (cases v; simp add: opt_str_def)+

definition from_dict :: "pydict \<Rightarrow> policy_definition result" where
  "from_dict raw = ebind (py_int (dget_or raw ''priority'' (PInt 100))) (\<lambda>priority.
     Inr \<lparr>pd_action = py_str (dget_or raw ''action'' (PStr [])),
          pd_effect = effect_of (dget_or raw ''effect'' (PStr ''deny'')),
          pd_conditions = (case pget raw ''conditions'' of PDict d \<Rightarrow> d | _ \<Rightarrow> []),
          pd_priority = priority,
          pd_policy_id = opt_str (pget raw ''policy_id'')\<rparr>)"

record trace_step =
  ts_step :: string
  ts_outcome :: string
  ts_detail :: string
  ts_policy_id :: "string option"

definition mk_step :: "string \<Rightarrow> string \<Rightarrow> string \<Rightarrow> string option \<Rightarrow> trace_step" where
  "mk_step s oc d p = \<lparr>ts_step = s, ts_outcome = oc, ts_detail = d, ts_policy_id = p\<rparr>"

definition step_to_dict :: "trace_step \<Rightarrow> pydict" where
  "step_to_dict t = [(''step'', PStr (ts_step t)), (''outcome'', PStr (ts_outcome t)),
     (''detail'', PStr (ts_detail t)), (''policy_id'', ostr_val (ts_policy_id t))]"

record authorization_decision =
  ad_allowed :: bool
  ad_decision :: decision_value
  ad_reason :: "string option"
  ad_policy_id :: "string option"
  ad_explain_trace :: "trace_step list"
  ad_matched_policies :: "string list"
  ad_failed_conditions :: "string list"

definition evaluated_rules :: "authorization_decision \<Rightarrow> pydict list" where
  "evaluated_rules d = map step_to_dict (ad_explain_trace d)"

text \<open>A decision is consistent when its flag and its verdict agree.\<close>

definition consistent :: "authorization_decision \<Rightarrow> bool" where
  "consistent d = (ad_allowed d = (ad_decision d = Allow))"

lemma from_dict_parses:
  assumes "dget raw ''action'' = Some (PStr a)" "dget raw ''priority'' = Some (PInt p)"
    "dget raw ''conditions'' = Some (PDict c)"
    "dget raw ''effect'' = Some (PStr (decision_text e))" "dget raw ''policy_id'' = Some (ostr_val i)"
  shows "from_dict raw = Inr \<lparr>pd_action = a, pd_effect = e, pd_conditions = c, pd_priority = p,
    pd_policy_id = i\<rparr>"
  using assms by (cases e) (simp_all add: from_dict_def dget_or_def effect_of_def)

end
