(* ===== verification/PolicyFiles.thy ===== *)
theory PolicyFiles
  imports Modeling AuthInput
begin

text \<open>
  Policy and model files (\<open>config/file_loaders.py\<close>) and the policy language of the API
  (\<open>services/policy_dsl.py\<close>). The file system and the parsers for YAML, JSON and TOML are parameters;
  paths are given expanded and resolved, and the keys of the parsed documents are strings.
\<close>

section \<open>Documents\<close>

text \<open>\<open>dict(v)\<close>: of a dictionary, or of a sequence of pairs with text keys.\<close>

definition pair_of :: "pyval \<Rightarrow> (string \<times> pyval) result" where
  "pair_of v = (case v of
     PList [PStr k, x] \<Rightarrow> Inr (k, x) | PTuple [PStr k, x] \<Rightarrow> Inr (k, x) | PStr [a, b] \<Rightarrow> Inr ([a], PStr [b])
   | _ \<Rightarrow> Inl (ValueError ''dictionary update sequence element has the wrong length''))"

definition dict_of :: "pyval \<Rightarrow> pydict result" where
  "dict_of v = (case v of
     PDict d \<Rightarrow> Inr d
   | PList xs \<Rightarrow> ebind (emap pair_of xs) (\<lambda>ps. Inr (dunion [] ps))
   | PTuple xs \<Rightarrow> ebind (emap pair_of xs) (\<lambda>ps. Inr (dunion [] ps))
   | PStr s \<Rightarrow> if s = [] then Inr [] else Inl (ValueError ''dictionary update sequence element has the wrong length'')
   | _ \<Rightarrow> Inl (TypeError (quoted (type_name v) @ '' object is not iterable'')))"

definition optional_text :: "pyval \<Rightarrow> pyval" where
  "optional_text v = (if v = PNone then PNone else PStr (py_str v))"

definition policy_dict :: "string \<Rightarrow> string \<Rightarrow> int \<Rightarrow> pydict \<Rightarrow> pyval \<Rightarrow> pydict" where
  "policy_dict action effect priority conditions policy_id =
     [(''action'', PStr action), (''effect'', PStr effect), (''priority'', PInt priority),
      (''conditions'', PDict conditions), (''policy_id'', policy_id)]"

definition effect_block :: "pydict \<Rightarrow> string \<times> pyval" where
  "effect_block payload = (case dget payload ''allow'' of Some block \<Rightarrow> (''allow'', block)
     | None \<Rightarrow> (''deny'', pget payload ''deny''))"

definition policy_from_effect_block :: "pydict \<Rightarrow> pydict result" where
  "policy_from_effect_block payload = (case effect_block payload of
     (effect, PDict block) \<Rightarrow>
       (let action = strip (py_str (dget_or block ''action'' (PStr []))) in
        if action = [] then Inl (ValueError ''policy action is required'')
        else (case por (por (pget block ''when'') (pget block ''conditions'')) (PDict []) of
            PDict conditions \<Rightarrow> ebind (py_int (dget_or block ''priority'' (PInt 100))) (\<lambda>priority.
              Inr (policy_dict action effect priority conditions (optional_text (pget block ''policy_id''))))
          | _ \<Rightarrow> Inl (ValueError ''policy conditions must be an object'')))
   | _ \<Rightarrow> Inl (ValueError ''policy block must be an object''))"

definition plain_policy :: "pydict \<Rightarrow> pydict result" where
  "plain_policy payload =
     (let effect = lower (py_str (dget_or payload ''effect'' (PStr ''deny''))) in
      ebind (py_int (dget_or payload ''priority'' (PInt 100))) (\<lambda>priority.
      ebind (dict_of (por (pget payload ''conditions'') (PDict []))) (\<lambda>conditions.
        Inr (policy_dict (py_str (dget_or payload ''action'' (PStr [])))
          (if effect = ''allow'' then ''allow'' else ''deny'') priority conditions
          (optional_text (pget payload ''policy_id''))))))"

lemma size_policies: "dget d k = Some (PList xs) \<Longrightarrow> size (PList xs) < size (PDict d)"
proof -
  assume "dget d k = Some (PList xs)"
  then have "(k, PList xs) \<in> set d" by (rule map_of_SomeD)
  then have "size (PList xs) \<le> size_list (size_prod (\<lambda>_. 0) size) d"
    by (intro size_list_estimation' [of "(k, PList xs)"]) simp_all
  then show ?thesis by simp
qed

function (sequential) normalize_policy_payload :: "pyval \<Rightarrow> pydict list result"
  and normalize_policy_items :: "pyval list \<Rightarrow> pydict list result" where
  "normalize_policy_payload PNone = Inr []"
| "normalize_policy_payload (PList items) = normalize_policy_items items"
| "normalize_policy_payload (PDict payload) = (case dget payload ''policies'' of
     Some (PList items) \<Rightarrow> normalize_policy_items items
   | _ \<Rightarrow> if dget payload ''allow'' \<noteq> None \<or> dget payload ''deny'' \<noteq> None
          then ebind (policy_from_effect_block payload) (\<lambda>p. Inr [p])
          else if dget payload ''action'' \<noteq> None then ebind (plain_policy payload) (\<lambda>p. Inr [p])
          else Inl (ValueError ''invalid policy payload''))"
| "normalize_policy_payload _ = Inl (ValueError ''invalid policy payload'')"
| "normalize_policy_items [] = Inr []"
| "normalize_policy_items (v # vs) = ebind (normalize_policy_payload v) (\<lambda>ps.
     ebind (normalize_policy_items vs) (\<lambda>qs. Inr (ps @ qs)))"
  by pat_completeness auto
termination
  by (relation "measure (\<lambda>x. case x of Inl v \<Rightarrow> 2 * size v | Inr vs \<Rightarrow> 2 * size_list size vs + 1)")
    (auto dest: size_policies)

section \<open>Numbers in rules\<close>

text \<open>
  \<open>repr\<close> of a float: the fewest significant digits whose decimal rounds to the same double, written
  plainly for decimal exponents from \<open>-4\<close> to \<open>15\<close> and in scientific notation otherwise.
  \<open>shortest_digits r p\<close> tries \<open>p\<close> to 17 digits of the positive number \<open>r\<close>; the result is the digits as
  an integer and the exponent of the last one.
\<close>

definition decimal_exponent :: "rat \<Rightarrow> int" where
  "decimal_exponent r = (case find (\<lambda>k. 10 powi k \<le> r \<and> r < 10 powi (k + 1)) [- 324..310] of Some k \<Rightarrow> k | None \<Rightarrow> 0)"

fun shortest_digits :: "nat \<Rightarrow> rat \<Rightarrow> int \<Rightarrow> int \<Rightarrow> int \<times> int" where
  "shortest_digits 0 r k p = (let e = k + 1 - p in (\<lfloor>r / 10 powi e + 1 / 2\<rfloor>, e))"
| "shortest_digits (Suc left) r k p = (let e = k + 1 - p; n = \<lfloor>r / 10 powi e + 1 / 2\<rfloor> in
     if num_eq (scale10 n e) (Fin r) then (n, e) else shortest_digits left r k (p + 1))"

definition positive_repr :: "rat \<Rightarrow> string" where
  "positive_repr r =
     (let (n, e) = shortest_digits 16 r (decimal_exponent r) 1; all_digits = nat_str n;
          digits = rev (dropWhile (\<lambda>c. c = CHR ''0'') (rev all_digits)); k = e + int (length all_digits) - 1
      in if - 4 \<le> k \<and> k < 16
         then (if k < 0 then ''0.'' @ replicate (nat (- k - 1)) (CHR ''0'') @ digits
               else if int (length digits) \<le> k + 1 then digits @ replicate (nat (k + 1) - length digits) (CHR ''0'') @ ''.0''
               else take (nat (k + 1)) digits @ ''.'' @ drop (nat (k + 1)) digits)
         else (take 1 digits @ (if length digits = 1 then [] else ''.'' @ tl digits)
               @ ''e'' @ (if k < 0 then ''-'' else ''+'') @ (if \<bar>k\<bar> < 10 then ''0'' else []) @ nat_str \<bar>k\<bar>))"

definition float_repr :: "bool \<Rightarrow> num_v \<Rightarrow> string" where
  "float_repr negative x = (case x of NaN \<Rightarrow> ''nan'' | PosInf \<Rightarrow> ''inf'' | NegInf \<Rightarrow> ''-inf''
     | Fin r \<Rightarrow> if r = 0 then (if negative then ''-0.0'' else ''0.0'')
         else if r < 0 then CHR ''-'' # positive_repr (- r) else positive_repr r)"

definition coerce_scalar :: "string \<Rightarrow> pyval" where
  "coerce_scalar v = (let lowered = lower v in
     if lowered = ''true'' \<or> lowered = ''false'' then PBool (lowered = ''true'')
     else (case parse_int v of Some i \<Rightarrow> PInt i
       | None \<Rightarrow> (case parse_float v of Some x \<Rightarrow> PFloat (float_repr (fst (split_sign (strip v))) x)
         | None \<Rightarrow> PStr v)))"

section \<open>Rules in one line\<close>

fun polar_attrs :: "string list \<Rightarrow> string dict \<Rightarrow> string dict result" where
  "polar_attrs [] attrs = Inr attrs"
| "polar_attrs (token # tokens) attrs = (case split1 (CHR ''='') token of
     (_, None) \<Rightarrow> Inl (ValueError (''invalid .polar token: '' @ token))
   | (key, Some v) \<Rightarrow> polar_attrs tokens (dset attrs (strip key) (strip v)))"

definition polar_rule :: "string \<Rightarrow> pydict result" where
  "polar_rule stripped = (case split_ws stripped of
     [] \<Rightarrow> Inl (IndexError ''list index out of range'')
   | word # tokens \<Rightarrow>
       (let effect = lower word in
        if effect \<noteq> ''allow'' \<and> effect \<noteq> ''deny'' then Inl (ValueError (''invalid .polar rule: '' @ stripped))
        else ebind (polar_attrs tokens []) (\<lambda>attrs.
          let action = strip (dget_or attrs ''action'' []); attrs1 = dpop attrs ''action'' in
          if action = [] then Inl (ValueError (''missing action in .polar rule: '' @ stripped))
          else ebind (py_int (PStr (dget_or attrs1 ''priority'' ''100''))) (\<lambda>priority.
            let attrs2 = dpop attrs1 ''priority''; attrs3 = dpop attrs2 ''policy_id'' in
            Inr (policy_dict action effect priority (map (\<lambda>(k, v). (k, coerce_scalar v)) attrs3)
              (ostr_val (dget attrs2 ''policy_id'')))))))"

definition polar_lines :: "string \<Rightarrow> string list" where
  "polar_lines text = filter (\<lambda>l. l \<noteq> []) (map (\<lambda>line. strip (fst (split1 (CHR ''#'') line))) (splitlines text))"

definition parse_polar_policy_lines :: "string \<Rightarrow> pydict list result" where
  "parse_polar_policy_lines text = emap polar_rule (polar_lines text)"

section \<open>Files\<close>

text \<open>
  The files under a directory come in the order of \<open>sorted(path.rglob("*"))\<close>. A path that is neither a
  directory nor a file is skipped.
\<close>

datatype path_kind = Directory "string list" | RegularFile | Missing

record file_ports =
  fp_kind :: "string \<Rightarrow> path_kind"
  fp_read :: "string \<Rightarrow> string result"
  fp_yaml :: "string \<Rightarrow> pyval result"
  fp_json :: "string \<Rightarrow> pyval result"
  fp_toml :: "string \<Rightarrow> pyval result"

text \<open>\<open>Path.suffix\<close>: from the last dot of the file name, unless it is the first or the last character.\<close>

definition path_suffix :: "string \<Rightarrow> string" where
  "path_suffix path = (let name = rev (takeWhile (\<lambda>c. c \<noteq> CHR ''/'') (rev path));
       ext = rev (takeWhile (\<lambda>c. c \<noteq> CHR ''.'') (rev name)) in
     if length ext + 1 < length name \<and> ext \<noteq> [] then CHR ''.'' # ext else [])"

definition load_policies_from_file :: "file_ports \<Rightarrow> string \<Rightarrow> pydict list result" where
  "load_policies_from_file fp path = (let suffix = lower (path_suffix path) in
     ebind (fp_read fp path) (\<lambda>raw.
       if suffix = ''.yaml'' \<or> suffix = ''.yml'' then ebind (fp_yaml fp raw) normalize_policy_payload
       else if suffix = ''.json'' then ebind (fp_json fp raw) normalize_policy_payload
       else if suffix = ''.polar'' then parse_polar_policy_lines raw
       else Inl (ValueError (''unsupported policy format: '' @ path_suffix path))))"

definition policy_suffixes :: "string list" where
  "policy_suffixes = [''.yaml'', ''.yml'', ''.json'', ''.polar'']"

definition policy_files :: "file_ports \<Rightarrow> string \<Rightarrow> string list" where
  "policy_files fp path = (case fp_kind fp path of
     Directory files \<Rightarrow> filter (\<lambda>f. lower (path_suffix f) \<in> set policy_suffixes) files
   | RegularFile \<Rightarrow> [path]
   | Missing \<Rightarrow> [])"

definition load_policies_from_paths :: "file_ports \<Rightarrow> string list \<Rightarrow> pydict list result" where
  "load_policies_from_paths fp paths =
     ebind (emap (load_policies_from_file fp) (concat (map (policy_files fp) paths))) (\<lambda>loaded. Inr (concat loaded))"

section \<open>Models\<close>

definition subject_texts :: "pyval list \<Rightarrow> string list" where
  "subject_texts items = map py_str (filter truthy items)"

definition mapping_types :: "string \<Rightarrow> pydict \<Rightarrow> string list" where
  "mapping_types object_type relations = sorted_set ([''user'', object_type] @ concat (map (\<lambda>(_, v).
     case v of PStr s \<Rightarrow> [s] | PList items \<Rightarrow> subject_texts items | _ \<Rightarrow> []) relations))"

definition relation_line :: "string \<times> pyval \<Rightarrow> string result" where
  "relation_line row = (case row of (name, v) \<Rightarrow>
     (case (case v of PStr s \<Rightarrow> Some [s] | PList items \<Rightarrow> Some (subject_texts items) | _ \<Rightarrow> None) of
        Some subjects \<Rightarrow> Inr (name @ '': ['' @ join '', '' subjects @ '']'')
      | None \<Rightarrow> Inl (ValueError (''invalid relation subjects for '' @ name))))"

definition permission_line :: "string \<times> pyval \<Rightarrow> string" where
  "permission_line row = (case row of (name, e) \<Rightarrow> name @ '' = '' @ py_str e)"

definition model_mapping_to_schema :: "pydict \<Rightarrow> string result" where
  "model_mapping_to_schema payload = (case dget_or payload ''model'' (PDict payload) of
     PDict model \<Rightarrow>
       ebind (py_int (dget_or model ''schema_version'' (dget_or model ''version'' (PInt 1)))) (\<lambda>version.
         let named = strip (py_str (dget_or model ''type'' (PStr ''resource'')));
             object_type = (if named = [] then ''resource'' else named) in
         (case (por (pget model ''relations'') (PDict []), por (pget model ''permissions'') (PDict [])) of
            (PDict relations, PDict permissions) \<Rightarrow>
              ebind (emap relation_line relations) (\<lambda>relation_lines.
                Inr (join [char_of (10 :: nat)] ([''model schema '' @ int_str version]
                  @ map (\<lambda>t. ''type '' @ t) (mapping_types object_type relations)
                  @ [''relations''] @ relation_lines @ [''permissions''] @ map permission_line permissions)))
          | _ \<Rightarrow> Inl (ValueError ''relations and permissions must be objects'')))
   | _ \<Rightarrow> Inl (ValueError ''model must be an object''))"

definition load_authorization_model_from_file :: "file_ports \<Rightarrow> string \<Rightarrow> string result" where
  "load_authorization_model_from_file fp path = (let suffix = lower (path_suffix path) in
     ebind (fp_read fp path) (\<lambda>raw.
     ebind (if suffix = ''.yaml'' \<or> suffix = ''.yml'' then fp_yaml fp raw
            else if suffix = ''.json'' then fp_json fp raw
            else if suffix = ''.toml'' then fp_toml fp raw
            else Inl (ValueError (''unsupported authorization model format: '' @ path_suffix path))) (\<lambda>payload.
       case payload of
         PStr s \<Rightarrow> if strip s = [] then Inl (ValueError ''authorization model file is empty'') else Inr (strip s)
       | PDict d \<Rightarrow> model_mapping_to_schema d
       | _ \<Rightarrow> Inl (ValueError ''authorization model file must contain an object''))))"

definition load_model_file_if_supported :: "file_ports \<Rightarrow> string \<Rightarrow> string option result" where
  "load_model_file_if_supported fp path = (let suffix = lower (path_suffix path) in
     if suffix \<in> {''.yaml'', ''.yml'', ''.json'', ''.toml''}
     then ebind (load_authorization_model_from_file fp path) (\<lambda>schema. Inr (Some schema))
     else if suffix \<in> {''.schema'', ''.txt''}
     then ebind (fp_read fp path) (\<lambda>raw. Inr (if strip raw = [] then None else Some (strip raw)))
     else Inr None)"

text \<open>The first file that holds a schema; the files after it are not read.\<close>

fun first_model :: "file_ports \<Rightarrow> string list \<Rightarrow> string option result" where
  "first_model fp [] = Inr None"
| "first_model fp (path # paths) = ebind (load_model_file_if_supported fp path) (\<lambda>schema. case schema of
     Some text \<Rightarrow> if text = [] then first_model fp paths else Inr (Some text)
   | None \<Rightarrow> first_model fp paths)"

definition model_files :: "file_ports \<Rightarrow> string \<Rightarrow> string list" where
  "model_files fp path = (case fp_kind fp path of Directory files \<Rightarrow> files | RegularFile \<Rightarrow> [path] | Missing \<Rightarrow> [])"

definition load_authorization_model_from_paths :: "file_ports \<Rightarrow> string list \<Rightarrow> string option result" where
  "load_authorization_model_from_paths fp paths = first_model fp (concat (map (model_files fp) paths))"

section \<open>The policy language of the API\<close>

text \<open>\<open>load\<close> is \<open>yaml.safe_load\<close>, or the JSON parser when YAML is not installed.\<close>

definition dsl_block :: "pydict \<Rightarrow> (string \<times> pyval) result" where
  "dsl_block data = (case dget data ''allow'' of Some block \<Rightarrow> Inr (''allow'', block)
     | None \<Rightarrow> (case dget data ''deny'' of Some block \<Rightarrow> Inr (''deny'', block)
       | None \<Rightarrow> Inl (ValueError ''dsl must start with allow: or deny:'')))"

definition dsl_document :: "pyval \<Rightarrow> pydict result" where
  "dsl_document data = (case data of
     PDict d \<Rightarrow> if d = [] then Inl (ValueError ''invalid dsl'') else
       ebind (dsl_block d) (\<lambda>(effect, v). case v of
         PDict block \<Rightarrow>
           (case pget block ''action'' of
              PStr action \<Rightarrow> if action = [] then Inl (ValueError ''missing action'')
                else (case por (pget block ''when'') (PDict []) of
                    PDict conditions \<Rightarrow> ebind (py_int (dget_or block ''priority'' (PInt 100))) (\<lambda>priority.
                      Inr [(''action'', PStr action), (''effect'', PStr effect), (''priority'', PInt priority),
                        (''conditions'', PDict (dunion conditions
                           [(''policy_key'', PStr (py_str (por (pget block ''policy_key'') (PStr action))))]))])
                  | _ \<Rightarrow> Inl (ValueError ''when must be an object''))
            | _ \<Rightarrow> Inl (ValueError ''missing action''))
       | _ \<Rightarrow> Inl (ValueError ''invalid dsl block''))
   | _ \<Rightarrow> Inl (ValueError ''invalid dsl''))"

definition dsl_to_policy :: "(string \<Rightarrow> pyval result) \<Rightarrow> string \<Rightarrow> pydict result" where
  "dsl_to_policy load dsl_text = ebind (load dsl_text) dsl_document"

section \<open>Rules read back what is written\<close>

text \<open>A rule and its line; \<open>polar_text\<close> separates the words of the line by single blanks.\<close>

record polar_spec =
  po_effect :: string
  po_action :: string
  po_priority :: int
  po_policy_id :: "string option"
  po_attrs :: "string dict"

definition spec_attrs :: "polar_spec \<Rightarrow> string dict" where
  "spec_attrs r = [(''action'', po_action r), (''priority'', int_str (po_priority r))]
     @ (case po_policy_id r of None \<Rightarrow> [] | Some i \<Rightarrow> [(''policy_id'', i)]) @ po_attrs r"

definition spec_words :: "polar_spec \<Rightarrow> string list" where
  "spec_words r = po_effect r # map (\<lambda>(k, v). k @ CHR ''='' # v) (spec_attrs r)"

definition polar_text :: "polar_spec list \<Rightarrow> string" where
  "polar_text rs = join [char_of (10 :: nat)] (map (\<lambda>r. join '' '' (spec_words r)) rs)"

definition spec_policy :: "polar_spec \<Rightarrow> pydict" where
  "spec_policy r = policy_dict (po_action r) (po_effect r) (po_priority r)
     (map (\<lambda>(k, v). (k, coerce_scalar v)) (po_attrs r)) (ostr_val (po_policy_id r))"

definition plain_text :: "string \<Rightarrow> bool" where
  "plain_text t = (\<forall>c \<in> set t. \<not> is_space c \<and> c \<noteq> CHR ''#'')"

definition plain_spec :: "polar_spec \<Rightarrow> bool" where
  "plain_spec r = (po_effect r \<in> {''allow'', ''deny''} \<and> po_action r \<noteq> []
     \<and> (\<forall>(k, v) \<in> set (spec_attrs r). plain_text k \<and> plain_text v \<and> CHR ''='' \<notin> set k)
     \<and> distinct (map fst (po_attrs r)) \<and> \<bar>po_priority r\<bar> < 10 ^ 18
     \<and> set (map fst (po_attrs r)) \<inter> {''action'', ''priority'', ''policy_id''} = {})"

lemma dset_new: "k \<notin> fst ` set d \<Longrightarrow> dset d k v = d @ [(k, v)]"
  by (induction d k v rule: dset.induct) auto

lemma polar_attrs_tokens:
  assumes "\<forall>(k, v) \<in> set kvs. plain_text k \<and> plain_text v \<and> CHR ''='' \<notin> set k"
    "distinct (map fst kvs)" "fst ` set d \<inter> fst ` set kvs = {}"
  shows "polar_attrs (map (\<lambda>(k, v). k @ CHR ''='' # v) kvs) d = Inr (d @ kvs)"
  using assms
proof (induction kvs arbitrary: d)
  case (Cons kv kvs)
  obtain k v where kv: "kv = (k, v)" by (cases kv)
  have k: "split1 (CHR ''='') (k @ CHR ''='' # v) = (k, Some v)" using Cons.prems(1) kv by (intro split1_append) auto
  have strips: "strip k = k" "strip v = v" using Cons.prems(1) kv by (auto simp: plain_text_def intro: strip_word)
  have "dset d k v = d @ [(k, v)]" using Cons.prems(3) kv by (intro dset_new) auto
  moreover have "polar_attrs (map (\<lambda>(k, v). k @ CHR ''='' # v) kvs) (d @ [(k, v)]) = Inr ((d @ [(k, v)]) @ kvs)"
    using Cons.prems kv by (intro Cons.IH) auto
  ultimately show ?case by (simp add: kv k strips)
qed simp

lemma parse_int_str:
  assumes "\<bar>i\<bar> < 10 ^ 18"
  shows "parse_int (int_str i) = Some i"
proof -
  have digits: "\<forall>c \<in> set (nat_str n). is_digit c" if "0 \<le> n" for n using that by (rule nat_str_digits)
  have nospace: "\<not> is_space c" if "is_digit c \<or> c = CHR ''-''" for c
    using that by (auto simp: is_digit_def is_space_def code_def)
  have strip: "strip (int_str i) = int_str i" using int_str_chars [of _ i] nospace by (intro strip_word) blast
  have group: "digit_group (nat_str n) \<and> group_val (nat_str n) = n \<and> length (remove_char (CHR ''_'') (nat_str n)) \<le> 4300"
    if n: "0 \<le> n" "n < 10 ^ 18" for n
  proof -
    obtain c cs where "nat_str n = c # cs" using nat_str_nonempty [of n] by (cases "nat_str n") blast+
    then have "digit_group (nat_str n)" using digits [OF n(1)] by (simp add: digit_group_def digit_tail_digits)
    moreover have "length (nat_str n) \<le> 18" using n by (intro length_nat_str_le) simp_all
    moreover have "remove_char (CHR ''_'') (nat_str n) = nat_str n"
      using digits [OF n(1)] digit_no_underscore by (intro remove_char_absent) blast
    ultimately show ?thesis using n(1) by (simp add: group_val_def)
  qed
  show ?thesis
  proof (cases "i < 0")
    case True
    then have "split_sign (int_str i) = (True, nat_str (- i))" by (simp add: int_str_def split_sign_def)
    then show ?thesis using True group [of "- i"] assms by (simp add: parse_int_def strip)
  next
    case False
    obtain c cs where c: "nat_str i = c # cs" "is_digit c"
      using nat_str_nonempty [of i] digits [of i] False by (cases "nat_str i") auto
    then have "c \<noteq> CHR ''-''" "c \<noteq> CHR ''+''" by (auto simp: is_digit_def code_def)
    then have "split_sign (int_str i) = (False, nat_str i)" using False c by (simp add: int_str_def split_sign_def)
    then show ?thesis using False group [of i] assms by (simp add: parse_int_def strip)
  qed
qed

lemma plain_spec_words:
  assumes "plain_spec r"
  shows "\<forall>w \<in> set (spec_words r). w \<noteq> [] \<and> (\<forall>c \<in> set w. \<not> is_space c \<and> c \<noteq> CHR ''#'')"
proof -
  have eq: "\<not> is_space (CHR ''='')" "CHR ''='' \<noteq> CHR ''#''" by code_simp+
  have "\<forall>w \<in> {''allow'', ''deny''}. w \<noteq> [] \<and> (\<forall>c \<in> set w. \<not> is_space c \<and> c \<noteq> CHR ''#'')" by code_simp
  moreover have "po_effect r \<in> {''allow'', ''deny''}" using assms unfolding plain_spec_def by blast
  ultimately have effect: "po_effect r \<noteq> [] \<and> (\<forall>c \<in> set (po_effect r). \<not> is_space c \<and> c \<noteq> CHR ''#'')" by (rule bspec)
  have "\<forall>(k, v) \<in> set (spec_attrs r). plain_text k \<and> plain_text v" using assms unfolding plain_spec_def by fast
  then have "w \<noteq> [] \<and> (\<forall>c \<in> set w. \<not> is_space c \<and> c \<noteq> CHR ''#'')"
    if w: "w \<in> set (map (\<lambda>(k, v). k @ CHR ''='' # v) (spec_attrs r))" for w
  proof -
    obtain k v where kv: "(k, v) \<in> set (spec_attrs r)" "w = k @ CHR ''='' # v" using w by auto
    then have "plain_text k" "plain_text v" using \<open>\<forall>(k, v) \<in> _. _\<close> by auto
    then show ?thesis using eq kv(2) by (simp add: plain_text_def ball_Un)
  qed
  with effect show ?thesis by (simp add: spec_words_def)
qed

lemma polar_rule_spec:
  assumes "plain_spec r"
  shows "polar_rule (join '' '' (spec_words r)) = Inr (spec_policy r)"
proof -
  have words: "split_ws (join '' '' (spec_words r)) = po_effect r # map (\<lambda>(k, v). k @ CHR ''='' # v) (spec_attrs r)"
    using plain_spec_words [OF assms] by (subst split_ws_join) (auto simp: spec_words_def)
  have allowed: "po_effect r = ''allow'' \<or> po_effect r = ''deny''" using assms by (simp add: plain_spec_def)
  moreover have "lower ''allow'' = ''allow''" "lower ''deny'' = ''deny''" by code_simp+
  ultimately have lowered: "lower (po_effect r) = po_effect r" by (elim disjE) simp_all
  have distinct: "distinct (map fst (spec_attrs r))"
    using assms by (auto simp: spec_attrs_def plain_spec_def split: option.splits)
  have attrs: "polar_attrs (map (\<lambda>(k, v). k @ CHR ''='' # v) (spec_attrs r)) [] = Inr (spec_attrs r)"
    using polar_attrs_tokens [OF _ distinct, of "[]"] assms by (simp add: plain_spec_def)
  have absent: "k \<notin> fst ` set (po_attrs r)" if "k \<in> {''action'', ''priority'', ''policy_id''}" for k
  proof -
    have "set (map fst (po_attrs r)) \<inter> {''action'', ''priority'', ''policy_id''} = {}"
      using assms unfolding plain_spec_def by blast
    then show ?thesis using that unfolding set_map by blast
  qed
  have rest: "dpop (po_attrs r) k = po_attrs r" "dget (po_attrs r) k = None" if "k \<in> {''action'', ''priority'', ''policy_id''}" for k
    using absent [OF that] by (simp_all add: dpop_absent map_of_eq_None_iff)
  have dpop_simps: "dpop ((a, b) # d) k = (if a = k then dpop d k else (a, b) # dpop d k)" for a b d and k :: string
    by (simp add: dpop_def)
  have action: "strip (po_action r) = po_action r" "po_action r \<noteq> []"
    using assms by (auto simp: plain_spec_def spec_attrs_def plain_text_def intro: strip_word)
  have "py_int (PStr (int_str (po_priority r))) = Inr (po_priority r)"
    using assms by (simp add: py_int_def parse_int_str plain_spec_def)
  moreover have "dget_or (spec_attrs r) ''action'' [] = po_action r"
    "dget_or (dpop (spec_attrs r) ''action'') ''priority'' ''100'' = int_str (po_priority r)"
    by (simp_all add: spec_attrs_def dget_or_def)
  moreover have "dget (dpop (dpop (spec_attrs r) ''action'') ''priority'') ''policy_id'' = po_policy_id r"
    "dpop (dpop (dpop (spec_attrs r) ''action'') ''priority'') ''policy_id'' = po_attrs r"
    by (cases "po_policy_id r"; simp add: spec_attrs_def dpop_simps rest)+
  ultimately show ?thesis
    using allowed lowered action by (auto simp: polar_rule_def words attrs Let_def spec_policy_def)
qed

text \<open>
  Writing rules as lines and reading the file back gives the rules again: effect, action, priority,
  policy id and the conditions, with the values read as booleans, integers, floats or texts.
\<close>

lemma polar_roundtrip:
  assumes "\<forall>r \<in> set rs. plain_spec r" "rs \<noteq> []"
  shows "parse_polar_policy_lines (polar_text rs) = Inr (map spec_policy rs)"
proof -
  let ?ls = "map (\<lambda>r. join '' '' (spec_words r)) rs"
  have nb: "is_linebreak (CHR '' '') = False" "CHR '' '' \<noteq> CHR ''#''" by code_simp+
  have line: "join '' '' (spec_words r) \<noteq> []" "strip (join '' '' (spec_words r)) = join '' '' (spec_words r)"
    "\<forall>c \<in> set (join '' '' (spec_words r)). \<not> is_linebreak c \<and> c \<noteq> CHR ''#''" if "r \<in> set rs" for r
  proof -
    have words: "\<forall>w \<in> set (spec_words r). w \<noteq> [] \<and> (\<forall>c \<in> set w. \<not> is_space c \<and> c \<noteq> CHR ''#'')"
      using assms(1) that by (intro plain_spec_words) blast
    then show "join '' '' (spec_words r) \<noteq> []" by (intro join_nonempty) (auto simp: spec_words_def)
    show "strip (join '' '' (spec_words r)) = join '' '' (spec_words r)"
      using words by (intro strip_join) (auto simp: spec_words_def)
    show "\<forall>c \<in> set (join '' '' (spec_words r)). \<not> is_linebreak c \<and> c \<noteq> CHR ''#''"
      using words set_join [of "'' ''" "spec_words r"] nb linebreak_is_space by fastforce
  qed
  have "splitlines (polar_text rs) = ?ls"
    unfolding polar_text_def using assms(2) line by (intro splitlines_join) auto
  moreover have "map (\<lambda>line. strip (fst (split1 (CHR ''#'') line))) ?ls = ?ls"
  proof (intro map_idI)
    fix l assume "l \<in> set ?ls"
    then obtain r where r: "r \<in> set rs" "l = join '' '' (spec_words r)" by auto
    then have "split1 (CHR ''#'') l = (l, None)" using line(3) by (intro split1_absent) auto
    then show "strip (fst (split1 (CHR ''#'') l)) = l" using line(2) r by simp
  qed
  ultimately have "polar_lines (polar_text rs) = ?ls"
    using line by (auto simp: polar_lines_def filter_id_conv)
  moreover have "emap polar_rule ?ls = Inr (map spec_policy rs)"
    using assms(1) polar_rule_spec by (induction rs) auto
  ultimately show ?thesis by (simp add: parse_polar_policy_lines_def)
qed

lemma polar_roundtrip_example:
  "parse_polar_policy_lines ''allow action=read priority=5 policy_id=p1 role=admin owner_only=true''
    = Inr [policy_dict ''read'' ''allow'' 5 [(''role'', PStr ''admin''), (''owner_only'', PBool True)] (PStr ''p1'')]"
proof -
  let ?r = "\<lparr>po_effect = ''allow'', po_action = ''read'', po_priority = 5, po_policy_id = Some ''p1'',
     po_attrs = [(''role'', ''admin''), (''owner_only'', ''true'')]\<rparr>"
  have "plain_spec ?r" by code_simp
  then have "parse_polar_policy_lines (polar_text [?r]) = Inr (map spec_policy [?r])"
    by (intro polar_roundtrip) simp_all
  moreover have "polar_text [?r] = ''allow action=read priority=5 policy_id=p1 role=admin owner_only=true''" by code_simp
  moreover have "coerce_scalar ''admin'' = PStr ''admin''" "coerce_scalar ''true'' = PBool True" by code_simp+
  ultimately show ?thesis by (simp add: spec_policy_def)
qed

end
