(* ===== verification/ModelFiles.thy ===== *)
theory ModelFiles
  imports PolicyFiles
begin

text \<open>
  Model files against the modelling language: the text that \<open>_model_mapping_to_schema\<close> writes for a
  mapping parses to the schema the mapping describes.
\<close>

record model_spec =
  ms_version :: int
  ms_type :: string
  ms_relations :: "string list dict"
  ms_permissions :: "expr dict"

definition spec_document :: "model_spec \<Rightarrow> pydict" where
  "spec_document m = [(''schema_version'', PInt (ms_version m)), (''type'', PStr (ms_type m)),
     (''relations'', PDict (map (\<lambda>(n, ss). (n, PList (map PStr ss))) (ms_relations m))),
     (''permissions'', PDict (map (\<lambda>(n, e). (n, PStr (show_expr e))) (ms_permissions m)))]"

definition spec_types :: "model_spec \<Rightarrow> string list" where
  "spec_types m = sorted_set ([''user'', ms_type m] @ concat (map snd (ms_relations m)))"

definition spec_lines :: "model_spec \<Rightarrow> string list" where
  "spec_lines m = [''model schema '' @ int_str (ms_version m)] @ map (\<lambda>t. ''type '' @ t) (spec_types m)
     @ [''relations''] @ map (\<lambda>(n, ss). n @ '': ['' @ join '', '' ss @ '']'') (ms_relations m)
     @ [''permissions''] @ map (\<lambda>(n, e). n @ '' = '' @ show_expr e) (ms_permissions m)"

definition plain_model :: "model_spec \<Rightarrow> bool" where
  "plain_model m = (0 \<le> ms_version m \<and> ms_version m < 10 ^ 18 \<and> plain_ident (ms_type m)
     \<and> (\<forall>(n, ss) \<in> set (ms_relations m). plain_ident n \<and> CHR '':'' \<notin> set n \<and> ss \<noteq> [] \<and> list_all plain_ident ss)
     \<and> (\<forall>(n, e) \<in> set (ms_permissions m). plain_ident n \<and> lower n \<noteq> ''type'' \<and> list_all plain_ident (idents e))
     \<and> distinct (map fst (ms_relations m)) \<and> distinct (map fst (ms_permissions m)))"

section \<open>The text of a mapping\<close>

lemma plain_ident_nonempty: "plain_ident x \<Longrightarrow> x \<noteq> []"
  using plain_ident_chars by blast

lemma mapping_text:
  assumes "plain_model m"
  shows "model_mapping_to_schema (spec_document m) = Inr (join [char_of (10 :: nat)] (spec_lines m))"
proof -
  have type: "strip (ms_type m) = ms_type m" "ms_type m \<noteq> []"
    using assms plain_ident_chars by (auto simp: plain_model_def)
  have subjects: "subject_texts (map PStr ss) = ss" if "list_all plain_ident ss" for ss
    using that plain_ident_nonempty by (induction ss) (auto simp: subject_texts_def)
  have plain: "list_all plain_ident ss" if "(n, ss) \<in> set (ms_relations m)" for n ss
    using assms that by (auto simp: plain_model_def)
  have types: "mapping_types (ms_type m) (map (\<lambda>(n, ss). (n, PList (map PStr ss))) (ms_relations m)) = spec_types m"
    unfolding mapping_types_def spec_types_def map_map
    by (intro arg_cong [of _ _ sorted_set] arg_cong2 [of _ _ _ _ "(@)"] refl arg_cong [of _ _ concat] map_cong)
      (auto simp: subjects plain)
  have relations: "emap relation_line (map (\<lambda>(n, ss). (n, PList (map PStr ss))) rs)
      = Inr (map (\<lambda>(n, ss). n @ '': ['' @ join '', '' ss @ '']'') rs)" if "\<forall>(n, ss) \<in> set rs. list_all plain_ident ss" for rs
    using that by (induction rs) (auto simp: relation_line_def subjects)
  define P where "P = map (\<lambda>(n, e). (n, PStr (show_expr e))) (ms_permissions m)"
  define Q where "Q = map (\<lambda>(n, ss). (n, PList (map PStr ss))) (ms_relations m)"
  define T where "T = map (\<lambda>t. ''type '' @ t) (spec_types m)"
  define R where "R = map (\<lambda>(n, ss). n @ '': ['' @ join '', '' ss @ '']'') (ms_relations m)"
  have "map permission_line P = map (\<lambda>(n, e). n @ '' = '' @ show_expr e) (ms_permissions m)"
    by (simp add: P_def permission_line_def split: prod.splits)
  moreover have "emap relation_line Q = Inr R" unfolding Q_def R_def using plain by (intro relations) auto
  moreover have "por (PDict d) (PDict []) = PDict d" for d by (cases d) (simp_all add: por_def)
  moreover have "spec_document m = [(''schema_version'', PInt (ms_version m)), (''type'', PStr (ms_type m)),
     (''relations'', PDict Q), (''permissions'', PDict P)]" by (simp add: spec_document_def Q_def P_def)
  moreover have "mapping_types (ms_type m) Q = spec_types m" using types by (simp add: Q_def)
  moreover have "spec_lines m = [''model schema '' @ int_str (ms_version m)] @ T
     @ [''relations''] @ R @ [''permissions''] @ map (\<lambda>(n, e). n @ '' = '' @ show_expr e) (ms_permissions m)"
    by (simp add: spec_lines_def R_def T_def)
  ultimately show ?thesis
    using type by (simp add: model_mapping_to_schema_def dget_or_def Let_def flip: T_def)
qed

section \<open>Reading the lines\<close>

lemma space_simps [simp]: "\<not> is_linebreak (CHR '' '')" "is_space (CHR '' '')"
  by code_simp+

text \<open>Characters that appear in the lines: no line ends and no comments.\<close>

definition line_char :: "char \<Rightarrow> bool" where
  "line_char c = (\<not> is_linebreak c \<and> c \<noteq> CHR ''#'')"

lemma ident_line_char: "is_ident_char c \<Longrightarrow> line_char c"
  using ident_char_not_space linebreak_is_space
  by (auto simp: line_char_def is_ident_char_def is_ident_start_def is_digit_def code_def)

lemma plain_ident_line: "plain_ident x \<Longrightarrow> \<forall>c \<in> set x. line_char c"
  by (cases x) (auto simp: plain_ident_def ident_ok_def list_all_iff is_ident_char_def intro!: ident_line_char)

lemma literal_line_chars:
  "\<forall>c \<in> set ''model schema ''. line_char c" "\<forall>c \<in> set ''type ''. line_char c" "\<forall>c \<in> set ''relations''. line_char c"
  "\<forall>c \<in> set ''permissions''. line_char c" "\<forall>c \<in> set '': [''. line_char c" "\<forall>c \<in> set '']''. line_char c"
  "\<forall>c \<in> set '' = ''. line_char c" "\<forall>c \<in> set '', ''. line_char c" "\<forall>c \<in> set '' ''. line_char c"
  by code_simp+

lemma good_token_line: "good_token t \<Longrightarrow> \<forall>c \<in> set t. line_char c"
  unfolding good_token_def
proof (elim disjE)
  have "\<forall>t \<in> {''('', '')'', ''and'', ''or'', ''not''}. \<forall>c \<in> set t. line_char c" by code_simp
  then show "t \<in> {''('', '')'', ''and'', ''or'', ''not''} \<Longrightarrow> \<forall>c \<in> set t. line_char c" by blast
qed (rule plain_ident_line)

lemma join_line_chars:
  assumes "\<forall>c \<in> set sep. line_char c" "\<forall>w \<in> set ws. \<forall>c \<in> set w. line_char c"
  shows "\<forall>c \<in> set (join sep ws). line_char c"
  using assms set_join [of sep ws] by blast

lemma show_expr_line: "list_all plain_ident (idents e) \<Longrightarrow> \<forall>c \<in> set (show_expr e). line_char c"
  unfolding show_expr_def using pp_good_tokens [of e LExpr] good_token_line literal_line_chars(9)
  by (intro join_line_chars) (auto simp: list_all_iff)

lemma digit_line_char: "is_digit c \<Longrightarrow> line_char c"
  by (auto simp: line_char_def is_linebreak_def is_digit_def code_def Let_def)

lemma trimmed_line: "s = c # t \<Longrightarrow> \<not> is_space c \<Longrightarrow> \<not> is_space (last s) \<Longrightarrow> strip s = s"
  by (simp add: strip_trimmed)

lemma strip_type_line: "plain_ident t \<Longrightarrow> strip (''type '' @ t) = ''type '' @ t"
proof -
  assume t: "plain_ident t"
  then have "\<not> is_space (last t)" using plain_ident_no_space [of t] plain_ident_nonempty [OF t] by simp
  moreover have "\<not> is_space (CHR ''t'')" by code_simp
  ultimately show ?thesis using plain_ident_nonempty [OF t] by (intro strip_trimmed) simp_all
qed

lemma plain_head: "plain_ident n \<Longrightarrow> \<not> is_space (hd (n @ s))"
  using plain_ident_no_space [of n] plain_ident_nonempty [of n] by (cases n) auto

lemma set_spec_types: "set (spec_types m) = {''user'', ms_type m} \<union> (\<Union>(n, ss) \<in> set (ms_relations m). set ss)"
  unfolding spec_types_def sorted_set_def set_sort set_remdups by (auto simp del: remdups.simps)

lemma spec_line:
  assumes "plain_model m" "l \<in> set (spec_lines m)"
  shows "l \<noteq> [] \<and> strip l = l \<and> (\<forall>c \<in> set l. line_char c)"
proof -
  have heads: "\<not> is_space (CHR ''m'')" "\<not> is_space (CHR '']'')" "\<not> is_space (CHR ''r'')" "\<not> is_space (CHR ''p'')" "\<not> is_space (CHR ''s'')"
    by code_simp+
  have types: "plain_ident t" if t: "t \<in> set (spec_types m)" for t
  proof -
    consider "t = ''user''" | "t = ms_type m" | n ss where "(n, ss) \<in> set (ms_relations m)" "t \<in> set ss"
      using t unfolding set_spec_types by auto
    then show ?thesis
    proof cases
      case 1
      have "plain_ident ''user''" by code_simp
      then show ?thesis by (simp only: 1)
    next
      case 2
      then show ?thesis using assms(1) by (simp add: plain_model_def)
    next
      case (3 n ss)
      then have "list_all plain_ident ss" using assms(1) by (auto simp: plain_model_def)
      then show ?thesis using 3(2) by (simp add: list_all_iff)
    qed
  qed
  consider (header) "l = ''model schema '' @ int_str (ms_version m)"
    | (type) t where "t \<in> set (spec_types m)" "l = ''type '' @ t"
    | (relations) "l = ''relations''"
    | (relation) n ss where "(n, ss) \<in> set (ms_relations m)" "l = n @ '': ['' @ join '', '' ss @ '']''"
    | (permissions) "l = ''permissions''"
    | (permission) n e where "(n, e) \<in> set (ms_permissions m)" "l = n @ '' = '' @ show_expr e"
    using assms(2) by (auto simp: spec_lines_def)
  then show ?thesis
  proof cases
    case header
    have digits: "\<forall>c \<in> set (int_str (ms_version m)). is_digit c"
      using assms(1) nat_str_digits [of "ms_version m"] by (simp add: int_str_def plain_model_def)
    then have "is_digit (last (int_str (ms_version m)))" by simp
    then have "\<not> is_space (last (int_str (ms_version m)))" by (auto simp: is_digit_def is_space_def)
    then have "strip l = l" using header heads by (intro strip_trimmed) simp_all
    then show ?thesis using header digits digit_line_char literal_line_chars(1) by (auto simp only: set_append)
  next
    case type
    then show ?thesis using strip_type_line [OF types] plain_ident_line [OF types] literal_line_chars(2) by auto
  next
    case relations
    have "strip ''relations'' = ''relations''" by code_simp
    then show ?thesis using relations literal_line_chars(3) by simp
  next
    case permissions
    have "strip ''permissions'' = ''permissions''" by code_simp
    then show ?thesis using permissions literal_line_chars(4) by simp
  next
    case relation
    then have n: "plain_ident n" "list_all plain_ident ss" using assms(1) by (auto simp: plain_model_def)
    have "\<forall>c \<in> set (join '', '' ss). line_char c"
      using n(2) plain_ident_line literal_line_chars(8) by (intro join_line_chars) (auto simp: list_all_iff)
    moreover have "strip l = l"
      using relation plain_head [OF n(1)] plain_ident_nonempty [OF n(1)] heads(2) by (intro strip_trimmed) simp_all
    ultimately show ?thesis
      using relation plain_ident_line [OF n(1)] plain_ident_nonempty [OF n(1)] literal_line_chars(5,6) by auto
  next
    case permission
    then have n: "plain_ident n" "list_all plain_ident (idents e)" using assms(1) by (auto simp: plain_model_def)
    have "\<not> is_space (last (show_expr e))" "show_expr e \<noteq> []"
      using join_ends [of "pp LExpr e"] pp_good_tokens [OF n(2), of LExpr] strip_show_expr [OF n(2)]
      by (auto simp: show_expr_def)
    then have "strip l = l" using permission plain_head [OF n(1)] plain_ident_nonempty [OF n(1)] by (intro strip_trimmed) simp_all
    then show ?thesis
      using permission plain_ident_line [OF n(1)] plain_ident_nonempty [OF n(1)] show_expr_line [OF n(2)] literal_line_chars(7)
      by auto
  qed
qed

lemma schema_lines_spec:
  assumes "plain_model m"
  shows "schema_lines (join [char_of (10 :: nat)] (spec_lines m)) = spec_lines m"
proof -
  note line = spec_line [OF assms]
  have "splitlines (join [char_of (10 :: nat)] (spec_lines m)) = spec_lines m"
    using line by (intro splitlines_join) (auto simp: line_char_def spec_lines_def)
  moreover have "map (\<lambda>l. strip (fst (split1 (CHR ''#'') l))) (spec_lines m) = spec_lines m"
  proof (intro map_idI)
    fix l assume l: "l \<in> set (spec_lines m)"
    then have "split1 (CHR ''#'') l = (l, None)" using line [OF l] by (intro split1_absent) (auto simp: line_char_def)
    then show "strip (fst (split1 (CHR ''#'') l)) = l" using line [OF l] by simp
  qed
  ultimately show ?thesis using line by (auto simp: schema_lines_def filter_id_conv)
qed

text \<open>Each kind of line.\<close>

lemma digit_not_space: "is_digit c \<Longrightarrow> \<not> is_space c"
  by (auto simp: is_digit_def is_space_def Let_def)

lemma header_spec:
  assumes "0 \<le> v"
  shows "header_version (''model schema '' @ int_str v) = Some (int_str v)"
proof -
  have digits: "\<forall>c \<in> set (int_str v). is_digit c" using assms nat_str_digits [of v] by (simp add: int_str_def)
  have "\<not> is_space (hd (int_str v))" using digits int_str_nonempty [of v] digit_not_space hd_in_set by blast
  then have strip: "lstrip (int_str v) = int_str v" "lstrip (CHR '' '' # int_str v) = int_str v"
    by (simp_all add: lstrip_def dropWhile_id)
  define B where "B = ''schema '' @ int_str v"
  have h: "''model schema '' @ int_str v = ''model'' @ CHR '' '' # B" by (simp add: B_def)
  have "\<not> is_space (CHR ''s'')" by code_simp
  then have B: "lstrip (CHR '' '' # B) = B" "take 6 B = ''schema''" "drop 6 B = CHR '' '' # int_str v"
    by (simp_all add: B_def lstrip_def)
  have "take 5 (''model'' @ CHR '' '' # B) = ''model''" "drop 5 (''model'' @ CHR '' '' # B) = CHR '' '' # B" by simp_all
  moreover have "lower ''model'' = ''model''" "lower ''schema'' = ''schema''" by code_simp+
  ultimately show ?thesis
    unfolding header_version_def h Let_def using strip digits B by (simp only: list_all_iff) simp
qed

lemma split_char_word: "c \<notin> set w \<Longrightarrow> split_char c (w @ c # s) = w # split_char c s"
  by (induction w) auto

lemma split_char_last: "c \<notin> set w \<Longrightarrow> split_char c w = [w]"
  by (induction w) auto

lemma split_char_nonempty: "split_char c s \<noteq> []"
  by (cases s) (auto split: list.splits)

lemma map_strip_pad: "map strip (split_char (CHR '','') (CHR '' '' # s)) = map strip (split_char (CHR '','') s)"
  using split_char_nonempty [of "CHR '',''" s] by (cases "split_char (CHR '','') s") simp_all

lemma split_subjects:
  assumes "ss \<noteq> []" "list_all plain_ident ss"
  shows "map strip (split_char (CHR '','') (join '', '' ss)) = ss"
  using assms
proof (induction ss)
  case (Cons x ss)
  have comma: "CHR '','' \<notin> set x" if "plain_ident x" for x
  proof -
    have "\<not> is_ident_char (CHR '','')" by code_simp
    then show ?thesis using that by (cases x) (auto simp: plain_ident_def ident_ok_def list_all_iff is_ident_char_def)
  qed
  show ?case
  proof (cases ss)
    case Nil
    then show ?thesis using Cons.prems comma plain_ident_chars by (simp add: split_char_last)
  next
    case (Cons y ys)
    then have "join '', '' (x # ss) = x @ CHR '','' # CHR '' '' # join '', '' ss" by simp
    then have "map strip (split_char (CHR '','') (join '', '' (x # ss)))
        = strip x # map strip (split_char (CHR '','') (CHR '' '' # join '', '' ss))"
      using Cons.prems comma by (simp add: split_char_word)
    then show ?thesis using Cons.IH Cons.prems Cons plain_ident_chars map_strip_pad by simp
  qed
qed simp

lemma parse_relation_spec:
  assumes "plain_ident n" "CHR '':'' \<notin> set n" "ss \<noteq> []" "list_all plain_ident ss"
  shows "parse_relation (n @ '': ['' @ join '', '' ss @ '']'') = Inr (n, ss)"
proof -
  let ?s = "CHR ''['' # join '', '' ss @ '']''"
  have split: "split1 (CHR '':'') (n @ CHR '':'' # CHR '' '' # ?s) = (n, Some (CHR '' '' # ?s))"
    using assms(2) by (rule split1_append)
  have "\<not> is_space (CHR ''['')" "\<not> is_space (CHR '']'')" by code_simp+
  then have "strip ?s = ?s" by (intro strip_trimmed) simp_all
  then have strip: "strip (CHR '' '' # ?s) = ?s" by simp
  have "filter (\<lambda>x. x \<noteq> []) ss = ss" using assms(4) plain_ident_nonempty by (auto simp: list_all_iff filter_id_conv)
  then have subjects: "filter (\<lambda>x. x \<noteq> []) (map strip (split_char (CHR '','') (butlast (tl ?s)))) = ss"
    using split_subjects [OF assms(3,4)] by simp
  have ends: "starts_with ''['' ?s" "ends_with '']'' ?s" by (simp_all add: starts_with_def ends_with_def)
  have line: "n @ '': ['' @ join '', '' ss @ '']'' = n @ CHR '':'' # CHR '' '' # ?s" by simp
  show ?thesis
    unfolding line parse_relation_def split prod.case option.case Let_def strip subjects
    using plain_ident_chars [OF assms(1)] ends assms(3) by simp
qed

lemma lower_append: "lower (s @ t) = lower s @ lower t"
  by (simp add: lower_def)

lemma plain_lower_no_space:
  assumes "plain_ident n"
  shows "CHR '' '' \<notin> set (lower n)"
proof
  assume "CHR '' '' \<in> set (lower n)"
  then obtain c where c: "c \<in> set n" "lower_char c = CHR '' ''" by (auto simp: lower_def)
  have "is_ident_char c" using assms c(1) by (cases n) (auto simp: plain_ident_def ident_ok_def list_all_iff is_ident_char_def)
  then have "code (lower_char c) \<noteq> 32"
    by (auto simp: lower_char_def Let_def is_ident_char_def is_ident_start_def is_digit_def code_def)
  moreover have "code (CHR '' '') = 32" by code_simp
  ultimately show False using c(2) by metis
qed

lemma not_type_line:
  assumes "CHR '' '' \<notin> set p" "p \<noteq> ''type''"
  shows "\<not> starts_with ''type '' (p @ CHR '' '' # s)"
proof
  assume "starts_with ''type '' (p @ CHR '' '' # s)"
  then obtain r where "p @ CHR '' '' # s = ''type '' @ r" unfolding starts_with_def by (metis append_take_drop_id)
  then have "p @ CHR '' '' # s = ''type'' @ CHR '' '' # r" by simp
  moreover have "CHR '' '' \<notin> set ''type''" by simp
  ultimately show False using append_sep_inj [OF _ assms(1)] assms(2) by blast
qed

lemma lower_punctuation: "lower '': ['' = '': [''" "lower '' = '' = '' = ''"
  by code_simp+

section \<open>The round trip\<close>

lemma lower_chars [simp]:
  "lower_char (CHR '' '') = CHR '' ''" "lower_char (CHR '':'') = CHR '':''" "lower_char (CHR ''['') = CHR ''[''"
  "lower_char (CHR ''='') = CHR ''=''" "lower_char (CHR ''t'') = CHR ''t''" "lower_char (CHR ''y'') = CHR ''y''"
  "lower_char (CHR ''p'') = CHR ''p''" "lower_char (CHR ''e'') = CHR ''e''"
  by code_simp+

lemma parse_type_lines:
  assumes "\<forall>t \<in> set ts. plain_ident t"
  shows "parse_lines sch section (map (\<lambda>t. ''type '' @ t) ts @ rest)
    = parse_lines (sch\<lparr>sch_types := sch_types sch @ ts\<rparr>) section rest"
  using assms
proof (induction ts arbitrary: sch)
  case (Cons t ts)
  have lower: "lower (''type '' @ t) = ''type '' @ lower t" by (simp add: lower_eval)
  then have not: "lower (''type '' @ t) \<noteq> ''relations''" "lower (''type '' @ t) \<noteq> ''permissions''" by (simp_all add: lower_eval)
  have "\<not> is_space (CHR ''t'')" by code_simp
  moreover have "\<not> is_space (CHR ''y'')" "\<not> is_space (CHR ''p'')" "\<not> is_space (CHR ''e'')" by code_simp+
  ultimately have "after_first_word (''type '' @ t) = strip (CHR '' '' # t)"
    by (simp add: after_first_word_def lstrip_def)
  also have "\<dots> = t" using Cons.prems plain_ident_chars by simp
  finally have word: "after_first_word (''type '' @ t) = t" .
  have "starts_with ''type '' (lower (''type '' @ t))" unfolding lower by (rule starts_with_append)
  then have "parse_lines sch section ((''type '' @ t) # (map (\<lambda>t. ''type '' @ t) ts @ rest))
      = parse_lines (sch\<lparr>sch_types := sch_types sch @ [t]\<rparr>) section (map (\<lambda>t. ''type '' @ t) ts @ rest)"
    unfolding parse_lines.simps(2) Let_def using not by (simp only: word if_False if_True simp_thms)
  then show ?case using Cons by simp
qed simp

lemma parse_relation_lines:
  assumes "\<forall>(n, ss) \<in> set rs. plain_ident n \<and> CHR '':'' \<notin> set n \<and> ss \<noteq> [] \<and> list_all plain_ident ss"
    "distinct (map fst rs)" "fst ` set (sch_relations sch) \<inter> fst ` set rs = {}"
  shows "parse_lines sch (Some ''relations'') (map (\<lambda>(n, ss). n @ '': ['' @ join '', '' ss @ '']'') rs @ rest)
    = parse_lines (sch\<lparr>sch_relations := sch_relations sch @ rs\<rparr>) (Some ''relations'') rest"
  using assms
proof (induction rs arbitrary: sch)
  case (Cons r rs)
  obtain n ss where r: "r = (n, ss)" by (cases r)
  define line where "line = n @ '': ['' @ join '', '' ss @ '']''"
  have n: "plain_ident n" "CHR '':'' \<notin> set n" "ss \<noteq> []" "list_all plain_ident ss" using Cons.prems(1) r by auto
  define s where "s = lower (CHR ''['' # join '', '' ss @ '']'')"
  have lower: "lower line = (lower n @ '':'') @ CHR '' '' # s" by (simp add: line_def s_def lower_append lower_eval)
  have "CHR '':'' \<in> set (lower line)" by (simp add: lower)
  moreover have "CHR '':'' \<notin> set ''relations''" "CHR '':'' \<notin> set ''permissions''" by simp_all
  ultimately have not: "lower line \<noteq> ''relations''" "lower line \<noteq> ''permissions''" by metis+
  have "CHR '' '' \<notin> set (lower n @ '':'')" "lower n @ '':'' \<noteq> ''type''"
    using plain_lower_no_space [OF n(1)] by (simp, auto simp: append_eq_Cons_conv)
  then have type: "\<not> starts_with ''type '' (lower line)" unfolding lower by (rule not_type_line)
  have rel: "parse_relation line = Inr (n, ss)" unfolding line_def using n by (rule parse_relation_spec)
  have "dset (sch_relations sch) n ss = sch_relations sch @ [(n, ss)]" using Cons.prems(3) r by (intro dset_new) auto
  then have "parse_lines sch (Some ''relations'') (line # (map (\<lambda>(n, ss). n @ '': ['' @ join '', '' ss @ '']'') rs @ rest))
      = parse_lines (sch\<lparr>sch_relations := sch_relations sch @ [(n, ss)]\<rparr>) (Some ''relations'')
          (map (\<lambda>(n, ss). n @ '': ['' @ join '', '' ss @ '']'') rs @ rest)"
    unfolding parse_lines.simps(2) Let_def using not type by (simp only: rel if_False if_True simp_thms ebind_Inr prod.case)
  also have "\<dots> = parse_lines (sch\<lparr>sch_relations := sch_relations sch @ r # rs\<rparr>) (Some ''relations'') rest"
    using Cons.IH [of "sch\<lparr>sch_relations := sch_relations sch @ [(n, ss)]\<rparr>"] Cons.prems r by auto
  finally show ?case by (simp add: r line_def)
qed simp

lemma parse_permission_lines:
  assumes "\<forall>(n, e) \<in> set ps. plain_ident n \<and> lower n \<noteq> ''type'' \<and> list_all plain_ident (idents e)"
    "distinct (map fst ps)" "fst ` set (sch_permissions sch) \<inter> fst ` set ps = {}"
  shows "parse_lines sch (Some ''permissions'') (map (\<lambda>(n, e). n @ '' = '' @ show_expr e) ps)
    = Inr (sch\<lparr>sch_permissions := sch_permissions sch @ ps\<rparr>)"
  using assms
proof (induction ps arbitrary: sch)
  case (Cons p ps)
  obtain n e where p: "p = (n, e)" by (cases p)
  define line where "line = n @ '' = '' @ show_expr e"
  have n: "plain_ident n" "lower n \<noteq> ''type''" "list_all plain_ident (idents e)" using Cons.prems(1) p by auto
  have lower: "lower line = lower n @ CHR '' '' # ''= '' @ lower (show_expr e)" by (simp add: line_def lower_append lower_eval)
  have "CHR ''='' \<in> set (lower line)" by (simp add: lower)
  moreover have "CHR ''='' \<notin> set ''relations''" "CHR ''='' \<notin> set ''permissions''" by simp_all
  ultimately have not: "lower line \<noteq> ''relations''" "lower line \<noteq> ''permissions''" by metis+
  have type: "\<not> starts_with ''type '' (lower line)"
    unfolding lower using plain_lower_no_space [OF n(1)] n(2) by (rule not_type_line)
  have perm: "parse_permission line = Inr (n, e)" unfolding line_def using n(1,3) by (rule parse_permission_show)
  have "dset (sch_permissions sch) n e = sch_permissions sch @ [(n, e)]" using Cons.prems(3) p by (intro dset_new) auto
  then have "parse_lines sch (Some ''permissions'') (line # map (\<lambda>(n, e). n @ '' = '' @ show_expr e) ps)
      = parse_lines (sch\<lparr>sch_permissions := sch_permissions sch @ [(n, e)]\<rparr>) (Some ''permissions'')
          (map (\<lambda>(n, e). n @ '' = '' @ show_expr e) ps)"
    unfolding parse_lines.simps(2) Let_def using not type
    by (simp only: perm if_False if_True simp_thms ebind_Inr prod.case) simp
  also have "\<dots> = Inr (sch\<lparr>sch_permissions := sch_permissions sch @ p # ps\<rparr>)"
    using Cons.IH [of "sch\<lparr>sch_permissions := sch_permissions sch @ [(n, e)]\<rparr>"] Cons.prems p by auto
  finally show ?case by (simp add: p line_def)
qed simp

lemma parse_section_line:
  "parse_lines sch section (''relations'' # rest) = parse_lines sch (Some ''relations'') rest"
  "parse_lines sch section (''permissions'' # rest) = parse_lines sch (Some ''permissions'') rest"
proof -
  have "lower ''relations'' = ''relations''" "lower ''permissions'' = ''permissions''" by code_simp+
  then show "parse_lines sch section (''relations'' # rest) = parse_lines sch (Some ''relations'') rest"
    "parse_lines sch section (''permissions'' # rest) = parse_lines sch (Some ''permissions'') rest"
    by (simp_all add: Let_def)
qed

text \<open>
  C34. A model mapping of a YAML, JSON or TOML file turns into a schema text that parses back to the
  mapping: its version, its relations with their subjects and its permissions with their expressions,
  over the types it names. A permission named \<open>type\<close> is excluded: its line would be read as a type.
\<close>

theorem model_mapping_roundtrip:
  assumes "plain_model m"
  shows "\<exists>text. model_mapping_to_schema (spec_document m) = Inr text
    \<and> parse_authorization_schema text = Inr \<lparr>sch_version = ms_version m, sch_types = spec_types m,
        sch_relations = ms_relations m, sch_permissions = ms_permissions m, sch_raw = text\<rparr>"
proof -
  define schema_text where "schema_text = join [char_of (10 :: nat)] (spec_lines m)"
  have lines: "schema_lines schema_text = spec_lines m" unfolding schema_text_def using assms by (rule schema_lines_spec)
  have v: "0 \<le> ms_version m" "\<bar>ms_version m\<bar> < 10 ^ 18" using assms by (auto simp: plain_model_def)
  have version: "py_int (PStr (int_str (ms_version m))) = Inr (ms_version m)" by (simp add: py_int_def parse_int_str [OF v(2)])
  have header: "header_version (''model schema '' @ int_str (ms_version m)) = Some (int_str (ms_version m))"
    using v(1) by (rule header_spec)
  define R where "R = map (\<lambda>(n, ss). n @ '': ['' @ join '', '' ss @ '']'') (ms_relations m)"
  define P where "P = map (\<lambda>(n, e). n @ '' = '' @ show_expr e) (ms_permissions m)"
  define T where "T = map (\<lambda>t. ''type '' @ t) (spec_types m)"
  have body: "spec_lines m = (''model schema '' @ int_str (ms_version m)) # T @ ''relations'' # R @ ''permissions'' # P"
    by (simp add: spec_lines_def R_def P_def T_def)
  let ?sch = "\<lparr>sch_version = ms_version m, sch_types = [], sch_relations = [], sch_permissions = [], sch_raw = schema_text\<rparr>"
  have types: "\<forall>t \<in> set (spec_types m). plain_ident t"
  proof -
    have "plain_ident ''user''" by code_simp
    moreover have "plain_ident (ms_type m)" "\<forall>(n, ss) \<in> set (ms_relations m). \<forall>t \<in> set ss. plain_ident t"
      using assms by (auto simp: plain_model_def list_all_iff)
    ultimately show ?thesis unfolding set_spec_types by blast
  qed
  let ?sch2 = "?sch\<lparr>sch_types := spec_types m\<rparr>"
  let ?sch3 = "?sch2\<lparr>sch_relations := ms_relations m\<rparr>"
  have "parse_lines ?sch None (T @ ''relations'' # R @ ''permissions'' # P)
      = parse_lines ?sch2 (Some ''relations'') (R @ ''permissions'' # P)"
    unfolding T_def parse_type_lines [OF types] parse_section_line by simp
  also have "\<dots> = parse_lines (?sch2\<lparr>sch_relations := sch_relations ?sch2 @ ms_relations m\<rparr>) (Some ''relations'')
      (''permissions'' # P)"
    unfolding R_def using assms by (intro parse_relation_lines) (auto simp: plain_model_def)
  also have "\<dots> = parse_lines ?sch3 (Some ''permissions'') P" unfolding parse_section_line by simp
  also have "\<dots> = Inr (?sch3\<lparr>sch_permissions := ms_permissions m\<rparr>)"
    unfolding P_def using assms by (subst parse_permission_lines) (auto simp: plain_model_def)
  finally have parsed: "parse_lines ?sch None (T @ ''relations'' # R @ ''permissions'' # P)
      = Inr (?sch3\<lparr>sch_permissions := ms_permissions m\<rparr>)" .
  have "parse_authorization_schema schema_text = ebind (py_int (PStr (int_str (ms_version m)))) (\<lambda>version. parse_lines
      \<lparr>sch_version = version, sch_types = [], sch_relations = [], sch_permissions = [], sch_raw = schema_text\<rparr> None
      (T @ ''relations'' # R @ ''permissions'' # P))"
    unfolding parse_authorization_schema_def lines body list.case header option.case ..
  then have "parse_authorization_schema schema_text = Inr \<lparr>sch_version = ms_version m, sch_types = spec_types m,
        sch_relations = ms_relations m, sch_permissions = ms_permissions m, sch_raw = schema_text\<rparr>"
    by (simp add: version parsed)
  moreover have "model_mapping_to_schema (spec_document m) = Inr schema_text" unfolding schema_text_def using assms by (rule mapping_text)
  ultimately show ?thesis by blast
qed

theorem model_mapping_roundtrip_witness:
  "\<exists>text. model_mapping_to_schema (spec_document \<lparr>ms_version = 2, ms_type = ''document'',
       ms_relations = [(''owner'', [''user'']), (''team'', [''group'', ''user''])],
       ms_permissions = [(''view'', OrExpr (IdentifierExpr ''owner'') (IdentifierExpr ''team''))]\<rparr>) = Inr text
    \<and> parse_authorization_schema text = Inr \<lparr>sch_version = 2, sch_types = [''document'', ''group'', ''user''],
        sch_relations = [(''owner'', [''user'']), (''team'', [''group'', ''user''])],
        sch_permissions = [(''view'', OrExpr (IdentifierExpr ''owner'') (IdentifierExpr ''team''))], sch_raw = text\<rparr>"
proof -
  let ?m = "\<lparr>ms_version = 2, ms_type = ''document'',
       ms_relations = [(''owner'', [''user'']), (''team'', [''group'', ''user''])],
       ms_permissions = [(''view'', OrExpr (IdentifierExpr ''owner'') (IdentifierExpr ''team''))]\<rparr>"
  have "plain_model ?m" by code_simp
  moreover have "spec_types ?m = [''document'', ''group'', ''user'']" by code_simp
  ultimately show ?thesis using model_mapping_roundtrip [of ?m] by simp
qed

end
