(* ===== verification/Conditions.thy ===== *)
theory Conditions
  imports AuthInput
begin

text \<open>
  \<open>ConditionEvaluator\<close> of \<open>engine/keynetra_engine.py\<close>: one definition per \<open>handle_*\<close> method, the
  dispatch by name, and the loop of \<open>evaluate\<close>. A handler answers with a truth value and an
  optional reason; it raises where the Python does (an integer too large for \<open>float()\<close>, an
  unhashable field name).
\<close>

type_synonym verdict = "bool \<times> string option"

text \<open>\<open>ok, None if ok else reason\<close>\<close>

definition verdict_of :: "bool \<Rightarrow> string \<Rightarrow> verdict" where
  "verdict_of ok reason = (ok, if ok then None else Some reason)"

definition handle_role :: "pyval \<Rightarrow> authorization_input \<Rightarrow> verdict result" where
  "handle_role value inp =
     (let user = in_user inp in
      if py_eq (pget user ''role'') value then Inr (True, None)
      else let roles = dget_or user ''roles'' (PList []);
               ok = is_list roles \<and> py_in value (list_items roles)
           in Inr (verdict_of ok ''role mismatch''))"

text \<open>\<open>except (TypeError, ValueError): return fallback\<close>\<close>

definition on_type_or_value_error :: "'a result \<Rightarrow> 'a \<Rightarrow> 'a result" where
  "on_type_or_value_error r fallback = (case r of
     Inl (TypeError _) \<Rightarrow> Inr fallback
   | Inl (ValueError _) \<Rightarrow> Inr fallback
   | Inl (AttributeValidationError _) \<Rightarrow> Inr fallback
   | _ \<Rightarrow> r)"

definition handle_max_amount :: "pyval \<Rightarrow> authorization_input \<Rightarrow> verdict result" where
  "handle_max_amount value inp =
     (let amount = dget_or (in_resource inp) ''amount'' (PInt 0) in
      on_type_or_value_error
        (ebind (py_float amount) (\<lambda>a. ebind (py_float value) (\<lambda>b.
           Inr (verdict_of (num_le a b) ''max_amount exceeded''))))
        (False, Some ''invalid amount''))"

definition handle_owner_only :: "pyval \<Rightarrow> authorization_input \<Rightarrow> verdict result" where
  "handle_owner_only value inp =
     (if \<not> truthy value then Inr (True, None)
      else Inr (verdict_of (py_eq (pget (in_resource inp) ''owner_id'') (pget (in_user inp) ''id''))
             ''owner mismatch''))"

text \<open>
  \<open>datetime.strptime(s, "%H:%M").time()\<close>, as minutes after midnight: one or two digits for the
  hour (at most 23), a colon, one or two digits for the minute (at most 59).
\<close>

definition small_number :: "int \<Rightarrow> string \<Rightarrow> int option" where
  "small_number bound s =
     (if (length s = 1 \<or> length s = 2) \<and> list_all is_digit s \<and> digits_val s \<le> bound
      then Some (digits_val s) else None)"

definition parse_hhmm :: "string \<Rightarrow> int option" where
  "parse_hhmm s = (case split1 (CHR '':'') s of
     (h, Some m) \<Rightarrow> (case (small_number 23 h, small_number 59 m) of
        (Some a, Some b) \<Rightarrow> Some (60 * a + b) | _ \<Rightarrow> None)
   | (_, None) \<Rightarrow> None)"

definition in_time_window :: "int \<Rightarrow> int \<Rightarrow> int \<Rightarrow> bool" where
  "in_time_window start stop now =
     (if start \<le> stop then start \<le> now \<and> now \<le> stop else now \<ge> start \<or> now \<le> stop)"

definition handle_time_range :: "pyval \<Rightarrow> authorization_input \<Rightarrow> verdict result" where
  "handle_time_range value inp = (case value of
     PDict v \<Rightarrow>
       (case (pget v ''start'', pget v ''end'') of
          (PStr start, PStr end_) \<Rightarrow>
            (case pget (in_context inp) ''current_time'' of
               PStr current \<Rightarrow>
                 (case (parse_hhmm start, parse_hhmm end_, parse_hhmm current) of
                    (Some a, Some b, Some c) \<Rightarrow> Inr (verdict_of (in_time_window a b c) ''time_range mismatch'')
                  | _ \<Rightarrow> Inr (False, Some ''invalid time_range''))
             | _ \<Rightarrow> Inr (False, Some ''missing context.current_time''))
        | _ \<Rightarrow> Inr (False, Some ''invalid time_range''))
   | _ \<Rightarrow> Inr (False, Some ''invalid time_range''))"

definition handle_geo_match :: "pyval \<Rightarrow> authorization_input \<Rightarrow> verdict result" where
  "handle_geo_match value inp = (case value of
     PDict v \<Rightarrow>
       (let user_field = dget_or v ''user_field'' (PStr ''country'');
            resource_field = dget_or v ''resource_field'' (PStr ''country'')
        in ebind (get_by_value (in_user inp) user_field) (\<lambda>u.
             if u = PNone then Inr (False, Some ''geo mismatch'')
             else ebind (get_by_value (in_resource inp) resource_field) (\<lambda>r.
               Inr (verdict_of (py_eq u r) ''geo mismatch''))))
   | _ \<Rightarrow> Inr (False, Some ''invalid geo_match''))"

text \<open>The edge test inside the loop of \<open>handle_has_relation\<close>.\<close>

definition edge_matches :: "string \<Rightarrow> string \<Rightarrow> string \<Rightarrow> pyval \<Rightarrow> bool" where
  "edge_matches relation object_type object_id edge = (case edge of
     PDict e \<Rightarrow> py_eq (pget e ''relation'') (PStr relation)
        \<and> py_eq (pget e ''object_type'') (PStr object_type)
        \<and> py_str (pget e ''object_id'') = object_id
   | _ \<Rightarrow> False)"

definition handle_has_relation :: "pyval \<Rightarrow> authorization_input \<Rightarrow> verdict result" where
  "handle_has_relation value inp = (case value of
     PDict v \<Rightarrow>
       (let object_id0 = pget v ''object_id'';
            object_id = (case (object_id0, pget v ''object_id_from_resource'') of
               (PNone, PStr f) \<Rightarrow> pget (in_resource inp) f | _ \<Rightarrow> object_id0)
        in case (pget v ''relation'', pget v ''object_type'') of
             (PStr relation, PStr object_type) \<Rightarrow>
               if object_id = PNone then Inr (False, Some ''invalid has_relation'')
               else (case dget_or (in_user inp) ''relations'' (PList []) of
                   PList relations \<Rightarrow>
                     Inr (verdict_of (list_ex (edge_matches relation object_type (py_str object_id)) relations)
                            ''relation mismatch'')
                 | _ \<Rightarrow> Inr (False, Some ''no relations''))
           | _ \<Rightarrow> Inr (False, Some ''invalid has_relation''))
   | _ \<Rightarrow> Inr (False, Some ''invalid has_relation''))"

text \<open>\<open>getattr(self, f"handle_{key}", None)\<close>\<close>

definition handler :: "string \<Rightarrow> (pyval \<Rightarrow> authorization_input \<Rightarrow> verdict result) option" where
  "handler key =
     (if key = ''role'' then Some handle_role
      else if key = ''max_amount'' then Some handle_max_amount
      else if key = ''owner_only'' then Some handle_owner_only
      else if key = ''time_range'' then Some handle_time_range
      else if key = ''geo_match'' then Some handle_geo_match
      else if key = ''has_relation'' then Some handle_has_relation
      else None)"

fun evaluate_conditions :: "pydict \<Rightarrow> authorization_input \<Rightarrow> verdict result" where
  "evaluate_conditions [] inp = Inr (True, None)"
| "evaluate_conditions ((key, value) # conditions) inp = (case handler key of
     None \<Rightarrow> Inr (False, Some (''unknown condition: '' @ key))
   | Some h \<Rightarrow> ebind (h value inp) (\<lambda>(ok, reason).
       if \<not> ok then Inr (False, Some (str_or reason (key @ '' mismatch'')))
       else evaluate_conditions conditions inp))"

section \<open>When conditions hold\<close>

text \<open>A single condition holds when its handler exists, does not raise and answers true.\<close>

definition condition_holds :: "string \<Rightarrow> pyval \<Rightarrow> authorization_input \<Rightarrow> bool" where
  "condition_holds key value inp = (case handler key of None \<Rightarrow> False
     | Some h \<Rightarrow> (case h value inp of Inr (ok, _) \<Rightarrow> ok | Inl _ \<Rightarrow> False))"

lemma evaluate_conditions_true:
  "(\<exists>r. evaluate_conditions cs inp = Inr (True, r)) \<longleftrightarrow>
   (\<forall>(k, v) \<in> set cs. condition_holds k v inp)"
proof (induction cs)
  case (Cons c cs)
  obtain k v where c: "c = (k, v)" by (cases c)
  show ?case
  proof (cases "handler k")
    case (Some h)
    show ?thesis
    proof (cases "h v inp")
      case (Inr x)
      with Some c Cons.IH show ?thesis by (cases x) (auto simp: condition_holds_def)
    qed (use Some c in \<open>auto simp: condition_holds_def\<close>)
  qed (use c in \<open>auto simp: condition_holds_def\<close>)
qed simp

lemma evaluate_conditions_reason:
  "evaluate_conditions cs inp = Inr (ok, r) \<Longrightarrow> ok = (r = None)"
  by (induction cs) (auto simp: ebind_eq_Inr split: option.splits if_splits)

lemma evaluate_conditions_append:
  "evaluate_conditions (cs @ ds) inp = ebind (evaluate_conditions cs inp)
     (\<lambda>(ok, r). if ok then evaluate_conditions ds inp else Inr (ok, r))"
proof (induction cs)
  case (Cons c cs)
  then show ?case
    by (cases c) (auto simp: ebind_def split: option.splits sum.splits)
qed simp

text \<open>
  A conjunction: \<open>evaluate\<close> answers true exactly when every condition has a handler that
  answers true without raising, whatever the order; otherwise it stops at the first condition
  that fails, and only at it, with a reason.
\<close>

lemma evaluate_is_conjunction:
  "(\<exists>r. evaluate_conditions cs inp = Inr (True, r)) = (\<forall>(k, v) \<in> set cs. condition_holds k v inp)
   \<and> (evaluate_conditions cs inp = Inr (False, r) \<longrightarrow>
       r \<noteq> None \<and> (\<exists>pre k v post. cs = pre @ (k, v) # post
          \<and> (\<forall>(k', v') \<in> set pre. condition_holds k' v' inp) \<and> \<not> condition_holds k v inp))"
proof (intro conjI impI)
  show "(\<exists>r. evaluate_conditions cs inp = Inr (True, r)) = (\<forall>(k, v) \<in> set cs. condition_holds k v inp)"
    by (rule evaluate_conditions_true)
next
  assume e: "evaluate_conditions cs inp = Inr (False, r)"
  then show "r \<noteq> None" using evaluate_conditions_reason by blast
  have "\<not> (\<forall>(k, v) \<in> set cs. condition_holds k v inp)"
    using e evaluate_conditions_true [of cs inp] by auto
  then obtain c pre post where "cs = pre @ c # post" "\<not> (case c of (k, v) \<Rightarrow> condition_holds k v inp)"
    "\<forall>x \<in> set pre. (case x of (k, v) \<Rightarrow> condition_holds k v inp)"
    using split_list_first_prop [of cs "\<lambda>c. \<not> (case c of (k, v) \<Rightarrow> condition_holds k v inp)"] by blast
  then show "\<exists>pre k v post. cs = pre @ (k, v) # post
      \<and> (\<forall>(k', v') \<in> set pre. condition_holds k' v' inp) \<and> \<not> condition_holds k v inp"
    by (cases c) auto
qed

lemma evaluate_is_conjunction_example:
  "\<exists>pre k v post. [(''owner_only'', PBool False), (''nope'', PNone)] = pre @ (k, v) # post
     \<and> (\<forall>(k', v') \<in> set pre. condition_holds k' v' (plain_input [] [] ''read'' []))
     \<and> \<not> condition_holds k v (plain_input [] [] ''read'' [])"
  using evaluate_is_conjunction [of "[(''owner_only'', PBool False), (''nope'', PNone)]"
      "plain_input [] [] ''read'' []" "Some ''unknown condition: nope''"]
  by (simp add: handler_def handle_owner_only_def)

section \<open>Single conditions\<close>

lemma handler_eval [simp]:
  "handler ''role'' = Some handle_role" "handler ''max_amount'' = Some handle_max_amount"
  "handler ''owner_only'' = Some handle_owner_only" "handler ''time_range'' = Some handle_time_range"
  "handler ''geo_match'' = Some handle_geo_match" "handler ''has_relation'' = Some handle_has_relation"
  "handler ''policy_key'' = None"
  by (simp_all add: handler_def)

text \<open>
  The amount limit on integers: up to the range where every integer is a double, the
  condition compares the integers themselves.
\<close>

lemma max_amount_integers:
  assumes "\<bar>a\<bar> \<le> 9007199254740992" "\<bar>b\<bar> \<le> 9007199254740992"
    and "dget (in_resource inp) ''amount'' = Some (PInt a)"
  shows "handle_max_amount (PInt b) inp
     = Inr (if a \<le> b then (True, None) else (False, Some ''max_amount exceeded''))"
  using assms by (simp add: handle_max_amount_def dget_or_def py_float_int_exact
      on_type_or_value_error_def verdict_of_def)

lemma max_amount_integers_example:
  "handle_max_amount (PInt 100) (plain_input [] [(''amount'', PInt 250)] ''pay'' [])
     = Inr (False, Some ''max_amount exceeded'')"
  using max_amount_integers [of 250 100 "plain_input [] [(''amount'', PInt 250)] ''pay'' []"]
  by (simp add: plain_input_def)

text \<open>
  A resource amount beyond the largest double makes the handler raise: the
  \<open>OverflowError\<close> of \<open>float()\<close> is not among the exceptions it catches, so the condition neither
  holds nor fails.
\<close>

lemma max_amount_overflow:
  assumes "dget (in_resource inp) ''amount'' = Some (PInt a)" and "2 ^ 1024 \<le> a"
  shows "handle_max_amount value inp = Inl (OverflowError ''int too large to convert to float'')"
  using assms(1) py_float_overflow [OF assms(2)]
  by (simp add: handle_max_amount_def dget_or_def on_type_or_value_error_def)

lemma max_amount_overflow_example:
  "handle_max_amount (PInt 5) (plain_input [] [(''amount'', PInt (2 ^ 1024))] ''pay'' [])
     = Inl (OverflowError ''int too large to convert to float'')"
  by (rule max_amount_overflow [where a = "2 ^ 1024"]) (simp_all add: plain_input_def
      del: power_numeral power_numeral_even)

text \<open>
  Ownership: with an identified user the condition holds exactly when the resource names
  that user as its owner; with neither an owner nor a user id it holds as well, since the two
  missing values compare equal.
\<close>

lemma owner_only_cases:
  "condition_holds ''owner_only'' (PBool True) inp
     = py_eq (pget (in_resource inp) ''owner_id'') (pget (in_user inp) ''id'')
   \<and> (dget (in_resource inp) ''owner_id'' = None \<and> dget (in_user inp) ''id'' = None \<longrightarrow>
       condition_holds ''owner_only'' (PBool True) inp)
   \<and> (dget (in_resource inp) ''owner_id'' = None \<and> dget (in_user inp) ''id'' = Some (PInt i) \<longrightarrow>
       \<not> condition_holds ''owner_only'' (PBool True) inp)"
  by (simp add: condition_holds_def handle_owner_only_def verdict_of_def num_same_def)

lemma owner_only_cases_example:
  "condition_holds ''owner_only'' (PBool True) (plain_input [] [] ''read'' [])
   \<and> \<not> condition_holds ''owner_only'' (PBool True) (plain_input [(''id'', PInt 7)] [] ''read'' [])"
  using owner_only_cases [of "plain_input [] [] ''read'' []" 7]
    owner_only_cases [of "plain_input [(''id'', PInt 7)] [] ''read'' []" 7]
  by (simp add: plain_input_def)

text \<open>
  The time window wraps around midnight: a window and its complement (the open window from
  its end to its start) cover the day, and for a start after the end the times allowed are those
  from the start to midnight and from midnight to the end.
\<close>

lemma time_window_wraps:
  assumes "0 \<le> now" "now < 1440" "0 \<le> start" "start < 1440" "0 \<le> stop" "stop < 1440"
  shows "in_time_window start stop now = ((now - start) mod 1440 \<le> (stop - start) mod 1440)"
proof -
  have m: "(x - y) mod 1440 = (if y \<le> x then x - y else x - y + 1440)"
    if "0 \<le> x" "x < 1440" "0 \<le> y" "y < 1440" for x y :: int
  proof (cases "y \<le> x")
    case False
    have "(x - y) mod 1440 = (x - y + 1440) mod 1440" by simp
    also have "\<dots> = x - y + 1440" using that False by (intro mod_pos_pos_trivial) auto
    finally show ?thesis using False by simp
  qed (use that in \<open>simp add: mod_pos_pos_trivial\<close>)
  show ?thesis using assms by (auto simp: in_time_window_def m)
qed

lemma time_window_wraps_example:
  "in_time_window 1320 360 30 \<and> \<not> in_time_window 1320 360 720"
  using time_window_wraps [of 30 1320 360] time_window_wraps [of 720 1320 360] by simp

end
