(* ===== verification/DecisionGraph.thy ===== *)
theory DecisionGraph
  imports Conditions
begin

text \<open>
  Compiled policies: \<open>engine/compiled/policy_compiler.py\<close> (compilation of policy definitions into
  nodes), \<open>DecisionGraph.evaluate\<close> and \<open>CompiledPolicyStore\<close> of
  \<open>engine/compiled/decision_graph.py\<close>. Every caller of \<open>compile_policy_graph\<close> passes the five
  fields of policy definitions, so its input is a list of them.
\<close>

section \<open>Compilation\<close>

record policy_ast =
  ast_action :: string
  ast_effect :: decision_value
  ast_priority :: int
  ast_policy_id :: "string option"
  ast_conditions :: pydict

text \<open>\<open>f"{action}:{priority}:{effect}"\<close>\<close>

definition default_policy_id :: "string \<Rightarrow> int \<Rightarrow> decision_value \<Rightarrow> string" where
  "default_policy_id action priority effect =
     action @ '':'' @ int_str priority @ '':'' @ decision_text effect"

definition compile_policy_ast :: "policy_ast \<Rightarrow> policy_node" where
  "compile_policy_ast ast =
     \<lparr>node_policy_id = Some (str_or (ast_policy_id ast)
        (default_policy_id (ast_action ast) (ast_priority ast) (ast_effect ast))),
      node_action = ast_action ast, node_effect = ast_effect ast, node_priority = ast_priority ast,
      node_checks = filter (\<lambda>(key, value). key \<noteq> ''policy_key'') (ast_conditions ast)\<rparr>"

definition ast_of :: "policy_definition \<Rightarrow> policy_ast" where
  "ast_of p = \<lparr>ast_action = pd_action p, ast_effect = pd_effect p, ast_priority = pd_priority p,
     ast_policy_id = pd_policy_id p, ast_conditions = pd_conditions p\<rparr>"

definition compile_policy_graph :: "policy_definition list \<Rightarrow> decision_graph" where
  "compile_policy_graph policies =
     \<lparr>dg_nodes = map compile_policy_ast (sort_key ast_priority (map ast_of policies))\<rparr>"

section \<open>Evaluation\<close>

text \<open>The closure \<open>evaluate\<close> of \<open>compile_policy_ast\<close>, over the checks it captured.\<close>

fun run_checks :: "pydict \<Rightarrow> authorization_input \<Rightarrow> verdict result" where
  "run_checks [] inp = Inr (True, None)"
| "run_checks ((key, value) # checks) inp = (case handler key of
     None \<Rightarrow> Inr (False, Some (''unknown condition: '' @ key))
   | Some h \<Rightarrow> ebind (h value inp) (\<lambda>(matched, reason).
       if \<not> matched then Inr (False, Some (str_or reason (key @ '' mismatch'')))
       else run_checks checks inp))"

definition node_evaluate :: "policy_node \<Rightarrow> authorization_input \<Rightarrow> verdict result" where
  "node_evaluate node inp = run_checks (node_checks node) inp"

record graph_decision =
  gd_outcome :: stage_outcome
  gd_reason :: "string option"
  gd_policy_id :: "string option"

fun graph_loop :: "policy_node list \<Rightarrow> authorization_input \<Rightarrow> string option \<Rightarrow> graph_decision result"
where
  "graph_loop [] inp first_reason = Inr (case first_reason of
       Some r \<Rightarrow> \<lparr>gd_outcome = SDeny, gd_reason = Some r, gd_policy_id = None\<rparr>
     | None \<Rightarrow> \<lparr>gd_outcome = SAbstain, gd_reason = None, gd_policy_id = None\<rparr>)"
| "graph_loop (node # nodes) inp first_reason =
     (if node_action node \<noteq> in_action inp then graph_loop nodes inp first_reason
      else ebind (node_evaluate node inp) (\<lambda>(matched, reason).
        if matched then
          Inr \<lparr>gd_outcome = outcome_of (node_effect node),
               gd_reason = Some (str_or reason (''matched policy '' @ str_or (node_policy_id node) (node_action node))),
               gd_policy_id = node_policy_id node\<rparr>
        else graph_loop nodes inp (if first_reason = None \<and> reason \<noteq> None then reason else first_reason)))"

definition graph_evaluate :: "decision_graph \<Rightarrow> authorization_input \<Rightarrow> graph_decision result" where
  "graph_evaluate g inp = graph_loop (dg_nodes g) inp None"

section \<open>Compiled checks against the evaluator\<close>

lemma run_checks_conditions: "run_checks cs inp = evaluate_conditions cs inp"
  by (induction cs) (auto simp: ebind_def split: option.splits sum.splits)

lemma compile_policy_core:
  "node_evaluate (compile_policy_ast (ast_of p)) inp
     = evaluate_conditions (dpop (pd_conditions p) ''policy_key'') inp"
  "node_action (compile_policy_ast (ast_of p)) = pd_action p"
  "node_effect (compile_policy_ast (ast_of p)) = pd_effect p"
  "node_priority (compile_policy_ast (ast_of p)) = pd_priority p"
  by (simp_all add: node_evaluate_def compile_policy_ast_def ast_of_def run_checks_conditions dpop_def)

text \<open>
  C36. Compilation is sound and complete: the compiled node of a policy evaluates to what the
  interpreter \<open>ConditionEvaluator.evaluate\<close> gives for the policy's conditions without the
  metadata key \<open>policy_key\<close>, exceptions and reasons included; and it keeps action, effect and
  priority.
\<close>

theorem compile_policy_sound:
  "node_evaluate (compile_policy_ast (ast_of p)) inp
     = evaluate_conditions (dpop (pd_conditions p) ''policy_key'') inp
   \<and> node_action (compile_policy_ast (ast_of p)) = pd_action p
   \<and> node_effect (compile_policy_ast (ast_of p)) = pd_effect p
   \<and> node_priority (compile_policy_ast (ast_of p)) = pd_priority p"
  by (simp add: compile_policy_core)

section \<open>First match\<close>

text \<open>A policy applies when its action is the requested one and all its conditions hold.\<close>

definition applies :: "policy_definition \<Rightarrow> authorization_input \<Rightarrow> bool" where
  "applies p inp = (pd_action p = in_action inp
     \<and> (\<forall>(k, v) \<in> set (dpop (pd_conditions p) ''policy_key''). condition_holds k v inp))"

text \<open>No condition of a policy for the requested action raises on this input.\<close>

definition quiet :: "policy_definition \<Rightarrow> authorization_input \<Rightarrow> bool" where
  "quiet p inp = (pd_action p = in_action inp \<longrightarrow>
     (\<exists>x. evaluate_conditions (dpop (pd_conditions p) ''policy_key'') inp = Inr x))"

definition effective_id :: "policy_definition \<Rightarrow> string" where
  "effective_id p = str_or (pd_policy_id p)
     (default_policy_id (pd_action p) (pd_priority p) (pd_effect p))"

definition node_of :: "policy_definition \<Rightarrow> policy_node" where
  "node_of p = compile_policy_ast (ast_of p)"

lemma node_of_simps [simp]:
  "node_action (node_of p) = pd_action p" "node_effect (node_of p) = pd_effect p"
  "node_policy_id (node_of p) = Some (effective_id p)"
  "node_evaluate (node_of p) inp = evaluate_conditions (dpop (pd_conditions p) ''policy_key'') inp"
  by (simp_all add: node_of_def compile_policy_core)
    (simp add: compile_policy_ast_def ast_of_def effective_id_def)

lemma effective_id_nonempty [simp]: "effective_id p \<noteq> []"
  by (cases "pd_policy_id p") (auto simp: effective_id_def default_policy_id_def)

lemma insort_key_map: "insort_key f (g x) (map g xs) = map g (insort_key (\<lambda>y. f (g y)) x xs)"
  by (induction xs) auto

lemma sort_key_map: "sort_key f (map g xs) = map g (sort_key (\<lambda>y. f (g y)) xs)"
  by (induction xs) (simp_all add: insort_key_map)

lemma compile_policy_graph_nodes:
  "dg_nodes (compile_policy_graph ps) = map node_of (sort_key pd_priority ps)"
  by (simp add: compile_policy_graph_def sort_key_map node_of_def ast_of_def)

lemma applies_iff:
  "pd_action p = in_action inp \<Longrightarrow>
   applies p inp = (\<exists>r. evaluate_conditions (dpop (pd_conditions p) ''policy_key'') inp = Inr (True, r))"
  by (simp add: applies_def evaluate_conditions_true)

text \<open>The decision of the first applicable policy of a list, in the list's order.\<close>

definition first_match :: "policy_definition list \<Rightarrow> authorization_input \<Rightarrow> policy_definition option" where
  "first_match ps inp = find (\<lambda>p. applies p inp) ps"

lemma graph_loop_match:
  "first_match ps inp = Some p \<Longrightarrow> \<forall>q \<in> set ps. quiet q inp \<Longrightarrow>
   graph_loop (map node_of ps) inp fr = Inr \<lparr>gd_outcome = outcome_of (pd_effect p),
     gd_reason = Some (''matched policy '' @ effective_id p), gd_policy_id = Some (effective_id p)\<rparr>"
proof (induction ps arbitrary: fr)
  case (Cons q ps)
  show ?case
  proof (cases "pd_action q = in_action inp")
    case True
    with Cons.prems obtain ok r where
      e: "evaluate_conditions (dpop (pd_conditions q) ''policy_key'') inp = Inr (ok, r)"
      by (auto simp: quiet_def)
    show ?thesis
    proof (cases ok)
      case ok: True
      then have "applies q inp" using True e by (simp add: applies_iff)
      moreover have "r = None" using evaluate_conditions_reason [OF e] ok by simp
      ultimately show ?thesis using Cons.prems True e ok by (simp add: first_match_def)
    next
      case False
      then have "\<not> applies q inp" using True e by (simp add: applies_iff)
      then show ?thesis using Cons True e False by (simp add: first_match_def)
    qed
  next
    case False
    then have "\<not> applies q inp" by (simp add: applies_def)
    with False Cons show ?thesis by (simp add: first_match_def)
  qed
qed (simp add: first_match_def)

lemma graph_loop_nomatch:
  "first_match ps inp = None \<Longrightarrow> \<forall>q \<in> set ps. quiet q inp \<Longrightarrow>
   \<exists>r. graph_loop (map node_of ps) inp fr = Inr \<lparr>gd_outcome = (if r = None then SAbstain else SDeny),
     gd_reason = r, gd_policy_id = None\<rparr>
     \<and> (r = None) = (fr = None \<and> (\<forall>q \<in> set ps. pd_action q \<noteq> in_action inp))"
proof (induction ps arbitrary: fr)
  case Nil
  then show ?case by (cases fr) auto
next
  case (Cons q ps)
  have nm: "first_match ps inp = None" "\<not> applies q inp"
    using Cons.prems(1) by (auto simp: first_match_def split: if_splits)
  show ?case
  proof (cases "pd_action q = in_action inp")
    case True
    with Cons.prems obtain ok r where
      e: "evaluate_conditions (dpop (pd_conditions q) ''policy_key'') inp = Inr (ok, r)"
      by (auto simp: quiet_def)
    with True nm(2) have "\<not> ok" by (auto simp: applies_iff)
    moreover from this evaluate_conditions_reason [OF e] obtain x where "r = Some x" by auto
    ultimately show ?thesis
      using Cons.IH [OF nm(1), of "if fr = None then Some x else fr"] Cons.prems(2) True e
      by (cases fr) auto
  next
    case False
    then show ?thesis using Cons.IH [OF nm(1), of fr] Cons.prems(2) by auto
  qed
qed

text \<open>
  First match by priority: when no condition raises, the compiled graph of any list of
  policies decides by the first policy, in ascending priority with ties in the order given, whose
  action is requested and whose conditions all hold: its effect, its id and a reason naming it.
  Without one the graph never allows; it denies with a reason exactly when some policy is about
  the requested action, and abstains otherwise.
\<close>

lemma graph_first_match:
  assumes "\<forall>p \<in> set ps. quiet p inp"
  shows "case first_match (sort_key pd_priority ps) inp of
      Some p \<Rightarrow> graph_evaluate (compile_policy_graph ps) inp =
        Inr \<lparr>gd_outcome = outcome_of (pd_effect p),
             gd_reason = Some (''matched policy '' @ effective_id p),
             gd_policy_id = Some (effective_id p)\<rparr>
    | None \<Rightarrow> \<exists>r. graph_evaluate (compile_policy_graph ps) inp =
        Inr \<lparr>gd_outcome = (if r = None then SAbstain else SDeny), gd_reason = r, gd_policy_id = None\<rparr>
        \<and> (r = None) = (\<forall>p \<in> set ps. pd_action p \<noteq> in_action inp)"
proof (cases "first_match (sort_key pd_priority ps) inp")
  case None
  then show ?thesis
    using graph_loop_nomatch [OF None, of None] assms
    by (simp add: graph_evaluate_def compile_policy_graph_nodes)
next
  case (Some p)
  then show ?thesis
    using graph_loop_match [OF Some, of None] assms
    by (simp add: graph_evaluate_def compile_policy_graph_nodes)
qed

definition demo_policies :: "policy_definition list" where
  "demo_policies =
     [\<lparr>pd_action = ''read'', pd_effect = Allow, pd_conditions = [(''role'', PStr ''admin'')],
       pd_priority = 20, pd_policy_id = Some ''p-allow''\<rparr>,
      \<lparr>pd_action = ''read'', pd_effect = Deny, pd_conditions = [(''policy_key'', PStr ''k'')],
       pd_priority = 10, pd_policy_id = None\<rparr>]"

lemma graph_first_match_example:
  "graph_evaluate (compile_policy_graph demo_policies)
     (plain_input [(''role'', PStr ''admin'')] [] ''read'' []) =
   Inr \<lparr>gd_outcome = SDeny, gd_reason = Some ''matched policy read:10:deny'',
        gd_policy_id = Some ''read:10:deny''\<rparr>"
proof -
  let ?inp = "plain_input [(''role'', PStr ''admin'')] [] ''read'' []"
  have q: "\<forall>p \<in> set demo_policies. quiet p ?inp"
    by (simp add: demo_policies_def quiet_def plain_input_def dpop_def handle_role_def ex_bool_eq)
  have "first_match (sort_key pd_priority demo_policies) ?inp
      = Some \<lparr>pd_action = ''read'', pd_effect = Deny, pd_conditions = [(''policy_key'', PStr ''k'')],
              pd_priority = 10, pd_policy_id = None\<rparr>"
    by (simp add: demo_policies_def first_match_def applies_def plain_input_def dpop_def)
  with graph_first_match [OF q] show ?thesis
    by (simp add: effective_id_def default_policy_id_def int_str_def nat_str.simps str_simps)
qed

section \<open>An extra node\<close>

text \<open>An extra node that allows never takes an allow away, one that denies never gives one.\<close>

definition allows_graph :: "graph_decision result \<Rightarrow> bool" where
  "allows_graph r = (case r of Inr g \<Rightarrow> gd_outcome g = SAllow | Inl _ \<Rightarrow> False)"

lemma allows_graph_simps [simp]:
  "allows_graph (Inl e) = False" "allows_graph (Inr g) = (gd_outcome g = SAllow)"
  by (simp_all add: allows_graph_def)

lemma graph_loop_reason:
  "allows_graph (graph_loop nodes inp r) = allows_graph (graph_loop nodes inp r')"
  "(\<exists>g. graph_loop nodes inp r = Inr g) = (\<exists>g. graph_loop nodes inp r' = Inr g)"
proof (induction nodes arbitrary: r r')
  case Nil
  { case 1 show ?case by (cases r; cases r') auto next case 2 show ?case by (cases r; cases r') auto }
next
  case (Cons n ns)
  { case 1 show ?case using Cons(1) by (auto simp: ebind_def split: sum.splits) next
    case 2 show ?case using Cons(2) by (auto simp: ebind_def split: sum.splits) }
qed

lemma graph_loop_extra:
  assumes "graph_loop (us @ n # vs) inp r = Inr g'" "graph_loop (us @ vs) inp r = Inr g"
  shows "node_effect n = Allow \<Longrightarrow> gd_outcome g = SAllow \<Longrightarrow> gd_outcome g' = SAllow"
    "node_effect n = Deny \<Longrightarrow> gd_outcome g' = SAllow \<Longrightarrow> gd_outcome g = SAllow"
proof -
  have *: "(node_effect n = Allow \<longrightarrow> gd_outcome g = SAllow \<longrightarrow> gd_outcome g' = SAllow)
    \<and> (node_effect n = Deny \<longrightarrow> gd_outcome g' = SAllow \<longrightarrow> gd_outcome g = SAllow)"
    using assms
  proof (induction us arbitrary: r)
    case Nil
    have same: "graph_loop vs inp r' = Inr g' \<Longrightarrow> (gd_outcome g' = SAllow) = (gd_outcome g = SAllow)" for r'
      using graph_loop_reason(1) [of vs inp r r'] Nil(2) by simp
    show ?case
    proof (cases "node_action n = in_action inp")
      case True
      with Nil(1) obtain matched reason where e: "node_evaluate n inp = Inr (matched, reason)"
        by (cases "node_evaluate n inp") auto
      then show ?thesis using True Nil(1) same by (cases matched) auto
    next
      case False
      then show ?thesis using Nil(1) same by simp
    qed
  next
    case (Cons u us)
    then show ?case by (auto simp: ebind_def split: sum.splits if_splits)
  qed
  then show "node_effect n = Allow \<Longrightarrow> gd_outcome g = SAllow \<Longrightarrow> gd_outcome g' = SAllow"
    "node_effect n = Deny \<Longrightarrow> gd_outcome g' = SAllow \<Longrightarrow> gd_outcome g = SAllow" by blast+
qed

end
