(* ===== verification/PermissionGraph.thy ===== *)
theory PermissionGraph
  imports DecisionGraph
begin

text \<open>
  Evaluation of compiled permission graphs: \<open>CompiledPermissionGraph\<close> and \<open>_PermissionEvaluator\<close>
  of \<open>engine/model_graph/permission_graph.py\<close>. An identifier of an expression is looked up among
  the user's relation edges on the requested resource.
\<close>

definition first_truthy :: "pydict \<Rightarrow> string list \<Rightarrow> pyval" where
  "first_truthy d ks = foldr (\<lambda>k rest. por (pget d k) rest) ks (PStr [])"

lemma first_truthy_simps [simp]:
  "first_truthy d [] = PStr []"
  "first_truthy d (k # ks) = (if truthy (pget d k) then pget d k else first_truthy d ks)"
  by (simp_all add: first_truthy_def por_def)

definition graph_resource_identity :: "authorization_input \<Rightarrow> string \<times> string" where
  "graph_resource_identity inp =
     (py_str (first_truthy (in_resource inp) [''resource_type'', ''type'', ''kind'']),
      py_str (first_truthy (in_resource inp) [''resource_id'', ''id'']))"

definition edge_for :: "string \<Rightarrow> string \<Rightarrow> string \<Rightarrow> pyval \<Rightarrow> bool" where
  "edge_for name resource_type resource_id edge = (case edge of
     PDict e \<Rightarrow> py_str (pget e ''relation'') = name \<and> py_str (pget e ''object_type'') = resource_type
        \<and> py_str (pget e ''object_id'') = resource_id
   | _ \<Rightarrow> False)"

definition has_relation :: "authorization_input \<Rightarrow> string \<Rightarrow> string \<Rightarrow> bool" where
  "has_relation inp resource_type name =
     (let resource_id = py_str (first_truthy (in_resource inp) [''resource_id'', ''id'']) in
      case dget_or (in_user inp) ''relations'' (PList []) of
        PList relations \<Rightarrow> list_ex (edge_for name resource_type resource_id) relations
      | _ \<Rightarrow> False)"

fun eval_permission :: "authorization_input \<Rightarrow> string \<Rightarrow> expr \<Rightarrow> bool" where
  "eval_permission inp resource_type (IdentifierExpr name) = has_relation inp resource_type name"
| "eval_permission inp resource_type (NotExpr e) = (\<not> eval_permission inp resource_type e)"
| "eval_permission inp resource_type (AndExpr a b) =
     (eval_permission inp resource_type a \<and> eval_permission inp resource_type b)"
| "eval_permission inp resource_type (OrExpr a b) =
     (eval_permission inp resource_type a \<or> eval_permission inp resource_type b)"

definition permission_graph_evaluate :: "permission_graph \<Rightarrow> authorization_input \<Rightarrow> graph_decision" where
  "permission_graph_evaluate g inp =
     (let (resource_type, _) = graph_resource_identity inp; action = in_action inp;
          abstain = \<lparr>gd_outcome = SAbstain, gd_reason = None, gd_policy_id = None\<rparr>
      in if resource_type = [] \<or> action = [] then abstain
         else (case dget (cm_permissions (pg_model g)) action of
             None \<Rightarrow> abstain
           | Some p \<Rightarrow>
               if eval_permission inp resource_type (cp_expression p)
               then \<lparr>gd_outcome = SAllow,
                     gd_reason = Some (''matched authorization model permission '' @ action),
                     gd_policy_id = Some (''auth-model:'' @ action)\<rparr>
               else \<lparr>gd_outcome = SDeny, gd_reason = Some (''authorization model denied '' @ action),
                     gd_policy_id = Some (''auth-model:'' @ action)\<rparr>))"

definition execute_permission_graph :: "permission_graph \<Rightarrow> authorization_input \<Rightarrow> graph_decision" where
  "execute_permission_graph g inp = permission_graph_evaluate g inp"

section \<open>What the answer depends on\<close>

text \<open>The relations the user holds on the requested resource.\<close>

definition held :: "authorization_input \<Rightarrow> string \<Rightarrow> string set" where
  "held inp resource_type = {name. has_relation inp resource_type name}"

fun models_expr :: "string set \<Rightarrow> expr \<Rightarrow> bool" where
  "models_expr R (IdentifierExpr x) = (x \<in> R)"
| "models_expr R (NotExpr e) = (\<not> models_expr R e)"
| "models_expr R (AndExpr a b) = (models_expr R a \<and> models_expr R b)"
| "models_expr R (OrExpr a b) = (models_expr R a \<or> models_expr R b)"

fun negation_free :: "expr \<Rightarrow> bool" where
  "negation_free (IdentifierExpr x) = True"
| "negation_free (NotExpr e) = False"
| "negation_free (AndExpr a b) = (negation_free a \<and> negation_free b)"
| "negation_free (OrExpr a b) = (negation_free a \<and> negation_free b)"

lemma eval_permission_models: "eval_permission inp ty e = models_expr (held inp ty) e"
  by (induction e) (auto simp: held_def)

lemma models_relevant: "R \<inter> set (idents e) = S \<inter> set (idents e) \<Longrightarrow> models_expr R e = models_expr S e"
  by (induction e) auto

lemma models_mono: "negation_free e \<Longrightarrow> R \<subseteq> S \<Longrightarrow> models_expr R e \<Longrightarrow> models_expr S e"
  by (induction e) auto

lemma held_mono:
  assumes "dget (in_user inp) ''relations'' = Some (PList es)"
    and "dget (in_user inp') ''relations'' = Some (PList es')" and "set es \<subseteq> set es'"
    and "in_resource inp' = in_resource inp"
  shows "held inp ty \<subseteq> held inp' ty"
  using assms by (auto simp: held_def has_relation_def dget_or_def list_ex_iff)

text \<open>
  C37. Granting is monotone: for a permission without \<open>not\<close>, giving the user more relation
  edges never turns an allowed request into a denied one.
\<close>

theorem permission_monotone:
  assumes "dget (cm_permissions (pg_model g)) (in_action inp) = Some p" "negation_free (cp_expression p)"
    and "dget (in_user inp) ''relations'' = Some (PList es)" "set es \<subseteq> set es'"
    and "gd_outcome (permission_graph_evaluate g inp) = SAllow"
  shows "gd_outcome (permission_graph_evaluate g
           (inp\<lparr>in_user := dset (in_user inp) ''relations'' (PList es')\<rparr>)) = SAllow"
proof -
  let ?inp' = "inp\<lparr>in_user := dset (in_user inp) ''relations'' (PList es')\<rparr>"
  have id: "graph_resource_identity ?inp' = graph_resource_identity inp"
    by (simp add: graph_resource_identity_def)
  obtain ty rid where ty: "graph_resource_identity inp = (ty, rid)" by (cases "graph_resource_identity inp")
  have "held inp ty \<subseteq> held ?inp' ty"
    using assms(3,4) by (intro held_mono [of inp es _ es']) simp_all
  then have "eval_permission inp ty (cp_expression p) \<Longrightarrow> eval_permission ?inp' ty (cp_expression p)"
    using assms(2) models_mono by (simp add: eval_permission_models)
  then show ?thesis
    using assms(1,5) by (auto simp: permission_graph_evaluate_def id ty Let_def split: if_splits)
qed

text \<open>
  A small model: the relation \<open>owner\<close>, the permission \<open>edit = owner\<close>, and the permission
  \<open>view = edit\<close> that is defined by another permission.
\<close>

definition demo_schema_text :: string where
  "demo_schema_text = ''model schema 1'' @ [char_of (10 :: nat)] @ ''type user'' @ [char_of (10 :: nat)]
     @ ''type doc'' @ [char_of (10 :: nat)] @ ''relations'' @ [char_of (10 :: nat)]
     @ ''owner: [user]'' @ [char_of (10 :: nat)] @ ''permissions'' @ [char_of (10 :: nat)]
     @ ''edit = owner'' @ [char_of (10 :: nat)] @ ''view = edit''"

definition demo_model :: compiled_model where
  "demo_model = \<lparr>cm_version = 1, cm_types = [''user'', ''doc''],
     cm_relations = [(''owner'', [''user''])],
     cm_permissions = [(''edit'', \<lparr>cp_name = ''edit'', cp_expression = IdentifierExpr ''owner''\<rparr>),
                       (''view'', \<lparr>cp_name = ''view'', cp_expression = IdentifierExpr ''edit''\<rparr>)],
     cm_raw = demo_schema_text\<rparr>"

definition demo_graph :: permission_graph where
  "demo_graph = \<lparr>pg_tenant_key = ''t'', pg_model = demo_model\<rparr>"

definition owner_of_doc :: "string \<Rightarrow> authorization_input" where
  "owner_of_doc action = plain_input
     [(''id'', PInt 1), (''relations'', PList [PDict [(''relation'', PStr ''owner''),
        (''object_type'', PStr ''doc''), (''object_id'', PStr ''d1'')]])]
     [(''resource_type'', PStr ''doc''), (''resource_id'', PStr ''d1'')] action []"

theorem permission_monotone_witness:
  "gd_outcome (permission_graph_evaluate demo_graph
     ((owner_of_doc ''edit'')\<lparr>in_user := dset (in_user (owner_of_doc ''edit'')) ''relations''
        (PList [PNone, PDict [(''relation'', PStr ''owner''), (''object_type'', PStr ''doc''),
           (''object_id'', PStr ''d1'')]])\<rparr>)) = SAllow"
  by (rule permission_monotone [where p = "\<lparr>cp_name = ''edit'', cp_expression = IdentifierExpr ''owner''\<rparr>"
      and es = "[PDict [(''relation'', PStr ''owner''), (''object_type'', PStr ''doc''),
           (''object_id'', PStr ''d1'')]]"])
    (simp_all add: demo_graph_def demo_model_def owner_of_doc_def plain_input_def
      permission_graph_evaluate_def graph_resource_identity_def has_relation_def edge_for_def dget_or_def
      Let_def)

text \<open>
  Permissions are not composed: the validator accepts a schema whose permission \<open>view\<close> is
  defined by the permission \<open>edit\<close>, and compiles it, but at run time the identifier is only looked
  up among relations, so an owner who may edit is denied the view that editing should imply.
\<close>

lemma permission_reference_unresolved:
  "compile_authorization_schema demo_schema_text = Inr demo_model
   \<and> gd_outcome (permission_graph_evaluate demo_graph (owner_of_doc ''edit'')) = SAllow
   \<and> gd_outcome (permission_graph_evaluate demo_graph (owner_of_doc ''view'')) = SDeny"
proof (intro conjI)
  show "compile_authorization_schema demo_schema_text = Inr demo_model" by code_simp
  show "gd_outcome (permission_graph_evaluate demo_graph (owner_of_doc ''edit'')) = SAllow"
    "gd_outcome (permission_graph_evaluate demo_graph (owner_of_doc ''view'')) = SDeny"
    by (simp_all add: demo_graph_def demo_model_def owner_of_doc_def plain_input_def
      permission_graph_evaluate_def graph_resource_identity_def has_relation_def edge_for_def dget_or_def
      Let_def)
qed

end
