(* ===== verification/Engine.thy ===== *)
theory Engine
  imports PermissionGraph
begin

text \<open>
  The decision engine, \<open>KeyNetraEngine\<close> of \<open>engine/keynetra_engine.py\<close>: construction, input
  normalisation, the six stages in their order, and the decision with its explanation trace.
  The trace, a list the Python code appends to, is passed in and returned extended. Metrics and
  timers are not modelled.
\<close>

type_synonym stage = "stage_outcome \<times> string option \<times> string option"
type_synonym trace = "trace_step list"

abbreviation abstained :: stage where
  "abstained \<equiv> (SAbstain, None, None)"

section \<open>Construction and normalisation\<close>

datatype policy_arg = PolicyDef policy_definition | PolicyRaw pydict

definition parse_policy_arg :: "policy_arg \<Rightarrow> policy_definition result" where
  "parse_policy_arg p = (case p of PolicyDef d \<Rightarrow> Inr d | PolicyRaw raw \<Rightarrow> from_dict raw)"

record engine =
  eng_policies :: "policy_definition list"
  eng_graph :: decision_graph
  eng_strategy :: string

definition new_engine :: "policy_arg list \<Rightarrow> string \<Rightarrow> decision_graph option \<Rightarrow> engine result" where
  "new_engine policies strategy compiled = ebind (emap parse_policy_arg policies) (\<lambda>parsed.
     let sorted_policies = sort_key pd_priority parsed in
     Inr \<lparr>eng_policies = sorted_policies,
          eng_graph = (case compiled of Some g \<Rightarrow> g | None \<Rightarrow> compile_policy_graph sorted_policies),
          eng_strategy = strategy\<rparr>)"

text \<open>The first argument of \<open>decide\<close>: an \<open>AuthorizationInput\<close> or a legacy user dictionary.\<close>

datatype decide_arg = Structured authorization_input | LegacyUser pydict

definition normalize_input :: "decide_arg \<Rightarrow> string option \<Rightarrow> pydict option \<Rightarrow> authorization_input result"
where
  "normalize_input arg action resource = (case arg of
     Structured inp \<Rightarrow> Inr inp
   | LegacyUser user \<Rightarrow> (case (action, resource) of
       (Some a, Some r) \<Rightarrow> Inr (plain_input user r a [])
     | _ \<Rightarrow> Inl (TypeError ''authorization_input, action, and resource are required for legacy decide() calls'')))"

datatype descriptor = TextDescriptor string | DictDescriptor pydict

definition or_unknown :: "string \<Rightarrow> string" where
  "or_unknown s = (if s = [] then ''unknown'' else s)"

definition parse_descriptor :: "string \<Rightarrow> string \<times> string" where
  "parse_descriptor v = (let normalized = strip v in
     case split1 (CHR '':'') normalized of
       (_, None) \<Rightarrow> (or_unknown normalized, normalized)
     | (prefix, Some suffix) \<Rightarrow> (or_unknown (strip prefix), strip suffix))"

definition normalize_subject :: "descriptor \<Rightarrow> pydict" where
  "normalize_subject subject = (case subject of
     DictDescriptor d \<Rightarrow> d
   | TextDescriptor s \<Rightarrow> (let (subject_type, subject_id) = parse_descriptor s in
       if subject_type = ''user'' then [(''id'', PStr subject_id)]
       else [(''id'', PStr subject_id), (''subject_type'', PStr subject_type)]))"

definition normalize_resource :: "descriptor \<Rightarrow> pydict" where
  "normalize_resource resource = (case resource of
     DictDescriptor d \<Rightarrow> d
   | TextDescriptor s \<Rightarrow> (let (resource_type, resource_id) = parse_descriptor s in
       [(''id'', PStr resource_id), (''resource_id'', PStr resource_id),
        (''resource_type'', PStr resource_type), (''type'', PStr resource_type)]))"

section \<open>Subjects, resources and ACL entries\<close>

text \<open>\<open>f"{prefix}:{x}" for x in xs if x is not None\<close>, for a value that may not be a list\<close>

definition tagged :: "string \<Rightarrow> pyval \<Rightarrow> string list" where
  "tagged prefix v = map (\<lambda>x. prefix @ '':'' @ py_str x) (filter (\<lambda>x. x \<noteq> PNone) (list_items v))"

definition relation_descriptor :: "pyval \<Rightarrow> string list" where
  "relation_descriptor relation = (case relation of
     PDict e \<Rightarrow>
       (let relation_type = py_str (dget_or e ''relation'' (PStr []));
            object_type = py_str (dget_or e ''object_type'' (PStr []));
            object_id = py_str (dget_or e ''object_id'' (PStr []))
        in if relation_type \<noteq> [] \<and> object_type \<noteq> [] \<and> object_id \<noteq> []
           then [''relationship:'' @ relation_type @ '':'' @ object_type @ '':'' @ object_id] else [])
   | _ \<Rightarrow> [])"

definition subject_descriptors :: "authorization_input \<Rightarrow> string set" where
  "subject_descriptors inp = (let user = in_user inp in set (
     (if pget user ''id'' \<noteq> PNone then [''user:'' @ py_str (pget user ''id'')] else [])
     @ tagged ''role'' (dget_or user ''roles'' (PList []))
     @ tagged ''permission'' (dget_or user ''permissions'' (PList []))
     @ tagged ''permission'' (dget_or user ''direct_permissions'' (PList []))
     @ concat (map relation_descriptor (list_items (dget_or user ''relations'' (PList []))))))"

definition resource_identity :: "pydict \<Rightarrow> string \<times> string" where
  "resource_identity resource =
     (py_str (first_truthy resource [''resource_type'', ''type'', ''kind'', ''entity_type'']),
      py_str (first_truthy resource [''resource_id'', ''id'']))"

definition acl_subject_matches :: "string \<Rightarrow> string \<Rightarrow> string set \<Rightarrow> bool" where
  "acl_subject_matches subject_type subject_id user_subjects =
     (if subject_type = [] \<or> subject_id = [] then False
      else if subject_type = ''relationship'' then
        (let normalized = (if starts_with ''relationship:'' subject_id then drop 12 subject_id
                           else subject_id)
         in list_ex (\<lambda>c. c \<in> user_subjects) [subject_id, normalized, ''relationship:'' @ normalized])
      else subject_type @ '':'' @ subject_id \<in> user_subjects)"

definition acl_matches :: "pydict \<Rightarrow> string \<Rightarrow> string \<Rightarrow> string \<Rightarrow> string set \<Rightarrow> bool" where
  "acl_matches entry resource_type resource_id action user_subjects =
     (if py_str (pget entry ''resource_type'') \<noteq> resource_type
        \<or> py_str (pget entry ''resource_id'') \<noteq> resource_id then False
      else if py_str (pget entry ''action'') \<noteq> action then False
      else acl_subject_matches (py_str (dget_or entry ''subject_type'' (PStr [])))
             (py_str (dget_or entry ''subject_id'' (PStr []))) user_subjects)"

section \<open>The six stages\<close>

definition evaluate_direct_permissions :: "authorization_input \<Rightarrow> trace \<Rightarrow> stage \<times> trace" where
  "evaluate_direct_permissions inp trace =
     (let permissions = dget_or (in_user inp) ''direct_permissions''
            (dget_or (in_user inp) ''permissions'' (PList []))
      in if is_list permissions \<and> py_in (PStr (in_action inp)) (list_items permissions)
         then ((SAllow, Some ''explicit permission grant'', Some ''rbac:permissions''),
               trace @ [mk_step ''rbac_permissions'' ''matched''
                 ''explicit permission grant matched input action'' (Some ''rbac:permissions'')])
         else (abstained, trace @ [mk_step ''rbac_permissions'' ''abstain'' ''no direct permission match'' None]))"

definition acl_effect :: "pydict \<Rightarrow> string" where
  "acl_effect entry = lower (py_str (dget_or entry ''effect'' (PStr ''deny'')))"

definition acl_reason :: "pydict \<Rightarrow> string \<Rightarrow> string \<Rightarrow> string \<Rightarrow> string" where
  "acl_reason entry action resource_type resource_id =
     ''matched ACL entry '' @ py_str (pget entry ''subject_type'') @ '':'' @ py_str (pget entry ''subject_id'')
     @ '' '' @ action @ '' '' @ resource_type @ '':'' @ resource_id"

definition acl_policy_id :: "pydict \<Rightarrow> string" where
  "acl_policy_id entry = ''acl:'' @ py_str (pget entry ''id'')"

text \<open>The loop over the entries; \<open>matched\<close> records that some entry matched.\<close>

fun acl_loop :: "pydict list \<Rightarrow> string \<Rightarrow> string \<Rightarrow> string \<Rightarrow> string set \<Rightarrow> bool \<Rightarrow> trace \<Rightarrow> stage \<times> trace"
where
  "acl_loop [] ty rid action subjects matched trace =
     (abstained, if matched then trace else trace @ [mk_step ''acl'' ''abstain'' ''no ACL match'' None])"
| "acl_loop (entry # entries) ty rid action subjects matched trace =
     (if acl_matches entry ty rid action subjects then
        (let effect = acl_effect entry;
             reason = acl_reason entry action ty rid;
             entry_id = acl_policy_id entry;
             trace' = trace @ [mk_step ''acl'' (if effect = ''allow'' \<or> effect = ''deny'' then effect else ''abstain'')
                                 reason (Some entry_id)]
         in if effect = ''allow'' then ((SAllow, Some reason, Some entry_id), trace')
            else if effect = ''deny'' then ((SDeny, Some reason, Some entry_id), trace')
            else acl_loop entries ty rid action subjects True trace')
      else acl_loop entries ty rid action subjects matched trace)"

definition effective_acl_entries :: "authorization_input \<Rightarrow> pydict list" where
  "effective_acl_entries inp =
     (if in_acl_entries inp = [] \<and> in_index_entries inp \<noteq> []
      then filter (\<lambda>e. py_str (pget e ''source'') = ''acl'') (in_index_entries inp)
      else in_acl_entries inp)"

definition evaluate_acl :: "authorization_input \<Rightarrow> trace \<Rightarrow> string set \<Rightarrow> stage \<times> trace" where
  "evaluate_acl inp trace user_subjects =
     (let (resource_type, resource_id) = resource_identity (in_resource inp) in
      if resource_type = [] \<or> resource_id = []
      then (abstained, trace @ [mk_step ''acl'' ''abstain'' ''resource identity unavailable'' None])
      else acl_loop (effective_acl_entries inp) resource_type resource_id (in_action inp) user_subjects
             False trace)"

definition evaluate_role_permissions :: "authorization_input \<Rightarrow> trace \<Rightarrow> stage \<times> trace" where
  "evaluate_role_permissions inp trace =
     (let permissions = dget_or (in_user inp) ''role_permissions'' (PList []) in
      if is_list permissions \<and> py_in (PStr (in_action inp)) (list_items permissions)
      then ((SAllow, Some ''role permission grant'', Some ''rbac:role''),
            trace @ [mk_step ''rbac_role'' ''allow'' ''role permission grant'' (Some ''rbac:role'')])
      else (abstained, trace @ [mk_step ''rbac_role'' ''abstain'' ''no role permission match'' None]))"

text \<open>\<open>allowed_subjects\<close> counts when it is a list or a tuple (a set cannot come out of JSON).\<close>

definition sequence_items :: "pyval \<Rightarrow> pyval list option" where
  "sequence_items v = (case v of PList xs \<Rightarrow> Some xs | PTuple xs \<Rightarrow> Some xs | _ \<Rightarrow> None)"

definition index_entry_allows :: "pydict \<Rightarrow> string \<Rightarrow> string \<Rightarrow> string \<Rightarrow> string set \<Rightarrow> bool" where
  "index_entry_allows entry ty rid action user_subjects =
     (if py_str (pget entry ''source'') \<noteq> ''relationship'' then False
      else if py_str (pget entry ''resource_type'') \<noteq> ty \<or> py_str (pget entry ''resource_id'') \<noteq> rid then False
      else if py_str (pget entry ''action'') \<notin> {action, ''*''} then False
      else (case sequence_items (dget_or entry ''allowed_subjects'' (PList [])) of
          None \<Rightarrow> False
        | Some allowed \<Rightarrow> list_ex (\<lambda>s. py_str s \<in> user_subjects) allowed))"

definition evaluate_relationship_index :: "authorization_input \<Rightarrow> trace \<Rightarrow> string set \<Rightarrow> stage \<times> trace" where
  "evaluate_relationship_index inp trace user_subjects =
     (let (resource_type, resource_id) = resource_identity (in_resource inp) in
      if resource_type = [] \<or> resource_id = []
      then (abstained, trace @ [mk_step ''relationship'' ''abstain'' ''resource identity unavailable'' None])
      else if list_ex (\<lambda>e. index_entry_allows e resource_type resource_id (in_action inp) user_subjects)
                (in_index_entries inp)
      then (let reason = ''relationship index match for '' @ resource_type @ '':'' @ resource_id in
            ((SAllow, Some reason, Some ''relationship:index''),
             trace @ [mk_step ''relationship'' ''allow'' reason (Some ''relationship:index'')]))
      else (abstained, trace @ [mk_step ''relationship'' ''abstain'' ''no relationship index match'' None]))"

definition stage_of_graph :: "string \<Rightarrow> string \<Rightarrow> graph_decision \<Rightarrow> trace \<Rightarrow> stage \<times> trace" where
  "stage_of_graph name abstain_detail d trace =
     (if gd_outcome d = SAbstain then (abstained, trace @ [mk_step name ''abstain'' abstain_detail None])
      else ((gd_outcome d, gd_reason d, gd_policy_id d),
            trace @ [mk_step name (outcome_text (gd_outcome d))
              (str_or (gd_reason d) (''decision '' @ outcome_text (gd_outcome d))) (gd_policy_id d)]))"

definition evaluate_permission_graph :: "authorization_input \<Rightarrow> trace \<Rightarrow> stage \<times> trace" where
  "evaluate_permission_graph inp trace = (case in_permission_graph inp of
     None \<Rightarrow> (abstained, trace @ [mk_step ''permission_graph'' ''abstain'' ''no authorization model'' None])
   | Some g \<Rightarrow> stage_of_graph ''permission_graph'' ''permission graph did not apply''
                (permission_graph_evaluate g inp) trace)"

definition evaluate_compiled_policies :: "engine \<Rightarrow> authorization_input \<Rightarrow> trace \<Rightarrow> (stage \<times> trace) result"
where
  "evaluate_compiled_policies eng inp trace =
     (let g = (case in_compiled_graph inp of Some g \<Rightarrow> g | None \<Rightarrow> eng_graph eng) in
      ebind (graph_evaluate g inp) (\<lambda>d.
        Inr (stage_of_graph ''policy_graph'' ''no matching policy node'' d trace)))"

section \<open>The decision\<close>

definition decision_from_stage :: "stage \<Rightarrow> trace \<Rightarrow> string option \<Rightarrow> string list \<Rightarrow> authorization_decision"
where
  "decision_from_stage st trace policy_id matched =
     (let (outcome, reason, stage_policy_id) = st;
          final_policy_id = (if stage_policy_id = None \<or> stage_policy_id = Some [] then policy_id
                             else stage_policy_id);
          final_detail =
            (if final_policy_id = Some ''rbac:permissions'' \<and> outcome = SAllow
             then ''granted by explicit permission''
             else str_or reason (''decision '' @ outcome_text outcome))
      in \<lparr>ad_allowed = (outcome = SAllow),
          ad_decision = (if outcome = SAllow then Allow else Deny),
          ad_reason = reason, ad_policy_id = final_policy_id,
          ad_explain_trace = trace @ [mk_step ''final'' (outcome_text outcome) final_detail final_policy_id],
          ad_matched_policies = (if outcome = SAllow then matched else []),
          ad_failed_conditions = []\<rparr>)"

definition no_match_decision :: "trace \<Rightarrow> authorization_decision" where
  "no_match_decision trace =
     \<lparr>ad_allowed = False, ad_decision = Deny, ad_reason = Some ''no matching policy'', ad_policy_id = None,
      ad_explain_trace = trace @ [mk_step ''final'' ''deny'' ''no matching policy'' None],
      ad_matched_policies = [], ad_failed_conditions = []\<rparr>"

text \<open>\<open>matched=(stage[2],) if stage[2] else ()\<close>\<close>

definition matched_of :: "stage \<Rightarrow> string list" where
  "matched_of st = (case snd (snd st) of None \<Rightarrow> [] | Some i \<Rightarrow> if i = [] then [] else [i])"

abbreviation decided :: "stage \<Rightarrow> bool" where
  "decided st \<equiv> fst st \<noteq> SAbstain"

definition start_step :: "authorization_input \<Rightarrow> trace_step" where
  "start_step inp = mk_step ''start'' ''continue'' (''evaluate action='' @ in_action inp) None"

definition decide_structured :: "engine \<Rightarrow> authorization_input \<Rightarrow> authorization_decision result" where
  "decide_structured eng inp =
     (let trace = [start_step inp];
          user_subjects = subject_descriptors inp;
          (st, trace) = evaluate_direct_permissions inp trace in
      if decided st then Inr (decision_from_stage st trace (Some ''rbac:permissions'') [''rbac:permissions''])
      else let (st, trace) = evaluate_acl inp trace user_subjects in
      if decided st then Inr (decision_from_stage st trace (snd (snd st)) (matched_of st))
      else let (st, trace) = evaluate_role_permissions inp trace in
      if decided st then Inr (decision_from_stage st trace (Some ''rbac:role'') [''rbac:role''])
      else let (st, trace) = evaluate_relationship_index inp trace user_subjects in
      if decided st then Inr (decision_from_stage st trace (Some ''relationship:index'') [''relationship:index''])
      else let (st, trace) = evaluate_permission_graph inp trace in
      if decided st then Inr (decision_from_stage st trace (snd (snd st)) (matched_of st))
      else ebind (evaluate_compiled_policies eng inp trace) (\<lambda>(st, trace).
        if decided st then Inr (decision_from_stage st trace (snd (snd st)) (matched_of st))
        else Inr (no_match_decision trace)))"

definition decide :: "engine \<Rightarrow> decide_arg \<Rightarrow> string option \<Rightarrow> pydict option \<Rightarrow> authorization_decision result" where
  "decide eng arg action resource = ebind (normalize_input arg action resource) (decide_structured eng)"

definition check_access :: "engine \<Rightarrow> descriptor \<Rightarrow> string \<Rightarrow> descriptor \<Rightarrow> pydict option
    \<Rightarrow> authorization_decision result" where
  "check_access eng subject action resource context =
     decide eng (Structured (plain_input (normalize_subject subject) (normalize_resource resource) action
       (case context of None \<Rightarrow> [] | Some c \<Rightarrow> c))) None None"

definition policy_id_of :: "policy_definition \<Rightarrow> string" where
  "policy_id_of p = str_or (pd_policy_id p) (default_policy_id (pd_action p) (pd_priority p) (pd_effect p))"

definition decision_from_policy :: "policy_definition \<Rightarrow> trace \<Rightarrow> string list \<Rightarrow> authorization_decision" where
  "decision_from_policy p trace failed_conditions =
     (let policy_id = policy_id_of p in
      \<lparr>ad_allowed = (pd_effect p = Allow), ad_decision = pd_effect p,
       ad_reason = Some (if policy_id = [] then ''matched policy'' else ''matched policy '' @ policy_id),
       ad_policy_id = Some policy_id,
       ad_explain_trace = trace @ [mk_step ''final'' (decision_text (pd_effect p))
         (''selected policy effect='' @ decision_text (pd_effect p)) (Some policy_id)],
       ad_matched_policies = [policy_id], ad_failed_conditions = failed_conditions\<rparr>)"

fun best_reason :: "(policy_definition \<times> bool \<times> string option) list \<Rightarrow> string option" where
  "best_reason [] = None"
| "best_reason ((p, matched, reason) # evaluated) =
     (if \<not> matched \<and> (case reason of None \<Rightarrow> False | Some r \<Rightarrow> r \<noteq> []) then reason else best_reason evaluated)"

section \<open>The contract of a stage\<close>

text \<open>
  Every stage keeps the trace it is given and appends steps under its own name; neither its
  verdict nor the steps depend on the trace so far. An abstention carries no reason and no id, and
  a decision is explained by the last step it appended.
\<close>

type_synonym stage_fn = "authorization_input \<Rightarrow> trace \<Rightarrow> (stage \<times> trace) result"

definition verdict_of_stage :: "stage_fn \<Rightarrow> authorization_input \<Rightarrow> stage result" where
  "verdict_of_stage run inp = ebind (run inp []) (\<lambda>(st, steps). Inr st)"

locale decision_stage =
  fixes run :: stage_fn and name :: string
  assumes appends: "run inp tr = ebind (run inp []) (\<lambda>(st, steps). Inr (st, tr @ steps))"
    and named: "run inp [] = Inr (st, steps) \<Longrightarrow> s \<in> set steps \<Longrightarrow> ts_step s = name"
    and bare: "run inp [] = Inr (st, steps) \<Longrightarrow> \<not> decided st \<Longrightarrow> st = abstained"
    and explained: "run inp [] = Inr (st, steps) \<Longrightarrow> decided st
      \<Longrightarrow> steps \<noteq> [] \<and> ts_policy_id (last steps) = snd (snd st)"
begin

lemma run_verdict:
  "run inp tr = Inr (st, tr') \<Longrightarrow> verdict_of_stage run inp = Inr st"
  by (subst (asm) appends) (auto simp: verdict_of_stage_def ebind_eq_Inr)

lemma run_error: "run inp tr = Inl e \<Longrightarrow> verdict_of_stage run inp = Inl e"
  by (subst (asm) appends) (auto simp: verdict_of_stage_def ebind_eq_Inl)

lemma run_extends:
  "run inp tr = Inr (st, tr') \<Longrightarrow> \<exists>steps. tr' = tr @ steps \<and> (\<forall>s \<in> set steps. ts_step s = name)
     \<and> (decided st \<longrightarrow> steps \<noteq> [] \<and> ts_policy_id (last steps) = snd (snd st))"
  using named explained by (subst (asm) appends) (force simp: ebind_eq_Inr)

lemma run_abstains: "run inp tr = Inr (st, tr') \<Longrightarrow> \<not> decided st \<Longrightarrow> st = abstained"
  using bare by (subst (asm) appends) (auto simp: ebind_eq_Inr)

end

definition direct_stage :: stage_fn where
  "direct_stage inp tr = Inr (evaluate_direct_permissions inp tr)"

definition acl_stage :: stage_fn where
  "acl_stage inp tr = Inr (evaluate_acl inp tr (subject_descriptors inp))"

definition role_stage :: stage_fn where
  "role_stage inp tr = Inr (evaluate_role_permissions inp tr)"

definition index_stage :: stage_fn where
  "index_stage inp tr = Inr (evaluate_relationship_index inp tr (subject_descriptors inp))"

definition schema_stage :: stage_fn where
  "schema_stage inp tr = Inr (evaluate_permission_graph inp tr)"

definition policy_stage :: "engine \<Rightarrow> stage_fn" where
  "policy_stage eng inp tr = evaluate_compiled_policies eng inp tr"

lemmas stage_defs = direct_stage_def acl_stage_def role_stage_def index_stage_def schema_stage_def
  policy_stage_def

lemma mk_step_sel [simp]:
  "ts_step (mk_step s oc d p) = s" "ts_outcome (mk_step s oc d p) = oc"
  "ts_detail (mk_step s oc d p) = d" "ts_policy_id (mk_step s oc d p) = p"
  by (simp_all add: mk_step_def)

text \<open>The contract for a fixed input, over the trace.\<close>

definition explains :: "(trace \<Rightarrow> stage \<times> trace) \<Rightarrow> string \<Rightarrow> stage \<Rightarrow> trace \<Rightarrow> bool" where
  "explains run name st steps = ((\<forall>tr. run tr = (st, tr @ steps)) \<and> (\<forall>s \<in> set steps. ts_step s = name)
     \<and> (if decided st then steps \<noteq> [] \<and> ts_policy_id (last steps) = snd (snd st) else st = abstained))"

lemma acl_loop_explains: "\<exists>st steps. explains (acl_loop es ty rid a S m) ''acl'' st steps"
proof (induction es arbitrary: m)
  case Nil
  then show ?case by (cases m) (simp_all add: explains_def)
next
  case (Cons e es)
  show ?case
  proof (cases "acl_matches e ty rid a S \<and> acl_effect e \<noteq> ''allow'' \<and> acl_effect e \<noteq> ''deny''")
    case True
    from Cons.IH [of True] obtain st steps where s: "explains (acl_loop es ty rid a S True) ''acl'' st steps"
      by blast
    let ?step = "mk_step ''acl'' ''abstain'' (acl_reason e a ty rid) (Some (acl_policy_id e))"
    have "explains (acl_loop (e # es) ty rid a S m) ''acl'' st (?step # steps)"
      using True s by (simp add: explains_def Let_def split: if_splits)
    then show ?thesis by blast
  next
    case False
    then show ?thesis
    proof (cases "acl_matches e ty rid a S")
      case True
      then show ?thesis using False by (auto simp: explains_def Let_def)
    qed (use Cons.IH [of m] in \<open>simp add: explains_def\<close>)
  qed
qed

lemma acl_stage_explains: "\<exists>st steps. explains (\<lambda>tr. evaluate_acl inp tr S) ''acl'' st steps"
proof (cases "resource_identity (in_resource inp)")
  case (Pair ty rid)
  show ?thesis
  proof (cases "ty = [] \<or> rid = []")
    case False
    then have "(\<lambda>tr. evaluate_acl inp tr S)
        = acl_loop (effective_acl_entries inp) ty rid (in_action inp) S False"
      by (simp add: evaluate_acl_def Pair fun_eq_iff)
    then show ?thesis using acl_loop_explains by simp
  qed (simp add: evaluate_acl_def explains_def Pair)
qed

interpretation direct: decision_stage direct_stage "''rbac_permissions''"
  by unfold_locales (auto simp: direct_stage_def evaluate_direct_permissions_def Let_def split: if_splits)

interpretation role: decision_stage role_stage "''rbac_role''"
  by unfold_locales (auto simp: role_stage_def evaluate_role_permissions_def Let_def split: if_splits)

interpretation relindex: decision_stage index_stage "''relationship''"
  by unfold_locales (auto simp: index_stage_def evaluate_relationship_index_def Let_def
      split: if_splits prod.splits)

interpretation schema: decision_stage schema_stage "''permission_graph''"
  by unfold_locales (auto simp: schema_stage_def evaluate_permission_graph_def stage_of_graph_def
      split: if_splits option.splits)

interpretation policy: decision_stage "policy_stage eng" "''policy_graph''"
  by unfold_locales (auto simp: policy_stage_def evaluate_compiled_policies_def stage_of_graph_def
      ebind_eq_Inr ebind_assoc Let_def intro!: arg_cong [where f = "ebind _"] split: if_splits)

interpretation acl: decision_stage acl_stage "''acl''"
proof unfold_locales
  fix inp
  obtain st steps where "explains (\<lambda>tr. evaluate_acl inp tr (subject_descriptors inp)) ''acl'' st steps"
    using acl_stage_explains by blast
  then have c: "\<And>tr. acl_stage inp tr = Inr (st, tr @ steps)" "\<And>s. s \<in> set steps \<Longrightarrow> ts_step s = ''acl''"
    "if decided st then steps \<noteq> [] \<and> ts_policy_id (last steps) = snd (snd st) else st = abstained"
    by (simp_all add: explains_def acl_stage_def)
  show "acl_stage inp tr = ebind (acl_stage inp []) (\<lambda>(st, steps). Inr (st, tr @ steps))" for tr
    by (simp add: c(1))
  show "ts_step s = ''acl''" if "acl_stage inp [] = Inr (st', ss)" "s \<in> set ss" for st' ss s
    using that c(1,2) by simp
  show "st' = abstained" if "acl_stage inp [] = Inr (st', ss)" "\<not> decided st'" for st' ss
    using that c(1,3) by simp
  show "ss \<noteq> [] \<and> ts_policy_id (last ss) = snd (snd st')"
    if "acl_stage inp [] = Inr (st', ss)" "decided st'" for st' ss
    using that c(1,3) by simp
qed

section \<open>The pipeline\<close>

text \<open>
  The specification of \<open>decide\<close>: the stages in order, the first that does not abstain decides,
  and when all abstain the request is denied.
\<close>

definition stages :: "engine \<Rightarrow> stage_fn list" where
  "stages eng = [direct_stage, acl_stage, role_stage, index_stage, schema_stage, policy_stage eng]"

fun resolve :: "stage_fn list \<Rightarrow> authorization_input \<Rightarrow> stage result" where
  "resolve [] inp = Inr (SDeny, Some ''no matching policy'', None)"
| "resolve (s # ss) inp = ebind (verdict_of_stage s inp) (\<lambda>st. if decided st then Inr st else resolve ss inp)"

definition verdict_of_decision :: "authorization_decision \<Rightarrow> bool \<times> string option \<times> string option" where
  "verdict_of_decision d = (ad_allowed d, ad_reason d, ad_policy_id d)"

lemma verdict_of_decision_from_stage:
  "snd (snd st) = pid \<Longrightarrow> verdict_of_decision (decision_from_stage st tr pid m)
     = (fst st = SAllow, snd st)"
  by (cases st) (auto simp: verdict_of_decision_def decision_from_stage_def Let_def)

lemma no_match_verdict:
  "verdict_of_decision (no_match_decision tr) = (False, Some ''no matching policy'', None)"
  by (simp add: verdict_of_decision_def no_match_decision_def)

lemma direct_decided_id:
  "evaluate_direct_permissions inp tr = (st, tr') \<Longrightarrow> decided st \<Longrightarrow> snd (snd st) = Some ''rbac:permissions''"
  by (auto simp: evaluate_direct_permissions_def Let_def split: if_splits)

lemma role_decided_id:
  "evaluate_role_permissions inp tr = (st, tr') \<Longrightarrow> decided st \<Longrightarrow> snd (snd st) = Some ''rbac:role''"
  by (auto simp: evaluate_role_permissions_def Let_def split: if_splits)

lemma index_decided_id:
  "evaluate_relationship_index inp tr S = (st, tr') \<Longrightarrow> decided st \<Longrightarrow> snd (snd st) = Some ''relationship:index''"
  by (auto simp: evaluate_relationship_index_def Let_def split: if_splits prod.splits)

lemma stage_verdicts:
  "evaluate_direct_permissions inp tr = (st, tr') \<Longrightarrow> verdict_of_stage direct_stage inp = Inr st"
  "evaluate_acl inp tr (subject_descriptors inp) = (st, tr') \<Longrightarrow> verdict_of_stage acl_stage inp = Inr st"
  "evaluate_role_permissions inp tr = (st, tr') \<Longrightarrow> verdict_of_stage role_stage inp = Inr st"
  "evaluate_relationship_index inp tr (subject_descriptors inp) = (st, tr')
     \<Longrightarrow> verdict_of_stage index_stage inp = Inr st"
  "evaluate_permission_graph inp tr = (st, tr') \<Longrightarrow> verdict_of_stage schema_stage inp = Inr st"
  by (rule direct.run_verdict acl.run_verdict role.run_verdict relindex.run_verdict schema.run_verdict;
      simp add: stage_defs)+

lemma decide_structured_resolves:
  "ebind (decide_structured eng inp) (\<lambda>d. Inr (verdict_of_decision d))
   = ebind (resolve (stages eng) inp) (\<lambda>st. Inr (fst st = SAllow, snd st))"
proof -
  obtain st1 t1 where e1: "evaluate_direct_permissions inp [start_step inp] = (st1, t1)" by fastforce
  obtain st2 t2 where e2: "evaluate_acl inp t1 (subject_descriptors inp) = (st2, t2)" by fastforce
  obtain st3 t3 where e3: "evaluate_role_permissions inp t2 = (st3, t3)" by fastforce
  obtain st4 t4 where e4: "evaluate_relationship_index inp t3 (subject_descriptors inp) = (st4, t4)"
    by fastforce
  obtain st5 t5 where e5: "evaluate_permission_graph inp t4 = (st5, t5)" by fastforce
  note ids = direct_decided_id [OF e1] role_decided_id [OF e3] index_decided_id [OF e4]
  note verdicts = e1 [THEN stage_verdicts(1)] e2 [THEN stage_verdicts(2)] e3 [THEN stage_verdicts(3)]
    e4 [THEN stage_verdicts(4)] e5 [THEN stage_verdicts(5)]
  show ?thesis
  proof (cases "evaluate_compiled_policies eng inp t5")
    case (Inl e)
    then have "verdict_of_stage (policy_stage eng) inp = Inl e"
      using policy.run_error [of eng inp t5 e] by (simp add: policy_stage_def)
    then show ?thesis
      using Inl ids unfolding decide_structured_def Let_def e1 e2 e3 e4 e5 stages_def
      by (simp add: e2 e3 e4 e5 verdicts verdict_of_decision_from_stage)
  next
    case (Inr x)
    obtain st6 t6 where x: "x = (st6, t6)" by (cases x)
    then have "verdict_of_stage (policy_stage eng) inp = Inr st6"
      using Inr policy.run_verdict [of eng inp t5 st6 t6] by (simp add: policy_stage_def)
    then show ?thesis
      using Inr x ids unfolding decide_structured_def Let_def e1 e2 e3 e4 e5 stages_def
      by (simp add: e2 e3 e4 e5 verdicts verdict_of_decision_from_stage no_match_verdict)
  qed
qed

text \<open>
  C1. \<open>decide\<close> implements the pipeline: verdict, reason and policy id are those of the first stage,
  in the order direct permissions, ACL, role permissions, relationship index, permission graph,
  compiled policies, that does not abstain; when all abstain the request is denied with
  \<open>no matching policy\<close>; and an exception of a stage is raised exactly when that stage is reached.
\<close>

theorem decide_is_first_decisive_stage:
  "ebind (decide eng arg action resource) (\<lambda>d. Inr (verdict_of_decision d))
   = ebind (normalize_input arg action resource) (\<lambda>inp.
       ebind (resolve [direct_stage, acl_stage, role_stage, index_stage, schema_stage, policy_stage eng] inp)
         (\<lambda>st. Inr (fst st = SAllow, snd st)))"
  by (simp add: decide_def ebind_assoc decide_structured_resolves stages_def)

section \<open>The explanation trace\<close>

definition stage_names :: "string list" where
  "stage_names = [''rbac_permissions'', ''acl'', ''rbac_role'', ''relationship'', ''permission_graph'',
     ''policy_graph'']"

lemma stage_extends:
  "evaluate_direct_permissions inp tr = (st, tr') \<Longrightarrow> \<exists>ss. tr' = tr @ ss \<and> ts_step ` set ss \<subseteq> set stage_names"
  "evaluate_acl inp tr (subject_descriptors inp) = (st, tr') \<Longrightarrow> \<exists>ss. tr' = tr @ ss \<and> ts_step ` set ss \<subseteq> set stage_names"
  "evaluate_role_permissions inp tr = (st, tr') \<Longrightarrow> \<exists>ss. tr' = tr @ ss \<and> ts_step ` set ss \<subseteq> set stage_names"
  "evaluate_relationship_index inp tr (subject_descriptors inp) = (st, tr')
     \<Longrightarrow> \<exists>ss. tr' = tr @ ss \<and> ts_step ` set ss \<subseteq> set stage_names"
  "evaluate_permission_graph inp tr = (st, tr') \<Longrightarrow> \<exists>ss. tr' = tr @ ss \<and> ts_step ` set ss \<subseteq> set stage_names"
  "evaluate_compiled_policies eng inp tr = Inr (st, tr') \<Longrightarrow> \<exists>ss. tr' = tr @ ss \<and> ts_step ` set ss \<subseteq> set stage_names"
  using direct.run_extends [of inp tr st tr'] acl.run_extends [of inp tr st tr']
    role.run_extends [of inp tr st tr'] relindex.run_extends [of inp tr st tr']
    schema.run_extends [of inp tr st tr'] policy.run_extends [of eng inp tr st tr']
  by (auto simp: stage_defs stage_names_def image_subset_iff)

text \<open>A trace of a decision: the start step, steps of stages, and one final step.\<close>

definition well_traced :: "authorization_input \<Rightarrow> authorization_decision \<Rightarrow> bool" where
  "well_traced inp d = (\<exists>ss f. ad_explain_trace d = start_step inp # ss @ [f]
     \<and> ts_step ` set ss \<subseteq> set stage_names \<and> ts_step f = ''final''
     \<and> ts_outcome f = decision_text (ad_decision d) \<and> ts_policy_id f = ad_policy_id d)"

definition partial_trace :: "authorization_input \<Rightarrow> trace \<Rightarrow> bool" where
  "partial_trace inp tr = (\<exists>ss. tr = start_step inp # ss \<and> ts_step ` set ss \<subseteq> set stage_names)"

lemma partial_trace_extend:
  "partial_trace inp tr \<Longrightarrow> \<exists>ss. tr' = tr @ ss \<and> ts_step ` set ss \<subseteq> set stage_names \<Longrightarrow> partial_trace inp tr'"
  by (force simp: partial_trace_def)

lemma well_traced_from_stage:
  "partial_trace inp tr \<Longrightarrow> decided st \<Longrightarrow> well_traced inp (decision_from_stage st tr pid m)"
  by (cases "fst st"; cases st)
    (auto simp: partial_trace_def well_traced_def decision_from_stage_def Let_def)

lemma well_traced_no_match: "partial_trace inp tr \<Longrightarrow> well_traced inp (no_match_decision tr)"
  by (auto simp: partial_trace_def well_traced_def no_match_decision_def)

lemma consistent_from_stage: "consistent (decision_from_stage st tr pid m)"
  by (cases st) (simp add: consistent_def decision_from_stage_def Let_def)

lemma consistent_no_match: "consistent (no_match_decision tr)"
  by (simp add: consistent_def no_match_decision_def)

lemma decide_structured_consistent: "decide_structured eng inp = Inr d \<Longrightarrow> consistent d"
  unfolding decide_structured_def Let_def
  by (auto simp: ebind_eq_Inr consistent_from_stage consistent_no_match split: prod.split_asm if_split_asm)

lemma decide_consistent: "decide eng arg action resource = Inr d \<Longrightarrow> consistent d"
  by (auto simp: decide_def ebind_eq_Inr decide_structured_consistent)

text \<open>
  C16. Every decision explains itself: the flag and the verdict agree, and the trace is the start
  step for the action, then only steps of stages, then exactly one step named \<open>final\<close> that carries
  the verdict and the policy id returned.
\<close>

theorem decide_explains_itself:
  "decide_structured eng inp = Inr d \<Longrightarrow> consistent d \<and> well_traced inp d"
proof -
  assume d: "decide_structured eng inp = Inr d"
  obtain st1 t1 where e1: "evaluate_direct_permissions inp [start_step inp] = (st1, t1)" by fastforce
  obtain st2 t2 where e2: "evaluate_acl inp t1 (subject_descriptors inp) = (st2, t2)" by fastforce
  obtain st3 t3 where e3: "evaluate_role_permissions inp t2 = (st3, t3)" by fastforce
  obtain st4 t4 where e4: "evaluate_relationship_index inp t3 (subject_descriptors inp) = (st4, t4)"
    by fastforce
  obtain st5 t5 where e5: "evaluate_permission_graph inp t4 = (st5, t5)" by fastforce
  have "partial_trace inp [start_step inp]" by (simp add: partial_trace_def)
  then have p1: "partial_trace inp t1" using stage_extends(1) [OF e1] by (rule partial_trace_extend)
  then have p2: "partial_trace inp t2" using stage_extends(2) [OF e2] by (rule partial_trace_extend)
  then have p3: "partial_trace inp t3" using stage_extends(3) [OF e3] by (rule partial_trace_extend)
  then have p4: "partial_trace inp t4" using stage_extends(4) [OF e4] by (rule partial_trace_extend)
  then have p5: "partial_trace inp t5" using stage_extends(5) [OF e5] by (rule partial_trace_extend)
  have p6: "partial_trace inp t6" if "evaluate_compiled_policies eng inp t5 = Inr (st6, t6)" for st6 t6
    using p5 stage_extends(6) [OF that] by (rule partial_trace_extend)
  show ?thesis
  proof (cases "evaluate_compiled_policies eng inp t5")
    case (Inl e)
    then show ?thesis
      using d p1 p2 p3 p4 p5 unfolding decide_structured_def Let_def e1
      by (simp add: e2 e3 e4 e5 split: if_splits)
        (auto simp: consistent_from_stage well_traced_from_stage)
  next
    case (Inr x)
    then show ?thesis
      using d p1 p2 p3 p4 p5 p6 [of "fst x" "snd x"] unfolding decide_structured_def Let_def e1
      by (cases x) (auto simp: e2 e3 e4 e5 consistent_from_stage consistent_no_match
          well_traced_from_stage well_traced_no_match split: if_split_asm)
  qed
qed

section \<open>Grants\<close>

definition direct_grant :: "authorization_input \<Rightarrow> bool" where
  "direct_grant inp = (\<exists>ps. dget_or (in_user inp) ''direct_permissions''
     (dget_or (in_user inp) ''permissions'' (PList [])) = PList ps \<and> PStr (in_action inp) \<in> set ps)"

definition role_grant :: "authorization_input \<Rightarrow> bool" where
  "role_grant inp = (\<exists>ps. dget (in_user inp) ''role_permissions'' = Some (PList ps)
     \<and> PStr (in_action inp) \<in> set ps)"

text \<open>An ACL entry about the requested resource, action and one of the subjects of the user.\<close>

definition acl_entry_for :: "authorization_input \<Rightarrow> pydict \<Rightarrow> bool" where
  "acl_entry_for inp e = (let (ty, rid) = resource_identity (in_resource inp) in
     ty \<noteq> [] \<and> rid \<noteq> [] \<and> acl_matches e ty rid (in_action inp) (subject_descriptors inp))"

definition acl_grant :: "authorization_input \<Rightarrow> bool" where
  "acl_grant inp = (\<exists>e \<in> set (effective_acl_entries inp). acl_entry_for inp e \<and> acl_effect e = ''allow'')"

definition index_grant :: "authorization_input \<Rightarrow> bool" where
  "index_grant inp = (let (ty, rid) = resource_identity (in_resource inp) in
     ty \<noteq> [] \<and> rid \<noteq> [] \<and> (\<exists>e \<in> set (in_index_entries inp).
        index_entry_allows e ty rid (in_action inp) (subject_descriptors inp)))"

definition schema_grant :: "authorization_input \<Rightarrow> bool" where
  "schema_grant inp = (\<exists>g. in_permission_graph inp = Some g
     \<and> gd_outcome (permission_graph_evaluate g inp) = SAllow)"

definition policy_grant :: "engine \<Rightarrow> authorization_input \<Rightarrow> bool" where
  "policy_grant eng inp = (\<exists>d. graph_evaluate (case in_compiled_graph inp of Some g \<Rightarrow> g
     | None \<Rightarrow> eng_graph eng) inp = Inr d \<and> gd_outcome d = SAllow)"

lemma direct_verdict:
  "fst (fst (evaluate_direct_permissions inp tr)) = (if direct_grant inp then SAllow else SAbstain)"
  by (auto simp: evaluate_direct_permissions_def direct_grant_def Let_def is_list_def list_items_def
      split: pyval.splits)

lemma role_verdict:
  "fst (fst (evaluate_role_permissions inp tr)) = (if role_grant inp then SAllow else SAbstain)"
  by (auto simp: evaluate_role_permissions_def role_grant_def Let_def is_list_def list_items_def
      dget_or_def split: pyval.splits option.splits)

lemma index_verdict:
  "fst (fst (evaluate_relationship_index inp tr (subject_descriptors inp)))
     = (if index_grant inp then SAllow else SAbstain)"
  by (cases "resource_identity (in_resource inp)")
    (simp add: evaluate_relationship_index_def index_grant_def Let_def list_ex_iff)

lemma schema_verdict:
  "fst (fst (evaluate_permission_graph inp tr)) = SAllow \<longleftrightarrow> schema_grant inp"
  by (auto simp: evaluate_permission_graph_def schema_grant_def stage_of_graph_def split: option.splits)

lemma policy_verdict:
  "evaluate_compiled_policies eng inp tr = Inr (st, tr') \<Longrightarrow> fst st = SAllow \<Longrightarrow> policy_grant eng inp"
  by (auto simp: evaluate_compiled_policies_def policy_grant_def stage_of_graph_def Let_def ebind_eq_Inr
      split: if_splits)

definition decisive :: "authorization_input \<Rightarrow> pydict \<Rightarrow> bool" where
  "decisive inp e = (acl_entry_for inp e \<and> (acl_effect e = ''allow'' \<or> acl_effect e = ''deny''))"

lemma acl_loop_find:
  "fst (acl_loop es ty rid a S m tr) =
     (case find (\<lambda>e. acl_matches e ty rid a S \<and> (acl_effect e = ''allow'' \<or> acl_effect e = ''deny'')) es of
        None \<Rightarrow> abstained
      | Some e \<Rightarrow> (if acl_effect e = ''allow'' then SAllow else SDeny,
          Some (acl_reason e a ty rid), Some (acl_policy_id e)))"
  by (induction es arbitrary: m tr) (auto simp: Let_def)

lemma acl_verdict:
  "fst (evaluate_acl inp tr (subject_descriptors inp)) =
     (case find (decisive inp) (effective_acl_entries inp) of
        None \<Rightarrow> abstained
      | Some e \<Rightarrow> (if acl_effect e = ''allow'' then SAllow else SDeny,
          Some (acl_reason e (in_action inp) (fst (resource_identity (in_resource inp)))
            (snd (resource_identity (in_resource inp)))), Some (acl_policy_id e)))"
proof (cases "resource_identity (in_resource inp)")
  case (Pair ty rid)
  show ?thesis
  proof (cases "ty = [] \<or> rid = []")
    case True
    then have "decisive inp = (\<lambda>e. False)" by (auto simp: decisive_def acl_entry_for_def Pair fun_eq_iff)
    moreover have "find (\<lambda>e. False) xs = None" for xs :: "pydict list" by (induction xs) simp_all
    ultimately show ?thesis using True by (auto simp: evaluate_acl_def Pair)
  next
    case False
    then have "decisive inp = (\<lambda>e. acl_matches e ty rid (in_action inp) (subject_descriptors inp)
        \<and> (acl_effect e = ''allow'' \<or> acl_effect e = ''deny''))"
      by (simp add: decisive_def acl_entry_for_def Pair fun_eq_iff)
    then show ?thesis using False by (simp add: evaluate_acl_def Pair acl_loop_find split: option.split)
  qed
qed

lemma acl_verdict_allow:
  "fst (fst (evaluate_acl inp tr (subject_descriptors inp))) = SAllow \<Longrightarrow> acl_grant inp"
  by (auto simp: acl_verdict acl_grant_def decisive_def find_Some_iff split: option.splits if_splits)

text \<open>An allowed request was allowed by one of the stages.\<close>

lemma allow_has_grant:
  assumes "decide_structured eng inp = Inr d" "ad_allowed d"
  shows "direct_grant inp \<or> acl_grant inp \<or> role_grant inp \<or> index_grant inp \<or> schema_grant inp
     \<or> policy_grant eng inp"
proof (rule ccontr)
  assume n: "\<not> ?thesis"
  have "Inr (verdict_of_decision d)
      = ebind (resolve (stages eng) inp) (\<lambda>st. Inr (fst st = SAllow, snd st))"
    using decide_structured_resolves [of eng inp] assms(1) by simp
  then obtain st where st: "resolve (stages eng) inp = Inr st" "fst st = SAllow"
    using assms(2) by (cases "resolve (stages eng) inp") (auto simp: verdict_of_decision_def)
  have v: "fst (fst (evaluate_direct_permissions inp [])) \<noteq> SAllow"
    "fst (fst (evaluate_acl inp [] (subject_descriptors inp))) \<noteq> SAllow"
    "fst (fst (evaluate_role_permissions inp [])) \<noteq> SAllow"
    "fst (fst (evaluate_relationship_index inp [] (subject_descriptors inp))) \<noteq> SAllow"
    "fst (fst (evaluate_permission_graph inp [])) \<noteq> SAllow"
    using n acl_verdict_allow [of inp] by (auto simp: direct_verdict role_verdict index_verdict schema_verdict)
  show False
    using st v n policy_verdict [of eng inp "[]"]
    by (auto simp: stages_def verdict_of_stage_def stage_defs ebind_eq_Inr split: prod.splits if_splits)
qed

text \<open>
  A direct permission for the action decides alone: the request is allowed whatever the ACL
  entries, the relationship index, the permission graph and the policies say, denials included.
\<close>

lemma direct_permission_decides:
  assumes "dget (in_user inp) ''direct_permissions'' = Some (PList ps)" "PStr (in_action inp) \<in> set ps"
  shows "\<exists>d. decide_structured eng inp = Inr d \<and> ad_allowed d \<and> ad_policy_id d = Some ''rbac:permissions''
    \<and> ad_reason d = Some ''explicit permission grant''"
  using assms by (simp add: decide_structured_def evaluate_direct_permissions_def dget_or_def is_list_def
      list_items_def decision_from_stage_def Let_def)

text \<open>
  The ACL verdict is that of the first entry, in the order given, that is about the requested
  resource, action and a subject of the user and whose effect is \<open>allow\<close> or \<open>deny\<close>; entries for other
  resources, actions or subjects, and entries with another effect, never change it.
\<close>

lemma acl_first_decisive_entry:
  "verdict_of_stage acl_stage inp = Inr (case filter (decisive inp) (effective_acl_entries inp) of
     [] \<Rightarrow> abstained
   | e # _ \<Rightarrow> (if acl_effect e = ''allow'' then SAllow else SDeny,
       Some (acl_reason e (in_action inp) (fst (resource_identity (in_resource inp)))
          (snd (resource_identity (in_resource inp)))), Some (acl_policy_id e)))"
proof -
  have f: "find P xs = (case filter P xs of [] \<Rightarrow> None | x # _ \<Rightarrow> Some x)" for P and xs :: "pydict list"
    by (induction xs) auto
  have "verdict_of_stage acl_stage inp = Inr (fst (evaluate_acl inp [] (subject_descriptors inp)))"
    by (simp add: verdict_of_stage_def acl_stage_def split_def)
  then show ?thesis by (simp add: acl_verdict f split: list.split)
qed

section \<open>Policies through the engine\<close>

lemma parse_defs: "emap parse_policy_arg (map PolicyDef ps) = Inr ps"
  by (induction ps) (simp_all add: parse_policy_arg_def)

text \<open>Nothing before the policies applies to the request.\<close>

definition only_policies_apply :: "authorization_input \<Rightarrow> bool" where
  "only_policies_apply inp = (\<not> direct_grant inp \<and> filter (decisive inp) (effective_acl_entries inp) = []
     \<and> \<not> role_grant inp \<and> \<not> index_grant inp \<and> in_permission_graph inp = None \<and> in_compiled_graph inp = None)"

lemma decide_policies_only:
  assumes "only_policies_apply inp"
  shows "\<exists>tr. decide_structured eng inp = ebind (evaluate_compiled_policies eng inp tr) (\<lambda>(st, tr).
     Inr (if decided st then decision_from_stage st tr (snd (snd st)) (matched_of st) else no_match_decision tr))"
proof -
  obtain st1 t1 where e1: "evaluate_direct_permissions inp [start_step inp] = (st1, t1)" by fastforce
  obtain st2 t2 where e2: "evaluate_acl inp t1 (subject_descriptors inp) = (st2, t2)" by fastforce
  obtain st3 t3 where e3: "evaluate_role_permissions inp t2 = (st3, t3)" by fastforce
  obtain st4 t4 where e4: "evaluate_relationship_index inp t3 (subject_descriptors inp) = (st4, t4)"
    by fastforce
  obtain st5 t5 where e5: "evaluate_permission_graph inp t4 = (st5, t5)" by fastforce
  have none: "find (decisive inp) (effective_acl_entries inp) = None"
    using assms by (simp add: only_policies_apply_def find_None_iff filter_empty_conv)
  have "\<not> decided st1" using assms direct_verdict [of inp] by (simp add: only_policies_apply_def e1)
      (metis e1 fst_conv)
  moreover have "\<not> decided st2" using acl_verdict [of inp t1] none by (simp add: e2)
  moreover have "\<not> decided st3" using assms role_verdict [of inp t2] by (simp add: only_policies_apply_def e3)
  moreover have "\<not> decided st4" using assms index_verdict [of inp t3] by (simp add: only_policies_apply_def e4)
  moreover have "\<not> decided st5"
    using assms e5 by (auto simp: only_policies_apply_def evaluate_permission_graph_def)
  ultimately show ?thesis
    unfolding decide_structured_def Let_def e1
    by (intro exI [of _ t5]) (simp add: e2 e3 e4 e5 split_def if_distrib [of Inr])
qed

text \<open>
  C12. Priority: an engine built from a list of policies, asked about a request that nothing before
  the policies decides, answers with the first policy in ascending priority, ties in the order of the
  list, whose action and conditions hold: its effect, its id, and the id among the matched ones when it
  allows.
\<close>

theorem engine_first_match:
  assumes "new_engine (map PolicyDef ps) strategy None = Inr eng" "only_policies_apply inp"
    and "\<forall>p \<in> set ps. quiet p inp" "first_match (sort_key pd_priority ps) inp = Some p"
  shows "\<exists>d. decide_structured eng inp = Inr d \<and> ad_decision d = pd_effect p
     \<and> ad_policy_id d = Some (effective_id p)
     \<and> ad_reason d = Some (''matched policy '' @ effective_id p)
     \<and> ad_matched_policies d = (if pd_effect p = Allow then [effective_id p] else [])"
proof -
  have eng: "eng_graph eng = compile_policy_graph (sort_key pd_priority ps)"
    using assms(1) by (auto simp: new_engine_def parse_defs Let_def)
  have "sort_key pd_priority (sort_key pd_priority ps) = sort_key pd_priority ps"
    by (rule sort_key_id_if_sorted) simp
  then have g: "graph_evaluate (eng_graph eng) inp = Inr \<lparr>gd_outcome = outcome_of (pd_effect p),
      gd_reason = Some (''matched policy '' @ effective_id p), gd_policy_id = Some (effective_id p)\<rparr>"
    using graph_loop_match [OF assms(4), of None] assms(3)
    by (simp add: eng graph_evaluate_def compile_policy_graph_nodes)
  obtain tr where d: "decide_structured eng inp = ebind (evaluate_compiled_policies eng inp tr) (\<lambda>(st, tr).
      Inr (if decided st then decision_from_stage st tr (snd (snd st)) (matched_of st) else no_match_decision tr))"
    using decide_policies_only [OF assms(2)] by blast
  have c: "in_compiled_graph inp = None" using assms(2) by (simp add: only_policies_apply_def)
  show ?thesis
    unfolding d evaluate_compiled_policies_def c
    by (cases "pd_effect p") (simp_all add: g stage_of_graph_def decision_from_stage_def Let_def matched_of_def)
qed

section \<open>Descriptors\<close>

text \<open>
  Descriptors round trip: \<open>type:id\<close>, with a trimmed non-empty type without a colon and a trimmed
  id, is parsed back to the pair, so \<open>check_access\<close> with text descriptors asks about exactly that
  subject and resource.
\<close>

lemma parse_descriptor_roundtrip:
  assumes "strip ty = ty" "ty \<noteq> []" "CHR '':'' \<notin> set ty" "strip i = i"
  shows "parse_descriptor (ty @ '':'' @ i) = (ty, i)"
proof -
  have colon: "\<not> is_space (CHR '':'')" by (simp add: is_space_def code_def)
  have "strip (ty @ '':'' @ i) = ty @ '':'' @ i"
    using assms colon strip_fixed_first [of "hd ty" "tl ty"] strip_fixed_last [of i]
    by (intro strip_id) (auto simp: hd_append last_append)
  then show ?thesis
    using assms split1_append [OF assms(3), of i] by (simp add: parse_descriptor_def Let_def or_unknown_def)
qed

lemma parse_descriptor_roundtrip_example:
  "parse_descriptor (''doc'' @ '':'' @ ''a:1'') = (''doc'', ''a:1'')"
  by (rule parse_descriptor_roundtrip) (simp_all add: strip_id is_space_def code_def)

section \<open>Concrete requests\<close>

definition demo_engine :: engine where
  "demo_engine = \<lparr>eng_policies = [], eng_graph = \<lparr>dg_nodes = []\<rparr>, eng_strategy = ''first_match''\<rparr>"

definition demo_doc :: pydict where
  "demo_doc = [(''resource_type'', PStr ''doc''), (''resource_id'', PStr ''d1'')]"

definition deny_entry :: pydict where
  "deny_entry = [(''id'', PInt 7), (''subject_type'', PStr ''user''), (''subject_id'', PStr ''u1''),
     (''resource_type'', PStr ''doc''), (''resource_id'', PStr ''d1''), (''action'', PStr ''read''),
     (''effect'', PStr ''deny'')]"

definition direct_request :: authorization_input where
  "direct_request = (plain_input [(''id'', PStr ''u1''), (''direct_permissions'', PList [PStr ''read''])]
     demo_doc ''read'' [])\<lparr>in_acl_entries := [deny_entry]\<rparr>"

lemmas demo_request_defs = direct_request_def demo_doc_def deny_entry_def plain_input_def demo_engine_def

lemma direct_permission_decides_example:
  "\<exists>d. decide_structured demo_engine direct_request = Inr d \<and> ad_allowed d
     \<and> ad_policy_id d = Some ''rbac:permissions'' \<and> ad_reason d = Some ''explicit permission grant''"
  by (rule direct_permission_decides [where ps = "[PStr ''read'']"]) (simp_all add: demo_request_defs)

definition direct_decision :: authorization_decision where
  "direct_decision = \<lparr>ad_allowed = True, ad_decision = Allow,
     ad_reason = Some ''explicit permission grant'', ad_policy_id = Some ''rbac:permissions'',
     ad_explain_trace = [start_step direct_request,
       mk_step ''rbac_permissions'' ''matched'' ''explicit permission grant matched input action''
         (Some ''rbac:permissions''),
       mk_step ''final'' ''allow'' ''granted by explicit permission'' (Some ''rbac:permissions'')],
     ad_matched_policies = [''rbac:permissions''], ad_failed_conditions = []\<rparr>"

lemma decide_direct_request: "decide_structured demo_engine direct_request = Inr direct_decision"
  by (simp add: decide_structured_def evaluate_direct_permissions_def direct_decision_def
      decision_from_stage_def demo_request_defs dget_or_def is_list_def list_items_def Let_def)

theorem decide_explains_itself_witness:
  "consistent direct_decision \<and> well_traced direct_request direct_decision"
  by (rule decide_explains_itself [OF decide_direct_request])

definition demo_policy_engine :: engine where
  "demo_policy_engine = \<lparr>eng_policies = sort_key pd_priority demo_policies,
     eng_graph = compile_policy_graph (sort_key pd_priority demo_policies), eng_strategy = ''first_match''\<rparr>"

theorem engine_first_match_witness:
  "\<exists>d. decide_structured demo_policy_engine (plain_input [(''role'', PStr ''admin'')] [] ''read'' []) = Inr d
     \<and> ad_decision d = pd_effect (demo_policies ! 1) \<and> ad_policy_id d = Some (effective_id (demo_policies ! 1))
     \<and> ad_reason d = Some (''matched policy '' @ effective_id (demo_policies ! 1))
     \<and> ad_matched_policies d = (if pd_effect (demo_policies ! 1) = Allow
          then [effective_id (demo_policies ! 1)] else [])"
proof (rule engine_first_match)
  show "new_engine (map PolicyDef demo_policies) ''first_match'' None = Inr demo_policy_engine"
    by (simp add: new_engine_def parse_defs demo_policy_engine_def Let_def)
  show "only_policies_apply (plain_input [(''role'', PStr ''admin'')] [] ''read'' [])"
    by (simp add: only_policies_apply_def plain_input_def direct_grant_def role_grant_def index_grant_def
        effective_acl_entries_def dget_or_def)
  show "\<forall>p \<in> set demo_policies. quiet p (plain_input [(''role'', PStr ''admin'')] [] ''read'' [])"
    by (simp add: demo_policies_def quiet_def plain_input_def dpop_def handle_role_def ex_bool_eq)
  show "first_match (sort_key pd_priority demo_policies) (plain_input [(''role'', PStr ''admin'')] [] ''read'' [])
      = Some (demo_policies ! 1)"
    by (simp add: demo_policies_def first_match_def applies_def plain_input_def dpop_def)
qed

section \<open>An extra policy\<close>

lemma compile_changed:
  assumes "new_engine (ps @ [p]) st None = Inr eng'" "new_engine ps st None = Inr eng"
    "parse_policy_arg p = Inr d"
  obtains us vs where "dg_nodes (eng_graph eng) = us @ vs" "dg_nodes (eng_graph eng') = us @ node_of d # vs"
proof -
  from assms(2) obtain ds where ds: "emap parse_policy_arg ps = Inr ds" "eng_graph eng = compile_policy_graph (sort_key pd_priority ds)"
    by (auto simp: new_engine_def ebind_eq_Inr Let_def)
  have "emap parse_policy_arg (ps @ [p]) = Inr (ds @ [d])" by (simp add: emap_append ds(1) assms(3))
  with assms(1) have e: "eng_graph eng' = compile_policy_graph (sort_key pd_priority (ds @ [d]))"
    by (auto simp: new_engine_def Let_def)
  obtain us vs where uv: "sort_key pd_priority ds = us @ vs" "sort_key pd_priority (ds @ [d]) = us @ d # vs"
    using sort_snoc [of pd_priority ds d] by blast
  have nodes: "dg_nodes (compile_policy_graph (sort_key pd_priority xs)) = map node_of (sort_key pd_priority xs)"
    for xs :: "policy_definition list"
    unfolding compile_policy_graph_nodes by (simp only: sort_key_id_if_sorted [OF sorted_sort_key])
  show ?thesis
    by (rule that [of "map node_of us" "map node_of vs"])
      (simp_all only: ds(2) e nodes, simp_all only: uv map_append list.map)
qed

lemma resolve_last:
  "resolve (ss @ [s]) inp = Inr st \<Longrightarrow> resolve (ss @ [s']) inp = Inr st' \<Longrightarrow> st \<noteq> st' \<Longrightarrow>
   \<exists>v v'. verdict_of_stage s inp = Inr v \<and> verdict_of_stage s' inp = Inr v'
     \<and> (fst st = SAllow) = (fst v = SAllow) \<and> (fst st' = SAllow) = (fst v' = SAllow)"
  by (induction ss) (auto simp: ebind_eq_Inr split: if_splits)

lemma policy_stage_verdict:
  "in_compiled_graph inp = None \<Longrightarrow> verdict_of_stage (policy_stage eng) inp = Inr v \<Longrightarrow>
   \<exists>g. graph_evaluate (eng_graph eng) inp = Inr g \<and> (fst v = SAllow) = (gd_outcome g = SAllow)"
  by (auto simp: verdict_of_stage_def policy_stage_def evaluate_compiled_policies_def ebind_eq_Inr
      stage_of_graph_def split: if_splits)

text \<open>Engines that differ in their policies only answer differently only when their graphs do.\<close>

lemma decide_policies:
  assumes "in_compiled_graph inp = None" "decide_structured eng inp = Inr d" "decide_structured eng' inp = Inr d'"
    "ad_allowed d \<noteq> ad_allowed d'"
  shows "\<exists>g g'. graph_evaluate (eng_graph eng) inp = Inr g \<and> graph_evaluate (eng_graph eng') inp = Inr g'
    \<and> ad_allowed d = (gd_outcome g = SAllow) \<and> ad_allowed d' = (gd_outcome g' = SAllow)"
proof -
  have r: "\<exists>st. resolve (stages e) inp = Inr st \<and> ad_allowed x = (fst st = SAllow)"
    if "decide_structured e inp = Inr x" for e x
    using decide_structured_resolves [of e inp] that
    by (cases "resolve (stages e) inp") (auto simp: verdict_of_decision_def)
  obtain st st' where st: "resolve (stages eng) inp = Inr st" "ad_allowed d = (fst st = SAllow)"
    "resolve (stages eng') inp = Inr st'" "ad_allowed d' = (fst st' = SAllow)"
    using r [OF assms(2)] r [OF assms(3)] by blast
  define ss where "ss = [direct_stage, acl_stage, role_stage, index_stage, schema_stage]"
  have "stages e = ss @ [policy_stage e]" for e by (simp add: stages_def ss_def)
  with st(1,3) have "resolve (ss @ [policy_stage eng]) inp = Inr st" "resolve (ss @ [policy_stage eng']) inp = Inr st'"
    by simp_all
  moreover have "st \<noteq> st'" using st(2,4) assms(4) by metis
  ultimately obtain v v' where "verdict_of_stage (policy_stage eng) inp = Inr v" "verdict_of_stage (policy_stage eng') inp = Inr v'"
    "(fst st = SAllow) = (fst v = SAllow)" "(fst st' = SAllow) = (fst v' = SAllow)"
    using resolve_last by blast
  with policy_stage_verdict [OF assms(1)] st(2,4) show ?thesis by metis
qed

end
