(* ===== verification/Grants.thy ===== *)
theory Grants
  imports Engine
begin

text \<open>
  Who may do what, said without the code: which subjects a user is, which resource a request names, when
  an ACL entry, an index entry, an authorization model or a policy grants a request. The definitions
  read dictionaries, and use none of the matchers, loops and handlers of the engine; the lemmas show
  that these accept nothing else, and the theorem that no request is allowed without a grant.
\<close>

section \<open>Reading dictionaries\<close>

definition listed :: "pydict \<Rightarrow> string \<Rightarrow> pyval \<Rightarrow> bool" where
  "listed d key v \<longleftrightarrow> (\<exists>vs. dget d key = Some (PList vs) \<and> v \<in> set vs)"

text \<open>The text of a field that is there.\<close>

definition says :: "pydict \<Rightarrow> string \<Rightarrow> string \<Rightarrow> bool" where
  "says d key s \<longleftrightarrow> (\<exists>v. dget d key = Some v \<and> py_str v = s)"

text \<open>The text of a field, where a missing one reads as \<open>None\<close>.\<close>

definition reads :: "pydict \<Rightarrow> string \<Rightarrow> string \<Rightarrow> bool" where
  "reads d key s \<longleftrightarrow> says d key s \<or> dget d key = None \<and> s = ''None''"

text \<open>The text of the first of some fields that is truthy, empty when none is.\<close>

inductive named_by :: "string list \<Rightarrow> pydict \<Rightarrow> string \<Rightarrow> bool" where
  nameless: "named_by [] d []"
| here: "dget d key = Some v \<Longrightarrow> truthy v \<Longrightarrow> named_by (key # keys) d (py_str v)"
| later: "(\<And>v. dget d key = Some v \<Longrightarrow> \<not> truthy v) \<Longrightarrow> named_by keys d s \<Longrightarrow> named_by (key # keys) d s"

lemma listed_iff: "listed d key v \<longleftrightarrow> v \<in> set (list_items (dget_or d key (PList [])))"
  by (auto simp: listed_def dget_or_def list_items_def split: option.splits pyval.splits)

lemma says_iff: "s \<noteq> [] \<Longrightarrow> says d key s \<longleftrightarrow> py_str (dget_or d key (PStr [])) = s"
  by (auto simp: says_def dget_or_def split: option.splits)

lemma reads_iff: "reads d key s \<longleftrightarrow> py_str (pget d key) = s"
  by (cases "dget d key") (auto simp: reads_def says_def)

lemma named_by_iff: "named_by keys d (py_str (first_truthy d keys))"
proof (induction keys)
  case Nil
  then show ?case using nameless by simp
next
  case (Cons key keys)
  then show ?case by (cases "dget d key") (auto intro: named_by.intros)
qed

section \<open>Subjects and resources\<close>

text \<open>
  The subjects a user is: itself, its roles and permissions, and what it is related to. Nothing else in
  the request, and no entry of a list that is \<open>None\<close>, makes a subject.
\<close>

inductive own_subject :: "pydict \<Rightarrow> string \<Rightarrow> bool" for user where
  itself: "dget user ''id'' = Some v \<Longrightarrow> v \<noteq> PNone \<Longrightarrow> own_subject user (''user:'' @ py_str v)"
| its_role: "listed user ''roles'' v \<Longrightarrow> v \<noteq> PNone \<Longrightarrow> own_subject user (''role:'' @ py_str v)"
| its_permission: "listed user ''permissions'' v \<or> listed user ''direct_permissions'' v \<Longrightarrow> v \<noteq> PNone \<Longrightarrow>
    own_subject user (''permission:'' @ py_str v)"
| its_relation: "listed user ''relations'' (PDict edge) \<Longrightarrow>
    says edge ''relation'' r \<Longrightarrow> says edge ''object_type'' ty \<Longrightarrow> says edge ''object_id'' i \<Longrightarrow>
    r \<noteq> [] \<Longrightarrow> ty \<noteq> [] \<Longrightarrow> i \<noteq> [] \<Longrightarrow> own_subject user (''relationship:'' @ r @ '':'' @ ty @ '':'' @ i)"

lemma tagged_subjects: "s \<in> set (tagged prefix (dget_or d key (PList []))) \<Longrightarrow>
    \<exists>v. listed d key v \<and> v \<noteq> PNone \<and> s = prefix @ '':'' @ py_str v"
  by (auto simp: tagged_def listed_iff)

lemma related_subjects:
  assumes "s \<in> set (relation_descriptor v)" "listed user ''relations'' v"
  shows "own_subject user s"
proof (cases v)
  case (PDict edge)
  let ?text = "\<lambda>key. py_str (dget_or edge key (PStr []))"
  have s: "s = ''relationship:'' @ ?text ''relation'' @ '':'' @ ?text ''object_type'' @ '':'' @ ?text ''object_id''"
    "?text ''relation'' \<noteq> []" "?text ''object_type'' \<noteq> []" "?text ''object_id'' \<noteq> []"
    using assms(1) by (auto simp: relation_descriptor_def PDict Let_def split: if_splits)
  show ?thesis unfolding s(1)
    using assms(2) s(2-) by (intro its_relation) (simp_all add: PDict says_iff)
qed (use assms(1) in \<open>simp_all add: relation_descriptor_def\<close>)

lemma descriptors_own: "s \<in> subject_descriptors inp \<Longrightarrow> own_subject (in_user inp) s"
proof -
  let ?user = "in_user inp"
  assume "s \<in> subject_descriptors inp"
  then consider "pget ?user ''id'' \<noteq> PNone" "s = ''user:'' @ py_str (pget ?user ''id'')"
    | "s \<in> set (tagged ''role'' (dget_or ?user ''roles'' (PList [])))"
    | "s \<in> set (tagged ''permission'' (dget_or ?user ''permissions'' (PList [])))"
    | "s \<in> set (tagged ''permission'' (dget_or ?user ''direct_permissions'' (PList [])))"
    | v where "listed ?user ''relations'' v" "s \<in> set (relation_descriptor v)"
    by (auto simp: subject_descriptors_def Let_def listed_iff split: if_splits)
  then show ?thesis
  proof cases
    case 1
    then show ?thesis using itself [of ?user "pget ?user ''id''"] by (cases "dget ?user ''id''") simp_all
  next
    case 2
    then show ?thesis using its_role by (auto dest!: tagged_subjects)
  next
    case 3
    then show ?thesis using its_permission by (auto dest!: tagged_subjects)
  next
    case 4
    then show ?thesis using its_permission by (auto dest!: tagged_subjects)
  next
    case 5
    then show ?thesis using related_subjects by blast
  qed
qed

lemma own_subject_letter: "own_subject user s \<Longrightarrow> s \<noteq> [] \<and> hd s \<noteq> CHR '':''"
  by (erule own_subject.cases) simp_all

text \<open>The resource a request is about, which has both a type and an id.\<close>

definition about_resource :: "authorization_input \<Rightarrow> string \<Rightarrow> string \<Rightarrow> bool" where
  "about_resource inp ty rid \<longleftrightarrow> ty \<noteq> [] \<and> rid \<noteq> []
     \<and> named_by [''resource_type'', ''type'', ''kind'', ''entity_type''] (in_resource inp) ty
     \<and> named_by [''resource_id'', ''id''] (in_resource inp) rid"

lemma about_identity:
  "resource_identity (in_resource inp) = (ty, rid) \<Longrightarrow> ty \<noteq> [] \<Longrightarrow> rid \<noteq> [] \<Longrightarrow> about_resource inp ty rid"
  unfolding about_resource_def resource_identity_def using named_by_iff by blast

section \<open>Access control lists\<close>

text \<open>
  The subject an entry is for. A subject of type \<open>relationship\<close> is written with or without the type in front
  of its id; of one that is written with it the code cuts one character too few, so that it also
  stands for the descriptor with two colons.
\<close>

inductive entry_subject :: "pydict \<Rightarrow> string \<Rightarrow> bool" for entry where
  typed: "says entry ''subject_type'' ty \<Longrightarrow> says entry ''subject_id'' i \<Longrightarrow> ty \<noteq> [] \<Longrightarrow> i \<noteq> [] \<Longrightarrow>
    ty \<noteq> ''relationship'' \<Longrightarrow> entry_subject entry (ty @ '':'' @ i)"
| full: "says entry ''subject_type'' ''relationship'' \<Longrightarrow> says entry ''subject_id'' i \<Longrightarrow> i \<noteq> [] \<Longrightarrow> entry_subject entry i"
| short: "says entry ''subject_type'' ''relationship'' \<Longrightarrow> says entry ''subject_id'' i \<Longrightarrow> i \<noteq> [] \<Longrightarrow>
    \<nexists>x. i = ''relationship:'' @ x \<Longrightarrow> entry_subject entry (''relationship:'' @ i)"
| doubled: "says entry ''subject_type'' ''relationship'' \<Longrightarrow> says entry ''subject_id'' (''relationship:'' @ x) \<Longrightarrow>
    entry_subject entry (''relationship::'' @ x)"

text \<open>
  The entries of a request are its ACL entries, or, where it has none, those of its access index that come
  from the ACL.
\<close>

definition offered_entry :: "authorization_input \<Rightarrow> pydict \<Rightarrow> bool" where
  "offered_entry inp entry \<longleftrightarrow> entry \<in> set (in_acl_entries inp)
     \<or> in_acl_entries inp = [] \<and> entry \<in> set (in_index_entries inp) \<and> reads entry ''source'' ''acl''"

definition entry_grants :: "authorization_input \<Rightarrow> pydict \<Rightarrow> bool" where
  "entry_grants inp entry \<longleftrightarrow> (\<exists>ty rid subject effect. about_resource inp ty rid
     \<and> reads entry ''resource_type'' ty \<and> reads entry ''resource_id'' rid \<and> reads entry ''action'' (in_action inp)
     \<and> entry_subject entry subject \<and> own_subject (in_user inp) subject
     \<and> says entry ''effect'' effect \<and> lower effect = ''allow'')"

lemma starts_with_split: "starts_with p s \<Longrightarrow> s = p @ drop (length p) s"
  unfolding starts_with_def by (metis append_take_drop_id)

lemma subject_match_own:
  assumes "acl_subject_matches (py_str (dget_or e ''subject_type'' (PStr []))) (py_str (dget_or e ''subject_id'' (PStr []))) S"
    and "\<And>s. s \<in> S \<Longrightarrow> own_subject user s"
  shows "\<exists>s. entry_subject e s \<and> own_subject user s"
proof -
  let ?ty = "py_str (dget_or e ''subject_type'' (PStr []))" and ?i = "py_str (dget_or e ''subject_id'' (PStr []))"
  from assms(1) have ne: "?ty \<noteq> []" "?i \<noteq> []" by (auto simp: acl_subject_matches_def split: if_splits)
  then have said: "says e ''subject_type'' ?ty" "says e ''subject_id'' ?i" by (simp_all add: says_iff)
  show ?thesis
  proof (cases "?ty = ''relationship''")
    case False
    then have "?ty @ '':'' @ ?i \<in> S" using assms(1) ne by (simp add: acl_subject_matches_def)
    then show ?thesis using typed [OF said ne False] assms(2) by blast
  next
    case True
    note ty = said(1) [unfolded True]
    show ?thesis
    proof (cases "starts_with ''relationship:'' ?i")
      case prefixed: True
      obtain x where x: "?i = ''relationship:'' @ x" using starts_with_split [OF prefixed] by blast
      then have "drop 12 ?i = CHR '':'' # x" by simp
      then have "?i \<in> S \<or> CHR '':'' # x \<in> S \<or> ''relationship:'' @ CHR '':'' # x \<in> S"
        using assms(1) ne True prefixed by (simp add: acl_subject_matches_def Let_def)
      moreover have "CHR '':'' # x \<notin> S" using assms(2) own_subject_letter by fastforce
      ultimately consider "?i \<in> S" | "''relationship::'' @ x \<in> S" by auto
      then show ?thesis
      proof cases
        case 1
        then show ?thesis using full [OF ty said(2) ne(2)] assms(2) by blast
      next
        case 2
        have "entry_subject e (''relationship::'' @ x)"
          using doubled [OF ty, of x] said(2) unfolding x by simp
        then show ?thesis using assms(2) [OF 2] by blast
      qed
    next
      case False
      then have "?i \<in> S \<or> ''relationship:'' @ ?i \<in> S"
        using assms(1) ne True by (simp add: acl_subject_matches_def Let_def)
      moreover have "\<nexists>x. ?i = ''relationship:'' @ x"
        using False by (auto simp: starts_with_def)
      ultimately show ?thesis
        using full [OF ty said(2) ne(2)] short [OF ty said(2) ne(2)] assms(2) by blast
    qed
  qed
qed

lemma acl_grant_granted: "acl_grant inp \<Longrightarrow> \<exists>entry. offered_entry inp entry \<and> entry_grants inp entry"
proof -
  assume "acl_grant inp"
  then obtain e where e: "e \<in> set (effective_acl_entries inp)" "acl_entry_for inp e" "acl_effect e = ''allow''"
    by (auto simp: acl_grant_def)
  obtain ty rid where id: "resource_identity (in_resource inp) = (ty, rid)" by fastforce
  with e(2) have m: "ty \<noteq> []" "rid \<noteq> []" "acl_matches e ty rid (in_action inp) (subject_descriptors inp)"
    by (simp_all add: acl_entry_for_def)
  then have fields: "reads e ''resource_type'' ty" "reads e ''resource_id'' rid" "reads e ''action'' (in_action inp)"
    by (auto simp: acl_matches_def reads_iff split: if_splits)
  have "acl_subject_matches (py_str (dget_or e ''subject_type'' (PStr []))) (py_str (dget_or e ''subject_id'' (PStr [])))
      (subject_descriptors inp)"
    using m(3) by (simp add: acl_matches_def split: if_splits)
  from subject_match_own [OF this descriptors_own] obtain s where s: "entry_subject e s" "own_subject (in_user inp) s"
    by blast
  have "\<exists>effect. says e ''effect'' effect \<and> lower effect = ''allow''"
  proof (cases "dget e ''effect''")
    case None
    have "lower ''deny'' = ''deny''" by code_simp
    then show ?thesis using e(3) None by (simp add: acl_effect_def dget_or_def)
  next
    case (Some v)
    then show ?thesis using e(3) by (simp add: acl_effect_def dget_or_def says_def)
  qed
  then have "entry_grants inp e"
    unfolding entry_grants_def using about_identity [OF id m(1,2)] fields s by blast
  moreover have "offered_entry inp e"
    using e(1) by (auto simp: effective_acl_entries_def offered_entry_def reads_iff split: if_splits)
  ultimately show ?thesis by blast
qed

section \<open>The access index\<close>

definition index_grants :: "authorization_input \<Rightarrow> pydict \<Rightarrow> bool" where
  "index_grants inp entry \<longleftrightarrow> (\<exists>ty rid vs v. about_resource inp ty rid
     \<and> reads entry ''source'' ''relationship'' \<and> reads entry ''resource_type'' ty \<and> reads entry ''resource_id'' rid
     \<and> (reads entry ''action'' (in_action inp) \<or> reads entry ''action'' ''*'')
     \<and> (dget entry ''allowed_subjects'' = Some (PList vs) \<or> dget entry ''allowed_subjects'' = Some (PTuple vs))
     \<and> v \<in> set vs \<and> own_subject (in_user inp) (py_str v))"

lemma index_grant_granted: "index_grant inp \<Longrightarrow> \<exists>entry. entry \<in> set (in_index_entries inp) \<and> index_grants inp entry"
proof -
  assume "index_grant inp"
  then obtain ty rid e where id: "resource_identity (in_resource inp) = (ty, rid)" "ty \<noteq> []" "rid \<noteq> []"
    and e: "e \<in> set (in_index_entries inp)" "index_entry_allows e ty rid (in_action inp) (subject_descriptors inp)"
    by (auto simp: index_grant_def split: prod.splits)
  from e(2) obtain vs v where
    vs: "sequence_items (dget_or e ''allowed_subjects'' (PList [])) = Some vs" "v \<in> set vs" "py_str v \<in> subject_descriptors inp"
    by (auto simp: index_entry_allows_def list_ex_iff split: if_splits option.splits)
  then have "dget e ''allowed_subjects'' = Some (PList vs) \<or> dget e ''allowed_subjects'' = Some (PTuple vs)"
    by (cases "dget e ''allowed_subjects''") (auto simp: dget_or_def sequence_items_def split: pyval.splits)
  moreover have "reads e ''source'' ''relationship''" "reads e ''resource_type'' ty" "reads e ''resource_id'' rid"
    "reads e ''action'' (in_action inp) \<or> reads e ''action'' ''*''"
    using e(2) by (auto simp: index_entry_allows_def reads_iff split: if_splits)
  ultimately show ?thesis
    unfolding index_grants_def using e(1) about_identity [OF id] vs(2) descriptors_own [OF vs(3)] by blast
qed

section \<open>Authorization models\<close>

definition related :: "pydict \<Rightarrow> string \<Rightarrow> string \<Rightarrow> string \<Rightarrow> bool" where
  "related user ty rid r \<longleftrightarrow> (\<exists>edge. listed user ''relations'' (PDict edge)
     \<and> reads edge ''relation'' r \<and> reads edge ''object_type'' ty \<and> reads edge ''object_id'' rid)"

text \<open>
  The model has a permission for the action whose expression is true of the relations the user has to the
  resource. Unlike the entries, a model names the type of the resource by three fields only, and asks for no id.
\<close>

definition model_grants :: "authorization_input \<Rightarrow> permission_graph \<Rightarrow> bool" where
  "model_grants inp g \<longleftrightarrow> (\<exists>ty rid p. named_by [''resource_type'', ''type'', ''kind''] (in_resource inp) ty \<and> ty \<noteq> []
     \<and> named_by [''resource_id'', ''id''] (in_resource inp) rid \<and> in_action inp \<noteq> []
     \<and> dget (cm_permissions (pg_model g)) (in_action inp) = Some p
     \<and> models_expr {r. related (in_user inp) ty rid r} (cp_expression p))"

lemma held_related:
  "held inp ty = {r. related (in_user inp) ty (py_str (first_truthy (in_resource inp) [''resource_id'', ''id''])) r}"
proof -
  define rid where "rid = py_str (first_truthy (in_resource inp) [''resource_id'', ''id''])"
  have "edge_for r ty rid v \<longleftrightarrow> (\<exists>e. v = PDict e \<and> reads e ''relation'' r \<and> reads e ''object_type'' ty \<and> reads e ''object_id'' rid)"
    for r v by (cases v) (simp_all add: edge_for_def reads_iff)
  then have "has_relation inp ty r \<longleftrightarrow> related (in_user inp) ty rid r" for r
    unfolding has_relation_def rid_def [symmetric] Let_def
    by (auto simp: related_def listed_def dget_or_def list_ex_iff split: option.splits pyval.splits)
  then show ?thesis by (simp add: held_def rid_def)
qed

lemma schema_grant_granted: "schema_grant inp \<Longrightarrow> \<exists>g. in_permission_graph inp = Some g \<and> model_grants inp g"
proof -
  assume "schema_grant inp"
  then obtain g where g: "in_permission_graph inp = Some g" "gd_outcome (permission_graph_evaluate g inp) = SAllow"
    by (auto simp: schema_grant_def)
  let ?ty = "py_str (first_truthy (in_resource inp) [''resource_type'', ''type'', ''kind''])"
  from g(2) obtain p where "?ty \<noteq> []" "in_action inp \<noteq> []" "dget (cm_permissions (pg_model g)) (in_action inp) = Some p"
    "eval_permission inp ?ty (cp_expression p)"
    by (auto simp: permission_graph_evaluate_def graph_resource_identity_def Let_def split: if_splits option.splits)
  then have "model_grants inp g"
    unfolding model_grants_def eval_permission_models held_related using named_by_iff by blast
  with g(1) show ?thesis by blast
qed

section \<open>Conditions and policies\<close>

text \<open>What each condition of a policy asks of a request.\<close>

inductive satisfied :: "authorization_input \<Rightarrow> string \<Rightarrow> pyval \<Rightarrow> bool" for inp where
  role: "py_eq (pget (in_user inp) ''role'') value \<Longrightarrow> satisfied inp ''role'' value"
| one_of_roles: "listed (in_user inp) ''roles'' v \<Longrightarrow> py_eq v value \<Longrightarrow> satisfied inp ''role'' value"
| amount: "py_float (dget_or (in_resource inp) ''amount'' (PInt 0)) = Inr a \<Longrightarrow> py_float value = Inr most \<Longrightarrow>
    num_le a most \<Longrightarrow> satisfied inp ''max_amount'' value"
| anyone: "\<not> truthy value \<Longrightarrow> satisfied inp ''owner_only'' value"
| owner: "py_eq (pget (in_resource inp) ''owner_id'') (pget (in_user inp) ''id'') \<Longrightarrow> satisfied inp ''owner_only'' value"
| in_time: "dget v ''start'' = Some (PStr s) \<Longrightarrow> dget v ''end'' = Some (PStr e) \<Longrightarrow>
    dget (in_context inp) ''current_time'' = Some (PStr c) \<Longrightarrow>
    parse_hhmm s = Some start \<Longrightarrow> parse_hhmm e = Some stop \<Longrightarrow> parse_hhmm c = Some now \<Longrightarrow>
    start \<le> now \<and> now \<le> stop \<or> stop < start \<and> (start \<le> now \<or> now \<le> stop) \<Longrightarrow>
    satisfied inp ''time_range'' (PDict v)"
| same_place: "get_by_value (in_user inp) (dget_or v ''user_field'' (PStr ''country'')) = Inr here \<Longrightarrow> here \<noteq> PNone \<Longrightarrow>
    get_by_value (in_resource inp) (dget_or v ''resource_field'' (PStr ''country'')) = Inr there \<Longrightarrow> py_eq here there \<Longrightarrow>
    satisfied inp ''geo_match'' (PDict v)"
| relation: "dget v ''relation'' = Some (PStr r) \<Longrightarrow> dget v ''object_type'' = Some (PStr ty) \<Longrightarrow>
    pget v ''object_id'' = i \<or> pget v ''object_id'' = PNone \<and>
      (\<exists>field. dget v ''object_id_from_resource'' = Some (PStr field) \<and> pget (in_resource inp) field = i) \<Longrightarrow> i \<noteq> PNone \<Longrightarrow>
    listed (in_user inp) ''relations'' (PDict edge) \<Longrightarrow> dget edge ''relation'' = Some (PStr r) \<Longrightarrow>
    dget edge ''object_type'' = Some (PStr ty) \<Longrightarrow> reads edge ''object_id'' (py_str i) \<Longrightarrow>
    satisfied inp ''has_relation'' (PDict v)"

lemma pget_Some: "pget d k = v \<Longrightarrow> v \<noteq> PNone \<Longrightarrow> dget d k = Some v"
  by (cases "dget d k") auto

lemma role_satisfied: "handle_role value inp = Inr (True, r) \<Longrightarrow> satisfied inp ''role'' value"
  by (auto simp: handle_role_def Let_def verdict_of_def py_in_def list_ex_iff listed_iff split: if_splits
      intro: role one_of_roles)

lemma amount_satisfied: "handle_max_amount value inp = Inr (True, r) \<Longrightarrow> satisfied inp ''max_amount'' value"
  by (auto simp: handle_max_amount_def Let_def on_type_or_value_error_def verdict_of_def ebind_def split: sum.splits exn.splits
      intro: amount)

lemma owner_satisfied: "handle_owner_only value inp = Inr (True, r) \<Longrightarrow> satisfied inp ''owner_only'' value"
  by (auto simp: handle_owner_only_def verdict_of_def split: if_splits intro: anyone owner)

lemma time_satisfied: "handle_time_range value inp = Inr (True, r) \<Longrightarrow> satisfied inp ''time_range'' value"
  by (auto simp: handle_time_range_def verdict_of_def in_time_window_def split: pyval.splits option.splits if_splits
      dest!: pget_Some intro!: in_time)

lemma place_satisfied: "handle_geo_match value inp = Inr (True, r) \<Longrightarrow> satisfied inp ''geo_match'' value"
  by (auto simp: handle_geo_match_def verdict_of_def Let_def ebind_eq_Inr split: pyval.splits if_splits intro: same_place)

lemma relation_satisfied: "handle_has_relation value inp = Inr (True, reason) \<Longrightarrow> satisfied inp ''has_relation'' value"
proof -
  assume holds: "handle_has_relation value inp = Inr (True, reason)"
  then obtain v where v: "value = PDict v" by (cases "value") (simp_all add: handle_has_relation_def)
  define i where "i = (case (pget v ''object_id'', pget v ''object_id_from_resource'') of
      (PNone, PStr f) \<Rightarrow> pget (in_resource inp) f | _ \<Rightarrow> pget v ''object_id'')"
  have i: "pget v ''object_id'' = i \<or> pget v ''object_id'' = PNone \<and>
      (\<exists>field. dget v ''object_id_from_resource'' = Some (PStr field) \<and> pget (in_resource inp) field = i)"
    by (auto simp: i_def dest!: pget_Some split: pyval.splits)
  obtain r where r: "pget v ''relation'' = PStr r"
    using holds by (cases "pget v ''relation''") (simp_all add: handle_has_relation_def v Let_def)
  obtain ty where ty: "pget v ''object_type'' = PStr ty"
    using holds by (cases "pget v ''object_type''") (simp_all add: handle_has_relation_def v Let_def r)
  from holds have run: "i \<noteq> PNone" "(case dget_or (in_user inp) ''relations'' (PList []) of
      PList relations \<Rightarrow> Inr (verdict_of (list_ex (edge_matches r ty (py_str i)) relations) ''relation mismatch'')
    | _ \<Rightarrow> Inr (False, Some ''no relations'')) = (Inr (True, reason) :: verdict result)"
    unfolding handle_has_relation_def v pyval.case Let_def r ty i_def [symmetric] by (simp_all split: if_splits)
  then obtain es edge where edge: "dget_or (in_user inp) ''relations'' (PList []) = PList es" "PDict edge \<in> set es"
    "pget edge ''relation'' = PStr r" "pget edge ''object_type'' = PStr ty" "py_str (pget edge ''object_id'') = py_str i"
    by (auto simp: verdict_of_def list_ex_iff edge_matches_def split: pyval.splits)
  then have "listed (in_user inp) ''relations'' (PDict edge)" by (simp add: listed_iff list_items_def)
  moreover have "dget v ''relation'' = Some (PStr r)" "dget v ''object_type'' = Some (PStr ty)"
    "dget edge ''relation'' = Some (PStr r)" "dget edge ''object_type'' = Some (PStr ty)"
    using r ty edge(3,4) by (auto dest: pget_Some)
  ultimately show ?thesis
    unfolding v using relation [OF _ _ i run(1)] edge(5) by (simp add: reads_iff)
qed

lemma condition_satisfied: "condition_holds key value inp \<Longrightarrow> satisfied inp key value"
  by (auto simp: condition_holds_def handler_def role_satisfied amount_satisfied owner_satisfied time_satisfied
      place_satisfied relation_satisfied split: if_splits sum.splits)

lemma satisfied_holds: "satisfied inp key value \<Longrightarrow> condition_holds key value inp"
proof (induction rule: satisfied.induct)
  case (relation v r ty i edge)
  then obtain es where es: "dget (in_user inp) ''relations'' = Some (PList es)" "PDict edge \<in> set es"
    by (auto simp: listed_def)
  have "edge_matches r ty (py_str i) (PDict edge)" using relation(6-8) by (simp add: edge_matches_def reads_iff)
  then have "list_ex (edge_matches r ty (py_str i)) es" using es(2) by (auto simp: list_ex_iff)
  moreover have "(case (pget v ''object_id'', pget v ''object_id_from_resource'') of
      (PNone, PStr f) \<Rightarrow> pget (in_resource inp) f | _ \<Rightarrow> pget v ''object_id'') = i"
    using relation(3,4) by (auto split: pyval.split)
  ultimately show ?case
    using relation(1,2,4) es(1)
    by (simp add: condition_holds_def handler_def handle_has_relation_def Let_def dget_or_def verdict_of_def)
qed (auto simp: condition_holds_def handler_def handle_role_def handle_max_amount_def handle_owner_only_def
    handle_time_range_def handle_geo_match_def in_time_window_def on_type_or_value_error_def verdict_of_def py_in_def
    listed_def dget_or_def is_list_def list_items_def list_ex_iff Let_def)

lemma satisfied_iff: "satisfied inp key value \<longleftrightarrow> condition_holds key value inp"
  using condition_satisfied satisfied_holds by blast

text \<open>
  A policy of the graph the request is decided with, for the action and with the effect \<open>allow\<close>, all of
  whose conditions are satisfied, while every policy for the action in front of it has a condition that fails.
\<close>

definition policy_grants :: "engine \<Rightarrow> authorization_input \<Rightarrow> bool" where
  "policy_grants eng inp \<longleftrightarrow> (\<exists>before node after.
     dg_nodes (case in_compiled_graph inp of Some g \<Rightarrow> g | None \<Rightarrow> eng_graph eng) = before @ node # after
     \<and> node_action node = in_action inp \<and> node_effect node = Allow
     \<and> (\<forall>(key, value) \<in> set (node_checks node). satisfied inp key value)
     \<and> (\<forall>earlier \<in> set before. node_action earlier = in_action inp
          \<longrightarrow> (\<exists>(key, value) \<in> set (node_checks earlier). \<not> satisfied inp key value)))"

lemma graph_loop_grants:
  "graph_loop nodes inp r = Inr d \<Longrightarrow> gd_outcome d = SAllow \<Longrightarrow> \<exists>before node after. nodes = before @ node # after
     \<and> node_action node = in_action inp \<and> node_effect node = Allow
     \<and> (\<forall>(key, value) \<in> set (node_checks node). condition_holds key value inp)
     \<and> (\<forall>earlier \<in> set before. node_action earlier = in_action inp
          \<longrightarrow> (\<exists>(key, value) \<in> set (node_checks earlier). \<not> condition_holds key value inp))"
proof (induction nodes arbitrary: r)
  case (Cons node nodes)
  note run = node_evaluate_def run_checks_conditions
  show ?case
  proof (cases "node_action node = in_action inp \<and> (\<exists>reason. node_evaluate node inp = Inr (True, reason))")
    case True
    then have "\<forall>(key, value) \<in> set (node_checks node). condition_holds key value inp"
      using evaluate_conditions_true [of "node_checks node" inp] by (auto simp: run)
    moreover have "node_effect node = Allow" using True Cons.prems by (cases "node_effect node") auto
    ultimately show ?thesis using True by (intro exI [of _ "[]"]) auto
  next
    case False
    then have failing: "\<exists>(key, value) \<in> set (node_checks node). \<not> condition_holds key value inp" if "node_action node = in_action inp"
      using that evaluate_conditions_true [of "node_checks node" inp] by (auto simp: run)
    have "\<exists>r. graph_loop nodes inp r = Inr d"
      using Cons.prems(1) False by (auto simp: ebind_eq_Inr split: if_splits)
    then obtain before n after where n: "nodes = before @ n # after" "node_action n = in_action inp" "node_effect n = Allow"
      "\<forall>(key, value) \<in> set (node_checks n). condition_holds key value inp"
      "\<forall>earlier \<in> set before. node_action earlier = in_action inp
          \<longrightarrow> (\<exists>(key, value) \<in> set (node_checks earlier). \<not> condition_holds key value inp)"
      using Cons.IH Cons.prems(2) by blast
    have "node # nodes = (node # before) @ n # after" by (simp add: n(1))
    with n(2-) failing show ?thesis by (metis set_ConsD)
  qed
qed (auto split: option.splits)

lemma policy_grant_granted: "policy_grant eng inp \<Longrightarrow> policy_grants eng inp"
proof -
  assume "policy_grant eng inp"
  then obtain d where "graph_loop (dg_nodes (case in_compiled_graph inp of Some g \<Rightarrow> g | None \<Rightarrow> eng_graph eng)) inp None = Inr d"
    "gd_outcome d = SAllow"
    by (auto simp: policy_grant_def graph_evaluate_def)
  from graph_loop_grants [OF this] obtain before node after where
    nodes: "dg_nodes (case in_compiled_graph inp of Some g \<Rightarrow> g | None \<Rightarrow> eng_graph eng) = before @ node # after"
      "node_action node = in_action inp" "node_effect node = Allow"
    and holds: "\<forall>(key, value) \<in> set (node_checks node). condition_holds key value inp"
    and earlier: "\<forall>earlier \<in> set before. node_action earlier = in_action inp
        \<longrightarrow> (\<exists>(key, value) \<in> set (node_checks earlier). \<not> condition_holds key value inp)" by blast
  show ?thesis
    unfolding policy_grants_def satisfied_iff using nodes holds earlier
    by (intro exI [of _ before] exI [of _ node] exI [of _ after]) simp
qed

section \<open>No allow without a grant\<close>

inductive granted :: "engine \<Rightarrow> authorization_input \<Rightarrow> bool" for eng inp where
  by_permission: "listed (in_user inp) ''direct_permissions'' (PStr (in_action inp)) \<Longrightarrow> granted eng inp"
| by_plain_permission: "dget (in_user inp) ''direct_permissions'' = None \<Longrightarrow>
    listed (in_user inp) ''permissions'' (PStr (in_action inp)) \<Longrightarrow> granted eng inp"
| by_role: "listed (in_user inp) ''role_permissions'' (PStr (in_action inp)) \<Longrightarrow> granted eng inp"
| by_acl: "offered_entry inp entry \<Longrightarrow> entry_grants inp entry \<Longrightarrow> granted eng inp"
| by_index: "entry \<in> set (in_index_entries inp) \<Longrightarrow> index_grants inp entry \<Longrightarrow> granted eng inp"
| by_model: "in_permission_graph inp = Some g \<Longrightarrow> model_grants inp g \<Longrightarrow> granted eng inp"
| by_policy: "policy_grants eng inp \<Longrightarrow> granted eng inp"

lemma stage_grants:
  "direct_grant inp \<Longrightarrow> granted eng inp" "role_grant inp \<Longrightarrow> granted eng inp" "acl_grant inp \<Longrightarrow> granted eng inp"
  "index_grant inp \<Longrightarrow> granted eng inp" "schema_grant inp \<Longrightarrow> granted eng inp" "policy_grant eng inp \<Longrightarrow> granted eng inp"
proof -
  show "granted eng inp" if "direct_grant inp"
    using that by (cases "dget (in_user inp) ''direct_permissions''")
      (auto simp: direct_grant_def dget_or_def listed_def split: option.splits intro: by_permission by_plain_permission)
  show "granted eng inp" if "role_grant inp"
    using that by (intro by_role) (auto simp: role_grant_def listed_def)
  show "granted eng inp" if "acl_grant inp"
    using acl_grant_granted [OF that] by_acl by metis
  show "granted eng inp" if "index_grant inp"
    using index_grant_granted [OF that] by_index by metis
  show "granted eng inp" if "schema_grant inp"
    using schema_grant_granted [OF that] by_model by metis
  show "granted eng inp" if "policy_grant eng inp"
    using policy_grant_granted [OF that] by (rule by_policy)
qed

text \<open>
  C9. Deny by default: an allowed request has a grant. The action is listed among the user's direct
  permissions, or its permissions where it has no direct ones, or the permissions of its roles; or an ACL
  entry with the effect \<open>allow\<close> is about the resource and the action of the request and for a subject that the
  user is; or an index entry of a relationship is about the resource and the action, or any action, and lists
  a subject that the user is; or the authorization model has a permission for the action that is true of the
  relations between user and resource; or a policy for the action allows, all its conditions are satisfied
  and those of each policy for the action in front of it are not. What these mean is said in terms of the
  fields of the request and the entries alone.
\<close>

theorem allow_needs_grant:
  assumes "decide_structured eng inp = Inr d" "ad_allowed d"
  shows "granted eng inp"
  using allow_has_grant [OF assms] by (elim disjE) (rule stage_grants, assumption)+

theorem allow_needs_grant_witness: "granted demo_engine direct_request"
  by (rule allow_needs_grant [OF decide_direct_request]) (simp add: direct_decision_def)

end
