(* ===== verification/Stores.thy ===== *)
theory Stores
  imports DecisionGraph
begin

text \<open>
  The two process-wide graph stores: \<open>CompiledPolicyStore\<close> (\<open>engine/compiled/decision_graph.py\<close>),
  keyed by tenant and policy version, and \<open>PermissionGraphStore\<close>
  (\<open>engine/model_graph/permission_graph.py\<close>), keyed by tenant. Each is a dictionary under a lock;
  their common contract is the locale \<open>tenant_store\<close>.
\<close>

section \<open>The contract\<close>

locale tenant_store =
  fixes get :: "'s \<Rightarrow> 'k \<Rightarrow> 'g option"
    and put :: "'s \<Rightarrow> 'k \<Rightarrow> 'g \<Rightarrow> 's"
    and drop_tenant :: "'s \<Rightarrow> string \<Rightarrow> 's"
    and tenant_of :: "'k \<Rightarrow> string"
  assumes get_put: "get (put s k g) k' = (if k' = k then Some g else get s k')"
    and get_drop: "get (drop_tenant s t) k = (if tenant_of k = t then None else get s k)"
begin

lemma refreshed:
  "tenant_of k = t \<Longrightarrow> get (put (drop_tenant s t) k g) k'
     = (if k' = k then Some g else if tenant_of k' = t then None else get s k')"
  by (simp add: get_put get_drop)

lemma other_tenants_kept:
  "tenant_of k = t \<Longrightarrow> tenant_of k' \<noteq> t \<Longrightarrow> get (put (drop_tenant s t) k g) k' = get s k'"
  by (auto simp: get_put get_drop)

lemma last_put_wins: "get (put (put s k g) k g') k = Some g'"
  by (simp add: get_put)

end

section \<open>Compiled policies\<close>

type_synonym policy_store = "((string \<times> int) \<times> decision_graph) list"

definition policy_store_get :: "policy_store \<Rightarrow> string \<times> int \<Rightarrow> decision_graph option" where
  "policy_store_get s k = dget s k"

definition policy_store_set :: "policy_store \<Rightarrow> string \<times> int \<Rightarrow> decision_graph \<Rightarrow> policy_store" where
  "policy_store_set s k g = dset s k g"

definition policy_store_invalidate :: "policy_store \<Rightarrow> string \<Rightarrow> policy_store" where
  "policy_store_invalidate s tenant_key =
     foldl dpop s (filter (\<lambda>key. fst key = tenant_key) (dkeys s))"

lemma dget_foldl_dpop: "dget (foldl dpop s ks) k = (if k \<in> set ks then None else dget s k)"
  by (induction ks arbitrary: s) auto

lemma policy_store_get_invalidate:
  "policy_store_get (policy_store_invalidate s t) k = (if fst k = t then None else policy_store_get s k)"
  by (auto simp: policy_store_get_def policy_store_invalidate_def dget_foldl_dpop dkeys_def
      map_of_eq_None_iff)

interpretation policies: tenant_store policy_store_get policy_store_set policy_store_invalidate fst
  by unfold_locales (simp_all add: policy_store_get_invalidate, simp add: policy_store_get_def
      policy_store_set_def)

section \<open>Permission graphs\<close>

type_synonym model_store = "(string \<times> permission_graph) list"

definition model_store_get :: "model_store \<Rightarrow> string \<Rightarrow> permission_graph option" where
  "model_store_get s k = dget s k"

definition model_store_set :: "model_store \<Rightarrow> string \<Rightarrow> permission_graph \<Rightarrow> model_store" where
  "model_store_set s k g = dset s k g"

definition model_store_invalidate :: "model_store \<Rightarrow> string \<Rightarrow> model_store" where
  "model_store_invalidate s tenant_key = dpop s tenant_key"

interpretation models: tenant_store model_store_get model_store_set model_store_invalidate "\<lambda>k. k"
  by unfold_locales (simp_all add: model_store_get_def model_store_set_def model_store_invalidate_def)

text \<open>
  Invalidation is per tenant: after a tenant's compiled policies are dropped and one new
  version is stored, exactly that version is found for the tenant, and every other tenant's graphs
  are untouched.
\<close>

lemma policy_store_refresh:
  "policy_store_get (policy_store_set (policy_store_invalidate s t) (t, v) g) (t', v')
     = (if t' = t then (if v' = v then Some g else None) else policy_store_get s (t', v'))"
  using policies.refreshed [of "(t, v)" t s g "(t', v')"] by simp

end
