(* ===== verification/Effects.thy ===== *)
theory Effects
  imports PyValue
begin

text \<open>
  Calls that use a mutable world: state passing with exceptions, and the resilience helpers
  \<open>with_timeout\<close> and \<open>retry\<close> of \<open>services/resilience.py\<close> on top of it. A raised exception keeps the
  changes made before it, as in Python.
\<close>

type_synonym ('w, 'a) eff = "'w \<Rightarrow> 'a result \<times> 'w"

definition ret :: "'a \<Rightarrow> ('w, 'a) eff" where
  "ret x w = (Inr x, w)"

definition throw :: "exn \<Rightarrow> ('w, 'a) eff" where
  "throw e w = (Inl e, w)"

definition lift :: "'a result \<Rightarrow> ('w, 'a) eff" where
  "lift r w = (r, w)"

definition bnd :: "('w, 'a) eff \<Rightarrow> ('a \<Rightarrow> ('w, 'b) eff) \<Rightarrow> ('w, 'b) eff" where
  "bnd m f w = (case m w of (Inl e, w') \<Rightarrow> (Inl e, w') | (Inr x, w') \<Rightarrow> f x w')"

text \<open>\<open>try: m except (those accepted by p) as exc: h(exc)\<close>\<close>

definition catch :: "('w, 'a) eff \<Rightarrow> (exn \<Rightarrow> bool) \<Rightarrow> (exn \<Rightarrow> ('w, 'a) eff) \<Rightarrow> ('w, 'a) eff" where
  "catch m p h w = (case m w of (Inl e, w') \<Rightarrow> if p e then h e w' else (Inl e, w') | r \<Rightarrow> r)"

abbreviation catch_all :: "('w, 'a) eff \<Rightarrow> (exn \<Rightarrow> ('w, 'a) eff) \<Rightarrow> ('w, 'a) eff" where
  "catch_all m h \<equiv> catch m (\<lambda>e. True) h"

named_theorems eff_simps \<open>unfolding of effectful calls on a world\<close>

lemma eff_basic [simp, eff_simps]:
  "ret x w = (Inr x, w)" "throw e w = (Inl e, w)" "lift r w = (r, w)"
  by (simp_all add: ret_def throw_def lift_def)

lemma bnd_cases [simp, eff_simps]:
  "m w = (Inr x, w') \<Longrightarrow> bnd m f w = f x w'"
  "m w = (Inl e, w') \<Longrightarrow> bnd m f w = (Inl e, w')"
  by (simp_all add: bnd_def)

lemma catch_cases [simp, eff_simps]:
  "m w = (Inr x, w') \<Longrightarrow> catch m p h w = (Inr x, w')"
  "m w = (Inl e, w') \<Longrightarrow> catch m p h w = (if p e then h e w' else (Inl e, w'))"
  by (simp_all add: catch_def)

lemma bnd_ret: "bnd (ret x) f = f x"
  by (simp add: fun_eq_iff)

lemma bnd_Inr_iff: "bnd m f w = (Inr y, w'') \<longleftrightarrow> (\<exists>x w'. m w = (Inr x, w') \<and> f x w' = (Inr y, w''))"
  by (auto simp: bnd_def split: prod.splits sum.splits)

lemma bnd_InrE:
  assumes "bnd m f w = (Inr y, w'')"
  obtains x w' where "m w = (Inr x, w')" "f x w' = (Inr y, w'')"
  using assms by (auto simp: bnd_Inr_iff)

lemma bnd_assoc: "bnd (bnd m f) g = bnd m (\<lambda>x. bnd (f x) g)"
  by (auto simp: bnd_def fun_eq_iff split: prod.splits sum.splits)

text \<open>The call never raises.\<close>

definition total :: "('w, 'a) eff \<Rightarrow> bool" where
  "total m = (\<forall>w. \<exists>x w'. m w = (Inr x, w'))"

lemma total_ret [simp]: "total (ret x)"
  by (simp add: total_def)

lemma total_bnd: "total m \<Longrightarrow> (\<And>x. total (f x)) \<Longrightarrow> total (bnd m f)"
  unfolding total_def bnd_def by (metis (mono_tags, lifting) old.prod.case old.sum.simps(6))

lemma total_catch_all: "(\<And>e. total (h e)) \<Longrightarrow> total (catch_all m h)"
  unfolding total_def catch_def by (auto split: prod.splits sum.splits)

text \<open>The call keeps an invariant of the world, whether it returns or raises.\<close>

definition preserves :: "('w \<Rightarrow> bool) \<Rightarrow> ('w, 'a) eff \<Rightarrow> bool" where
  "preserves P m = (\<forall>w. P w \<longrightarrow> P (snd (m w)))"

named_theorems preserves_rules \<open>invariants of composed calls\<close>

lemma preserves_basic [simp, preserves_rules]: "preserves P (ret x)" "preserves P (throw e)" "preserves P (lift r)"
  by (simp_all add: preserves_def)

lemma preserves_bnd [preserves_rules]: "preserves P m \<Longrightarrow> (\<And>x. preserves P (f x)) \<Longrightarrow> preserves P (bnd m f)"
  unfolding preserves_def bnd_def by (auto split: prod.split sum.split)

lemma preserves_catch [preserves_rules]: "preserves P m \<Longrightarrow> (\<And>e. preserves P (h e)) \<Longrightarrow> preserves P (catch m p h)"
  unfolding preserves_def catch_def by (auto split: prod.split sum.split)

lemma preserves_D: "preserves P m \<Longrightarrow> P w \<Longrightarrow> P (snd (m w))"
  by (simp add: preserves_def)

lemma preserves_run: "preserves P m \<Longrightarrow> P w \<Longrightarrow> m w = (r, w') \<Longrightarrow> P w'"
  using preserves_D by fastforce

text \<open>A loop over a list that may raise: the first exception ends it.\<close>

fun for_each :: "('a \<Rightarrow> ('w, 'b) eff) \<Rightarrow> 'a list \<Rightarrow> ('w, 'b list) eff" where
  "for_each f [] = ret []"
| "for_each f (x # xs) = bnd (f x) (\<lambda>y. bnd (for_each f xs) (\<lambda>ys. ret (y # ys)))"

section \<open>Resilience\<close>

text \<open>
  \<open>with_timeout\<close> hands the call to a pool of four threads and waits. The caller sees the result, or
  a timeout while the call is running (its effects still happen) or while it is still queued (it is
  cancelled and never runs). Which of the three happens is the scheduler's choice, an argument.
\<close>

datatype schedule = InTime | StillRunning | StillQueued

definition timeout_error :: "string \<Rightarrow> exn" where
  "timeout_error timeout_seconds = TimeoutError (''operation timed out after '' @ timeout_seconds @ '' seconds'')"

definition with_timeout :: "schedule \<Rightarrow> string \<Rightarrow> ('w, 'a) eff \<Rightarrow> ('w, 'a) eff" where
  "with_timeout sched timeout_seconds m w = (case sched of
     InTime \<Rightarrow> (case m w of
        (Inl (TimeoutError _), w') \<Rightarrow> (Inl (timeout_error timeout_seconds), w')
      | r \<Rightarrow> r)
   | StillRunning \<Rightarrow> (Inl (timeout_error timeout_seconds), snd (m w))
   | StillQueued \<Rightarrow> (Inl (timeout_error timeout_seconds), w))"

text \<open>
  The attempts of \<open>retry\<close> from a given one on; the sleep between them is not modelled. The function
  is given the number of the attempt, since each attempt may be scheduled differently.
\<close>

fun retry_from :: "nat \<Rightarrow> nat \<Rightarrow> (nat \<Rightarrow> ('w, 'a) eff) \<Rightarrow> ('w, 'a) eff" where
  "retry_from 0 attempt func w = func attempt w"
| "retry_from (Suc left) attempt func w = (case func attempt w of
     (Inl e, w') \<Rightarrow> retry_from left (Suc attempt) func w'
   | r \<Rightarrow> r)"

definition retry :: "int \<Rightarrow> (nat \<Rightarrow> ('w, 'a) eff) \<Rightarrow> ('w, 'a) eff" where
  "retry attempts func = retry_from (nat (max 1 attempts - 1)) 1 func"

lemma preserves_for_each [preserves_rules]: "(\<And>x. preserves P (f x)) \<Longrightarrow> preserves P (for_each f xs)"
  by (induction xs) (simp_all add: preserves_bnd)

lemma preserves_with_timeout [preserves_rules]: "preserves P m \<Longrightarrow> preserves P (with_timeout sched t m)"
  unfolding preserves_def with_timeout_def by (auto split: schedule.split prod.split sum.split exn.split)

lemma preserves_retry_from: "(\<And>a. preserves P (func a)) \<Longrightarrow> preserves P (retry_from n a func)"
proof (induction n arbitrary: a)
  case (Suc n)
  then have "preserves P (func a)" "preserves P (retry_from n (Suc a) func)" by simp_all
  then show ?case unfolding preserves_def by (auto split: prod.split sum.split)
qed (simp add: preserves_def)

lemma preserves_retry [preserves_rules]: "(\<And>a. preserves P (func a)) \<Longrightarrow> preserves P (retry n func)"
  unfolding retry_def by (rule preserves_retry_from)

lemma retry_from_fails:
  "retry_from n a func w = (Inl e, w') \<Longrightarrow>
   \<exists>ws. length ws = n + 2 \<and> ws ! 0 = w \<and> last ws = w'
     \<and> (\<forall>i \<le> n. \<exists>x. func (a + i) (ws ! i) = (Inl x, ws ! Suc i) \<and> (i = n \<longrightarrow> x = e))"
proof (induction n arbitrary: a w)
  case 0
  then show ?case by (intro exI [of _ "[w, w']"]) simp
next
  case (Suc n)
  then obtain x w1 where f: "func a w = (Inl x, w1)" and r: "retry_from n (Suc a) func w1 = (Inl e, w')"
    by (auto split: prod.splits sum.splits)
  from Suc.IH [OF r] obtain ws where ws: "length ws = n + 2" "ws ! 0 = w1" "last ws = w'"
    "\<forall>i \<le> n. \<exists>x. func (Suc a + i) (ws ! i) = (Inl x, ws ! Suc i) \<and> (i = n \<longrightarrow> x = e)" by blast
  have "\<forall>i \<le> Suc n. \<exists>x. func (a + i) ((w # ws) ! i) = (Inl x, (w # ws) ! Suc i) \<and> (i = Suc n \<longrightarrow> x = e)"
  proof (intro allI impI)
    fix i assume "i \<le> Suc n"
    then show "\<exists>x. func (a + i) ((w # ws) ! i) = (Inl x, (w # ws) ! Suc i) \<and> (i = Suc n \<longrightarrow> x = e)"
      using f ws(2,4) by (cases i) auto
  qed
  then show ?case using ws by (intro exI [of _ "w # ws"]) auto
qed

lemma retry_from_succeeds:
  "retry_from n a func w = (Inr x, w') \<Longrightarrow> \<exists>i \<le> n. \<exists>v. func (a + i) v = (Inr x, w')"
proof (induction n arbitrary: a w)
  case (Suc n)
  show ?case
  proof (cases "func a w")
    case (Pair r v)
    show ?thesis
    proof (cases r)
      case (Inl e)
      with Suc Pair obtain i v' where "i \<le> n" "func (Suc a + i) v' = (Inr x, w')" by fastforce
      then show ?thesis by (intro exI [of _ "Suc i"]) auto
    next
      case (Inr y)
      then have "func (a + 0) w = (Inr x, w')" using Suc.prems Pair by auto
      then show ?thesis by blast
    qed
  qed
qed auto

text \<open>
  \<open>retry\<close> raises only after exactly \<open>max 1 attempts\<close> failed attempts, one after the other on the
  world the previous one left, and raises the error of the last; when it returns, some attempt
  returned that value.
\<close>

lemma retry_exhausts:
  "case retry attempts func w of
     (Inl e, w') \<Rightarrow> (\<exists>ws. length ws = nat (max 1 attempts) + 1 \<and> ws ! 0 = w \<and> last ws = w'
        \<and> (\<forall>i < nat (max 1 attempts). \<exists>x. func (Suc i) (ws ! i) = (Inl x, ws ! Suc i)
             \<and> (Suc i = nat (max 1 attempts) \<longrightarrow> x = e)))
   | (Inr x, w') \<Rightarrow> (\<exists>i \<in> {1..nat (max 1 attempts)}. \<exists>v. func i v = (Inr x, w'))"
proof -
  obtain n where n: "nat (max 1 attempts) = Suc n" "nat (max 1 attempts - 1) = n"
    by (cases "nat (max 1 attempts)") auto
  show ?thesis
  proof (cases "retry_from n 1 func w")
    case (Pair r w')
    show ?thesis
    proof (cases r)
      case (Inl e)
      with retry_from_fails [of n 1 func w e w'] Pair show ?thesis
        unfolding retry_def n by (simp add: less_Suc_eq_le)
    next
      case (Inr x)
      with retry_from_succeeds [of n 1 func w x w'] Pair obtain i v where "i \<le> n" "func (1 + i) v = (Inr x, w')"
        by auto
      then show ?thesis
        using Pair Inr unfolding retry_def n by (auto intro!: bexI [of _ "Suc i"])
    qed
  qed
qed

definition always_failing :: "nat \<Rightarrow> (int, unit) eff" where
  "always_failing i w = (Inl (RuntimeError [digit_char (int i)]), w + 1)"

lemma retry_exhausts_example:
  "retry 2 always_failing 0 = (Inl (RuntimeError ''2''), 2)
   \<and> (\<exists>ws :: int list. length ws = 3 \<and> ws ! 0 = 0 \<and> last ws = 2)"
proof -
  have r: "retry 2 always_failing 0 = (Inl (RuntimeError ''2''), 2)"
    by (simp add: retry_def always_failing_def eval_nat_numeral str_simps)
  have n: "nat (max 1 2) + 1 = 3" by simp
  show ?thesis
    using retry_exhausts [where attempts = 2 and w = 0 and func = always_failing]
    unfolding r prod.case sum.case n by blast
qed

end
