(* ===== verification/Contracts.thy ===== *)
theory Contracts
  imports AuthInput Effects
begin

text \<open>
  The records that services, repositories and caches exchange (\<open>services/interfaces.py\<close>), and the
  validation of attribute documents (\<open>services/attribute_validation.py\<close>). A timestamp is held as
  the text its \<open>isoformat()\<close> gives.
\<close>

section \<open>Records\<close>

record tenant_record =
  tr_id :: int
  tr_key :: string
  tr_policy_version :: int
  tr_revision :: int

record relationship_record =
  rr_subject_type :: string
  rr_subject_id :: string
  rr_relation :: string
  rr_object_type :: string
  rr_object_id :: string

definition relationship_to_dict :: "relationship_record \<Rightarrow> pydict" where
  "relationship_to_dict r =
     [(''subject_type'', PStr (rr_subject_type r)), (''subject_id'', PStr (rr_subject_id r)),
      (''relation'', PStr (rr_relation r)), (''object_type'', PStr (rr_object_type r)),
      (''object_id'', PStr (rr_object_id r))]"

record acl_record =
  ar_id :: int
  ar_tenant_id :: int
  ar_subject_type :: string
  ar_subject_id :: string
  ar_resource_type :: string
  ar_resource_id :: string
  ar_action :: string
  ar_effect :: string
  ar_created_at :: "string option"

definition acl_to_dict :: "acl_record \<Rightarrow> pydict" where
  "acl_to_dict a =
     [(''id'', PInt (ar_id a)), (''tenant_id'', PInt (ar_tenant_id a)),
      (''subject_type'', PStr (ar_subject_type a)), (''subject_id'', PStr (ar_subject_id a)),
      (''resource_type'', PStr (ar_resource_type a)), (''resource_id'', PStr (ar_resource_id a)),
      (''action'', PStr (ar_action a)), (''effect'', PStr (ar_effect a)),
      (''created_at'', ostr_val (ar_created_at a))]"

record policy_record =
  pr_id :: int
  pr_definition :: policy_definition

record policy_view =
  pv_id :: int
  pv_action :: string
  pv_effect :: string
  pv_priority :: int
  pv_conditions :: pydict
  pv_state :: string

record access_index_entry =
  ie_resource_type :: string
  ie_resource_id :: string
  ie_action :: string
  ie_allowed_subjects :: "string list"
  ie_source :: string
  ie_subject_type :: "string option"
  ie_subject_id :: "string option"
  ie_effect :: "string option"
  ie_acl_id :: "int option"

definition oint_val :: "int option \<Rightarrow> pyval" where
  "oint_val v = (case v of None \<Rightarrow> PNone | Some i \<Rightarrow> PInt i)"

lemma oint_val_simps [simp]: "oint_val None = PNone" "oint_val (Some i) = PInt i"
  by (simp_all add: oint_val_def)

text \<open>\<open>entry.__dict__\<close>; the subjects are a tuple.\<close>

definition index_entry_dict :: "access_index_entry \<Rightarrow> pydict" where
  "index_entry_dict e =
     [(''resource_type'', PStr (ie_resource_type e)), (''resource_id'', PStr (ie_resource_id e)),
      (''action'', PStr (ie_action e)),
      (''allowed_subjects'', PTuple (map PStr (ie_allowed_subjects e))),
      (''source'', PStr (ie_source e)), (''subject_type'', ostr_val (ie_subject_type e)),
      (''subject_id'', ostr_val (ie_subject_id e)), (''effect'', ostr_val (ie_effect e)),
      (''acl_id'', oint_val (ie_acl_id e))]"

record cached_decision =
  cd_allowed :: bool
  cd_decision :: string
  cd_reason :: "string option"
  cd_policy_id :: "string option"
  cd_matched_policies :: "string list"
  cd_explain_trace :: "pydict list"
  cd_failed_conditions :: "string list"

definition from_decision :: "authorization_decision \<Rightarrow> cached_decision" where
  "from_decision d =
     \<lparr>cd_allowed = ad_allowed d, cd_decision = decision_text (ad_decision d), cd_reason = ad_reason d,
      cd_policy_id = ad_policy_id d, cd_matched_policies = ad_matched_policies d,
      cd_explain_trace = map step_to_dict (ad_explain_trace d),
      cd_failed_conditions = ad_failed_conditions d\<rparr>"

section \<open>Attribute validation\<close>

fun validate_dict :: "string \<Rightarrow> nat \<Rightarrow> nat \<Rightarrow> nat \<Rightarrow> pyval \<Rightarrow> unit result"
  and validate_items :: "string \<Rightarrow> nat \<Rightarrow> nat \<Rightarrow> nat \<Rightarrow> pydict \<Rightarrow> unit result" where
  "validate_dict name max_keys max_depth depth v = (case v of
     PDict d \<Rightarrow>
       if length d > max_keys then Inl (AttributeValidationError (name @ '' too large''))
       else if depth > max_depth then Inl (AttributeValidationError (name @ '' too deep''))
       else validate_items name max_keys max_depth depth d
   | _ \<Rightarrow> Inl (AttributeValidationError (name @ '' must be an object'')))"
| "validate_items name max_keys max_depth depth [] = Inr ()"
| "validate_items name max_keys max_depth depth ((k, v) # d) =
     ebind (case v of
        PDict _ \<Rightarrow> validate_dict name max_keys max_depth (Suc depth) v
      | PList xs \<Rightarrow> if length xs > max_keys
                    then Inl (AttributeValidationError (name @ '' list too large'')) else Inr ()
      | _ \<Rightarrow> Inr ())
     (\<lambda>_. validate_items name max_keys max_depth depth d)"

definition validate_user :: "pydict \<Rightarrow> unit result" where
  "validate_user user = validate_dict ''user'' 200 5 0 (PDict user)"

definition validate_resource :: "pydict \<Rightarrow> unit result" where
  "validate_resource resource = validate_dict ''resource'' 200 5 0 (PDict resource)"

text \<open>\<open>e\<close> is a dictionary nested \<open>n\<close> levels below \<open>d\<close>, through values of dictionaries.\<close>

inductive nested :: "pydict \<Rightarrow> nat \<Rightarrow> pydict \<Rightarrow> bool" where
  here: "nested d 0 d"
| below: "(k, PDict e) \<in> set d \<Longrightarrow> nested e n f \<Longrightarrow> nested d (Suc n) f"

inductive_cases nested_cases: "nested d n f"

inductive_simps nested_simps: "nested d n f"

definition small_lists :: "nat \<Rightarrow> pydict \<Rightarrow> bool" where
  "small_lists max_keys d = (\<forall>(k, v) \<in> set d. \<forall>xs. v = PList xs \<longrightarrow> length xs \<le> max_keys)"

lemma small_lists_simps [simp]:
  "small_lists m []"
  "small_lists m ((k, v) # d) = ((\<forall>xs. v = PList xs \<longrightarrow> length xs \<le> m) \<and> small_lists m d)"
  by (simp_all add: small_lists_def)

lemma nested_all:
  "(\<forall>n f. nested d n f \<longrightarrow> P n f) \<longleftrightarrow>
   P 0 d \<and> (\<forall>(k, v) \<in> set d. \<forall>e. v = PDict e \<longrightarrow> (\<forall>n f. nested e n f \<longrightarrow> P (Suc n) f))"
  (is "?l \<longleftrightarrow> ?r")
proof
  assume l: ?l
  show ?r using l by (auto intro: nested.intros)
next
  assume r: ?r
  show ?l
  proof (intro allI impI)
    fix n f assume "nested d n f"
    then show "P n f" using r by (cases rule: nested.cases) auto
  qed
qed

lemma validate_ok:
  "validate_dict nm mk md depth v = Inr () \<longleftrightarrow>
     (\<exists>d. v = PDict d \<and> (\<forall>n f. nested d n f \<longrightarrow> length f \<le> mk \<and> depth + n \<le> md \<and> small_lists mk f))"
  "validate_items nm mk md depth d = Inr () \<longleftrightarrow> small_lists mk d \<and>
     (\<forall>(k, v) \<in> set d. \<forall>e. v = PDict e \<longrightarrow>
        (\<forall>n f. nested e n f \<longrightarrow> length f \<le> mk \<and> depth + Suc n \<le> md \<and> small_lists mk f))"
proof (induction nm mk md depth v and nm mk md depth d rule: validate_dict_validate_items.induct)
  case (1 nm mk md depth v)
  then show ?case
    by (cases v) (auto simp: nested_all [where P = "\<lambda>n f. length f \<le> mk \<and> depth + n \<le> md \<and> small_lists mk f"]
        not_less)
next
  case (3 nm mk md depth k v d)
  then show ?case
    by (cases v) (simp_all add: ebind_eq_Inr conj_left_commute del: validate_dict.simps cong: conj_cong)
qed simp

text \<open>
  Validation accepts exactly the bounded documents: every dictionary reached through dictionary
  values, the user itself included, has at most 200 keys, lies at most five levels deep and has no
  list of more than 200 elements among its values; every other document is refused with an
  attribute error.
\<close>

lemma validate_user_bounds:
  "(validate_user u = Inr () \<longleftrightarrow>
     (\<forall>n d. nested u n d \<longrightarrow> n \<le> 5 \<and> length d \<le> 200 \<and> small_lists 200 d))
   \<and> (\<forall>e. validate_user u = Inl e \<longrightarrow> (\<exists>m. e = AttributeValidationError m))"
proof -
  have "validate_dict nm mk md depth v = Inl e \<Longrightarrow> \<exists>m. e = AttributeValidationError m"
    "validate_items nm mk md depth d = Inl e \<Longrightarrow> \<exists>m. e = AttributeValidationError m" for nm mk md depth v d e
    by (induction nm mk md depth v and nm mk md depth d rule: validate_dict_validate_items.induct)
      (auto simp: ebind_eq_Inl split: pyval.splits if_splits)
  then show ?thesis
    unfolding validate_user_def validate_ok by auto
qed

lemma validate_user_bounds_example:
  "validate_user [(''id'', PInt 1), (''team'', PDict [(''roles'', PList [PStr ''a''])])] = Inr ()
   \<and> (\<forall>n d. nested [(''id'', PInt 1), (''team'', PDict [(''roles'', PList [PStr ''a''])])] n d
        \<longrightarrow> n \<le> 5 \<and> length d \<le> 200 \<and> small_lists 200 d)"
proof -
  have "validate_user [(''id'', PInt 1), (''team'', PDict [(''roles'', PList [PStr ''a''])])] = Inr ()"
    by (simp add: validate_user_def)
  then show ?thesis
    using validate_user_bounds [of "[(''id'', PInt 1), (''team'', PDict [(''roles'', PList [PStr ''a''])])]"]
    by blast
qed

end
