(* ===== verification/Caches.thy ===== *)
theory Caches
  imports Contracts
begin

text \<open>
  The key/value backend of \<open>infrastructure/cache/backends.py\<close> and the adapters on top of it:
  policy, relationship and decision cache. A stored text is either a plain text (a namespace
  counter) or the text \<open>json.dumps\<close> writes for a document, held as the document \<open>json.loads\<close> reads
  back. Time is an integer number of seconds. The Redis client is not part of the repository; the
  adapters are stated over the operations of any backend.
\<close>

section \<open>Documents\<close>

datatype cache_text = Plain string | Encoded pyval

text \<open>What a value becomes when it is written by \<open>json.dumps\<close> and read back: tuples are lists.\<close>

fun json_doc :: "pyval \<Rightarrow> pyval"
  and json_docs :: "pyval list \<Rightarrow> pyval list"
  and json_items :: "pydict \<Rightarrow> pydict" where
  "json_doc (PList xs) = PList (json_docs xs)"
| "json_doc (PTuple xs) = PList (json_docs xs)"
| "json_doc (PDict d) = PDict (json_items d)"
| "json_doc v = v"
| "json_docs [] = []"
| "json_docs (x # xs) = json_doc x # json_docs xs"
| "json_items [] = []"
| "json_items ((k, v) # d) = (k, json_doc v) # json_items d"

lemma json_docs_map: "json_docs xs = map json_doc xs"
  by (induction xs) simp_all

lemma json_items_map: "json_items d = map (\<lambda>(k, v). (k, json_doc v)) d"
  by (induction d) auto

lemma json_docs_append: "json_docs (xs @ ys) = json_docs xs @ json_docs ys"
  by (simp add: json_docs_map)

lemma json_strings [simp]: "json_docs (map PStr ss) = map PStr ss"
  by (induction ss) simp_all

lemma json_ostr_val [simp]: "json_doc (ostr_val v) = ostr_val v"
  by (cases v) simp_all

definition json_dumps :: "pyval \<Rightarrow> cache_text" where
  "json_dumps v = Encoded (json_doc v)"

definition json_loads :: "cache_text \<Rightarrow> pyval option" where
  "json_loads t = (case t of Encoded v \<Rightarrow> Some v
     | Plain s \<Rightarrow> (case parse_int s of Some i \<Rightarrow> Some (PInt i) | None \<Rightarrow> None))"

lemma json_loads_dumps [simp]: "json_loads (json_dumps v) = Some (json_doc v)"
  by (simp add: json_loads_def json_dumps_def)

text \<open>\<open>int(text)\<close>\<close>

definition text_int :: "cache_text \<Rightarrow> int result" where
  "text_int t = (case t of Plain s \<Rightarrow> py_int (PStr s)
     | Encoded v \<Rightarrow> (case v of PInt i \<Rightarrow> Inr i
         | _ \<Rightarrow> Inl (ValueError ''invalid literal for int() with base 10'')))"

section \<open>Backends\<close>

record 'b cache_ops =
  co_get :: "string \<Rightarrow> ('b, cache_text option) eff"
  co_set :: "string \<Rightarrow> cache_text \<Rightarrow> int option \<Rightarrow> ('b, unit) eff"
  co_delete :: "string \<Rightarrow> ('b, unit) eff"
  co_incr :: "string \<Rightarrow> ('b, int) eff"

record memory_backend =
  mb_values :: "(string \<times> cache_text \<times> int option) list"
  mb_now :: int

definition expired :: "int \<Rightarrow> int option \<Rightarrow> bool" where
  "expired now expires_at = (case expires_at of None \<Rightarrow> False | Some t \<Rightarrow> t \<le> now)"

definition deadline :: "int \<Rightarrow> int option \<Rightarrow> int option" where
  "deadline now ttl_seconds = map_option (\<lambda>ttl. now + max 1 ttl) ttl_seconds"

lemma deadline_live [simp]: "\<not> expired now (deadline now ttl)"
  by (cases ttl) (auto simp: expired_def deadline_def)

definition memory_get :: "string \<Rightarrow> (memory_backend, cache_text option) eff" where
  "memory_get key b = (case dget (mb_values b) key of
     None \<Rightarrow> (Inr None, b)
   | Some (v, expires_at) \<Rightarrow>
       if expired (mb_now b) expires_at
       then (Inr None, b\<lparr>mb_values := dpop (mb_values b) key\<rparr>) else (Inr (Some v), b))"

definition memory_set :: "string \<Rightarrow> cache_text \<Rightarrow> int option \<Rightarrow> (memory_backend, unit) eff" where
  "memory_set key v ttl_seconds b =
     (Inr (), b\<lparr>mb_values := dset (mb_values b) key (v, deadline (mb_now b) ttl_seconds)\<rparr>)"

definition memory_delete :: "string \<Rightarrow> (memory_backend, unit) eff" where
  "memory_delete key b = (Inr (), b\<lparr>mb_values := dpop (mb_values b) key\<rparr>)"

definition memory_incr :: "string \<Rightarrow> (memory_backend, int) eff" where
  "memory_incr key = bnd (memory_get key) (\<lambda>current.
     bnd (lift (case current of None \<Rightarrow> Inr 0 | Some t \<Rightarrow> text_int t)) (\<lambda>n.
     bnd (memory_set key (Plain (int_str (n + 1))) None) (\<lambda>_. ret (n + 1))))"

definition memory_ops :: "memory_backend cache_ops" where
  "memory_ops = \<lparr>co_get = memory_get, co_set = memory_set, co_delete = memory_delete, co_incr = memory_incr\<rparr>"

definition empty_memory :: memory_backend where
  "empty_memory = \<lparr>mb_values = [], mb_now = 0\<rparr>"

text \<open>What a read would return now.\<close>

definition live_value :: "int \<Rightarrow> cache_text \<times> int option \<Rightarrow> cache_text option" where
  "live_value now item = (if expired now (snd item) then None else Some (fst item))"

definition memory_look :: "memory_backend \<Rightarrow> string \<Rightarrow> cache_text option" where
  "memory_look b key = Option.bind (dget (mb_values b) key) (live_value (mb_now b))"

text \<open>The contract of a backend: a map read by \<open>get\<close>, with counters.\<close>

locale cache_backend =
  fixes ops :: "'b cache_ops" and look :: "'b \<Rightarrow> string \<Rightarrow> cache_text option"
  assumes get_law: "\<exists>b'. co_get ops k b = (Inr (look b k), b') \<and> look b' = look b"
    and set_law: "\<exists>b'. co_set ops k v ttl b = (Inr (), b') \<and> look b' = (look b)(k := Some v)"
    and delete_law: "\<exists>b'. co_delete ops k b = (Inr (), b') \<and> look b' = (look b)(k := None)"
    and incr_law: "(case look b k of None \<Rightarrow> Inr 0 | Some t \<Rightarrow> text_int t) = Inr n \<Longrightarrow>
      \<exists>b'. co_incr ops k b = (Inr (n + 1), b') \<and> look b' = (look b)(k := Some (Plain (int_str (n + 1))))"

lemma memory_look_simps:
  "memory_look (b\<lparr>mb_values := dpop (mb_values b) k\<rparr>) = (memory_look b)(k := None)"
  "memory_look (b\<lparr>mb_values := dset (mb_values b) k (v, deadline (mb_now b) ttl)\<rparr>)
     = (memory_look b)(k := Some v)"
  by (simp_all add: memory_look_def fun_eq_iff live_value_def)

lemma memory_get_look:
  "memory_get k b = (Inr (memory_look b k), b') \<Longrightarrow> memory_look b' = memory_look b"
  "fst (memory_get k b) = Inr (memory_look b k)"
  by (auto simp: memory_get_def memory_look_simps live_value_def memory_look_def fun_eq_iff
      split: option.splits if_splits)

lemma memory_get_eff: "\<exists>b'. memory_get k b = (Inr (memory_look b k), b') \<and> memory_look b' = memory_look b"
proof (cases "memory_get k b")
  case (Pair r b')
  then have "memory_look b' = memory_look b" "r = Inr (memory_look b k)"
    using memory_get_look(1) [of k b b'] memory_get_look(2) [of k b] by (simp_all add: prod_eq_iff)
  with Pair show ?thesis by blast
qed

interpretation memory: cache_backend memory_ops memory_look
proof unfold_locales
  show "\<exists>b'. co_get memory_ops k b = (Inr (memory_look b k), b') \<and> memory_look b' = memory_look b" for k b
    using memory_get_eff [of k b] by (simp add: memory_ops_def)
  show "\<exists>b'. co_set memory_ops k v ttl b = (Inr (), b') \<and> memory_look b' = (memory_look b)(k := Some v)"
    for k v ttl b
    by (simp add: memory_ops_def memory_set_def memory_look_simps)
  show "\<exists>b'. co_delete memory_ops k b = (Inr (), b') \<and> memory_look b' = (memory_look b)(k := None)" for k b
    by (simp add: memory_ops_def memory_delete_def memory_look_simps)
  fix b k n
  assume n: "(case memory_look b k of None \<Rightarrow> Inr 0 | Some t \<Rightarrow> text_int t) = Inr n"
  obtain b' where b': "memory_get k b = (Inr (memory_look b k), b')" "memory_look b' = memory_look b"
    using memory_get_eff [of k b] by blast
  show "\<exists>b'. co_incr memory_ops k b = (Inr (n + 1), b')
      \<and> memory_look b' = (memory_look b)(k := Some (Plain (int_str (n + 1))))"
    using n b' by (simp add: memory_ops_def memory_incr_def memory_set_def memory_look_simps)
qed

section \<open>Policy cache\<close>

definition policy_namespace_key :: "string \<Rightarrow> string" where
  "policy_namespace_key tenant_key = ''polns:'' @ tenant_key"

text \<open>\<open>self._backend.get(...) or "0"\<close>\<close>

definition text_or_zero :: "cache_text option \<Rightarrow> string" where
  "text_or_zero t = (case t of Some (Plain s) \<Rightarrow> if s = [] then ''0'' else s | _ \<Rightarrow> ''0'')"

definition policy_entry_key :: "string \<Rightarrow> string \<Rightarrow> int \<Rightarrow> string" where
  "policy_entry_key tenant_key namespace policy_version =
     ''pol:'' @ tenant_key @ '':'' @ namespace @ '':'' @ int_str policy_version"

definition policy_cache_key :: "'b cache_ops \<Rightarrow> string \<Rightarrow> int \<Rightarrow> ('b, string) eff" where
  "policy_cache_key ops tenant_key policy_version =
     bnd (co_get ops (policy_namespace_key tenant_key)) (\<lambda>t.
       ret (policy_entry_key tenant_key (text_or_zero t) policy_version))"

definition definition_doc :: "policy_definition \<Rightarrow> pydict" where
  "definition_doc d = [(''action'', PStr (pd_action d)), (''effect'', PStr (decision_text (pd_effect d))),
     (''priority'', PInt (pd_priority d)), (''conditions'', PDict (pd_conditions d)),
     (''policy_id'', ostr_val (pd_policy_id d))]"

definition policy_doc :: "policy_record \<Rightarrow> pyval" where
  "policy_doc p = PDict [(''id'', PInt (pr_id p)), (''definition'', PDict (definition_doc (pr_definition p)))]"

definition missing_key :: "string \<Rightarrow> 'a result" where
  "missing_key k = Inl (KeyError (quoted k))"

definition no_attribute_get :: "pyval \<Rightarrow> 'a result" where
  "no_attribute_get v = Inl (AttributeError (quoted (type_name v) @ '' object has no attribute '' @ quoted ''get''))"

definition read_policy :: "pydict \<Rightarrow> policy_record result" where
  "read_policy item = (case dget item ''id'' of None \<Rightarrow> missing_key ''id''
     | Some i \<Rightarrow> ebind (py_int i) (\<lambda>n. case dget item ''definition'' of None \<Rightarrow> missing_key ''definition''
        | Some d \<Rightarrow> (case d of PDict raw \<Rightarrow> ebind (from_dict raw) (\<lambda>def. Inr \<lparr>pr_id = n, pr_definition = def\<rparr>)
            | _ \<Rightarrow> no_attribute_get d)))"

text \<open>The dictionaries among the items of a loaded list.\<close>

fun dict_rows :: "pyval list \<Rightarrow> pydict list" where
  "dict_rows [] = []"
| "dict_rows (PDict d # vs) = d # dict_rows vs"
| "dict_rows (_ # vs) = dict_rows vs"

lemma dict_rows_dicts [simp]: "dict_rows (map PDict ds) = ds"
  by (induction ds) simp_all

text \<open>Reading a list of records: nothing when the text is not a list of documents.\<close>

definition read_rows :: "(pydict \<Rightarrow> 'a result) \<Rightarrow> cache_text option \<Rightarrow> 'a list option result" where
  "read_rows f raw = (case raw of None \<Rightarrow> Inr None
     | Some t \<Rightarrow> (case json_loads t of
         Some (PList items) \<Rightarrow> ebind (emap f (dict_rows items)) (\<lambda>rs. Inr (Some rs))
       | _ \<Rightarrow> Inr None))"

definition policy_cache_get :: "'b cache_ops \<Rightarrow> string \<Rightarrow> int \<Rightarrow> ('b, policy_record list option) eff" where
  "policy_cache_get ops tenant_key policy_version =
     bnd (policy_cache_key ops tenant_key policy_version) (\<lambda>key.
     bnd (co_get ops key) (\<lambda>raw. lift (read_rows read_policy raw)))"

definition policy_cache_set :: "'b cache_ops \<Rightarrow> string \<Rightarrow> int \<Rightarrow> policy_record list \<Rightarrow> ('b, unit) eff" where
  "policy_cache_set ops tenant_key policy_version policies =
     bnd (policy_cache_key ops tenant_key policy_version) (\<lambda>key.
       co_set ops key (json_dumps (PList (map policy_doc policies))) None)"

definition policy_cache_invalidate :: "'b cache_ops \<Rightarrow> string \<Rightarrow> ('b, unit) eff" where
  "policy_cache_invalidate ops tenant_key =
     bnd (co_incr ops (policy_namespace_key tenant_key)) (\<lambda>_. ret ())"

text \<open>A policy whose conditions are JSON (no tuples in them) is read back as written.\<close>

definition json_policy :: "policy_record \<Rightarrow> bool" where
  "json_policy p = (json_items (pd_conditions (pr_definition p)) = pd_conditions (pr_definition p))"

lemma read_policy_doc: "json_policy p \<Longrightarrow> \<exists>d. json_doc (policy_doc p) = PDict d \<and> read_policy d = Inr p"
  by (cases "pd_effect (pr_definition p)")
    (simp_all add: policy_doc_def definition_doc_def read_policy_def json_policy_def from_dict_def
      dget_or_def effect_of_def)

lemma read_policy_docs:
  "\<forall>p \<in> set ps. json_policy p \<Longrightarrow> \<exists>ds. json_docs (map policy_doc ps) = map PDict ds \<and> emap read_policy ds = Inr ps"
proof (induction ps)
  case (Cons p ps)
  then obtain d ds where "json_doc (policy_doc p) = PDict d" "read_policy d = Inr p"
    "json_docs (map policy_doc ps) = map PDict ds" "emap read_policy ds = Inr ps"
    using read_policy_doc [of p] by auto
  then show ?case by (intro exI [of _ "d # ds"]) simp
qed simp

lemma read_written_policies:
  "\<forall>p \<in> set ps. json_policy p \<Longrightarrow>
   read_rows read_policy (Some (json_dumps (PList (map policy_doc ps)))) = Inr (Some ps)"
  using read_policy_docs [of ps] by (auto simp: read_rows_def)

section \<open>Relationship cache\<close>

definition relationship_cache_key :: "int \<Rightarrow> string \<Rightarrow> string \<Rightarrow> string" where
  "relationship_cache_key tenant_id subject_type subject_id =
     ''rel:'' @ int_str tenant_id @ '':'' @ subject_type @ '':'' @ subject_id"

definition text_field :: "pydict \<Rightarrow> string \<Rightarrow> string \<Rightarrow> string" where
  "text_field item k fallback = py_str (dget_or item k (PStr fallback))"

definition read_relationship :: "pydict \<Rightarrow> relationship_record" where
  "read_relationship item =
     \<lparr>rr_subject_type = text_field item ''subject_type'' [], rr_subject_id = text_field item ''subject_id'' [],
      rr_relation = text_field item ''relation'' [], rr_object_type = text_field item ''object_type'' [],
      rr_object_id = text_field item ''object_id'' []\<rparr>"

definition relationship_cache_get :: "'b cache_ops \<Rightarrow> int \<Rightarrow> string \<Rightarrow> string \<Rightarrow> ('b, relationship_record list option) eff"
where
  "relationship_cache_get ops tenant_id subject_type subject_id =
     bnd (co_get ops (relationship_cache_key tenant_id subject_type subject_id)) (\<lambda>raw.
       lift (read_rows (\<lambda>item. Inr (read_relationship item)) raw))"

definition relationship_cache_set :: "'b cache_ops \<Rightarrow> int \<Rightarrow> int \<Rightarrow> string \<Rightarrow> string \<Rightarrow> relationship_record list
    \<Rightarrow> ('b, unit) eff" where
  "relationship_cache_set ops ttl_seconds tenant_id subject_type subject_id relationships =
     co_set ops (relationship_cache_key tenant_id subject_type subject_id)
       (json_dumps (PList (map (\<lambda>r. PDict (relationship_to_dict r)) relationships))) (Some ttl_seconds)"

definition relationship_cache_invalidate :: "'b cache_ops \<Rightarrow> int \<Rightarrow> string \<Rightarrow> string \<Rightarrow> ('b, unit) eff" where
  "relationship_cache_invalidate ops tenant_id subject_type subject_id =
     co_delete ops (relationship_cache_key tenant_id subject_type subject_id)"

lemma read_relationship_dict: "read_relationship (json_items (relationship_to_dict r)) = r"
  by (simp add: read_relationship_def relationship_to_dict_def text_field_def dget_or_def)

lemma json_dict_rows: "json_docs (map PDict ds) = map PDict (map json_items ds)"
  by (induction ds) simp_all

lemma read_written_relationships:
  "read_rows (\<lambda>item. Inr (read_relationship item))
     (Some (json_dumps (PList (map (\<lambda>r. PDict (relationship_to_dict r)) rs)))) = Inr (Some rs)"
proof -
  have "emap (\<lambda>item. Inr (read_relationship item)) (map (\<lambda>r. json_items (relationship_to_dict r)) rs) = Inr rs"
    by (induction rs) (simp_all add: read_relationship_dict)
  moreover have "json_docs (map (\<lambda>r. PDict (relationship_to_dict r)) rs)
      = map PDict (map (\<lambda>r. json_items (relationship_to_dict r)) rs)"
    by (induction rs) simp_all
  ultimately show ?thesis by (simp add: read_rows_def del: map_map)
qed

section \<open>Decision cache\<close>

text \<open>\<open>for x in v\<close>\<close>

definition py_iter :: "pyval \<Rightarrow> pyval list result" where
  "py_iter v = (case v of PList xs \<Rightarrow> Inr xs | PTuple xs \<Rightarrow> Inr xs
     | PStr s \<Rightarrow> Inr (map (\<lambda>c. PStr [c]) s) | PDict d \<Rightarrow> Inr (map (\<lambda>(k, _). PStr k) d)
     | _ \<Rightarrow> Inl (TypeError (quoted (type_name v) @ '' object is not iterable'')))"

definition read_cached_decision :: "pydict \<Rightarrow> cached_decision result" where
  "read_cached_decision payload =
     (let opt = (\<lambda>k. opt_str (pget payload k));
          items = (\<lambda>k. py_iter (dget_or payload k (PList [])));
          strs = (\<lambda>k. ebind (items k) (\<lambda>xs. Inr (map py_str (filter is_str xs))));
          dicts = (\<lambda>k. ebind (items k) (\<lambda>xs. Inr (dict_rows xs)))
      in ebind (strs ''matched_policies'') (\<lambda>matched.
         ebind (dicts ''explain_trace'') (\<lambda>steps.
         ebind (strs ''failed_conditions'') (\<lambda>failed.
           Inr \<lparr>cd_allowed = truthy (pget payload ''allowed''),
                cd_decision = py_str (dget_or payload ''decision'' (PStr ''deny'')),
                cd_reason = opt ''reason'', cd_policy_id = opt ''policy_id'',
                cd_matched_policies = matched, cd_explain_trace = steps, cd_failed_conditions = failed\<rparr>))))"

definition decision_cache_get :: "'b cache_ops \<Rightarrow> string \<Rightarrow> ('b, cached_decision option) eff" where
  "decision_cache_get ops key = bnd (co_get ops key) (\<lambda>raw. case raw of
     None \<Rightarrow> ret None
   | Some t \<Rightarrow> (case json_loads t of
       None \<Rightarrow> ret None
     | Some (PDict payload) \<Rightarrow> lift (ebind (read_cached_decision payload) (\<lambda>d. Inr (Some d)))
     | Some v \<Rightarrow> lift (no_attribute_get v)))"

definition decision_payload :: "cached_decision \<Rightarrow> pydict" where
  "decision_payload d =
     [(''allowed'', PBool (cd_allowed d)), (''decision'', PStr (cd_decision d)),
      (''reason'', ostr_val (cd_reason d)), (''policy_id'', ostr_val (cd_policy_id d)),
      (''matched_policies'', PList (map PStr (cd_matched_policies d))),
      (''explain_trace'', PList (map PDict (cd_explain_trace d))),
      (''failed_conditions'', PList (map PStr (cd_failed_conditions d)))]"

definition decision_cache_set :: "'b cache_ops \<Rightarrow> string \<Rightarrow> cached_decision \<Rightarrow> int \<Rightarrow> ('b, unit) eff" where
  "decision_cache_set ops key d ttl_seconds =
     co_set ops key (json_dumps (PDict (decision_payload d))) (Some ttl_seconds)"

definition decision_namespace_key :: "string \<Rightarrow> string" where
  "decision_namespace_key tenant_key = ''decns:'' @ tenant_key"

definition tenant_namespace :: "'b cache_ops \<Rightarrow> string \<Rightarrow> ('b, int) eff" where
  "tenant_namespace ops tenant_key = bnd (co_get ops (decision_namespace_key tenant_key)) (\<lambda>raw.
     lift (case raw of None \<Rightarrow> Inr 0 | Some t \<Rightarrow> text_int t))"

text \<open>The document whose SHA-256 digest is the last part of a key.\<close>

definition key_payload :: "string \<Rightarrow> int \<Rightarrow> authorization_input \<Rightarrow> int option \<Rightarrow> pydict" where
  "key_payload tenant_key policy_version inp revision =
     [(''tenant_key'', PStr tenant_key), (''policy_version'', PInt policy_version),
      (''revision'', oint_val revision), (''action'', PStr (in_action inp)), (''user'', PDict (in_user inp)),
      (''resource'', PDict (in_resource inp)), (''context'', PDict (in_context inp))]"

definition decision_entry_key :: "string \<Rightarrow> int \<Rightarrow> int \<Rightarrow> string \<Rightarrow> string" where
  "decision_entry_key tenant_key namespace policy_version digest =
     ''dec:'' @ tenant_key @ '':'' @ int_str namespace @ '':'' @ int_str policy_version @ '':'' @ digest"

text \<open>
  \<open>_stable_json(v)\<close> is the text of the document with the keys of its dictionaries sorted;
  \<open>digest\<close> stands for \<open>hashlib.sha256\<close> of the text of a document, in hexadecimal.
\<close>

fun stable_doc :: "pyval \<Rightarrow> pyval"
  and stable_docs :: "pyval list \<Rightarrow> pyval list"
  and stable_items :: "pydict \<Rightarrow> pydict" where
  "stable_doc (PList xs) = PList (stable_docs xs)"
| "stable_doc (PTuple xs) = PList (stable_docs xs)"
| "stable_doc (PDict d) = PDict (sort_key fst (stable_items d))"
| "stable_doc v = v"
| "stable_docs [] = []"
| "stable_docs (x # xs) = stable_doc x # stable_docs xs"
| "stable_items [] = []"
| "stable_items ((k, v) # d) = (k, stable_doc v) # stable_items d"

definition make_key :: "'b cache_ops \<Rightarrow> (pyval \<Rightarrow> string) \<Rightarrow> string \<Rightarrow> int \<Rightarrow> authorization_input \<Rightarrow> int option
    \<Rightarrow> ('b, string) eff" where
  "make_key ops digest tenant_key policy_version inp revision =
     bnd (tenant_namespace ops tenant_key) (\<lambda>namespace.
       ret (decision_entry_key tenant_key namespace policy_version
              (digest (stable_doc (PDict (key_payload tenant_key policy_version inp revision))))))"

definition bump_namespace :: "'b cache_ops \<Rightarrow> string \<Rightarrow> ('b, int) eff" where
  "bump_namespace ops tenant_key = co_incr ops (decision_namespace_key tenant_key)"

section \<open>ACL and access index caches\<close>

text \<open>\<open>get(k1) or get(k2) or ... or "0"\<close>\<close>

fun first_namespace :: "'b cache_ops \<Rightarrow> string list \<Rightarrow> ('b, string) eff" where
  "first_namespace ops [] = ret ''0''"
| "first_namespace ops (k # ks) = bnd (co_get ops k) (\<lambda>t. case t of
     Some (Plain s) \<Rightarrow> if s = [] then first_namespace ops ks else ret s
   | _ \<Rightarrow> first_namespace ops ks)"

definition resource_namespace :: "string \<Rightarrow> int \<Rightarrow> string \<Rightarrow> string \<Rightarrow> string" where
  "resource_namespace prefix tenant_id resource_type resource_id =
     prefix @ '':'' @ int_str tenant_id @ '':'' @ resource_type @ '':'' @ resource_id"

definition resource_entry_key :: "string \<Rightarrow> int \<Rightarrow> string \<Rightarrow> string \<Rightarrow> string \<Rightarrow> string \<Rightarrow> string" where
  "resource_entry_key prefix tenant_id namespace resource_type resource_id action =
     prefix @ '':'' @ int_str tenant_id @ '':'' @ namespace @ '':'' @ resource_type @ '':'' @ resource_id
       @ '':'' @ action"

definition acl_cache_key :: "'b cache_ops \<Rightarrow> int \<Rightarrow> string \<Rightarrow> string \<Rightarrow> string \<Rightarrow> ('b, string) eff" where
  "acl_cache_key ops tenant_id resource_type resource_id action =
     bnd (first_namespace ops [resource_namespace ''aclns'' tenant_id resource_type resource_id, ''aclns:global''])
       (\<lambda>namespace. ret (resource_entry_key ''acl'' tenant_id namespace resource_type resource_id action))"

definition read_acl :: "int \<Rightarrow> string \<Rightarrow> string \<Rightarrow> string \<Rightarrow> pydict \<Rightarrow> acl_record result" where
  "read_acl tenant_id resource_type resource_id action item =
     ebind (py_int (dget_or item ''id'' (PInt 0))) (\<lambda>i.
     ebind (py_int (dget_or item ''tenant_id'' (PInt tenant_id))) (\<lambda>t.
       Inr \<lparr>ar_id = i, ar_tenant_id = t,
            ar_subject_type = text_field item ''subject_type'' [], ar_subject_id = text_field item ''subject_id'' [],
            ar_resource_type = text_field item ''resource_type'' resource_type,
            ar_resource_id = text_field item ''resource_id'' resource_id,
            ar_action = text_field item ''action'' action, ar_effect = text_field item ''effect'' ''deny'',
            ar_created_at = (case pget item ''created_at'' of PStr s \<Rightarrow> Some s | _ \<Rightarrow> None)\<rparr>))"

definition acl_cache_get :: "'b cache_ops \<Rightarrow> int \<Rightarrow> string \<Rightarrow> string \<Rightarrow> string \<Rightarrow> ('b, acl_record list option) eff" where
  "acl_cache_get ops tenant_id resource_type resource_id action =
     bnd (acl_cache_key ops tenant_id resource_type resource_id action) (\<lambda>key.
     bnd (co_get ops key) (\<lambda>raw. lift (read_rows (read_acl tenant_id resource_type resource_id action) raw)))"

definition acl_cache_set :: "'b cache_ops \<Rightarrow> int \<Rightarrow> int \<Rightarrow> string \<Rightarrow> string \<Rightarrow> string \<Rightarrow> acl_record list
    \<Rightarrow> ('b, unit) eff" where
  "acl_cache_set ops ttl_seconds tenant_id resource_type resource_id action acl_entries =
     bnd (acl_cache_key ops tenant_id resource_type resource_id action) (\<lambda>key.
       co_set ops key (json_dumps (PList (map (\<lambda>a. PDict (acl_to_dict a)) acl_entries))) (Some ttl_seconds))"

definition acl_cache_invalidate :: "'b cache_ops \<Rightarrow> int \<Rightarrow> string \<Rightarrow> string \<Rightarrow> ('b, unit) eff" where
  "acl_cache_invalidate ops tenant_id resource_type resource_id =
     bnd (co_incr ops (resource_namespace ''aclns'' tenant_id resource_type resource_id)) (\<lambda>_. ret ())"

definition acl_cache_invalidate_global :: "'b cache_ops \<Rightarrow> ('b, unit) eff" where
  "acl_cache_invalidate_global ops = bnd (co_incr ops ''aclns:global'') (\<lambda>_. ret ())"

definition index_tenant_key :: "int \<Rightarrow> string" where
  "index_tenant_key tenant_id = ''idxns:'' @ int_str tenant_id @ '':tenant''"

definition index_cache_key :: "'b cache_ops \<Rightarrow> int \<Rightarrow> string \<Rightarrow> string \<Rightarrow> string \<Rightarrow> ('b, string) eff" where
  "index_cache_key ops tenant_id resource_type resource_id action =
     bnd (first_namespace ops [resource_namespace ''idxns'' tenant_id resource_type resource_id,
            index_tenant_key tenant_id, ''idxns:global''])
       (\<lambda>namespace. ret (resource_entry_key ''idx'' tenant_id namespace resource_type resource_id action))"

definition read_index_entry :: "string \<Rightarrow> string \<Rightarrow> string \<Rightarrow> pydict \<Rightarrow> access_index_entry result" where
  "read_index_entry resource_type resource_id action item =
     ebind (if pget item ''acl_id'' = PNone then Inr None
            else ebind (py_int (pget item ''acl_id'')) (\<lambda>i. Inr (Some i))) (\<lambda>acl_id.
       Inr \<lparr>ie_resource_type = text_field item ''resource_type'' resource_type,
            ie_resource_id = text_field item ''resource_id'' resource_id,
            ie_action = text_field item ''action'' action,
            ie_allowed_subjects = map py_str (filter is_str (list_items (dget_or item ''allowed_subjects'' (PList [])))),
            ie_source = text_field item ''source'' ''unknown'',
            ie_subject_type = opt_str (pget item ''subject_type''), ie_subject_id = opt_str (pget item ''subject_id''),
            ie_effect = opt_str (pget item ''effect''), ie_acl_id = acl_id\<rparr>)"

definition index_entry_payload :: "access_index_entry \<Rightarrow> pydict" where
  "index_entry_payload e =
     [(''resource_type'', PStr (ie_resource_type e)), (''resource_id'', PStr (ie_resource_id e)),
      (''action'', PStr (ie_action e)), (''allowed_subjects'', PList (map PStr (ie_allowed_subjects e))),
      (''source'', PStr (ie_source e)), (''subject_type'', ostr_val (ie_subject_type e)),
      (''subject_id'', ostr_val (ie_subject_id e)), (''effect'', ostr_val (ie_effect e)),
      (''acl_id'', oint_val (ie_acl_id e))]"

definition index_cache_get :: "'b cache_ops \<Rightarrow> int \<Rightarrow> string \<Rightarrow> string \<Rightarrow> string
    \<Rightarrow> ('b, access_index_entry list option) eff" where
  "index_cache_get ops tenant_id resource_type resource_id action =
     bnd (index_cache_key ops tenant_id resource_type resource_id action) (\<lambda>key.
     bnd (co_get ops key) (\<lambda>raw. lift (read_rows (read_index_entry resource_type resource_id action) raw)))"

definition index_cache_set :: "'b cache_ops \<Rightarrow> int \<Rightarrow> int \<Rightarrow> string \<Rightarrow> string \<Rightarrow> string \<Rightarrow> access_index_entry list
    \<Rightarrow> ('b, unit) eff" where
  "index_cache_set ops ttl_seconds tenant_id resource_type resource_id action entries =
     bnd (index_cache_key ops tenant_id resource_type resource_id action) (\<lambda>key.
       co_set ops key (json_dumps (PList (map (\<lambda>e. PDict (index_entry_payload e)) entries))) (Some ttl_seconds))"

definition index_cache_invalidate :: "'b cache_ops \<Rightarrow> int \<Rightarrow> string \<Rightarrow> string \<Rightarrow> ('b, unit) eff" where
  "index_cache_invalidate ops tenant_id resource_type resource_id =
     bnd (co_incr ops (resource_namespace ''idxns'' tenant_id resource_type resource_id)) (\<lambda>_. ret ())"

definition index_cache_invalidate_tenant :: "'b cache_ops \<Rightarrow> int \<Rightarrow> ('b, unit) eff" where
  "index_cache_invalidate_tenant ops tenant_id = bnd (co_incr ops (index_tenant_key tenant_id)) (\<lambda>_. ret ())"

definition index_cache_invalidate_global :: "'b cache_ops \<Rightarrow> ('b, unit) eff" where
  "index_cache_invalidate_global ops = bnd (co_incr ops ''idxns:global'') (\<lambda>_. ret ())"

section \<open>Counters\<close>

text \<open>Counters below this are readable by \<open>int()\<close>, which refuses more than 4300 digits.\<close>

definition counter_limit :: int where
  "counter_limit = 10 ^ 4300"

lemma text_int_counter:
  assumes "0 \<le> n"
  shows "text_int (Plain (int_str n)) = Inr m \<Longrightarrow> m = n"
    and "n < counter_limit \<Longrightarrow> text_int (Plain (int_str n)) = Inr n"
proof -
  have p: "parse_int (int_str n) = (if length (nat_str n) \<le> 4300 then Some n else None)"
    using assms parse_int_digits [of "nat_str n"] nat_str_digits [of n] by (simp add: int_str_def)
  then show "text_int (Plain (int_str n)) = Inr m \<Longrightarrow> m = n"
    by (simp add: text_int_def py_int_def split: if_splits)
  assume "n < counter_limit"
  then have n: "n < 10 ^ 4300" by (simp only: counter_limit_def)
  have "length (nat_str n) \<le> 4300" using assms n by (rule length_nat_str_le) simp
  then show "text_int (Plain (int_str n)) = Inr n" using p by (simp add: text_int_def py_int_def)
qed

section \<open>The adapters over any backend\<close>

context cache_backend
begin

lemma policy_cache_get_eff:
  "\<exists>b'. policy_cache_get ops t v b =
     (read_rows read_policy (look b (policy_entry_key t (text_or_zero (look b (policy_namespace_key t))) v)), b')
     \<and> look b' = look b"
proof -
  obtain b1 where "co_get ops (policy_namespace_key t) b = (Inr (look b (policy_namespace_key t)), b1)"
    "look b1 = look b" using get_law by blast
  moreover obtain b2 where "co_get ops (policy_entry_key t (text_or_zero (look b (policy_namespace_key t))) v) b1
      = (Inr (look b1 (policy_entry_key t (text_or_zero (look b (policy_namespace_key t))) v)), b2)"
    "look b2 = look b1" using get_law by blast
  ultimately show ?thesis
    by (simp add: policy_cache_get_def policy_cache_key_def)
qed

lemma policy_cache_set_eff:
  "\<exists>b'. policy_cache_set ops t v ps b = (Inr (), b')
     \<and> look b' = (look b)(policy_entry_key t (text_or_zero (look b (policy_namespace_key t))) v
          := Some (json_dumps (PList (map policy_doc ps))))"
proof -
  obtain b1 where "co_get ops (policy_namespace_key t) b = (Inr (look b (policy_namespace_key t)), b1)"
    "look b1 = look b" using get_law by blast
  moreover obtain b2 where "co_set ops (policy_entry_key t (text_or_zero (look b (policy_namespace_key t))) v)
      (json_dumps (PList (map policy_doc ps))) None b1 = (Inr (), b2)"
    "look b2 = (look b1)(policy_entry_key t (text_or_zero (look b (policy_namespace_key t))) v
          := Some (json_dumps (PList (map policy_doc ps))))" using set_law by blast
  ultimately show ?thesis
    by (simp add: policy_cache_set_def policy_cache_key_def)
qed

lemma relationship_cache_read_back:
  "\<exists>b1 b2. relationship_cache_set ops ttl tid st sid rs b = (Inr (), b1)
     \<and> relationship_cache_get ops tid st sid b1 = (Inr (Some rs), b2) \<and> look b2 = look b1"
proof -
  obtain b1 where b1: "relationship_cache_set ops ttl tid st sid rs b = (Inr (), b1)"
    "look b1 (relationship_cache_key tid st sid)
       = Some (json_dumps (PList (map (\<lambda>r. PDict (relationship_to_dict r)) rs)))"
    using set_law by (fastforce simp: relationship_cache_set_def)
  obtain b2 where b2: "co_get ops (relationship_cache_key tid st sid) b1
      = (Inr (look b1 (relationship_cache_key tid st sid)), b2)" "look b2 = look b1"
    using get_law by blast
  then have "relationship_cache_get ops tid st sid b1 = (Inr (Some rs), b2)"
    using b1(2) read_written_relationships [of rs] by (simp add: relationship_cache_get_def)
  then show ?thesis using b1(1) b2(2) by blast
qed

lemma relationship_cache_forgets:
  "\<exists>b1 b2. relationship_cache_invalidate ops tid st sid b = (Inr (), b1)
     \<and> relationship_cache_get ops tid st sid b1 = (Inr None, b2) \<and> look b2 = look b1
     \<and> look b1 = (look b)(relationship_cache_key tid st sid := None)"
proof -
  obtain b1 where b1: "relationship_cache_invalidate ops tid st sid b = (Inr (), b1)"
    "look b1 = (look b)(relationship_cache_key tid st sid := None)"
    using delete_law by (fastforce simp: relationship_cache_invalidate_def)
  obtain b2 where b2: "co_get ops (relationship_cache_key tid st sid) b1
      = (Inr (look b1 (relationship_cache_key tid st sid)), b2)" "look b2 = look b1"
    using get_law by blast
  then have "relationship_cache_get ops tid st sid b1 = (Inr None, b2)"
    using b1(2) by (simp add: relationship_cache_get_def read_rows_def)
  then show ?thesis using b1 b2(2) by blast
qed

lemma decision_key_after_bump:
  assumes k1: "fst (make_key ops digest t v inp r b) = Inr k1"
    and bump: "bump_namespace ops t b1 = (Inr n, b2)" "look b1 (decision_namespace_key t) = look b (decision_namespace_key t)"
    and k2: "fst (make_key ops digest' t v' inp' r' b2) = Inr k2"
    and nonneg: "\<And>m. (case look b (decision_namespace_key t) of None \<Rightarrow> Inr 0 | Some t \<Rightarrow> text_int t) = Inr m
       \<Longrightarrow> 0 \<le> m"
  shows "\<exists>m d d'. k1 = decision_entry_key t m v d \<and> k2 = decision_entry_key t (m + 1) v' d'"
proof -
  let ?c = "\<lambda>b. case look b (decision_namespace_key t) of None \<Rightarrow> Inr 0 | Some t \<Rightarrow> text_int t"
  have key: "\<exists>m d. ?c b = Inr m \<and> k = decision_entry_key t m v d"
    if "fst (make_key ops dg t v inp r b) = Inr k" for dg v inp r b k
  proof -
    obtain b' where "co_get ops (decision_namespace_key t) b = (Inr (look b (decision_namespace_key t)), b')"
      using get_law by blast
    with that show ?thesis
      by (cases "?c b") (auto simp: make_key_def tenant_namespace_def bnd_assoc)
  qed
  from key [OF k1] obtain m d where m: "?c b = Inr m" "k1 = decision_entry_key t m v d" by blast
  have "?c b1 = Inr m" using m(1) bump(2) by simp
  from incr_law [OF this] bump(1) have "look b2 (decision_namespace_key t) = Some (Plain (int_str (m + 1)))"
    by (auto simp: bump_namespace_def)
  with key [OF k2] obtain m' d' where m': "text_int (Plain (int_str (m + 1))) = Inr m'"
    "k2 = decision_entry_key t m' v' d'" by auto
  have "m' = m + 1" using text_int_counter(1) [of "m + 1" m'] nonneg [OF m(1)] m'(1) by simp
  then show ?thesis using m(2) m'(2) by blast
qed

end

section \<open>Keys\<close>

lemma int_str_no_colon: "CHR '':'' \<notin> set (int_str i)"
  using int_str_chars [of "CHR '':''" i] by (auto simp: is_digit_def code_def)

lemma append_sep_inj_last:
  fixes a :: string
  assumes "a @ c # b = a' @ c # b'" "c \<notin> set b" "c \<notin> set b'"
  shows "a = a' \<and> b = b'"
proof -
  have "rev (a @ c # b) = rev (a' @ c # b')" using assms(1) by (rule arg_cong)
  then have "rev b @ c # rev a = rev b' @ c # rev a'" by simp
  then show ?thesis using append_sep_inj [of "rev b" c "rev a" "rev b'" "rev a'"] assms(2,3) by simp
qed

lemma policy_entry_key_inj:
  assumes "policy_entry_key t (int_str k) v = policy_entry_key t' (int_str k') v'"
  shows "t = t' \<and> k = k' \<and> v = v'"
proof -
  have e: "(t @ CHR '':'' # int_str k) @ CHR '':'' # int_str v = (t' @ CHR '':'' # int_str k') @ CHR '':'' # int_str v'"
    using assms by (simp add: policy_entry_key_def)
  have "t @ CHR '':'' # int_str k = t' @ CHR '':'' # int_str k' \<and> int_str v = int_str v'"
    using e int_str_no_colon int_str_no_colon by (rule append_sep_inj_last)
  moreover from this have "t = t' \<and> int_str k = int_str k'"
    using append_sep_inj_last [of t "CHR '':''" "int_str k" t' "int_str k'"] int_str_no_colon by blast
  ultimately show ?thesis by (simp add: int_str_inj)
qed

lemma policy_keys_differ [simp]:
  "policy_namespace_key t \<noteq> policy_entry_key t' ns v" "policy_entry_key t' ns v \<noteq> policy_namespace_key t"
  by (simp_all add: policy_namespace_key_def policy_entry_key_def)

lemma policy_namespace_key_inj [simp]: "policy_namespace_key t = policy_namespace_key t' \<longleftrightarrow> t = t'"
  by (simp add: policy_namespace_key_def)

lemma decision_entry_key_inj:
  "decision_entry_key t m v d = decision_entry_key t m' v' d' \<Longrightarrow> m = m' \<and> v = v' \<and> d = d'"
proof -
  assume "decision_entry_key t m v d = decision_entry_key t m' v' d'"
  then have e: "int_str m @ CHR '':'' # (int_str v @ CHR '':'' # d)
      = int_str m' @ CHR '':'' # (int_str v' @ CHR '':'' # d')"
    by (simp add: decision_entry_key_def)
  then have "int_str m = int_str m' \<and> int_str v @ CHR '':'' # d = int_str v' @ CHR '':'' # d'"
    using int_str_no_colon int_str_no_colon by (rule append_sep_inj)
  moreover from this have "int_str v = int_str v' \<and> d = d'"
    using append_sep_inj [of "int_str v" "CHR '':''" d "int_str v'" d'] int_str_no_colon by blast
  ultimately show ?thesis by (simp add: int_str_inj)
qed

section \<open>Histories of the policy cache\<close>

text \<open>
  The counters \<open>c\<close> of the tenants: nothing is stored under a counter value that has not been reached
  yet, and what is stored under the present one is \<open>m t v\<close>, the text last stored for the version since
  the tenant was last invalidated.
\<close>

definition policies_held :: "int \<Rightarrow> (string \<Rightarrow> int \<Rightarrow> cache_text option) \<Rightarrow> (string \<Rightarrow> cache_text option) \<Rightarrow> bool" where
  "policies_held bound m f = (\<exists>c. \<forall>t. 0 \<le> c t \<and> c t \<le> bound
     \<and> f (policy_namespace_key t) = (if c t = 0 then None else Some (Plain (int_str (c t))))
     \<and> (\<forall>k v. c t < k \<longrightarrow> f (policy_entry_key t (int_str k) v) = None)
     \<and> (\<forall>v. f (policy_entry_key t (int_str (c t)) v) = m t v))"

definition namespaces_fresh :: "int \<Rightarrow> (string \<Rightarrow> cache_text option) \<Rightarrow> bool" where
  "namespaces_fresh bound f = (\<exists>m. policies_held bound m f)"

lemma text_or_zero_counter:
  "text_or_zero (if n = 0 then None else Some (Plain (int_str n))) = int_str n"
  by (simp add: text_or_zero_def int_str_def nat_str.simps str_simps)

context cache_backend
begin

lemma policy_set_held:
  assumes "policies_held bound m (look b)" "policy_cache_set ops t v ps b = (r, b')"
  shows "policies_held bound (m(t := (m t)(v := Some (json_dumps (PList (map policy_doc ps)))))) (look b')"
proof -
  from assms(1) obtain c where c: "\<And>t. 0 \<le> c t \<and> c t \<le> bound
     \<and> look b (policy_namespace_key t) = (if c t = 0 then None else Some (Plain (int_str (c t))))
     \<and> (\<forall>k v. c t < k \<longrightarrow> look b (policy_entry_key t (int_str k) v) = None)
     \<and> (\<forall>v. look b (policy_entry_key t (int_str (c t)) v) = m t v)"
    unfolding policies_held_def by blast
  have "text_or_zero (look b (policy_namespace_key t)) = int_str (c t)"
    using c [of t] text_or_zero_counter [of "c t"] by simp
  then have l: "look b' = (look b)(policy_entry_key t (int_str (c t)) v
      := Some (json_dumps (PList (map policy_doc ps))))"
    using policy_cache_set_eff [of t v ps b] assms(2) by auto
  have "look b' (policy_entry_key t' (int_str k) v') = None" if "c t' < k" for t' k v'
    using c [of t'] that policy_entry_key_inj [of t' k v' t "c t" v] by (auto simp: l)
  moreover have "look b' (policy_entry_key t' (int_str (c t')) v')
      = (m(t := (m t)(v := Some (json_dumps (PList (map policy_doc ps)))))) t' v'" for t' v'
    using c [of t'] policy_entry_key_inj [of t' "c t'" v' t "c t" v] by (auto simp: l)
  ultimately show ?thesis
    unfolding policies_held_def using c by (intro exI [of _ c]) (simp add: l)
qed

lemma policy_get_held:
  assumes "policies_held bound m (look b)" "policy_cache_get ops t v b = (r, b')"
  shows "r = read_rows read_policy (m t v)" "policies_held bound m (look b')"
proof -
  from assms(1) obtain c where c: "look b (policy_namespace_key t) = (if c t = 0 then None else Some (Plain (int_str (c t))))"
    "look b (policy_entry_key t (int_str (c t)) v) = m t v"
    unfolding policies_held_def by blast
  then show "r = read_rows read_policy (m t v)" "policies_held bound m (look b')"
    using policy_cache_get_eff [of t v b] assms text_or_zero_counter [of "c t"] by auto
qed

lemma policy_invalidate_held:
  assumes "policies_held bound m (look b)" "bound < counter_limit" "policy_cache_invalidate ops t b = (r, b')"
  shows "policies_held (bound + 1) (m(t := \<lambda>_. None)) (look b')"
proof -
  from assms(1) obtain c where c: "\<And>t. 0 \<le> c t \<and> c t \<le> bound
     \<and> look b (policy_namespace_key t) = (if c t = 0 then None else Some (Plain (int_str (c t))))
     \<and> (\<forall>k v. c t < k \<longrightarrow> look b (policy_entry_key t (int_str k) v) = None)
     \<and> (\<forall>v. look b (policy_entry_key t (int_str (c t)) v) = m t v)"
    unfolding policies_held_def by blast
  have bound: "c t < counter_limit" using c [of t] assms(2) by (meson order.strict_trans1)
  have "text_int (Plain (int_str (c t))) = Inr (c t)"
    using text_int_counter(2) [of "c t", OF _ bound] c [of t] by blast
  then have "(case look b (policy_namespace_key t) of None \<Rightarrow> Inr 0 | Some t \<Rightarrow> text_int t) = Inr (c t)"
    using c [of t] by (simp split: if_splits)
  from incr_law [OF this] have l: "look b' = (look b)(policy_namespace_key t := Some (Plain (int_str (c t + 1))))"
    using assms(3) by (auto simp: policy_cache_invalidate_def)
  let ?c = "c(t := c t + 1)"
  have "0 \<le> ?c t' \<and> ?c t' \<le> bound + 1
      \<and> look b' (policy_namespace_key t') = (if ?c t' = 0 then None else Some (Plain (int_str (?c t'))))
      \<and> (\<forall>k v. ?c t' < k \<longrightarrow> look b' (policy_entry_key t' (int_str k) v) = None)
      \<and> (\<forall>v. look b' (policy_entry_key t' (int_str (?c t')) v) = (m(t := \<lambda>_. None)) t' v)" for t'
    using c [of t'] c [of t] by (auto simp: l)
  then show ?thesis unfolding policies_held_def by blast
qed

lemma policy_invalidate_fresh:
  assumes "namespaces_fresh bound (look b)" "bound < counter_limit" "policy_cache_invalidate ops t b = (r, b')"
  shows "fst (policy_cache_get ops t v b') = Inr None"
proof -
  from assms(1) obtain m where "policies_held bound m (look b)" unfolding namespaces_fresh_def by blast
  from policy_invalidate_held [OF this assms(2,3)] have held: "policies_held (bound + 1) (m(t := \<lambda>_. None)) (look b')" .
  obtain r' b'' where "policy_cache_get ops t v b' = (r', b'')" by fastforce
  with policy_get_held(1) [OF held this] show ?thesis by (simp add: read_rows_def)
qed

end

datatype policy_cache_op =
    PutPolicies string int "policy_record list"
  | GetPolicies string int
  | InvalidatePolicies string
  | TimePasses int

fun apply_policy_op :: "memory_backend \<Rightarrow> policy_cache_op \<Rightarrow> memory_backend" where
  "apply_policy_op b (PutPolicies t v ps) = snd (policy_cache_set memory_ops t v ps b)"
| "apply_policy_op b (GetPolicies t v) = snd (policy_cache_get memory_ops t v b)"
| "apply_policy_op b (InvalidatePolicies t) = snd (policy_cache_invalidate memory_ops t b)"
| "apply_policy_op b (TimePasses dt) = b\<lparr>mb_now := mb_now b + dt\<rparr>"

text \<open>Policy entries and counters never expire.\<close>

definition eternal :: "memory_backend \<Rightarrow> bool" where
  "eternal b = (\<forall>k v e. dget (mb_values b) k = Some (v, e) \<longrightarrow> e = None)"

lemma eternal_ops:
  "eternal b \<Longrightarrow> eternal (snd (memory_get k b))"
  "eternal b \<Longrightarrow> eternal (snd (memory_set k v None b))"
  "eternal b \<Longrightarrow> eternal (snd (memory_incr k b))"
  by (auto simp: eternal_def memory_get_def memory_set_def memory_incr_def bnd_def deadline_def expired_def
      split: option.splits sum.splits prod.splits if_splits)

lemma eternal_step: "eternal b \<Longrightarrow> eternal (apply_policy_op b op)"
proof (cases op)
  case (PutPolicies t v ps)
  assume "eternal b"
  then show ?thesis
    using PutPolicies eternal_ops(1) [of b "policy_namespace_key t"] eternal_ops(2)
    by (cases "memory_get (policy_namespace_key t) b")
      (auto simp: policy_cache_set_def policy_cache_key_def memory_ops_def bnd_def split: sum.splits)
next
  case (GetPolicies t v)
  assume "eternal b"
  then show ?thesis
    using GetPolicies eternal_ops(1) [of b "policy_namespace_key t"] eternal_ops(1)
    by (cases "memory_get (policy_namespace_key t) b")
      (auto simp: policy_cache_get_def policy_cache_key_def memory_ops_def bnd_def split: sum.splits prod.splits;
       metis snd_conv)
next
  case (InvalidatePolicies t)
  assume "eternal b"
  then show ?thesis
    using InvalidatePolicies eternal_ops(3) [of b "policy_namespace_key t"]
    by (cases "memory_incr (policy_namespace_key t) b")
      (auto simp: policy_cache_invalidate_def memory_ops_def bnd_def split: sum.splits)
qed (simp add: eternal_def)

lemma eternal_time: "eternal b \<Longrightarrow> memory_look (b\<lparr>mb_now := now\<rparr>) = memory_look b"
proof
  fix k
  assume "eternal b"
  then have "\<exists>v. dget (mb_values b) k = Some (v, None)" if "dget (mb_values b) k \<noteq> None"
    using that by (cases "dget (mb_values b) k") (auto simp: eternal_def)
  then show "memory_look (b\<lparr>mb_now := now\<rparr>) k = memory_look b k"
    by (cases "dget (mb_values b) k = None") (auto simp: memory_look_def live_value_def expired_def)
qed

lemma policies_held_weaken: "policies_held n m f \<Longrightarrow> policies_held (n + 1) m f"
  unfolding policies_held_def by (metis add.commute zle_add1_eq_le less_add_one order.trans order_less_imp_le)

text \<open>
  What a history leaves for a tenant and a version, the latest operation first: the list stored last,
  unless the tenant was invalidated since.
\<close>

fun last_stored :: "string \<Rightarrow> int \<Rightarrow> policy_cache_op list \<Rightarrow> policy_record list option" where
  "last_stored t v [] = None"
| "last_stored t v (PutPolicies t' v' ps # earlier) =
     (if t' = t \<and> v' = v then Some ps else last_stored t v earlier)"
| "last_stored t v (InvalidatePolicies t' # earlier) = (if t' = t then None else last_stored t v earlier)"
| "last_stored t v (GetPolicies t' v' # earlier) = last_stored t v earlier"
| "last_stored t v (TimePasses dt # earlier) = last_stored t v earlier"

lemma last_stored_invalidated:
  "(\<And>ps. PutPolicies t v ps \<notin> set later) \<Longrightarrow> last_stored t v (later @ InvalidatePolicies t # earlier) = None"
proof (induction later)
  case (Cons op later)
  then show ?case by (cases op) auto
qed simp

abbreviation policy_text :: "policy_record list \<Rightarrow> cache_text" where
  "policy_text ps \<equiv> json_dumps (PList (map policy_doc ps))"

lemma policy_history:
  assumes "int (length ops) < counter_limit"
  shows "eternal (foldl apply_policy_op empty_memory ops)
    \<and> policies_held (int (length ops)) (\<lambda>t v. map_option policy_text (last_stored t v (rev ops)))
        (memory_look (foldl apply_policy_op empty_memory ops))"
  using assms
proof (induction ops rule: rev_induct)
  case Nil
  then show ?case
    by (simp add: eternal_def empty_memory_def policies_held_def memory_look_def) (rule exI [of _ "\<lambda>_. 0"], simp)
next
  case (snoc op ops)
  let ?b = "foldl apply_policy_op empty_memory ops"
  let ?m = "\<lambda>ops t v. map_option policy_text (last_stored t v (rev ops))"
  have len: "int (length ops) < counter_limit" using snoc.prems by simp
  then have b: "eternal ?b" "policies_held (int (length ops)) (?m ops) (memory_look ?b)" using snoc.IH by blast+
  note weaken = policies_held_weaken
  have "policies_held (int (length ops) + 1) (?m (ops @ [op])) (memory_look (apply_policy_op ?b op))"
  proof (cases op)
    case (PutPolicies t v ps)
    have m: "?m (ops @ [op]) = (?m ops)(t := (?m ops t)(v := Some (policy_text ps)))"
      using PutPolicies by (auto simp: fun_eq_iff)
    obtain r b' where e: "policy_cache_set memory_ops t v ps ?b = (r, b')" by fastforce
    show ?thesis unfolding m using memory.policy_set_held [OF b(2) e] e PutPolicies by (simp add: weaken)
  next
    case (GetPolicies t v)
    obtain r b' where e: "policy_cache_get memory_ops t v ?b = (r, b')" by fastforce
    show ?thesis using memory.policy_get_held(2) [OF b(2) e] e GetPolicies by (simp add: weaken)
  next
    case (InvalidatePolicies t)
    have m: "?m (ops @ [op]) = (?m ops)(t := \<lambda>_. None)"
      using InvalidatePolicies by (auto simp: fun_eq_iff)
    obtain r b' where e: "policy_cache_invalidate memory_ops t ?b = (r, b')" by fastforce
    show ?thesis unfolding m using memory.policy_invalidate_held [OF b(2) len e] e InvalidatePolicies by simp
  next
    case (TimePasses dt)
    then show ?thesis using b by (simp add: eternal_time weaken)
  qed
  then show ?case using eternal_step [OF b(1)] by (simp add: algebra_simps)
qed

text \<open>
  C22. The policy cache is a map with invalidation: after any history of stored, read and invalidated
  policies of any tenants and of time passing (shorter than \<open>10 ^ 4300\<close> operations, so that the counters
  stay readable by \<open>int()\<close>), a read gives what was stored last for the tenant and the version, unless
  the tenant was invalidated since. So invalidation is never outrun: whatever happened before it and
  whatever operations follow it, no list of the tenant is found again until one is stored after it.
\<close>

theorem policy_cache_invalidation:
  assumes "int (length ops) < counter_limit"
  shows "fst (policy_cache_get memory_ops t v (foldl apply_policy_op empty_memory ops))
      = read_rows read_policy (map_option policy_text (last_stored t v (rev ops)))
    \<and> (\<forall>ps. last_stored t v (rev ops) = Some ps \<and> (\<forall>p \<in> set ps. json_policy p) \<longrightarrow>
        fst (policy_cache_get memory_ops t v (foldl apply_policy_op empty_memory ops)) = Inr (Some ps))
    \<and> (\<forall>before later. ops = before @ InvalidatePolicies t # later \<and> (\<forall>ps. PutPolicies t v ps \<notin> set later) \<longrightarrow>
        fst (policy_cache_get memory_ops t v (foldl apply_policy_op empty_memory ops)) = Inr None)"
proof -
  let ?b = "foldl apply_policy_op empty_memory ops"
  obtain r b' where e: "policy_cache_get memory_ops t v ?b = (r, b')" by fastforce
  have read: "r = read_rows read_policy (map_option policy_text (last_stored t v (rev ops)))"
    using memory.policy_get_held(1) [OF policy_history [OF assms, THEN conjunct2] e] .
  have "last_stored t v (rev ops) = None"
    if "ops = before @ InvalidatePolicies t # later" "\<forall>ps. PutPolicies t v ps \<notin> set later" for before later
    using that last_stored_invalidated [of t v "rev later" "rev before"] by simp
  then show ?thesis
    using e read read_written_policies by (auto simp: read_rows_def)
qed

theorem policy_cache_invalidation_witness:
  "fst (policy_cache_get memory_ops ''acme'' 2 (foldl apply_policy_op empty_memory
      [PutPolicies ''acme'' 2 [], InvalidatePolicies ''acme'', PutPolicies ''acme'' 3 []])) = Inr None
    \<and> fst (policy_cache_get memory_ops ''acme'' 3 (foldl apply_policy_op empty_memory
      [PutPolicies ''acme'' 2 [], InvalidatePolicies ''acme'', PutPolicies ''acme'' 3 []])) = Inr (Some [])"
proof -
  let ?ops = "[PutPolicies ''acme'' 2 [], InvalidatePolicies ''acme'', PutPolicies ''acme'' 3 []]"
  have "(3 :: int) < 10" by simp
  also have "\<dots> \<le> 10 ^ 4300" by (rule self_le_power) simp_all
  finally have short: "int (length ?ops) < counter_limit" by (simp only: counter_limit_def list.size)
  have "?ops = [PutPolicies ''acme'' 2 []] @ InvalidatePolicies ''acme'' # [PutPolicies ''acme'' 3 []]"
    "\<forall>ps. PutPolicies ''acme'' 2 ps \<notin> set [PutPolicies ''acme'' 3 []]" by simp_all
  moreover have "last_stored ''acme'' 3 (rev ?ops) = Some []" by simp
  ultimately show ?thesis
    using policy_cache_invalidation [OF short, of "''acme''" 2] policy_cache_invalidation [OF short, of "''acme''" 3]
    by (metis empty_iff list.set(1))
qed

text \<open>
  What is stored is what is read: policies whose conditions are JSON come back unchanged for the
  same tenant and version, whatever the memory held before.
\<close>

lemma policy_cache_roundtrip:
  assumes "\<forall>p \<in> set ps. json_policy p"
  shows "fst (policy_cache_get memory_ops t v (snd (policy_cache_set memory_ops t v ps b))) = Inr (Some ps)"
proof -
  let ?k = "policy_entry_key t (text_or_zero (memory_look b (policy_namespace_key t))) v"
  obtain b' where b': "policy_cache_set memory_ops t v ps b = (Inr (), b')"
    "memory_look b' = (memory_look b)(?k := Some (json_dumps (PList (map policy_doc ps))))"
    using memory.policy_cache_set_eff by blast
  then show ?thesis
    using memory.policy_cache_get_eff [of t v b'] read_written_policies [OF assms] by auto
qed

lemma policy_cache_roundtrip_example:
  "fst (policy_cache_get memory_ops ''t'' 1 (snd (policy_cache_set memory_ops ''t'' 1
     [\<lparr>pr_id = 3, pr_definition = \<lparr>pd_action = ''read'', pd_effect = Allow,
        pd_conditions = [(''roles'', PList [PStr ''a''])], pd_priority = 5, pd_policy_id = Some ''p:v1''\<rparr>\<rparr>]
     empty_memory))) =
   Inr (Some [\<lparr>pr_id = 3, pr_definition = \<lparr>pd_action = ''read'', pd_effect = Allow,
        pd_conditions = [(''roles'', PList [PStr ''a''])], pd_priority = 5, pd_policy_id = Some ''p:v1''\<rparr>\<rparr>])"
  by (rule policy_cache_roundtrip) (simp add: json_policy_def)

text \<open>
  A cached decision is never found again after its tenant's namespace is bumped: the key computed
  for any request before the bump differs from the key computed for any request of the tenant after it.
\<close>

lemma decision_bump_separates:
  assumes "fst (make_key memory_ops digest t v inp r b) = Inr k1"
    and "fst (bump_namespace memory_ops t b) = Inr n" "0 < n"
    and "fst (make_key memory_ops digest t v' inp' r' (snd (bump_namespace memory_ops t b))) = Inr k2"
  shows "k1 \<noteq> k2"
proof -
  let ?c = "case memory_look b (decision_namespace_key t) of None \<Rightarrow> Inr 0 | Some t \<Rightarrow> text_int t"
  obtain b2 where b2: "bump_namespace memory_ops t b = (Inr n, b2)"
    using assms(2) by (cases "bump_namespace memory_ops t b") simp
  have "0 \<le> m" if "?c = Inr m" for m
    using memory.incr_law [OF that] b2 assms(3) by (simp add: bump_namespace_def)
  then obtain m d d' where "k1 = decision_entry_key t m v d" "k2 = decision_entry_key t (m + 1) v' d'"
    using memory.decision_key_after_bump [OF assms(1) b2 refl, of digest v' inp' r' k2] assms(4) b2 by auto
  then show ?thesis using decision_entry_key_inj [of t m v d "m + 1" v' d'] by auto
qed

definition bumped_memory :: memory_backend where
  "bumped_memory = \<lparr>mb_values = [(''decns:acme'', Plain ''1'', None)], mb_now = 0\<rparr>"

lemma decision_bump_separates_example:
  "''dec:acme:0:1:h'' \<noteq> ''dec:acme:1:1:h''"
proof -
  let ?inp = "plain_input [] [] ''read'' []"
  have b: "bump_namespace memory_ops ''acme'' empty_memory = (Inr 1, bumped_memory)"
    by code_simp
  have k: "fst (make_key memory_ops (\<lambda>_. ''h'') ''acme'' 1 ?inp None empty_memory) = Inr ''dec:acme:0:1:h''"
    "fst (make_key memory_ops (\<lambda>_. ''h'') ''acme'' 1 ?inp None bumped_memory) = Inr ''dec:acme:1:1:h''"
    by code_simp+
  show ?thesis
    by (rule decision_bump_separates [where t = "''acme''" and digest = "\<lambda>_. ''h''" and v = 1 and v' = 1
      and inp = ?inp and inp' = ?inp and r = None and r' = None and b = empty_memory and n = 1])
      (simp_all only: b k fst_conv snd_conv zero_less_one)
qed

section \<open>What a decision key stands for\<close>

lemma stable_payload:
  "stable_doc (PDict (key_payload t v inp r)) = PDict
     [(''action'', PStr (in_action inp)), (''context'', stable_doc (PDict (in_context inp))),
      (''policy_version'', PInt v), (''resource'', stable_doc (PDict (in_resource inp))),
      (''revision'', oint_val r), (''tenant_key'', PStr t), (''user'', stable_doc (PDict (in_user inp)))]"
  by (cases r) (simp_all add: key_payload_def less_char_def)

lemma make_key_result:
  "fst (make_key memory_ops digest t v inp r b) = Inr k \<Longrightarrow>
   \<exists>m. fst (tenant_namespace memory_ops t b) = Inr m
     \<and> k = decision_entry_key t m v (digest (stable_doc (PDict (key_payload t v inp r))))"
  by (auto simp: make_key_def bnd_def split: prod.splits sum.splits)

lemma decision_entry_key_parts:
  assumes "decision_entry_key t m v d = decision_entry_key t' m' v' d'" "CHR '':'' \<notin> set d" "CHR '':'' \<notin> set d'"
  shows "t = t' \<and> m = m' \<and> v = v' \<and> d = d'"
proof -
  have e: "(t @ CHR '':'' # int_str m @ CHR '':'' # int_str v) @ CHR '':'' # d
      = (t' @ CHR '':'' # int_str m' @ CHR '':'' # int_str v') @ CHR '':'' # d'"
    using assms(1) by (simp add: decision_entry_key_def)
  then have d: "d = d'" and p: "t @ CHR '':'' # int_str m @ CHR '':'' # int_str v = t' @ CHR '':'' # int_str m' @ CHR '':'' # int_str v'"
    using append_sep_inj_last [OF e assms(2,3)] by simp_all
  have "(t @ CHR '':'' # int_str m) @ CHR '':'' # int_str v = (t' @ CHR '':'' # int_str m') @ CHR '':'' # int_str v'"
    using p by simp
  from append_sep_inj_last [OF this int_str_no_colon int_str_no_colon]
  have v: "int_str v = int_str v'" and q: "t @ CHR '':'' # int_str m = t' @ CHR '':'' # int_str m'" by simp_all
  from append_sep_inj_last [OF q int_str_no_colon int_str_no_colon] d v show ?thesis by (simp add: int_str_inj)
qed

text \<open>
  C23. For a digest whose texts have no colon, as hexadecimal ones have none, and which does not collide
  on the two requests, equal keys mean the same request: the same tenant, counter of its namespace,
  policy version, revision and action, and the same user, resource and context documents up to the
  order of their keys. A key of one tenant is never a key of another.
\<close>

theorem decision_key_identifies:
  assumes "digest (stable_doc (PDict (key_payload t v inp r))) = digest (stable_doc (PDict (key_payload t' v' inp' r')))
      \<Longrightarrow> stable_doc (PDict (key_payload t v inp r)) = stable_doc (PDict (key_payload t' v' inp' r'))"
    and "\<And>doc. CHR '':'' \<notin> set (digest doc)"
    and "fst (make_key memory_ops digest t v inp r b) = Inr k"
    and "fst (make_key memory_ops digest t' v' inp' r' b') = Inr k"
  shows "t = t' \<and> fst (tenant_namespace memory_ops t b) = fst (tenant_namespace memory_ops t' b')
    \<and> v = v' \<and> r = r' \<and> in_action inp = in_action inp'
    \<and> stable_doc (PDict (in_user inp)) = stable_doc (PDict (in_user inp'))
    \<and> stable_doc (PDict (in_resource inp)) = stable_doc (PDict (in_resource inp'))
    \<and> stable_doc (PDict (in_context inp)) = stable_doc (PDict (in_context inp'))"
proof -
  from make_key_result [OF assms(3)] make_key_result [OF assms(4)] obtain m m' where
    ns: "fst (tenant_namespace memory_ops t b) = Inr m" "fst (tenant_namespace memory_ops t' b') = Inr m'" and
    "decision_entry_key t m v (digest (stable_doc (PDict (key_payload t v inp r))))
     = decision_entry_key t' m' v' (digest (stable_doc (PDict (key_payload t' v' inp' r'))))" by auto
  from decision_entry_key_parts [OF this(3) assms(2) assms(2)] assms(1)
  have "t = t'" "m = m'" "stable_doc (PDict (key_payload t v inp r)) = stable_doc (PDict (key_payload t' v' inp' r'))"
    by blast+
  then show ?thesis
    using ns unfolding stable_payload by (cases r; cases r') (simp_all del: stable_doc.simps)
qed

theorem decision_key_identifies_witness:
  "stable_doc (PDict (in_user (plain_input [(''id'', PInt 1), (''dept'', PStr ''x'')] [] ''read'' [])))
   = stable_doc (PDict (in_user (plain_input [(''dept'', PStr ''x''), (''id'', PInt 1)] [] ''read'' [])))"
proof -
  let ?a = "plain_input [(''id'', PInt 1), (''dept'', PStr ''x'')] [] ''read'' []"
  let ?b = "plain_input [(''dept'', PStr ''x''), (''id'', PInt 1)] [] ''read'' []"
  have "fst (make_key memory_ops (\<lambda>_. ''h'') ''t'' 1 ?a None empty_memory) = Inr ''dec:t:0:1:h''"
    "fst (make_key memory_ops (\<lambda>_. ''h'') ''t'' 1 ?b None empty_memory) = Inr ''dec:t:0:1:h''"
    "stable_doc (PDict (key_payload ''t'' 1 ?a None)) = stable_doc (PDict (key_payload ''t'' 1 ?b None))"
    by code_simp+
  moreover have "CHR '':'' \<notin> set ((\<lambda>_. ''h'') doc)" for doc :: pyval by simp
  ultimately show ?thesis
    using decision_key_identifies [where digest = "\<lambda>_. ''h''" and t = "''t''" and t' = "''t''" and inp = ?a and inp' = ?b]
    by blast
qed

text \<open>
  The key does not depend on the rest of the hydrated input: two requests that differ only in the
  ACL entries, the access index, the permission graph or the compiled policies have the same key, so it
  is the revision in the key, not the hydrated input, that separates them.
\<close>

lemma decision_key_ignores_hydration:
  "make_key ops digest t v (inp\<lparr>in_acl_entries := acl, in_index_entries := index,
      in_permission_graph := graph, in_compiled_graph := policies\<rparr>) r
   = make_key ops digest t v inp r"
  by (simp add: make_key_def key_payload_def)

section \<open>Relationship, ACL and index entries\<close>

text \<open>
  The relationships of a subject are read back exactly as they were stored, in order, and after the
  subject is invalidated they are not found.
\<close>

lemma relationship_cache_contract:
  "fst (relationship_cache_get memory_ops tid st sid
      (snd (relationship_cache_set memory_ops ttl tid st sid rs b))) = Inr (Some rs)
   \<and> fst (relationship_cache_get memory_ops tid st sid
      (snd (relationship_cache_invalidate memory_ops tid st sid b))) = Inr None"
  using memory.relationship_cache_read_back [of ttl tid st sid rs b]
    memory.relationship_cache_forgets [of tid st sid b] by auto

definition stale_entry :: access_index_entry where
  "stale_entry = \<lparr>ie_resource_type = ''doc'', ie_resource_id = ''d1'', ie_action = ''read'',
     ie_allowed_subjects = [''user:7''], ie_source = ''relationship'', ie_subject_type = None,
     ie_subject_id = None, ie_effect = None, ie_acl_id = None\<rparr>"

text \<open>A relationship write, then the index of a resource is stored, then an ACL entry is written for it.\<close>

definition index_after_acl_write :: memory_backend where
  "index_after_acl_write =
     (let b1 = snd (index_cache_invalidate_tenant memory_ops 1 empty_memory);
          b2 = snd (index_cache_set memory_ops 30 1 ''doc'' ''d1'' ''read'' [stale_entry] b1)
      in snd (index_cache_invalidate memory_ops 1 ''doc'' ''d1'' b2))"

text \<open>
  The counters of a resource and of its tenant share one place in the key: after a tenant-wide
  invalidation (counter 1), an index stored under it survives the first invalidation of the resource,
  whose own counter starts at 1 as well, so the entries computed before an ACL write are still served
  after it. Once the resource has a counter, invalidating the whole tenant has no effect on it either.
\<close>

lemma index_cache_serves_stale:
  "fst (index_cache_get memory_ops 1 ''doc'' ''d1'' ''read'' index_after_acl_write) = Inr (Some [stale_entry])
   \<and> fst (index_cache_get memory_ops 1 ''doc'' ''d1'' ''read''
        (snd (index_cache_invalidate_tenant memory_ops 1 index_after_acl_write))) = Inr (Some [stale_entry])"
  by (intro conjI; code_simp)

text \<open>
  Keys do not separate a resource id from the action: the ACL of resource \<open>a\<close> for action \<open>b:c\<close>,
  once cached, is served for resource \<open>a:b\<close> and action \<open>c\<close>.
\<close>

lemma acl_cache_keys_collide:
  "fst (acl_cache_get memory_ops 1 ''doc'' ''a:b'' ''c''
      (snd (acl_cache_set memory_ops 30 1 ''doc'' ''a'' ''b:c'' [] empty_memory))) = Inr (Some [])
   \<and> fst (acl_cache_get memory_ops 1 ''doc'' ''a:b'' ''c'' empty_memory) = Inr None"
  by (intro conjI; code_simp)

end
