(* ===== verification/Repositories.thy ===== *)
theory Repositories
  imports Contracts "HOL-Library.Product_Lexorder"
begin

text \<open>
  The SQL repositories (\<open>infrastructure/repositories/tenants.py\<close>, \<open>relationships.py\<close>, \<open>acl.py\<close>,
  \<open>policies.py\<close>, \<open>audit.py\<close>). A table is the list of its rows in insertion order; a query is a
  filter and a stable sort by the columns of its \<open>ORDER BY\<close>; a violated unique constraint raises
  \<open>IntegrityError\<close> at the commit and leaves the tables as they were. The database hands out
  increasing ids. A page cursor is held as the document that \<open>encode_cursor\<close> encodes.
\<close>

section \<open>Tables\<close>

record relationship_row =
  rel_id :: int
  rel_tenant :: int
  rel_edge :: relationship_record

record policy_row =
  po_id :: int
  po_tenant :: int
  po_key :: string
  po_current :: int

record version_row =
  ve_id :: int
  ve_tenant :: int
  ve_policy :: int
  ve_version :: int
  ve_action :: string
  ve_effect :: string
  ve_priority :: int
  ve_conditions :: pydict
  ve_created_by :: "string option"
  ve_state :: string

record audit_row =
  au_id :: int
  au_tenant :: int
  au_principal_type :: string
  au_principal_id :: string
  au_correlation_id :: "string option"
  au_user :: pydict
  au_action :: string
  au_resource :: pydict
  au_decision :: string
  au_matched :: "string list"
  au_reason :: "string option"
  au_rules :: "pydict list"
  au_failed :: "string list"
  au_created_at :: string

record role_row =
  ro_id :: int
  ro_name :: string

record permission_row =
  pe_id :: int
  pe_action :: string

record user_row =
  us_id :: int
  us_external_id :: "string option"

record model_row =
  mo_id :: int
  mo_tenant :: int
  mo_schema_text :: string
  mo_schema_json :: pydict
  mo_compiled_json :: pydict

record idempotency_row =
  id_id :: int
  id_scope :: string
  id_key :: string
  id_request_hash :: string
  id_status_code :: "int option"
  id_body :: "string option"
  id_content_type :: "string option"

text \<open>
  \<open>user_roles\<close> and \<open>role_permissions\<close> are the two link tables, as pairs of ids. The clock is the ISO
  text of the time that the next insert sees; such texts are ordered as the times are.
\<close>

record database =
  db_next_id :: int
  db_clock :: string
  db_tenants :: "tenant_record list"
  db_relationships :: "relationship_row list"
  db_acl :: "acl_record list"
  db_policies :: "policy_row list"
  db_versions :: "version_row list"
  db_audit :: "audit_row list"
  db_users :: "user_row list"
  db_roles :: "role_row list"
  db_permissions :: "permission_row list"
  db_user_roles :: "(int \<times> int) list"
  db_role_permissions :: "(int \<times> int) list"
  db_models :: "model_row list"
  db_idempotency :: "idempotency_row list"

section \<open>Tenants\<close>

definition tenant_by_id :: "int \<Rightarrow> (database, tenant_record option) eff" where
  "tenant_by_id tenant_id db = (Inr (find (\<lambda>t. tr_id t = tenant_id) (db_tenants db)), db)"

definition new_tenant :: "int \<Rightarrow> string \<Rightarrow> tenant_record" where
  "new_tenant i key = \<lparr>tr_id = i, tr_key = key, tr_policy_version = 1, tr_revision = 1\<rparr>"

definition tenant_get_or_create :: "string \<Rightarrow> (database, tenant_record) eff" where
  "tenant_get_or_create tenant_key db = (case find (\<lambda>t. tr_key t = tenant_key) (db_tenants db) of
     Some t \<Rightarrow> (Inr t, db)
   | None \<Rightarrow> (let t = new_tenant (db_next_id db) tenant_key in
       (Inr t, db\<lparr>db_tenants := db_tenants db @ [t], db_next_id := db_next_id db + 1\<rparr>)))"

text \<open>Update the row with the tenant's id, and return it.\<close>

definition update_tenant :: "(tenant_record \<Rightarrow> tenant_record) \<Rightarrow> tenant_record \<Rightarrow> (database, tenant_record) eff" where
  "update_tenant f tenant db = (case find (\<lambda>t. tr_id t = tr_id tenant) (db_tenants db) of
     None \<Rightarrow> (Inl (ValueError ''tenant not found''), db)
   | Some t \<Rightarrow> (Inr (f t), db\<lparr>db_tenants := map (\<lambda>r. if tr_id r = tr_id tenant then f r else r) (db_tenants db)\<rparr>))"

definition tenant_bump_policy_version :: "tenant_record \<Rightarrow> (database, tenant_record) eff" where
  "tenant_bump_policy_version = update_tenant (\<lambda>t. t\<lparr>tr_policy_version := tr_policy_version t + 1\<rparr>)"

definition tenant_bump_revision :: "tenant_record \<Rightarrow> (database, tenant_record) eff" where
  "tenant_bump_revision = update_tenant (\<lambda>t. t\<lparr>tr_revision := tr_revision t + 1\<rparr>)"

section \<open>Relationships\<close>

definition subject_rows :: "database \<Rightarrow> int \<Rightarrow> string \<Rightarrow> string \<Rightarrow> relationship_row list" where
  "subject_rows db tenant_id subject_type subject_id = filter (\<lambda>r. rel_tenant r = tenant_id
     \<and> rr_subject_type (rel_edge r) = subject_type \<and> rr_subject_id (rel_edge r) = subject_id)
     (db_relationships db)"

definition subject_order :: "relationship_row \<Rightarrow> string \<times> string \<times> string \<times> int" where
  "subject_order r = (rr_relation (rel_edge r), rr_object_type (rel_edge r), rr_object_id (rel_edge r), rel_id r)"

definition list_for_subject :: "int \<Rightarrow> string \<Rightarrow> string \<Rightarrow> (database, relationship_record list) eff" where
  "list_for_subject tenant_id subject_type subject_id db =
     (Inr (map rel_edge (sort_key subject_order (subject_rows db tenant_id subject_type subject_id))), db)"

definition object_order :: "relationship_row \<Rightarrow> string \<times> string \<times> string \<times> int" where
  "object_order r = (rr_subject_type (rel_edge r), rr_subject_id (rel_edge r), rr_relation (rel_edge r), rel_id r)"

definition list_for_object :: "int \<Rightarrow> string \<Rightarrow> string \<Rightarrow> (database, relationship_record list) eff" where
  "list_for_object tenant_id object_type object_id db =
     (Inr (map rel_edge (sort_key object_order (filter (\<lambda>r. rel_tenant r = tenant_id
        \<and> rr_object_type (rel_edge r) = object_type \<and> rr_object_id (rel_edge r) = object_id)
        (db_relationships db)))), db)"

text \<open>The rows grouped by subject, a group (possibly empty) for every subject asked for.\<close>

definition list_for_subjects :: "int \<Rightarrow> string \<Rightarrow> string list
    \<Rightarrow> (database, (string \<times> relationship_record list) list) eff" where
  "list_for_subjects tenant_id subject_type subject_ids db =
     (let rows = sort_key (\<lambda>r. (rr_subject_id (rel_edge r), subject_order r))
            (filter (\<lambda>r. rel_tenant r = tenant_id \<and> rr_subject_type (rel_edge r) = subject_type
               \<and> rr_subject_id (rel_edge r) \<in> set subject_ids) (db_relationships db));
          grouped = foldl (\<lambda>d s. dset d s []) [] subject_ids
      in (Inr (if subject_ids = [] then []
               else foldl (\<lambda>d r. dset d (rr_subject_id (rel_edge r))
                      (dget_or d (rr_subject_id (rel_edge r)) [] @ [rel_edge r])) grouped rows), db))"

definition create_relationship_row :: "int \<Rightarrow> relationship_record \<Rightarrow> (database, int) eff" where
  "create_relationship_row tenant_id edge db =
     (if list_ex (\<lambda>r. rel_tenant r = tenant_id \<and> rel_edge r = edge) (db_relationships db)
      then (Inl (IntegrityError ''uq_relationships_tuple''), db)
      else (Inr (db_next_id db), db\<lparr>db_relationships := db_relationships db
              @ [\<lparr>rel_id = db_next_id db, rel_tenant = tenant_id, rel_edge = edge\<rparr>],
            db_next_id := db_next_id db + 1\<rparr>))"

section \<open>Access control lists\<close>

definition create_acl_entry :: "int \<Rightarrow> string \<Rightarrow> string \<Rightarrow> string \<Rightarrow> string \<Rightarrow> string \<Rightarrow> string \<Rightarrow> (database, int) eff"
where
  "create_acl_entry tenant_id subject_type subject_id resource_type resource_id action effect db =
     (Inr (db_next_id db), db\<lparr>db_acl := db_acl db @ [\<lparr>ar_id = db_next_id db, ar_tenant_id = tenant_id,
          ar_subject_type = subject_type, ar_subject_id = subject_id, ar_resource_type = resource_type,
          ar_resource_id = resource_id, ar_action = action, ar_effect = effect,
          ar_created_at = Some (db_clock db)\<rparr>],
        db_next_id := db_next_id db + 1\<rparr>)"

definition acl_about :: "int \<Rightarrow> string \<Rightarrow> string \<Rightarrow> acl_record \<Rightarrow> bool" where
  "acl_about tenant_id resource_type resource_id a = (ar_tenant_id a = tenant_id
     \<and> ar_resource_type a = resource_type \<and> ar_resource_id a = resource_id)"

definition list_resource_acl :: "int \<Rightarrow> string \<Rightarrow> string \<Rightarrow> (database, acl_record list) eff" where
  "list_resource_acl tenant_id resource_type resource_id db =
     (Inr (sort_key (\<lambda>a. (ar_action a, ar_id a)) (filter (acl_about tenant_id resource_type resource_id) (db_acl db))), db)"

definition get_acl_entry :: "int \<Rightarrow> int \<Rightarrow> (database, acl_record option) eff" where
  "get_acl_entry tenant_id acl_id db =
     (Inr (find (\<lambda>a. ar_tenant_id a = tenant_id \<and> ar_id a = acl_id) (db_acl db)), db)"

definition find_matching_acl :: "int \<Rightarrow> string \<Rightarrow> string \<Rightarrow> string \<Rightarrow> (database, acl_record list) eff" where
  "find_matching_acl tenant_id resource_type resource_id action db =
     (Inr (sort_key ar_id (filter (\<lambda>a. acl_about tenant_id resource_type resource_id a \<and> ar_action a = action)
        (db_acl db))), db)"

definition delete_acl_entry :: "int \<Rightarrow> int \<Rightarrow> (database, unit) eff" where
  "delete_acl_entry tenant_id acl_id db =
     (Inr (), db\<lparr>db_acl := filter (\<lambda>a. \<not> (ar_tenant_id a = tenant_id \<and> ar_id a = acl_id)) (db_acl db)\<rparr>)"

section \<open>Policies\<close>

text \<open>The current version of a policy: the join of the two tables.\<close>

definition current_of :: "database \<Rightarrow> int \<Rightarrow> version_row \<Rightarrow> policy_row option" where
  "current_of db tenant_id v = find (\<lambda>p. po_id p = ve_policy v \<and> po_tenant p = tenant_id
     \<and> ve_tenant v = tenant_id \<and> ve_version v = po_current p) (db_policies db)"

definition normalized_set :: "string \<Rightarrow> string" where
  "normalized_set policy_set = (let s = lower (strip (if policy_set = [] then ''active'' else policy_set)) in
     if s \<in> {''draft'', ''archived'', ''active''} then s else ''active'')"

definition version_order :: "version_row \<Rightarrow> int \<times> int" where
  "version_order v = (ve_priority v, ve_id v)"

definition current_policy_rows :: "database \<Rightarrow> int \<Rightarrow> string \<Rightarrow> (version_row \<times> policy_row) list" where
  "current_policy_rows db tenant_id policy_set =
     concat (map (\<lambda>v. case current_of db tenant_id v of None \<Rightarrow> [] | Some p \<Rightarrow> [(v, p)])
       (sort_key version_order (filter (\<lambda>v. ve_state v = normalized_set policy_set) (db_versions db))))"

definition version_policy_id :: "policy_row \<Rightarrow> version_row \<Rightarrow> string" where
  "version_policy_id p v = po_key p @ '':v'' @ int_str (ve_version v)"

definition policy_of_rows :: "version_row \<times> policy_row \<Rightarrow> policy_record" where
  "policy_of_rows r = (case r of (v, p) \<Rightarrow>
     \<lparr>pr_id = ve_id v, pr_definition =
        \<lparr>pd_action = ve_action v, pd_effect = (if ve_effect v = ''allow'' then Allow else Deny),
         pd_conditions = ve_conditions v, pd_priority = ve_priority v,
         pd_policy_id = Some (version_policy_id p v)\<rparr>\<rparr>)"

definition list_current_policies :: "int \<Rightarrow> string \<Rightarrow> (database, policy_record list) eff" where
  "list_current_policies tenant_id policy_set db =
     (Inr (map policy_of_rows (current_policy_rows db tenant_id policy_set)), db)"

definition view_of_rows :: "version_row \<times> policy_row \<Rightarrow> policy_view" where
  "view_of_rows r = (case r of (v, p) \<Rightarrow>
     \<lparr>pv_id = ve_id v, pv_action = ve_action v, pv_effect = ve_effect v, pv_priority = ve_priority v,
      pv_conditions = dunion (ve_conditions v) [(''policy_key'', PStr (po_key p)), (''version'', PInt (ve_version v))],
      pv_state = ve_state v\<rparr>)"

definition list_current_policy_views :: "int \<Rightarrow> string \<Rightarrow> (database, policy_view list) eff" where
  "list_current_policy_views tenant_id policy_set db =
     (Inr (map view_of_rows (current_policy_rows db tenant_id policy_set)), db)"

definition find_policy :: "database \<Rightarrow> int \<Rightarrow> string \<Rightarrow> policy_row option" where
  "find_policy db tenant_id policy_key =
     find (\<lambda>p. po_tenant p = tenant_id \<and> po_key p = policy_key) (db_policies db)"

definition set_current :: "int \<Rightarrow> int \<Rightarrow> policy_row list \<Rightarrow> policy_row list" where
  "set_current policy_id version ps = map (\<lambda>p. if po_id p = policy_id then p\<lparr>po_current := version\<rparr> else p) ps"

definition view_of_version :: "version_row \<Rightarrow> policy_view" where
  "view_of_version v = \<lparr>pv_id = ve_id v, pv_action = ve_action v, pv_effect = ve_effect v,
     pv_priority = ve_priority v, pv_conditions = ve_conditions v, pv_state = ve_state v\<rparr>"

definition create_policy_version :: "int \<Rightarrow> string \<Rightarrow> string \<Rightarrow> string \<Rightarrow> int \<Rightarrow> pydict \<Rightarrow> string option \<Rightarrow> string
    \<Rightarrow> (database, policy_view) eff" where
  "create_policy_version tenant_id policy_key action effect priority conditions created_by state db =
     (let (policy_id, next_version, policies, next_id) = (case find_policy db tenant_id policy_key of
            None \<Rightarrow> (db_next_id db, 1, db_policies db @ [\<lparr>po_id = db_next_id db, po_tenant = tenant_id,
                       po_key = policy_key, po_current = 1\<rparr>], db_next_id db + 1)
          | Some p \<Rightarrow> (po_id p, po_current p + 1, set_current (po_id p) (po_current p + 1) (db_policies db),
                       db_next_id db));
          row = \<lparr>ve_id = next_id, ve_tenant = tenant_id, ve_policy = policy_id, ve_version = next_version,
                 ve_action = action, ve_effect = effect, ve_priority = priority, ve_conditions = conditions,
                 ve_created_by = created_by, ve_state = state\<rparr>
      in if list_ex (\<lambda>v. ve_policy v = policy_id \<and> ve_version v = next_version) (db_versions db)
         then (Inl (IntegrityError ''uq_policy_versions_policy_version''), db)
         else (Inr (view_of_version row), db\<lparr>db_policies := policies, db_versions := db_versions db @ [row],
                 db_next_id := next_id + 1\<rparr>))"

definition rollback_policy_row :: "int \<Rightarrow> string \<Rightarrow> int \<Rightarrow> (database, string \<times> int) eff" where
  "rollback_policy_row tenant_id policy_key version db = (case find_policy db tenant_id policy_key of
     None \<Rightarrow> (Inl (ValueError ''policy not found''), db)
   | Some p \<Rightarrow>
       if list_ex (\<lambda>v. ve_tenant v = tenant_id \<and> ve_policy v = po_id p \<and> ve_version v = version) (db_versions db)
       then (Inr (po_key p, version), db\<lparr>db_policies := set_current (po_id p) version (db_policies db)\<rparr>)
       else (Inl (ValueError ''version not found''), db))"

definition delete_policy_rows :: "int \<Rightarrow> string \<Rightarrow> (database, unit) eff" where
  "delete_policy_rows tenant_id policy_key db = (case find_policy db tenant_id policy_key of
     None \<Rightarrow> (Inr (), db)
   | Some p \<Rightarrow> (Inr (), db\<lparr>
       db_versions := filter (\<lambda>v. \<not> (ve_tenant v = tenant_id \<and> ve_policy v = po_id p)) (db_versions db),
       db_policies := filter (\<lambda>q. po_id q \<noteq> po_id p) (db_policies db)\<rparr>))"

section \<open>Audit\<close>

definition audit_write :: "int \<Rightarrow> string \<Rightarrow> string \<Rightarrow> authorization_input \<Rightarrow> authorization_decision \<Rightarrow> string option
    \<Rightarrow> (database, unit) eff" where
  "audit_write tenant_id principal_type principal_id inp d correlation_id db =
     (Inr (), db\<lparr>db_audit := db_audit db @ [\<lparr>au_id = db_next_id db, au_tenant = tenant_id,
        au_principal_type = principal_type, au_principal_id = principal_id, au_correlation_id = correlation_id,
        au_user = in_user inp, au_action = in_action inp, au_resource = in_resource inp,
        au_decision = upper_ascii (decision_text (ad_decision d)), au_matched = ad_matched_policies d,
        au_reason = ad_reason d, au_rules = map step_to_dict (ad_explain_trace d),
        au_failed = ad_failed_conditions d, au_created_at = db_clock db\<rparr>],
        db_next_id := db_next_id db + 1\<rparr>)"

section \<open>Pages\<close>

definition cursor_field :: "pydict \<Rightarrow> string \<Rightarrow> pyval result" where
  "cursor_field cursor k = (case dget cursor k of None \<Rightarrow> Inl (KeyError (quoted k)) | Some v \<Rightarrow> Inr v)"

definition cursor_text :: "pydict \<Rightarrow> string \<Rightarrow> string result" where
  "cursor_text cursor k = ebind (cursor_field cursor k) (\<lambda>v. Inr (py_str v))"

definition cursor_int :: "pydict \<Rightarrow> string \<Rightarrow> int result" where
  "cursor_int cursor k = ebind (cursor_field cursor k) py_int"

text \<open>The rows of a page and whether there are more: \<open>LIMIT limit + 1\<close>.\<close>

definition page_of :: "nat \<Rightarrow> 'r list \<Rightarrow> 'r list \<times> bool" where
  "page_of limit rows = (take limit (take (limit + 1) rows), length (take (limit + 1) rows) > limit)"

definition after_subject_cursor :: "pydict \<Rightarrow> (relationship_row \<Rightarrow> bool) result" where
  "after_subject_cursor c =
     ebind (cursor_text c ''relation'') (\<lambda>rel. ebind (cursor_text c ''object_type'') (\<lambda>ot.
     ebind (cursor_text c ''object_id'') (\<lambda>oid. ebind (cursor_int c ''id'') (\<lambda>i.
       Inr (\<lambda>r. rr_relation (rel_edge r) > rel
         \<or> (rr_relation (rel_edge r) = rel \<and> rr_object_type (rel_edge r) > ot)
         \<or> (rr_relation (rel_edge r) = rel \<and> rr_object_type (rel_edge r) = ot \<and> rr_object_id (rel_edge r) > oid)
         \<or> (rr_relation (rel_edge r) = rel \<and> rr_object_type (rel_edge r) = ot \<and> rr_object_id (rel_edge r) = oid
            \<and> rel_id r > i))))))"

definition subject_cursor :: "relationship_row \<Rightarrow> pydict" where
  "subject_cursor r = [(''relation'', PStr (rr_relation (rel_edge r))),
     (''object_type'', PStr (rr_object_type (rel_edge r))), (''object_id'', PStr (rr_object_id (rel_edge r))),
     (''id'', PInt (rel_id r))]"

definition list_for_subject_page :: "int \<Rightarrow> string \<Rightarrow> string \<Rightarrow> nat \<Rightarrow> pydict option
    \<Rightarrow> (database, relationship_record list \<times> pydict option) eff" where
  "list_for_subject_page tenant_id subject_type subject_id limit cursor db =
     (ebind (case cursor of None \<Rightarrow> Inr (\<lambda>r. True) | Some c \<Rightarrow> after_subject_cursor c) (\<lambda>wanted.
        let (page, has_next) = page_of limit (sort_key subject_order
              (filter wanted (subject_rows db tenant_id subject_type subject_id)))
        in Inr (map rel_edge page, if has_next \<and> page \<noteq> [] then Some (subject_cursor (last page)) else None)), db)"

definition after_policy_cursor :: "pydict \<Rightarrow> (version_row \<Rightarrow> bool) result" where
  "after_policy_cursor c = ebind (cursor_int c ''priority'') (\<lambda>priority. ebind (cursor_int c ''id'') (\<lambda>i.
     Inr (\<lambda>v. ve_priority v > priority \<or> (ve_priority v = priority \<and> ve_id v > i))))"

definition list_current_policy_page :: "int \<Rightarrow> nat \<Rightarrow> pydict option
    \<Rightarrow> (database, policy_view list \<times> pydict option) eff" where
  "list_current_policy_page tenant_id limit cursor db =
     (ebind (case cursor of None \<Rightarrow> Inr (\<lambda>v. True) | Some c \<Rightarrow> after_policy_cursor c) (\<lambda>wanted.
        let (page, has_next) = page_of limit (concat (map (\<lambda>v. case current_of db tenant_id v of
                 None \<Rightarrow> [] | Some p \<Rightarrow> [(v, p)]) (sort_key version_order (filter wanted (db_versions db)))))
        in Inr (map view_of_rows page, if has_next \<and> page \<noteq> []
             then Some [(''priority'', PInt (ve_priority (fst (last page)))), (''id'', PInt (ve_id (fst (last page))))]
             else None)), db)"

section \<open>Reading all pages\<close>

text \<open>A client that follows the cursors from the first page on and joins the items.\<close>

fun subject_pages :: "nat \<Rightarrow> int \<Rightarrow> string \<Rightarrow> string \<Rightarrow> nat \<Rightarrow> pydict option \<Rightarrow> database \<Rightarrow> relationship_record list option"
where
  "subject_pages 0 tid st sid limit cursor db = None"
| "subject_pages (Suc n) tid st sid limit cursor db =
     (case fst (list_for_subject_page tid st sid limit cursor db) of
        Inl e \<Rightarrow> None
      | Inr (items, None) \<Rightarrow> Some items
      | Inr (items, Some c) \<Rightarrow> map_option (\<lambda>rest. items @ rest) (subject_pages n tid st sid limit (Some c) db))"

lemma filter_after:
  fixes key :: "'a \<Rightarrow> 'k :: linorder"
  assumes "sorted_wrt (\<lambda>a b. key a < key b) (xs @ y # ys)"
  shows "filter (\<lambda>x. key x > key y) (xs @ y # ys) = ys"
proof -
  have "filter (\<lambda>x. key x > key y) xs = []" "filter (\<lambda>x. key x > key y) ys = ys"
    using assms by (auto simp: sorted_wrt_append filter_empty_conv filter_id_conv dest: order.asym)
  then show ?thesis by simp
qed

lemma strictly_sorted:
  assumes "inj_on key (set xs)" "distinct xs"
  shows "sorted_wrt (\<lambda>a b. key a < (key b :: 'k :: linorder)) (sort_key key xs)"
proof -
  have "sorted (map key (sort_key key xs))" "distinct (map key (sort_key key xs))"
    using assms by (simp_all add: distinct_map)
  then have "sorted_wrt (<) (map key (sort_key key xs))" by (simp add: strict_sorted_iff)
  then show ?thesis by (simp add: sorted_wrt_map)
qed

lemma after_subject_cursor_row:
  "after_subject_cursor (subject_cursor r) = Inr (\<lambda>x. subject_order x > subject_order r)"
  by (auto simp: after_subject_cursor_def subject_cursor_def cursor_text_def cursor_int_def cursor_field_def
      subject_order_def less_prod_def fun_eq_iff)

lemma page_of_simps:
  "page_of limit rows = (take limit rows, length rows > limit)"
  by (auto simp: page_of_def min_def)

lemma subject_pages_from:
  assumes "sorted_wrt (\<lambda>a b. subject_order a < subject_order b) (pre @ rest)"
    and "sort_key subject_order (subject_rows db tid st sid) = pre @ rest"
    and "0 < limit" "length rest < n"
    and "cursor = (if pre = [] then None else Some (subject_cursor (last pre)))"
  shows "subject_pages n tid st sid limit cursor db = Some (map rel_edge rest)"
  using assms
proof (induction n arbitrary: pre rest cursor)
  case (Suc n)
  have rows: "(case cursor of None \<Rightarrow> Inr (\<lambda>r. True) | Some c \<Rightarrow> after_subject_cursor c)
      = Inr (\<lambda>x. pre = [] \<or> subject_order x > subject_order (last pre))"
    using Suc.prems(5) by (simp add: after_subject_cursor_row)
  have "filter (\<lambda>x. pre = [] \<or> subject_order x > subject_order (last pre)) (pre @ rest) = rest"
  proof (cases pre rule: rev_cases)
    case (snoc ys y)
    then show ?thesis using filter_after [of subject_order ys y rest] Suc.prems(1) by simp
  qed simp
  then have page: "sort_key subject_order (filter (\<lambda>x. pre = [] \<or> subject_order x > subject_order (last pre))
      (subject_rows db tid st sid)) = rest"
    using Suc.prems(2) by (metis filter_sort)
  then have len: "length (filter (\<lambda>x. pre = [] \<or> subject_order x > subject_order (last pre))
      (subject_rows db tid st sid)) = length rest" by (metis length_sort)
  show ?case
  proof (cases "length rest > limit")
    case False
    then show ?thesis by (simp add: list_for_subject_page_def rows page page_of_simps len)
  next
    case True
    let ?pre = "pre @ take limit rest" and ?rest = "drop limit rest"
    have ne: "take limit rest \<noteq> []" using True Suc.prems(3) by auto
    have "subject_pages n tid st sid limit (Some (subject_cursor (last (take limit rest)))) db
        = Some (map rel_edge ?rest)"
      using Suc.prems True ne by (intro Suc.IH [of ?pre]) auto
    then have "subject_pages (Suc n) tid st sid limit cursor db
        = Some (map rel_edge (take limit rest) @ map rel_edge (drop limit rest))"
      using True ne by (simp add: list_for_subject_page_def rows page page_of_simps len)
    then show ?thesis by (simp flip: map_append)
  qed
qed simp

text \<open>
  Cursor pagination is complete: following the cursors from the first page, with any positive page
  size, ends and gives every relationship of the subject exactly once, in the order of the unpaged query.
\<close>

lemma pagination_complete:
  assumes "distinct (map rel_id (db_relationships db))" "0 < limit"
  shows "Some (subject_pages (length (subject_rows db tid st sid) + 1) tid st sid limit None db)
    = (case fst (list_for_subject tid st sid db) of Inl e \<Rightarrow> None | Inr edges \<Rightarrow> Some (Some edges))"
proof -
  let ?rows = "subject_rows db tid st sid"
  have "distinct (map rel_id ?rows)"
    using assms(1) by (simp add: subject_rows_def distinct_map inj_on_def)
  then have "distinct ?rows" "inj_on subject_order (set ?rows)"
    by (auto simp: distinct_map inj_on_def subject_order_def)
  then have "sorted_wrt (\<lambda>a b. subject_order a < subject_order b) ([] @ sort_key subject_order ?rows)"
    using strictly_sorted by simp
  then have "subject_pages (length ?rows + 1) tid st sid limit None db
      = Some (map rel_edge (sort_key subject_order ?rows))"
    using assms(2) by (intro subject_pages_from [of "[]"]) simp_all
  then show ?thesis by (simp add: list_for_subject_def)
qed

definition empty_database :: database where
  "empty_database = \<lparr>db_next_id = 1, db_clock = ''2024-01-01T00:00:00'', db_tenants = [], db_relationships = [],
     db_acl = [], db_policies = [], db_versions = [], db_audit = [],
     db_users = [], db_roles = [], db_permissions = [], db_user_roles = [], db_role_permissions = [],
     db_models = [], db_idempotency = []\<rparr>"

definition demo_edge :: "string \<Rightarrow> relationship_record" where
  "demo_edge oid = \<lparr>rr_subject_type = ''user'', rr_subject_id = ''7'', rr_relation = ''viewer'',
     rr_object_type = ''doc'', rr_object_id = oid\<rparr>"

definition three_edges :: database where
  "three_edges = empty_database\<lparr>db_relationships := [
     \<lparr>rel_id = 1, rel_tenant = 1, rel_edge = demo_edge ''c''\<rparr>,
     \<lparr>rel_id = 2, rel_tenant = 1, rel_edge = demo_edge ''a''\<rparr>,
     \<lparr>rel_id = 3, rel_tenant = 1, rel_edge = demo_edge ''b''\<rparr>]\<rparr>"

lemma pagination_complete_example:
  "subject_pages 4 1 ''user'' ''7'' 2 None three_edges = Some [demo_edge ''a'', demo_edge ''b'', demo_edge ''c'']"
proof -
  have "distinct (map rel_id (db_relationships three_edges))" by code_simp
  moreover have "length (subject_rows three_edges 1 ''user'' ''7'') + 1 = 4"
    by (simp add: three_edges_def empty_database_def demo_edge_def subject_rows_def)
  moreover have "fst (list_for_subject 1 ''user'' ''7'' three_edges)
      = Inr [demo_edge ''a'', demo_edge ''b'', demo_edge ''c'']" by code_simp
  ultimately show ?thesis
    using pagination_complete [of three_edges 2 1 "''user''" "''7''"] by simp
qed

section \<open>Policy tables\<close>

text \<open>The primary keys and unique constraints of the two tables, and that ids were handed out before.\<close>

definition wf_policies :: "database \<Rightarrow> bool" where
  "wf_policies db = (distinct (map po_id (db_policies db))
     \<and> distinct (map (\<lambda>p. (po_tenant p, po_key p)) (db_policies db))
     \<and> distinct (map ve_id (db_versions db))
     \<and> distinct (map (\<lambda>v. (ve_policy v, ve_version v)) (db_versions db))
     \<and> (\<forall>p \<in> set (db_policies db). po_id p < db_next_id db)
     \<and> (\<forall>v \<in> set (db_versions db). ve_id v < db_next_id db))"

lemma set_current_maps [simp]:
  "map po_id (set_current i v ps) = map po_id ps"
  "map (\<lambda>p. (po_tenant p, po_key p)) (set_current i v ps) = map (\<lambda>p. (po_tenant p, po_key p)) ps"
  by (induction ps) (simp_all add: set_current_def)

lemma set_current_ids: "p \<in> set (set_current i v ps) \<Longrightarrow> \<exists>q \<in> set ps. po_id p = po_id q"
  by (auto simp: set_current_def)

lemma find_policy_Some:
  "find_policy db t k = Some p \<Longrightarrow> p \<in> set (db_policies db) \<and> po_tenant p = t \<and> po_key p = k"
  by (auto simp: find_policy_def find_Some_iff)

lemma find_policy_None:
  "find_policy db t k = None \<Longrightarrow> p \<in> set (db_policies db) \<Longrightarrow> (po_tenant p, po_key p) \<noteq> (t, k)"
  by (auto simp: find_policy_def find_None_iff)

text \<open>A successful \<open>create_policy_version\<close>, spelled out.\<close>

lemma create_cases:
  assumes "create_policy_version t k a e pr co cb st db = (Inr view, db')"
  obtains (new) "find_policy db t k = None"
      "db_policies db' = db_policies db @ [\<lparr>po_id = db_next_id db, po_tenant = t, po_key = k, po_current = 1\<rparr>]"
      "db_versions db' = db_versions db @ [\<lparr>ve_id = db_next_id db + 1, ve_tenant = t, ve_policy = db_next_id db,
         ve_version = 1, ve_action = a, ve_effect = e, ve_priority = pr, ve_conditions = co, ve_created_by = cb,
         ve_state = st\<rparr>]"
      "\<forall>v \<in> set (db_versions db). (ve_policy v, ve_version v) \<noteq> (db_next_id db, 1)"
      "db_next_id db' = db_next_id db + 2"
  | (next_version) p where "find_policy db t k = Some p"
      "db_policies db' = set_current (po_id p) (po_current p + 1) (db_policies db)"
      "db_versions db' = db_versions db @ [\<lparr>ve_id = db_next_id db, ve_tenant = t, ve_policy = po_id p,
         ve_version = po_current p + 1, ve_action = a, ve_effect = e, ve_priority = pr, ve_conditions = co,
         ve_created_by = cb, ve_state = st\<rparr>]"
      "\<forall>v \<in> set (db_versions db). (ve_policy v, ve_version v) \<noteq> (po_id p, po_current p + 1)"
      "db_next_id db' = db_next_id db + 1"
  using assms
  by (cases "find_policy db t k")
    (auto simp: create_policy_version_def Let_def list_ex_iff split: if_splits)

lemma create_wf:
  assumes "wf_policies db" "create_policy_version t k a e pr co cb st db = (Inr view, db')"
  shows "wf_policies db'"
  using assms(2)
proof (cases rule: create_cases)
  case new
  have "po_id p \<noteq> db_next_id db" if "p \<in> set (db_policies db)" for p
    using assms(1) that by (force simp: wf_policies_def)
  moreover have "ve_id v < db_next_id db" if "v \<in> set (db_versions db)" for v
    using assms(1) that by (simp add: wf_policies_def)
  ultimately show ?thesis
    using assms(1) new find_policy_None [OF new(1)] by (fastforce simp: wf_policies_def)
next
  case (next_version p)
  have "ve_id v < db_next_id db" if "v \<in> set (db_versions db)" for v
    using assms(1) that by (simp add: wf_policies_def)
  moreover have "po_id q < db_next_id db + 1"
    if "q \<in> set (set_current (po_id p) (po_current p + 1) (db_policies db))" for q
    using assms(1) set_current_ids [OF that] by (force simp: wf_policies_def)
  ultimately show ?thesis using assms(1) next_version by (fastforce simp: wf_policies_def)
qed

lemma create_error: "create_policy_version t k a e pr co cb st db = (Inl x, db') \<Longrightarrow> db' = db"
  by (auto simp: create_policy_version_def Let_def split: if_splits option.splits)

lemma rollback_wf: "wf_policies db \<Longrightarrow> wf_policies (snd (rollback_policy_row t k version db))"
  by (auto simp: rollback_policy_row_def wf_policies_def split: option.splits dest!: set_current_ids)

lemma delete_wf: "wf_policies db \<Longrightarrow> wf_policies (snd (delete_policy_rows t k db))"
  by (auto simp: delete_policy_rows_def wf_policies_def distinct_map_filter split: option.splits)

datatype policy_table_op =
    CreateVersion int string string string int pydict "string option" string
  | RollbackPolicy int string int
  | DeletePolicy int string

fun policy_table_step :: "database \<Rightarrow> policy_table_op \<Rightarrow> database" where
  "policy_table_step db (CreateVersion t k a e pr co cb st) = snd (create_policy_version t k a e pr co cb st db)"
| "policy_table_step db (RollbackPolicy t k version) = snd (rollback_policy_row t k version db)"
| "policy_table_step db (DeletePolicy t k) = snd (delete_policy_rows t k db)"

lemma policy_table_step_wf: "wf_policies db \<Longrightarrow> wf_policies (policy_table_step db op)"
proof (cases op)
  case (CreateVersion t k a e pr co cb st)
  assume "wf_policies db"
  then show ?thesis
    using CreateVersion create_wf [of db t k a e pr co cb st] create_error [of t k a e pr co cb st db]
    by (cases "create_policy_version t k a e pr co cb st db"; cases "fst (create_policy_version t k a e pr co cb st db)")
      auto
qed (simp_all add: rollback_wf delete_wf)

text \<open>
  The tables stay well formed under every sequence of policy writes, failing ones included: ids,
  the key of a policy within its tenant and the version numbers within a policy are unique.
\<close>

lemma policy_tables_invariant:
  "wf_policies (foldl policy_table_step empty_database ops)"
proof (induction ops rule: rev_induct)
  case Nil
  show ?case by (simp add: wf_policies_def empty_database_def)
qed (simp add: policy_table_step_wf)

section \<open>Current policies\<close>

lemma current_rows_eq:
  "current_policy_rows db t s = map (\<lambda>v. (v, the (current_of db t v)))
     (sort_key version_order (filter (\<lambda>v. ve_state v = normalized_set s \<and> current_of db t v \<noteq> None) (db_versions db)))"
proof -
  have f: "concat (map (\<lambda>v. case current_of db t v of None \<Rightarrow> [] | Some p \<Rightarrow> [(v, p)]) vs)
      = map (\<lambda>v. (v, the (current_of db t v))) (filter (\<lambda>v. current_of db t v \<noteq> None) vs)" for vs
    by (induction vs) (auto split: option.splits)
  show ?thesis
    by (simp add: current_policy_rows_def f filter_sort)
qed

lemma current_rows_cong:
  assumes "filter (\<lambda>v. current_of db' t v \<noteq> None) (db_versions db') = filter (\<lambda>v. current_of db t v \<noteq> None) (db_versions db)"
    and "\<And>v. v \<in> set (db_versions db) \<Longrightarrow> current_of db t v \<noteq> None \<Longrightarrow> current_of db' t v = current_of db t v"
  shows "current_policy_rows db' t s = current_policy_rows db t s"
proof -
  have f: "filter (\<lambda>v. ve_state v = normalized_set s \<and> current_of d t v \<noteq> None) vs
      = filter (\<lambda>v. ve_state v = normalized_set s) (filter (\<lambda>v. current_of d t v \<noteq> None) vs)" for d vs
    by (induction vs) auto
  show ?thesis
    unfolding current_rows_eq f assms(1) using assms(2) by (auto intro!: map_cong)
qed

lemma current_of_other_tenant: "ve_tenant v \<noteq> t \<Longrightarrow> current_of db t v = None"
  by (auto simp: current_of_def find_None_iff)

lemma find_append_other: "\<not> P x \<Longrightarrow> find P (xs @ [x]) = find P xs"
  by (induction xs) auto

lemma find_set_current:
  "\<forall>p \<in> set ps. po_id p = i \<longrightarrow> po_tenant p \<noteq> t \<Longrightarrow>
   find (\<lambda>p. po_id p = j \<and> po_tenant p = t \<and> b \<and> w = po_current p) (set_current i v ps)
   = find (\<lambda>p. po_id p = j \<and> po_tenant p = t \<and> b \<and> w = po_current p) ps"
  by (induction ps) (auto simp: set_current_def)

lemma set_current_isolated:
  assumes "wf_policies db" "find_policy db t k = Some p" "t' \<noteq> t" "db_policies db' = set_current (po_id p) n (db_policies db)"
  shows "current_of db' t' v = current_of db t' v"
proof -
  have "\<forall>q \<in> set (db_policies db). po_id q = po_id p \<longrightarrow> po_tenant q \<noteq> t'"
    using assms(1,3) find_policy_Some [OF assms(2)] by (auto simp: wf_policies_def distinct_map inj_on_def)
  then show ?thesis unfolding current_of_def assms(4) by (rule find_set_current)
qed

lemma create_isolated:
  assumes "wf_policies db" "create_policy_version t k a e pr co cb st db = (Inr view, db')" "t' \<noteq> t"
  shows "current_policy_rows db' t' s = current_policy_rows db t' s"
  using assms(2)
proof (cases rule: create_cases)
  case new
  have "current_of db' t' v = current_of db t' v" for v
    unfolding current_of_def new(2) using assms(3) by (intro find_append_other) simp
  then show ?thesis
    by (intro current_rows_cong) (simp_all add: new(3) current_of_other_tenant assms(3) [symmetric])
next
  case (next_version p)
  have "current_of db' t' v = current_of db t' v" for v
    using set_current_isolated [OF assms(1) next_version(1) assms(3) next_version(2)] .
  then show ?thesis
    by (intro current_rows_cong) (simp_all add: next_version(3) current_of_other_tenant assms(3) [symmetric])
qed

lemma find_filter_other:
  "\<forall>x \<in> set xs. P x \<longrightarrow> Q x \<Longrightarrow> find P (filter Q xs) = find P xs"
  by (induction xs) auto

lemma filter_filter_other:
  "\<forall>x \<in> set xs. P x \<longrightarrow> Q x \<Longrightarrow> filter P (filter Q xs) = filter P xs"
  by (induction xs) auto

lemma step_isolated:
  assumes "wf_policies db" and "case op of CreateVersion t _ _ _ _ _ _ _ \<Rightarrow> t \<noteq> t' | RollbackPolicy t _ _ \<Rightarrow> t \<noteq> t'
     | DeletePolicy t _ \<Rightarrow> t \<noteq> t'"
  shows "current_policy_rows (policy_table_step db op) t' s = current_policy_rows db t' s"
proof (cases op)
  case (CreateVersion t k a e pr co cb st)
  then show ?thesis
    using assms create_isolated [OF assms(1), of t k a e pr co cb st] create_error [of t k a e pr co cb st db]
    by (cases "create_policy_version t k a e pr co cb st db"; cases "fst (create_policy_version t k a e pr co cb st db)")
      auto
next
  case (RollbackPolicy t k version)
  show ?thesis
  proof (cases "find_policy db t k")
    case (Some p)
    have "current_of (db\<lparr>db_policies := set_current (po_id p) version (db_policies db)\<rparr>) t' v = current_of db t' v" for v
      using assms RollbackPolicy by (intro set_current_isolated [OF assms(1) Some]) auto
    then show ?thesis
      using RollbackPolicy Some by (auto simp: rollback_policy_row_def intro!: current_rows_cong)
  qed (simp add: RollbackPolicy rollback_policy_row_def)
next
  case (DeletePolicy t k)
  show ?thesis
  proof (cases "find_policy db t k")
    case (Some p)
    let ?db = "snd (delete_policy_rows t k db)"
    have "\<forall>q \<in> set (db_policies db). po_id q = po_id p \<longrightarrow> po_tenant q \<noteq> t'"
      using assms DeletePolicy find_policy_Some [OF Some] by (auto simp: wf_policies_def distinct_map inj_on_def)
    then have c: "current_of ?db t' v = current_of db t' v" for v
      unfolding current_of_def using Some by (simp add: delete_policy_rows_def) (rule find_filter_other, auto)
    have "filter (\<lambda>v. current_of db t' v \<noteq> None) (db_versions ?db) = filter (\<lambda>v. current_of db t' v \<noteq> None) (db_versions db)"
    proof -
      have "t \<noteq> t'" using assms(2) DeletePolicy by simp
      then have q: "\<forall>v \<in> set (db_versions db). current_of db t' v \<noteq> None
          \<longrightarrow> \<not> (ve_tenant v = t \<and> ve_policy v = po_id p)"
      proof (intro ballI impI notI)
        fix v assume c: "current_of db t' v \<noteq> None" "ve_tenant v = t \<and> ve_policy v = po_id p"
        then have "ve_tenant v \<noteq> t'" using \<open>t \<noteq> t'\<close> by simp
        then show False using current_of_other_tenant [of v t' db] c(1) by simp
      qed
      have v: "db_versions ?db
          = filter (\<lambda>v. \<not> (ve_tenant v = t \<and> ve_policy v = po_id p)) (db_versions db)"
        by (simp add: delete_policy_rows_def Some)
      show ?thesis unfolding v by (rule filter_filter_other [OF q])
    qed
    then have "current_policy_rows ?db t' s = current_policy_rows db t' s"
      by (intro current_rows_cong c) (simp only: c)
    then show ?thesis by (simp add: DeletePolicy)
  qed (simp add: DeletePolicy delete_policy_rows_def)
qed

text \<open>The tenant a policy write is made for.\<close>

fun op_tenant :: "policy_table_op \<Rightarrow> int" where
  "op_tenant (CreateVersion t k a e pr co cb st) = t"
| "op_tenant (RollbackPolicy t k version) = t"
| "op_tenant (DeletePolicy t k) = t"

lemma step_isolated_tenant:
  "wf_policies db \<Longrightarrow> op_tenant op \<noteq> t' \<Longrightarrow> current_policy_rows (policy_table_step db op) t' s = current_policy_rows db t' s"
  by (rule step_isolated) (cases op; simp)+

text \<open>
  Tenants are isolated: whatever writes other tenants make to their policies, after any history,
  the current policies of a tenant are unchanged, in every policy set.
\<close>

lemma policy_tenants_isolated:
  assumes "\<forall>op \<in> set ops. op_tenant op \<noteq> t"
  shows "fst (list_current_policies t s (foldl policy_table_step (foldl policy_table_step empty_database history) ops))
    = fst (list_current_policies t s (foldl policy_table_step empty_database history))"
proof -
  let ?db = "foldl policy_table_step empty_database history"
  have "wf_policies (foldl policy_table_step ?db ops)
      \<and> current_policy_rows (foldl policy_table_step ?db ops) t s = current_policy_rows ?db t s"
    using assms
  proof (induction ops rule: rev_induct)
    case Nil
    have "wf_policies ?db"
      by (induction history rule: rev_induct)
        (simp_all add: policy_table_step_wf, simp add: wf_policies_def empty_database_def)
    then show ?case by simp
  qed (simp add: policy_table_step_wf step_isolated_tenant)
  then show ?thesis by (simp add: list_current_policies_def)
qed

lemma policy_tenants_isolated_example:
  "fst (list_current_policies 1 ''active'' (foldl policy_table_step
      (foldl policy_table_step empty_database [CreateVersion 1 ''p'' ''read'' ''allow'' 10 [] None ''active''])
      [CreateVersion 2 ''p'' ''read'' ''deny'' 1 [] None ''active'', DeletePolicy 2 ''p'']))
   = Inr [\<lparr>pr_id = 2, pr_definition = \<lparr>pd_action = ''read'', pd_effect = Allow, pd_conditions = [],
       pd_priority = 10, pd_policy_id = Some ''p:v1''\<rparr>\<rparr>]"
proof -
  have "fst (list_current_policies 1 ''active''
      (foldl policy_table_step empty_database [CreateVersion 1 ''p'' ''read'' ''allow'' 10 [] None ''active'']))
    = Inr [\<lparr>pr_id = 2, pr_definition = \<lparr>pd_action = ''read'', pd_effect = Allow, pd_conditions = [],
       pd_priority = 10, pd_policy_id = Some ''p:v1''\<rparr>\<rparr>]" by code_simp
  then show ?thesis
    using policy_tenants_isolated [of "[CreateVersion 2 ''p'' ''read'' ''deny'' 1 [] None ''active'', DeletePolicy 2 ''p'']" 1
        "''active''" "[CreateVersion 1 ''p'' ''read'' ''allow'' 10 [] None ''active'']"] by simp
qed

text \<open>
  After a rollback no new version can be created: once a policy has been rolled back to an
  earlier version, the next version number is taken, so every further \<open>create_policy_version\<close> for the
  key raises \<open>IntegrityError\<close> and changes nothing.
\<close>

lemma create_blocked_after_rollback:
  assumes "find_policy db t k = Some p"
    and "create_policy_version t k a e pr co cb st db = (Inr view, db1)"
    and "rollback_policy_row t k (po_current p) db1 = (Inr r, db2)"
  shows "create_policy_version t k a' e' pr' co' cb' st' db2
    = (Inl (IntegrityError ''uq_policy_versions_policy_version''), db2)"
  using assms(2)
proof (cases rule: create_cases)
  case new
  with assms(1) show ?thesis by simp
next
  case (next_version p')
  then have p': "p' = p" using assms(1) by simp
  have find_set: "find (\<lambda>q. po_tenant q = t \<and> po_key q = k) (set_current i n ps)
      = map_option (\<lambda>q. if po_id q = i then q\<lparr>po_current := n\<rparr> else q) (find (\<lambda>q. po_tenant q = t \<and> po_key q = k) ps)"
    for i n ps by (induction ps) (auto simp: set_current_def)
  have f1: "find_policy db1 t k = Some (p\<lparr>po_current := po_current p + 1\<rparr>)"
    using assms(1) next_version(2) p' by (simp add: find_policy_def find_set)
  have db2: "db_policies db2 = set_current (po_id p) (po_current p) (db_policies db1)" "db_versions db2 = db_versions db1"
    using assms(3) f1 by (auto simp: rollback_policy_row_def split: if_splits)
  have f2: "find_policy db2 t k = Some (p\<lparr>po_current := po_current p\<rparr>)"
    using f1 by (simp add: find_policy_def find_set db2(1))
  then show ?thesis
    using next_version(3) p' by (simp add: create_policy_version_def db2(2))
qed

definition rolled_back :: database where
  "rolled_back = foldl policy_table_step empty_database
     [CreateVersion 1 ''p'' ''read'' ''allow'' 10 [] None ''active'',
      CreateVersion 1 ''p'' ''read'' ''deny'' 10 [] None ''active'', RollbackPolicy 1 ''p'' 1]"

lemma create_blocked_after_rollback_example:
  "create_policy_version 1 ''p'' ''read'' ''deny'' 5 [] None ''active'' rolled_back
    = (Inl (IntegrityError ''uq_policy_versions_policy_version''), rolled_back)"
proof -
  let ?db = "foldl policy_table_step empty_database [CreateVersion 1 ''p'' ''read'' ''allow'' 10 [] None ''active'']"
  let ?p = "\<lparr>po_id = 1, po_tenant = 1, po_key = ''p'', po_current = 1\<rparr>"
  have "find_policy ?db 1 ''p'' = Some ?p" by code_simp
  moreover have "fst (create_policy_version 1 ''p'' ''read'' ''deny'' 10 [] None ''active'' ?db)
      = Inr \<lparr>pv_id = 3, pv_action = ''read'', pv_effect = ''deny'', pv_priority = 10, pv_conditions = [],
             pv_state = ''active''\<rparr>" by code_simp
  moreover have "fst (rollback_policy_row 1 ''p'' 1
      (snd (create_policy_version 1 ''p'' ''read'' ''deny'' 10 [] None ''active'' ?db))) = Inr (''p'', 1)"
    by code_simp
  moreover have "rolled_back = snd (rollback_policy_row 1 ''p'' 1
      (snd (create_policy_version 1 ''p'' ''read'' ''deny'' 10 [] None ''active'' ?db)))"
    by (simp add: rolled_back_def)
  ultimately show ?thesis
    using create_blocked_after_rollback [of ?db 1 "''p''" ?p "''read''" "''deny''" 10 "[]" None "''active''"]
    by (metis policy_row.select_convs(4) prod.collapse)
qed

text \<open>
  Saving a draft withdraws the active policy: after \<open>create_policy_version\<close> with a state other
  than \<open>active\<close>, no current active policy of the tenant has the key any more, whatever version of it
  was active before.
\<close>

lemma draft_withdraws_active:
  assumes "wf_policies db" "create_policy_version t k a e pr co cb st db = (Inr view, db')" "st \<noteq> ''active''"
  shows "\<forall>(v, p) \<in> set (current_policy_rows db' t ''active''). po_key p \<noteq> k"
proof -
  have wf: "wf_policies db'" using create_wf [OF assms(1,2)] .
  obtain p1 v1 where p1: "p1 \<in> set (db_policies db')" "po_tenant p1 = t" "po_key p1 = k"
    and v1: "v1 \<in> set (db_versions db')" "ve_policy v1 = po_id p1" "ve_version v1 = po_current p1" "ve_state v1 = st"
    using assms(2)
  proof (cases rule: create_cases)
    case new
    then show ?thesis using that by fastforce
  next
    case (next_version p)
    have "p\<lparr>po_current := po_current p + 1\<rparr> \<in> set (db_policies db')"
      using find_policy_Some [OF next_version(1)] next_version(2) by (force simp: set_current_def)
    then show ?thesis
      using that [of "p\<lparr>po_current := po_current p + 1\<rparr>"] find_policy_Some [OF next_version(1)] next_version(3)
      by fastforce
  qed
  have "normalized_set ''active'' = ''active''" by code_simp
  then have active: "ve_state v = ''active'' \<and> current_of db' t v = Some p \<and> v \<in> set (db_versions db')"
    if "(v, p) \<in> set (current_policy_rows db' t ''active'')" for v p
    using that by (auto simp: current_rows_eq)
  have False if "ve_state v = ''active''" "current_of db' t v = Some p" "v \<in> set (db_versions db')" "po_key p = k" for v p
  proof -
    have p: "p \<in> set (db_policies db')" "po_id p = ve_policy v" "po_tenant p = t" "ve_version v = po_current p"
      using that(2) by (auto simp: current_of_def find_Some_iff)
    have "p = p1" using wf p p1 that(4) by (auto simp: wf_policies_def distinct_map inj_on_def)
    then have "v = v1" using wf p v1 that(3) by (auto simp: wf_policies_def distinct_map inj_on_def)
    then show False using v1(4) that(1) assms(3) by simp
  qed
  then show ?thesis using active by blast
qed

lemma draft_withdraws_active_example:
  "fst (list_current_policies 1 ''active'' (policy_table_step
      (foldl policy_table_step empty_database [CreateVersion 1 ''p'' ''read'' ''deny'' 1 [] None ''active''])
      (CreateVersion 1 ''p'' ''read'' ''deny'' 1 [] None ''draft''))) = Inr []
   \<and> ''p'' \<notin> (po_key \<circ> snd) ` set (current_policy_rows (policy_table_step
      (foldl policy_table_step empty_database [CreateVersion 1 ''p'' ''read'' ''deny'' 1 [] None ''active''])
      (CreateVersion 1 ''p'' ''read'' ''deny'' 1 [] None ''draft'')) 1 ''active'')"
proof -
  let ?db = "foldl policy_table_step empty_database [CreateVersion 1 ''p'' ''read'' ''deny'' 1 [] None ''active'']"
  let ?c = "create_policy_version 1 ''p'' ''read'' ''deny'' 1 [] None ''draft'' ?db"
  have "fst ?c = Inr \<lparr>pv_id = 3, pv_action = ''read'', pv_effect = ''deny'', pv_priority = 1, pv_conditions = [],
      pv_state = ''draft''\<rparr>" by code_simp
  then have c: "?c = (Inr \<lparr>pv_id = 3, pv_action = ''read'', pv_effect = ''deny'', pv_priority = 1,
      pv_conditions = [], pv_state = ''draft''\<rparr>, snd ?c)" by (simp add: prod_eq_iff)
  have "wf_policies ?db" by code_simp
  from draft_withdraws_active [OF this c] have "\<forall>(v, p) \<in> set (current_policy_rows (snd ?c) 1 ''active''). po_key p \<noteq> ''p''"
    by simp
  moreover have "fst (list_current_policies 1 ''active'' (policy_table_step ?db
      (CreateVersion 1 ''p'' ''read'' ''deny'' 1 [] None ''draft''))) = Inr []" by code_simp
  ultimately show ?thesis by fastforce
qed

end
