(* ===== verification/Services.thy ===== *)
theory Services
  imports Stores Caches Repositories
begin

text \<open>
  The writing services: \<open>RevisionService\<close> (\<open>services/revisions.py\<close>), \<open>PolicyService\<close>
  (\<open>services/policies.py\<close>) and \<open>RelationshipService\<close> (\<open>services/relationships.py\<close>). Each takes the
  repositories and caches it is constructed with as a record of operations on a world; the world of
  the deployed program, tables, shared memory cache and process-wide stores, is at the end.
\<close>

section \<open>Revisions\<close>

record 'w tenant_repo =
  tp_get_or_create :: "string \<Rightarrow> ('w, tenant_record) eff"
  tp_bump_policy_version :: "tenant_record \<Rightarrow> ('w, tenant_record) eff"
  tp_bump_revision :: "tenant_record \<Rightarrow> ('w, tenant_record) eff"

definition get_revision :: "'w tenant_repo \<Rightarrow> string \<Rightarrow> ('w, int) eff" where
  "get_revision tenants tenant_key =
     bnd (tp_get_or_create tenants tenant_key) (\<lambda>tenant. ret (tr_revision tenant))"

definition bump_revision :: "'w tenant_repo \<Rightarrow> string \<Rightarrow> ('w, int) eff" where
  "bump_revision tenants tenant_key =
     bnd (tp_get_or_create tenants tenant_key) (\<lambda>tenant.
     bnd (tp_bump_revision tenants tenant) (\<lambda>updated. ret (tr_revision updated)))"

text \<open>
  What a client may rely on: a repository holds at most one tenant per key, \<open>get_or_create\<close> finds it or
  adds it, and the bumps add one to one number of one tenant.
\<close>

locale tenant_repository =
  fixes repo :: "'w tenant_repo" and tenant :: "'w \<Rightarrow> string \<Rightarrow> tenant_record option" and ok :: "'w \<Rightarrow> bool"
  assumes get_law: "ok w \<Longrightarrow> \<exists>t w'. tp_get_or_create repo k w = (Inr t, w') \<and> ok w' \<and> tr_key t = k
      \<and> tenant w' = (tenant w)(k := Some t) \<and> (tenant w k = None \<or> tenant w k = Some t)"
    and bump_policy_law: "ok w \<Longrightarrow> tenant w k = Some t \<Longrightarrow> \<exists>w'. tp_bump_policy_version repo t w
      = (Inr (t\<lparr>tr_policy_version := tr_policy_version t + 1\<rparr>), w') \<and> ok w'
      \<and> tenant w' = (tenant w)(k := Some (t\<lparr>tr_policy_version := tr_policy_version t + 1\<rparr>))"
    and bump_revision_law: "ok w \<Longrightarrow> tenant w k = Some t \<Longrightarrow> \<exists>w'. tp_bump_revision repo t w
      = (Inr (t\<lparr>tr_revision := tr_revision t + 1\<rparr>), w') \<and> ok w'
      \<and> tenant w' = (tenant w)(k := Some (t\<lparr>tr_revision := tr_revision t + 1\<rparr>))"
begin

lemma get_revision_eff:
  assumes "ok w"
  obtains t w' where "get_revision repo k w = (Inr (tr_revision t), w')" "ok w'" "tenant w' = (tenant w)(k := Some t)"
    "tenant w k = None \<or> tenant w k = Some t"
  using get_law [OF assms, of k] by (auto simp: get_revision_def)

lemma bump_revision_eff:
  assumes "ok w"
  obtains t w' where "bump_revision repo k w = (Inr (tr_revision t + 1), w')" "ok w'"
    "tenant w' = (tenant w)(k := Some (t\<lparr>tr_revision := tr_revision t + 1\<rparr>))"
    "tenant w k = None \<or> tenant w k = Some t" "fst (tp_get_or_create repo k w) = Inr t"
proof -
  obtain t w1 where w1: "tp_get_or_create repo k w = (Inr t, w1)" "ok w1" "tenant w1 = (tenant w)(k := Some t)"
    "tenant w k = None \<or> tenant w k = Some t" using get_law [OF assms, of k] by blast
  then obtain w2 where "tp_bump_revision repo t w1 = (Inr (t\<lparr>tr_revision := tr_revision t + 1\<rparr>), w2)" "ok w2"
    "tenant w2 = (tenant w1)(k := Some (t\<lparr>tr_revision := tr_revision t + 1\<rparr>))"
    using bump_revision_law [of w1 k t] by auto
  with w1 show ?thesis by (intro that [of t w2]) (simp_all add: bump_revision_def)
qed

lemma bump_then_get:
  assumes "ok w" "bump_revision repo k w = (Inr n, w')"
  shows "fst (get_revision repo k w') = Inr n"
proof -
  obtain t w1 where "bump_revision repo k w = (Inr (tr_revision t + 1), w1)" "ok w1"
    "tenant w1 = (tenant w)(k := Some (t\<lparr>tr_revision := tr_revision t + 1\<rparr>))"
    using bump_revision_eff [OF assms(1)] by blast
  with assms(2) have w': "ok w'" "tenant w' k = Some (t\<lparr>tr_revision := n\<rparr>)" "n = tr_revision t + 1" by auto
  obtain t' w'' where "get_revision repo k w' = (Inr (tr_revision t'), w'')"
    "tenant w' k = None \<or> tenant w' k = Some t'" using get_revision_eff [OF w'(1)] by blast
  with w'(2) show ?thesis by auto
qed

end

section \<open>Policies\<close>

record 'w policy_service =
  ps_tenants :: "'w tenant_repo"
  ps_create_version :: "int \<Rightarrow> string \<Rightarrow> string \<Rightarrow> string \<Rightarrow> int \<Rightarrow> pydict \<Rightarrow> string option \<Rightarrow> string \<Rightarrow> ('w, policy_view) eff"
  ps_rollback :: "int \<Rightarrow> string \<Rightarrow> int \<Rightarrow> ('w, string \<times> int) eff"
  ps_delete :: "int \<Rightarrow> string \<Rightarrow> ('w, unit) eff"
  ps_list_current :: "int \<Rightarrow> string \<Rightarrow> ('w, policy_record list) eff"
  ps_list_views :: "int \<Rightarrow> string \<Rightarrow> ('w, policy_view list) eff"
  ps_list_page :: "int \<Rightarrow> nat \<Rightarrow> pydict option \<Rightarrow> ('w, policy_view list \<times> pydict option) eff"
  ps_policy_cache_invalidate :: "string \<Rightarrow> ('w, unit) eff"
  ps_bump_namespace :: "string \<Rightarrow> ('w, int) eff"
  ps_graphs_invalidate :: "string \<Rightarrow> ('w, unit) eff"
  ps_graphs_set :: "string \<Rightarrow> int \<Rightarrow> decision_graph \<Rightarrow> ('w, unit) eff"
  ps_publish :: "string \<Rightarrow> int \<Rightarrow> ('w, unit) eff"

text \<open>\<open>dict(item.__dict__)\<close> without \<open>state\<close>.\<close>

definition policy_view_row :: "policy_view \<Rightarrow> pydict" where
  "policy_view_row v = [(''id'', PInt (pv_id v)), (''action'', PStr (pv_action v)), (''effect'', PStr (pv_effect v)),
     (''priority'', PInt (pv_priority v)), (''conditions'', PDict (pv_conditions v))]"

definition list_policies :: "'w policy_service \<Rightarrow> string \<Rightarrow> ('w, pydict list) eff" where
  "list_policies svc tenant_key = bnd (tp_get_or_create (ps_tenants svc) tenant_key) (\<lambda>tenant.
     bnd (ps_list_views svc (tr_id tenant) ''active'') (\<lambda>items. ret (map policy_view_row items)))"

definition list_policies_page :: "'w policy_service \<Rightarrow> string \<Rightarrow> nat \<Rightarrow> pydict option
    \<Rightarrow> ('w, pydict list \<times> pydict option) eff" where
  "list_policies_page svc tenant_key limit cursor = bnd (tp_get_or_create (ps_tenants svc) tenant_key) (\<lambda>tenant.
     bnd (ps_list_page svc (tr_id tenant) limit cursor) (\<lambda>(items, next_cursor).
       ret (map policy_view_row items, next_cursor)))"

definition compile_and_store :: "'w policy_service \<Rightarrow> int \<Rightarrow> string \<Rightarrow> int \<Rightarrow> ('w, unit) eff" where
  "compile_and_store svc tenant_id tenant_key policy_version =
     bnd (ps_list_current svc tenant_id ''active'') (\<lambda>policies.
       ps_graphs_set svc tenant_key policy_version (compile_policy_graph (map pr_definition policies)))"

text \<open>What every policy write does after the tables changed: versions, caches, graph, event.\<close>

definition publish_change :: "'w policy_service \<Rightarrow> tenant_record \<Rightarrow> ('w, unit) eff" where
  "publish_change svc tenant =
     bnd (tp_bump_policy_version (ps_tenants svc) tenant) (\<lambda>updated.
     bnd (ps_policy_cache_invalidate svc (tr_key updated)) (\<lambda>_.
     bnd (ps_bump_namespace svc (tr_key updated)) (\<lambda>_.
     bnd (bump_revision (ps_tenants svc) (tr_key updated)) (\<lambda>_.
     bnd (ps_graphs_invalidate svc (tr_key updated)) (\<lambda>_.
     bnd (compile_and_store svc (tr_id updated) (tr_key updated) (tr_policy_version updated)) (\<lambda>_.
       ps_publish svc (tr_key updated) (tr_policy_version updated)))))))"

definition is_type_error :: "exn \<Rightarrow> bool" where
  "is_type_error e = (case e of TypeError _ \<Rightarrow> True | _ \<Rightarrow> False)"

definition create_policy :: "'w policy_service \<Rightarrow> string \<Rightarrow> string \<Rightarrow> string \<Rightarrow> string \<Rightarrow> int \<Rightarrow> pydict \<Rightarrow> string option
    \<Rightarrow> string \<Rightarrow> ('w, policy_view) eff" where
  "create_policy svc tenant_key policy_key action effect priority conditions created_by state =
     bnd (tp_get_or_create (ps_tenants svc) tenant_key) (\<lambda>tenant.
     bnd (catch (ps_create_version svc (tr_id tenant) policy_key action effect priority conditions created_by state)
            is_type_error
            (\<lambda>_. ps_create_version svc (tr_id tenant) policy_key action effect priority conditions created_by ''active''))
       (\<lambda>result. bnd (publish_change svc tenant) (\<lambda>_. ret result)))"

definition rollback_policy :: "'w policy_service \<Rightarrow> string \<Rightarrow> string \<Rightarrow> int \<Rightarrow> ('w, string \<times> int) eff" where
  "rollback_policy svc tenant_key policy_key version =
     bnd (tp_get_or_create (ps_tenants svc) tenant_key) (\<lambda>tenant.
     bnd (ps_rollback svc (tr_id tenant) policy_key version) (\<lambda>result.
     bnd (publish_change svc tenant) (\<lambda>_. ret result)))"

definition delete_policy :: "'w policy_service \<Rightarrow> string \<Rightarrow> string \<Rightarrow> ('w, unit) eff" where
  "delete_policy svc tenant_key policy_key =
     bnd (tp_get_or_create (ps_tenants svc) tenant_key) (\<lambda>tenant.
     bnd (ps_delete svc (tr_id tenant) policy_key) (\<lambda>_. publish_change svc tenant))"

section \<open>Relationships\<close>

record 'w relationship_service =
  rs_tenants :: "'w tenant_repo"
  rs_list_for_subject :: "int \<Rightarrow> string \<Rightarrow> string \<Rightarrow> ('w, relationship_record list) eff"
  rs_list_page :: "int \<Rightarrow> string \<Rightarrow> string \<Rightarrow> nat \<Rightarrow> pydict option
    \<Rightarrow> ('w, relationship_record list \<times> pydict option) eff"
  rs_create :: "int \<Rightarrow> relationship_record \<Rightarrow> ('w, int) eff"
  rs_cache_get :: "int \<Rightarrow> string \<Rightarrow> string \<Rightarrow> ('w, relationship_record list option) eff"
  rs_cache_set :: "int \<Rightarrow> string \<Rightarrow> string \<Rightarrow> relationship_record list \<Rightarrow> ('w, unit) eff"
  rs_cache_invalidate :: "int \<Rightarrow> string \<Rightarrow> string \<Rightarrow> ('w, unit) eff"
  rs_index_invalidate_tenant :: "(int \<Rightarrow> ('w, unit) eff) option"
  rs_bump_namespace :: "string \<Rightarrow> ('w, int) eff"

definition list_relationships :: "'w relationship_service \<Rightarrow> string \<Rightarrow> string \<Rightarrow> string \<Rightarrow> ('w, pydict list) eff" where
  "list_relationships svc tenant_key subject_type subject_id =
     bnd (tp_get_or_create (rs_tenants svc) tenant_key) (\<lambda>tenant.
     bnd (rs_cache_get svc (tr_id tenant) subject_type subject_id) (\<lambda>cached.
     bnd (case cached of Some rs \<Rightarrow> ret rs
          | None \<Rightarrow> bnd (rs_list_for_subject svc (tr_id tenant) subject_type subject_id) (\<lambda>rs.
              bnd (rs_cache_set svc (tr_id tenant) subject_type subject_id rs) (\<lambda>_. ret rs)))
       (\<lambda>relationships. ret (map relationship_to_dict relationships))))"

definition list_relationships_page :: "'w relationship_service \<Rightarrow> string \<Rightarrow> string \<Rightarrow> string \<Rightarrow> nat \<Rightarrow> pydict option
    \<Rightarrow> ('w, pydict list \<times> pydict option) eff" where
  "list_relationships_page svc tenant_key subject_type subject_id limit cursor =
     bnd (tp_get_or_create (rs_tenants svc) tenant_key) (\<lambda>tenant.
     bnd (rs_list_page svc (tr_id tenant) subject_type subject_id limit cursor) (\<lambda>(rs, next_cursor).
       ret (map relationship_to_dict rs, next_cursor)))"

definition create_relationship :: "'w relationship_service \<Rightarrow> string \<Rightarrow> relationship_record \<Rightarrow> ('w, int) eff" where
  "create_relationship svc tenant_key edge =
     bnd (tp_get_or_create (rs_tenants svc) tenant_key) (\<lambda>tenant.
     bnd (rs_create svc (tr_id tenant) edge) (\<lambda>row_id.
     bnd (rs_cache_invalidate svc (tr_id tenant) (rr_subject_type edge) (rr_subject_id edge)) (\<lambda>_.
     bnd (case rs_index_invalidate_tenant svc of None \<Rightarrow> ret () | Some invalidate \<Rightarrow> invalidate (tr_id tenant)) (\<lambda>_.
     bnd (rs_bump_namespace svc (tr_key tenant)) (\<lambda>_.
     bnd (bump_revision (rs_tenants svc) (tr_key tenant)) (\<lambda>_. ret row_id))))))"

section \<open>The deployed world\<close>

record world =
  w_db :: database
  w_cache :: memory_backend
  w_graphs :: policy_store
  w_models :: model_store
  w_published :: "(string \<times> int) list"

definition on_db :: "(database, 'a) eff \<Rightarrow> (world, 'a) eff" where
  "on_db m w = (case m (w_db w) of (r, db) \<Rightarrow> (r, w\<lparr>w_db := db\<rparr>))"

definition on_cache :: "(memory_backend, 'a) eff \<Rightarrow> (world, 'a) eff" where
  "on_cache m w = (case m (w_cache w) of (r, b) \<Rightarrow> (r, w\<lparr>w_cache := b\<rparr>))"

definition world_cache :: "world cache_ops" where
  "world_cache = \<lparr>co_get = (\<lambda>k. on_cache (memory_get k)), co_set = (\<lambda>k v ttl. on_cache (memory_set k v ttl)),
     co_delete = (\<lambda>k. on_cache (memory_delete k)), co_incr = (\<lambda>k. on_cache (memory_incr k))\<rparr>"

definition world_tenants :: "world tenant_repo" where
  "world_tenants = \<lparr>tp_get_or_create = (\<lambda>k. on_db (tenant_get_or_create k)),
     tp_bump_policy_version = (\<lambda>t. on_db (tenant_bump_policy_version t)),
     tp_bump_revision = (\<lambda>t. on_db (tenant_bump_revision t))\<rparr>"

definition graphs_invalidate :: "string \<Rightarrow> (world, unit) eff" where
  "graphs_invalidate key w = (Inr (), w\<lparr>w_graphs := policy_store_invalidate (w_graphs w) key\<rparr>)"

definition graphs_set :: "string \<Rightarrow> int \<Rightarrow> decision_graph \<Rightarrow> (world, unit) eff" where
  "graphs_set key version g w = (Inr (), w\<lparr>w_graphs := policy_store_set (w_graphs w) (key, version) g\<rparr>)"

definition publish :: "string \<Rightarrow> int \<Rightarrow> (world, unit) eff" where
  "publish key version w = (Inr (), w\<lparr>w_published := w_published w @ [(key, version)]\<rparr>)"

definition world_policies :: "world policy_service" where
  "world_policies = \<lparr>ps_tenants = world_tenants,
     ps_create_version = (\<lambda>t k a e pr co cb st. on_db (create_policy_version t k a e pr co cb st)),
     ps_rollback = (\<lambda>t k v. on_db (rollback_policy_row t k v)),
     ps_delete = (\<lambda>t k. on_db (delete_policy_rows t k)),
     ps_list_current = (\<lambda>t s. on_db (list_current_policies t s)),
     ps_list_views = (\<lambda>t s. on_db (list_current_policy_views t s)),
     ps_list_page = (\<lambda>t l c. on_db (list_current_policy_page t l c)),
     ps_policy_cache_invalidate = policy_cache_invalidate world_cache,
     ps_bump_namespace = bump_namespace world_cache,
     ps_graphs_invalidate = graphs_invalidate, ps_graphs_set = graphs_set, ps_publish = publish\<rparr>"

definition world_relationships :: "world relationship_service" where
  "world_relationships = \<lparr>rs_tenants = world_tenants,
     rs_list_for_subject = (\<lambda>t st sid. on_db (list_for_subject t st sid)),
     rs_list_page = (\<lambda>t st sid l c. on_db (list_for_subject_page t st sid l c)),
     rs_create = (\<lambda>t e. on_db (create_relationship_row t e)),
     rs_cache_get = relationship_cache_get world_cache,
     rs_cache_set = relationship_cache_set world_cache 30,
     rs_cache_invalidate = relationship_cache_invalidate world_cache,
     rs_index_invalidate_tenant = Some (index_cache_invalidate_tenant world_cache),
     rs_bump_namespace = bump_namespace world_cache\<rparr>"

definition empty_world :: world where
  "empty_world = \<lparr>w_db = empty_database, w_cache = empty_memory, w_graphs = [], w_models = [], w_published = []\<rparr>"

lemma on_db_simps [simp]:
  "m (w_db w) = (r, db) \<Longrightarrow> on_db m w = (r, w\<lparr>w_db := db\<rparr>)"
  by (simp add: on_db_def)

section \<open>The contracts on the deployed world\<close>

text \<open>Ids and keys of tenants are unique, and ids were handed out before.\<close>

definition wf_tenants :: "world \<Rightarrow> bool" where
  "wf_tenants w = (distinct (map tr_id (db_tenants (w_db w))) \<and> distinct (map tr_key (db_tenants (w_db w)))
     \<and> (\<forall>t \<in> set (db_tenants (w_db w)). tr_id t < db_next_id (w_db w)))"

definition tenant_of :: "world \<Rightarrow> string \<Rightarrow> tenant_record option" where
  "tenant_of w k = find (\<lambda>t. tr_key t = k) (db_tenants (w_db w))"

lemma find_unique:
  "distinct (map f xs) \<Longrightarrow> x \<in> set xs \<Longrightarrow> find (\<lambda>y. f y = f x) xs = Some x"
  by (induction xs) auto

lemma find_map_key:
  "(\<And>x. f (g x) = f x) \<Longrightarrow> find (\<lambda>y. f y = k) (map g xs) = map_option g (find (\<lambda>y. f y = k) xs)"
  by (induction xs) auto

lemma update_tenant_eff:
  assumes "wf_tenants w" "tenant_of w k = Some t" "\<And>t. tr_id (f t) = tr_id t" "\<And>t. tr_key (f t) = tr_key t"
  shows "\<exists>w'. on_db (update_tenant f t) w = (Inr (f t), w') \<and> wf_tenants w'
    \<and> tenant_of w' = (tenant_of w)(k := Some (f t))"
proof -
  let ?ts = "db_tenants (w_db w)" and ?g = "\<lambda>r. if tr_id r = tr_id t then f r else r"
  have t: "t \<in> set ?ts" "tr_key t = k" using assms(2) by (auto simp: tenant_of_def find_Some_iff)
  have found: "find (\<lambda>r. tr_id r = tr_id t) ?ts = Some t"
    using find_unique [of tr_id ?ts t] assms(1) t(1) by (simp add: wf_tenants_def)
  let ?w = "w\<lparr>w_db := (w_db w)\<lparr>db_tenants := map ?g ?ts\<rparr>\<rparr>"
  have maps: "map tr_id (map ?g ?ts) = map tr_id ?ts" "map tr_key (map ?g ?ts) = map tr_key ?ts"
    using assms(3,4) by simp_all
  have "wf_tenants ?w"
    using assms(1,3) unfolding wf_tenants_def by (auto simp: maps simp del: map_map)
  moreover have "tenant_of ?w j = ((tenant_of w)(k := Some (f t))) j" for j
  proof -
    have "tenant_of ?w j = map_option ?g (tenant_of w j)"
      using find_map_key [of tr_key ?g j ?ts] assms(4) by (simp add: tenant_of_def)
    moreover have "j = k" if "tenant_of w j = Some r" "tr_id r = tr_id t" for r
    proof -
      have "r \<in> set ?ts" "tr_key r = j" using that(1) by (auto simp: tenant_of_def find_Some_iff)
      then show ?thesis using assms(1) t that(2) by (auto simp: wf_tenants_def distinct_map inj_on_def)
    qed
    ultimately show ?thesis using assms(2) by (cases "tenant_of w j") auto
  qed
  ultimately show ?thesis
    by (intro exI [of _ ?w]) (auto simp: update_tenant_def on_db_def found fun_eq_iff)
qed

interpretation tenants: tenant_repository world_tenants tenant_of wf_tenants
proof unfold_locales
  fix w k
  assume wf: "wf_tenants w"
  show "\<exists>t w'. tp_get_or_create world_tenants k w = (Inr t, w') \<and> wf_tenants w' \<and> tr_key t = k
      \<and> tenant_of w' = (tenant_of w)(k := Some t) \<and> (tenant_of w k = None \<or> tenant_of w k = Some t)"
  proof (cases "tenant_of w k")
    case (Some t)
    then have "tr_key t = k" by (auto simp: tenant_of_def find_Some_iff)
    then show ?thesis
      using wf Some by (auto simp: world_tenants_def on_db_def tenant_get_or_create_def tenant_of_def fun_eq_iff)
  next
    case None
    let ?t = "new_tenant (db_next_id (w_db w)) k"
    let ?w = "w\<lparr>w_db := (w_db w)\<lparr>db_tenants := db_tenants (w_db w) @ [?t], db_next_id := db_next_id (w_db w) + 1\<rparr>\<rparr>"
    have "tp_get_or_create world_tenants k w = (Inr ?t, ?w)"
      using None by (simp add: world_tenants_def on_db_def tenant_get_or_create_def tenant_of_def Let_def)
    moreover have "wf_tenants ?w"
      using wf None by (fastforce simp: wf_tenants_def new_tenant_def tenant_of_def find_None_iff)
    moreover have "find P (xs @ [x]) = (case find P xs of Some y \<Rightarrow> Some y | None \<Rightarrow> if P x then Some x else None)"
      for P x and xs :: "tenant_record list" by (induction xs) auto
    then have "tenant_of ?w = (tenant_of w)(k := Some ?t)"
      using None by (auto simp: tenant_of_def new_tenant_def fun_eq_iff split: option.splits)
    ultimately show ?thesis using None by (auto simp: new_tenant_def)
  qed
next
  fix w k t
  assume "wf_tenants w" "tenant_of w k = Some t"
  then show "\<exists>w'. tp_bump_policy_version world_tenants t w
      = (Inr (t\<lparr>tr_policy_version := tr_policy_version t + 1\<rparr>), w') \<and> wf_tenants w'
      \<and> tenant_of w' = (tenant_of w)(k := Some (t\<lparr>tr_policy_version := tr_policy_version t + 1\<rparr>))"
    using update_tenant_eff [of w k t "\<lambda>t. t\<lparr>tr_policy_version := tr_policy_version t + 1\<rparr>"]
    by (simp add: world_tenants_def tenant_bump_policy_version_def)
  show "\<exists>w'. tp_bump_revision world_tenants t w
      = (Inr (t\<lparr>tr_revision := tr_revision t + 1\<rparr>), w') \<and> wf_tenants w'
      \<and> tenant_of w' = (tenant_of w)(k := Some (t\<lparr>tr_revision := tr_revision t + 1\<rparr>))"
    using update_tenant_eff [of w k t "\<lambda>t. t\<lparr>tr_revision := tr_revision t + 1\<rparr>"] \<open>wf_tenants w\<close> \<open>tenant_of w k = Some t\<close>
    by (simp add: world_tenants_def tenant_bump_revision_def)
qed

interpretation shared_cache: cache_backend world_cache "\<lambda>w. memory_look (w_cache w)"
proof unfold_locales
  show "\<exists>w'. co_get world_cache k w = (Inr (memory_look (w_cache w) k), w') \<and> memory_look (w_cache w') = memory_look (w_cache w)"
    for k w
    using memory.get_law [of k "w_cache w"] by (auto simp: world_cache_def memory_ops_def on_cache_def)
  show "\<exists>w'. co_set world_cache k v ttl w = (Inr (), w') \<and> memory_look (w_cache w') = (memory_look (w_cache w))(k := Some v)"
    for k v ttl w
    using memory.set_law [of k v ttl "w_cache w"] by (auto simp: world_cache_def memory_ops_def on_cache_def)
  show "\<exists>w'. co_delete world_cache k w = (Inr (), w') \<and> memory_look (w_cache w') = (memory_look (w_cache w))(k := None)"
    for k w
    using memory.delete_law [of k "w_cache w"] by (auto simp: world_cache_def memory_ops_def on_cache_def)
  show "\<exists>w'. co_incr world_cache k w = (Inr (n + 1), w')
      \<and> memory_look (w_cache w') = (memory_look (w_cache w))(k := Some (Plain (int_str (n + 1))))"
    if "(case memory_look (w_cache w) k of None \<Rightarrow> Inr 0 | Some t \<Rightarrow> text_int t) = Inr n" for w k n
    using memory.incr_law [OF that] by (auto simp: world_cache_def memory_ops_def on_cache_def)
qed

section \<open>What a write changes\<close>

lemma on_db_frame:
  "on_db m w = (r, w') \<Longrightarrow> w_cache w' = w_cache w \<and> w_graphs w' = w_graphs w \<and> w_models w' = w_models w
     \<and> w_published w' = w_published w"
  by (auto simp: on_db_def split: prod.splits)

lemma on_cache_frame:
  "on_cache m w = (r, w') \<Longrightarrow> w_db w' = w_db w \<and> w_graphs w' = w_graphs w \<and> w_models w' = w_models w
     \<and> w_published w' = w_published w"
  by (auto simp: on_cache_def split: prod.splits)

lemma world_incr_frame:
  "co_incr world_cache k w = (r, w') \<Longrightarrow> w_db w' = w_db w \<and> w_graphs w' = w_graphs w \<and> w_models w' = w_models w
     \<and> w_published w' = w_published w"
  by (auto simp: world_cache_def dest!: on_cache_frame)

lemma memory_incr_keeps:
  assumes "memory_incr k b = (Inr n, b')" "j \<noteq> k"
  shows "memory_look b' j = memory_look b j"
proof -
  from assms(1) obtain x b1 where "memory_get k b = (Inr x, b1)"
    "b' = b1\<lparr>mb_values := dset (mb_values b1) k (Plain (int_str n), deadline (mb_now b1) None)\<rparr>"
    by (auto simp: memory_incr_def bnd_Inr_iff memory_set_def)
  then show ?thesis using assms(2) memory_get_look(1) [of k b b1] memory_get_eff [of k b]
    by (auto simp: memory_look_simps)
qed

lemma world_incr_keeps:
  "co_incr world_cache k w = (Inr n, w') \<Longrightarrow> j \<noteq> k \<Longrightarrow> memory_look (w_cache w') j = memory_look (w_cache w) j"
  by (auto simp: world_cache_def on_cache_def split: prod.splits dest: memory_incr_keeps)

lemma policy_cache_invalidate_frame:
  "policy_cache_invalidate world_cache k w = (r, w') \<Longrightarrow> w_db w' = w_db w \<and> w_graphs w' = w_graphs w
     \<and> w_models w' = w_models w \<and> w_published w' = w_published w"
  by (auto simp: policy_cache_invalidate_def bnd_def split: prod.splits sum.splits dest!: world_incr_frame)

lemma tenants_frame:
  "tp_get_or_create world_tenants k w = (r, w') \<Longrightarrow> w_cache w' = w_cache w \<and> w_graphs w' = w_graphs w
     \<and> w_published w' = w_published w"
  "tp_bump_policy_version world_tenants t w = (r, w') \<Longrightarrow> w_cache w' = w_cache w \<and> w_graphs w' = w_graphs w
     \<and> w_published w' = w_published w"
  "tp_bump_revision world_tenants t w = (r, w') \<Longrightarrow> w_cache w' = w_cache w \<and> w_graphs w' = w_graphs w
     \<and> w_published w' = w_published w"
  by (auto simp: world_tenants_def dest!: on_db_frame)

lemma bump_revision_frame:
  "bump_revision world_tenants k w = (r, w') \<Longrightarrow> w_cache w' = w_cache w \<and> w_graphs w' = w_graphs w
     \<and> w_published w' = w_published w"
  by (auto simp: bump_revision_def bnd_def split: prod.splits sum.splits dest!: tenants_frame)

lemma tenants_keep_relationships:
  "tp_get_or_create world_tenants k w = (r, w') \<Longrightarrow> db_relationships (w_db w') = db_relationships (w_db w)"
  "tp_bump_revision world_tenants t w = (r', w') \<Longrightarrow> db_relationships (w_db w') = db_relationships (w_db w)"
  by (auto simp: world_tenants_def on_db_def tenant_get_or_create_def tenant_bump_revision_def update_tenant_def
      Let_def split: prod.splits option.splits)

lemma bump_revision_keeps_relationships:
  "bump_revision world_tenants k w = (r, w') \<Longrightarrow> db_relationships (w_db w') = db_relationships (w_db w)"
  by (auto simp: bump_revision_def bnd_def split: prod.splits sum.splits dest!: tenants_keep_relationships)

lemma wf_tenants_db: "w_db w' = w_db w \<Longrightarrow> wf_tenants w' = wf_tenants w \<and> tenant_of w' = tenant_of w"
  by (auto simp: wf_tenants_def tenant_of_def fun_eq_iff)

text \<open>
  Revisions advance: bumping the revision of a tenant returns its old revision plus one, which is
  what is read afterwards, and no other tenant changes.
\<close>

lemma revision_advances:
  assumes "wf_tenants w" "bump_revision world_tenants k w = (Inr n, w')"
  shows "fst (get_revision world_tenants k w) = Inr (n - 1) \<and> fst (get_revision world_tenants k w') = Inr n
    \<and> wf_tenants w' \<and> (\<forall>j. j \<noteq> k \<longrightarrow> tenant_of w' j = tenant_of w j)"
proof -
  obtain t w1 where b: "bump_revision world_tenants k w = (Inr (tr_revision t + 1), w1)" "wf_tenants w1"
    "tenant_of w1 = (tenant_of w)(k := Some (t\<lparr>tr_revision := tr_revision t + 1\<rparr>))"
    "tenant_of w k = None \<or> tenant_of w k = Some t" "fst (tp_get_or_create world_tenants k w) = Inr t"
    using tenants.bump_revision_eff [OF assms(1)] by blast
  have "fst (get_revision world_tenants k w) = Inr (tr_revision t)"
    using b(5) by (cases "tp_get_or_create world_tenants k w") (simp add: get_revision_def)
  then show ?thesis
    using b assms(2) tenants.bump_then_get [OF assms] by auto
qed

definition one_tenant :: world where
  "one_tenant = empty_world\<lparr>w_db := empty_database\<lparr>db_tenants := [new_tenant 1 ''acme''], db_next_id := 2\<rparr>\<rparr>"

lemma revision_advances_example:
  "fst (get_revision world_tenants ''acme'' one_tenant) = Inr 1
   \<and> fst (get_revision world_tenants ''acme'' (snd (bump_revision world_tenants ''acme'' one_tenant))) = Inr 2"
proof -
  have "wf_tenants one_tenant" "fst (bump_revision world_tenants ''acme'' one_tenant) = Inr 2" by code_simp+
  then show ?thesis
    using revision_advances [of one_tenant "''acme''" 2 "snd (bump_revision world_tenants ''acme'' one_tenant)"]
    by (simp add: prod_eq_iff)
qed

lemma publish_change_effects:
  assumes "wf_tenants w" "tenant_of w (tr_key t) = Some t" "publish_change world_policies t w = (Inr u, w')"
  obtains t' where "tenant_of w' (tr_key t) = Some t'" "tr_id t' = tr_id t"
    "tr_policy_version t' = tr_policy_version t + 1" "tr_revision t' = tr_revision t + 1" "wf_tenants w'"
    "\<And>v. policy_store_get (w_graphs w') (tr_key t, v) = (if v = tr_policy_version t'
       then Some (compile_policy_graph (map (\<lambda>r. pr_definition (policy_of_rows r))
          (current_policy_rows (w_db w') (tr_id t) ''active''))) else None)"
    "\<And>k v. k \<noteq> tr_key t \<Longrightarrow> policy_store_get (w_graphs w') (k, v) = policy_store_get (w_graphs w) (k, v)"
    "w_published w' = w_published w @ [(tr_key t, tr_policy_version t')]"
proof -
  let ?t1 = "t\<lparr>tr_policy_version := tr_policy_version t + 1\<rparr>"
  let ?t2 = "?t1\<lparr>tr_revision := tr_revision t + 1\<rparr>"
  obtain w1 where w1: "tp_bump_policy_version world_tenants t w = (Inr ?t1, w1)" "wf_tenants w1"
    "tenant_of w1 = (tenant_of w)(tr_key t := Some ?t1)"
    using tenants.bump_policy_law [OF assms(1,2)] by blast
  from assms(3) w1(1) obtain u2 w2 n3 w3 n4 w4 where
    w2: "policy_cache_invalidate world_cache (tr_key t) w1 = (Inr u2, w2)"
    and w3: "bump_namespace world_cache (tr_key t) w2 = (Inr n3, w3)"
    and w4: "bump_revision world_tenants (tr_key t) w3 = (Inr n4, w4)"
    and rest: "bnd (graphs_invalidate (tr_key t)) (\<lambda>_. bnd (compile_and_store world_policies (tr_id t) (tr_key t)
        (tr_policy_version t + 1)) (\<lambda>_. publish (tr_key t) (tr_policy_version t + 1))) w4 = (Inr u, w')"
    by (auto simp: publish_change_def world_policies_def bnd_Inr_iff)
  note f2 = policy_cache_invalidate_frame [OF w2]
  note f3 = world_incr_frame [OF w3 [unfolded bump_namespace_def]]
  have db3: "w_db w3 = w_db w1" using f2 f3 by simp
  have wf3: "wf_tenants w3" "tenant_of w3 = tenant_of w1" using wf_tenants_db [OF db3] w1(2) by blast+
  obtain t3 w4' where t3: "bump_revision world_tenants (tr_key t) w3 = (Inr (tr_revision t3 + 1), w4')" "wf_tenants w4'"
    "tenant_of w4' = (tenant_of w3)(tr_key t := Some (t3\<lparr>tr_revision := tr_revision t3 + 1\<rparr>))"
    "tenant_of w3 (tr_key t) = None \<or> tenant_of w3 (tr_key t) = Some t3"
    using tenants.bump_revision_eff [OF wf3(1)] by blast
  then have "t3 = ?t1" "w4' = w4" using wf3(2) w1(3) w4 by auto
  then have w4t: "tenant_of w4 (tr_key t) = Some ?t2" "wf_tenants w4" using t3 by simp_all
  let ?g = "compile_policy_graph (map (\<lambda>r. pr_definition (policy_of_rows r)) (current_policy_rows (w_db w4) (tr_id t) ''active''))"
  have w': "w' = w4\<lparr>w_graphs := policy_store_set (policy_store_invalidate (w_graphs w4) (tr_key t))
      (tr_key t, tr_policy_version t + 1) ?g, w_published := w_published w4 @ [(tr_key t, tr_policy_version t + 1)]\<rparr>"
    using rest by (auto simp: bnd_Inr_iff graphs_invalidate_def compile_and_store_def world_policies_def
        on_db_def list_current_policies_def graphs_set_def publish_def comp_def)
  have frame: "w_graphs w4 = w_graphs w" "w_published w4 = w_published w"
    using tenants_frame(2) [OF w1(1)] f2 f3 bump_revision_frame [OF w4] by simp_all
  have db': "w_db w' = w_db w4" by (simp add: w')
  show ?thesis
  proof (rule that [of ?t2])
    show "tenant_of w' (tr_key t) = Some ?t2" "wf_tenants w'" using wf_tenants_db [OF db'] w4t by simp_all
    show "policy_store_get (w_graphs w') (tr_key t, v) = (if v = tr_policy_version ?t2
       then Some (compile_policy_graph (map (\<lambda>r. pr_definition (policy_of_rows r))
          (current_policy_rows (w_db w') (tr_id t) ''active''))) else None)" for v
      using policies.refreshed [of "(tr_key t, tr_policy_version t + 1)" "tr_key t" "w_graphs w4" ?g "(tr_key t, v)"]
      by (simp add: w')
    show "policy_store_get (w_graphs w') (k, v) = policy_store_get (w_graphs w) (k, v)" if "k \<noteq> tr_key t" for k v
      using policies.refreshed [of "(tr_key t, tr_policy_version t + 1)" "tr_key t" "w_graphs w4" ?g "(k, v)"] that
      by (simp add: w' frame)
    show "w_published w' = w_published w @ [(tr_key t, tr_policy_version ?t2)]" by (simp add: w' frame)
  qed simp_all
qed

text \<open>Creating a version leaves tenants, graphs and messages alone, also on the second try.\<close>

lemma guarded_create_frame:
  fixes tid policy_key action effect priority conditions created_by
  defines "create \<equiv> \<lambda>st. on_db (create_policy_version tid policy_key action effect priority conditions created_by st)"
  assumes "catch (create state) is_type_error (\<lambda>_. create ''active'') w = (Inr view, w')"
  shows "db_tenants (w_db w') = db_tenants (w_db w) \<and> db_next_id (w_db w) \<le> db_next_id (w_db w')
    \<and> w_graphs w' = w_graphs w \<and> w_published w' = w_published w"
proof -
  have frame: "db_tenants (w_db v') = db_tenants (w_db v) \<and> db_next_id (w_db v) \<le> db_next_id (w_db v')
      \<and> w_graphs v' = w_graphs v \<and> w_published v' = w_published v" if "create st v = (r, v')" for st v v' r
    using that by (auto simp: create_def on_db_def create_policy_version_def Let_def split: option.splits if_splits)
  obtain r v where first: "create state w = (r, v)" by fastforce
  show ?thesis
  proof (cases r)
    case (Inl e)
    then have "create ''active'' v = (Inr view, w')" using assms(2) first by (auto split: if_splits)
    from frame [OF this] frame [OF first] show ?thesis by simp
  qed (use assms(2) first frame [OF first] in simp)
qed

text \<open>
  C13. A policy write takes effect: when \<open>create_policy\<close> returns, the tenant's policy version and revision
  have each grown by one, the compiled store holds for the tenant exactly one graph, under the new version,
  compiled from the policies that are current now, other tenants' graphs are untouched, and one event for
  the new version was published.
\<close>

theorem create_policy_takes_effect:
  assumes "wf_tenants w" "tenant_of w key = Some t"
    and "create_policy world_policies key policy_key action effect priority conditions created_by state w = (Inr view, w')"
  shows "\<exists>t'. tenant_of w' key = Some t' \<and> tr_policy_version t' = tr_policy_version t + 1
    \<and> tr_revision t' = tr_revision t + 1
    \<and> (\<forall>v. policy_store_get (w_graphs w') (key, v) = (if v = tr_policy_version t'
         then Some (compile_policy_graph (map (\<lambda>r. pr_definition (policy_of_rows r))
           (current_policy_rows (w_db w') (tr_id t') ''active''))) else None))
    \<and> (\<forall>k v. k \<noteq> key \<longrightarrow> policy_store_get (w_graphs w') (k, v) = policy_store_get (w_graphs w) (k, v))
    \<and> w_published w' = w_published w @ [(key, tr_policy_version t')]"
proof -
  obtain w1 where w1: "tp_get_or_create world_tenants key w = (Inr t, w1)" "wf_tenants w1" "tr_key t = key"
    "tenant_of w1 = (tenant_of w)(key := Some t)"
    using tenants.get_law [OF assms(1), of key] assms(2) by auto
  let ?create = "\<lambda>st. on_db (create_policy_version (tr_id t) policy_key action effect priority conditions created_by st)"
  from assms(3) w1(1) obtain w2 where w2: "catch (?create state) is_type_error (\<lambda>_. ?create ''active'') w1 = (Inr view, w2)"
    and pub: "publish_change world_policies t w2 = (Inr (), w')"
    by (auto simp: create_policy_def bnd_Inr_iff world_policies_def simp del: catch_cases)
  note w2f = guarded_create_frame [OF w2]
  with w1(2) have wf2: "wf_tenants w2" and "tenant_of w2 = tenant_of w1"
    by (auto simp: wf_tenants_def tenant_of_def fun_eq_iff)
  then have "tenant_of w2 (tr_key t) = Some t" using w1(3,4) by simp
  note effects = publish_change_effects [OF wf2 this pub]
  obtain t' where
    t': "tenant_of w' (tr_key t) = Some t'" "tr_id t' = tr_id t" "tr_policy_version t' = tr_policy_version t + 1"
      "tr_revision t' = tr_revision t + 1" "wf_tenants w'"
      "\<And>v. policy_store_get (w_graphs w') (tr_key t, v) = (if v = tr_policy_version t'
       then Some (compile_policy_graph (map (\<lambda>r. pr_definition (policy_of_rows r))
          (current_policy_rows (w_db w') (tr_id t) ''active''))) else None)"
      "\<And>k v. k \<noteq> tr_key t \<Longrightarrow> policy_store_get (w_graphs w') (k, v) = policy_store_get (w_graphs w2) (k, v)"
      "w_published w' = w_published w2 @ [(tr_key t, tr_policy_version t')]" by (rule effects, rule that)
  show ?thesis
  proof (intro exI [of _ t'] conjI allI impI)
    show "policy_store_get (w_graphs w') (key, v) = (if v = tr_policy_version t'
         then Some (compile_policy_graph (map (\<lambda>r. pr_definition (policy_of_rows r))
           (current_policy_rows (w_db w') (tr_id t') ''active''))) else None)" for v
      using t'(6) [of v] unfolding w1(3) t'(2) .
    show "policy_store_get (w_graphs w') (k, v) = policy_store_get (w_graphs w) (k, v)" if "k \<noteq> key" for k v
      using t'(7) [of k v] that w1(3) w2f tenants_frame(1) [OF w1(1)] by simp
    show "w_published w' = w_published w @ [(key, tr_policy_version t')]"
      using t'(8) w1(3) w2f tenants_frame(1) [OF w1(1)] by simp
  qed (use t'(1,3,4) w1(3) in simp_all)
qed

theorem create_policy_takes_effect_witness:
  "tenant_of (snd (create_policy world_policies ''acme'' ''p'' ''read'' ''allow'' 10 [] None ''active'' one_tenant)) ''acme''
     = Some \<lparr>tr_id = 1, tr_key = ''acme'', tr_policy_version = 2, tr_revision = 2\<rparr>"
proof -
  let ?c = "create_policy world_policies ''acme'' ''p'' ''read'' ''allow'' 10 [] None ''active'' one_tenant"
  have "fst ?c = Inr \<lparr>pv_id = 3, pv_action = ''read'', pv_effect = ''allow'', pv_priority = 10, pv_conditions = [],
      pv_state = ''active''\<rparr>" by code_simp
  then have c: "?c = (Inr \<lparr>pv_id = 3, pv_action = ''read'', pv_effect = ''allow'', pv_priority = 10,
      pv_conditions = [], pv_state = ''active''\<rparr>, snd ?c)" by (simp add: prod_eq_iff)
  have "wf_tenants one_tenant" "tenant_of one_tenant ''acme'' = Some (new_tenant 1 ''acme'')" by code_simp+
  from create_policy_takes_effect [OF this c] obtain t' where "tenant_of (snd ?c) ''acme'' = Some t'"
    "tr_policy_version t' = 2" "tr_revision t' = 2" by (auto simp: new_tenant_def)
  moreover have "map_option tr_id (tenant_of (snd ?c) ''acme'') = Some 1"
    "map_option tr_key (tenant_of (snd ?c) ''acme'') = Some ''acme''" by code_simp+
  ultimately show ?thesis by simp
qed

text \<open>After the write the tables have the edge and the cache of its subject is empty.\<close>

lemma relationship_created:
  assumes "wf_tenants w" "create_relationship world_relationships key edge w = (Inr i, w')"
  obtains t where "wf_tenants w'" "tenant_of w' key = Some t"
    "memory_look (w_cache w') (relationship_cache_key (tr_id t) (rr_subject_type edge) (rr_subject_id edge)) = None"
    "\<exists>row \<in> set (db_relationships (w_db w')). rel_tenant row = tr_id t \<and> rel_edge row = edge"
proof -
  let ?st = "rr_subject_type edge" and ?sid = "rr_subject_id edge"
  obtain t w1 where w1: "tp_get_or_create world_tenants key w = (Inr t, w1)" "wf_tenants w1" "tr_key t = key"
    "tenant_of w1 = (tenant_of w)(key := Some t)" using tenants.get_law [OF assms(1), of key] by blast
  let ?ck = "relationship_cache_key (tr_id t) ?st ?sid"
  from assms(2) w1(1,3) obtain w2 w3 w4 n4 w5 n5 where
    w2: "on_db (create_relationship_row (tr_id t) edge) w1 = (Inr i, w2)"
    and w3: "relationship_cache_invalidate world_cache (tr_id t) ?st ?sid w2 = (Inr (), w3)"
    and w4: "index_cache_invalidate_tenant world_cache (tr_id t) w3 = (Inr (), w4)"
    and w5: "bump_namespace world_cache key w4 = (Inr n4, w5)"
    and w6: "bump_revision world_tenants key w5 = (Inr n5, w')"
    by (auto simp: create_relationship_def world_relationships_def bnd_Inr_iff)
  have c3: "memory_look (w_cache w3) ?ck = None"
    using shared_cache.relationship_cache_forgets [of "tr_id t" ?st ?sid w2] w3 by auto
  from w4 obtain n where "co_incr world_cache (index_tenant_key (tr_id t)) w3 = (Inr n, w4)"
    by (auto simp: index_cache_invalidate_tenant_def bnd_Inr_iff)
  then have c4: "memory_look (w_cache w4) ?ck = None" "w_db w4 = w_db w3"
    using world_incr_keeps [of "index_tenant_key (tr_id t)" w3 n w4 ?ck] world_incr_frame c3
    by (auto simp: index_tenant_key_def relationship_cache_key_def)
  have c5: "memory_look (w_cache w5) ?ck = None" "w_db w5 = w_db w4"
    using world_incr_keeps [of "decision_namespace_key key" w4 n4 w5 ?ck] w5 c4(1)
      world_incr_frame [of "decision_namespace_key key" w4 "Inr n4" w5]
    by (auto simp: bump_namespace_def decision_namespace_key_def relationship_cache_key_def)
  have c6: "memory_look (w_cache w') ?ck = None" using c5(1) bump_revision_frame [OF w6] by simp
  have db2: "db_tenants (w_db w2) = db_tenants (w_db w1)" "db_next_id (w_db w1) \<le> db_next_id (w_db w2)"
    "\<exists>row \<in> set (db_relationships (w_db w2)). rel_tenant row = tr_id t \<and> rel_edge row = edge"
    using w2 by (auto simp: on_db_def create_relationship_row_def split: if_splits)
  have "w_db w3 = w_db w2"
    using w3 by (auto simp: relationship_cache_invalidate_def world_cache_def dest!: on_cache_frame)
  then have db5: "w_db w5 = w_db w2" using c4(2) c5(2) by simp
  have "wf_tenants w2" "tenant_of w2 = tenant_of w1"
    using w1(2) db2(1,2) by (auto simp: wf_tenants_def tenant_of_def fun_eq_iff)
  then have wf5: "wf_tenants w5" "tenant_of w5 key = Some t" using wf_tenants_db [OF db5] w1(4) by auto
  obtain t6 v6 where "bump_revision world_tenants key w5 = (Inr (tr_revision t6 + 1), v6)" "wf_tenants v6"
    "tenant_of v6 = (tenant_of w5)(key := Some (t6\<lparr>tr_revision := tr_revision t6 + 1\<rparr>))"
    "tenant_of w5 key = None \<or> tenant_of w5 key = Some t6"
    using tenants.bump_revision_eff [OF wf5(1)] by blast
  then have wf6: "wf_tenants w'" "tenant_of w' key = Some (t\<lparr>tr_revision := tr_revision t + 1\<rparr>)"
    using w6 wf5(2) by auto
  have "db_relationships (w_db w') = db_relationships (w_db w2)"
    using bump_revision_keeps_relationships [OF w6] db5 by simp
  then show thesis
    using that [OF wf6] c6 db2(3) by simp
qed

text \<open>A subject whose list is not cached is read from the tables.\<close>

lemma uncached_relationships_listed:
  assumes "wf_tenants w" "tenant_of w key = Some t" "memory_look (w_cache w) (relationship_cache_key (tr_id t) st sid) = None"
  shows "\<exists>rs w'. list_relationships world_relationships key st sid w = (Inr (map relationship_to_dict rs), w')
    \<and> rs = map rel_edge (sort_key subject_order (subject_rows (w_db w) (tr_id t) st sid))"
proof -
  obtain w7 where w7: "tp_get_or_create world_tenants key w = (Inr t, w7)"
    using tenants.get_law [OF assms(1), of key] assms(2) by auto
  have "memory_look (w_cache w7) (relationship_cache_key (tr_id t) st sid) = None" using assms(3) tenants_frame(1) [OF w7] by simp
  then obtain w8 where w8: "relationship_cache_get world_cache (tr_id t) st sid w7 = (Inr None, w8)" "w_db w8 = w_db w7"
    using shared_cache.get_law [of "relationship_cache_key (tr_id t) st sid" w7]
    by (auto simp: relationship_cache_get_def read_rows_def world_cache_def on_cache_def split: prod.splits)
  let ?rs = "map rel_edge (sort_key subject_order (subject_rows (w_db w) (tr_id t) st sid))"
  have "subject_rows (w_db w8) (tr_id t) st sid = subject_rows (w_db w) (tr_id t) st sid"
    using w8(2) tenants_keep_relationships(1) [OF w7] by (simp add: subject_rows_def)
  then have rs: "on_db (list_for_subject (tr_id t) st sid) w8 = (Inr ?rs, w8)"
    by (simp add: on_db_def list_for_subject_def)
  obtain w9 where "relationship_cache_set world_cache 30 (tr_id t) st sid ?rs w8 = (Inr (), w9)"
    using shared_cache.set_law by (fastforce simp: relationship_cache_set_def)
  with rs w8(1) w7 show ?thesis
    by (simp add: list_relationships_def world_relationships_def)
qed

text \<open>
  C14. A relationship is read by the next reader: after \<open>create_relationship\<close> returns, listing the
  relationships of its subject gives a list with the new edge, whatever was cached for it before.
\<close>

theorem relationship_write_is_read:
  assumes "wf_tenants w" "create_relationship world_relationships key edge w = (Inr i, w')"
  shows "\<exists>rows. fst (list_relationships world_relationships key (rr_subject_type edge) (rr_subject_id edge) w') = Inr rows
    \<and> relationship_to_dict edge \<in> set rows"
proof -
  obtain t where t: "wf_tenants w'" "tenant_of w' key = Some t"
    "memory_look (w_cache w') (relationship_cache_key (tr_id t) (rr_subject_type edge) (rr_subject_id edge)) = None"
    "\<exists>row \<in> set (db_relationships (w_db w')). rel_tenant row = tr_id t \<and> rel_edge row = edge"
    by (rule relationship_created [OF assms])
  from uncached_relationships_listed [OF t(1-3)] t(4) show ?thesis
    by (auto simp: subject_rows_def)
qed

theorem relationship_write_is_read_witness:
  "\<exists>rows. fst (list_relationships world_relationships ''acme'' ''user'' ''7''
      (snd (create_relationship world_relationships ''acme'' (demo_edge ''d1'') one_tenant))) = Inr rows
    \<and> relationship_to_dict (demo_edge ''d1'') \<in> set rows"
proof -
  have "wf_tenants one_tenant" "fst (create_relationship world_relationships ''acme'' (demo_edge ''d1'') one_tenant) = Inr 2"
    by code_simp+
  then show ?thesis
    using relationship_write_is_read [of one_tenant "''acme''" "demo_edge ''d1''" 2
      "snd (create_relationship world_relationships ''acme'' (demo_edge ''d1'') one_tenant)"]
    by (simp add: demo_edge_def prod_eq_iff)
qed

end
