(* ===== verification/Identity.thy ===== *)
theory Identity
  imports Services
begin

text \<open>
  Users, roles and permissions (\<open>infrastructure/repositories/users.py\<close>, \<open>api/routes/roles.py\<close>,
  \<open>api/routes/permissions.py\<close>), and the authorization models of the tenants
  (\<open>infrastructure/repositories/auth_models.py\<close>, \<open>api/routes/auth_model.py\<close>). A handler is the call it
  makes on the world once the role of the caller is checked; its HTTP response is the value returned.
\<close>

section \<open>User contexts\<close>

definition roles_of_user :: "database \<Rightarrow> int \<Rightarrow> role_row list" where
  "roles_of_user db user_id = filter (\<lambda>r. (user_id, ro_id r) \<in> set (db_user_roles db)) (db_roles db)"

definition permissions_of_role :: "database \<Rightarrow> int \<Rightarrow> permission_row list" where
  "permissions_of_role db role_id =
     filter (\<lambda>p. (role_id, pe_id p) \<in> set (db_role_permissions db)) (db_permissions db)"

definition user_role_names :: "database \<Rightarrow> int \<Rightarrow> string list" where
  "user_role_names db user_id = sorted_set (map ro_name (roles_of_user db user_id))"

definition user_permissions :: "database \<Rightarrow> int \<Rightarrow> string list" where
  "user_permissions db user_id =
     sorted_set (concat (map (\<lambda>r. map pe_action (permissions_of_role db (ro_id r))) (roles_of_user db user_id)))"

definition user_context :: "database \<Rightarrow> int \<Rightarrow> pydict" where
  "user_context db user_id = (let roles = user_role_names db user_id in
     [(''id'', PInt user_id), (''role'', case roles of [] \<Rightarrow> PNone | r # _ \<Rightarrow> PStr r),
      (''roles'', PList (map PStr roles)), (''permissions'', PList (map PStr (user_permissions db user_id)))])"

definition get_user_context :: "int \<Rightarrow> (database, pydict option) eff" where
  "get_user_context user_id db =
     (Inr (if list_ex (\<lambda>u. us_id u = user_id) (db_users db) then Some (user_context db user_id) else None), db)"

definition list_user_ids :: "(database, int list) eff" where
  "list_user_ids db = (Inr (sort (map us_id (db_users db))), db)"

definition get_user_contexts :: "int list \<Rightarrow> (database, (int \<times> pydict) list) eff" where
  "get_user_contexts user_ids db = (Inr (if user_ids = [] then []
     else map (\<lambda>u. (us_id u, user_context db (us_id u))) (filter (\<lambda>u. us_id u \<in> set user_ids) (db_users db))), db)"

section \<open>Roles\<close>

definition is_sql_error :: "exn \<Rightarrow> bool" where
  "is_sql_error e = (case e of OperationalError _ \<Rightarrow> True | IntegrityError _ \<Rightarrow> True | _ \<Rightarrow> False)"

definition db_error :: exn where
  "db_error = ApiError 500 DATABASE_ERROR ''db error'' []"

definition not_found :: "string \<Rightarrow> exn" where
  "not_found what = ApiError 404 NOT_FOUND (what @ '' not found'') []"

definition conflict :: "string \<Rightarrow> exn" where
  "conflict what = ApiError 409 CONFLICT (what @ '' already exists'') []"

text \<open>The end of every write: drop the access index, count the caller's tenant up.\<close>

definition committed :: "string \<Rightarrow> (world, unit) eff" where
  "committed tenant_key = bnd (index_cache_invalidate_global world_cache) (\<lambda>_.
     bnd (bump_revision world_tenants tenant_key) (\<lambda>_. ret ()))"

definition write_then_commit :: "string \<Rightarrow> (database \<Rightarrow> database) \<Rightarrow> (world, unit) eff" where
  "write_then_commit tenant_key f =
     catch (bnd (on_db (\<lambda>db. (Inr (), f db))) (\<lambda>_. committed tenant_key)) is_sql_error (\<lambda>_. throw db_error)"

definition find_role :: "database \<Rightarrow> int \<Rightarrow> role_row option" where
  "find_role db role_id = find (\<lambda>r. ro_id r = role_id) (db_roles db)"

definition find_permission :: "database \<Rightarrow> int \<Rightarrow> permission_row option" where
  "find_permission db permission_id = find (\<lambda>p. pe_id p = permission_id) (db_permissions db)"

definition insert_role :: "string \<Rightarrow> database \<Rightarrow> database" where
  "insert_role name db = db\<lparr>db_roles := db_roles db @ [\<lparr>ro_id = db_next_id db, ro_name = name\<rparr>],
     db_next_id := db_next_id db + 1\<rparr>"

definition rename_role :: "int \<Rightarrow> string \<Rightarrow> database \<Rightarrow> database" where
  "rename_role role_id name db =
     db\<lparr>db_roles := map (\<lambda>r. if ro_id r = role_id then r\<lparr>ro_name := name\<rparr> else r) (db_roles db)\<rparr>"

definition remove_role :: "int \<Rightarrow> database \<Rightarrow> database" where
  "remove_role role_id db = db\<lparr>
     db_role_permissions := filter (\<lambda>(r, p). r \<noteq> role_id) (db_role_permissions db),
     db_user_roles := filter (\<lambda>(u, r). r \<noteq> role_id) (db_user_roles db),
     db_roles := filter (\<lambda>r. ro_id r \<noteq> role_id) (db_roles db)\<rparr>"

definition create_role :: "string \<Rightarrow> string \<Rightarrow> (world, int \<times> string) eff" where
  "create_role tenant_key name w =
     (if list_ex (\<lambda>r. ro_name r = name) (db_roles (w_db w)) then throw (conflict ''role'') w
      else bnd (write_then_commit tenant_key (insert_role name)) (\<lambda>_. ret (db_next_id (w_db w), name)) w)"

definition update_role :: "string \<Rightarrow> int \<Rightarrow> string \<Rightarrow> (world, int \<times> string) eff" where
  "update_role tenant_key role_id name w =
     (if find_role (w_db w) role_id = None then throw (not_found ''role'') w
      else if list_ex (\<lambda>r. ro_name r = name \<and> ro_id r \<noteq> role_id) (db_roles (w_db w)) then throw (conflict ''role'') w
      else bnd (write_then_commit tenant_key (rename_role role_id name)) (\<lambda>_. ret (role_id, name)) w)"

text \<open>
  The permissions and users of the role are loaded with it (\<open>joinedload\<close>), and its links are deleted by a
  statement of their own. When the session then deletes the role, it deletes the links of what was loaded
  once more; that affects no row, for which SQLAlchemy raises \<open>StaleDataError\<close>, a \<open>SQLAlchemyError\<close>, and the
  transaction is rolled back.
\<close>

definition loaded_links :: "database \<Rightarrow> int \<Rightarrow> bool" where
  "loaded_links db role_id = (permissions_of_role db role_id \<noteq> []
     \<or> list_ex (\<lambda>u. (us_id u, role_id) \<in> set (db_user_roles db)) (db_users db))"

definition delete_role :: "string \<Rightarrow> int \<Rightarrow> (world, int) eff" where
  "delete_role tenant_key role_id w =
     (if find_role (w_db w) role_id = None then throw (not_found ''role'') w
      else if loaded_links (w_db w) role_id then throw db_error w
      else bnd (write_then_commit tenant_key (remove_role role_id)) (\<lambda>_. ret role_id) w)"

definition bad_limit :: exn where
  "bad_limit = ApiError 422 VALIDATION_ERROR ''limit must be between 1 and 100'' []"

definition after_named_cursor :: "string \<Rightarrow> pydict \<Rightarrow> (string \<times> int \<Rightarrow> bool) result" where
  "after_named_cursor field c = ebind (cursor_text c field) (\<lambda>name. ebind (cursor_int c ''id'') (\<lambda>i.
     Inr (\<lambda>(n, j). n > name \<or> (n = name \<and> j > i))))"

text \<open>A page of (name, id) rows in that order, and the cursor of the next one.\<close>

definition named_page :: "string \<Rightarrow> (string \<times> int) list \<Rightarrow> int \<Rightarrow> pydict option
    \<Rightarrow> ((string \<times> int) list \<times> pydict option) result" where
  "named_page field rows limit cursor =
     (if limit < 1 \<or> limit > 100 then Inl bad_limit
      else ebind (case cursor of None \<Rightarrow> Inr (\<lambda>_. True) | Some c \<Rightarrow> after_named_cursor field c) (\<lambda>keep.
        let (page, has_next) = page_of (nat limit) (sort (filter keep rows)) in
        Inr (page, if has_next \<and> page \<noteq> []
          then Some [(field, PStr (fst (last page))), (''id'', PInt (snd (last page)))] else None)))"

definition list_roles :: "int \<Rightarrow> pydict option \<Rightarrow> (world, (string \<times> int) list \<times> pydict option) eff" where
  "list_roles limit cursor w =
     (named_page ''name'' (map (\<lambda>r. (ro_name r, ro_id r)) (db_roles (w_db w))) limit cursor, w)"

text \<open>The links of a role; the query names no order, the order of the table is taken.\<close>

definition list_role_permissions :: "int \<Rightarrow> (world, permission_row list) eff" where
  "list_role_permissions role_id w =
     (if find_role (w_db w) role_id = None then throw (not_found ''role'') w
      else (Inr (permissions_of_role (w_db w) role_id), w))"

definition add_permission_to_role :: "string \<Rightarrow> int \<Rightarrow> int \<Rightarrow> (world, unit) eff" where
  "add_permission_to_role tenant_key role_id permission_id w =
     (if find_role (w_db w) role_id = None then throw (not_found ''role'') w
      else if find_permission (w_db w) permission_id = None then throw (not_found ''permission'') w
      else if (role_id, permission_id) \<in> set (db_role_permissions (w_db w)) then (Inr (), w)
      else write_then_commit tenant_key
        (\<lambda>db. db\<lparr>db_role_permissions := db_role_permissions db @ [(role_id, permission_id)]\<rparr>) w)"

definition remove_permission_from_role :: "string \<Rightarrow> int \<Rightarrow> int \<Rightarrow> (world, unit) eff" where
  "remove_permission_from_role tenant_key role_id permission_id w =
     (if find_role (w_db w) role_id = None then throw (not_found ''role'') w
      else if find_permission (w_db w) permission_id = None then throw (not_found ''permission'') w
      else if (role_id, permission_id) \<notin> set (db_role_permissions (w_db w)) then (Inr (), w)
      else write_then_commit tenant_key
        (\<lambda>db. db\<lparr>db_role_permissions := filter (\<lambda>l. l \<noteq> (role_id, permission_id)) (db_role_permissions db)\<rparr>) w)"

section \<open>Permissions\<close>

definition insert_permission :: "string \<Rightarrow> database \<Rightarrow> database" where
  "insert_permission action db = db\<lparr>db_permissions := db_permissions db @ [\<lparr>pe_id = db_next_id db, pe_action = action\<rparr>],
     db_next_id := db_next_id db + 1\<rparr>"

definition rename_permission :: "int \<Rightarrow> string \<Rightarrow> database \<Rightarrow> database" where
  "rename_permission permission_id action db =
     db\<lparr>db_permissions := map (\<lambda>p. if pe_id p = permission_id then p\<lparr>pe_action := action\<rparr> else p) (db_permissions db)\<rparr>"

definition remove_permission :: "int \<Rightarrow> database \<Rightarrow> database" where
  "remove_permission permission_id db = db\<lparr>
     db_role_permissions := filter (\<lambda>(r, p). p \<noteq> permission_id) (db_role_permissions db),
     db_permissions := filter (\<lambda>p. pe_id p \<noteq> permission_id) (db_permissions db)\<rparr>"

definition create_permission :: "string \<Rightarrow> string \<Rightarrow> (world, int \<times> string) eff" where
  "create_permission tenant_key action w =
     (if list_ex (\<lambda>p. pe_action p = action) (db_permissions (w_db w)) then throw (conflict ''permission'') w
      else bnd (write_then_commit tenant_key (insert_permission action)) (\<lambda>_. ret (db_next_id (w_db w), action)) w)"

definition update_permission :: "string \<Rightarrow> int \<Rightarrow> string \<Rightarrow> (world, int \<times> string) eff" where
  "update_permission tenant_key permission_id action w =
     (if find_permission (w_db w) permission_id = None then throw (not_found ''permission'') w
      else if list_ex (\<lambda>p. pe_action p = action \<and> pe_id p \<noteq> permission_id) (db_permissions (w_db w))
      then throw (conflict ''permission'') w
      else bnd (write_then_commit tenant_key (rename_permission permission_id action)) (\<lambda>_. ret (permission_id, action)) w)"

definition delete_permission :: "string \<Rightarrow> int \<Rightarrow> (world, int) eff" where
  "delete_permission tenant_key permission_id w =
     (if find_permission (w_db w) permission_id = None then throw (not_found ''permission'') w
      else bnd (write_then_commit tenant_key (remove_permission permission_id)) (\<lambda>_. ret permission_id) w)"

definition list_permissions :: "int \<Rightarrow> pydict option \<Rightarrow> (world, (string \<times> int) list \<times> pydict option) eff" where
  "list_permissions limit cursor w =
     (named_page ''action'' (map (\<lambda>p. (pe_action p, pe_id p)) (db_permissions (w_db w))) limit cursor, w)"

definition list_permission_roles :: "int \<Rightarrow> (world, role_row list) eff" where
  "list_permission_roles permission_id w =
     (if find_permission (w_db w) permission_id = None then throw (not_found ''permission'') w
      else (Inr (filter (\<lambda>r. (ro_id r, permission_id) \<in> set (db_role_permissions (w_db w))) (db_roles (w_db w))), w))"

section \<open>Authorization models\<close>

definition get_model :: "int \<Rightarrow> (database, model_row option) eff" where
  "get_model tenant_id db = (Inr (find (\<lambda>m. mo_tenant m = tenant_id) (db_models db)), db)"

definition upsert_model :: "int \<Rightarrow> string \<Rightarrow> pydict \<Rightarrow> pydict \<Rightarrow> (database, model_row) eff" where
  "upsert_model tenant_id schema_text schema_json compiled_json db =
     (case find (\<lambda>m. mo_tenant m = tenant_id) (db_models db) of
        None \<Rightarrow> (let row = \<lparr>mo_id = db_next_id db, mo_tenant = tenant_id, mo_schema_text = schema_text,
                    mo_schema_json = schema_json, mo_compiled_json = compiled_json\<rparr>
                 in (Inr row, db\<lparr>db_models := db_models db @ [row], db_next_id := db_next_id db + 1\<rparr>))
      | Some m \<Rightarrow> (let row = m\<lparr>mo_schema_text := schema_text, mo_schema_json := schema_json,
                    mo_compiled_json := compiled_json\<rparr>
                 in (Inr row, db\<lparr>db_models := map (\<lambda>x. if mo_tenant x = tenant_id then row else x) (db_models db)\<rparr>)))"

definition schema_summary :: "authorization_schema \<Rightarrow> pydict" where
  "schema_summary sch =
     [(''version'', PInt (sch_version sch)), (''types'', PList (map PStr (sch_types sch))),
      (''relations'', PDict (map (\<lambda>(n, ss). (n, PList (map PStr ss))) (sch_relations sch))),
      (''permissions'', PDict (map (\<lambda>(n, _). (n, PStr n)) (sch_permissions sch)))]"

definition models_set :: "string \<Rightarrow> permission_graph \<Rightarrow> (world, unit) eff" where
  "models_set tenant_key g w = (Inr (), w\<lparr>w_models := model_store_set (w_models w) tenant_key g\<rparr>)"

text \<open>\<open>except ValueError\<close> (which the attribute errors are) and \<open>except SQLAlchemyError\<close>\<close>

definition is_value_error :: "exn \<Rightarrow> bool" where
  "is_value_error e = (case e of ValueError _ \<Rightarrow> True | AttributeValidationError _ \<Rightarrow> True | _ \<Rightarrow> False)"

definition api_errors :: "exn \<Rightarrow> exn" where
  "api_errors e = (if is_value_error e then ApiError 422 VALIDATION_ERROR (exn_text e) [] else db_error)"

definition create_auth_model :: "string \<Rightarrow> string \<Rightarrow> (world, model_row) eff" where
  "create_auth_model tenant_key schema_text =
     bnd (on_db (tenant_get_or_create tenant_key)) (\<lambda>tenant.
     catch
       (bnd (lift (parse_authorization_schema schema_text)) (\<lambda>sch.
        bnd (lift (validate_authorization_schema sch)) (\<lambda>_.
        bnd (lift (compile_schema sch)) (\<lambda>compiled.
        bnd (on_db (upsert_model (tr_id tenant) schema_text (schema_summary sch) (model_to_dict compiled))) (\<lambda>record.
        bnd (models_set tenant_key \<lparr>pg_tenant_key = tenant_key, pg_model = compiled\<rparr>) (\<lambda>_.
        bnd (bump_revision world_tenants tenant_key) (\<lambda>_. ret record)))))))
       (\<lambda>e. is_value_error e \<or> is_sql_error e) (\<lambda>e. throw (api_errors e)))"

definition get_auth_model :: "string \<Rightarrow> (world, model_row) eff" where
  "get_auth_model tenant_key = bnd (on_db (tenant_get_or_create tenant_key)) (\<lambda>tenant.
     bnd (on_db (get_model (tr_id tenant))) (\<lambda>record. case record of
       None \<Rightarrow> throw (not_found ''auth model'') | Some m \<Rightarrow> ret m))"

section \<open>The tables stay well formed\<close>

definition rbac_tables :: "database \<Rightarrow> user_row list \<times> role_row list \<times> permission_row list \<times> (int \<times> int) list \<times> (int \<times> int) list"
where
  "rbac_tables db = (db_users db, db_roles db, db_permissions db, db_user_roles db, db_role_permissions db)"

text \<open>
  Ids and names are unique and ids were handed out before; in the strict sense also every link leads to a
  role and a permission that exist.
\<close>

definition rbac_ok :: "bool \<Rightarrow> database \<Rightarrow> bool" where
  "rbac_ok strict db = (distinct (map ro_id (db_roles db)) \<and> distinct (map ro_name (db_roles db))
     \<and> distinct (map pe_id (db_permissions db)) \<and> distinct (map pe_action (db_permissions db))
     \<and> (\<forall>r \<in> set (db_roles db). ro_id r < db_next_id db) \<and> (\<forall>p \<in> set (db_permissions db). pe_id p < db_next_id db)
     \<and> (strict \<longrightarrow> (\<forall>l \<in> set (db_user_roles db). snd l \<in> ro_id ` set (db_roles db))
         \<and> (\<forall>l \<in> set (db_role_permissions db). fst l \<in> ro_id ` set (db_roles db) \<and> snd l \<in> pe_id ` set (db_permissions db))))"

lemma rbac_ok_cong:
  "rbac_tables db' = rbac_tables db \<Longrightarrow> db_next_id db \<le> db_next_id db' \<Longrightarrow> rbac_ok strict db \<Longrightarrow> rbac_ok strict db'"
  by (fastforce simp: rbac_ok_def rbac_tables_def)

definition same_rbac :: "database \<Rightarrow> world \<Rightarrow> bool" where
  "same_rbac db w = (rbac_tables (w_db w) = rbac_tables db \<and> db_next_id db \<le> db_next_id (w_db w))"

lemma same_rbac_refl [simp]: "same_rbac (w_db w) w"
  by (simp add: same_rbac_def)

lemma committed_same: "preserves (same_rbac db) (committed tenant_key)"
proof -
  have cache: "preserves (same_rbac db) (on_cache m)" for m :: "(memory_backend, 'x) eff"
    by (simp add: preserves_def on_cache_def same_rbac_def split: prod.split)
  have get: "preserves (same_rbac db) (on_db (tenant_get_or_create k))" for k
    by (auto simp: preserves_def on_db_def tenant_get_or_create_def same_rbac_def rbac_tables_def Let_def split: option.split)
  have bump: "preserves (same_rbac db) (on_db (tenant_bump_revision t))" for t
    by (auto simp: preserves_def on_db_def tenant_bump_revision_def update_tenant_def same_rbac_def rbac_tables_def
        split: option.split)
  show ?thesis
    unfolding committed_def index_cache_invalidate_global_def bump_revision_def
    by (simp add: world_cache_def world_tenants_def) (intro preserves_rules cache get bump)
qed

lemma write_then_commit_same: "same_rbac (f (w_db w)) (snd (write_then_commit tenant_key f w))"
proof -
  have "preserves (same_rbac (f (w_db w))) (catch (committed tenant_key) is_sql_error (\<lambda>_. throw db_error))"
    by (intro preserves_rules committed_same)
  then have "same_rbac (f (w_db w)) (snd (catch (committed tenant_key) is_sql_error (\<lambda>_. throw db_error)
      (w\<lparr>w_db := f (w_db w)\<rparr>)))"
    by (rule preserves_D) (simp add: same_rbac_def)
  moreover have "write_then_commit tenant_key f w
      = catch (committed tenant_key) is_sql_error (\<lambda>_. throw db_error) (w\<lparr>w_db := f (w_db w)\<rparr>)"
    by (simp add: write_then_commit_def catch_def bnd_def on_db_def)
  ultimately show ?thesis by simp
qed

lemma write_then_commit_ok: "rbac_ok strict (f (w_db w)) \<Longrightarrow> rbac_ok strict (w_db (snd (write_then_commit tenant_key f w)))"
  using write_then_commit_same [of f w tenant_key] by (auto simp: same_rbac_def intro: rbac_ok_cong)

lemma then_ret_ok: "rbac_ok strict (w_db (snd (m w))) \<Longrightarrow> rbac_ok strict (w_db (snd (bnd m (\<lambda>_. ret x) w)))"
  by (cases "m w"; cases "fst (m w)") auto

text \<open>One lemma per write on the tables.\<close>

lemma insert_role_ok: "rbac_ok strict db \<Longrightarrow> \<not> list_ex (\<lambda>r. ro_name r = name) (db_roles db) \<Longrightarrow> rbac_ok strict (insert_role name db)"
  by (fastforce simp: rbac_ok_def insert_role_def list_ex_iff)

lemma insert_permission_ok:
  "rbac_ok strict db \<Longrightarrow> \<not> list_ex (\<lambda>p. pe_action p = action) (db_permissions db) \<Longrightarrow> rbac_ok strict (insert_permission action db)"
  by (fastforce simp: rbac_ok_def insert_permission_def list_ex_iff)

lemma distinct_rename:
  assumes "distinct (map f xs)" "distinct (map g xs)" "\<forall>x \<in> set xs. g x = new \<longrightarrow> f x = i"
    and "\<And>x. f (h x) = f x" "\<And>x. g (h x) = new"
  shows "distinct (map g (map (\<lambda>x. if f x = i then h x else x) xs))"
  using assms(1-3)
proof (induction xs)
  case (Cons x xs)
  have "g (if f x = i then h x else x) \<noteq> g (if f y = i then h y else y)" if "y \<in> set xs" for y
  proof -
    from Cons.prems(1,2) have "f x \<notin> f ` set xs" "g x \<notin> g ` set xs" by simp_all
    with that have "f y \<noteq> f x" and "g y \<noteq> g x" by (metis imageI)+
    then show ?thesis using Cons.prems(3) that assms(5) by (cases "f x = i"; cases "f y = i") force+
  qed
  then have "g (if f x = i then h x else x) \<notin> (\<lambda>y. g (if f y = i then h y else y)) ` set xs" by blast
  moreover have "distinct (map (g \<circ> (\<lambda>x. if f x = i then h x else x)) xs)" using Cons by simp
  ultimately show ?case by (auto simp: o_def)
qed simp

lemma rename_role_ok:
  assumes "rbac_ok strict db" "\<not> list_ex (\<lambda>r. ro_name r = name \<and> ro_id r \<noteq> i) (db_roles db)"
  shows "rbac_ok strict (rename_role i name db)"
proof -
  have ids: "map ro_id (db_roles (rename_role i name db)) = map ro_id (db_roles db)"
    by (simp add: rename_role_def)
  then have "ro_id ` set (db_roles (rename_role i name db)) = ro_id ` set (db_roles db)" by (metis set_map)
  note ids = ids this
  have "distinct (map ro_name (db_roles (rename_role i name db)))"
    using assms by (simp add: rename_role_def rbac_ok_def list_ex_iff del: map_map) (rule distinct_rename; force)
  moreover have "\<forall>r \<in> set (db_roles (rename_role i name db)). ro_id r < db_next_id db"
    using assms(1) by (auto simp: rename_role_def rbac_ok_def)
  moreover have "db_permissions (rename_role i name db) = db_permissions db"
    "db_user_roles (rename_role i name db) = db_user_roles db"
    "db_role_permissions (rename_role i name db) = db_role_permissions db"
    "db_next_id (rename_role i name db) = db_next_id db"
    by (simp_all add: rename_role_def)
  ultimately show ?thesis using assms(1) ids by (simp add: rbac_ok_def)
qed

lemma rename_permission_ok:
  assumes "rbac_ok strict db" "\<not> list_ex (\<lambda>p. pe_action p = action \<and> pe_id p \<noteq> i) (db_permissions db)"
  shows "rbac_ok strict (rename_permission i action db)"
proof -
  have ids: "map pe_id (db_permissions (rename_permission i action db)) = map pe_id (db_permissions db)"
    by (simp add: rename_permission_def)
  then have "pe_id ` set (db_permissions (rename_permission i action db)) = pe_id ` set (db_permissions db)" by (metis set_map)
  note ids = ids this
  have "distinct (map pe_action (db_permissions (rename_permission i action db)))"
    using assms by (simp add: rename_permission_def rbac_ok_def list_ex_iff del: map_map) (rule distinct_rename; force)
  moreover have "\<forall>p \<in> set (db_permissions (rename_permission i action db)). pe_id p < db_next_id db"
    using assms(1) by (auto simp: rename_permission_def rbac_ok_def)
  moreover have "db_roles (rename_permission i action db) = db_roles db"
    "db_user_roles (rename_permission i action db) = db_user_roles db"
    "db_role_permissions (rename_permission i action db) = db_role_permissions db"
    "db_next_id (rename_permission i action db) = db_next_id db"
    by (simp_all add: rename_permission_def)
  ultimately show ?thesis using assms(1) ids by (simp add: rbac_ok_def)
qed

lemma remove_role_ok: "rbac_ok strict db \<Longrightarrow> rbac_ok strict (remove_role i db)"
  by (auto simp: rbac_ok_def remove_role_def distinct_map_filter)

lemma remove_permission_ok: "rbac_ok strict db \<Longrightarrow> rbac_ok strict (remove_permission i db)"
  by (auto simp: rbac_ok_def remove_permission_def distinct_map_filter)

lemma link_ok:
  "rbac_ok strict db \<Longrightarrow> find_role db r \<noteq> None \<Longrightarrow> find_permission db p \<noteq> None \<Longrightarrow>
   rbac_ok strict (db\<lparr>db_role_permissions := db_role_permissions db @ [(r, p)]\<rparr>)"
  by (auto simp: rbac_ok_def find_role_def find_permission_def find_Some_iff2 image_iff find_Some_iff
      dest!: option.collapse [symmetric] split: option.splits)

lemma unlink_ok: "rbac_ok strict db \<Longrightarrow> rbac_ok strict (db\<lparr>db_role_permissions := filter P (db_role_permissions db)\<rparr>)"
  by (auto simp: rbac_ok_def)

datatype rbac_op = CreateRole string | UpdateRole int string | DeleteRole int | AddLink int int | RemoveLink int int
  | CreatePermission string | UpdatePermission int string | DeletePermission int

fun rbac_call :: "string \<Rightarrow> rbac_op \<Rightarrow> world \<Rightarrow> world" where
  "rbac_call key (CreateRole name) w = snd (create_role key name w)"
| "rbac_call key (UpdateRole i name) w = snd (update_role key i name w)"
| "rbac_call key (DeleteRole i) w = snd (delete_role key i w)"
| "rbac_call key (AddLink r p) w = snd (add_permission_to_role key r p w)"
| "rbac_call key (RemoveLink r p) w = snd (remove_permission_from_role key r p w)"
| "rbac_call key (CreatePermission a) w = snd (create_permission key a w)"
| "rbac_call key (UpdatePermission i a) w = snd (update_permission key i a w)"
| "rbac_call key (DeletePermission i) w = snd (delete_permission key i w)"

lemma rbac_call_ok: "rbac_ok strict (w_db w) \<Longrightarrow> rbac_ok strict (w_db (rbac_call key op w))"
  by (cases op) (simp_all add: create_role_def update_role_def delete_role_def add_permission_to_role_def
      remove_permission_from_role_def create_permission_def update_permission_def delete_permission_def then_ret_ok
      write_then_commit_ok insert_role_ok insert_permission_ok rename_role_ok rename_permission_ok remove_role_ok
      remove_permission_ok link_ok unlink_ok)

text \<open>
  The management handlers keep the role tables well formed: after any sequence of calls by any
  tenants, failed ones included, names and ids are unique and no link dangles that did not before.
\<close>

lemma rbac_tables_invariant:
  assumes "rbac_ok strict (w_db w)"
  shows "rbac_ok strict (w_db (foldl (\<lambda>w (key, op). rbac_call key op w) w calls))"
  using assms by (induction calls arbitrary: w) (auto simp: rbac_call_ok)

definition two_roles :: world where
  "two_roles = empty_world\<lparr>w_db := empty_database\<lparr>db_roles := [\<lparr>ro_id = 1, ro_name = ''admin''\<rparr>, \<lparr>ro_id = 2, ro_name = ''reader''\<rparr>],
     db_permissions := [\<lparr>pe_id = 3, pe_action = ''read''\<rparr>], db_role_permissions := [(1, 3), (2, 3)],
     db_user_roles := [(7, 1), (7, 2)], db_next_id := 4\<rparr>\<rparr>"

lemma rbac_tables_invariant_example:
  "rbac_ok True (w_db (foldl (\<lambda>w (key, op). rbac_call key op w) two_roles
     [(''acme'', CreateRole ''admin''), (''acme'', UpdateRole 2 ''admin''), (''beta'', DeleteRole 1), (''beta'', AddLink 1 3)]))"
  by (rule rbac_tables_invariant) (simp add: two_roles_def rbac_ok_def)

lemma user_permissions_iff:
  "action \<in> set (user_permissions db u) \<longleftrightarrow> (\<exists>r \<in> set (db_roles db). \<exists>p \<in> set (db_permissions db).
     (u, ro_id r) \<in> set (db_user_roles db) \<and> (ro_id r, pe_id p) \<in> set (db_role_permissions db) \<and> pe_action p = action)"
  by (auto simp: user_permissions_def sorted_set_def roles_of_user_def permissions_of_role_def)

lemma user_permissions_same:
  "same_rbac db w \<Longrightarrow> set (user_permissions (w_db w) u) = set (user_permissions db u)"
  by (auto simp: user_permissions_iff same_rbac_def rbac_tables_def)

text \<open>
  A role that gives anyone a permission, or that any existing user has, cannot be deleted: the handler
  answers with a database error and nothing changes. So deleting a role never takes a permission from anyone.
\<close>

lemma linked_role_stays:
  "find_role (w_db w) i \<noteq> None \<Longrightarrow> loaded_links (w_db w) i \<Longrightarrow> delete_role tenant_key i w = (Inl db_error, w)"
  by (auto simp: delete_role_def)

lemma role_deletion_revokes_nothing:
  "set (user_permissions (w_db (snd (delete_role tenant_key i w))) u) = set (user_permissions (w_db w) u)"
proof (cases "find_role (w_db w) i = None \<or> loaded_links (w_db w) i")
  case False
  let ?m = "write_then_commit tenant_key (remove_role i)"
  have "snd (delete_role tenant_key i w) = snd (?m w)"
    using False by (cases "?m w"; cases "fst (?m w)") (auto simp: delete_role_def)
  moreover have "set (user_permissions (remove_role i (w_db w)) u) = set (user_permissions (w_db w) u)"
    using False by (auto simp: set_eq_iff user_permissions_iff remove_role_def loaded_links_def permissions_of_role_def
        filter_empty_conv)
  ultimately show ?thesis
    using user_permissions_same [OF write_then_commit_same [of "remove_role i" w tenant_key], of u] by simp
qed (auto simp: delete_role_def)

end
