(* ===== verification/AccessIndexer.thy ===== *)
theory AccessIndexer
  imports Services Engine
begin

text \<open>
  The access indexer (\<open>services/access_indexer.py\<close>): it gathers the ACL entries and the relationships
  of a resource for an action into index entries, kept in the shared index cache and, for five
  seconds, in a memo of the process. A request that finds only the memo starts a refresh in a
  background thread; a thread is a pending key here, and its run is a step of its own.
\<close>

section \<open>State and collaborators\<close>

type_synonym index_key = "int \<times> string \<times> string \<times> string"

record indexer =
  ix_memo :: "(index_key \<times> int \<times> access_index_entry list) list"
  ix_inflight :: "index_key set"
  ix_threads :: "index_key list"

definition new_indexer :: indexer where
  "new_indexer = \<lparr>ix_memo = [], ix_inflight = {}, ix_threads = []\<rparr>"

text \<open>The caches and repositories on a world, the clock in seconds, and where the world keeps the indexer.\<close>

record 'w index_ports =
  ip_index_get :: "int \<Rightarrow> string \<Rightarrow> string \<Rightarrow> string \<Rightarrow> ('w, access_index_entry list option) eff"
  ip_index_set :: "int \<Rightarrow> string \<Rightarrow> string \<Rightarrow> string \<Rightarrow> access_index_entry list \<Rightarrow> ('w, unit) eff"
  ip_index_invalidate :: "int \<Rightarrow> string \<Rightarrow> string \<Rightarrow> ('w, unit) eff"
  ip_index_invalidate_tenant :: "int \<Rightarrow> ('w, unit) eff"
  ip_acl_get :: "int \<Rightarrow> string \<Rightarrow> string \<Rightarrow> string \<Rightarrow> ('w, acl_record list option) eff"
  ip_acl_set :: "int \<Rightarrow> string \<Rightarrow> string \<Rightarrow> string \<Rightarrow> acl_record list \<Rightarrow> ('w, unit) eff"
  ip_acl_invalidate :: "int \<Rightarrow> string \<Rightarrow> string \<Rightarrow> ('w, unit) eff"
  ip_find_acl :: "int \<Rightarrow> string \<Rightarrow> string \<Rightarrow> string \<Rightarrow> ('w, acl_record list) eff"
  ip_list_for_object :: "int \<Rightarrow> string \<Rightarrow> string \<Rightarrow> ('w, relationship_record list) eff"
  ip_now :: "'w \<Rightarrow> int"
  ip_state :: "'w \<Rightarrow> indexer"
  ip_put :: "indexer \<Rightarrow> 'w \<Rightarrow> 'w"

definition memo_ttl_seconds :: int where
  "memo_ttl_seconds = 5"

section \<open>Index entries\<close>

definition subject_descriptor :: "string \<Rightarrow> string \<Rightarrow> string" where
  "subject_descriptor subject_type subject_id = subject_type @ '':'' @ subject_id"

definition relationship_descriptor :: "relationship_record \<Rightarrow> string" where
  "relationship_descriptor r =
     ''relationship:'' @ rr_relation r @ '':'' @ rr_object_type r @ '':'' @ rr_object_id r"

definition acl_index_entry :: "string \<Rightarrow> string \<Rightarrow> string \<Rightarrow> acl_record \<Rightarrow> access_index_entry" where
  "acl_index_entry resource_type resource_id action acl =
     \<lparr>ie_resource_type = resource_type, ie_resource_id = resource_id, ie_action = action,
      ie_allowed_subjects = [subject_descriptor (ar_subject_type acl) (ar_subject_id acl)], ie_source = ''acl'',
      ie_subject_type = Some (ar_subject_type acl), ie_subject_id = Some (ar_subject_id acl),
      ie_effect = Some (ar_effect acl), ie_acl_id = Some (ar_id acl)\<rparr>"

definition row_descriptor :: "relationship_record \<Rightarrow> string" where
  "row_descriptor row = (if rr_subject_type row \<noteq> ''relationship''
     then subject_descriptor (rr_subject_type row) (rr_subject_id row) else relationship_descriptor row)"

definition relationship_index_entry :: "string \<Rightarrow> string \<Rightarrow> string \<Rightarrow> relationship_record list \<Rightarrow> access_index_entry"
where
  "relationship_index_entry resource_type resource_id action rows =
     \<lparr>ie_resource_type = resource_type, ie_resource_id = resource_id, ie_action = action,
      ie_allowed_subjects = sort (remdups (map row_descriptor rows)), ie_source = ''relationship'',
      ie_subject_type = None, ie_subject_id = None, ie_effect = None, ie_acl_id = None\<rparr>"

definition index_entries :: "string \<Rightarrow> string \<Rightarrow> string \<Rightarrow> acl_record list \<Rightarrow> relationship_record list
    \<Rightarrow> access_index_entry list" where
  "index_entries resource_type resource_id action acls rows =
     map (acl_index_entry resource_type resource_id action) acls
     @ (if rows = [] then [] else [relationship_index_entry resource_type resource_id action rows])"

definition rebuild_resource_index :: "'w index_ports \<Rightarrow> int \<Rightarrow> string \<Rightarrow> string \<Rightarrow> string
    \<Rightarrow> ('w, access_index_entry list) eff" where
  "rebuild_resource_index ip tenant_id resource_type resource_id action =
     bnd (ip_acl_get ip tenant_id resource_type resource_id action) (\<lambda>cached.
     bnd (case cached of Some acls \<Rightarrow> ret acls
          | None \<Rightarrow> bnd (ip_find_acl ip tenant_id resource_type resource_id action) (\<lambda>acls.
              bnd (ip_acl_set ip tenant_id resource_type resource_id action acls) (\<lambda>_. ret acls))) (\<lambda>acls.
     bnd (ip_list_for_object ip tenant_id resource_type resource_id) (\<lambda>rows.
     let entries = index_entries resource_type resource_id action acls rows in
     bnd (ip_index_set ip tenant_id resource_type resource_id action entries) (\<lambda>_. ret entries))))"

section \<open>The memo and the background refresh\<close>

definition update_indexer :: "'w index_ports \<Rightarrow> (indexer \<Rightarrow> indexer) \<Rightarrow> ('w, unit) eff" where
  "update_indexer ip f w = (Inr (), ip_put ip (f (ip_state ip w)) w)"

definition memo_get :: "'w index_ports \<Rightarrow> index_key \<Rightarrow> ('w, access_index_entry list option) eff" where
  "memo_get ip key w = (case dget (ix_memo (ip_state ip w)) key of
     None \<Rightarrow> (Inr None, w)
   | Some (expires_at, entries) \<Rightarrow>
       if expires_at \<le> ip_now ip w
       then (Inr None, ip_put ip ((ip_state ip w)\<lparr>ix_memo := dpop (ix_memo (ip_state ip w)) key\<rparr>) w)
       else (Inr (Some entries), w))"

definition memo_set :: "'w index_ports \<Rightarrow> index_key \<Rightarrow> access_index_entry list \<Rightarrow> ('w, unit) eff" where
  "memo_set ip key entries w =
     update_indexer ip (\<lambda>ix. ix\<lparr>ix_memo := dset (ix_memo ix) key (ip_now ip w + memo_ttl_seconds, entries)\<rparr>) w"

text \<open>Starting a thread adds its key to the pending threads.\<close>

definition schedule_background_refresh :: "'w index_ports \<Rightarrow> index_key \<Rightarrow> ('w, unit) eff" where
  "schedule_background_refresh ip key = update_indexer ip (\<lambda>ix.
     if key \<in> ix_inflight ix then ix
     else ix\<lparr>ix_inflight := insert key (ix_inflight ix), ix_threads := ix_threads ix @ [key]\<rparr>)"

text \<open>
  The body of a refresh thread, \<open>finally\<close> included; the thread ends with it, and an exception of
  the rebuild ends only the thread.
\<close>

definition finish_refresh :: "'w index_ports \<Rightarrow> index_key \<Rightarrow> ('w, unit) eff" where
  "finish_refresh ip key = update_indexer ip (\<lambda>ix.
     ix\<lparr>ix_inflight := ix_inflight ix - {key}, ix_threads := remove1 key (ix_threads ix)\<rparr>)"

definition run_refresh :: "'w index_ports \<Rightarrow> index_key \<Rightarrow> ('w, unit) eff" where
  "run_refresh ip key w = (case key of (tenant_id, resource_type, resource_id, action) \<Rightarrow>
     case bnd (rebuild_resource_index ip tenant_id resource_type resource_id action) (memo_set ip key) w of
       (r, w') \<Rightarrow> (r, snd (finish_refresh ip key w')))"

definition build_resource_index :: "'w index_ports \<Rightarrow> int \<Rightarrow> string \<Rightarrow> string \<Rightarrow> string
    \<Rightarrow> ('w, access_index_entry list) eff" where
  "build_resource_index ip tenant_id resource_type resource_id action =
     (let key = (tenant_id, resource_type, resource_id, action) in
      bnd (ip_index_get ip tenant_id resource_type resource_id action) (\<lambda>cached. case cached of
        Some entries \<Rightarrow> ret entries
      | None \<Rightarrow> bnd (memo_get ip key) (\<lambda>memoized. case memoized of
          Some entries \<Rightarrow> bnd (schedule_background_refresh ip key) (\<lambda>_. ret entries)
        | None \<Rightarrow> bnd (rebuild_resource_index ip tenant_id resource_type resource_id action) (\<lambda>entries.
            bnd (memo_set ip key entries) (\<lambda>_. ret entries)))))"

definition forget :: "(index_key \<Rightarrow> bool) \<Rightarrow> indexer \<Rightarrow> indexer" where
  "forget about ix = ix\<lparr>ix_memo := filter (\<lambda>(key, _). \<not> about key) (ix_memo ix)\<rparr>"

definition invalidate_resource :: "'w index_ports \<Rightarrow> int \<Rightarrow> string \<Rightarrow> string \<Rightarrow> ('w, unit) eff" where
  "invalidate_resource ip tenant_id resource_type resource_id =
     bnd (ip_acl_invalidate ip tenant_id resource_type resource_id) (\<lambda>_.
     bnd (ip_index_invalidate ip tenant_id resource_type resource_id) (\<lambda>_.
       update_indexer ip (forget (\<lambda>(t, ty, rid, _). t = tenant_id \<and> ty = resource_type \<and> rid = resource_id))))"

definition invalidate_tenant :: "'w index_ports \<Rightarrow> int \<Rightarrow> ('w, unit) eff" where
  "invalidate_tenant ip tenant_id =
     bnd (ip_index_invalidate_tenant ip tenant_id) (\<lambda>_. update_indexer ip (forget (\<lambda>(t, _). t = tenant_id)))"

text \<open>\<open>AccessIndexer.subject_descriptors\<close>: unlike the engine it does not read \<open>direct_permissions\<close>.\<close>

definition indexer_subjects :: "pydict \<Rightarrow> string set" where
  "indexer_subjects user = set (
     (if pget user ''id'' \<noteq> PNone then [subject_descriptor ''user'' (py_str (pget user ''id''))] else [])
     @ tagged ''role'' (dget_or user ''roles'' (PList []))
     @ tagged ''permission'' (dget_or user ''permissions'' (PList []))
     @ concat (map relation_descriptor (list_items (dget_or user ''relations'' (PList [])))))"

section \<open>What the engine is given\<close>

text \<open>\<open>tuple(entry.__dict__ ...)\<close> and \<open>{**entry.__dict__, "id": entry.acl_id}\<close> of the ACL entries.\<close>

definition access_entries_of :: "access_index_entry list \<Rightarrow> pydict list" where
  "access_entries_of entries = map index_entry_dict entries"

definition acl_entries_of :: "access_index_entry list \<Rightarrow> pydict list" where
  "acl_entries_of entries = map (\<lambda>e. dunion (index_entry_dict e) [(''id'', oint_val (ie_acl_id e))])
     (filter (\<lambda>e. ie_source e = ''acl'') entries)"

lemmas entry_defs = index_entry_dict_def acl_index_entry_def relationship_index_entry_def acl_to_dict_def
  subject_descriptor_def

lemma acl_entries_of_index:
  "acl_entries_of (index_entries ty rid action acls rows)
     = map (\<lambda>a. dunion (index_entry_dict (acl_index_entry ty rid action a)) [(''id'', PInt (ar_id a))]) acls"
proof -
  have "filter (\<lambda>e. ie_source e = ''acl'') (map (acl_index_entry ty rid action) acls)
      = map (acl_index_entry ty rid action) acls"
    by (simp add: filter_map o_def acl_index_entry_def)
  then show ?thesis
    by (simp add: acl_entries_of_def index_entries_def relationship_index_entry_def acl_index_entry_def o_def)
qed

lemma acl_entry_agrees:
  fixes a :: acl_record and ty rid action :: string
  defines "e \<equiv> dunion (index_entry_dict (acl_index_entry ty rid action a)) [(''id'', PInt (ar_id a))]"
  assumes "ar_resource_type a = ty" "ar_resource_id a = rid" "ar_action a = action"
  shows "acl_matches e ty rid action S = acl_matches (acl_to_dict a) ty rid action S"
    "acl_effect e = acl_effect (acl_to_dict a)" "acl_reason e action ty rid = acl_reason (acl_to_dict a) action ty rid"
    "acl_policy_id e = acl_policy_id (acl_to_dict a)"
  using assms(2-)
  by (simp_all add: e_def dunion_def entry_defs acl_matches_def acl_effect_def acl_reason_def acl_policy_id_def
      dget_or_def)

lemma acl_loop_agrees:
  assumes "\<forall>a \<in> set acls. ar_resource_type a = ty \<and> ar_resource_id a = rid \<and> ar_action a = action"
  shows "acl_loop (map (\<lambda>a. dunion (index_entry_dict (acl_index_entry ty rid action a)) [(''id'', PInt (ar_id a))]) acls)
      ty rid action S m tr = acl_loop (map acl_to_dict acls) ty rid action S m tr"
  using assms
proof (induction acls arbitrary: m tr)
  case (Cons a acls)
  then have a: "ar_resource_type a = ty" "ar_resource_id a = rid" "ar_action a = action" by simp_all
  from Cons show ?case by (simp add: acl_entry_agrees [OF a] Let_def)
qed simp

text \<open>
  C27. The ACL stage sees the ACL table through the index without loss: on the entries the indexer
  builds it runs exactly as on the matching rows of the table in id order.
\<close>

theorem index_carries_acl:
  "acl_loop (acl_entries_of (index_entries ty rid action
       (sort_key ar_id (filter (\<lambda>a. acl_about t ty rid a \<and> ar_action a = action) (db_acl db))) rows))
     ty rid action S m tr
   = acl_loop (map acl_to_dict (sort_key ar_id (filter (\<lambda>a. acl_about t ty rid a \<and> ar_action a = action) (db_acl db))))
       ty rid action S m tr"
  unfolding acl_entries_of_index by (rule acl_loop_agrees) (auto simp: acl_about_def)

lemma index_entry_allows_relationship:
  "index_entry_allows (index_entry_dict (relationship_index_entry ty rid action rows)) ty rid action S
     \<longleftrightarrow> (\<exists>row \<in> set rows. row_descriptor row \<in> S)"
  by (auto simp: index_entry_allows_def entry_defs dget_or_def sequence_items_def list_ex_iff)

lemma index_entry_allows_acl:
  "\<not> index_entry_allows (index_entry_dict (acl_index_entry ty rid action a)) ty rid action' S"
  by (simp add: index_entry_allows_def entry_defs)

text \<open>
  The relationship stage allows an action on a resource exactly when the user, one of its roles or
  permissions, or a relation it holds stands in any relationship to the resource: which relation it
  is, and which action was asked for, play no part.
\<close>

lemma any_relation_grants_any_action:
  assumes "resource_identity (in_resource inp) = (ty, rid)" "ty \<noteq> []" "rid \<noteq> []"
    and "in_index_entries inp = access_entries_of (index_entries ty rid (in_action inp) acls rows)"
  shows "fst (fst (evaluate_relationship_index inp tr S)) = SAllow \<longleftrightarrow> (\<exists>row \<in> set rows. row_descriptor row \<in> S)"
  using assms
  by (auto simp: evaluate_relationship_index_def access_entries_of_def index_entries_def list_ex_iff
      index_entry_allows_relationship index_entry_allows_acl Let_def)

definition viewer_edge :: relationship_record where
  "viewer_edge = \<lparr>rr_subject_type = ''user'', rr_subject_id = ''7'', rr_relation = ''viewer'',
     rr_object_type = ''doc'', rr_object_id = ''1''\<rparr>"

definition delete_request :: authorization_input where
  "delete_request = (plain_input [(''id'', PStr ''7'')] [(''type'', PStr ''doc''), (''id'', PStr ''1'')] ''delete'' [])
     \<lparr>in_index_entries := access_entries_of (index_entries ''doc'' ''1'' ''delete'' [] [viewer_edge])\<rparr>"

lemma any_relation_grants_any_action_example:
  "fst (fst (evaluate_relationship_index delete_request [] (subject_descriptors delete_request))) = SAllow"
proof -
  have id: "resource_identity (in_resource delete_request) = (''doc'', ''1'')"
    by (simp add: delete_request_def plain_input_def resource_identity_def)
  have "row_descriptor viewer_edge \<in> subject_descriptors delete_request"
    by (simp add: row_descriptor_def viewer_edge_def subject_descriptor_def subject_descriptors_def
        delete_request_def plain_input_def Let_def)
  then show ?thesis
    using any_relation_grants_any_action [OF id, of "[]" "[viewer_edge]"]
    by (simp add: delete_request_def plain_input_def)
qed

section \<open>At most one refresh of a key at a time\<close>

text \<open>What the indexer may rely on: its state is its own, no cache and no repository touches it.\<close>

locale index_backend =
  fixes ip :: "'w index_ports"
  assumes state_put [simp]: "ip_state ip (ip_put ip ix w) = ix"
    and frame: "ip_state ip (snd (ip_index_get ip t ty rid a w)) = ip_state ip w"
      "ip_state ip (snd (ip_index_set ip t ty rid a es w)) = ip_state ip w"
      "ip_state ip (snd (ip_index_invalidate ip t ty rid w)) = ip_state ip w"
      "ip_state ip (snd (ip_index_invalidate_tenant ip t w)) = ip_state ip w"
      "ip_state ip (snd (ip_acl_get ip t ty rid a w)) = ip_state ip w"
      "ip_state ip (snd (ip_acl_set ip t ty rid a acls w)) = ip_state ip w"
      "ip_state ip (snd (ip_acl_invalidate ip t ty rid w)) = ip_state ip w"
      "ip_state ip (snd (ip_find_acl ip t ty rid a w)) = ip_state ip w"
      "ip_state ip (snd (ip_list_for_object ip t ty rid w)) = ip_state ip w"

definition threads_ok :: "indexer \<Rightarrow> bool" where
  "threads_ok ix = (distinct (ix_threads ix) \<and> set (ix_threads ix) = ix_inflight ix)"

context index_backend begin

lemma frames: "preserves (\<lambda>w. P (ip_state ip w)) (ip_index_get ip t ty rid a)"
    "preserves (\<lambda>w. P (ip_state ip w)) (ip_index_set ip t ty rid a es)"
    "preserves (\<lambda>w. P (ip_state ip w)) (ip_index_invalidate ip t ty rid)"
    "preserves (\<lambda>w. P (ip_state ip w)) (ip_index_invalidate_tenant ip t)"
    "preserves (\<lambda>w. P (ip_state ip w)) (ip_acl_get ip t ty rid a)"
    "preserves (\<lambda>w. P (ip_state ip w)) (ip_acl_set ip t ty rid a acls)"
    "preserves (\<lambda>w. P (ip_state ip w)) (ip_acl_invalidate ip t ty rid)"
    "preserves (\<lambda>w. P (ip_state ip w)) (ip_find_acl ip t ty rid a)"
    "preserves (\<lambda>w. P (ip_state ip w)) (ip_list_for_object ip t ty rid)"
  by (simp_all add: preserves_def frame)

lemma rebuild_frame: "preserves (\<lambda>w. P (ip_state ip w)) (rebuild_resource_index ip t ty rid a)"
  unfolding rebuild_resource_index_def Let_def
  by (intro preserves_rules frames) (auto intro!: preserves_rules frames split: option.split)

lemma update_preserves:
  "(\<And>ix. P ix \<Longrightarrow> P (f ix)) \<Longrightarrow> preserves (\<lambda>w. P (ip_state ip w)) (update_indexer ip f)"
  by (simp add: preserves_def update_indexer_def)

lemma memo_preserves:
  assumes "\<And>ix m. P (ix\<lparr>ix_memo := m\<rparr>) = P ix"
  shows "preserves (\<lambda>w. P (ip_state ip w)) (memo_get ip key)" "preserves (\<lambda>w. P (ip_state ip w)) (memo_set ip key es)"
  using assms by (auto simp: preserves_def memo_get_def memo_set_def update_indexer_def split: option.split)

lemma build_threads: "preserves (\<lambda>w. threads_ok (ip_state ip w)) (build_resource_index ip t ty rid a)"
proof -
  have "preserves (\<lambda>w. threads_ok (ip_state ip w)) (schedule_background_refresh ip key)" for key
    unfolding schedule_background_refresh_def by (rule update_preserves) (auto simp: threads_ok_def)
  moreover have "preserves (\<lambda>w. threads_ok (ip_state ip w)) (memo_get ip key)"
    "preserves (\<lambda>w. threads_ok (ip_state ip w)) (memo_set ip key es)" for key es
    by (rule memo_preserves; simp add: threads_ok_def)+
  ultimately show ?thesis unfolding build_resource_index_def Let_def
    by (intro preserves_rules frames) (auto intro!: preserves_rules frames rebuild_frame split: option.split)
qed

lemma invalidate_threads:
  "preserves (\<lambda>w. threads_ok (ip_state ip w)) (invalidate_resource ip t ty rid)"
  "preserves (\<lambda>w. threads_ok (ip_state ip w)) (invalidate_tenant ip t)"
  unfolding invalidate_resource_def invalidate_tenant_def
  by (auto intro!: preserves_rules frames update_preserves simp: threads_ok_def forget_def)

text \<open>A refresh ends with its key released, whether or not the rebuild raised.\<close>

lemma run_releases:
  "ix_threads (ip_state ip (snd (run_refresh ip key w))) = remove1 key (ix_threads (ip_state ip w))"
  "ix_inflight (ip_state ip (snd (run_refresh ip key w))) = ix_inflight (ip_state ip w) - {key}"
proof -
  obtain t ty rid a where key: "key = (t, ty, rid, a)" by (cases key)
  let ?body = "bnd (rebuild_resource_index ip t ty rid a) (memo_set ip key)"
  let ?same = "\<lambda>ix. ix_threads ix = ix_threads (ip_state ip w) \<and> ix_inflight ix = ix_inflight (ip_state ip w)"
  have "preserves (\<lambda>w. ?same (ip_state ip w)) ?body"
    by (intro preserves_rules rebuild_frame memo_preserves) simp
  then have same: "?same (ip_state ip (snd (?body w)))" by (rule preserves_D) simp
  obtain r w1 where w1: "?body w = (r, w1)" by (cases "?body w")
  then have "snd (run_refresh ip key w) = snd (finish_refresh ip key w1)" by (simp add: run_refresh_def key)
  with same w1 show "ix_threads (ip_state ip (snd (run_refresh ip key w))) = remove1 key (ix_threads (ip_state ip w))"
    "ix_inflight (ip_state ip (snd (run_refresh ip key w))) = ix_inflight (ip_state ip w) - {key}"
    by (simp_all add: finish_refresh_def update_indexer_def)
qed

lemma run_threads: "threads_ok (ip_state ip w) \<Longrightarrow> threads_ok (ip_state ip (snd (run_refresh ip key w)))"
  by (simp add: threads_ok_def run_releases)

end

section \<open>The deployed process\<close>

text \<open>
  The world of the services with the indexer of one service object, and the schedules that its next
  calls with a timeout will see (all later ones return in time).
\<close>

record site =
  st_world :: world
  st_indexer :: indexer
  st_schedules :: "schedule list"

definition on_world :: "(world, 'a) eff \<Rightarrow> (site, 'a) eff" where
  "on_world m s = (case m (st_world s) of (r, w) \<Rightarrow> (r, s\<lparr>st_world := w\<rparr>))"

definition site_index :: "site index_ports" where
  "site_index = \<lparr>
     ip_index_get = (\<lambda>t ty rid a. on_world (index_cache_get world_cache t ty rid a)),
     ip_index_set = (\<lambda>t ty rid a es. on_world (index_cache_set world_cache 30 t ty rid a es)),
     ip_index_invalidate = (\<lambda>t ty rid. on_world (index_cache_invalidate world_cache t ty rid)),
     ip_index_invalidate_tenant = (\<lambda>t. on_world (index_cache_invalidate_tenant world_cache t)),
     ip_acl_get = (\<lambda>t ty rid a. on_world (acl_cache_get world_cache t ty rid a)),
     ip_acl_set = (\<lambda>t ty rid a acls. on_world (acl_cache_set world_cache 30 t ty rid a acls)),
     ip_acl_invalidate = (\<lambda>t ty rid. on_world (acl_cache_invalidate world_cache t ty rid)),
     ip_find_acl = (\<lambda>t ty rid a. on_world (on_db (find_matching_acl t ty rid a))),
     ip_list_for_object = (\<lambda>t ty rid. on_world (on_db (list_for_object t ty rid))),
     ip_now = (\<lambda>s. mb_now (w_cache (st_world s))), ip_state = st_indexer,
     ip_put = (\<lambda>ix s. s\<lparr>st_indexer := ix\<rparr>)\<rparr>"

lemma on_world_frame [simp]: "st_indexer (snd (on_world m s)) = st_indexer s"
  by (simp add: on_world_def split: prod.split)

interpretation site_indexer: index_backend site_index
  by unfold_locales (simp_all add: site_index_def)

text \<open>
  One step of the process as the indexer sees it: a lookup, the run of a pending refresh, an
  invalidation, or anything else that leaves the indexer alone.
\<close>

inductive index_step :: "site \<Rightarrow> site \<Rightarrow> bool" where
  lookup: "index_step s (snd (build_resource_index site_index t ty rid a s))"
| refresh: "key \<in> set (ix_threads (st_indexer s)) \<Longrightarrow> index_step s (snd (run_refresh site_index key s))"
| forget_resource: "index_step s (snd (invalidate_resource site_index t ty rid s))"
| forget_tenant: "index_step s (snd (invalidate_tenant site_index t s))"
| elsewhere: "st_indexer s' = st_indexer s \<Longrightarrow> index_step s s'"

lemma site_state [simp]: "ip_state site_index = st_indexer"
  by (simp add: site_index_def)

lemma index_step_threads:
  assumes "index_step s s'" "threads_ok (st_indexer s)"
  shows "threads_ok (st_indexer s')"
  using assms(1)
proof cases
  case (lookup t ty rid a)
  then show ?thesis using preserves_D [OF site_indexer.build_threads] assms(2) by simp
next
  case (refresh key)
  then show ?thesis using site_indexer.run_threads assms(2) by simp
next
  case (forget_resource t ty rid)
  then show ?thesis using preserves_D [OF site_indexer.invalidate_threads(1)] assms(2) by simp
next
  case (forget_tenant t)
  then show ?thesis using preserves_D [OF site_indexer.invalidate_threads(2)] assms(2) by simp
qed (use assms(2) in simp)

text \<open>
  C31. However lookups, refresh threads, invalidations and other work interleave, a key has at most
  one pending refresh, the in-flight set is the set of the pending ones, and the run of any of them
  releases its key even when the rebuild raises.
\<close>

theorem refreshes_exclusive:
  assumes "index_step\<^sup>*\<^sup>* s s'" "st_indexer s = new_indexer"
  shows "distinct (ix_threads (st_indexer s')) \<and> set (ix_threads (st_indexer s')) = ix_inflight (st_indexer s')
    \<and> (\<forall>key. key \<notin> ix_inflight (st_indexer (snd (run_refresh site_index key s'))))"
proof -
  have "threads_ok (st_indexer s)" by (simp add: assms(2) threads_ok_def new_indexer_def)
  with assms(1) have "threads_ok (st_indexer s')" by induction (simp_all add: index_step_threads)
  then show ?thesis using site_indexer.run_releases(2) by (simp add: threads_ok_def)
qed

definition empty_site :: site where
  "empty_site = \<lparr>st_world = empty_world, st_indexer = new_indexer, st_schedules = []\<rparr>"

definition after_lookup :: site where
  "after_lookup = snd (build_resource_index site_index 1 ''doc'' ''1'' ''read'' empty_site)"

theorem refreshes_exclusive_witness:
  "distinct (ix_threads (st_indexer after_lookup)) \<and> set (ix_threads (st_indexer after_lookup)) = ix_inflight (st_indexer after_lookup)
    \<and> (\<forall>key. key \<notin> ix_inflight (st_indexer (snd (run_refresh site_index key after_lookup))))"
proof (rule refreshes_exclusive)
  show "index_step\<^sup>*\<^sup>* empty_site after_lookup" unfolding after_lookup_def by (rule r_into_rtranclp, rule lookup)
  show "st_indexer empty_site = new_indexer" by (simp add: empty_site_def)
qed

end
