(* ===== verification/Settings.thy ===== *)
theory Settings
  imports Contracts
begin

text \<open>
  The settings that steer the services (\<open>config/settings.py\<close>) with their validators, and the default
  policies (\<open>config/sample_data.py\<close>). \<open>sha256\<close> stands for the hexadecimal digest of a text,
  \<open>parse_json\<close> for the JSON parser (\<open>None\<close> when it raises \<open>JSONDecodeError\<close>), \<open>load_files\<close> for the policy
  file loader. The values are the typed ones pydantic hands to the validators; its own type checks are
  not modelled.
\<close>

section \<open>Fields\<close>

record settings =
  se_environment :: string
  se_debug :: bool
  se_database_url :: string
  se_redis_url :: "string option"
  se_api_keys :: "string option"
  se_api_key_hashes :: "string option"
  se_api_key_scopes_json :: "string option"
  se_jwt_secret :: string
  se_jwt_algorithm :: string
  se_admin_username :: "string option"
  se_admin_password :: "string option"
  se_admin_password_hash :: "string option"
  se_admin_token_expiry_minutes :: int
  se_cors_allow_origins :: "string option"
  se_cors_allow_methods :: string
  se_cors_allow_headers :: string
  se_policies_json :: "string option"
  se_policy_paths :: "string option"
  se_model_paths :: "string option"
  se_decision_cache_ttl_seconds :: int
  se_service_timeout_seconds :: string
  se_critical_retry_attempts :: int
  se_resilience_mode :: string
  se_resilience_fallback_behavior :: string
  se_rate_limit_per_minute :: int
  se_rate_limit_burst :: "int option"
  se_rate_limit_window_seconds :: int
  se_service_mode :: string
  se_auto_seed_sample_data :: bool
  se_server_host :: string
  se_server_port :: int
  se_async_authorization_enabled :: bool
  se_strict_tenancy :: bool
  se_policy_events_channel :: string
  se_oidc_jwks_url :: "string option"
  se_oidc_audience :: "string option"
  se_oidc_issuer :: "string option"
  se_jwks_cache_ttl_seconds :: int
  se_jwks_backoff_max_seconds :: int

definition default_settings :: settings where
  "default_settings = \<lparr>se_environment = ''development'', se_debug = False, se_database_url = ''sqlite+pysqlite:///./keynetra.db'',
     se_redis_url = None, se_api_keys = None, se_api_key_hashes = None, se_api_key_scopes_json = None,
     se_jwt_secret = ''change-me'', se_jwt_algorithm = ''HS256'', se_admin_username = None, se_admin_password = None,
     se_admin_password_hash = None, se_admin_token_expiry_minutes = 60,
     se_cors_allow_origins = Some ''http://localhost:5173,http://127.0.0.1:5173'', se_cors_allow_methods = ''*'',
     se_cors_allow_headers = ''*'', se_policies_json = None, se_policy_paths = None, se_model_paths = None,
     se_decision_cache_ttl_seconds = 5, se_service_timeout_seconds = ''2.0'', se_critical_retry_attempts = 3,
     se_resilience_mode = ''fail_closed'', se_resilience_fallback_behavior = ''static'',
     se_rate_limit_per_minute = 60, se_rate_limit_burst = None, se_rate_limit_window_seconds = 60,
     se_service_mode = ''all'', se_auto_seed_sample_data = False, se_server_host = ''0.0.0.0'', se_server_port = 8000,
     se_async_authorization_enabled = False, se_strict_tenancy = False, se_policy_events_channel = ''keynetra:policy_events'',
     se_oidc_jwks_url = None, se_oidc_audience = None, se_oidc_issuer = None, se_jwks_cache_ttl_seconds = 300,
     se_jwks_backoff_max_seconds = 60\<rparr>"

definition dev_environments :: "string list" where
  "dev_environments = [''development'', ''dev'', ''local'']"

definition valid_environments :: "string list" where
  "valid_environments = dev_environments @ [''ci'', ''prod'', ''production'']"

definition is_development :: "settings \<Rightarrow> bool" where
  "is_development s = (se_environment s \<in> set dev_environments)"

section \<open>Lists in one text\<close>

text \<open>\<open>[x.strip() for x in text.split(",") if x.strip()]\<close>\<close>

definition comma_list :: "string \<Rightarrow> string list" where
  "comma_list text = filter (\<lambda>x. x \<noteq> []) (map strip (split_char (CHR '','') text))"

definition optional_list :: "string option \<Rightarrow> string list" where
  "optional_list text = (case text of None \<Rightarrow> [] | Some t \<Rightarrow> if t = [] then [] else comma_list t)"

definition parsed_policy_paths :: "settings \<Rightarrow> string list" where
  "parsed_policy_paths s = optional_list (se_policy_paths s)"

definition parsed_model_paths :: "settings \<Rightarrow> string list" where
  "parsed_model_paths s = optional_list (se_model_paths s)"

definition parsed_cors_allow_origins :: "settings \<Rightarrow> string list" where
  "parsed_cors_allow_origins s = optional_list (se_cors_allow_origins s)"

definition star_list :: "string \<Rightarrow> string list" where
  "star_list t = (let v = strip t in if v = [] \<or> v = ''*'' then [''*''] else comma_list v)"

definition parsed_cors_allow_methods :: "settings \<Rightarrow> string list" where
  "parsed_cors_allow_methods s = star_list (se_cors_allow_methods s)"

definition parsed_cors_allow_headers :: "settings \<Rightarrow> string list" where
  "parsed_cors_allow_headers s = star_list (se_cors_allow_headers s)"

definition parsed_api_keys :: "settings \<Rightarrow> string set" where
  "parsed_api_keys s = set (optional_list (se_api_keys s))"

definition parsed_api_key_hashes :: "(string \<Rightarrow> string) \<Rightarrow> settings \<Rightarrow> string set" where
  "parsed_api_key_hashes sha256 s = (case se_api_key_hashes s of
     Some text \<Rightarrow> if text = [] then sha256 ` parsed_api_keys s else set (comma_list text)
   | None \<Rightarrow> sha256 ` parsed_api_keys s)"

section \<open>API key scopes\<close>

definition read_scopes :: "pydict \<Rightarrow> pydict" where
  "read_scopes scopes = [(''tenant'', pget scopes ''tenant''), (''role'', pget scopes ''role''),
     (''permissions'', if is_list (pget scopes ''permissions'') then pget scopes ''permissions'' else PList [])]"

fun scope_rows :: "(string \<Rightarrow> string) \<Rightarrow> pydict \<Rightarrow> (string \<times> pydict) list \<Rightarrow> (string \<times> pydict) list" where
  "scope_rows sha256 [] parsed = parsed"
| "scope_rows sha256 ((key, v) # d) parsed = (case v of
     PDict scopes \<Rightarrow>
       (let k = strip key; key_hash = (if length k \<noteq> 64 then sha256 k else k)
        in scope_rows sha256 d (dset parsed key_hash (read_scopes scopes)))
   | _ \<Rightarrow> scope_rows sha256 d parsed)"

definition parsed_api_key_scopes :: "(string \<Rightarrow> string) \<Rightarrow> (string \<Rightarrow> pyval option) \<Rightarrow> settings \<Rightarrow> (string \<times> pydict) list"
where
  "parsed_api_key_scopes sha256 parse_json s = (case se_api_key_scopes_json s of
     None \<Rightarrow> []
   | Some text \<Rightarrow> if text = [] then [] else (case parse_json text of
       Some (PDict decoded) \<Rightarrow> scope_rows sha256 decoded []
     | _ \<Rightarrow> []))"

section \<open>Policies of the configuration\<close>

definition sample_policy_definitions :: "pydict list" where
  "sample_policy_definitions = [
     [(''policy_key'', PStr ''approve-manager''), (''action'', PStr ''approve_payment''), (''effect'', PStr ''allow''),
      (''priority'', PInt 10),
      (''conditions'', PDict [(''role'', PStr ''manager''), (''max_amount'', PInt 100000)])],
     [(''policy_key'', PStr ''view-owner''), (''action'', PStr ''view_project''), (''effect'', PStr ''allow''),
      (''priority'', PInt 10), (''conditions'', PDict [(''owner_only'', PBool True)])]]"

definition default_policies :: "pydict list" where
  "default_policies = map (\<lambda>item. [(''action'', pget item ''action''), (''effect'', pget item ''effect''),
     (''conditions'', pget item ''conditions''), (''priority'', pget item ''priority'')]) sample_policy_definitions"

definition load_policies :: "(string \<Rightarrow> pyval option) \<Rightarrow> (string list \<Rightarrow> ('w, pydict list) eff) \<Rightarrow> settings
    \<Rightarrow> ('w, pydict list) eff" where
  "load_policies parse_json load_files s =
     (if str_or (se_policies_json s) [] = []
      then (if parsed_policy_paths s = [] then ret default_policies
            else bnd (load_files (parsed_policy_paths s)) (\<lambda>loaded.
                   ret (if loaded = [] then default_policies else loaded)))
      else ret (case parse_json (str_or (se_policies_json s) []) of
        Some (PList decoded) \<Rightarrow> concat (map (\<lambda>p. case p of PDict d \<Rightarrow> [d] | _ \<Rightarrow> []) decoded)
      | _ \<Rightarrow> default_policies))"

section \<open>Validation\<close>

definition in_range :: "int \<Rightarrow> int \<Rightarrow> int \<Rightarrow> string \<Rightarrow> string list" where
  "in_range lo hi v name = (if v < lo \<or> v > hi
     then [name @ '' must be between '' @ int_str lo @ '' and '' @ int_str hi] else [])"

definition normalize_environment :: "settings \<Rightarrow> settings" where
  "normalize_environment s = s\<lparr>se_environment := lower (strip (se_environment s))\<rparr>"

definition num_lt :: "num_v \<Rightarrow> num_v \<Rightarrow> bool" where
  "num_lt a b = (num_le a b \<and> \<not> num_eq a b)"

definition timeout_in_range :: "string \<Rightarrow> bool" where
  "timeout_in_range t = (\<not> num_lt (float_val t) (float_val ''0.05'') \<and> \<not> num_lt (Fin 120) (float_val t))"

text \<open>The messages of the field validators, in field order (pydantic runs them all and reports them together).\<close>

definition field_errors :: "settings \<Rightarrow> string list" where
  "field_errors s =
     (if lower (strip (se_environment s)) \<in> set valid_environments then []
      else [''environment must be one of: development, dev, local, ci, prod''])
     @ (if timeout_in_range (se_service_timeout_seconds s) then []
        else [''service_timeout_seconds must be between 0.05 and 120''])
     @ in_range 1 10 (se_critical_retry_attempts s) ''critical_retry_attempts''
     @ in_range 1 1000000 (se_rate_limit_per_minute s) ''rate_limit_per_minute''
     @ (case se_rate_limit_burst s of None \<Rightarrow> [] | Some b \<Rightarrow> in_range 1 1000000 b ''rate_limit_burst'')
     @ in_range 1 3600 (se_rate_limit_window_seconds s) ''rate_limit_window_seconds''
     @ in_range 10 86400 (se_jwks_cache_ttl_seconds s) ''jwks_cache_ttl_seconds''
     @ in_range 1 3600 (se_jwks_backoff_max_seconds s) ''jwks_backoff_max_seconds''"

definition nonempty :: "string option \<Rightarrow> bool" where
  "nonempty v = (str_or v [] \<noteq> [])"

fun is_infix :: "string \<Rightarrow> string \<Rightarrow> bool" where
  "is_infix p [] = (p = [])"
| "is_infix p (c # cs) = (starts_with p (c # cs) \<or> is_infix p cs)"

definition auth_enabled :: "(string \<Rightarrow> string) \<Rightarrow> settings \<Rightarrow> bool" where
  "auth_enabled sha256 s = (parsed_api_key_hashes sha256 s \<noteq> {} \<or> nonempty (se_oidc_jwks_url s)
     \<or> (se_jwt_secret s \<noteq> [] \<and> strip (se_jwt_secret s) \<noteq> ''change-me''))"

definition security_error :: "(string \<Rightarrow> string) \<Rightarrow> settings \<Rightarrow> string option" where
  "security_error sha256 s = (let non_dev = (\<not> is_development s) in
     if non_dev \<and> \<not> auth_enabled sha256 s
     then Some ''configure at least one auth method: api_keys/api_key_hashes or jwt/oidc''
     else if se_environment s = ''prod'' \<and> strip (se_jwt_secret s) = ''change-me''
     then Some ''rejecting weak KEYNETRA_JWT_SECRET=change-me outside development''
     else if non_dev \<and> nonempty (se_admin_password s) \<and> \<not> nonempty (se_admin_password_hash s)
     then Some ''admin_password is not allowed outside development; use KEYNETRA_ADMIN_PASSWORD_HASH''
     else if non_dev \<and> nonempty (se_admin_username s) \<and> lower (strip (str_or (se_admin_username s) [])) = ''admin''
     then Some ''rejecting default admin username outside development''
     else if se_environment s = ''prod'' \<and> is_infix ''sqlite'' (lower (strip (se_database_url s)))
     then Some ''sqlite is not allowed in production mode''
     else case se_redis_url s of
       Some url \<Rightarrow> if strip url = [] then Some ''redis_url cannot be blank when provided'' else None
     | None \<Rightarrow> None)"

definition validate_settings :: "(string \<Rightarrow> string) \<Rightarrow> settings \<Rightarrow> string list + settings" where
  "validate_settings sha256 s =
     (if field_errors s \<noteq> [] then Inl (field_errors s)
      else case security_error sha256 (normalize_environment s) of
        Some e \<Rightarrow> Inl [e] | None \<Rightarrow> Inr (normalize_environment s))"

lemma in_range_empty: "in_range lo hi v name = [] \<longleftrightarrow> lo \<le> v \<and> v \<le> hi"
  by (auto simp: in_range_def)

lemma validate_settings_Inr:
  assumes "validate_settings sha256 s = Inr s'"
  shows "s' = normalize_environment s" "field_errors s = []" "security_error sha256 s' = None"
  using assms by (auto simp: validate_settings_def split: if_splits option.splits)

definition between :: "int \<Rightarrow> int \<Rightarrow> int \<Rightarrow> bool" where
  "between lo hi v \<longleftrightarrow> lo \<le> v \<and> v \<le> hi"

lemma smallest_timeout: "float_val ''0.05'' = Fin (of_int 3602879701896397 / of_int 72057594037927936)"
  by code_simp

text \<open>Both comparisons of the validator are false for NaN, which is accepted for that reason.\<close>

lemma accepted_timeout: "timeout_in_range t \<Longrightarrow> float_val t = NaN \<or> (\<exists>q. float_val t = Fin q \<and> 1 / 20 \<le> q \<and> q \<le> 120)"
  by (cases "float_val t") (auto simp: timeout_in_range_def num_lt_def smallest_timeout)

lemma nan_timeout_accepted: "timeout_in_range ''nan''"
  by code_simp

lemma validated_fields:
  assumes "field_errors s = []"
  shows "lower (strip (se_environment s)) \<in> set valid_environments"
    "float_val (se_service_timeout_seconds s) = NaN
      \<or> (\<exists>q. float_val (se_service_timeout_seconds s) = Fin q \<and> 1 / 20 \<le> q \<and> q \<le> 120)"
    "between 1 10 (se_critical_retry_attempts s)" "between 1 1000000 (se_rate_limit_per_minute s)"
    "pred_option (between 1 1000000) (se_rate_limit_burst s)" "between 1 3600 (se_rate_limit_window_seconds s)"
    "between 10 86400 (se_jwks_cache_ttl_seconds s)" "between 1 3600 (se_jwks_backoff_max_seconds s)"
  using assms by (auto simp: field_errors_def in_range_empty between_def dest!: accepted_timeout split: if_splits option.splits)

lemma validated_security:
  assumes "security_error sha256 s = None"
  shows "is_development s \<or> auth_enabled sha256 s"
    "is_development s \<or> (nonempty (se_admin_password s) \<longrightarrow> nonempty (se_admin_password_hash s))"
    "is_development s \<or> lower (strip (str_or (se_admin_username s) [])) \<noteq> ''admin''"
    "se_environment s = ''prod'' \<longrightarrow> strip (se_jwt_secret s) \<noteq> ''change-me''
      \<and> \<not> is_infix ''sqlite'' (lower (strip (se_database_url s)))"
    "se_redis_url s = Some url \<Longrightarrow> strip url \<noteq> []"
proof -
  have blank: "lower (strip []) \<noteq> ''admin''" by code_simp
  show "is_development s \<or> auth_enabled sha256 s"
    "is_development s \<or> (nonempty (se_admin_password s) \<longrightarrow> nonempty (se_admin_password_hash s))"
    "se_environment s = ''prod'' \<longrightarrow> strip (se_jwt_secret s) \<noteq> ''change-me''
      \<and> \<not> is_infix ''sqlite'' (lower (strip (se_database_url s)))"
    "se_redis_url s = Some url \<Longrightarrow> strip url \<noteq> []"
    using assms by (auto simp: security_error_def Let_def split: if_splits)
  show "is_development s \<or> lower (strip (str_or (se_admin_username s) [])) \<noteq> ''admin''"
    using assms blank by (auto simp: security_error_def Let_def nonempty_def split: if_splits)
qed

text \<open>
  C40. Accepted settings name a known environment and are within the bounds of every validator: a
  timeout from 0.05 to 120 seconds (or NaN), one to ten attempts, limits, burst and windows from one up
  to their largest values, the cache time and the backoff of the JWKS. Outside development they have an
  authentication method, no admin password without its hash and no username \<open>admin\<close>. In the environment
  \<open>prod\<close> they exclude the default JWT secret and a SQLite database; a Redis URL is never blank.
\<close>

theorem accepted_settings_safe:
  assumes "validate_settings sha256 s = Inr s'"
  shows "se_environment s' \<in> set valid_environments
    \<and> (float_val (se_service_timeout_seconds s') = NaN
        \<or> (\<exists>q. float_val (se_service_timeout_seconds s') = Fin q \<and> 1 / 20 \<le> q \<and> q \<le> 120))
    \<and> between 1 10 (se_critical_retry_attempts s') \<and> between 1 1000000 (se_rate_limit_per_minute s')
    \<and> pred_option (between 1 1000000) (se_rate_limit_burst s') \<and> between 1 3600 (se_rate_limit_window_seconds s')
    \<and> between 10 86400 (se_jwks_cache_ttl_seconds s') \<and> between 1 3600 (se_jwks_backoff_max_seconds s')
    \<and> (is_development s' \<or> auth_enabled sha256 s'
        \<and> (nonempty (se_admin_password s') \<longrightarrow> nonempty (se_admin_password_hash s'))
        \<and> lower (strip (str_or (se_admin_username s') [])) \<noteq> ''admin'')
    \<and> (se_environment s' = ''prod'' \<longrightarrow> strip (se_jwt_secret s') \<noteq> ''change-me''
         \<and> \<not> is_infix ''sqlite'' (lower (strip (se_database_url s'))))
    \<and> (\<forall>url. se_redis_url s' = Some url \<longrightarrow> strip url \<noteq> [])"
proof -
  note v = validate_settings_Inr [OF assms]
  have kept: "se_environment s' = lower (strip (se_environment s))"
    "se_service_timeout_seconds s' = se_service_timeout_seconds s" "se_critical_retry_attempts s' = se_critical_retry_attempts s"
    "se_rate_limit_per_minute s' = se_rate_limit_per_minute s" "se_rate_limit_burst s' = se_rate_limit_burst s"
    "se_rate_limit_window_seconds s' = se_rate_limit_window_seconds s"
    "se_jwks_cache_ttl_seconds s' = se_jwks_cache_ttl_seconds s" "se_jwks_backoff_max_seconds s' = se_jwks_backoff_max_seconds s"
    by (simp_all add: v(1) normalize_environment_def)
  show ?thesis
    unfolding kept(2-) using validated_fields [OF v(2)] validated_security [OF v(3)] kept(1) by auto
qed

definition prod_settings :: settings where
  "prod_settings = default_settings\<lparr>se_environment := ''prod'', se_jwt_secret := ''s3cret'',
     se_database_url := ''postgresql://db/keynetra''\<rparr>"

lemma default_timeout_ok: "timeout_in_range ''2.0''" "timeout_in_range ''0.05''"
  by code_simp+

definition weak_production :: settings where
  "weak_production = default_settings\<lparr>se_environment := ''production'', se_api_keys := Some ''devkey''\<rparr>"

text \<open>
  The checks name the environment \<open>prod\<close> only: as \<open>production\<close>, which is valid too, the settings
  with the default JWT secret and a SQLite database are accepted once an API key is configured.
\<close>

lemma production_accepts_weak_secret:
  "validate_settings sha256 weak_production = Inr weak_production \<and> \<not> is_development weak_production
    \<and> se_jwt_secret weak_production = ''change-me''
    \<and> (\<exists>e. validate_settings sha256 (weak_production\<lparr>se_environment := ''prod''\<rparr>) = Inl [e])"
proof -
  have env: "lower (strip ''production'') = ''production''" "lower (strip ''prod'') = ''prod''" by code_simp+
  have keys: "comma_list ''devkey'' = [''devkey'']" by code_simp
  have secret: "strip ''change-me'' = ''change-me''" by code_simp
  have "validate_settings sha256 weak_production = Inr weak_production"
    using default_timeout_ok
    by (simp add: validate_settings_def weak_production_def default_settings_def field_errors_def env
        valid_environments_def in_range_empty security_error_def Let_def is_development_def dev_environments_def
        auth_enabled_def parsed_api_key_hashes_def parsed_api_keys_def optional_list_def keys nonempty_def
        normalize_environment_def)
  moreover have "\<exists>e. validate_settings sha256 (weak_production\<lparr>se_environment := ''prod''\<rparr>) = Inl [e]"
    using default_timeout_ok
    by (simp add: validate_settings_def weak_production_def default_settings_def field_errors_def env
        valid_environments_def in_range_empty security_error_def Let_def is_development_def dev_environments_def
        auth_enabled_def parsed_api_key_hashes_def parsed_api_keys_def optional_list_def keys nonempty_def
        normalize_environment_def secret)
  ultimately show ?thesis
    by (simp add: weak_production_def default_settings_def is_development_def dev_environments_def)
qed

theorem accepted_settings_safe_witness:
  "\<not> is_infix ''sqlite'' (lower (strip (se_database_url prod_settings))) \<and> auth_enabled (\<lambda>k. k) prod_settings"
proof -
  have env: "lower (strip ''prod'') = ''prod''" and secret: "strip ''s3cret'' = ''s3cret''"
    and url: "\<not> is_infix ''sqlite'' (lower (strip ''postgresql://db/keynetra''))" by code_simp+
  have "validate_settings (\<lambda>k. k) prod_settings = Inr prod_settings"
    using default_timeout_ok url
    by (simp add: validate_settings_def prod_settings_def default_settings_def field_errors_def env
        valid_environments_def in_range_empty security_error_def Let_def is_development_def dev_environments_def
        auth_enabled_def parsed_api_key_hashes_def parsed_api_keys_def optional_list_def nonempty_def
        normalize_environment_def secret)
  from accepted_settings_safe [OF this] show ?thesis
    by (simp add: prod_settings_def is_development_def dev_environments_def default_settings_def)
qed

end
