(* ===== verification/Authorization.thy ===== *)
theory Authorization
  imports AccessIndexer Settings
begin

text \<open>
  The authorization service (\<open>services/authorization.py\<close>): it validates the request, hydrates the
  user, gathers ACL, index and model data, asks the decision cache, builds the engine from the
  stored policies, decides, and writes cache and audit; every failure ends in the configured fallback.
  The service takes its collaborators as a record of operations on a world \<open>'w\<close>. Calls under
  \<open>with_timeout\<close> see the schedule that \<open>as_schedule\<close> gives them. Metrics and log events are left out.
\<close>

section \<open>Requests, results and collaborators\<close>

record auth_request =
  rq_tenant_key :: string
  rq_principal :: pydict
  rq_user :: pydict
  rq_action :: string
  rq_resource :: pydict
  rq_context :: "pydict option"
  rq_consistency :: string
  rq_revision :: "int option"
  rq_audit :: bool
  rq_policy_set :: string

record auth_result =
  res_decision :: authorization_decision
  res_cached :: bool
  res_revision :: int

record 'w auth_service =
  as_settings :: settings
  as_load_policies :: "('w, pydict list) eff"
  as_tenants :: "'w tenant_repo"
  as_list_current :: "int \<Rightarrow> string \<Rightarrow> ('w, policy_record list) eff"
  as_user_context :: "int \<Rightarrow> ('w, pydict option) eff"
  as_list_for_subject :: "int \<Rightarrow> string \<Rightarrow> string \<Rightarrow> ('w, relationship_record list) eff"
  as_audit_write :: "int \<Rightarrow> string \<Rightarrow> string \<Rightarrow> authorization_input \<Rightarrow> authorization_decision \<Rightarrow> string option
    \<Rightarrow> ('w, unit) eff"
  as_policy_cache_get :: "string \<Rightarrow> int \<Rightarrow> ('w, policy_record list option) eff"
  as_policy_cache_set :: "string \<Rightarrow> int \<Rightarrow> policy_record list \<Rightarrow> ('w, unit) eff"
  as_relationship_cache_get :: "int \<Rightarrow> string \<Rightarrow> string \<Rightarrow> ('w, relationship_record list option) eff"
  as_relationship_cache_set :: "int \<Rightarrow> string \<Rightarrow> string \<Rightarrow> relationship_record list \<Rightarrow> ('w, unit) eff"
  as_make_key :: "string \<Rightarrow> int \<Rightarrow> authorization_input \<Rightarrow> int option \<Rightarrow> ('w, string) eff"
  as_decision_get :: "string \<Rightarrow> ('w, cached_decision option) eff"
  as_decision_set :: "string \<Rightarrow> cached_decision \<Rightarrow> int \<Rightarrow> ('w, unit) eff"
  as_index :: "(int \<Rightarrow> string \<Rightarrow> string \<Rightarrow> string \<Rightarrow> ('w, access_index_entry list) eff) option"
  as_get_model :: "(int \<Rightarrow> ('w, string option) eff) option"
  as_model_get :: "string \<Rightarrow> ('w, permission_graph option) eff"
  as_model_set :: "string \<Rightarrow> permission_graph \<Rightarrow> ('w, unit) eff"
  as_graph_set :: "string \<Rightarrow> int \<Rightarrow> decision_graph \<Rightarrow> ('w, unit) eff"
  as_schedule :: "'w \<Rightarrow> schedule \<times> 'w"
  as_request_id :: "string option"

definition timed :: "'w auth_service \<Rightarrow> ('w, 'a) eff \<Rightarrow> ('w, 'a) eff" where
  "timed svc m w = (case as_schedule svc w of (sched, w') \<Rightarrow>
     with_timeout sched (se_service_timeout_seconds (as_settings svc)) m w')"

text \<open>\<open>try: return with_timeout(m) except Exception: return None\<close>\<close>

definition safe_get :: "'w auth_service \<Rightarrow> ('w, 'a option) eff \<Rightarrow> ('w, 'a option) eff" where
  "safe_get svc m = catch_all (timed svc m) (\<lambda>_. ret None)"

text \<open>\<open>try: retry(with_timeout(m)) except Exception: log\<close>\<close>

definition safe_write :: "'w auth_service \<Rightarrow> ('w, unit) eff \<Rightarrow> ('w, unit) eff" where
  "safe_write svc m =
     catch_all (retry (se_critical_retry_attempts (as_settings svc)) (\<lambda>_. timed svc m)) (\<lambda>_. ret ())"

definition safe_cache_get :: "'w auth_service \<Rightarrow> string \<Rightarrow> ('w, cached_decision option) eff" where
  "safe_cache_get svc key = safe_get svc (as_decision_get svc key)"

definition safe_cache_set :: "'w auth_service \<Rightarrow> string \<Rightarrow> cached_decision \<Rightarrow> ('w, unit) eff" where
  "safe_cache_set svc key v =
     safe_write svc (as_decision_set svc key v (se_decision_cache_ttl_seconds (as_settings svc)))"

definition safe_policy_cache_get :: "'w auth_service \<Rightarrow> string \<Rightarrow> int \<Rightarrow> ('w, policy_record list option) eff" where
  "safe_policy_cache_get svc tenant_key policy_version =
     safe_get svc (as_policy_cache_get svc tenant_key policy_version)"

definition safe_policy_cache_set :: "'w auth_service \<Rightarrow> string \<Rightarrow> int \<Rightarrow> policy_record list \<Rightarrow> ('w, unit) eff" where
  "safe_policy_cache_set svc tenant_key policy_version cached =
     safe_write svc (as_policy_cache_set svc tenant_key policy_version cached)"

definition safe_relationship_cache_get :: "'w auth_service \<Rightarrow> int \<Rightarrow> string \<Rightarrow> string
    \<Rightarrow> ('w, relationship_record list option) eff" where
  "safe_relationship_cache_get svc tenant_id subject_type subject_id =
     safe_get svc (as_relationship_cache_get svc tenant_id subject_type subject_id)"

definition safe_relationship_cache_set :: "'w auth_service \<Rightarrow> int \<Rightarrow> string \<Rightarrow> string \<Rightarrow> relationship_record list
    \<Rightarrow> ('w, unit) eff" where
  "safe_relationship_cache_set svc tenant_id subject_type subject_id relationships =
     safe_write svc (as_relationship_cache_set svc tenant_id subject_type subject_id relationships)"

definition safe_audit_write :: "'w auth_service \<Rightarrow> int \<Rightarrow> pydict \<Rightarrow> authorization_input \<Rightarrow> authorization_decision
    \<Rightarrow> ('w, unit) eff" where
  "safe_audit_write svc tenant_id who inp d =
     safe_write svc (as_audit_write svc tenant_id (py_str (pget who ''type''))
       (py_str (pget who ''id'')) inp d (as_request_id svc))"

section \<open>Decisions\<close>

definition cached_step :: "pydict \<Rightarrow> trace_step" where
  "cached_step item = mk_step (py_str (dget_or item ''step'' (PStr ''cache'')))
     (py_str (dget_or item ''outcome'' (PStr ''cached'')))
     (py_str (dget_or item ''detail'' (PStr ''served from decision cache''))) (opt_str (pget item ''policy_id''))"

definition decision_from_cache :: "cached_decision \<Rightarrow> authorization_decision" where
  "decision_from_cache cached =
     \<lparr>ad_allowed = cd_allowed cached,
      ad_decision = (if cd_allowed cached then Allow
        else if cd_decision cached \<notin> {''allow'', ''deny''} then Deny
        else if cd_decision cached = ''allow'' then Allow else Deny),
      ad_reason = cd_reason cached, ad_policy_id = cd_policy_id cached,
      ad_explain_trace = map cached_step (cd_explain_trace cached),
      ad_matched_policies = cd_matched_policies cached, ad_failed_conditions = cd_failed_conditions cached\<rparr>"

definition safe_deny :: "string \<Rightarrow> authorization_decision" where
  "safe_deny reason =
     \<lparr>ad_allowed = False, ad_decision = Deny, ad_reason = Some reason, ad_policy_id = None,
      ad_explain_trace = [mk_step ''final'' ''deny'' reason None], ad_matched_policies = [],
      ad_failed_conditions = [reason]\<rparr>"

definition safe_allow :: "string \<Rightarrow> authorization_decision" where
  "safe_allow reason =
     \<lparr>ad_allowed = True, ad_decision = Allow, ad_reason = Some reason, ad_policy_id = None,
      ad_explain_trace = [mk_step ''final'' ''allow'' reason None], ad_matched_policies = [],
      ad_failed_conditions = []\<rparr>"

text \<open>\<open>(setting or default).strip().lower()\<close>\<close>

definition setting_text :: "string \<Rightarrow> string \<Rightarrow> string" where
  "setting_text v instead = lower (strip (if v = [] then instead else v))"

definition fallback_behavior :: "settings \<Rightarrow> string" where
  "fallback_behavior s = setting_text (se_resilience_fallback_behavior s) ''static''"

definition fails_open :: "settings \<Rightarrow> bool" where
  "fails_open s = (setting_text (se_resilience_mode s) ''fail_closed'' = ''fail_open'')"

definition static_fallback :: "settings \<Rightarrow> string \<Rightarrow> authorization_decision" where
  "static_fallback s reason = (if fails_open s then safe_allow reason else safe_deny reason)"

definition default_policy_eval :: "'w auth_service \<Rightarrow> authorization_input \<Rightarrow> string \<Rightarrow> ('w, authorization_decision) eff"
where
  "default_policy_eval svc inp reason =
     bnd (as_load_policies svc) (\<lambda>policies.
     bnd (lift (new_engine (map PolicyRaw policies) ''first_match'' None)) (\<lambda>eng.
     bnd (lift (decide eng (Structured inp) None None)) (\<lambda>d.
       ret (d\<lparr>ad_explain_trace := ad_explain_trace d
              @ [mk_step ''resilience_fallback'' ''fallback'' reason (ad_policy_id d)]\<rparr>))))"

definition fallback_decision :: "'w auth_service \<Rightarrow> authorization_input \<Rightarrow> string \<Rightarrow> ('w, authorization_decision) eff"
where
  "fallback_decision svc inp reason =
     (if fallback_behavior (as_settings svc) = ''default_policy_eval''
      then catch_all (default_policy_eval svc inp reason) (\<lambda>_. ret (static_fallback (as_settings svc) reason))
      else ret (static_fallback (as_settings svc) reason))"

section \<open>Building the input\<close>

definition has_key :: "pydict \<Rightarrow> string \<Rightarrow> bool" where
  "has_key d k = (dget d k \<noteq> None)"

text \<open>The integer of a value that is an \<open>int\<close> (a \<open>bool\<close> is one).\<close>

definition int_value :: "pyval \<Rightarrow> int option" where
  "int_value v = (case v of PInt i \<Rightarrow> Some i | PBool b \<Rightarrow> Some (if b then 1 else 0) | _ \<Rightarrow> None)"

definition with_persisted :: "pydict \<Rightarrow> pydict \<Rightarrow> pydict result" where
  "with_persisted user persisted =
     ebind (py_iter (dget_or persisted ''roles'' (PList []))) (\<lambda>roles.
     ebind (py_iter (dget_or persisted ''permissions'' (PList []))) (\<lambda>permissions.
     let u = dset (dset user ''roles'' (PList roles)) ''role_permissions'' (PList permissions) in
     Inr (if has_key u ''role'' then u else dset u ''role'' (pget persisted ''role''))))"

definition user_relationships :: "'w auth_service \<Rightarrow> int \<Rightarrow> string \<Rightarrow> ('w, relationship_record list) eff" where
  "user_relationships svc tenant_id subject_id =
     bnd (safe_relationship_cache_get svc tenant_id ''user'' subject_id) (\<lambda>cached. case cached of
       Some rs \<Rightarrow> ret rs
     | None \<Rightarrow> bnd (timed svc (as_list_for_subject svc tenant_id ''user'' subject_id)) (\<lambda>rs.
         bnd (safe_relationship_cache_set svc tenant_id ''user'' subject_id rs) (\<lambda>_. ret rs)))"

definition hydrate_user :: "'w auth_service \<Rightarrow> int \<Rightarrow> pydict \<Rightarrow> ('w, pydict) eff" where
  "hydrate_user svc tenant_id user =
     (let direct = dget_or user ''permissions'' (PList []);
          user1 = (if is_list direct then dset user ''direct_permissions'' direct else user);
          user_id = pget user1 ''id''
      in case int_value user_id of
        None \<Rightarrow> ret user1
      | Some i \<Rightarrow>
          bnd (timed svc (as_user_context svc i)) (\<lambda>persisted.
          bnd (case persisted of None \<Rightarrow> ret user1 | Some p \<Rightarrow> lift (with_persisted user1 p)) (\<lambda>user2.
          bnd (user_relationships svc tenant_id (py_str user_id)) (\<lambda>relationships.
            ret (dset user2 ''relations'' (PList (map (\<lambda>r. PDict (relationship_to_dict r)) relationships)))))))"

definition permission_graph_for :: "'w auth_service \<Rightarrow> int \<Rightarrow> string \<Rightarrow> ('w, permission_graph option) eff" where
  "permission_graph_for svc tenant_id tenant_key =
     bnd (as_model_get svc tenant_key) (\<lambda>stored. case (stored, as_get_model svc) of
       (None, Some get_model) \<Rightarrow> bnd (get_model tenant_id) (\<lambda>record. case record of
           None \<Rightarrow> ret None
         | Some schema_text \<Rightarrow> bnd (lift (compile_authorization_schema schema_text)) (\<lambda>compiled.
             let g = \<lparr>pg_tenant_key = tenant_key, pg_model = compiled\<rparr> in
             bnd (as_model_set svc tenant_key g) (\<lambda>_. ret (Some g))))
     | _ \<Rightarrow> ret stored)"

definition index_for :: "'w auth_service \<Rightarrow> int \<Rightarrow> string \<Rightarrow> pydict \<Rightarrow> ('w, access_index_entry list) eff" where
  "index_for svc tenant_id action resource = (case as_index svc of
     None \<Rightarrow> ret []
   | Some build \<Rightarrow> (let (resource_type, resource_id) = resource_identity resource in
       if resource_type \<noteq> [] \<and> resource_id \<noteq> [] then build tenant_id resource_type resource_id action
       else ret []))"

definition build_authorization_input :: "'w auth_service \<Rightarrow> int \<Rightarrow> string \<Rightarrow> pydict \<Rightarrow> string \<Rightarrow> pydict \<Rightarrow> pydict
    \<Rightarrow> ('w, authorization_input) eff" where
  "build_authorization_input svc tenant_id tenant_key user action resource context =
     bnd (permission_graph_for svc tenant_id tenant_key) (\<lambda>g.
     bnd (index_for svc tenant_id action resource) (\<lambda>entries.
       ret \<lparr>in_user = user, in_resource = resource, in_action = action, in_context = context,
            in_acl_entries = acl_entries_of entries, in_index_entries = access_entries_of entries,
            in_permission_graph = g, in_compiled_graph = None, in_tenant_key = Some tenant_key\<rparr>))"

definition build_input_of :: "'w auth_service \<Rightarrow> string \<Rightarrow> pydict \<Rightarrow> string \<Rightarrow> pydict \<Rightarrow> pydict
    \<Rightarrow> ('w, authorization_input \<times> tenant_record) eff" where
  "build_input_of svc tenant_key user action resource context =
     bnd (lift (validate_user user)) (\<lambda>_.
     bnd (lift (validate_resource resource)) (\<lambda>_.
     bnd (timed svc (tp_get_or_create (as_tenants svc) tenant_key)) (\<lambda>tenant.
     bnd (hydrate_user svc (tr_id tenant) user) (\<lambda>enriched_user.
     bnd (build_authorization_input svc (tr_id tenant) tenant_key enriched_user action resource context) (\<lambda>inp.
       ret (inp, tenant))))))"

definition context_of :: "pydict option \<Rightarrow> pydict" where
  "context_of context = (case context of None \<Rightarrow> [] | Some c \<Rightarrow> c)"

definition build_input :: "'w auth_service \<Rightarrow> string \<Rightarrow> pydict \<Rightarrow> string \<Rightarrow> pydict \<Rightarrow> pydict option
    \<Rightarrow> ('w, authorization_input) eff" where
  "build_input svc tenant_key user action resource context =
     bnd (build_input_of svc tenant_key user action resource (context_of context)) (\<lambda>(inp, _). ret inp)"

section \<open>Building the engine\<close>

definition policy_set_of :: "string \<Rightarrow> string" where
  "policy_set_of policy_set = (let s = lower (strip policy_set) in if s = [] then ''active'' else s)"

definition set_namespace :: "string \<Rightarrow> string \<Rightarrow> string" where
  "set_namespace tenant_key policy_set =
     (if policy_set = ''active'' then tenant_key else tenant_key @ '':'' @ policy_set)"

definition load_current_policies :: "'w auth_service \<Rightarrow> int \<Rightarrow> string \<Rightarrow> ('w, policy_record list) eff" where
  "load_current_policies svc tenant_id policy_set_key =
     catch (as_list_current svc tenant_id policy_set_key) is_type_error (\<lambda>_. as_list_current svc tenant_id ''active'')"

definition engine_from :: "'w auth_service \<Rightarrow> string \<Rightarrow> int \<Rightarrow> policy_arg list \<Rightarrow> ('w, engine) eff" where
  "engine_from svc graph_tenant_key policy_version policies =
     bnd (lift (new_engine policies ''first_match'' None)) (\<lambda>eng.
     bnd (as_graph_set svc graph_tenant_key policy_version (eng_graph eng)) (\<lambda>_. ret eng))"

definition build_engine :: "'w auth_service \<Rightarrow> string \<Rightarrow> int \<Rightarrow> int \<Rightarrow> string \<Rightarrow> ('w, engine) eff" where
  "build_engine svc tenant_key tenant_id policy_version policy_set =
     (let key = policy_set_of policy_set; graph_key = set_namespace tenant_key key in
      bnd (if key = ''active'' then safe_policy_cache_get svc tenant_key policy_version else ret None) (\<lambda>cached.
      case cached of
        Some policies \<Rightarrow> engine_from svc graph_key policy_version (map (\<lambda>p. PolicyDef (pr_definition p)) policies)
      | None \<Rightarrow> bnd (timed svc (load_current_policies svc tenant_id key)) (\<lambda>policies.
          if policies = [] then bnd (as_load_policies svc) (\<lambda>raw.
              engine_from svc graph_key policy_version (map PolicyRaw raw))
          else bnd (if key = ''active'' then safe_policy_cache_set svc tenant_key policy_version policies else ret ())
            (\<lambda>_. engine_from svc graph_key policy_version (map (\<lambda>p. PolicyDef (pr_definition p)) policies)))))"

section \<open>One request\<close>

definition mk_result :: "authorization_decision \<Rightarrow> bool \<Rightarrow> int \<Rightarrow> auth_result" where
  "mk_result d cached revision = \<lparr>res_decision = d, res_cached = cached, res_revision = revision\<rparr>"

definition fallback_input :: "auth_request \<Rightarrow> authorization_input" where
  "fallback_input rq =
     (plain_input (rq_user rq) (rq_resource rq) (rq_action rq) (context_of (rq_context rq)))
       \<lparr>in_tenant_key := Some (rq_tenant_key rq)\<rparr>"

definition consistency_mode :: "string \<Rightarrow> string" where
  "consistency_mode c = lower (strip c)"

text \<open>The decision cache: \<open>Inl\<close> the key to store under, if any, or \<open>Inr\<close> the cached decision.\<close>

definition cache_lookup :: "'w auth_service \<Rightarrow> string \<Rightarrow> tenant_record \<Rightarrow> string \<Rightarrow> int option \<Rightarrow> authorization_input
    \<Rightarrow> ('w, string option + cached_decision) eff" where
  "cache_lookup svc mode tenant policy_set revision inp =
     (if mode = ''fully_consistent'' then ret (Inl None)
      else bnd (as_make_key svc (set_namespace (tr_key tenant) policy_set) (tr_policy_version tenant) inp
                 (case revision of None \<Rightarrow> Some (tr_revision tenant) | Some r \<Rightarrow> Some r)) (\<lambda>key.
           bnd (safe_cache_get svc key) (\<lambda>cached.
             ret (case cached of None \<Rightarrow> Inl (Some key) | Some cd \<Rightarrow> Inr cd))))"

definition decide_and_store :: "'w auth_service \<Rightarrow> engine \<Rightarrow> authorization_input \<Rightarrow> string option
    \<Rightarrow> ('w, authorization_decision) eff" where
  "decide_and_store svc eng inp key =
     bnd (lift (decide eng (Structured inp) None None)) (\<lambda>d.
     bnd (case key of None \<Rightarrow> ret () | Some k \<Rightarrow> safe_cache_set svc k (from_decision d)) (\<lambda>_. ret d))"

definition answer :: "'w auth_service \<Rightarrow> auth_request \<Rightarrow> authorization_input \<Rightarrow> tenant_record \<Rightarrow> ('w, auth_result) eff"
where
  "answer svc rq inp tenant =
     bnd (cache_lookup svc (consistency_mode (rq_consistency rq)) tenant (policy_set_of (rq_policy_set rq))
            (rq_revision rq) inp) (\<lambda>found. case found of
       Inr cd \<Rightarrow> ret (mk_result (decision_from_cache cd) True (tr_revision tenant))
     | Inl key \<Rightarrow>
         bnd (build_engine svc (tr_key tenant) (tr_id tenant) (tr_policy_version tenant)
                (policy_set_of (rq_policy_set rq))) (\<lambda>eng.
         bnd (decide_and_store svc eng inp key) (\<lambda>d.
         bnd (if rq_audit rq then safe_audit_write svc (tr_id tenant) (rq_principal rq) inp d else ret ()) (\<lambda>_.
           ret (mk_result d False (tr_revision tenant))))))"

definition authorize :: "'w auth_service \<Rightarrow> auth_request \<Rightarrow> ('w, auth_result) eff" where
  "authorize svc rq w =
     (case build_input_of svc (rq_tenant_key rq) (rq_user rq) (rq_action rq) (rq_resource rq)
             (context_of (rq_context rq)) w of
       (Inl e, w') \<Rightarrow> bnd (fallback_decision svc (fallback_input rq) (''authorization input unavailable: '' @ exn_text e))
                        (\<lambda>d. ret (mk_result d False 1)) w'
     | (Inr (inp, tenant), w') \<Rightarrow>
         catch_all (answer svc rq inp tenant)
           (\<lambda>_. bnd (fallback_decision svc inp ''authorization backend unavailable'')
                  (\<lambda>d. ret (mk_result d False (tr_revision tenant)))) w')"

definition simulate :: "'w auth_service \<Rightarrow> string \<Rightarrow> pydict \<Rightarrow> pydict \<Rightarrow> string \<Rightarrow> pydict \<Rightarrow> pydict option
    \<Rightarrow> ('w, authorization_decision) eff" where
  "simulate svc tenant_key who user action resource context =
     bnd (authorize svc \<lparr>rq_tenant_key = tenant_key, rq_principal = who, rq_user = user, rq_action = action,
            rq_resource = resource, rq_context = context, rq_consistency = ''eventual'', rq_revision = None,
            rq_audit = True, rq_policy_set = ''active''\<rparr>) (\<lambda>r. ret (res_decision r))"

section \<open>A batch\<close>

record batch_item =
  bi_action :: string
  bi_resource :: pydict

record batch_request =
  bq_tenant_key :: string
  bq_principal :: pydict
  bq_user :: pydict
  bq_items :: "batch_item list"
  bq_context :: "pydict option"
  bq_consistency :: string
  bq_revision :: "int option"
  bq_policy_set :: string

type_synonym memo_key = "string \<times> pyval \<times> pyval"

type_synonym memo = "(memo_key \<times> authorization_input \<times> authorization_decision \<times> bool) list"

definition memo_key_of :: "batch_request \<Rightarrow> batch_item \<Rightarrow> memo_key" where
  "memo_key_of bq item = (bi_action item, stable_doc (PDict (bi_resource item)),
     stable_doc (PDict (context_of (bq_context bq))))"

definition batch_decision :: "'w auth_service \<Rightarrow> batch_request \<Rightarrow> tenant_record \<Rightarrow> pydict \<Rightarrow> engine \<Rightarrow> batch_item
    \<Rightarrow> ('w, authorization_input \<times> authorization_decision \<times> bool) eff" where
  "batch_decision svc bq tenant user eng item =
     bnd (build_authorization_input svc (tr_id tenant) (tr_key tenant) user (bi_action item) (bi_resource item)
            (context_of (bq_context bq))) (\<lambda>inp.
     bnd (cache_lookup svc (consistency_mode (bq_consistency bq)) tenant (policy_set_of (bq_policy_set bq))
            (bq_revision bq) inp) (\<lambda>found. case found of
       Inr cd \<Rightarrow> ret (inp, decision_from_cache cd, True)
     | Inl key \<Rightarrow> bnd (decide_and_store svc eng inp key) (\<lambda>d. ret (inp, d, False))))"

fun batch_loop :: "'w auth_service \<Rightarrow> batch_request \<Rightarrow> tenant_record \<Rightarrow> pydict \<Rightarrow> engine \<Rightarrow> memo \<Rightarrow> batch_item list
    \<Rightarrow> ('w, auth_result list) eff" where
  "batch_loop svc bq tenant user eng memo [] = ret []"
| "batch_loop svc bq tenant user eng memo (item # items) =
     bnd (lift (validate_resource (bi_resource item))) (\<lambda>_.
     bnd (case dget memo (memo_key_of bq item) of
            Some known \<Rightarrow> ret (known, memo)
          | None \<Rightarrow> bnd (batch_decision svc bq tenant user eng item) (\<lambda>r. ret (r, dset memo (memo_key_of bq item) r)))
       (\<lambda>((inp, d, cached), memo').
     bnd (safe_audit_write svc (tr_id tenant) (bq_principal bq) inp d) (\<lambda>_.
     bnd (batch_loop svc bq tenant user eng memo' items) (\<lambda>rest.
       ret (mk_result d cached (tr_revision tenant) # rest)))))"

text \<open>\<open>except (RuntimeError, TimeoutError, ValueError)\<close>\<close>

definition batch_recovers :: "exn \<Rightarrow> bool" where
  "batch_recovers e = (case e of RuntimeError _ \<Rightarrow> True | TimeoutError _ \<Rightarrow> True | ValueError _ \<Rightarrow> True
     | AttributeValidationError _ \<Rightarrow> True | _ \<Rightarrow> False)"

definition batch_fallback :: "'w auth_service \<Rightarrow> batch_request \<Rightarrow> ('w, auth_result list) eff" where
  "batch_fallback svc bq = for_each (\<lambda>item.
     bnd (fallback_decision svc ((plain_input (bq_user bq) (bi_resource item) (bi_action item)
            (context_of (bq_context bq)))\<lparr>in_tenant_key := Some (bq_tenant_key bq)\<rparr>)
            ''authorization backend unavailable'') (\<lambda>d. ret (mk_result d False 1))) (bq_items bq)"

definition batch_setup :: "'w auth_service \<Rightarrow> batch_request \<Rightarrow> ('w, tenant_record \<times> pydict \<times> engine) eff" where
  "batch_setup svc bq =
     bnd (timed svc (tp_get_or_create (as_tenants svc) (bq_tenant_key bq))) (\<lambda>tenant.
     bnd (hydrate_user svc (tr_id tenant) (bq_user bq)) (\<lambda>user.
     bnd (build_engine svc (tr_key tenant) (tr_id tenant) (tr_policy_version tenant)
            (policy_set_of (bq_policy_set bq))) (\<lambda>eng. ret (tenant, user, eng))))"

definition authorize_batch :: "'w auth_service \<Rightarrow> batch_request \<Rightarrow> ('w, auth_result list) eff" where
  "authorize_batch svc bq =
     bnd (lift (validate_user (bq_user bq))) (\<lambda>_.
     bnd (catch (bnd (batch_setup svc bq) (\<lambda>s. ret (Some s))) batch_recovers (\<lambda>_. ret None)) (\<lambda>ready.
     case ready of
       None \<Rightarrow> batch_fallback svc bq
     | Some (tenant, user, eng) \<Rightarrow> batch_loop svc bq tenant user eng [] (bq_items bq)))"

section \<open>Every request is answered\<close>

lemma total_fallback: "total (fallback_decision svc inp reason)"
  by (simp add: fallback_decision_def total_catch_all)

lemma authorize_answers: "\<exists>r w'. authorize svc rq w = (Inr r, w')"
proof (cases "build_input_of svc (rq_tenant_key rq) (rq_user rq) (rq_action rq) (rq_resource rq)
    (context_of (rq_context rq)) w")
  case (Pair built w1)
  have fb: "total (bnd (fallback_decision svc inp reason) (\<lambda>d. ret (mk_result d False n)))" for inp reason n
    by (intro total_bnd total_fallback total_ret)
  show ?thesis
  proof (cases built)
    case (Inl e)
    then show ?thesis using Pair fb by (auto simp: authorize_def total_def)
  next
    case (Inr it)
    obtain inp tenant where it: "it = (inp, tenant)" by (cases it)
    have "total (catch_all (answer svc rq inp tenant)
        (\<lambda>_. bnd (fallback_decision svc inp ''authorization backend unavailable'')
                 (\<lambda>d. ret (mk_result d False (tr_revision tenant)))))"
      by (intro total_catch_all fb)
    then show ?thesis using Pair Inr it by (auto simp: authorize_def total_def)
  qed
qed

text \<open>
  C5. \<open>authorize\<close> never raises, whatever its collaborators do: a failure while the input is built, a
  failing cache, repository or policy, or a timeout all end in a result.
\<close>

theorem authorize_never_raises: "\<exists>r w'. authorize svc rq w = (Inr r, w')"
  by (rule authorize_answers)

section \<open>Where an allow comes from\<close>

lemma timed_Inr: "timed svc m w = (Inr x, w') \<Longrightarrow> \<exists>v v'. m v = (Inr x, v')"
  by (auto simp: timed_def with_timeout_def split: prod.splits schedule.splits sum.splits exn.splits)

lemma safe_get_Some: "safe_get svc m w = (Inr (Some x), w') \<Longrightarrow> \<exists>v v'. m v = (Inr (Some x), v')"
  by (auto simp: safe_get_def catch_def split: prod.splits sum.splits dest: timed_Inr)

lemma cache_lookup_Inr:
  assumes "cache_lookup svc mode tenant ps revision inp w = (Inr (Inr cd), w')"
  shows "\<exists>key v v'. as_decision_get svc key v = (Inr (Some cd), v')"
  using assms
  by (auto simp: cache_lookup_def bnd_Inr_iff safe_cache_get_def split: if_splits option.splits)
    (blast dest: safe_get_Some)+

lemma decide_and_store_Inr:
  "decide_and_store svc eng inp key w = (Inr d, w') \<Longrightarrow> decide eng (Structured inp) None None = Inr d"
  by (auto simp: decide_and_store_def bnd_Inr_iff)

text \<open>How \<open>answer\<close> came to a decision: from the decision cache, or by an engine built for the tenant.\<close>

lemma answer_source:
  assumes "answer svc rq inp tenant w = (Inr r, w')"
  shows "(res_cached r \<and> (\<exists>key v v' cd. as_decision_get svc key v = (Inr (Some cd), v')
            \<and> res_decision r = decision_from_cache cd))
    \<or> (\<not> res_cached r \<and> (\<exists>eng v v'. build_engine svc (tr_key tenant) (tr_id tenant) (tr_policy_version tenant)
            (policy_set_of (rq_policy_set rq)) v = (Inr eng, v')
          \<and> decide eng (Structured inp) None None = Inr (res_decision r)))"
proof -
  from assms obtain found w1 where found: "cache_lookup svc (consistency_mode (rq_consistency rq)) tenant
      (policy_set_of (rq_policy_set rq)) (rq_revision rq) inp w = (Inr found, w1)"
    by (auto simp: answer_def bnd_Inr_iff)
  show ?thesis
  proof (cases found)
    case (Inr cd)
    with assms found have "r = mk_result (decision_from_cache cd) True (tr_revision tenant)"
      by (auto simp: answer_def)
    with cache_lookup_Inr [OF found [unfolded Inr]] show ?thesis by (auto simp: mk_result_def)
  next
    case (Inl key)
    with assms found have "bnd (build_engine svc (tr_key tenant) (tr_id tenant) (tr_policy_version tenant)
        (policy_set_of (rq_policy_set rq))) (\<lambda>eng. bnd (decide_and_store svc eng inp key) (\<lambda>d.
          bnd (if rq_audit rq then safe_audit_write svc (tr_id tenant) (rq_principal rq) inp d else ret ()) (\<lambda>_.
            ret (mk_result d False (tr_revision tenant))))) w1 = (Inr r, w')"
      by (simp add: answer_def)
    then obtain eng w2 d w3 where
      "build_engine svc (tr_key tenant) (tr_id tenant) (tr_policy_version tenant) (policy_set_of (rq_policy_set rq)) w1
         = (Inr eng, w2)" "decide_and_store svc eng inp key w2 = (Inr d, w3)" "r = mk_result d False (tr_revision tenant)"
      unfolding bnd_Inr_iff ret_def by blast
    then show ?thesis using decide_and_store_Inr by (fastforce simp: mk_result_def)
  qed
qed

text \<open>
  C2. Failing closed means closed: with the static fallback and any mode but \<open>fail_open\<close>, an allowed
  result was read from the decision cache as allowed, or decided by the engine built for the
  tenant and the policy set on the input built from this request. No failure allows.
\<close>

theorem fail_closed_grants:
  assumes "authorize svc rq w = (Inr r, w')" "ad_allowed (res_decision r)"
    and "\<not> fails_open (as_settings svc)" "fallback_behavior (as_settings svc) \<noteq> ''default_policy_eval''"
  shows "\<exists>inp tenant w1. build_input_of svc (rq_tenant_key rq) (rq_user rq) (rq_action rq) (rq_resource rq)
        (context_of (rq_context rq)) w = (Inr (inp, tenant), w1)
    \<and> (res_cached r \<and> (\<exists>key v v' cd. as_decision_get svc key v = (Inr (Some cd), v') \<and> cd_allowed cd)
       \<or> (\<exists>eng v v'. build_engine svc (tr_key tenant) (tr_id tenant) (tr_policy_version tenant)
              (policy_set_of (rq_policy_set rq)) v = (Inr eng, v')
            \<and> decide eng (Structured inp) None None = Inr (res_decision r)))"
proof -
  have deny: "\<not> ad_allowed d" if "fallback_decision svc inp reason v = (Inr d, v')" for inp reason d v v'
    using that assms(3,4) by (auto simp: fallback_decision_def static_fallback_def safe_deny_def)
  show ?thesis
  proof (cases "build_input_of svc (rq_tenant_key rq) (rq_user rq) (rq_action rq) (rq_resource rq)
      (context_of (rq_context rq)) w")
    case (Pair built w1)
    show ?thesis
    proof (cases built)
      case (Inl e)
      then show ?thesis using assms(1,2) Pair deny by (auto simp: authorize_def bnd_Inr_iff mk_result_def)
    next
      case (Inr it)
      obtain inp tenant where it: "it = (inp, tenant)" by (cases it)
      have "answer svc rq inp tenant w1 = (Inr r, w')"
        using assms(1,2) Pair Inr it deny
        by (auto simp: authorize_def catch_def bnd_Inr_iff mk_result_def split: prod.splits sum.splits)
      from answer_source [OF this] assms(2) Pair Inr it show ?thesis
        by (auto simp: decision_from_cache_def)
    qed
  qed
qed

text \<open>
  With \<open>fail_open\<close> the fallback is not limited to failing backends: a request whose user document
  is rejected by the validation is allowed, and nothing is read, decided or audited.
\<close>

lemma fail_open_allows_invalid:
  assumes "fails_open (as_settings svc)" "fallback_behavior (as_settings svc) \<noteq> ''default_policy_eval''"
    and "validate_user (rq_user rq) = Inl e"
  shows "authorize svc rq w
    = (Inr (mk_result (safe_allow (''authorization input unavailable: '' @ exn_text e)) False 1), w)"
  using assms
  by (simp add: authorize_def build_input_of_def fallback_decision_def static_fallback_def)

section \<open>The decision cache\<close>

lemma cached_step_of_step: "cached_step (step_to_dict t) = t"
  by (cases t) (simp add: cached_step_def step_to_dict_def mk_step_def dget_or_def)

lemma decision_from_cache_from_decision:
  assumes "consistent d"
  shows "decision_from_cache (from_decision d) = d"
proof -
  have "map (\<lambda>x. cached_step (step_to_dict x)) ts = ts" for ts
    by (induction ts) (simp_all add: cached_step_of_step)
  then show ?thesis using assms
    by (cases d; cases "ad_decision d")
      (auto simp: decision_from_cache_def from_decision_def consistent_def o_def)
qed

lemma json_items_step: "json_items (step_to_dict t) = step_to_dict t"
  by (cases "ts_policy_id t") (simp_all add: step_to_dict_def ostr_val_def)

lemma read_decision_payload:
  assumes "cd_explain_trace cd = map step_to_dict ts"
  shows "json_items (decision_payload cd) = decision_payload cd"
    "read_cached_decision (decision_payload cd) = Inr cd"
proof -
  have "map py_str (filter is_str (map PStr xs)) = xs" for xs by (induction xs) (simp_all add: is_str_def)
  moreover have "dict_rows (map PDict ds) = ds" for ds by (induction ds) simp_all
  ultimately show "read_cached_decision (decision_payload cd) = Inr cd"
    by (cases cd) (simp add: read_cached_decision_def decision_payload_def Let_def dget_or_def py_iter_def)
  show "json_items (decision_payload cd) = decision_payload cd"
    using assms by (simp add: decision_payload_def json_docs_map o_def json_items_step)
qed

context cache_backend begin

lemma decision_read_back:
  assumes "consistent d" "decision_cache_set ops key (from_decision d) ttl b = (Inr (), b')"
  shows "\<exists>b''. decision_cache_get ops key b' = (Inr (Some (from_decision d)), b'')"
proof -
  let ?cd = "from_decision d"
  have steps: "cd_explain_trace ?cd = map step_to_dict (ad_explain_trace d)" by (simp add: from_decision_def)
  let ?v = "json_dumps (PDict (decision_payload ?cd))"
  obtain b1 where b1: "co_set ops key ?v (Some ttl) b = (Inr (), b1)" "look b1 = (look b)(key := Some ?v)"
    using set_law by blast
  with assms(2) have "b1 = b'" by (simp add: decision_cache_set_def)
  with b1 have "look b' key = Some ?v" by simp
  moreover obtain b2 where "co_get ops key b' = (Inr (look b' key), b2)" using get_law by blast
  ultimately show ?thesis
    by (simp add: decision_cache_get_def read_decision_payload [OF steps])
qed

end

text \<open>
  C21. A decision of the engine survives the decision cache: stored and read back from the memory
  backend it is the same decision, verdict, reason, policies, failed conditions and trace.
\<close>

theorem cached_decision_roundtrip:
  assumes "decide eng arg action resource = Inr d"
    and "decision_cache_set memory_ops key (from_decision d) ttl b = (Inr (), b')"
  shows "\<exists>cd b''. decision_cache_get memory_ops key b' = (Inr (Some cd), b'') \<and> decision_from_cache cd = d"
  using memory.decision_read_back [OF decide_consistent [OF assms(1)] assms(2)]
    decision_from_cache_from_decision [OF decide_consistent [OF assms(1)]] by blast

section \<open>Full consistency\<close>

text \<open>A service with another decision cache.\<close>

definition swap_decision_cache :: "(string \<Rightarrow> int \<Rightarrow> authorization_input \<Rightarrow> int option \<Rightarrow> ('w, string) eff)
    \<Rightarrow> (string \<Rightarrow> ('w, cached_decision option) eff) \<Rightarrow> (string \<Rightarrow> cached_decision \<Rightarrow> int \<Rightarrow> ('w, unit) eff)
    \<Rightarrow> 'w auth_service \<Rightarrow> 'w auth_service" where
  "swap_decision_cache mk g st svc = svc\<lparr>as_make_key := mk, as_decision_get := g, as_decision_set := st\<rparr>"

lemma swap_fields [simp]:
  "as_settings (swap_decision_cache mk g st svc) = as_settings svc"
  "as_load_policies (swap_decision_cache mk g st svc) = as_load_policies svc"
  "as_tenants (swap_decision_cache mk g st svc) = as_tenants svc"
  "as_list_current (swap_decision_cache mk g st svc) = as_list_current svc"
  "as_user_context (swap_decision_cache mk g st svc) = as_user_context svc"
  "as_list_for_subject (swap_decision_cache mk g st svc) = as_list_for_subject svc"
  "as_audit_write (swap_decision_cache mk g st svc) = as_audit_write svc"
  "as_policy_cache_get (swap_decision_cache mk g st svc) = as_policy_cache_get svc"
  "as_policy_cache_set (swap_decision_cache mk g st svc) = as_policy_cache_set svc"
  "as_relationship_cache_get (swap_decision_cache mk g st svc) = as_relationship_cache_get svc"
  "as_relationship_cache_set (swap_decision_cache mk g st svc) = as_relationship_cache_set svc"
  "as_index (swap_decision_cache mk g st svc) = as_index svc"
  "as_get_model (swap_decision_cache mk g st svc) = as_get_model svc"
  "as_model_get (swap_decision_cache mk g st svc) = as_model_get svc"
  "as_model_set (swap_decision_cache mk g st svc) = as_model_set svc"
  "as_graph_set (swap_decision_cache mk g st svc) = as_graph_set svc"
  "as_schedule (swap_decision_cache mk g st svc) = as_schedule svc"
  "as_request_id (swap_decision_cache mk g st svc) = as_request_id svc"
  by (simp_all add: swap_decision_cache_def)

lemma timed_swap [simp]: "timed (swap_decision_cache mk g st svc) m = timed svc m"
  by (simp add: timed_def fun_eq_iff)

lemma safe_swap [simp]: "safe_get (swap_decision_cache mk g st svc) gm = safe_get svc gm"
  "safe_write (swap_decision_cache mk g st svc) wm = safe_write svc wm"
  by (simp_all add: safe_get_def safe_write_def)

lemma hydrate_swap [simp]: "hydrate_user (swap_decision_cache mk g st svc) t u = hydrate_user svc t u"
  by (simp add: hydrate_user_def user_relationships_def safe_relationship_cache_get_def
      safe_relationship_cache_set_def Let_def cong: option.case_cong)

lemma input_swap [simp]:
  "build_authorization_input (swap_decision_cache mk g st svc) t k u a res c = build_authorization_input svc t k u a res c"
  by (simp add: build_authorization_input_def permission_graph_for_def index_for_def Let_def cong: option.case_cong)

lemma swap_helpers [simp]:
  "build_input_of (swap_decision_cache mk g st svc) k u a res c = build_input_of svc k u a res c"
  "fallback_decision (swap_decision_cache mk g st svc) inp reason = fallback_decision svc inp reason"
  "safe_audit_write (swap_decision_cache mk g st svc) t who inp d = safe_audit_write svc t who inp d"
  "build_engine (swap_decision_cache mk g st svc) k t v ps = build_engine svc k t v ps"
  by (simp_all add: build_input_of_def fallback_decision_def default_policy_eval_def safe_audit_write_def
      build_engine_def safe_policy_cache_get_def safe_policy_cache_set_def load_current_policies_def engine_from_def Let_def
      cong: option.case_cong if_cong)

text \<open>
  C25. A \<open>fully_consistent\<close> request does not involve the decision cache at all: with any other cache,
  even a poisoned or failing one, the result and the resulting world are the same.
\<close>

theorem fully_consistent_bypasses_cache:
  assumes "consistency_mode (rq_consistency rq) = ''fully_consistent''"
  shows "authorize (swap_decision_cache mk g st svc) rq w = authorize svc rq w"
proof -
  have "answer (swap_decision_cache mk g st svc) rq inp tenant w = answer svc rq inp tenant w" for inp tenant w
    using assms by (simp add: answer_def cache_lookup_def decide_and_store_def cong: if_cong)
  then show ?thesis by (simp add: authorize_def catch_def split: prod.split sum.split)
qed

section \<open>Batches\<close>

definition matches_known :: "auth_result \<Rightarrow> authorization_input \<times> authorization_decision \<times> bool \<Rightarrow> bool" where
  "matches_known r known = (res_decision r = fst (snd known) \<and> res_cached r = snd (snd known))"

lemma batch_loop_Cons:
  assumes "batch_loop svc bq tenant user eng memo (item # items) w = (Inr rs, w')"
  obtains r rest known memo' v where "rs = r # rest" "matches_known r known"
    "dget memo' (memo_key_of bq item) = Some known"
    "\<And>k x. dget memo k = Some x \<Longrightarrow> dget memo' k = Some x"
    "batch_loop svc bq tenant user eng memo' items v = (Inr rest, w')"
proof -
  from assms obtain known memo' v1 v2 rest where
    known: "(case dget memo (memo_key_of bq item) of Some known \<Rightarrow> ret (known, memo)
      | None \<Rightarrow> bnd (batch_decision svc bq tenant user eng item) (\<lambda>r. ret (r, dset memo (memo_key_of bq item) r))) w
      = (Inr (known, memo'), v1)"
    and rest: "batch_loop svc bq tenant user eng memo' items v2 = (Inr rest, w')"
    and rs: "rs = mk_result (fst (snd known)) (snd (snd known)) (tr_revision tenant) # rest"
    by (auto simp: bnd_Inr_iff split: prod.splits)
  have "dget memo' (memo_key_of bq item) = Some known"
    "dget memo k = Some x \<Longrightarrow> dget memo' k = Some x" for k x
    using known by (auto simp: bnd_Inr_iff split: option.splits if_splits)
  then show ?thesis using rs rest by (intro that) (auto simp: matches_known_def mk_result_def)
qed

lemma batch_loop_known:
  assumes "batch_loop svc bq tenant user eng memo items w = (Inr rs, w')"
  shows "length rs = length items"
    "i < length items \<Longrightarrow> dget memo (memo_key_of bq (items ! i)) = Some known \<Longrightarrow> matches_known (rs ! i) known"
    "i < j \<Longrightarrow> j < length items \<Longrightarrow> memo_key_of bq (items ! i) = memo_key_of bq (items ! j)
      \<Longrightarrow> res_decision (rs ! i) = res_decision (rs ! j) \<and> res_cached (rs ! i) = res_cached (rs ! j)"
  using assms
proof (induction items arbitrary: memo w rs i j known)
  case Nil
  { case 1 then show ?case by simp }
  { case 2 then show ?case by simp }
  { case 3 then show ?case by simp }
next
  case (Cons item items)
  { case 1
    then show ?case by (elim batch_loop_Cons) (use Cons.IH(1) in auto) }
  { case 2
    from 2(3) show ?case
    proof (rule batch_loop_Cons)
      fix r rest known' memo' v
      assume *: "rs = r # rest" "matches_known r known'" "dget memo' (memo_key_of bq item) = Some known'"
        "\<And>k x. dget memo k = Some x \<Longrightarrow> dget memo' k = Some x"
        "batch_loop svc bq tenant user eng memo' items v = (Inr rest, w')"
      show "matches_known (rs ! i) known"
        using 2(1,2) * Cons.IH(2) [OF _ _ *(5)] by (cases i) (auto dest: *(4))
    qed }
  { case 3
    from 3(4) show ?case
    proof (rule batch_loop_Cons)
      fix r rest known' memo' v
      assume *: "rs = r # rest" "matches_known r known'" "dget memo' (memo_key_of bq item) = Some known'"
        "\<And>k x. dget memo k = Some x \<Longrightarrow> dget memo' k = Some x"
        "batch_loop svc bq tenant user eng memo' items v = (Inr rest, w')"
      obtain j' where j: "j = Suc j'" using 3(1) by (cases j) auto
      show "res_decision (rs ! i) = res_decision (rs ! j) \<and> res_cached (rs ! i) = res_cached (rs ! j)"
      proof (cases i)
        case 0
        then have "matches_known (rest ! j') known'" using 3 j * Cons.IH(2) [OF _ _ *(5), of j' known'] by auto
        then show ?thesis using 0 * j by (simp add: matches_known_def)
      next
        case (Suc i')
        then show ?thesis using 3 j * Cons.IH(3) [OF _ _ _ *(5), of i' j'] by auto
      qed
    qed }
qed

lemma for_each_ret: "(\<And>x. f x = ret (g x)) \<Longrightarrow> for_each f xs w = (Inr (map g xs), w)"
  by (induction xs) simp_all

lemma batch_fallback_repeats:
  assumes "fallback_behavior (as_settings svc) \<noteq> ''default_policy_eval''"
  shows "batch_fallback svc bq w = (Inr (map (\<lambda>item.
    mk_result (static_fallback (as_settings svc) ''authorization backend unavailable'') False 1) (bq_items bq)), w)"
  unfolding batch_fallback_def
  by (rule for_each_ret) (use assms in \<open>simp add: fallback_decision_def fun_eq_iff\<close>)

text \<open>
  A batch answers every item, in order, and items with the same action and the same resource
  (up to the order of its keys) get the same decision from the same source, even when the cache or
  the data change while the batch runs.
\<close>

lemma batch_repeats_agree:
  assumes "authorize_batch svc bq w = (Inr rs, w')"
    and "fallback_behavior (as_settings svc) \<noteq> ''default_policy_eval''"
  shows "length rs = length (bq_items bq) \<and> (\<forall>i j. i < j \<longrightarrow> j < length (bq_items bq) \<longrightarrow>
      memo_key_of bq (bq_items bq ! i) = memo_key_of bq (bq_items bq ! j) \<longrightarrow>
      res_decision (rs ! i) = res_decision (rs ! j) \<and> res_cached (rs ! i) = res_cached (rs ! j))"
proof -
  from assms(1) obtain ready w1 where run: "(case ready of None \<Rightarrow> batch_fallback svc bq
      | Some (tenant, user, eng) \<Rightarrow> batch_loop svc bq tenant user eng [] (bq_items bq)) w1 = (Inr rs, w')"
    by (auto simp: authorize_batch_def bnd_Inr_iff)
  show ?thesis
  proof (cases ready)
    case None
    with run have "rs = map (\<lambda>item. mk_result (static_fallback (as_settings svc)
        ''authorization backend unavailable'') False 1) (bq_items bq)"
      by (simp add: batch_fallback_repeats [OF assms(2)])
    then show ?thesis by simp
  next
    case (Some s)
    obtain tenant user eng where "s = (tenant, user, eng)" by (cases s)
    with run Some have "batch_loop svc bq tenant user eng [] (bq_items bq) w1 = (Inr rs, w')" by simp
    from batch_loop_known(1,3) [OF this] show ?thesis by blast
  qed
qed

text \<open>
  The two entry points treat a failing database differently: where \<open>authorize\<close> answers with the
  fallback, \<open>authorize_batch\<close> lets the database error escape, since it recovers only from
  \<open>RuntimeError\<close>, \<open>TimeoutError\<close> and \<open>ValueError\<close>.
\<close>

lemma batch_raises_database_error:
  assumes "as_schedule svc w = (InTime, w1)"
    and "tp_get_or_create (as_tenants svc) (rq_tenant_key rq) w1 = (Inl (OperationalError m), w2)"
    and "validate_user (rq_user rq) = Inr ()" "validate_resource (rq_resource rq) = Inr ()"
    and "fallback_behavior (as_settings svc) \<noteq> ''default_policy_eval''"
    and "bq_user bq = rq_user rq" "bq_tenant_key bq = rq_tenant_key rq"
  shows "authorize_batch svc bq w = (Inl (OperationalError m), w2)
    \<and> authorize svc rq w = (Inr (mk_result (static_fallback (as_settings svc)
         (''authorization input unavailable: '' @ m)) False 1), w2)"
proof -
  have t: "timed svc (tp_get_or_create (as_tenants svc) (rq_tenant_key rq)) w = (Inl (OperationalError m), w2)"
    using assms(1,2) by (simp add: timed_def with_timeout_def)
  with assms(3-) have "build_input_of svc (rq_tenant_key rq) (rq_user rq) (rq_action rq) (rq_resource rq)
      (context_of (rq_context rq)) w = (Inl (OperationalError m), w2)"
    by (simp add: build_input_of_def)
  moreover have "batch_setup svc bq w = (Inl (OperationalError m), w2)"
    using t assms(6,7) by (simp add: batch_setup_def)
  ultimately show ?thesis using assms(3-)
    by (simp add: authorize_batch_def authorize_def fallback_decision_def batch_recovers_def)
qed

section \<open>Where the policies come from\<close>

text \<open>
  The three sources of the policies of a request, in the order they are tried, with the world each one
  is read in. The cache is passed over when the request is for another set than the active one, or when
  reading it, within its timeout, gives nothing or fails.
\<close>

inductive cache_passed :: "'w auth_service \<Rightarrow> string \<Rightarrow> int \<Rightarrow> string \<Rightarrow> 'w \<Rightarrow> 'w \<Rightarrow> bool"
  for svc tenant_key policy_version policy_set w where
  other_set: "policy_set \<noteq> ''active'' \<Longrightarrow> cache_passed svc tenant_key policy_version policy_set w w"
| miss: "policy_set = ''active'' \<Longrightarrow> timed svc (as_policy_cache_get svc tenant_key policy_version) w = (Inr None, w1) \<Longrightarrow>
    cache_passed svc tenant_key policy_version policy_set w w1"
| failure: "policy_set = ''active'' \<Longrightarrow> timed svc (as_policy_cache_get svc tenant_key policy_version) w = (Inl e, w1) \<Longrightarrow>
    cache_passed svc tenant_key policy_version policy_set w w1"

inductive policy_source :: "'w auth_service \<Rightarrow> string \<Rightarrow> int \<Rightarrow> int \<Rightarrow> string \<Rightarrow> 'w \<Rightarrow> policy_arg list \<Rightarrow> 'w \<Rightarrow> bool"
  for svc tenant_key tenant_id policy_version policy_set w where
  from_cache: "policy_set = ''active'' \<Longrightarrow>
    timed svc (as_policy_cache_get svc tenant_key policy_version) w = (Inr (Some rs), w1) \<Longrightarrow>
    policy_source svc tenant_key tenant_id policy_version policy_set w (map (\<lambda>p. PolicyDef (pr_definition p)) rs) w1"
| from_store: "cache_passed svc tenant_key policy_version policy_set w w1 \<Longrightarrow>
    timed svc (load_current_policies svc tenant_id policy_set) w1 = (Inr rs, w2) \<Longrightarrow> rs \<noteq> [] \<Longrightarrow>
    w3 = (if policy_set = ''active'' then snd (safe_policy_cache_set svc tenant_key policy_version rs w2) else w2) \<Longrightarrow>
    policy_source svc tenant_key tenant_id policy_version policy_set w (map (\<lambda>p. PolicyDef (pr_definition p)) rs) w3"
| from_defaults: "cache_passed svc tenant_key policy_version policy_set w w1 \<Longrightarrow>
    timed svc (load_current_policies svc tenant_id policy_set) w1 = (Inr [], w2) \<Longrightarrow>
    as_load_policies svc w2 = (Inr raw, w3) \<Longrightarrow>
    policy_source svc tenant_key tenant_id policy_version policy_set w (map PolicyRaw raw) w3"

lemma engine_from_Inr:
  assumes "engine_from svc graph_key policy_version policies v = (Inr eng, w')"
  shows "new_engine policies ''first_match'' None = Inr eng"
    "as_graph_set svc graph_key policy_version (eng_graph eng) v = (Inr (), w')"
  using assms by (auto simp: engine_from_def bnd_Inr_iff lift_def)

lemma cache_consulted:
  assumes "(if s = ''active'' then safe_policy_cache_get svc tenant_key policy_version else ret None) w = (Inr cached, w1)"
  shows "case cached of
      Some rs \<Rightarrow> s = ''active'' \<and> timed svc (as_policy_cache_get svc tenant_key policy_version) w = (Inr (Some rs), w1)
    | None \<Rightarrow> cache_passed svc tenant_key policy_version s w w1"
  using assms
  by (auto simp: safe_policy_cache_get_def safe_get_def catch_def split: option.splits if_splits sum.splits prod.splits
      intro: cache_passed.intros)

lemma build_engine_steps:
  assumes "build_engine svc tenant_key tenant_id policy_version ps w = (Inr eng, w')"
  obtains policies v where "policy_source svc tenant_key tenant_id policy_version (policy_set_of ps) w policies v"
    "engine_from svc (set_namespace tenant_key (policy_set_of ps)) policy_version policies v = (Inr eng, w')"
proof -
  let ?s = "policy_set_of ps"
  from assms obtain cached w1 where
    c: "(if ?s = ''active'' then safe_policy_cache_get svc tenant_key policy_version else ret None) w = (Inr cached, w1)"
    and run: "(case cached of
        Some rs \<Rightarrow> engine_from svc (set_namespace tenant_key ?s) policy_version (map (\<lambda>p. PolicyDef (pr_definition p)) rs)
      | None \<Rightarrow> bnd (timed svc (load_current_policies svc tenant_id ?s)) (\<lambda>rs.
          if rs = [] then bnd (as_load_policies svc) (\<lambda>raw.
              engine_from svc (set_namespace tenant_key ?s) policy_version (map PolicyRaw raw))
          else bnd (if ?s = ''active'' then safe_policy_cache_set svc tenant_key policy_version rs else ret ())
            (\<lambda>_. engine_from svc (set_namespace tenant_key ?s) policy_version
              (map (\<lambda>p. PolicyDef (pr_definition p)) rs)))) w1 = (Inr eng, w')"
    unfolding build_engine_def Let_def bnd_Inr_iff by blast
  show ?thesis
  proof (cases cached)
    case (Some rs)
    with cache_consulted [OF c] run show ?thesis by (auto intro: that from_cache)
  next
    case None
    then have passed: "cache_passed svc tenant_key policy_version ?s w w1" using cache_consulted [OF c] by simp
    from run None obtain rs w2 where rs: "timed svc (load_current_policies svc tenant_id ?s) w1 = (Inr rs, w2)"
      and rest: "(if rs = [] then bnd (as_load_policies svc) (\<lambda>raw.
              engine_from svc (set_namespace tenant_key ?s) policy_version (map PolicyRaw raw))
          else bnd (if ?s = ''active'' then safe_policy_cache_set svc tenant_key policy_version rs else ret ())
            (\<lambda>_. engine_from svc (set_namespace tenant_key ?s) policy_version
              (map (\<lambda>p. PolicyDef (pr_definition p)) rs))) w2 = (Inr eng, w')"
      by (auto simp: bnd_Inr_iff)
    show ?thesis
    proof (cases "rs = []")
      case True
      with rest rs passed show ?thesis by (auto simp: bnd_Inr_iff intro: that from_defaults)
    next
      case False
      with rest obtain w3 where
        "w3 = (if ?s = ''active'' then snd (safe_policy_cache_set svc tenant_key policy_version rs w2) else w2)"
        "engine_from svc (set_namespace tenant_key ?s) policy_version (map (\<lambda>p. PolicyDef (pr_definition p)) rs) w3
          = (Inr eng, w')"
        by (auto simp: bnd_Inr_iff split: if_splits)
      with from_store [OF passed rs False] show ?thesis by (auto intro: that)
    qed
  qed
qed

text \<open>
  C26. An engine that is built for a request of the active set has the policies cached for the tenant's
  policy version when the cache holds any; only when it has none or its read fails are the stored
  policies read, which are then cached, and only when none are stored the configured default policies.
  Another set is never looked up in the cache. The graph published for the tenant is the graph the
  request is decided with.
\<close>

theorem build_engine_source:
  assumes "build_engine svc tenant_key tenant_id policy_version ps w = (Inr eng, w')"
  shows "\<exists>policies v. policy_source svc tenant_key tenant_id policy_version (policy_set_of ps) w policies v
    \<and> new_engine policies ''first_match'' None = Inr eng
    \<and> as_graph_set svc (set_namespace tenant_key (policy_set_of ps)) policy_version (eng_graph eng) v = (Inr (), w')"
  using build_engine_steps [OF assms] engine_from_Inr by metis

end
