(* ===== verification/Deployment.thy ===== *)
theory Deployment
  imports Identity Authorization
begin

text \<open>
  The authorization service wired as \<open>api/dependencies.py\<close> wires it: the SQL repositories, the memory
  cache backend, the process-wide stores and the indexer, on one \<open>site\<close>. \<open>digest\<close>, \<open>parse_json\<close> and
  \<open>load_files\<close> stand for the SHA-256 digest, the JSON parser and the policy file loader. A tiny service
  on the empty world shows at the end that the hypotheses of the service theorems can hold.
\<close>

section \<open>The wiring\<close>

definition next_schedule :: "site \<Rightarrow> schedule \<times> site" where
  "next_schedule s = (case st_schedules s of [] \<Rightarrow> (InTime, s) | c # cs \<Rightarrow> (c, s\<lparr>st_schedules := cs\<rparr>))"

definition site_tenants :: "site tenant_repo" where
  "site_tenants = \<lparr>tp_get_or_create = (\<lambda>k. on_world (tp_get_or_create world_tenants k)),
     tp_bump_policy_version = (\<lambda>t. on_world (tp_bump_policy_version world_tenants t)),
     tp_bump_revision = (\<lambda>t. on_world (tp_bump_revision world_tenants t))\<rparr>"

definition site_model_text :: "int \<Rightarrow> (site, string option) eff" where
  "site_model_text tenant_id =
     bnd (on_world (on_db (get_model tenant_id))) (\<lambda>m. ret (map_option mo_schema_text m))"

definition site_model_get :: "string \<Rightarrow> (site, permission_graph option) eff" where
  "site_model_get tenant_key s = (Inr (model_store_get (w_models (st_world s)) tenant_key), s)"

definition build_service :: "settings \<Rightarrow> (pyval \<Rightarrow> string) \<Rightarrow> (string \<Rightarrow> pyval option)
    \<Rightarrow> (string list \<Rightarrow> (site, pydict list) eff) \<Rightarrow> string option \<Rightarrow> site auth_service" where
  "build_service cfg digest parse_json load_files request_id = \<lparr>
     as_settings = cfg, as_load_policies = load_policies parse_json load_files cfg, as_tenants = site_tenants,
     as_list_current = (\<lambda>t ps. on_world (on_db (list_current_policies t ps))),
     as_user_context = (\<lambda>i. on_world (on_db (get_user_context i))),
     as_list_for_subject = (\<lambda>t ty sid. on_world (on_db (list_for_subject t ty sid))),
     as_audit_write = (\<lambda>t ty pid inp d c. on_world (on_db (audit_write t ty pid inp d c))),
     as_policy_cache_get = (\<lambda>k v. on_world (policy_cache_get world_cache k v)),
     as_policy_cache_set = (\<lambda>k v ps. on_world (policy_cache_set world_cache k v ps)),
     as_relationship_cache_get = (\<lambda>t ty sid. on_world (relationship_cache_get world_cache t ty sid)),
     as_relationship_cache_set = (\<lambda>t ty sid rs. on_world (relationship_cache_set world_cache 30 t ty sid rs)),
     as_make_key = (\<lambda>k v inp r. on_world (make_key world_cache digest k v inp r)),
     as_decision_get = (\<lambda>k. on_world (decision_cache_get world_cache k)),
     as_decision_set = (\<lambda>k d ttl. on_world (decision_cache_set world_cache k d ttl)),
     as_index = Some (build_resource_index site_index), as_get_model = Some site_model_text,
     as_model_get = site_model_get, as_model_set = (\<lambda>k g. on_world (models_set k g)),
     as_graph_set = (\<lambda>k v g. on_world (graphs_set k v g)), as_schedule = next_schedule,
     as_request_id = request_id\<rparr>"

section \<open>A tiny service\<close>

text \<open>One tenant, one policy, no cache content, every call in time; its world holds nothing.\<close>

definition tiny_tenant :: tenant_record where
  "tiny_tenant = \<lparr>tr_id = 1, tr_key = ''acme'', tr_policy_version = 1, tr_revision = 1\<rparr>"

definition tiny_policy :: policy_record where
  "tiny_policy = \<lparr>pr_id = 1, pr_definition = \<lparr>pd_action = ''read'', pd_effect = Allow, pd_conditions = [],
     pd_priority = 10, pd_policy_id = Some ''p:v1''\<rparr>\<rparr>"

definition tiny_service :: "settings \<Rightarrow> exn option \<Rightarrow> unit auth_service" where
  "tiny_service cfg failure = \<lparr>
     as_settings = cfg, as_load_policies = ret default_policies,
     as_tenants = \<lparr>tp_get_or_create = (\<lambda>k. case failure of None \<Rightarrow> ret tiny_tenant | Some e \<Rightarrow> throw e),
       tp_bump_policy_version = ret, tp_bump_revision = ret\<rparr>,
     as_list_current = (\<lambda>t ps. ret [tiny_policy]), as_user_context = (\<lambda>i. ret None),
     as_list_for_subject = (\<lambda>t ty sid. ret []), as_audit_write = (\<lambda>t ty pid inp d c. ret ()),
     as_policy_cache_get = (\<lambda>k v. ret None), as_policy_cache_set = (\<lambda>k v ps. ret ()),
     as_relationship_cache_get = (\<lambda>t ty sid. ret None), as_relationship_cache_set = (\<lambda>t ty sid rs. ret ()),
     as_make_key = (\<lambda>k v inp r. ret k), as_decision_get = (\<lambda>k. ret None), as_decision_set = (\<lambda>k d ttl. ret ()),
     as_index = None, as_get_model = None, as_model_get = (\<lambda>k. ret None), as_model_set = (\<lambda>k g. ret ()),
     as_graph_set = (\<lambda>k v g. ret ()), as_schedule = (\<lambda>w. (InTime, w)), as_request_id = None\<rparr>"

definition tiny_request :: auth_request where
  "tiny_request = \<lparr>rq_tenant_key = ''acme'', rq_principal = [], rq_user = [(''id'', PStr ''u1'')], rq_action = ''read'',
     rq_resource = [], rq_context = None, rq_consistency = ''fully_consistent'', rq_revision = None, rq_audit = True,
     rq_policy_set = ''active''\<rparr>"

definition tiny_batch :: batch_request where
  "tiny_batch = \<lparr>bq_tenant_key = ''acme'', bq_principal = [], bq_user = [(''id'', PStr ''u1'')],
     bq_items = [\<lparr>bi_action = ''read'', bi_resource = []\<rparr>, \<lparr>bi_action = ''read'', bi_resource = []\<rparr>],
     bq_context = None, bq_consistency = ''eventual'', bq_revision = None, bq_policy_set = ''active''\<rparr>"

abbreviation tiny :: "unit auth_service" where
  "tiny \<equiv> tiny_service default_settings None"

lemma exists_Inr: "(case x of (Inr r, w) \<Rightarrow> P r | _ \<Rightarrow> False) \<Longrightarrow> \<exists>r w. x = (Inr r, w) \<and> P r"
  by (auto split: prod.splits sum.splits)

lemma tiny_modes: "\<not> fails_open default_settings" "fallback_behavior default_settings \<noteq> ''default_policy_eval''"
    "consistency_mode (rq_consistency tiny_request) = ''fully_consistent''"
  by code_simp+

lemma tiny_settings [simp]: "as_settings (tiny_service cfg failure) = cfg"
  by (simp add: tiny_service_def)

theorem fail_closed_grants_witness:
  "\<exists>r w' inp tenant w1. authorize tiny tiny_request () = (Inr r, w') \<and> ad_allowed (res_decision r)
    \<and> build_input_of tiny ''acme'' [(''id'', PStr ''u1'')] ''read'' [] (context_of None) () = (Inr (inp, tenant), w1)"
proof -
  have "\<exists>r w'. authorize tiny tiny_request () = (Inr r, w') \<and> ad_allowed (res_decision r)"
    by (rule exists_Inr) code_simp
  then obtain r w' where r: "authorize tiny tiny_request () = (Inr r, w')" "ad_allowed (res_decision r)" by blast
  from fail_closed_grants [OF r] tiny_modes have "\<exists>inp tenant w1. build_input_of tiny (rq_tenant_key tiny_request)
      (rq_user tiny_request) (rq_action tiny_request) (rq_resource tiny_request) (context_of (rq_context tiny_request)) ()
      = (Inr (inp, tenant), w1)" by auto
  with r show ?thesis by (auto simp: tiny_request_def)
qed

definition deep_user :: pydict where
  "deep_user = ((\<lambda>d. [(''a'', PDict d)]) ^^ 6) []"

definition open_settings :: settings where
  "open_settings = default_settings\<lparr>se_resilience_mode := ''fail_open''\<rparr>"

theorem fail_open_allows_invalid_witness:
  "authorize (tiny_service open_settings None) (tiny_request\<lparr>rq_user := deep_user\<rparr>) ()
    = (Inr (mk_result (safe_allow ''authorization input unavailable: user too deep'') False 1), ())"
proof -
  have "fails_open open_settings" "fallback_behavior open_settings \<noteq> ''default_policy_eval''" by code_simp+
  moreover have "validate_user deep_user = Inl (AttributeValidationError ''user too deep'')" by code_simp
  ultimately show ?thesis
    using fail_open_allows_invalid [of "tiny_service open_settings None" "tiny_request\<lparr>rq_user := deep_user\<rparr>"] by simp
qed

theorem cached_decision_roundtrip_witness:
  "\<exists>d b' cd b''. decide \<lparr>eng_policies = [], eng_graph = \<lparr>dg_nodes = []\<rparr>, eng_strategy = ''first_match''\<rparr>
        (LegacyUser [(''permissions'', PList [PStr ''read''])]) (Some ''read'') (Some []) = Inr d
    \<and> decision_cache_set memory_ops ''k'' (from_decision d) 5 empty_memory = (Inr (), b')
    \<and> decision_cache_get memory_ops ''k'' b' = (Inr (Some cd), b'') \<and> decision_from_cache cd = d"
proof -
  let ?eng = "\<lparr>eng_policies = [], eng_graph = \<lparr>dg_nodes = []\<rparr>, eng_strategy = ''first_match''\<rparr>"
  have "\<exists>d. decide ?eng (LegacyUser [(''permissions'', PList [PStr ''read''])]) (Some ''read'') (Some []) = Inr d"
    by (simp add: decide_def normalize_input_def decide_structured_def evaluate_direct_permissions_def plain_input_def
        dget_or_def is_list_def py_in_def list_items_def Let_def)
  then obtain d where d: "decide ?eng (LegacyUser [(''permissions'', PList [PStr ''read''])]) (Some ''read'') (Some []) = Inr d"
    by blast
  obtain b' where b': "decision_cache_set memory_ops ''k'' (from_decision d) 5 empty_memory = (Inr (), b')"
    by (simp add: decision_cache_set_def memory_ops_def memory_set_def)
  from cached_decision_roundtrip [OF d b'] d b' show ?thesis by blast
qed

theorem fully_consistent_bypasses_cache_witness:
  "authorize (swap_decision_cache (\<lambda>k v inp r. throw (RuntimeError ''down'')) (\<lambda>k. throw (RuntimeError ''down''))
      (\<lambda>k d ttl. throw (RuntimeError ''down'')) tiny) tiny_request () = authorize tiny tiny_request ()"
  by (rule fully_consistent_bypasses_cache) (rule tiny_modes)

theorem batch_repeats_agree_witness:
  "\<exists>rs w'. authorize_batch tiny tiny_batch () = (Inr rs, w') \<and> length rs = 2 \<and> res_decision (rs ! 0) = res_decision (rs ! 1)"
proof -
  have "\<exists>rs w'. authorize_batch tiny tiny_batch () = (Inr rs, w') \<and> True" by (rule exists_Inr) code_simp
  then obtain rs w' where rs: "authorize_batch tiny tiny_batch () = (Inr rs, w')" by blast
  have items: "bq_items tiny_batch = [\<lparr>bi_action = ''read'', bi_resource = []\<rparr>, \<lparr>bi_action = ''read'', bi_resource = []\<rparr>]"
    by (simp add: tiny_batch_def)
  note agree = batch_repeats_agree [OF rs, simplified, OF tiny_modes(2)]
  from agree have "length rs = 2" by (simp add: items)
  moreover have "res_decision (rs ! 0) = res_decision (rs ! 1)"
    using agree [THEN conjunct2, rule_format, of 0 1] by (simp add: items)
  ultimately show ?thesis using rs by blast
qed

theorem batch_raises_database_error_witness:
  "authorize_batch (tiny_service default_settings (Some (OperationalError ''db down''))) tiny_batch ()
     = (Inl (OperationalError ''db down''), ())"
proof -
  let ?svc = "tiny_service default_settings (Some (OperationalError ''db down''))"
  have "as_schedule ?svc () = (InTime, ())"
    "tp_get_or_create (as_tenants ?svc) (rq_tenant_key tiny_request) () = (Inl (OperationalError ''db down''), ())"
    by (simp_all add: tiny_service_def)
  moreover have "validate_user (rq_user tiny_request) = Inr ()" "validate_resource (rq_resource tiny_request) = Inr ()"
    by code_simp+
  moreover have "bq_user tiny_batch = rq_user tiny_request" "bq_tenant_key tiny_batch = rq_tenant_key tiny_request"
    by (simp_all add: tiny_batch_def tiny_request_def)
  ultimately show ?thesis
    using batch_raises_database_error [of ?svc "()" "()" tiny_request "''db down''" "()" tiny_batch] tiny_modes by simp
qed

theorem build_engine_source_witness:
  "\<exists>eng w' policies v. build_engine tiny ''acme'' 1 1 ''active'' () = (Inr eng, w')
    \<and> policy_source tiny ''acme'' 1 1 (policy_set_of ''active'') () policies v
    \<and> as_graph_set tiny (set_namespace ''acme'' (policy_set_of ''active'')) 1 (eng_graph eng) v = (Inr (), w')"
proof -
  have "\<exists>eng w'. build_engine tiny ''acme'' 1 1 ''active'' () = (Inr eng, w') \<and> True" by (rule exists_Inr) code_simp
  then obtain eng w' where e: "build_engine tiny ''acme'' 1 1 ''active'' () = (Inr eng, w')" by blast
  from build_engine_source [OF e] e show ?thesis by blast
qed

end
