(* ===== verification/Http.thy ===== *)
theory Http
  imports Effects
begin

text \<open>
  Requests and responses as the middleware and the handlers see them. Starlette looks headers up
  without regard to case: header names are held in lower case. The fields \<open>rq_tenant\<close> and \<open>rq_id\<close> are
  the attributes \<open>requested_tenant_key\<close> and \<open>request_id\<close> of \<open>request.state\<close>. Bodies are texts.
\<close>

record http_request =
  rq_method :: string
  rq_path :: string
  rq_headers :: "string dict"
  rq_body :: string
  rq_client :: "string option"
  rq_tenant :: "string option"
  rq_id :: "string option"

record http_response =
  rs_status :: int
  rs_headers :: "string dict"
  rs_body :: string
  rs_media_type :: "string option"

definition header :: "http_request \<Rightarrow> string \<Rightarrow> string option" where
  "header request name = dget (rq_headers request) (lower name)"

definition set_header :: "string \<Rightarrow> string \<Rightarrow> http_response \<Rightarrow> http_response" where
  "set_header name v response = response\<lparr>rs_headers := dset (rs_headers response) (lower name) v\<rparr>"

definition response_header :: "http_response \<Rightarrow> string \<Rightarrow> string option" where
  "response_header response name = dget (rs_headers response) (lower name)"

lemma set_header_simps [simp]:
  "rs_status (set_header n v r) = rs_status r" "rs_body (set_header n v r) = rs_body r"
  "rs_media_type (set_header n v r) = rs_media_type r"
  "response_header (set_header n v r) n = Some v"
  by (simp_all add: set_header_def response_header_def)

text \<open>\<open>a or b\<close> on texts that may be missing\<close>

definition or_else :: "string option \<Rightarrow> string option \<Rightarrow> string option" where
  "or_else a b = (case a of None \<Rightarrow> b | Some t \<Rightarrow> if t = [] then b else a)"

lemma or_else_simps [simp]:
  "or_else None b = b" "or_else (Some []) b = b" "t \<noteq> [] \<Longrightarrow> or_else (Some t) b = Some t"
  by (simp_all add: or_else_def)

text \<open>The elements a \<open>for\<close> loop visits: list items, characters, dictionary keys.\<close>

definition py_iter :: "pyval \<Rightarrow> pyval list result" where
  "py_iter v = (case v of PList xs \<Rightarrow> Inr xs | PTuple xs \<Rightarrow> Inr xs
     | PStr s \<Rightarrow> Inr (map (\<lambda>c. PStr [c]) s) | PDict d \<Rightarrow> Inr (map (\<lambda>(k, _). PStr k) d)
     | _ \<Rightarrow> Inl (TypeError (quoted (type_name v) @ '' object is not iterable'')))"

text \<open>\<open>hmac.compare_digest\<close> on texts: it refuses characters outside ASCII.\<close>

definition compare_digest :: "string \<Rightarrow> string \<Rightarrow> bool result" where
  "compare_digest a b =
     (if list_all (\<lambda>c. code c < 128) (a @ b) then Inr (a = b)
      else Inl (TypeError ''comparing strings with non-ASCII characters is not supported''))"

section \<open>JSON bodies\<close>

text \<open>
  The compact rendering that Starlette uses: no blanks, characters outside ASCII kept, floats by
  their \<open>repr\<close>.
\<close>

definition json_char :: "char \<Rightarrow> string" where
  "json_char c = (let n = code c; b = char_of (92 :: nat); q = char_of (34 :: nat) in
     if n = 34 then [b, q] else if n = 92 then [b, b]
     else if n = 10 then b # ''n'' else if n = 13 then b # ''r'' else if n = 9 then b # ''t''
     else if n = 8 then b # ''b'' else if n = 12 then b # ''f''
     else if n < 32 then b # ''u00'' @ [hex_digit (n div 16), hex_digit (n mod 16)] else [c])"

definition json_str :: "string \<Rightarrow> string" where
  "json_str s = char_of (34 :: nat) # concat (map json_char s) @ [char_of (34 :: nat)]"

fun json_text :: "pyval \<Rightarrow> string" where
  "json_text PNone = ''null''"
| "json_text (PBool b) = (if b then ''true'' else ''false'')"
| "json_text (PInt i) = int_str i"
| "json_text (PFloat s) = s"
| "json_text (PStr s) = json_str s"
| "json_text (PList xs) = ''['' @ join '','' (map json_text xs) @ '']''"
| "json_text (PTuple xs) = ''['' @ join '','' (map json_text xs) @ '']''"
| "json_text (PDict d) = ''{'' @ join '','' (map (\<lambda>(k, v). json_str k @ '':'' @ json_text v) d) @ ''}''"

definition json_response :: "int \<Rightarrow> pyval \<Rightarrow> http_response" where
  "json_response status content = \<lparr>rs_status = status, rs_headers = [(''content-type'', ''application/json'')],
     rs_body = json_text content, rs_media_type = Some ''application/json''\<rparr>"

definition error_body :: "string \<Rightarrow> string \<Rightarrow> pyval \<Rightarrow> pyval" where
  "error_body error_code message details = PDict [(''data'', PNone), (''error'',
     PDict [(''code'', PStr error_code), (''message'', PStr message), (''details'', details)])]"

lemma json_response_status [simp]: "rs_status (json_response status content) = status"
  by (simp add: json_response_def)

end
