(* ===== verification/AdminAccess.thy ===== *)
theory AdminAccess
  imports Settings Http
begin

text \<open>
  Who calls and for which tenant: tenant keys (\<open>config/tenancy.py\<close>), principals from API keys and
  tokens (\<open>config/security.py\<close>), management roles (\<open>config/admin_auth.py\<close>) and the admin login
  (\<open>api/routes/admin_auth.py\<close>). The token library and the HTTP client are parameters; times are exact
  rationals. The stored API key hashes are ASCII, so comparing digests is a membership test.
\<close>

section \<open>Tenant keys\<close>

definition is_ascii_alnum :: "char \<Rightarrow> bool" where
  "is_ascii_alnum c = (let n = code c in is_digit c \<or> (65 \<le> n \<and> n \<le> 90) \<or> (97 \<le> n \<and> n \<le> 122))"

definition tenant_pattern :: "string \<Rightarrow> bool" where
  "tenant_pattern s = (case s of [] \<Rightarrow> False
     | c # cs \<Rightarrow> is_ascii_alnum c \<and> length cs \<le> 63 \<and> list_all (\<lambda>x. is_ascii_alnum x \<or> x \<in> set ''._-'') cs)"

definition normalize_tenant_key :: "string option \<Rightarrow> string option" where
  "normalize_tenant_key v = (case v of None \<Rightarrow> None
     | Some t \<Rightarrow> let normalized = strip t in
         if normalized = [] then None else if \<not> tenant_pattern normalized then None else Some normalized)"

definition default_tenant_key :: string where
  "default_tenant_key = ''default''"

definition text_of :: "pyval \<Rightarrow> string option" where
  "text_of v = Some (py_str (por v (PStr [])))"

fun first_tenant_claim :: "pydict \<Rightarrow> string list \<Rightarrow> string option" where
  "first_tenant_claim claims [] = None"
| "first_tenant_claim claims (k # ks) =
     (case pget claims k of PStr t \<Rightarrow> (case normalize_tenant_key (Some t) of
          Some normalized \<Rightarrow> Some normalized | None \<Rightarrow> first_tenant_claim claims ks)
      | _ \<Rightarrow> first_tenant_claim claims ks)"

definition single_role_tenant :: "pydict \<Rightarrow> string option" where
  "single_role_tenant claims = (case pget claims ''tenant_roles'' of
     PDict roles \<Rightarrow> (case List.map_filter (\<lambda>(k, _). normalize_tenant_key (Some k)) roles of
         [t] \<Rightarrow> Some t | _ \<Rightarrow> None)
   | _ \<Rightarrow> None)"

definition tenant_from_principal :: "pydict \<Rightarrow> string option" where
  "tenant_from_principal p =
     (if pget p ''type'' = PStr ''api_key''
      then (case pget p ''scopes'' of PDict scopes \<Rightarrow> normalize_tenant_key (text_of (pget scopes ''tenant''))
            | _ \<Rightarrow> None)
      else (case pget p ''claims'' of
          PDict claims \<Rightarrow> (case first_tenant_claim claims [''tenant'', ''tenant_id'', ''tenant_key''] of
              Some t \<Rightarrow> Some t | None \<Rightarrow> single_role_tenant claims)
        | _ \<Rightarrow> None))"

definition missing_tenant :: exn where
  "missing_tenant = ApiError 422 VALIDATION_ERROR ''tenant is required'' [(''header'', ''X-Tenant-Id'')]"

definition resolve_request_tenant_key :: "http_request \<Rightarrow> pydict \<Rightarrow> settings \<Rightarrow> string result" where
  "resolve_request_tenant_key request p s =
     (case normalize_tenant_key (or_else (header request ''X-Tenant-Id'') (rq_tenant request)) of
        Some t \<Rightarrow> Inr t
      | None \<Rightarrow> (case tenant_from_principal p of
          Some t \<Rightarrow> Inr t
        | None \<Rightarrow> if se_strict_tenancy s then Inl missing_tenant
                   else if is_development s then Inr default_tenant_key
                   else Inl missing_tenant))"

lemma normalize_tenant_key_Some:
  "normalize_tenant_key v = Some t \<Longrightarrow> t \<noteq> [] \<and> tenant_pattern t \<and> (\<exists>u. v = Some u \<and> t = strip u)"
  by (auto simp: normalize_tenant_key_def Let_def split: option.splits if_splits)

section \<open>Management roles\<close>

datatype management_role = Viewer | Developer | Admin

fun role_order :: "management_role \<Rightarrow> nat" where
  "role_order Viewer = 1" | "role_order Developer = 2" | "role_order Admin = 3"

fun role_text :: "management_role \<Rightarrow> string" where
  "role_text Viewer = ''viewer''" | "role_text Developer = ''developer''" | "role_text Admin = ''admin''"

instantiation management_role :: linorder
begin

definition less_eq_management_role :: "management_role \<Rightarrow> management_role \<Rightarrow> bool" where
  "a \<le> b \<longleftrightarrow> role_order a \<le> role_order b"

definition less_management_role :: "management_role \<Rightarrow> management_role \<Rightarrow> bool" where
  "a < b \<longleftrightarrow> role_order a < role_order b"

instance
proof
  fix a b :: management_role
  show "a \<le> b \<Longrightarrow> b \<le> a \<Longrightarrow> a = b"
    by (cases a; cases b) (simp_all add: less_eq_management_role_def)
qed (auto simp: less_eq_management_role_def less_management_role_def)

end

lemma role_order_le [simp]: "role_order a \<le> role_order b \<longleftrightarrow> a \<le> b"
  by (simp add: less_eq_management_role_def)

lemma role_order_less [simp]: "role_order a < role_order b \<longleftrightarrow> a < b"
  by (simp add: less_management_role_def)

lemma role_le_Admin [simp]: "r \<le> Admin"
  by (cases r) (simp_all add: less_eq_management_role_def)

lemma role_order_pos [simp]: "0 < role_order r"
  by (cases r) simp_all

text \<open>\<open>isinstance(role, str) and role in _ROLE_ORDER\<close>, with the role found\<close>

definition known_role :: "pyval \<Rightarrow> management_role option" where
  "known_role v = (if v = PStr ''viewer'' then Some Viewer else if v = PStr ''developer'' then Some Developer
     else if v = PStr ''admin'' then Some Admin else None)"

text \<open>\<open>_ROLE_ORDER.get(item, 0)\<close>, which raises when the item cannot be hashed\<close>

definition role_rank :: "pyval \<Rightarrow> nat result" where
  "role_rank v = (if hashable v then Inr (case known_role v of None \<Rightarrow> 0 | Some r \<Rightarrow> role_order r)
     else Inl (TypeError (''unhashable type: '' @ quoted (type_name v))))"

definition rank_or_zero :: "pyval \<Rightarrow> nat" where
  "rank_or_zero v = (case known_role v of None \<Rightarrow> 0 | Some r \<Rightarrow> role_order r)"

fun first_known_role :: "pyval list \<Rightarrow> management_role option" where
  "first_known_role [] = None"
| "first_known_role (v # vs) = (case known_role v of Some r \<Rightarrow> Some r | None \<Rightarrow> first_known_role vs)"

text \<open>\<open>sorted(values, key=rank, reverse=True)\<close> keeps the order of equal ranks.\<close>

definition best_role :: "pyval list \<Rightarrow> management_role option result" where
  "best_role vs = ebind (emap role_rank vs) (\<lambda>_. Inr (first_known_role (rev (sort_key rank_or_zero (rev vs)))))"

fun role_of_items :: "string option \<Rightarrow> pyval list \<Rightarrow> management_role option" where
  "role_of_items tenant_key [] = None"
| "role_of_items tenant_key (v # vs) = (case v of
     PDict item \<Rightarrow>
       (let role_tenant = normalize_tenant_key (text_of (por (pget item ''tenant'') (pget item ''tenant_key''))) in
        if tenant_key \<noteq> None \<and> role_tenant \<noteq> None \<and> role_tenant \<noteq> tenant_key
        then role_of_items tenant_key vs
        else (case known_role (pget item ''role'') of Some r \<Rightarrow> Some r | None \<Rightarrow> role_of_items tenant_key vs))
   | _ \<Rightarrow> role_of_items tenant_key vs)"

definition tenant_roles_role :: "pydict \<Rightarrow> string option \<Rightarrow> management_role option result" where
  "tenant_roles_role claims tenant_key = (case pget claims ''tenant_roles'' of
     PDict roles \<Rightarrow>
       (case (case tenant_key of None \<Rightarrow> None | Some t \<Rightarrow> known_role (pget roles t)) of
          Some r \<Rightarrow> Inr (Some r)
        | None \<Rightarrow> best_role (map snd roles))
   | PList items \<Rightarrow> Inr (role_of_items tenant_key items)
   | _ \<Rightarrow> Inr None)"

definition global_role :: "pydict \<Rightarrow> management_role option" where
  "global_role claims = (case known_role (por (pget claims ''admin_role'') (pget claims ''role'')) of
     Some r \<Rightarrow> Some r
   | None \<Rightarrow> (case por (pget claims ''admin_roles'') (pget claims ''roles'') of
       PList items \<Rightarrow> first_known_role items | _ \<Rightarrow> None))"

definition api_key_role :: "pyval \<Rightarrow> string option \<Rightarrow> management_role option" where
  "api_key_role scopes tenant_key = (case scopes of
     PDict d \<Rightarrow> (case known_role (pget d ''role'') of
        None \<Rightarrow> None
      | Some r \<Rightarrow> (let scoped_tenant = normalize_tenant_key (text_of (pget d ''tenant'')) in
          if tenant_key \<noteq> None \<and> scoped_tenant \<noteq> None \<and> scoped_tenant \<noteq> tenant_key then None else Some r))
   | _ \<Rightarrow> None)"

definition resolve_tenant_role :: "pydict \<Rightarrow> string option \<Rightarrow> management_role option result" where
  "resolve_tenant_role p tenant_key =
     (if pget p ''type'' = PStr ''api_key'' then Inr (api_key_role (pget p ''scopes'') tenant_key)
      else (case pget p ''claims'' of
          PDict claims \<Rightarrow> ebind (tenant_roles_role claims tenant_key) (\<lambda>found.
             Inr (case found of Some r \<Rightarrow> Some r | None \<Rightarrow> global_role claims))
        | _ \<Rightarrow> Inr None))"

record admin_access =
  aa_tenant_key :: string
  aa_role :: management_role
  aa_principal :: pydict

definition require_management_role :: "management_role \<Rightarrow> http_request \<Rightarrow> pydict \<Rightarrow> settings \<Rightarrow> admin_access result" where
  "require_management_role minimum_role request p s =
     ebind (resolve_request_tenant_key request p s) (\<lambda>tenant_key.
     ebind (resolve_tenant_role p (Some tenant_key)) (\<lambda>role.
       (case role of
          None \<Rightarrow> Inl (ApiError 403 FORBIDDEN ''tenant access denied'' [(''tenant_key'', tenant_key)])
        | Some r \<Rightarrow> if role_order r < role_order minimum_role
            then Inl (ApiError 403 FORBIDDEN ''insufficient management role''
              [(''required_role'', role_text minimum_role), (''actual_role'', role_text r), (''tenant_key'', tenant_key)])
            else Inr \<lparr>aa_tenant_key = tenant_key, aa_role = r, aa_principal = p\<rparr>)))"

section \<open>Principals\<close>

text \<open>
  The token library: the unverified header of a token, decoding with a key of the key set (audience,
  issuer, whether the audience is checked) or with the shared secret, and encoding. A decoding call
  that fails raises.
\<close>

record token_library =
  tl_unverified_header :: "string \<Rightarrow> pydict result"
  tl_decode_with_key :: "string \<Rightarrow> pyval \<Rightarrow> string option \<Rightarrow> string option \<Rightarrow> bool \<Rightarrow> pydict result"
  tl_decode :: "string \<Rightarrow> string \<Rightarrow> string \<Rightarrow> pydict result"
  tl_encode :: "pydict \<Rightarrow> string \<Rightarrow> string \<Rightarrow> string"

definition key_id_differs :: "pyval \<Rightarrow> pyval \<Rightarrow> bool result" where
  "key_id_differs kid key = (if \<not> truthy kid then Inr False
     else (case key of PDict d \<Rightarrow> Inr (\<not> py_eq (pget d ''kid'') kid)
           | _ \<Rightarrow> Inl (AttributeError (quoted (type_name key) @ '' object has no attribute '' @ quoted ''get''))))"

fun try_keys :: "(pyval \<Rightarrow> pydict result) \<Rightarrow> pyval \<Rightarrow> pyval list \<Rightarrow> pydict result" where
  "try_keys decode kid [] = Inl (JWTError ''no matching jwk'')"
| "try_keys decode kid (key # keys) = ebind (key_id_differs kid key) (\<lambda>skip.
     if skip then try_keys decode kid keys
     else (case decode key of Inl (JWTError _) \<Rightarrow> try_keys decode kid keys | r \<Rightarrow> r))"

definition decode_with_jwks :: "token_library \<Rightarrow> string \<Rightarrow> pydict \<Rightarrow> string option \<Rightarrow> string option \<Rightarrow> pydict result" where
  "decode_with_jwks lib token jwks audience issuer =
     ebind (tl_unverified_header lib token) (\<lambda>token_header.
     ebind (py_iter (dget_or jwks ''keys'' (PList []))) (\<lambda>keys.
       try_keys (\<lambda>key. tl_decode_with_key lib token key audience issuer (nonempty audience))
         (pget token_header ''kid'') keys))"

text \<open>The key sets fetched so far with their expiry, and the time until which no fetch is tried.\<close>

record jwks_state =
  jk_cache :: "(string \<times> rat \<times> pydict) list"
  jk_backoff_until :: "(string \<times> rat) list"

definition no_jwks :: jwks_state where
  "no_jwks = \<lparr>jk_cache = [], jk_backoff_until = []\<rparr>"

definition jwks_cached :: "jwks_state \<Rightarrow> string \<Rightarrow> rat \<Rightarrow> pydict option" where
  "jwks_cached st url now = (case dget (jk_cache st) url of
     Some (expires, payload) \<Rightarrow> if now < expires then Some payload else None | None \<Rightarrow> None)"

definition jwks_blocked_until :: "jwks_state \<Rightarrow> string \<Rightarrow> rat" where
  "jwks_blocked_until st url = dget_or (jk_backoff_until st) url 0"

definition jwks_fetched :: "settings \<Rightarrow> string \<Rightarrow> rat \<Rightarrow> pydict \<Rightarrow> jwks_state \<Rightarrow> jwks_state" where
  "jwks_fetched s url now payload st = st\<lparr>
     jk_cache := dset (jk_cache st) url (now + of_int (se_jwks_cache_ttl_seconds s), payload),
     jk_backoff_until := dpop (jk_backoff_until st) url\<rparr>"

definition next_backoff :: "settings \<Rightarrow> string \<Rightarrow> rat \<Rightarrow> jwks_state \<Rightarrow> rat" where
  "next_backoff s url now st = (let previous = dget_or (jk_backoff_until st) url now in
     min (max 1 (if now < previous then (previous - now) * 2 else 1)) (of_int (se_jwks_backoff_max_seconds s)))"

definition jwks_failed :: "settings \<Rightarrow> string \<Rightarrow> rat \<Rightarrow> jwks_state \<Rightarrow> jwks_state" where
  "jwks_failed s url now st =
     st\<lparr>jk_backoff_until := dset (jk_backoff_until st) url (now + next_backoff s url now st)\<rparr>"

text \<open>
  \<open>fetch\<close> is the HTTP request with its status check and the parsing of the body; it returns the
  payload or raises. The locks make each part atomic, and the call is one step here: two threads do
  not fetch at the same time.
\<close>

definition get_jwks :: "settings \<Rightarrow> (string \<Rightarrow> pyval result) \<Rightarrow> rat \<Rightarrow> (jwks_state, pydict) eff" where
  "get_jwks s fetch now st = (if \<not> nonempty (se_oidc_jwks_url s)
     then (Inl (JWTError ''jwks url not configured''), st)
     else let url = str_or (se_oidc_jwks_url s) [] in
       case jwks_cached st url now of
         Some payload \<Rightarrow> (Inr payload, st)
       | None \<Rightarrow>
           if now < jwks_blocked_until st url then (Inl (JWTError ''jwks fetch in backoff window''), st)
           else (case fetch url of
               Inr (PDict payload) \<Rightarrow> (Inr payload, jwks_fetched s url now payload st)
             | _ \<Rightarrow> (Inl (JWTError ''jwks fetch failed''), jwks_failed s url now st)))"

text \<open>The surroundings of an authentication: digest, JSON parser, token library, fetch and clock.\<close>

record auth_ports =
  au_sha256 :: "string \<Rightarrow> string"
  au_parse_json :: "string \<Rightarrow> pyval option"
  au_tokens :: token_library
  au_fetch :: "string \<Rightarrow> pyval result"
  au_now :: rat

definition unauthorized :: "string \<Rightarrow> exn" where
  "unauthorized detail = HTTPException 401 detail"

definition matches_api_key :: "auth_ports \<Rightarrow> string \<Rightarrow> string set \<Rightarrow> bool" where
  "matches_api_key au candidate stored_hashes = (au_sha256 au candidate \<in> stored_hashes)"

definition scopes_are_defined :: "pydict \<Rightarrow> bool" where
  "scopes_are_defined scopes =
     ((case pget scopes ''role'' of PStr t \<Rightarrow> strip t \<noteq> [] | _ \<Rightarrow> False)
      \<or> (case pget scopes ''permissions'' of PList xs \<Rightarrow> xs \<noteq> [] | _ \<Rightarrow> False))"

definition development_scopes :: pydict where
  "development_scopes = [(''tenant'', PStr default_tenant_key), (''role'', PStr ''admin''),
     (''permissions'', PList [PStr ''*''])]"

definition api_key_principal :: "string \<Rightarrow> pydict \<Rightarrow> pydict" where
  "api_key_principal key_hash scopes =
     [(''type'', PStr ''api_key''), (''id'', PStr (take 12 key_hash)), (''scopes'', PDict scopes)]"

definition principal_of_api_key :: "settings \<Rightarrow> auth_ports \<Rightarrow> string \<Rightarrow> pydict result" where
  "principal_of_api_key s au x_api_key =
     (let key_hash = au_sha256 au x_api_key;
          parsed_scopes = parsed_api_key_scopes (au_sha256 au) (au_parse_json au) s;
          scopes = dget_or parsed_scopes key_hash []
      in if matches_api_key au x_api_key (parsed_api_key_hashes (au_sha256 au) s)
         then (if scopes_are_defined scopes then Inr (api_key_principal key_hash scopes)
               else if \<not> is_development s then Inl (unauthorized ''api key scopes must include role or permissions'')
               else Inr (api_key_principal key_hash
                 (if dget parsed_scopes key_hash = None then development_scopes else scopes)))
         else Inl (unauthorized ''invalid api key''))"

definition token_principal :: "pydict \<Rightarrow> pydict" where
  "token_principal payload =
     (let subject = por (pget payload ''sub'') (por (pget payload ''user_id'')
          (por (pget payload ''client_id'') (PStr ''jwt'')))
      in [(''type'', PStr ''jwt''), (''id'', PStr (py_str subject)), (''claims'', PDict payload)])"

definition decode_token :: "settings \<Rightarrow> auth_ports \<Rightarrow> string \<Rightarrow> (jwks_state, pydict) eff" where
  "decode_token s au token =
     (if nonempty (se_oidc_jwks_url s)
      then bnd (get_jwks s (au_fetch au) (au_now au)) (\<lambda>jwks.
             lift (decode_with_jwks (au_tokens au) token jwks (se_oidc_audience s) (se_oidc_issuer s)))
      else lift (tl_decode (au_tokens au) token (se_jwt_secret s) (se_jwt_algorithm s)))"

text \<open>\<open>authorization\<close> is the scheme and the credentials of the Authorization header.\<close>

definition get_principal :: "settings \<Rightarrow> auth_ports \<Rightarrow> (string \<times> string) option \<Rightarrow> string option \<Rightarrow> (jwks_state, pydict) eff"
where
  "get_principal s au authorization x_api_key =
     (if nonempty x_api_key then lift (principal_of_api_key s au (str_or x_api_key []))
      else (case authorization of
          Some (scheme, credentials) \<Rightarrow>
            if lower scheme = ''bearer''
            then bnd (catch_all (decode_token s au (strip credentials)) (\<lambda>_. throw (unauthorized ''invalid jwt'')))
                   (\<lambda>payload. ret (token_principal payload))
            else throw (unauthorized ''missing credentials'')
        | None \<Rightarrow> throw (unauthorized ''missing credentials'')))"

section \<open>Admin login\<close>

definition admin_claims :: "string \<Rightarrow> int \<Rightarrow> pydict" where
  "admin_claims username expires_at = [(''sub'', PStr username), (''role'', PStr ''admin''),
     (''admin_role'', PStr ''admin''), (''tenant_roles'', PDict [(default_tenant_key, PStr ''admin'')]),
     (''exp'', PInt expires_at)]"

definition valid_admin_password :: "settings \<Rightarrow> auth_ports \<Rightarrow> string \<Rightarrow> bool result" where
  "valid_admin_password s au password =
     (if nonempty (se_admin_password_hash s)
      then compare_digest (au_sha256 au password) (str_or (se_admin_password_hash s) [])
      else if nonempty (se_admin_password s) then compare_digest password (str_or (se_admin_password s) [])
      else Inr False)"

definition token_expiry :: "settings \<Rightarrow> rat \<Rightarrow> int" where
  "token_expiry s now = trunc_rat (now + of_int (max 1 (se_admin_token_expiry_minutes s) * 60))"

definition admin_token :: "settings \<Rightarrow> auth_ports \<Rightarrow> string \<Rightarrow> string" where
  "admin_token s au username = tl_encode (au_tokens au) (admin_claims username (token_expiry s (au_now au)))
     (se_jwt_secret s) (se_jwt_algorithm s)"

definition admin_login :: "settings \<Rightarrow> auth_ports \<Rightarrow> string \<Rightarrow> string \<Rightarrow> pydict result" where
  "admin_login s au username password =
     (if \<not> nonempty (se_admin_username s) \<or> (\<not> nonempty (se_admin_password s) \<and> \<not> nonempty (se_admin_password_hash s))
      then Inl (ApiError 403 FORBIDDEN ''admin login is disabled'' [])
      else ebind (compare_digest username (str_or (se_admin_username s) [])) (\<lambda>valid_username.
           ebind (valid_admin_password s au password) (\<lambda>valid_password.
             if \<not> (valid_username \<and> valid_password)
             then Inl (ApiError 401 UNAUTHORIZED ''invalid admin credentials'' [])
             else Inr [(''access_token'', PStr (admin_token s au username)), (''token_type'', PStr ''bearer''),
               (''expires_in'', PInt (max 1 (se_admin_token_expiry_minutes s) * 60)), (''role'', PStr ''admin''),
               (''tenant_key'', PStr default_tenant_key)])))"

section \<open>What a granted access means\<close>

lemma require_management_role_Inr:
  "require_management_role m request p s = Inr access \<longleftrightarrow>
     resolve_request_tenant_key request p s = Inr (aa_tenant_key access)
     \<and> resolve_tenant_role p (Some (aa_tenant_key access)) = Inr (Some (aa_role access))
     \<and> m \<le> aa_role access \<and> aa_principal access = p"
proof (cases "resolve_request_tenant_key request p s")
  case (Inr t)
  then show ?thesis
  proof (cases "resolve_tenant_role p (Some t)")
    case role: (Inr role)
    then show ?thesis
      using Inr by (cases role; cases access) (auto simp: require_management_role_def not_less)
  qed (auto simp: require_management_role_def)
qed (simp add: require_management_role_def)

lemma require_weaker:
  "require_management_role m request p s = Inr access \<Longrightarrow> m' \<le> m \<Longrightarrow>
   require_management_role m' request p s = Inr access"
  unfolding require_management_role_Inr by (meson order_trans)

lemma principal_simps [simp]:
  "pget (api_key_principal h scopes) ''type'' = PStr ''api_key''"
  "pget (api_key_principal h scopes) ''scopes'' = PDict scopes"
  "pget (token_principal payload) ''type'' = PStr ''jwt''"
  "pget (token_principal payload) ''claims'' = PDict payload"
  by (simp_all add: api_key_principal_def token_principal_def Let_def)

lemma is_str_hashable: "is_str v \<Longrightarrow> hashable v"
  by (cases v) (simp_all add: is_str_def)

lemma header_tenant:
  assumes "normalize_tenant_key (header request ''X-Tenant-Id'') = Some t"
  shows "resolve_request_tenant_key request p s = Inr t"
proof -
  obtain u where "header request ''X-Tenant-Id'' = Some u" "strip u = t" "t \<noteq> []"
    using normalize_tenant_key_Some [OF assms] by auto
  then have "or_else (header request ''X-Tenant-Id'') (rq_tenant request) = header request ''X-Tenant-Id''"
    by (cases u) (simp_all add: strip_def lstrip_def rstrip_def)
  then show ?thesis using assms by (simp add: resolve_request_tenant_key_def)
qed

lemma api_key_role_Some:
  assumes "api_key_role v (Some t) = Some r"
  shows "\<exists>scopes. v = PDict scopes \<and> known_role (pget scopes ''role'') = Some r
    \<and> normalize_tenant_key (text_of (pget scopes ''tenant'')) \<in> {None, Some t}"
  using assms by (cases v) (auto simp: api_key_role_def Let_def split: option.splits if_splits)

text \<open>
  C10. An API key passes a role check only with the role of its scopes, at least the required one, and
  a key whose scopes name a tenant only for that tenant, whatever tenant the request asks for.
\<close>

theorem api_key_confined:
  assumes "require_management_role m request p s = Inr access" "pget p ''type'' = PStr ''api_key''"
  shows "\<exists>scopes. pget p ''scopes'' = PDict scopes \<and> known_role (pget scopes ''role'') = Some (aa_role access)
    \<and> m \<le> aa_role access
    \<and> normalize_tenant_key (text_of (pget scopes ''tenant'')) \<in> {None, Some (aa_tenant_key access)}"
proof -
  have "resolve_tenant_role p (Some (aa_tenant_key access)) = Inr (Some (aa_role access))" "m \<le> aa_role access"
    using assms(1) by (simp_all add: require_management_role_Inr)
  with assms(2) have "api_key_role (pget p ''scopes'') (Some (aa_tenant_key access)) = Some (aa_role access)"
    by (simp add: resolve_tenant_role_def)
  from api_key_role_Some [OF this] \<open>m \<le> aa_role access\<close> show ?thesis by blast
qed

lemma principal_of_api_key_Inr:
  assumes "principal_of_api_key s au k = Inr p"
  shows "au_sha256 au k \<in> parsed_api_key_hashes (au_sha256 au) s \<and> pget p ''type'' = PStr ''api_key''
    \<and> (is_development s \<or> (\<exists>scopes. pget p ''scopes'' = PDict scopes \<and> scopes_are_defined scopes))"
  using assms by (auto simp: principal_of_api_key_def matches_api_key_def Let_def split: if_splits)

text \<open>
  C11. A request gets a principal only with a configured API key (which outside development has a role
  or permissions) or with a bearer token that the token library decodes; the claims are the decoded ones.
\<close>

theorem principal_authentic:
  assumes "get_principal s au authorization x_api_key st = (Inr p, st')"
  shows "(\<exists>k. x_api_key = Some k \<and> au_sha256 au k \<in> parsed_api_key_hashes (au_sha256 au) s
        \<and> pget p ''type'' = PStr ''api_key''
        \<and> (is_development s \<or> (\<exists>scopes. pget p ''scopes'' = PDict scopes \<and> scopes_are_defined scopes)))
    \<or> (\<exists>scheme credentials payload. authorization = Some (scheme, credentials) \<and> lower scheme = ''bearer''
        \<and> fst (decode_token s au (strip credentials) st) = Inr payload \<and> p = token_principal payload)"
proof (cases "nonempty x_api_key")
  case True
  then obtain k where "x_api_key = Some k" "str_or x_api_key [] = k"
    by (auto simp: nonempty_def str_or_def split: option.splits if_splits)
  moreover have "principal_of_api_key s au (str_or x_api_key []) = Inr p"
    using True assms by (simp add: get_principal_def)
  ultimately show ?thesis using principal_of_api_key_Inr [of s au k p] by auto
next
  case False
  then obtain scheme credentials where a: "authorization = Some (scheme, credentials)" "lower scheme = ''bearer''"
    using assms by (auto simp: get_principal_def split: option.splits if_splits)
  with False assms show ?thesis
    by (auto simp: get_principal_def bnd_Inr_iff catch_def split: prod.splits sum.splits)
qed

section \<open>Roles of other tenants\<close>

lemma rank_le: "rank_or_zero v \<le> 3"
  by (auto simp: rank_or_zero_def known_role_def)

lemma first_known_role_descending:
  assumes "sorted (rev (map rank_or_zero vs))" "v \<in> set vs" "known_role v = Some r"
  shows "\<exists>w \<in> set vs. \<exists>r'. first_known_role vs = Some r' \<and> known_role w = Some r'
    \<and> (\<forall>u \<in> set vs. rank_or_zero u \<le> role_order r')"
proof (cases vs)
  case (Cons w ws)
  have top: "rank_or_zero u \<le> rank_or_zero w" if "u \<in> set vs" for u
    using assms(1) that Cons by (auto simp: sorted_append)
  have "role_order r \<le> rank_or_zero w"
    using top [OF assms(2)] assms(3) by (simp add: rank_or_zero_def)
  then have "0 < rank_or_zero w" by (rule less_le_trans [OF role_order_pos])
  then obtain r' where "known_role w = Some r'" by (auto simp: rank_or_zero_def split: option.splits)
  then show ?thesis using top Cons by (auto simp: rank_or_zero_def)
qed (use assms in simp)

lemma best_role_is_max:
  assumes "list_all hashable vs" "v \<in> set vs" "known_role v = Some r"
  shows "best_role vs = Inr (Some (Max {r. \<exists>v \<in> set vs. known_role v = Some r}))"
proof -
  let ?xs = "rev (sort_key rank_or_zero (rev vs))"
  have ranks: "emap role_rank vs = Inr (map rank_or_zero vs)"
    using assms(1) by (intro emap_Inr_map) (simp add: role_rank_def rank_or_zero_def list_all_iff)
  have "sorted (rev (map rank_or_zero ?xs))" by (simp add: rev_map)
  from first_known_role_descending [OF this, of v r] assms(2,3) obtain w r' where w:
    "w \<in> set vs" "first_known_role ?xs = Some r'" "known_role w = Some r'" "\<And>u. u \<in> set vs \<Longrightarrow> rank_or_zero u \<le> role_order r'"
    by auto
  let ?S = "{r. \<exists>v \<in> set vs. known_role v = Some r}"
  have "?S \<subseteq> {Viewer, Developer, Admin}" using management_role.exhaust by blast
  then have "finite ?S" by (rule finite_subset) simp
  moreover have "r'' \<le> r'" if r'': "r'' \<in> ?S" for r''
  proof -
    obtain u where "u \<in> set vs" "known_role u = Some r''" using r'' by auto
    then have "role_order r'' \<le> role_order r'" using w(4) [of u] by (simp add: rank_or_zero_def)
    then show ?thesis by simp
  qed
  ultimately have "Max ?S = r'" using w(1,3) by (intro Max_eqI) auto
  then show ?thesis using ranks w(2) by (simp add: best_role_def)
qed

text \<open>
  A token whose \<open>tenant_roles\<close> do not list the tenant of the request is not refused: the caller
  gets, in that tenant, the highest role it has in any tenant.
\<close>

lemma foreign_tenant_role:
  assumes "pget p ''type'' \<noteq> PStr ''api_key''" "pget p ''claims'' = PDict claims"
    "pget claims ''tenant_roles'' = PDict roles" "dget roles t = None" "list_all is_str (map snd roles)"
    "(other, v) \<in> set roles" "known_role v = Some r"
    "normalize_tenant_key (header request ''X-Tenant-Id'') = Some t" "m \<le> r"
  shows "require_management_role m request p s =
    Inr \<lparr>aa_tenant_key = t, aa_role = Max {r. \<exists>v \<in> set (map snd roles). known_role v = Some r}, aa_principal = p\<rparr>"
proof -
  let ?S = "{r. \<exists>v \<in> set (map snd roles). known_role v = Some r}"
  have header: "resolve_request_tenant_key request p s = Inr t"
    using assms(8) by (rule header_tenant)
  have "list_all hashable (map snd roles)"
    using assms(5) by (rule list.pred_mono_strong) (rule is_str_hashable)
  moreover have "v \<in> set (map snd roles)" using assms(6) by force
  ultimately have best: "best_role (map snd roles) = Inr (Some (Max ?S))"
    using assms(7) by (rule best_role_is_max)
  have "?S \<subseteq> {Viewer, Developer, Admin}" using management_role.exhaust by blast
  then have "finite ?S" by (rule finite_subset) simp
  moreover have "r \<in> ?S" using assms(6,7) by force
  ultimately have "m \<le> Max ?S" using assms(9) by (meson Max_ge order_trans)
  moreover have "resolve_tenant_role p (Some t) = Inr (Some (Max ?S))"
    using assms(1-4) best by (simp add: resolve_tenant_role_def tenant_roles_role_def known_role_def)
  ultimately show ?thesis using header by (simp add: require_management_role_Inr)
qed

section \<open>Fetching key sets\<close>

text \<open>
  When a key set is fetched and the fetch fails, the next fetch is allowed one second later and
  until then every call fails without fetching. The failures before it do not count: the delay
  never grows, although the code doubles it up to the configured maximum.
\<close>

lemma jwks_backoff_constant:
  assumes "se_oidc_jwks_url s = Some url" "url \<noteq> []" "1 \<le> se_jwks_backoff_max_seconds s"
    "jwks_cached st url now = None" "jwks_blocked_until st url \<le> now" "fetch url = Inl e"
  shows "get_jwks s fetch now st = (Inl (JWTError ''jwks fetch failed''),
      st\<lparr>jk_backoff_until := dset (jk_backoff_until st) url (now + 1)\<rparr>)
    \<and> (\<forall>later fetch'. now \<le> later \<and> later < now + 1 \<longrightarrow>
         get_jwks s fetch' later (st\<lparr>jk_backoff_until := dset (jk_backoff_until st) url (now + 1)\<rparr>)
           = (Inl (JWTError ''jwks fetch in backoff window''),
              st\<lparr>jk_backoff_until := dset (jk_backoff_until st) url (now + 1)\<rparr>))"
proof -
  have url: "nonempty (se_oidc_jwks_url s)" "str_or (se_oidc_jwks_url s) [] = url"
    using assms(1,2) by (simp_all add: nonempty_def)
  have "\<not> now < dget_or (jk_backoff_until st) url now"
    using assms(5) by (auto simp: jwks_blocked_until_def dget_or_def split: option.splits)
  moreover have "(1 :: rat) \<le> of_int (se_jwks_backoff_max_seconds s)" using assms(3) by simp
  ultimately have "next_backoff s url now st = 1" by (simp add: next_backoff_def)
  then have "get_jwks s fetch now st = (Inl (JWTError ''jwks fetch failed''),
      st\<lparr>jk_backoff_until := dset (jk_backoff_until st) url (now + 1)\<rparr>)"
    using url assms(4,5,6) by (simp add: get_jwks_def jwks_failed_def)
  moreover have "jwks_cached (st\<lparr>jk_backoff_until := b\<rparr>) url later = None" if "now \<le> later" for later b
    using assms(4) that by (auto simp: jwks_cached_def split: option.splits)
  ultimately show ?thesis
    using url by (auto simp: get_jwks_def jwks_blocked_until_def dget_or_def)
qed

section \<open>The token of the admin login\<close>

lemma lower_bearer: "lower ''Bearer'' = ''bearer''"
  by code_simp

text \<open>
  A successful admin login yields a token with which the caller is an administrator of every
  tenant it names in the header, although the login answers the default tenant. The token library is
  assumed to decode the token it encoded, and the token to have no blanks around it.
\<close>

lemma admin_token_rules_all_tenants:
  assumes "admin_login s au username password = Inr response"
    "tl_decode (au_tokens au) (admin_token s au username) (se_jwt_secret s) (se_jwt_algorithm s)
       = Inr (admin_claims username (token_expiry s (au_now au)))"
    "strip (admin_token s au username) = admin_token s au username" "\<not> nonempty (se_oidc_jwks_url s)"
    "normalize_tenant_key (header request ''X-Tenant-Id'') = Some t"
  shows "\<exists>p. pget response ''access_token'' = PStr (admin_token s au username)
    \<and> get_principal s au (Some (''Bearer'', admin_token s au username)) None st = (Inr p, st)
    \<and> require_management_role Admin request p s = Inr \<lparr>aa_tenant_key = t, aa_role = Admin, aa_principal = p\<rparr>"
proof -
  let ?claims = "admin_claims username (token_expiry s (au_now au))"
  let ?p = "token_principal ?claims"
  have token: "pget response ''access_token'' = PStr (admin_token s au username)"
    using assms(1) by (auto simp: admin_login_def ebind_eq_Inr split: if_splits)
  have "decode_token s au (admin_token s au username) st = (Inr ?claims, st)"
    using assms(2,4) by (simp add: decode_token_def)
  then have principal: "get_principal s au (Some (''Bearer'', admin_token s au username)) None st = (Inr ?p, st)"
    using assms(3) by (simp add: get_principal_def nonempty_def lower_bearer)
  have roles: "pget ?claims ''tenant_roles'' = PDict [(default_tenant_key, PStr ''admin'')]"
    by (simp add: admin_claims_def)
  have "resolve_tenant_role ?p (Some t) = Inr (Some Admin)"
    using roles by (simp add: resolve_tenant_role_def tenant_roles_role_def best_role_def role_rank_def known_role_def)
  moreover have "resolve_request_tenant_key request ?p s = Inr t"
    using assms(5) by (rule header_tenant)
  ultimately show ?thesis using token principal by (simp add: require_management_role_Inr)
qed

section \<open>Concrete requests\<close>

definition tenant_request :: "string \<Rightarrow> http_request" where
  "tenant_request t = \<lparr>rq_method = ''GET'', rq_path = ''/policies'', rq_headers = [(''x-tenant-id'', t)], rq_body = [],
     rq_client = None, rq_tenant = None, rq_id = None\<rparr>"

definition demo_tokens :: token_library where
  "demo_tokens = \<lparr>tl_unverified_header = (\<lambda>_. Inr []), tl_decode_with_key = (\<lambda>_ _ _ _ _. Inr []),
     tl_decode = (\<lambda>_ _ _. Inr (admin_claims ''root'' 3600)), tl_encode = (\<lambda>_ _ _. ''token'')\<rparr>"

definition demo_auth :: auth_ports where
  "demo_auth = \<lparr>au_sha256 = (\<lambda>k. k), au_parse_json = (\<lambda>_. None), au_tokens = demo_tokens,
     au_fetch = (\<lambda>_. Inl (RuntimeError ''down'')), au_now = 0\<rparr>"

definition login_settings :: settings where
  "login_settings = default_settings\<lparr>se_api_keys := Some ''key1'', se_admin_username := Some ''root'',
     se_admin_password := Some ''pw''\<rparr>"

lemma tenant_request_key:
  "normalize_tenant_key (header (tenant_request ''acme'') ''X-Tenant-Id'') = Some ''acme''"
  by code_simp

theorem api_key_confined_witness:
  "normalize_tenant_key (text_of (pget [(''tenant'', PStr ''acme''), (''role'', PStr ''developer'')] ''tenant''))
     \<in> {None, Some ''acme''}"
proof -
  let ?p = "api_key_principal ''h'' [(''tenant'', PStr ''acme''), (''role'', PStr ''developer'')]"
  have "require_management_role Viewer (tenant_request ''acme'') ?p default_settings
      = Inr \<lparr>aa_tenant_key = ''acme'', aa_role = Developer, aa_principal = ?p\<rparr>" by code_simp
  from api_key_confined [OF this] show ?thesis by simp
qed

theorem principal_authentic_witness: "''key1'' \<in> parsed_api_key_hashes (\<lambda>k. k) login_settings"
proof -
  have "comma_list ''key1'' = [''key1'']" by code_simp
  then have "get_principal login_settings demo_auth None (Some ''key1'') no_jwks
      = (Inr (api_key_principal ''key1'' development_scopes), no_jwks)"
    by (simp add: get_principal_def nonempty_def principal_of_api_key_def Let_def login_settings_def default_settings_def
        demo_auth_def parsed_api_key_scopes_def dget_or_def scopes_are_defined_def matches_api_key_def
        parsed_api_key_hashes_def parsed_api_keys_def optional_list_def is_development_def dev_environments_def)
  from principal_authentic [OF this] show ?thesis by (simp add: demo_auth_def)
qed

lemma foreign_tenant_role_example:
  "\<exists>r. require_management_role Admin (tenant_request ''acme'')
     (token_principal [(''tenant_roles'', PDict [(''other'', PStr ''admin'')])]) prod_settings
     = Inr \<lparr>aa_tenant_key = ''acme'', aa_role = r,
         aa_principal = token_principal [(''tenant_roles'', PDict [(''other'', PStr ''admin'')])]\<rparr>"
  using foreign_tenant_role [of "token_principal [(''tenant_roles'', PDict [(''other'', PStr ''admin'')])]"
      "[(''tenant_roles'', PDict [(''other'', PStr ''admin'')])]" "[(''other'', PStr ''admin'')]" "''acme''"
      "''other''" "PStr ''admin''" Admin "tenant_request ''acme''" Admin prod_settings] tenant_request_key
  by (simp add: known_role_def is_str_def)

lemma jwks_backoff_constant_example:
  "fst (get_jwks (default_settings\<lparr>se_oidc_jwks_url := Some ''u''\<rparr>) (au_fetch demo_auth) 5 no_jwks)
     = Inl (JWTError ''jwks fetch failed'')"
proof -
  let ?s = "default_settings\<lparr>se_oidc_jwks_url := Some ''u''\<rparr>"
  have "get_jwks ?s (au_fetch demo_auth) 5 no_jwks = (Inl (JWTError ''jwks fetch failed''),
      no_jwks\<lparr>jk_backoff_until := dset (jk_backoff_until no_jwks) ''u'' (5 + 1)\<rparr>)"
    using jwks_backoff_constant [of ?s "''u''" no_jwks 5 "au_fetch demo_auth" "RuntimeError ''down''"]
    by (simp add: default_settings_def demo_auth_def jwks_cached_def no_jwks_def jwks_blocked_until_def dget_or_def)
  then show ?thesis by simp
qed

lemma admin_token_rules_all_tenants_example:
  "\<exists>p. require_management_role Admin (tenant_request ''acme'') p login_settings
     = Inr \<lparr>aa_tenant_key = ''acme'', aa_role = Admin, aa_principal = p\<rparr>"
proof -
  have secrets: "compare_digest ''root'' ''root'' = Inr True" "compare_digest ''pw'' ''pw'' = Inr True" by code_simp+
  have expiry: "token_expiry login_settings 0 = 3600"
    by (simp add: token_expiry_def login_settings_def default_settings_def trunc_rat_def)
  have token: "admin_token login_settings demo_auth ''root'' = ''token''"
    by (simp add: admin_token_def demo_auth_def demo_tokens_def)
  have "admin_login login_settings demo_auth ''root'' ''pw'' = Inr [(''access_token'', PStr ''token''),
      (''token_type'', PStr ''bearer''), (''expires_in'', PInt 3600), (''role'', PStr ''admin''),
      (''tenant_key'', PStr default_tenant_key)]"
    using secrets token
    by (simp add: admin_login_def nonempty_def valid_admin_password_def login_settings_def default_settings_def)
  moreover have "strip ''token'' = ''token''" by code_simp
  ultimately show ?thesis
    using admin_token_rules_all_tenants [of login_settings demo_auth "''root''" "''pw''" _ "tenant_request ''acme''"
        "''acme''" no_jwks] token expiry tenant_request_key
    by (auto simp: demo_auth_def demo_tokens_def login_settings_def default_settings_def nonempty_def)
qed

end
