(* ===== verification/RateLimit.thy ===== *)
theory RateLimit
  imports Settings Http
begin

text \<open>
  The token buckets of \<open>config/rate_limit.py\<close>: the local buckets of a process, the script that runs
  in Redis, and the middleware. Times and token counts are exact rationals; the rounding of doubles is
  not modelled. Redis is a parameter: a call that runs the script on the hash stored under a key.
\<close>

section \<open>Buckets\<close>

record limits =
  lm_capacity :: int
  lm_refill_rate :: rat
  lm_ttl :: int

definition limits_of :: "settings \<Rightarrow> limits" where
  "limits_of s = (let rate = max 1 (se_rate_limit_per_minute s);
       interval = max 1 (se_rate_limit_window_seconds s);
       burst = (case se_rate_limit_burst s of None \<Rightarrow> rate | Some b \<Rightarrow> if b = 0 then rate else b);
       capacity = max 1 burst;
       refill_rate = of_int rate / of_int interval
     in \<lparr>lm_capacity = capacity, lm_refill_rate = refill_rate,
         lm_ttl = max interval (\<lceil>of_int capacity / refill_rate\<rceil> * 2)\<rparr>)"

record local_bucket =
  lb_tokens :: rat
  lb_updated_at :: rat

record bucket_decision =
  bd_limit :: int
  bd_remaining :: int
  bd_retry_after :: int

datatype consumption = Admitted bucket_decision | Limited int int

definition refilled :: "limits \<Rightarrow> rat \<Rightarrow> local_bucket \<Rightarrow> rat" where
  "refilled lm now bucket = (let elapsed = max 0 (now - lb_updated_at bucket) in
     min (of_int (lm_capacity lm)) (lb_tokens bucket + elapsed * lm_refill_rate lm))"

definition bucket_or_full :: "limits \<Rightarrow> rat \<Rightarrow> local_bucket option \<Rightarrow> local_bucket" where
  "bucket_or_full lm now stored = (case stored of Some b \<Rightarrow> b
     | None \<Rightarrow> \<lparr>lb_tokens = of_int (lm_capacity lm), lb_updated_at = now\<rparr>)"

definition take_token :: "limits \<Rightarrow> rat \<Rightarrow> local_bucket option \<Rightarrow> consumption \<times> local_bucket" where
  "take_token lm now stored = (let tokens = refilled lm now (bucket_or_full lm now stored) in
     if tokens < 1
     then (Limited (lm_capacity lm) (max 1 \<lceil>(1 - tokens) / lm_refill_rate lm\<rceil>),
           \<lparr>lb_tokens = tokens, lb_updated_at = now\<rparr>)
     else (Admitted \<lparr>bd_limit = lm_capacity lm, bd_remaining = max 0 (trunc_rat (tokens - 1)), bd_retry_after = 0\<rparr>,
           \<lparr>lb_tokens = tokens - 1, lb_updated_at = now\<rparr>))"

type_synonym buckets = "(string \<times> local_bucket) list"

definition local_consume :: "limits \<Rightarrow> rat \<Rightarrow> string \<Rightarrow> (buckets, consumption) eff" where
  "local_consume lm now key bs = (case take_token lm now (dget bs key) of (c, b) \<Rightarrow> (Inr c, dset bs key b))"

section \<open>The script of Redis\<close>

text \<open>
  \<open>_REDIS_BUCKET_SCRIPT\<close> on the two fields of the stored hash, \<open>None\<close> for a field that is missing: the
  reply and the fields it stores. Redis truncates the numbers of a reply to integers.
\<close>

definition bucket_script :: "rat \<Rightarrow> rat \<Rightarrow> int \<Rightarrow> rat \<Rightarrow> rat option \<times> rat option \<Rightarrow> (int \<times> int \<times> int) \<times> (rat \<times> rat)" where
  "bucket_script now refill_rate capacity requested hash =
     (let tokens0 = (case fst hash of None \<Rightarrow> of_int capacity | Some t \<Rightarrow> t);
          updated_at = (case snd hash of None \<Rightarrow> now | Some u \<Rightarrow> u);
          elapsed = max 0 (now - updated_at);
          tokens1 = min (of_int capacity) (tokens0 + elapsed * refill_rate);
          allowed = (requested \<le> tokens1);
          tokens = (if allowed then tokens1 - requested else tokens1);
          retry_after = (if allowed then 0 else \<lceil>(requested - tokens) / refill_rate\<rceil>)
      in ((if allowed then 1 else 0, trunc_rat tokens, retry_after), (tokens, now)))"

definition redis_decision :: "limits \<Rightarrow> int \<times> int \<times> int \<Rightarrow> consumption" where
  "redis_decision lm reply = (case reply of (allowed, remaining, retry_after) \<Rightarrow>
     if allowed = 1
     then Admitted \<lparr>bd_limit = lm_capacity lm, bd_remaining = max 0 remaining, bd_retry_after = max 0 retry_after\<rparr>
     else Limited (lm_capacity lm) (max 0 retry_after))"

section \<open>The middleware\<close>

text \<open>
  The state: the local buckets and the rest of the program. \<open>redis\<close> runs the script for the key, the
  time and the limits; it is \<open>None\<close> when no client is configured.
\<close>

record 'w limited =
  li_buckets :: buckets
  li_inner :: 'w

type_synonym 'w redis_script = "string \<Rightarrow> rat \<Rightarrow> limits \<Rightarrow> ('w limited, int \<times> int \<times> int) eff"

definition on_buckets :: "(buckets, 'a) eff \<Rightarrow> ('w limited, 'a) eff" where
  "on_buckets m st = (case m (li_buckets st) of (r, b) \<Rightarrow> (r, st\<lparr>li_buckets := b\<rparr>))"

definition on_inner :: "('w, 'a) eff \<Rightarrow> ('w limited, 'a) eff" where
  "on_inner m st = (case m (li_inner st) of (r, w) \<Rightarrow> (r, st\<lparr>li_inner := w\<rparr>))"

text \<open>The exceptions the middleware turns into a local decision; \<open>ConnectionError\<close> and \<open>TimeoutError\<close> are an \<open>OSError\<close>.\<close>

definition redis_falls_back :: "exn \<Rightarrow> bool" where
  "redis_falls_back e = (case e of AttributeError _ \<Rightarrow> True | OSError _ \<Rightarrow> True
     | ConnectionError _ \<Rightarrow> True | TimeoutError _ \<Rightarrow> True | RuntimeError _ \<Rightarrow> True
     | ValueError _ \<Rightarrow> True | AttributeValidationError _ \<Rightarrow> True | _ \<Rightarrow> False)"

definition client_identity :: "http_request \<Rightarrow> string" where
  "client_identity request =
     (case or_else (header request ''X-API-Key'') (header request ''Authorization'') of
        Some t \<Rightarrow> t | None \<Rightarrow> (case rq_client request of Some host \<Rightarrow> host | None \<Rightarrow> ''anonymous''))"

definition bucket_key :: "(string \<Rightarrow> string) \<Rightarrow> http_request \<Rightarrow> string" where
  "bucket_key sha256 request = ''rl:tb:'' @ take 32 (sha256 (client_identity request))"

definition consume :: "settings \<Rightarrow> (string \<Rightarrow> string) \<Rightarrow> 'w redis_script option \<Rightarrow> rat \<Rightarrow> http_request
    \<Rightarrow> ('w limited, consumption) eff" where
  "consume s sha256 redis now request =
     (let lm = limits_of s; key = bucket_key sha256 request in
      case redis of
        Some script \<Rightarrow> catch (bnd (script key now lm) (\<lambda>reply. ret (redis_decision lm reply))) redis_falls_back
                         (\<lambda>_. on_buckets (local_consume lm now key))
      | None \<Rightarrow> on_buckets (local_consume lm now key))"

definition limited_response :: "int \<Rightarrow> int \<Rightarrow> http_response" where
  "limited_response limit retry_after =
     set_header ''X-RateLimit-Reset'' (int_str (max 1 retry_after))
     (set_header ''X-RateLimit-Remaining'' ''0''
     (set_header ''X-RateLimit-Limit'' (int_str limit)
     (set_header ''Retry-After'' (int_str (max 1 retry_after))
       (json_response 429 (error_body ''too_many_requests'' ''rate limit exceeded'' PNone)))))"

definition exempt_paths :: "string list" where
  "exempt_paths = [''/health'', ''/metrics'', ''/docs'', ''/redoc'', ''/openapi.json'']"

definition rate_limit_headers :: "bucket_decision \<Rightarrow> http_response \<Rightarrow> http_response" where
  "rate_limit_headers d response =
     set_header ''X-RateLimit-Reset'' (int_str (bd_retry_after d))
     (set_header ''X-RateLimit-Remaining'' (int_str (bd_remaining d))
     (set_header ''X-RateLimit-Limit'' (int_str (bd_limit d)) response))"

definition rate_limit_dispatch :: "settings \<Rightarrow> (string \<Rightarrow> string) \<Rightarrow> 'w redis_script option \<Rightarrow> rat
    \<Rightarrow> (http_request \<Rightarrow> ('w, http_response) eff) \<Rightarrow> http_request \<Rightarrow> ('w limited, http_response) eff" where
  "rate_limit_dispatch s sha256 redis now call_next request =
     (if upper_ascii (rq_method request) = ''OPTIONS'' \<or> rq_path request \<in> set exempt_paths
      then on_inner (call_next request)
      else bnd (consume s sha256 redis now request) (\<lambda>c. case c of
          Limited limit retry_after \<Rightarrow> ret (limited_response limit retry_after)
        | Admitted d \<Rightarrow> bnd (on_inner (call_next request)) (\<lambda>response. ret (rate_limit_headers d response))))"

section \<open>Bounds of the buckets\<close>

definition good_limits :: "limits \<Rightarrow> bool" where
  "good_limits lm = (1 \<le> lm_capacity lm \<and> 0 < lm_refill_rate lm
     \<and> of_int (lm_capacity lm) \<le> of_int (lm_ttl lm) * lm_refill_rate lm)"

definition good_bucket :: "limits \<Rightarrow> local_bucket \<Rightarrow> bool" where
  "good_bucket lm b = (0 \<le> lb_tokens b \<and> lb_tokens b \<le> of_int (lm_capacity lm))"

lemma limits_of_good: "good_limits (limits_of s)"
proof -
  define rate interval where "rate = max 1 (se_rate_limit_per_minute s)"
    and "interval = max 1 (se_rate_limit_window_seconds s)"
  define capacity where "capacity = max 1 (case se_rate_limit_burst s of None \<Rightarrow> rate | Some b \<Rightarrow> if b = 0 then rate else b)"
  define refill_rate :: rat where "refill_rate = of_int rate / of_int interval"
  define ttl where "ttl = max interval (\<lceil>of_int capacity / refill_rate\<rceil> * 2)"
  have lm: "limits_of s = \<lparr>lm_capacity = capacity, lm_refill_rate = refill_rate, lm_ttl = ttl\<rparr>"
    unfolding limits_of_def Let_def rate_def interval_def capacity_def refill_rate_def ttl_def ..
  have pos: "0 < refill_rate" "1 \<le> capacity"
    by (simp_all add: refill_rate_def rate_def interval_def capacity_def)
  have "of_int capacity / refill_rate \<le> of_int \<lceil>of_int capacity / refill_rate\<rceil>" by (rule le_of_int_ceiling)
  also have "\<dots> \<le> of_int ttl"
  proof -
    have "0 \<le> of_int capacity / refill_rate" using pos by simp
    then have "0 \<le> \<lceil>of_int capacity / refill_rate\<rceil>" by linarith
    then have "\<lceil>of_int capacity / refill_rate\<rceil> \<le> ttl" unfolding ttl_def by linarith
    then show ?thesis by simp
  qed
  finally have "of_int capacity \<le> of_int ttl * refill_rate" using pos(1) by (simp add: pos_divide_le_eq)
  with pos show ?thesis by (simp add: good_limits_def lm)
qed

lemma bucket_or_full_good:
  "good_limits lm \<Longrightarrow> (\<And>b. stored = Some b \<Longrightarrow> good_bucket lm b) \<Longrightarrow> good_bucket lm (bucket_or_full lm now stored)"
  by (auto simp: bucket_or_full_def good_bucket_def good_limits_def split: option.splits)

lemma refilled_bounds:
  assumes "good_limits lm" "good_bucket lm b"
  shows "0 \<le> refilled lm now b" "refilled lm now b \<le> of_int (lm_capacity lm)"
    "refilled lm now b \<le> lb_tokens b + max 0 (now - lb_updated_at b) * lm_refill_rate lm"
proof -
  have "0 \<le> max 0 (now - lb_updated_at b) * lm_refill_rate lm" using assms(1) by (simp add: good_limits_def)
  then show "0 \<le> refilled lm now b" using assms by (simp add: refilled_def good_bucket_def good_limits_def)
qed (simp_all add: refilled_def)

lemma take_token_cases:
  obtains (limited) "take_token lm now stored = (Limited (lm_capacity lm)
        (max 1 \<lceil>(1 - refilled lm now (bucket_or_full lm now stored)) / lm_refill_rate lm\<rceil>),
      \<lparr>lb_tokens = refilled lm now (bucket_or_full lm now stored), lb_updated_at = now\<rparr>)"
    "refilled lm now (bucket_or_full lm now stored) < 1"
  | (admitted) d where "take_token lm now stored = (Admitted d,
      \<lparr>lb_tokens = refilled lm now (bucket_or_full lm now stored) - 1, lb_updated_at = now\<rparr>)"
    "1 \<le> refilled lm now (bucket_or_full lm now stored)"
  by (cases "refilled lm now (bucket_or_full lm now stored) < 1") (auto simp: take_token_def Let_def)

lemma take_token_good:
  assumes "good_limits lm" "\<And>b. stored = Some b \<Longrightarrow> good_bucket lm b"
  shows "good_bucket lm (snd (take_token lm now stored))"
proof -
  have "good_bucket lm (bucket_or_full lm now stored)" using assms by (rule bucket_or_full_good)
  from refilled_bounds [OF assms(1) this, where now = now] show ?thesis
    by (cases rule: take_token_cases [where lm = lm and now = now and stored = stored]) (simp_all add: good_bucket_def)
qed

section \<open>How many requests are admitted\<close>

text \<open>
  A sequence of attempts, each a bucket key and a time; \<open>admissions\<close> counts those of one key that
  \<open>local_consume\<close> admits.
\<close>

definition is_admitted :: "consumption result \<Rightarrow> bool" where
  "is_admitted r = (case r of Inr (Admitted d) \<Rightarrow> True | _ \<Rightarrow> False)"

fun admissions :: "limits \<Rightarrow> string \<Rightarrow> buckets \<Rightarrow> (string \<times> rat) list \<Rightarrow> nat" where
  "admissions lm k bs [] = 0"
| "admissions lm k bs ((key, now) # attempts) = (case local_consume lm now key bs of
     (r, bs') \<Rightarrow> (if key = k \<and> is_admitted r then 1 else 0) + admissions lm k bs' attempts)"

lemma local_consume_eq:
  "local_consume lm now key bs =
     (Inr (fst (take_token lm now (dget bs key))), dset bs key (snd (take_token lm now (dget bs key))))"
  by (simp add: local_consume_def split: prod.splits)

lemma is_admitted_simps [simp]: "is_admitted (Inr (Admitted d))" "\<not> is_admitted (Inr (Limited a b))" "\<not> is_admitted (Inl e)"
  by (simp_all add: is_admitted_def)

lemma admissions_bound:
  assumes "good_limits lm" "sorted (map snd attempts)" "\<And>t. t \<in> snd ` set attempts \<Longrightarrow> lb_updated_at b \<le> t \<and> t \<le> final"
    "lb_updated_at b \<le> final" "dget bs k = Some b" "good_bucket lm b"
  shows "of_nat (admissions lm k bs attempts) \<le> lb_tokens b + (final - lb_updated_at b) * lm_refill_rate lm"
  using assms(2-)
proof (induction attempts arbitrary: bs b)
  case Nil
  then show ?case using assms(1) by (simp add: good_bucket_def good_limits_def)
next
  case (Cons a attempts)
  obtain key now where a: "a = (key, now)" by (cases a)
  show ?case
  proof (cases "key = k")
    case False
    then have "dget (snd (local_consume lm now key bs)) k = Some b" using Cons.prems(4) by (simp add: local_consume_eq)
    moreover have "sorted (map snd attempts)" using Cons.prems(1) by simp
    moreover have "lb_updated_at b \<le> t \<and> t \<le> final" if "t \<in> snd ` set attempts" for t
      using Cons.prems(2) that by simp
    ultimately have "of_nat (admissions lm k (snd (local_consume lm now key bs)) attempts)
        \<le> lb_tokens b + (final - lb_updated_at b) * lm_refill_rate lm"
      using Cons.IH Cons.prems(3,5) by blast
    then show ?thesis using a False by (simp add: local_consume_eq)
  next
    case True
    define b' where "b' = snd (take_token lm now (Some b))"
    have now: "lb_updated_at b \<le> now" "now \<le> final" using Cons.prems(2) a by auto
    have full: "bucket_or_full lm now (Some b) = b" by (simp add: bucket_or_full_def)
    have good': "good_bucket lm b'"
      unfolding b'_def using assms(1) Cons.prems(5) by (intro take_token_good) simp_all
    have time': "lb_updated_at b' = now" unfolding b'_def by (cases rule: take_token_cases [where lm = lm and now = now and stored = "Some b"]) simp_all
    have "dget (snd (local_consume lm now key bs)) k = Some b'"
      using True Cons.prems(4) by (simp add: local_consume_eq b'_def)
    moreover have "lb_updated_at b' \<le> t \<and> t \<le> final" if "t \<in> snd ` set attempts" for t
      using Cons.prems(1,2) that a time' by auto
    ultimately have IH: "of_nat (admissions lm k (snd (local_consume lm now key bs)) attempts)
        \<le> lb_tokens b' + (final - now) * lm_refill_rate lm"
      using Cons.IH [of b' "snd (local_consume lm now key bs)"] Cons.prems(1) time' now(2) good' by simp
    have split: "(now - lb_updated_at b) * lm_refill_rate lm + (final - now) * lm_refill_rate lm
        = (final - lb_updated_at b) * lm_refill_rate lm" by (simp add: algebra_simps)
    have refill: "refilled lm now b \<le> lb_tokens b + (now - lb_updated_at b) * lm_refill_rate lm"
      using refilled_bounds(3) [OF assms(1) Cons.prems(5), where now = now] now(1) by simp
    show ?thesis
    proof (cases rule: take_token_cases [where lm = lm and now = now and stored = "Some b"])
      case limited
      then have "lb_tokens b' = refilled lm now b" by (simp add: b'_def full)
      moreover have "admissions lm k bs (a # attempts) = admissions lm k (snd (local_consume lm now key bs)) attempts"
        using limited True a Cons.prems(4) by (simp add: local_consume_eq)
      ultimately show ?thesis using IH refill split by simp
    next
      case admitted
      then have "lb_tokens b' = refilled lm now b - 1" by (simp add: b'_def full)
      moreover have "admissions lm k bs (a # attempts) = Suc (admissions lm k (snd (local_consume lm now key bs)) attempts)"
        using admitted True a Cons.prems(4) by (simp add: local_consume_eq)
      ultimately show ?thesis using IH refill split by simp
    qed
  qed
qed

lemma admissions_cong:
  assumes "dget bs = dget bs'"
  shows "admissions lm k bs attempts = admissions lm k bs' attempts"
  using assms
proof (induction attempts arbitrary: bs bs')
  case (Cons a attempts)
  obtain key now where a: "a = (key, now)" by (cases a)
  have "dget (dset bs key b) = dget (dset bs' key b)" for b using Cons.prems by auto
  from Cons.IH [OF this] show ?case by (simp add: a local_consume_eq Cons.prems)
qed simp

text \<open>
  C17. Whatever the attempts of other clients, of the attempts of one client between \<open>start\<close> and
  \<open>final\<close> at most the capacity plus the refill of that time are admitted, counted from no bucket at all.
\<close>

theorem admitted_within_budget:
  assumes "sorted (map snd attempts)" "start \<le> final" "set (map snd attempts) \<subseteq> {start..final}"
  shows "of_nat (admissions (limits_of s) k [] attempts)
    \<le> of_int (lm_capacity (limits_of s)) + (final - start) * lm_refill_rate (limits_of s)"
proof -
  let ?lm = "limits_of s"
  let ?full = "\<lparr>lb_tokens = of_int (lm_capacity ?lm), lb_updated_at = start\<rparr>"
  have good: "good_limits ?lm" by (rule limits_of_good)
  have same: "admissions ?lm k bs as \<le> admissions ?lm k (dset bs k ?full) as"
    if "dget bs k = None" "sorted (map snd as)" "set (map snd as) \<subseteq> {start..final}" for bs as
    using that
  proof (induction as arbitrary: bs)
    case (Cons a as)
    obtain key now where a: "a = (key, now)" by (cases a)
    show ?case
    proof (cases "key = k")
      case True
      have "start \<le> now" using Cons.prems(3) a by simp
      then have "refilled ?lm now ?full = of_int (lm_capacity ?lm)"
        using good by (simp add: refilled_def good_limits_def min_def)
      moreover have "refilled ?lm now (bucket_or_full ?lm now None) = of_int (lm_capacity ?lm)"
        by (simp add: refilled_def bucket_or_full_def)
      ultimately have "take_token ?lm now None = take_token ?lm now (Some ?full)"
        by (simp add: take_token_def bucket_or_full_def)
      moreover have "dset (dset bs k ?full) k b = dset bs k b" for b
        by (induction bs k b rule: dset.induct) auto
      ultimately show ?thesis
        using True a Cons.prems(1) by (simp add: local_consume_eq)
    next
      case False
      have swap: "admissions ?lm k (dset (dset bs k ?full) key b) as = admissions ?lm k (dset (dset bs key b) k ?full) as" for b
        by (rule admissions_cong) (auto simp: False)
      have "admissions ?lm k (dset bs key b) as \<le> admissions ?lm k (dset (dset bs key b) k ?full) as" for b
        using Cons.IH [of "dset bs key b"] Cons.prems False by simp
      then show ?thesis using False a by (simp add: local_consume_eq swap)
    qed
  qed simp
  have "of_nat (admissions ?lm k (dset [] k ?full) attempts)
      \<le> lb_tokens ?full + (final - lb_updated_at ?full) * lm_refill_rate ?lm"
    using good assms by (intro admissions_bound) (auto simp: good_bucket_def good_limits_def)
  moreover have "(of_nat (admissions ?lm k [] attempts) :: rat) \<le> of_nat (admissions ?lm k (dset [] k ?full) attempts)"
    using same [of "[]" attempts] assms by simp
  ultimately show ?thesis by simp
qed

text \<open>
  C33. The script of Redis and the local bucket agree: on the same stored tokens and time they admit the
  same attempts and store the same bucket, and a refusal asks for the same number of seconds.
\<close>

theorem script_agrees:
  assumes "good_limits lm" "good_bucket lm b"
  shows "let (reply, hash) = bucket_script now (lm_refill_rate lm) (lm_capacity lm) 1 (Some (lb_tokens b), Some (lb_updated_at b));
             (c, b') = take_token lm now (Some b)
         in redis_decision lm reply = c \<and> hash = (lb_tokens b', lb_updated_at b')"
proof -
  define tokens where "tokens = refilled lm now b"
  have script: "bucket_script now (lm_refill_rate lm) (lm_capacity lm) 1 (Some (lb_tokens b), Some (lb_updated_at b))
      = ((if 1 \<le> tokens then 1 else 0, trunc_rat (if 1 \<le> tokens then tokens - 1 else tokens),
          if 1 \<le> tokens then 0 else \<lceil>(1 - tokens) / lm_refill_rate lm\<rceil>),
         (if 1 \<le> tokens then tokens - 1 else tokens, now))"
    by (simp add: bucket_script_def tokens_def refilled_def Let_def)
  have token: "take_token lm now (Some b) = (if tokens < 1
      then (Limited (lm_capacity lm) (max 1 \<lceil>(1 - tokens) / lm_refill_rate lm\<rceil>), \<lparr>lb_tokens = tokens, lb_updated_at = now\<rparr>)
      else (Admitted \<lparr>bd_limit = lm_capacity lm, bd_remaining = max 0 (trunc_rat (tokens - 1)), bd_retry_after = 0\<rparr>,
        \<lparr>lb_tokens = tokens - 1, lb_updated_at = now\<rparr>))"
    by (simp add: take_token_def bucket_or_full_def tokens_def Let_def)
  show ?thesis
  proof (cases "1 \<le> tokens")
    case True
    then show ?thesis by (simp add: script token redis_decision_def)
  next
    case False
    then have "0 < (1 - tokens) / lm_refill_rate lm" using assms(1) by (simp add: good_limits_def)
    then have "1 \<le> \<lceil>(1 - tokens) / lm_refill_rate lm\<rceil>" by linarith
    then show ?thesis using False by (simp add: script token redis_decision_def)
  qed
qed

text \<open>
  The expiry of a stored bucket loses nothing: once the time to live has passed, the script decides
  on the stored fields as on missing ones.
\<close>

lemma expiry_harmless:
  assumes "good_bucket (limits_of s) b" "lb_updated_at b + of_int (lm_ttl (limits_of s)) \<le> now"
  shows "bucket_script now (lm_refill_rate (limits_of s)) (lm_capacity (limits_of s)) 1 (Some (lb_tokens b), Some (lb_updated_at b))
    = bucket_script now (lm_refill_rate (limits_of s)) (lm_capacity (limits_of s)) 1 (None, None)"
proof -
  let ?lm = "limits_of s"
  have lm: "good_limits ?lm" by (rule limits_of_good)
  have ttl: "of_int (lm_ttl ?lm) \<le> max 0 (now - lb_updated_at b)" using assms(2) by simp
  have "of_int (lm_capacity ?lm) \<le> of_int (lm_ttl ?lm) * lm_refill_rate ?lm" using lm by (simp add: good_limits_def)
  also have "\<dots> \<le> max 0 (now - lb_updated_at b) * lm_refill_rate ?lm"
    using lm by (intro mult_right_mono [OF ttl]) (simp add: good_limits_def)
  finally have "of_int (lm_capacity ?lm) \<le> lb_tokens b + max 0 (now - lb_updated_at b) * lm_refill_rate ?lm"
    using assms(1) by (simp add: good_bucket_def)
  then have "min (of_int (lm_capacity ?lm)) (lb_tokens b + max 0 (now - lb_updated_at b) * lm_refill_rate ?lm)
      = of_int (lm_capacity ?lm)" by (rule min_absorb1)
  then show ?thesis
    unfolding bucket_script_def fst_conv snd_conv option.case Let_def
    by (simp only: diff_self max.idem mult_zero_left add_0_right min.idem)
qed

text \<open>
  C18. A refused client that waits the seconds of \<open>Retry-After\<close> and makes no attempt in between is
  admitted.
\<close>

theorem retry_after_sufficient:
  assumes "dget bs key = Some b" "good_bucket (limits_of s) b"
    "local_consume (limits_of s) now key bs = (Inr (Limited limit retry_after), bs')"
    "now + of_int retry_after \<le> later"
  shows "is_admitted (fst (local_consume (limits_of s) later key bs'))"
proof -
  let ?lm = "limits_of s"
  let ?tokens = "refilled ?lm now b"
  let ?b' = "\<lparr>lb_tokens = ?tokens, lb_updated_at = now\<rparr>"
  have lm: "good_limits ?lm" by (rule limits_of_good)
  have full: "bucket_or_full ?lm now (Some b) = b" by (simp add: bucket_or_full_def)
  have refused: "retry_after = max 1 \<lceil>(1 - ?tokens) / lm_refill_rate ?lm\<rceil>" "dget bs' key = Some ?b'"
    using assms(1,3) by (auto simp: local_consume_eq take_token_def full Let_def split: if_splits)
  have "(1 - ?tokens) / lm_refill_rate ?lm \<le> of_int \<lceil>(1 - ?tokens) / lm_refill_rate ?lm\<rceil>" by (rule le_of_int_ceiling)
  also have "\<dots> \<le> of_int retry_after" by (simp add: refused(1))
  also have "\<dots> \<le> later - now" using assms(4) by simp
  finally have "1 - ?tokens \<le> (later - now) * lm_refill_rate ?lm"
    using lm by (simp add: good_limits_def pos_divide_le_eq)
  moreover have "0 \<le> later - now" using \<open>of_int retry_after \<le> later - now\<close> refused(1) by linarith
  moreover have "(1 :: rat) \<le> of_int (lm_capacity ?lm)" using lm by (simp add: good_limits_def)
  ultimately have "1 \<le> refilled ?lm later ?b'" by (simp add: refilled_def)
  then show ?thesis using refused(2) by (simp add: local_consume_eq take_token_def bucket_or_full_def Let_def)
qed

text \<open>
  The limiter trusts the identity the client claims: a request with an API key, valid or not, that
  has no bucket yet is admitted, however many requests the same host made before.
\<close>

lemma fresh_identity_admitted:
  assumes "dget (li_buckets st) (bucket_key sha256 request) = None"
  shows "\<exists>d. fst (consume s sha256 None now request st) = Inr (Admitted d)"
proof -
  let ?lm = "limits_of s"
  have "good_limits ?lm" by (rule limits_of_good)
  then have "(1 :: rat) \<le> of_int (lm_capacity ?lm)" by (simp add: good_limits_def)
  then have "1 \<le> refilled ?lm now (bucket_or_full ?lm now None)" by (simp add: refilled_def bucket_or_full_def)
  then show ?thesis
    using assms by (simp add: consume_def on_buckets_def local_consume_eq take_token_def Let_def)
qed

section \<open>Concrete attempts\<close>

definition one_per_minute :: settings where
  "one_per_minute = default_settings\<lparr>se_rate_limit_per_minute := 1\<rparr>"

lemma one_per_minute_limits:
  "limits_of one_per_minute = \<lparr>lm_capacity = 1, lm_refill_rate = 1 / 60, lm_ttl = 120\<rparr>"
  by (simp add: limits_of_def one_per_minute_def default_settings_def)

theorem admitted_within_budget_witness:
  "of_nat (admissions (limits_of one_per_minute) ''k'' [] [(''k'', 0), (''other'', 1), (''k'', 60)]) \<le> (2 :: rat)"
  using admitted_within_budget [of "[(''k'', 0), (''other'', 1), (''k'', 60)]" 0 60 one_per_minute "''k''"]
  by (simp add: one_per_minute_limits)

theorem script_agrees_witness:
  "let (reply, hash) = bucket_script 60 (1 / 60) 1 1 (Some 0, Some 0);
       (c, b') = take_token (limits_of one_per_minute) 60 (Some \<lparr>lb_tokens = 0, lb_updated_at = 0\<rparr>)
   in redis_decision (limits_of one_per_minute) reply = c \<and> hash = (lb_tokens b', lb_updated_at b')"
  using script_agrees [OF limits_of_good, of one_per_minute "\<lparr>lb_tokens = 0, lb_updated_at = 0\<rparr>" 60]
  by (simp add: one_per_minute_limits good_bucket_def)

lemma expiry_harmless_example:
  "bucket_script 120 (1 / 60) 1 1 (Some 0, Some 0) = bucket_script 120 (1 / 60) 1 1 (None, None)"
  using expiry_harmless [of one_per_minute "\<lparr>lb_tokens = 0, lb_updated_at = 0\<rparr>" 120]
  by (simp add: one_per_minute_limits good_bucket_def)

theorem retry_after_sufficient_witness:
  "is_admitted (fst (local_consume (limits_of one_per_minute) 60 ''k''
     (snd (local_consume (limits_of one_per_minute) 0 ''k'' [(''k'', \<lparr>lb_tokens = 0, lb_updated_at = 0\<rparr>)]))))"
proof -
  have "local_consume (limits_of one_per_minute) 0 ''k'' [(''k'', \<lparr>lb_tokens = 0, lb_updated_at = 0\<rparr>)]
      = (Inr (Limited 1 60), [(''k'', \<lparr>lb_tokens = 0, lb_updated_at = 0\<rparr>)])"
    by (simp add: local_consume_eq take_token_def bucket_or_full_def refilled_def one_per_minute_limits)
  from retry_after_sufficient [OF _ _ this, of "\<lparr>lb_tokens = 0, lb_updated_at = 0\<rparr>" 60]
  show ?thesis using \<open>local_consume _ 0 _ _ = _\<close> by (simp add: good_bucket_def one_per_minute_limits)
qed

lemma fresh_identity_admitted_example:
  "\<exists>d. fst (consume default_settings (\<lambda>k. k) None 0
     \<lparr>rq_method = ''GET'', rq_path = ''/check-access'', rq_headers = [(''x-api-key'', ''made-up'')], rq_body = [],
      rq_client = Some ''10.0.0.1'', rq_tenant = None, rq_id = None\<rparr> \<lparr>li_buckets = [], li_inner = ()\<rparr>) = Inr (Admitted d)"
  by (rule fresh_identity_admitted) simp

end
