(* ===== verification/Idempotency.thy ===== *)
theory Idempotency
  imports Services Http
begin

text \<open>
  Idempotent writes: the table of \<open>infrastructure/repositories/idempotency.py\<close> and the middleware of
  \<open>api/middleware/idempotency.py\<close>. The unique constraint on scope and key makes the insertion of a
  record the point where one of several equal requests wins. The limits on the lengths of the columns
  and the time of completion are left out.
\<close>

section \<open>The table\<close>

record idempotency_start_result =
  sr_outcome :: string
  sr_record_id :: "int option"
  sr_status_code :: "int option"
  sr_response_body :: "string option"
  sr_content_type :: "string option"

definition start_outcome :: "string \<Rightarrow> idempotency_start_result" where
  "start_outcome outcome = \<lparr>sr_outcome = outcome, sr_record_id = None, sr_status_code = None,
     sr_response_body = None, sr_content_type = None\<rparr>"

definition find_record :: "database \<Rightarrow> string \<Rightarrow> string \<Rightarrow> idempotency_row option" where
  "find_record db scope key = find (\<lambda>r. id_scope r = scope \<and> id_key r = key) (db_idempotency db)"

definition insert_record :: "string \<Rightarrow> string \<Rightarrow> string \<Rightarrow> database \<Rightarrow> database" where
  "insert_record scope key request_hash db = db\<lparr>
     db_idempotency := db_idempotency db @ [\<lparr>id_id = db_next_id db, id_scope = scope, id_key = key,
       id_request_hash = request_hash, id_status_code = None, id_body = None, id_content_type = None\<rparr>],
     db_next_id := db_next_id db + 1\<rparr>"

definition stored_outcome :: "idempotency_row \<Rightarrow> string \<Rightarrow> idempotency_start_result" where
  "stored_outcome existing request_hash =
     (if id_request_hash existing \<noteq> request_hash then start_outcome ''mismatch''
      else if id_status_code existing = None \<or> id_body existing = None then start_outcome ''pending''
      else \<lparr>sr_outcome = ''replay'', sr_record_id = Some (id_id existing), sr_status_code = id_status_code existing,
            sr_response_body = id_body existing, sr_content_type = id_content_type existing\<rparr>)"

definition idempotency_start :: "string \<Rightarrow> string \<Rightarrow> string \<Rightarrow> (database, idempotency_start_result) eff" where
  "idempotency_start scope key request_hash db = (case find_record db scope key of
     None \<Rightarrow> (Inr ((start_outcome ''started'')\<lparr>sr_record_id := Some (db_next_id db)\<rparr>), insert_record scope key request_hash db)
   | Some existing \<Rightarrow> (Inr (stored_outcome existing request_hash), db))"

definition complete_row :: "int \<Rightarrow> string \<Rightarrow> string option \<Rightarrow> idempotency_row \<Rightarrow> idempotency_row" where
  "complete_row status_code response_body content_type r =
     r\<lparr>id_status_code := Some status_code, id_body := Some response_body, id_content_type := content_type\<rparr>"

definition idempotency_complete :: "int \<Rightarrow> int \<Rightarrow> string \<Rightarrow> string option \<Rightarrow> (database, unit) eff" where
  "idempotency_complete record_id status_code response_body content_type db = (Inr (),
     db\<lparr>db_idempotency := map (\<lambda>r. if id_id r = record_id
          then complete_row status_code response_body content_type r else r) (db_idempotency db)\<rparr>)"

section \<open>The middleware\<close>

definition target_paths :: "(string \<times> string) list" where
  "target_paths = [(''POST'', ''/policies''), (''POST'', ''/policies/dsl''), (''POST'', ''/relationships'')]"

definition conflict_response :: "string \<Rightarrow> string \<Rightarrow> http_response" where
  "conflict_response message key = json_response 409
     (error_body ''conflict'' message (PDict [(''idempotency_key'', PStr key)]))"

definition content_type_header :: "string \<Rightarrow> string" where
  "content_type_header media_type = (if starts_with ''text/'' media_type then media_type @ ''; charset=utf-8'' else media_type)"

definition replayed_response :: "string \<Rightarrow> idempotency_start_result \<Rightarrow> http_response" where
  "replayed_response key start = (let media_type = str_or (sr_content_type start) ''application/json'' in
     set_header ''X-Idempotency-Key'' key (set_header ''X-Idempotent-Replayed'' ''true''
       \<lparr>rs_status = (case sr_status_code start of None \<Rightarrow> 200 | Some st \<Rightarrow> if st = 0 then 200 else st),
        rs_headers = [(''content-type'', content_type_header media_type)],
        rs_body = str_or (sr_response_body start) [], rs_media_type = Some media_type\<rparr>))"

text \<open>
  What \<open>call_next\<close> returns is a stream of the inner response: its status, headers and body, but without a
  media type of its own, so none is stored and a replay is sent as JSON.
\<close>

definition streamed :: "http_response \<Rightarrow> http_response" where
  "streamed response = response\<lparr>rs_media_type := None\<rparr>"

lemma streamed_simps [simp]:
  "rs_status (streamed r) = rs_status r" "rs_body (streamed r) = rs_body r" "rs_headers (streamed r) = rs_headers r"
  "rs_media_type (streamed r) = None" "response_header (streamed r) n = response_header r n"
  by (simp_all add: streamed_def response_header_def)

text \<open>
  \<open>rq_id\<close> is the request id the inner layers left in the state of the request: it is read after the call.
\<close>

definition mark_response :: "string \<Rightarrow> http_request \<Rightarrow> http_response \<Rightarrow> http_response" where
  "mark_response key request response =
     (let replayable = set_header ''X-Idempotency-Key'' key (streamed response) in
      set_header ''X-Request-Id'' (case or_else (rq_id request) (response_header replayable ''X-Request-Id'') of
        Some i \<Rightarrow> i | None \<Rightarrow> []) replayable)"

type_synonym endpoint = "http_request \<Rightarrow> (world, http_response) eff"

text \<open>The repository as the middleware uses it, and the one on the tables of the program.\<close>

record 'w idempotency_repository =
  ir_start :: "string \<Rightarrow> string \<Rightarrow> string \<Rightarrow> ('w, idempotency_start_result) eff"
  ir_complete :: "int \<Rightarrow> int \<Rightarrow> string \<Rightarrow> string option \<Rightarrow> ('w, unit) eff"

definition world_records :: "world idempotency_repository" where
  "world_records = \<lparr>ir_start = (\<lambda>scope key h. on_db (idempotency_start scope key h)),
     ir_complete = (\<lambda>i status_code body ct. on_db (idempotency_complete i status_code body ct))\<rparr>"

lemma world_records_simps [simp]:
  "ir_start world_records scope key h = on_db (idempotency_start scope key h)"
  "ir_complete world_records i status_code body ct = on_db (idempotency_complete i status_code body ct)"
  by (simp_all add: world_records_def)

definition request_scope :: "http_request \<Rightarrow> string" where
  "request_scope request = upper_ascii (rq_method request) @ '':'' @ rq_path request"

definition request_hash_of :: "(string \<Rightarrow> string) \<Rightarrow> http_request \<Rightarrow> string" where
  "request_hash_of sha256 request = sha256 (request_scope request @ char_of (10 :: nat) # rq_body request)"

definition complete_if_final :: "'w idempotency_repository \<Rightarrow> idempotency_start_result \<Rightarrow> http_response \<Rightarrow> ('w, unit) eff" where
  "complete_if_final repository start response = (case sr_record_id start of
     Some record_id \<Rightarrow> if rs_status response < 500
       then ir_complete repository record_id (rs_status response) (rs_body response) (rs_media_type (streamed response))
       else ret ()
   | None \<Rightarrow> ret ())"

definition idempotency_dispatch :: "'w idempotency_repository \<Rightarrow> (string \<Rightarrow> string)
    \<Rightarrow> (http_request \<Rightarrow> ('w, http_response) eff) \<Rightarrow> http_request \<Rightarrow> ('w, http_response) eff" where
  "idempotency_dispatch repository sha256 call_next request =
     (if (upper_ascii (rq_method request), rq_path request) \<notin> set target_paths then call_next request
      else case header request ''Idempotency-Key'' of
        None \<Rightarrow> call_next request
      | Some key \<Rightarrow>
          if key = [] then call_next request
          else bnd (ir_start repository (request_scope request) key (request_hash_of sha256 request)) (\<lambda>start.
            if sr_outcome start = ''mismatch''
            then ret (conflict_response ''idempotency key reused with a different request'' key)
            else if sr_outcome start = ''pending''
            then ret (conflict_response ''request with this idempotency key is still in progress'' key)
            else if sr_outcome start = ''replay'' then ret (replayed_response key start)
            else bnd (call_next request) (\<lambda>response.
                 bnd (complete_if_final repository start response) (\<lambda>_. ret (mark_response key request response)))))"

section \<open>What a request leaves behind\<close>

text \<open>A request that the middleware handles, with its key.\<close>

definition keyed :: "http_request \<Rightarrow> string \<Rightarrow> bool" where
  "keyed request key = ((upper_ascii (rq_method request), rq_path request) \<in> set target_paths
     \<and> header request ''Idempotency-Key'' = Some key \<and> key \<noteq> [])"

definition record_of :: "world \<Rightarrow> http_request \<Rightarrow> string \<Rightarrow> idempotency_row option" where
  "record_of w request key = find_record (w_db w) (request_scope request) key"

lemma dispatch_keyed:
  assumes "keyed request key"
  shows "idempotency_dispatch world_records sha256 call_next request w = (case record_of w request key of
     Some existing \<Rightarrow> (Inr (let start = stored_outcome existing (request_hash_of sha256 request) in
         if sr_outcome start = ''mismatch''
         then conflict_response ''idempotency key reused with a different request'' key
         else if sr_outcome start = ''pending''
         then conflict_response ''request with this idempotency key is still in progress'' key
         else replayed_response key start), w)
   | None \<Rightarrow> bnd (call_next request) (\<lambda>response.
         bnd (complete_if_final world_records ((start_outcome ''started'')\<lparr>sr_record_id := Some (db_next_id (w_db w))\<rparr>) response)
           (\<lambda>_. ret (mark_response key request response)))
       (w\<lparr>w_db := insert_record (request_scope request) key (request_hash_of sha256 request) (w_db w)\<rparr>))"
proof -
  have head: "idempotency_dispatch world_records sha256 call_next request w =
      bnd (on_db (idempotency_start (request_scope request) key (request_hash_of sha256 request))) (\<lambda>start.
            if sr_outcome start = ''mismatch''
            then ret (conflict_response ''idempotency key reused with a different request'' key)
            else if sr_outcome start = ''pending''
            then ret (conflict_response ''request with this idempotency key is still in progress'' key)
            else if sr_outcome start = ''replay'' then ret (replayed_response key start)
            else bnd (call_next request) (\<lambda>response.
                 bnd (complete_if_final world_records start response) (\<lambda>_. ret (mark_response key request response)))) w"
    using assms by (simp add: keyed_def idempotency_dispatch_def)
  show ?thesis
  proof (cases "record_of w request key")
    case None
    then have "on_db (idempotency_start (request_scope request) key (request_hash_of sha256 request)) w
        = (Inr ((start_outcome ''started'')\<lparr>sr_record_id := Some (db_next_id (w_db w))\<rparr>),
           w\<lparr>w_db := insert_record (request_scope request) key (request_hash_of sha256 request) (w_db w)\<rparr>)"
      by (simp add: on_db_def idempotency_start_def record_of_def)
    then show ?thesis using None by (simp add: head start_outcome_def)
  next
    case (Some existing)
    then have "on_db (idempotency_start (request_scope request) key (request_hash_of sha256 request)) w
        = (Inr (stored_outcome existing (request_hash_of sha256 request)), w)"
      by (simp add: on_db_def idempotency_start_def record_of_def)
    then show ?thesis using Some by (auto simp: head stored_outcome_def start_outcome_def)
  qed
qed

text \<open>Handlers do not touch the table and only take ids.\<close>

definition leaves_records :: "endpoint \<Rightarrow> bool" where
  "leaves_records h = (\<forall>r w. db_idempotency (w_db (snd (h r w))) = db_idempotency (w_db w)
     \<and> db_next_id (w_db w) \<le> db_next_id (w_db (snd (h r w))))"

definition wf_records :: "world \<Rightarrow> bool" where
  "wf_records w = (\<forall>r \<in> set (db_idempotency (w_db w)). id_id r < db_next_id (w_db w))"

lemma leaves_records_D:
  "leaves_records h \<Longrightarrow> h r w = (x, w') \<Longrightarrow>
   db_idempotency (w_db w') = db_idempotency (w_db w) \<and> db_next_id (w_db w) \<le> db_next_id (w_db w')"
  unfolding leaves_records_def by (metis snd_conv)

definition new_row :: "(string \<Rightarrow> string) \<Rightarrow> http_request \<Rightarrow> string \<Rightarrow> world \<Rightarrow> idempotency_row" where
  "new_row sha256 request key w = \<lparr>id_id = db_next_id (w_db w), id_scope = request_scope request, id_key = key,
     id_request_hash = request_hash_of sha256 request, id_status_code = None, id_body = None, id_content_type = None\<rparr>"

text \<open>The first request with a key appends one row and touches no other.\<close>

lemma dispatch_first:
  assumes "keyed request key" "record_of w request key = None" "leaves_records h" "wf_records w"
    "idempotency_dispatch world_records sha256 h request w = (x, w')"
  shows "db_next_id (w_db w) < db_next_id (w_db w')"
    "(\<exists>e. x = Inl e \<and> db_idempotency (w_db w') = db_idempotency (w_db w) @ [new_row sha256 request key w])
     \<or> (\<exists>response. x = Inr (mark_response key request response)
        \<and> db_idempotency (w_db w') = db_idempotency (w_db w) @ [if rs_status response < 500
            then complete_row (rs_status response) (rs_body response) None (new_row sha256 request key w)
            else new_row sha256 request key w])"
proof -
  let ?w1 = "w\<lparr>w_db := insert_record (request_scope request) key (request_hash_of sha256 request) (w_db w)\<rparr>"
  let ?start = "(start_outcome ''started'')\<lparr>sr_record_id := Some (db_next_id (w_db w))\<rparr>"
  obtain y w2 where h: "h request ?w1 = (y, w2)" by (cases "h request ?w1")
  have rows1: "db_idempotency (w_db ?w1) = db_idempotency (w_db w) @ [new_row sha256 request key w]"
    by (simp add: insert_record_def new_row_def)
  have next1: "db_next_id (w_db ?w1) = db_next_id (w_db w) + 1" by (simp add: insert_record_def)
  have w2: "db_idempotency (w_db w2) = db_idempotency (w_db w) @ [new_row sha256 request key w]"
    "db_next_id (w_db w) < db_next_id (w_db w2)"
    using leaves_records_D [OF assms(3) h] rows1 next1 by simp_all
  have run: "idempotency_dispatch world_records sha256 h request w = bnd (h request) (\<lambda>response.
      bnd (complete_if_final world_records ?start response) (\<lambda>_. ret (mark_response key request response))) ?w1"
    using assms(1,2) by (simp add: dispatch_keyed)
  have others: "map (\<lambda>r. if id_id r = db_next_id (w_db w) then f r else r) (db_idempotency (w_db w)) = db_idempotency (w_db w)"
    for f using assms(4) by (intro map_idI) (auto simp: wf_records_def)
  have id: "id_id (new_row sha256 request key w) = db_next_id (w_db w)" by (simp add: new_row_def)
  show "db_next_id (w_db w) < db_next_id (w_db w')"
    using assms(5) run h w2
    by (cases y) (auto simp: complete_if_final_def on_db_def idempotency_complete_def split: if_splits)
  show "(\<exists>e. x = Inl e \<and> db_idempotency (w_db w') = db_idempotency (w_db w) @ [new_row sha256 request key w])
     \<or> (\<exists>response. x = Inr (mark_response key request response)
        \<and> db_idempotency (w_db w') = db_idempotency (w_db w) @ [if rs_status response < 500
            then complete_row (rs_status response) (rs_body response) None (new_row sha256 request key w)
            else new_row sha256 request key w])"
  proof (cases y)
    case (Inl e)
    then have "x = Inl e" "w' = w2" using assms(5) run h by simp_all
    then show ?thesis using w2 by simp
  next
    case (Inr response)
    then show ?thesis using assms(5) run h w2 others id
      by (auto simp: complete_if_final_def on_db_def idempotency_complete_def split: if_splits)
  qed
qed

lemma dispatch_not_keyed:
  "(\<And>key. \<not> keyed request key) \<Longrightarrow> idempotency_dispatch world_records sha256 h request = h request"
  by (auto simp: keyed_def idempotency_dispatch_def fun_eq_iff split: option.splits)

text \<open>Every request keeps the rows that are there.\<close>

lemma dispatch_appends:
  assumes "leaves_records h" "wf_records w" "idempotency_dispatch world_records sha256 h request w = (x, w')"
  shows "wf_records w' \<and> (\<exists>extra. db_idempotency (w_db w') = db_idempotency (w_db w) @ extra)"
proof (cases "\<exists>key. keyed request key")
  case False
  then show ?thesis
    using assms leaves_records_D [OF assms(1)] by (auto simp: dispatch_not_keyed wf_records_def intro: less_le_trans)
next
  case True
  then obtain key where key: "keyed request key" ..
  show ?thesis
  proof (cases "record_of w request key")
    case (Some existing)
    then show ?thesis using assms(2,3) by (simp add: dispatch_keyed [OF key])
  next
    case None
    note first = dispatch_first [OF key None assms]
    from first(2) obtain row where row: "db_idempotency (w_db w') = db_idempotency (w_db w) @ [row]"
        "id_id row = db_next_id (w_db w)"
      by (auto simp: new_row_def complete_row_def)
    then show ?thesis using assms(2) first(1) by (auto simp: wf_records_def)
  qed
qed

fun run_requests :: "(string \<Rightarrow> string) \<Rightarrow> (endpoint \<times> http_request) list \<Rightarrow> world \<Rightarrow> world" where
  "run_requests sha256 [] w = w"
| "run_requests sha256 ((h, r) # trace) w = run_requests sha256 trace (snd (idempotency_dispatch world_records sha256 h r w))"

lemma run_requests_appends:
  "\<forall>(h, r) \<in> set trace. leaves_records h \<Longrightarrow> wf_records w \<Longrightarrow>
   \<exists>extra. db_idempotency (w_db (run_requests sha256 trace w)) = db_idempotency (w_db w) @ extra"
proof (induction trace arbitrary: w)
  case (Cons a trace)
  obtain h r where a: "a = (h, r)" by (cases a)
  obtain x w' where step: "idempotency_dispatch world_records sha256 h r w = (x, w')" by (cases "idempotency_dispatch world_records sha256 h r w")
  from dispatch_appends [OF _ Cons.prems(2) step] Cons.prems(1) a have "wf_records w'"
    "\<exists>extra. db_idempotency (w_db w') = db_idempotency (w_db w) @ extra" by auto
  with Cons.IH [of w'] Cons.prems(1) show ?case by (auto simp: a step)
qed simp

lemma find_append: "find P (xs @ ys) = (case find P xs of None \<Rightarrow> find P ys | r \<Rightarrow> r)"
  by (induction xs) auto

lemma later_record:
  assumes "record_of w request key = None" "request_scope request' = request_scope request"
    "db_idempotency (w_db w') = (db_idempotency (w_db w) @ [row]) @ extra" "id_scope row = request_scope request" "id_key row = key"
  shows "record_of w' request' key = Some row"
  using assms by (simp add: record_of_def find_record_def find_append)

text \<open>
  C20. Once the first request with a key is answered with a status below 500, every later request with the
  same method, path, key and body gets that status and body again and leaves the world as it is: no
  handler runs. Nothing else of the request counts, neither its credentials nor its tenant.
\<close>

theorem replays_first_response:
  assumes "keyed request key" "keyed request' key" "request_scope request' = request_scope request"
    "rq_body request' = rq_body request" "leaves_records h" "\<forall>(h, r) \<in> set trace. leaves_records h" "wf_records w"
    "record_of w request key = None" "idempotency_dispatch world_records sha256 h request w = (Inr response, w1)"
    "rs_status response < 500" "rs_status response \<noteq> 0"
  shows "\<exists>again. idempotency_dispatch world_records sha256 h' request' (run_requests sha256 trace w1) = (Inr again, run_requests sha256 trace w1)
    \<and> rs_status again = rs_status response \<and> rs_body again = rs_body response"
proof -
  from dispatch_first(2) [OF assms(1,8,5,7,9)] obtain inner where inner: "response = mark_response key request inner"
    "db_idempotency (w_db w1) = db_idempotency (w_db w) @ [if rs_status inner < 500
       then complete_row (rs_status inner) (rs_body inner) None (new_row sha256 request key w)
       else new_row sha256 request key w]" by auto
  let ?row = "complete_row (rs_status inner) (rs_body inner) None (new_row sha256 request key w)"
  have same: "rs_status response = rs_status inner" "rs_body response = rs_body inner"
    by (simp_all add: inner(1) mark_response_def Let_def)
  obtain extra where "db_idempotency (w_db (run_requests sha256 trace w1)) = db_idempotency (w_db w1) @ extra"
    using run_requests_appends [OF assms(6)] dispatch_appends [OF assms(5,7,9)] by blast
  then have "db_idempotency (w_db (run_requests sha256 trace w1)) = (db_idempotency (w_db w) @ [?row]) @ extra"
    using inner(2) same assms(10) by simp
  from later_record [OF assms(8,3) this]
  have rec: "record_of (run_requests sha256 trace w1) request' key = Some ?row"
    by (simp add: complete_row_def new_row_def)
  have "id_request_hash ?row = request_hash_of sha256 request'"
    by (simp add: complete_row_def new_row_def request_hash_of_def assms(3,4))
  then have "stored_outcome ?row (request_hash_of sha256 request') = \<lparr>sr_outcome = ''replay'', sr_record_id = Some (id_id ?row),
      sr_status_code = Some (rs_status inner), sr_response_body = Some (rs_body inner), sr_content_type = None\<rparr>"
    by (simp add: stored_outcome_def complete_row_def)
  then show ?thesis
    using rec assms(11) by (simp add: dispatch_keyed [OF assms(2)] replayed_response_def Let_def same str_or_def)
qed

text \<open>
  When the first request with a key raises or is answered with a status of 500 or more, its record
  stays open: every later request with that key and body is refused as still in progress, for ever.
\<close>

lemma failed_request_blocks_key:
  assumes "keyed request key" "keyed request' key" "request_scope request' = request_scope request"
    "rq_body request' = rq_body request" "leaves_records h" "\<forall>(h, r) \<in> set trace. leaves_records h" "wf_records w"
    "record_of w request key = None" "idempotency_dispatch world_records sha256 h request w = (x, w1)"
    "case x of Inl e \<Rightarrow> True | Inr response \<Rightarrow> 500 \<le> rs_status response"
  shows "idempotency_dispatch world_records sha256 h' request' (run_requests sha256 trace w1)
    = (Inr (conflict_response ''request with this idempotency key is still in progress'' key), run_requests sha256 trace w1)"
proof -
  have status: "rs_status (mark_response key request r) = rs_status r" for r by (simp add: mark_response_def Let_def)
  have "db_idempotency (w_db w1) = db_idempotency (w_db w) @ [new_row sha256 request key w]"
    using dispatch_first(2) [OF assms(1,8,5,7,9)] assms(10) by (auto simp: status)
  moreover obtain extra where "db_idempotency (w_db (run_requests sha256 trace w1)) = db_idempotency (w_db w1) @ extra"
    using run_requests_appends [OF assms(6)] dispatch_appends [OF assms(5,7,9)] by blast
  ultimately have "db_idempotency (w_db (run_requests sha256 trace w1))
      = (db_idempotency (w_db w) @ [new_row sha256 request key w]) @ extra" by simp
  from later_record [OF assms(8,3) this]
  have "record_of (run_requests sha256 trace w1) request' key = Some (new_row sha256 request key w)"
    by (simp add: new_row_def)
  moreover have "id_request_hash (new_row sha256 request key w) = request_hash_of sha256 request'"
    by (simp add: new_row_def request_hash_of_def assms(3,4))
  moreover have "id_status_code (new_row sha256 request key w) = None" by (simp add: new_row_def)
  ultimately show ?thesis
    by (simp add: dispatch_keyed [OF assms(2)] stored_outcome_def start_outcome_def)
qed

section \<open>Concurrent requests\<close>

text \<open>
  Requests in any interleaving: each claims its key, a claimed request runs its handler and then
  either completes its record, or fails and leaves it. Other work of the program keeps the table.
  \<open>is_started\<close> is the history of the handlers started, as pairs of scope and key.
\<close>

record idempotency_system =
  is_db :: database
  is_running :: "int list"
  is_started :: "(string \<times> string) list"

inductive idempotency_step :: "idempotency_system \<Rightarrow> idempotency_system \<Rightarrow> bool" where
  claim_won: "idempotency_start scope key request_hash (is_db s) = (Inr start, db') \<Longrightarrow> sr_record_id start = Some i \<Longrightarrow>
     sr_outcome start = ''started'' \<Longrightarrow>
     idempotency_step s \<lparr>is_db = db', is_running = i # is_running s, is_started = (scope, key) # is_started s\<rparr>"
| claim_lost: "idempotency_start scope key request_hash (is_db s) = (Inr start, db') \<Longrightarrow> sr_outcome start \<noteq> ''started'' \<Longrightarrow>
     idempotency_step s (s\<lparr>is_db := db'\<rparr>)"
| handler_done: "i \<in> set (is_running s) \<Longrightarrow> idempotency_complete i status_code body content_type (is_db s) = (Inr u, db') \<Longrightarrow>
     idempotency_step s (s\<lparr>is_db := db', is_running := remove1 i (is_running s)\<rparr>)"
| handler_failed: "i \<in> set (is_running s) \<Longrightarrow> idempotency_step s (s\<lparr>is_running := remove1 i (is_running s)\<rparr>)"
| other_work: "db_idempotency db' = db_idempotency (is_db s) \<Longrightarrow> idempotency_step s (s\<lparr>is_db := db'\<rparr>)"

inductive_cases idempotency_stepE: "idempotency_step s s'"

inductive idempotency_reachable :: "database \<Rightarrow> idempotency_system \<Rightarrow> bool" for db where
  reachable_start: "idempotency_reachable db \<lparr>is_db = db, is_running = [], is_started = []\<rparr>"
| reachable_step: "idempotency_reachable db s \<Longrightarrow> idempotency_step s s' \<Longrightarrow> idempotency_reachable db s'"

definition claimed :: "database \<Rightarrow> (string \<times> string) set" where
  "claimed db = (\<lambda>r. (id_scope r, id_key r)) ` set (db_idempotency db)"

lemma claimed_insert [simp]: "claimed (insert_record scope key h db) = insert (scope, key) (claimed db)"
  by (simp add: claimed_def insert_record_def)

lemma claimed_complete: "claimed (snd (idempotency_complete i st body ct db)) = claimed db"
proof -
  have "map (\<lambda>r. (id_scope r, id_key r)) (db_idempotency (snd (idempotency_complete i st body ct db)))
      = map (\<lambda>r. (id_scope r, id_key r)) (db_idempotency db)"
    by (simp add: idempotency_complete_def complete_row_def)
  then show ?thesis unfolding claimed_def by (metis set_map)
qed

lemma find_record_None: "find_record db scope key = None \<longleftrightarrow> (scope, key) \<notin> claimed db"
  by (auto simp: find_record_def find_None_iff claimed_def)

lemma start_started:
  assumes "idempotency_start scope key h db = (Inr start, db')" "sr_outcome start = ''started''"
  shows "(scope, key) \<notin> claimed db \<and> claimed db' = insert (scope, key) (claimed db)"
  using assms by (auto simp: idempotency_start_def find_record_None stored_outcome_def start_outcome_def
      split: option.splits if_splits)

lemma start_lost:
  assumes "idempotency_start scope key h db = (Inr start, db')" "sr_outcome start \<noteq> ''started''"
  shows "db' = db"
  using assms by (auto simp: idempotency_start_def start_outcome_def split: option.splits)

definition started_once :: "idempotency_system \<Rightarrow> bool" where
  "started_once s = (distinct (is_started s) \<and> set (is_started s) \<subseteq> claimed (is_db s))"

lemma started_once_step:
  assumes "idempotency_step s s'" "started_once s"
  shows "started_once s'"
  using assms(1)
proof (cases rule: idempotency_step.cases)
  case (claim_won scope key h start db' i)
  then show ?thesis using assms(2) start_started [OF claim_won(2,4)] by (auto simp: started_once_def)
next
  case (claim_lost scope key h start db')
  then show ?thesis using assms(2) start_lost [OF claim_lost(2,3)] by (simp add: started_once_def)
next
  case (handler_done i st body ct u db')
  then have "claimed db' = claimed (is_db s)" using claimed_complete [of i st body ct "is_db s"] by simp
  then show ?thesis using assms(2) handler_done by (simp add: started_once_def)
next
  case handler_failed
  then show ?thesis using assms(2) by (simp add: started_once_def)
next
  case (other_work db')
  then show ?thesis using assms(2) by (simp add: started_once_def claimed_def)
qed

text \<open>
  C19. In every interleaving of requests and other work, no handler starts twice for the same method,
  path and key.
\<close>

theorem handler_starts_once:
  assumes "idempotency_reachable db s"
  shows "distinct (is_started s)"
proof -
  have "started_once s" using assms
  proof (induction rule: idempotency_reachable.induct)
    case reachable_start
    then show ?case by (simp add: started_once_def)
  next
    case (reachable_step s s')
    then show ?case by (blast intro: started_once_step)
  qed
  then show ?thesis by (simp add: started_once_def)
qed

section \<open>Concrete requests\<close>

definition post_request :: "string \<Rightarrow> http_request" where
  "post_request api_key = \<lparr>rq_method = ''POST'', rq_path = ''/relationships'',
     rq_headers = [(''idempotency-key'', ''k1''), (''x-api-key'', api_key)], rq_body = ''{}'',
     rq_client = None, rq_tenant = None, rq_id = None\<rparr>"

definition fixed_endpoint :: "int \<Rightarrow> endpoint" where
  "fixed_endpoint status request = ret \<lparr>rs_status = status, rs_headers = [], rs_body = ''done'', rs_media_type = None\<rparr>"

lemma fixed_leaves_records: "leaves_records (fixed_endpoint status)"
  by (simp add: leaves_records_def fixed_endpoint_def)

lemma post_request_keyed: "keyed (post_request a) ''k1''"
proof -
  have "upper_ascii ''POST'' = ''POST''" "lower ''Idempotency-Key'' = ''idempotency-key''" by code_simp+
  then show ?thesis by (simp add: keyed_def post_request_def target_paths_def header_def)
qed

lemma empty_world_records: "wf_records empty_world" "record_of empty_world r k = None" "db_idempotency (w_db empty_world) = []"
  by (simp_all add: wf_records_def record_of_def find_record_def empty_world_def empty_database_def)

lemma first_post:
  "\<exists>w1. idempotency_dispatch world_records sha256 (fixed_endpoint status) (post_request a) empty_world =
     (Inr (mark_response ''k1'' (post_request a) \<lparr>rs_status = status, rs_headers = [], rs_body = ''done'', rs_media_type = None\<rparr>), w1)"
proof -
  have "idempotency_dispatch world_records sha256 (fixed_endpoint status) (post_request a) empty_world =
    bnd (fixed_endpoint status (post_request a)) (\<lambda>response.
      bnd (complete_if_final world_records ((start_outcome ''started'')\<lparr>sr_record_id := Some (db_next_id (w_db empty_world))\<rparr>) response)
        (\<lambda>_. ret (mark_response ''k1'' (post_request a) response)))
      (empty_world\<lparr>w_db := insert_record (request_scope (post_request a)) ''k1''
         (request_hash_of sha256 (post_request a)) (w_db empty_world)\<rparr>)"
    by (simp add: dispatch_keyed [OF post_request_keyed] empty_world_records)
  then show ?thesis
    by (simp add: fixed_endpoint_def complete_if_final_def on_db_def idempotency_complete_def)
qed

lemma post_request_scope: "request_scope (post_request a) = request_scope (post_request b)"
  "rq_body (post_request a) = rq_body (post_request b)"
  by (simp_all add: request_scope_def post_request_def)

theorem replays_first_response_witness:
  "\<exists>w again. idempotency_dispatch world_records (\<lambda>x. x) (fixed_endpoint 500) (post_request ''stranger'') w = (Inr again, w)
    \<and> rs_status again = 201 \<and> rs_body again = ''done''"
proof -
  obtain w1 where first: "idempotency_dispatch world_records (\<lambda>x. x) (fixed_endpoint 201) (post_request ''owner'') empty_world =
     (Inr (mark_response ''k1'' (post_request ''owner'')
        \<lparr>rs_status = 201, rs_headers = [], rs_body = ''done'', rs_media_type = None\<rparr>), w1)"
    using first_post by blast
  from replays_first_response [OF post_request_keyed post_request_keyed post_request_scope fixed_leaves_records _
      empty_world_records(1,2) first, of "[]" "fixed_endpoint 500" "''stranger''"]
  show ?thesis by (auto simp: mark_response_def Let_def)
qed

lemma failed_request_blocks_key_example:
  "\<exists>w. fst (idempotency_dispatch world_records (\<lambda>x. x) (fixed_endpoint 201) (post_request ''owner'') w)
    = Inr (conflict_response ''request with this idempotency key is still in progress'' ''k1'')"
proof -
  obtain w1 where first: "idempotency_dispatch world_records (\<lambda>x. x) (fixed_endpoint 503) (post_request ''owner'') empty_world =
     (Inr (mark_response ''k1'' (post_request ''owner'')
        \<lparr>rs_status = 503, rs_headers = [], rs_body = ''done'', rs_media_type = None\<rparr>), w1)"
    using first_post by blast
  from failed_request_blocks_key [OF post_request_keyed post_request_keyed post_request_scope fixed_leaves_records _
      empty_world_records(1,2) first, of "[]" "fixed_endpoint 201" "''owner''"]
  have "idempotency_dispatch world_records (\<lambda>x. x) (fixed_endpoint 201) (post_request ''owner'') w1
      = (Inr (conflict_response ''request with this idempotency key is still in progress'' ''k1''), w1)"
    by (simp add: mark_response_def Let_def)
  then show ?thesis by (intro exI [of _ w1]) simp
qed

theorem handler_starts_once_witness:
  "\<exists>s :: idempotency_system. is_started s = [(''POST:/policies'', ''k'')] \<and> is_running s = [1] \<and> distinct (is_started s)"
proof -
  let ?s0 = "\<lparr>is_db = empty_database, is_running = [], is_started = []\<rparr>"
  let ?db = "insert_record ''POST:/policies'' ''k'' ''h'' empty_database"
  let ?s1 = "\<lparr>is_db = ?db, is_running = 1 # is_running ?s0, is_started = (''POST:/policies'', ''k'') # is_started ?s0\<rparr>"
  have "idempotency_start ''POST:/policies'' ''k'' ''h'' (is_db ?s0)
      = (Inr ((start_outcome ''started'')\<lparr>sr_record_id := Some 1\<rparr>), ?db)"
    by (simp add: idempotency_start_def find_record_def empty_database_def)
  then have "idempotency_step ?s0 ?s1" by (rule claim_won) (simp_all add: start_outcome_def)
  then have "idempotency_reachable empty_database ?s1" using reachable_start reachable_step by blast
  then have "distinct (is_started ?s1)" by (rule handler_starts_once)
  then show ?thesis by (intro exI [of _ ?s1] conjI) simp_all
qed

end
