(* ===== verification/Pagination.thy ===== *)
theory Pagination
  imports Caches Http
begin

text \<open>
  Opaque cursors: \<open>domain/pagination.py\<close> and \<open>api/pagination.py\<close>. The URL-safe Base64 of the Python
  library is written out, with its lenient decoder; \<open>loads\<close> stands for the JSON parser on the bytes.
\<close>

section \<open>Base64\<close>

definition byte :: "char \<Rightarrow> nat" where
  "byte c = of_char c"

definition sextet_char :: "nat \<Rightarrow> char" where
  "sextet_char n = char_of (if n < 26 then 65 + n else if n < 52 then 71 + n else if n < 62 then n - 4
     else if n = 62 then 45 else 95)"

text \<open>The decoder first turns \<open>-_\<close> into \<open>+/\<close>, so both spellings count; \<open>None\<close> is any other character.\<close>

definition char_sextet :: "char \<Rightarrow> nat option" where
  "char_sextet c = (let n = byte c in
     if 65 \<le> n \<and> n \<le> 90 then Some (n - 65) else if 97 \<le> n \<and> n \<le> 122 then Some (n - 71)
     else if 48 \<le> n \<and> n \<le> 57 then Some (n + 4) else if n = 43 \<or> n = 45 then Some 62
     else if n = 47 \<or> n = 95 then Some 63 else None)"

definition b64_pad :: char where
  "b64_pad = CHR ''=''"

fun b64_encode :: "string \<Rightarrow> string" where
  "b64_encode [] = []"
| "b64_encode [a] = [sextet_char (byte a div 4), sextet_char (byte a mod 4 * 16), b64_pad, b64_pad]"
| "b64_encode [a, b] = [sextet_char (byte a div 4), sextet_char (byte a mod 4 * 16 + byte b div 16),
     sextet_char (byte b mod 16 * 4), b64_pad]"
| "b64_encode (a # b # c # s) = sextet_char (byte a div 4) # sextet_char (byte a mod 4 * 16 + byte b div 16)
     # sextet_char (byte b mod 16 * 4 + byte c div 64) # sextet_char (byte c mod 64) # b64_encode s"

text \<open>
  The loop of \<open>binascii.a2b_base64\<close>: the position in the group of four, the bits left over and the
  padding seen. Other characters are skipped, complete padding ends the data.
\<close>

fun b64_loop :: "nat \<Rightarrow> nat \<Rightarrow> nat \<Rightarrow> string \<Rightarrow> string result" where
  "b64_loop quad_pos left pads [] = (if quad_pos = 0 then Inr [] else Inl (ValueError ''Incorrect padding''))"
| "b64_loop quad_pos left pads (c # cs) =
     (if c = b64_pad then
        (if 2 \<le> quad_pos \<and> 4 \<le> quad_pos + pads + 1 then Inr []
         else b64_loop quad_pos left (if 2 \<le> quad_pos then pads + 1 else pads) cs)
      else case char_sextet c of
          None \<Rightarrow> b64_loop quad_pos left pads cs
        | Some v \<Rightarrow>
            if quad_pos = 0 then b64_loop 1 v 0 cs
            else if quad_pos = 1 then ebind (b64_loop 2 (v mod 16) 0 cs) (\<lambda>s. Inr (char_of (left * 4 + v div 16) # s))
            else if quad_pos = 2 then ebind (b64_loop 3 (v mod 4) 0 cs) (\<lambda>s. Inr (char_of (left * 16 + v div 4) # s))
            else ebind (b64_loop 0 0 0 cs) (\<lambda>s. Inr (char_of (left * 64 + v) # s)))"

text \<open>\<open>cursor.encode("ascii")\<close> raises on other characters.\<close>

definition b64_decode :: "string \<Rightarrow> string result" where
  "b64_decode t = (if list_all (\<lambda>c. code c < 128) t then b64_loop 0 0 0 t
     else Inl (ValueError ''ordinal not in range(128)''))"

section \<open>Cursors\<close>

text \<open>\<open>json.dumps\<close> writes characters outside ASCII, which occur in texts only, as \<open>\u00xx\<close>.\<close>

definition ascii_char :: "char \<Rightarrow> string" where
  "ascii_char c = (let n = code c in if n < 127 then [c]
     else char_of (92 :: nat) # ''u00'' @ [hex_digit (n div 16), hex_digit (n mod 16)])"

definition ascii_json :: "pyval \<Rightarrow> string" where
  "ascii_json v = concat (map ascii_char (json_text v))"

definition encode_cursor :: "pydict \<Rightarrow> string" where
  "encode_cursor payload = b64_encode (ascii_json (stable_doc (PDict payload)))"

definition decode_cursor_payload :: "(string \<Rightarrow> pyval result) \<Rightarrow> string option \<Rightarrow> pydict option result" where
  "decode_cursor_payload loads cursor = (case cursor of
     None \<Rightarrow> Inr None
   | Some t \<Rightarrow> if t = [] then Inr None
       else ebind (b64_decode t) (\<lambda>raw. ebind (loads raw) (\<lambda>decoded. case decoded of
         PDict d \<Rightarrow> Inr (Some d) | _ \<Rightarrow> Inl (ValueError ''invalid cursor payload''))))"

definition decode_cursor :: "(string \<Rightarrow> pyval result) \<Rightarrow> string option \<Rightarrow> pydict option result" where
  "decode_cursor loads cursor = (case cursor of
     None \<Rightarrow> Inr None
   | Some t \<Rightarrow> if t = [] then Inr None
       else (case decode_cursor_payload loads cursor of
           Inr decoded \<Rightarrow> Inr decoded
         | Inl _ \<Rightarrow> Inl (ApiError 422 VALIDATION_ERROR ''invalid cursor'' [(''cursor'', t)])))"

section \<open>A cursor reads back\<close>

lemma byte_char_of [simp]: "n < 256 \<Longrightarrow> byte (char_of n) = n"
  by (simp add: byte_def)

lemma char_of_byte [simp]: "char_of (byte c) = c"
  by (simp add: byte_def)

lemma byte_less [simp]: "byte c < 256"
  by (simp add: byte_def)

lemma code_byte: "code c = int (byte c)"
  by (simp add: code_def byte_def of_nat_of_char)

lemma byte_sextet_char: "n < 64 \<Longrightarrow> byte (sextet_char n) =
  (if n < 26 then 65 + n else if n < 52 then 71 + n else if n < 62 then n - 4 else if n = 62 then 45 else 95)"
  by (simp add: sextet_char_def)

lemma char_sextet_char [simp]:
  assumes "n < 64"
  shows "char_sextet (sextet_char n) = Some n"
  unfolding char_sextet_def Let_def byte_sextet_char [OF assms] using assms by auto

lemma sextet_char_ascii [simp]: "n < 64 \<Longrightarrow> code (sextet_char n) < 128"
  by (auto simp: byte_sextet_char code_byte)

lemma sextet_char_not_pad [simp]: "n < 64 \<Longrightarrow> sextet_char n \<noteq> b64_pad"
proof
  assume n: "n < 64" "sextet_char n = b64_pad"
  then have "byte (sextet_char n) = 61" by (simp add: b64_pad_def byte_def)
  then show False using byte_sextet_char [OF n(1)] n(1) by (auto split: if_splits)
qed

lemma byte_parts:
  "byte c div 4 < 64" "byte c div 16 < 16" "byte c div 64 < 4" "byte c mod 4 < 4" "byte c mod 16 < 16" "byte c mod 64 < 64"
  using byte_less [of c] by (simp_all add: less_mult_imp_div_less del: byte_less)

lemma sextets [simp]:
  "byte a div 4 < 64" "byte a mod 4 * 16 < 64" "byte a mod 4 * 16 + byte b div 16 < 64"
  "byte b mod 16 * 4 < 64" "byte b mod 16 * 4 + byte c div 64 < 64" "byte c mod 64 < 64"
  using byte_parts [of a] byte_parts [of b] byte_parts [of c] by linarith+

lemma octets [simp]:
  "byte b div 16 div 16 = 0" "byte b div 16 mod 16 * 16 + byte b mod 16 = byte b"
  "byte b div 16 mod 16 * 16 + (byte b mod 16 + byte c div 64 div 4) = byte b"
  "byte c div 64 mod 4 * 64 + byte c mod 64 = byte c"
  using byte_parts [of b] byte_parts [of c] by simp_all

lemma b64_loop_encode: "b64_loop 0 0 0 (b64_encode s) = Inr s"
  by (induction s rule: b64_encode.induct) (simp_all add: b64_loop.simps)

lemma b64_pad_ascii [simp]: "code b64_pad < 128"
  by (simp add: b64_pad_def code_def)

lemma b64_encode_ascii: "list_all (\<lambda>c. code c < 128) (b64_encode s)"
  by (induction s rule: b64_encode.induct) simp_all

lemma b64_roundtrip [simp]: "b64_decode (b64_encode s) = Inr s"
  by (simp add: b64_decode_def b64_encode_ascii b64_loop_encode)

lemma encode_cursor_nonempty: "encode_cursor payload \<noteq> []"
proof -
  have "b64_encode s \<noteq> []" if "s \<noteq> []" for s using that by (cases s rule: b64_encode.cases) simp_all
  then show ?thesis by (simp add: encode_cursor_def ascii_json_def ascii_char_def Let_def)
qed

lemma decode_encode_cursor:
  assumes "loads (ascii_json (stable_doc (PDict payload))) = Inr (stable_doc (PDict payload))"
  shows "decode_cursor loads (Some (encode_cursor payload)) = Inr (Some (sort_key fst (stable_items payload)))"
proof -
  have "b64_decode (encode_cursor payload) = Inr (ascii_json (stable_doc (PDict payload)))"
    unfolding encode_cursor_def by (rule b64_roundtrip)
  with assms show ?thesis
    by (simp add: decode_cursor_def decode_cursor_payload_def encode_cursor_nonempty)
qed

text \<open>
  A cursor handed out reads back as the same document, up to the order of its keys, whatever its
  content: only the JSON parser is trusted to read the text the printer wrote.
\<close>

lemma cursor_roundtrip:
  assumes "loads (ascii_json (stable_doc (PDict payload))) = Inr (stable_doc (PDict payload))"
  shows "decode_cursor loads (Some (encode_cursor payload)) = Inr (Some (sort_key fst (stable_items payload)))"
  by (rule decode_encode_cursor [where loads = loads and payload = payload, OF assms])

definition demo_cursor :: pydict where
  "demo_cursor = [(''priority'', PInt 10), (''id'', PInt 7)]"

lemma cursor_roundtrip_example:
  "encode_cursor demo_cursor = ''eyJpZCI6NywicHJpb3JpdHkiOjEwfQ=='' \<and> (\<exists>loads.
     decode_cursor loads (Some (encode_cursor demo_cursor)) = Inr (Some [(''id'', PInt 7), (''priority'', PInt 10)]))"
proof -
  define loads where "loads = (\<lambda>t. if t = ascii_json (stable_doc (PDict demo_cursor)) then Inr (stable_doc (PDict demo_cursor))
    else Inl (ValueError ''not the cursor''))"
  have l: "loads (ascii_json (stable_doc (PDict demo_cursor))) = Inr (stable_doc (PDict demo_cursor))"
    by (simp add: loads_def)
  have items: "sort_key fst (stable_items demo_cursor) = [(''id'', PInt 7), (''priority'', PInt 10)]" by code_simp
  have "encode_cursor demo_cursor = ''eyJpZCI6NywicHJpb3JpdHkiOjEwfQ==''" by code_simp
  moreover have "decode_cursor loads (Some (encode_cursor demo_cursor)) = Inr (Some [(''id'', PInt 7), (''priority'', PInt 10)])"
    using cursor_roundtrip [where loads = loads and payload = demo_cursor, OF l] unfolding items .
  ultimately show ?thesis by blast
qed

end
