(* ===== verification/Middleware.thy ===== *)
theory Middleware
  imports AdminAccess RateLimit Idempotency Pagination
begin

text \<open>
  What surrounds every handler: the middleware classes of \<open>api/middleware/\<close>, the error handlers and
  the stack \<open>create_app\<close> of \<open>api/main.py\<close> builds from them. The CORS
  layer belongs to Starlette and is left out here; the log these layers write is in \<open>Logging\<close>. \<open>new_id\<close> is the token drawn for a request without id,
  \<open>describe\<close> the \<open>repr\<close> of an exception.
\<close>

type_synonym 'w app = "http_request \<Rightarrow> ('w, http_response) eff"

section \<open>Request id, tenant and version\<close>

definition request_id_of :: "string \<Rightarrow> http_request \<Rightarrow> string" where
  "request_id_of new_id request = (case header request ''X-Request-Id'' of
     Some i \<Rightarrow> if i = [] then new_id else i | None \<Rightarrow> new_id)"

definition request_id_dispatch :: "string \<Rightarrow> 'w app \<Rightarrow> 'w app" where
  "request_id_dispatch new_id call_next request =
     (let request_id = request_id_of new_id request in
      bnd (call_next (request\<lparr>rq_id := Some request_id\<rparr>)) (\<lambda>response.
        ret (set_header ''X-Request-Id'' request_id response)))"

definition invalid_tenant_response :: http_response where
  "invalid_tenant_response = json_response 422 (error_body ''validation_error'' ''invalid tenant header''
     (PDict [(''header'', PStr ''X-Tenant-Id'')]))"

definition tenant_dispatch :: "'w app \<Rightarrow> 'w app" where
  "tenant_dispatch call_next request = (case header request ''X-Tenant-Id'' of
     None \<Rightarrow> call_next (request\<lparr>rq_tenant := None\<rparr>)
   | Some requested \<Rightarrow> (case normalize_tenant_key (Some requested) of
       None \<Rightarrow> ret invalid_tenant_response
     | Some tenant_key \<Rightarrow> call_next (request\<lparr>rq_tenant := Some tenant_key\<rparr>)))"

definition latest_version :: string where
  "latest_version = ''v1''"

definition supported_versions :: "string list" where
  "supported_versions = [''v1'']"

definition requested_version :: "http_request \<Rightarrow> string" where
  "requested_version request =
     (let v = strip (case header request ''X-API-Version'' of Some t \<Rightarrow> t | None \<Rightarrow> latest_version) in
      if v = [] then latest_version else v)"

definition unsupported_version_response :: "string \<Rightarrow> http_response" where
  "unsupported_version_response v = json_response 400 (error_body ''bad_request'' ''unsupported api version''
     (PDict [(''requested_version'', PStr v), (''supported_versions'', PList (map PStr (sorted_set supported_versions)))]))"

definition with_header_tenant :: "http_request \<Rightarrow> http_request" where
  "with_header_tenant request = (if rq_tenant request = None
     then (case normalize_tenant_key (header request ''X-Tenant-Id'') of
         Some tenant_key \<Rightarrow> request\<lparr>rq_tenant := Some tenant_key\<rparr> | None \<Rightarrow> request)
     else request)"

definition version_dispatch :: "'w app \<Rightarrow> 'w app" where
  "version_dispatch call_next request = (let v = requested_version request in
     if v \<notin> set supported_versions then ret (unsupported_version_response v)
     else bnd (call_next (with_header_tenant request)) (\<lambda>response. ret (set_header ''X-API-Version'' v response)))"

section \<open>Errors\<close>

definition error_details :: "(string \<times> string) list \<Rightarrow> pyval" where
  "error_details details = (if details = [] then PNone else PDict (map (\<lambda>(k, v). (k, PStr v)) details))"

definition http_error_code :: "nat \<Rightarrow> api_error_code" where
  "http_error_code status = (if status = 400 then BAD_REQUEST else if status = 401 then UNAUTHORIZED
     else if status = 403 then FORBIDDEN else if status = 404 then NOT_FOUND else if status = 409 then CONFLICT
     else if status = 429 then TOO_MANY_REQUESTS else BAD_REQUEST)"

text \<open>The handlers next to the routes: the exceptions of the program and of the framework.\<close>

definition handled_response :: "exn \<Rightarrow> http_response option" where
  "handled_response e = (case e of
     ApiError status c message details \<Rightarrow>
       Some (json_response (int status) (error_body (error_code_text c) message (error_details details)))
   | HTTPException status detail \<Rightarrow>
       Some (json_response (int status) (error_body (error_code_text (http_error_code status)) detail PNone))
   | _ \<Rightarrow> None)"

definition handle_api_errors :: "'w app \<Rightarrow> 'w app" where
  "handle_api_errors call_next request =
     catch (call_next request) (\<lambda>e. handled_response e \<noteq> None) (\<lambda>e. ret (the (handled_response e)))"

text \<open>The handler for every other exception sits outside all middleware; Starlette raises it again for the server's log.\<close>

definition internal_error_response :: "settings \<Rightarrow> (exn \<Rightarrow> string) \<Rightarrow> exn \<Rightarrow> http_response" where
  "internal_error_response s describe e = json_response 500
     (error_body ''internal_error'' ''internal server error'' (if se_debug s then PStr (describe e) else PNone))"

definition server_errors :: "settings \<Rightarrow> (exn \<Rightarrow> string) \<Rightarrow> 'w app \<Rightarrow> 'w app" where
  "server_errors s describe call_next request =
     catch_all (call_next request) (\<lambda>e. ret (internal_error_response s describe e))"

section \<open>The stack\<close>

text \<open>\<open>add_middleware\<close> puts the class added last outside: idempotency runs first, the request id last.\<close>

definition inner_stack :: "string \<Rightarrow> 'w app \<Rightarrow> 'w app" where
  "inner_stack new_id routes =
     version_dispatch (tenant_dispatch (request_id_dispatch new_id (handle_api_errors routes)))"

definition application :: "settings \<Rightarrow> (exn \<Rightarrow> string) \<Rightarrow> 'w limited idempotency_repository \<Rightarrow> (string \<Rightarrow> string)
    \<Rightarrow> 'w redis_script option \<Rightarrow> rat \<Rightarrow> string \<Rightarrow> 'w app \<Rightarrow> 'w limited app" where
  "application s describe repository sha256 redis now new_id routes =
     server_errors s describe (idempotency_dispatch repository sha256
       (rate_limit_dispatch s sha256 redis now (inner_stack new_id routes)))"

section \<open>Who answers a request\<close>

lemma header_simps [simp]:
  "header (request\<lparr>rq_id := i\<rparr>) name = header request name" "header (request\<lparr>rq_tenant := t\<rparr>) name = header request name"
  "header (with_header_tenant request) name = header request name"
  by (simp_all add: header_def with_header_tenant_def split: option.split)

lemma request_id_of_simps [simp]:
  "request_id_of new_id (request\<lparr>rq_tenant := t\<rparr>) = request_id_of new_id request"
  "request_id_of new_id (with_header_tenant request) = request_id_of new_id request"
  by (simp_all add: request_id_of_def)

lemma set_header_other [simp]:
  "lower n \<noteq> lower m \<Longrightarrow> response_header (set_header n v r) m = response_header r m"
  by (simp add: set_header_def response_header_def)

lemma header_names [simp]:
  "lower ''X-API-Version'' = ''x-api-version''" "lower ''X-Request-Id'' = ''x-request-id''"
  "lower ''X-Idempotency-Key'' = ''x-idempotency-key''" "lower ''X-RateLimit-Limit'' = ''x-ratelimit-limit''"
  "lower ''X-RateLimit-Remaining'' = ''x-ratelimit-remaining''" "lower ''X-RateLimit-Reset'' = ''x-ratelimit-reset''"
  "lower ''Retry-After'' = ''retry-after''"
  by code_simp+

lemma json_response_no_id [simp]: "response_header (json_response status content) ''X-Request-Id'' = None"
  by (simp add: response_header_def json_response_def)

lemma request_id_answers:
  assumes "request_id_dispatch new_id call_next request w = (Inr response, w')"
  shows "response_header response ''X-Request-Id'' = Some (request_id_of new_id request)"
  using assms by (auto simp: request_id_dispatch_def Let_def bnd_Inr_iff)

text \<open>The request as the routes see it.\<close>

definition routed :: "string \<Rightarrow> http_request \<Rightarrow> http_request" where
  "routed new_id request = request\<lparr>rq_id := Some (request_id_of new_id request),
     rq_tenant := normalize_tenant_key (header request ''X-Tenant-Id'')\<rparr>"

definition bad_version :: "http_request \<Rightarrow> bool" where
  "bad_version request = (requested_version request \<notin> set supported_versions)"

definition bad_tenant :: "http_request \<Rightarrow> bool" where
  "bad_tenant request = (header request ''X-Tenant-Id'' \<noteq> None \<and> normalize_tenant_key (header request ''X-Tenant-Id'') = None)"

lemma normalize_none [simp]: "normalize_tenant_key None = None"
  by (simp add: normalize_tenant_key_def)

lemma routed_with_tenant:
  "(with_header_tenant request)\<lparr>rq_tenant := t, rq_id := i\<rparr> = request\<lparr>rq_id := i, rq_tenant := t\<rparr>"
  by (cases request) (simp add: with_header_tenant_def split: option.split)

lemma ret_eta: "ret x = Pair (Inr x)"
  by (simp add: fun_eq_iff)

lemma inner_stack_eq:
  "inner_stack new_id routes request =
     (if bad_version request then ret (unsupported_version_response (requested_version request))
      else if bad_tenant request then ret (set_header ''X-API-Version'' (requested_version request) invalid_tenant_response)
      else bnd (handle_api_errors routes (routed new_id request)) (\<lambda>response.
        ret (set_header ''X-API-Version'' (requested_version request)
          (set_header ''X-Request-Id'' (request_id_of new_id request) response))))"
proof -
  have "tenant_dispatch app (with_header_tenant request) = (if bad_tenant request then ret invalid_tenant_response
      else app ((with_header_tenant request)\<lparr>rq_tenant := normalize_tenant_key (header request ''X-Tenant-Id'')\<rparr>))"
    for app :: "'a app"
    by (simp add: tenant_dispatch_def bad_tenant_def split: option.split)
  then show ?thesis
    by (simp add: inner_stack_def version_dispatch_def Let_def bad_version_def request_id_dispatch_def routed_def
        routed_with_tenant bnd_assoc bnd_ret) (simp add: ret_eta)
qed

text \<open>
  Who answers a request: behind the limiter a request with an unsupported version or a malformed
  tenant is refused without running a route, and that answer carries no request id; every other answer
  carries the id of the request, the one the caller sent or a new one, and the version.
\<close>

lemma inner_stack_answers:
  assumes "inner_stack new_id routes request w = (Inr response, w')"
  shows "(if bad_version request \<or> bad_tenant request
      then response_header response ''X-Request-Id'' = None \<and> w' = w \<and> rs_status response = (if bad_version request then 400 else 422)
      else response_header response ''X-Request-Id'' = Some (request_id_of new_id request)
        \<and> response_header response ''X-API-Version'' = Some (requested_version request)
        \<and> (\<exists>inner. handle_api_errors routes (routed new_id request) w = (Inr inner, w')
             \<and> rs_status response = rs_status inner \<and> rs_body response = rs_body inner))"
  using assms
  by (auto simp: inner_stack_eq unsupported_version_response_def invalid_tenant_response_def bnd_Inr_iff split: if_splits)

text \<open>Every exception becomes an answer, and one of an unexpected kind tells nothing but in debug mode.\<close>

lemma application_always_answers:
  "\<exists>response w'. application s describe repository sha256 redis now new_id routes request w = (Inr response, w')
    \<and> (case idempotency_dispatch repository sha256 (rate_limit_dispatch s sha256 redis now (inner_stack new_id routes)) request w of
         (Inr r, w1) \<Rightarrow> response = r \<and> w' = w1
       | (Inl e, w1) \<Rightarrow> w' = w1 \<and> rs_status response = 500
           \<and> (\<not> se_debug s \<longrightarrow> response = json_response 500 (error_body ''internal_error'' ''internal server error'' PNone)))"
  by (auto simp: application_def server_errors_def catch_def internal_error_response_def split: prod.split sum.split)

definition plain_request :: "string option \<Rightarrow> http_request" where
  "plain_request tenant = \<lparr>rq_method = ''GET'', rq_path = ''/policies'',
     rq_headers = (case tenant of Some t \<Rightarrow> [(''x-tenant-id'', t)] | None \<Rightarrow> []) @ [(''x-request-id'', ''r1'')],
     rq_body = [], rq_client = None, rq_tenant = None, rq_id = None\<rparr>"

lemma plain_request_simps [simp]:
  "requested_version (plain_request None) = ''v1''" "\<not> bad_version (plain_request None)"
  "\<not> bad_tenant (plain_request None)"
  "request_id_of new_id (plain_request None) = ''r1''"
proof -
  have headers: "lower ''X-API-Version'' = ''x-api-version''" "lower ''X-Tenant-Id'' = ''x-tenant-id''"
    "lower ''X-Request-Id'' = ''x-request-id''" "strip ''v1'' = ''v1''"
    by code_simp+
  then have none: "header (plain_request None) ''X-API-Version'' = None" "header (plain_request None) ''X-Tenant-Id'' = None"
    and id: "header (plain_request None) ''X-Request-Id'' = Some ''r1''"
    by (simp_all add: header_def plain_request_def)
  then show "requested_version (plain_request None) = ''v1''" "\<not> bad_tenant (plain_request None)"
    "request_id_of new_id (plain_request None) = ''r1''"
    by (simp_all add: requested_version_def latest_version_def headers bad_tenant_def request_id_of_def)
  then show "\<not> bad_version (plain_request None)"
    by (simp add: bad_version_def supported_versions_def)
qed

lemma inner_stack_answers_example:
  "\<exists>response. inner_stack ''n1'' (\<lambda>_. ret \<lparr>rs_status = 200, rs_headers = [], rs_body = ''ok'', rs_media_type = None\<rparr>)
      (plain_request None) () = (Inr response, ())
    \<and> response_header response ''X-Request-Id'' = Some ''r1'' \<and> rs_body response = ''ok''"
proof -
  let ?routes = "\<lambda>_::http_request. ret \<lparr>rs_status = 200, rs_headers = [], rs_body = ''ok'', rs_media_type = None\<rparr> :: (unit, http_response) eff"
  obtain response where answer: "inner_stack ''n1'' ?routes (plain_request None) () = (Inr response, ())"
    by (simp add: inner_stack_eq handle_api_errors_def catch_def bnd_def ret_def)
  from inner_stack_answers [OF answer] show ?thesis
    using answer by (auto simp: handle_api_errors_def catch_def ret_def)
qed

end
