(* ===== verification/PolicyTools.thy ===== *)
theory PolicyTools
  imports Deployment PolicyFiles
begin

text \<open>
  Tools around the engine: policy tests (\<open>services/policy_testing.py\<close>), warnings
  (\<open>services/policy_lint.py\<close>), the simulation of a policy change (\<open>services/policy_simulator.py\<close>), its
  impact on the users (\<open>services/impact_analysis.py\<close>) and the requests of \<open>api/routes/simulation.py\<close>.
  \<open>load\<close> and \<open>dump\<close> stand for the YAML parser and printer.
\<close>

section \<open>Policy tests\<close>

record policy_test_case =
  tc_name :: string
  tc_input :: authorization_input
  tc_expect :: string

record policy_test_suite =
  su_policies :: "pydict list"
  su_tests :: "policy_test_case list"

record policy_test_result =
  tr_name :: string
  tr_passed :: bool
  tr_expected :: string
  tr_actual :: string
  tr_reason :: "string option"
  tr_policy_id :: "string option"
  tr_explain_trace :: "pydict list"

definition numbered :: "string \<Rightarrow> int \<Rightarrow> string \<Rightarrow> exn" where
  "numbered what index problem = ValueError (what @ '' #'' @ int_str index @ '' '' @ problem)"

definition fallback_policy_id :: "int \<Rightarrow> pyval" where
  "fallback_policy_id index = PStr (''policy-'' @ int_str index)"

definition parse_dsl_entry :: "(string \<Rightarrow> pyval result) \<Rightarrow> (pyval \<Rightarrow> string) \<Rightarrow> pydict \<Rightarrow> int \<Rightarrow> pydict result" where
  "parse_dsl_entry load dump entry index = ebind (dsl_to_policy load (dump (PDict entry))) (\<lambda>parsed.
     ebind (dict_of (por (pget parsed ''conditions'') (PDict []))) (\<lambda>conditions.
       let policy_key = pget conditions ''policy_key'' in
       Inr (dset (dset parsed ''policy_id'' (if is_str policy_key then PStr (py_str policy_key) else fallback_policy_id index))
              ''conditions'' (PDict (dpop conditions ''policy_key'')))))"

definition parse_plain_entry :: "pydict \<Rightarrow> int \<Rightarrow> pydict result" where
  "parse_plain_entry entry index =
     (let action = pget entry ''action''; effect = pget entry ''effect''; policy_id = pget entry ''policy_id'' in
      if \<not> is_str action \<or> action = PStr [] then Inl (numbered ''policy'' index ''is missing action'')
      else if \<not> hashable effect then Inl (TypeError (''unhashable type: '' @ quoted (type_name effect)))
      else if \<not> (effect = PStr ''allow'' \<or> effect = PStr ''deny'')
        then Inl (numbered ''policy'' index ''effect must be allow or deny'')
      else ebind (py_int (dget_or entry ''priority'' (PInt 100))) (\<lambda>priority.
        case por (pget entry ''conditions'') (PDict []) of
          PDict conditions \<Rightarrow>
            if policy_id \<noteq> PNone \<and> \<not> is_str policy_id then Inl (numbered ''policy'' index ''policy_id must be a string'')
            else Inr [(''action'', action), (''effect'', effect), (''priority'', PInt priority),
                   (''conditions'', PDict conditions), (''policy_id'', por policy_id (fallback_policy_id index))]
        | _ \<Rightarrow> Inl (numbered ''policy'' index ''conditions must be an object'')))"

definition parse_policy_entry :: "(string \<Rightarrow> pyval result) \<Rightarrow> (pyval \<Rightarrow> string) \<Rightarrow> pyval \<Rightarrow> int \<Rightarrow> pydict result" where
  "parse_policy_entry load dump v index = (case v of
     PDict entry \<Rightarrow> if dget entry ''allow'' \<noteq> None \<or> dget entry ''deny'' \<noteq> None
       then parse_dsl_entry load dump entry index else parse_plain_entry entry index
   | _ \<Rightarrow> Inl (numbered ''policy'' index ''must be an object''))"

definition named :: "string \<Rightarrow> string \<Rightarrow> exn" where
  "named name problem = ValueError (''test '' @ quoted name @ '' '' @ problem)"

text \<open>\<open>d = raw.get(k) or {}\<close>, refused when it is not a dictionary\<close>

definition test_document :: "string \<Rightarrow> pydict \<Rightarrow> string \<Rightarrow> pydict result" where
  "test_document name raw k = (case por (pget raw k) (PDict []) of
     PDict d \<Rightarrow> Inr d | _ \<Rightarrow> Inl (named name (k @ '' must be an object'')))"

definition parse_test_case :: "pyval \<Rightarrow> int \<Rightarrow> policy_test_case result" where
  "parse_test_case v index = (case v of
     PDict entry \<Rightarrow>
       (case pget entry ''name'' of
          PStr name \<Rightarrow>
            if name = [] then Inl (numbered ''test'' index ''is missing name'')
            else if \<not> hashable (pget entry ''expect'')
              then Inl (TypeError (''unhashable type: '' @ quoted (type_name (pget entry ''expect''))))
            else if \<not> (pget entry ''expect'' = PStr ''allow'' \<or> pget entry ''expect'' = PStr ''deny'')
              then Inl (named name ''expect must be allow or deny'')
            else (case pget entry ''input'' of
                PDict raw \<Rightarrow>
                  ebind (test_document name raw ''user'') (\<lambda>user.
                  ebind (test_document name raw ''resource'') (\<lambda>resource.
                  ebind (test_document name raw ''context'') (\<lambda>context.
                    case pget raw ''action'' of
                      PStr action \<Rightarrow> if action = [] then Inl (named name ''is missing action'')
                        else Inr \<lparr>tc_name = name, tc_input = plain_input user resource action context,
                               tc_expect = py_str (pget entry ''expect'')\<rparr>
                    | _ \<Rightarrow> Inl (named name ''is missing action''))))
              | _ \<Rightarrow> Inl (named name ''input must be an object''))
        | _ \<Rightarrow> Inl (numbered ''test'' index ''is missing name''))
   | _ \<Rightarrow> Inl (numbered ''test'' index ''must be an object''))"

definition nonempty_list :: "string \<Rightarrow> pyval \<Rightarrow> pyval list result" where
  "nonempty_list name v = (case v of
     PList xs \<Rightarrow> if xs = [] then Inl (ValueError (name @ '' must be a non-empty list'')) else Inr xs
   | _ \<Rightarrow> Inl (ValueError (name @ '' must be a non-empty list'')))"

definition parse_policy_test_suite :: "(string \<Rightarrow> pyval result) \<Rightarrow> (pyval \<Rightarrow> string) \<Rightarrow> string \<Rightarrow> policy_test_suite result" where
  "parse_policy_test_suite load dump document = ebind (load document) (\<lambda>raw. case raw of
     PDict d \<Rightarrow>
       ebind (nonempty_list ''policies'' (pget d ''policies'')) (\<lambda>raw_policies.
       ebind (nonempty_list ''tests'' (pget d ''tests'')) (\<lambda>raw_tests.
       ebind (emap (\<lambda>(i, e). parse_policy_entry load dump e (int i)) (enumerate 1 raw_policies)) (\<lambda>policies.
       ebind (emap (\<lambda>(i, e). parse_test_case e (int i)) (enumerate 1 raw_tests)) (\<lambda>tests.
         Inr \<lparr>su_policies = policies, su_tests = tests\<rparr>))))
   | _ \<Rightarrow> Inl (ValueError ''policy test file must be an object''))"

definition test_result :: "policy_test_case \<Rightarrow> authorization_decision \<Rightarrow> policy_test_result" where
  "test_result tc d = \<lparr>tr_name = tc_name tc, tr_passed = (decision_text (ad_decision d) = tc_expect tc),
     tr_expected = tc_expect tc, tr_actual = decision_text (ad_decision d), tr_reason = ad_reason d,
     tr_policy_id = ad_policy_id d, tr_explain_trace = map step_to_dict (ad_explain_trace d)\<rparr>"

definition run_policy_test_suite :: "policy_test_suite \<Rightarrow> policy_test_result list result" where
  "run_policy_test_suite suite =
     ebind (new_engine (map PolicyRaw (su_policies suite)) ''first_match'' None) (\<lambda>eng.
       emap (\<lambda>tc. ebind (decide eng (Structured (tc_input tc)) None None) (\<lambda>d. Inr (test_result tc d))) (su_tests suite))"

definition validate_policy_test_suite :: "(string \<Rightarrow> pyval result) \<Rightarrow> (pyval \<Rightarrow> string) \<Rightarrow> string
    \<Rightarrow> policy_test_result list result" where
  "validate_policy_test_suite load dump document =
     ebind (parse_policy_test_suite load dump document) run_policy_test_suite"

section \<open>Warnings\<close>

definition referenced_roles :: "policy_view list \<Rightarrow> string list" where
  "referenced_roles views = List.map_filter (\<lambda>p. case pget (pv_conditions p) ''role'' of PStr r \<Rightarrow> Some r | _ \<Rightarrow> None) views"

definition unused_role_warnings :: "string list \<Rightarrow> policy_view list \<Rightarrow> string list" where
  "unused_role_warnings role_names views =
     map (\<lambda>r. ''role '' @ quoted r @ '' is defined but never referenced in policies'')
       (sorted_set (filter (\<lambda>r. r \<notin> set (referenced_roles views)) role_names))"

text \<open>\<open>json.dumps(conditions without policy_key, sort_keys=True)\<close>, as the document with sorted keys\<close>

definition serialize_conditions :: "pydict \<Rightarrow> pyval" where
  "serialize_conditions conditions = stable_doc (PDict (dpop conditions ''policy_key''))"

definition policy_description :: "policy_view \<Rightarrow> string" where
  "policy_description p = py_str (por (pget (pv_conditions p) ''policy_key'') (PStr (pv_action p)))
     @ '' (priority '' @ int_str (pv_priority p) @ '')''"

definition unreachable_warning :: "policy_view \<Rightarrow> string" where
  "unreachable_warning p = ''policy '' @ policy_description p
     @ '' is unreachable because a higher-priority policy has identical conditions''"

definition conflict_warning :: "policy_view \<Rightarrow> string \<Rightarrow> string" where
  "conflict_warning p previous_effect = ''policy '' @ policy_description p
     @ '' conflicts: higher-priority policy with same conditions returns '' @ quoted previous_effect"

fun duplicate_loop :: "policy_view list \<Rightarrow> ((string \<times> pyval) \<times> string) list \<Rightarrow> string list" where
  "duplicate_loop [] seen = []"
| "duplicate_loop (p # ps) seen =
     (let key = (pv_action p, serialize_conditions (pv_conditions p)) in
      case dget seen key of
        Some previous_effect \<Rightarrow>
          if previous_effect \<noteq> []
          then (if previous_effect = pv_effect p then unreachable_warning p else conflict_warning p previous_effect)
               # duplicate_loop ps seen
          else duplicate_loop ps (dset seen key (pv_effect p))
      | None \<Rightarrow> duplicate_loop ps (dset seen key (pv_effect p)))"

definition duplicate_warnings :: "policy_view list \<Rightarrow> string list" where
  "duplicate_warnings views = duplicate_loop (sort_key pv_priority views) []"

definition lint :: "int \<Rightarrow> (database, string list) eff" where
  "lint tenant_id = bnd (list_current_policy_views tenant_id ''active'') (\<lambda>views db.
     (Inr (unused_role_warnings (map ro_name (db_roles db)) views @ duplicate_warnings views), db))"

section \<open>Simulation\<close>

record simulation_result =
  sim_before :: authorization_decision
  sim_after :: authorization_decision

definition changed_definition :: "pydict \<Rightarrow> pydict" where
  "changed_definition changed = [(''action'', pget changed ''action''), (''effect'', pget changed ''effect''),
     (''priority'', pget changed ''priority''), (''conditions'', pget changed ''conditions''),
     (''policy_id'', case pget changed ''conditions'' of PDict c \<Rightarrow> pget c ''policy_key'' | _ \<Rightarrow> PNone)]"

definition changed_engine :: "policy_record list \<Rightarrow> pydict \<Rightarrow> engine result" where
  "changed_engine current changed =
     new_engine (map (\<lambda>p. PolicyDef (pr_definition p)) current @ [PolicyRaw (changed_definition changed)])
       ''first_match'' None"

definition simulator_request :: "string \<Rightarrow> pydict \<Rightarrow> string \<Rightarrow> pydict \<Rightarrow> pydict \<Rightarrow> auth_request" where
  "simulator_request tenant_key user action resource context =
     \<lparr>rq_tenant_key = tenant_key, rq_principal = [(''type'', PStr ''simulator''), (''id'', PStr ''simulator'')],
      rq_user = user, rq_action = action, rq_resource = resource, rq_context = Some context,
      rq_consistency = ''eventual'', rq_revision = None, rq_audit = False, rq_policy_set = ''active''\<rparr>"

definition simulate_policy_change :: "'w auth_service \<Rightarrow> (string \<Rightarrow> pyval result) \<Rightarrow> string \<Rightarrow> pydict \<Rightarrow> string \<Rightarrow> pydict
    \<Rightarrow> pydict \<Rightarrow> string \<Rightarrow> ('w, simulation_result) eff" where
  "simulate_policy_change svc load tenant_key user action resource context policy_change =
     bnd (tp_get_or_create (as_tenants svc) tenant_key) (\<lambda>tenant.
     bnd (build_input_of svc tenant_key user action resource context) (\<lambda>(inp, _).
     bnd (authorize svc (simulator_request tenant_key user action resource context)) (\<lambda>before.
     bnd (lift (dsl_to_policy load policy_change)) (\<lambda>changed.
     bnd (as_list_current svc (tr_id tenant) ''active'') (\<lambda>current.
     bnd (lift (changed_engine current changed)) (\<lambda>eng.
     bnd (lift (decide eng (Structured inp) None None)) (\<lambda>after.
       ret \<lparr>sim_before = res_decision before, sim_after = after\<rparr>)))))))"

section \<open>Impact on the users\<close>

record impact_result =
  ir_gained_access :: "int list"
  ir_lost_access :: "int list"

record 'w impact_analyzer =
  im_tenants :: "'w tenant_repo"
  im_list_current :: "int \<Rightarrow> string \<Rightarrow> ('w, policy_record list) eff"
  im_list_user_ids :: "('w, int list) eff"
  im_user_contexts :: "int list \<Rightarrow> ('w, (int \<times> pydict) list) eff"
  im_user_context :: "int \<Rightarrow> ('w, pydict option) eff"
  im_list_for_subjects :: "int \<Rightarrow> string \<Rightarrow> string list \<Rightarrow> ('w, (string \<times> relationship_record list) list) eff"
  im_list_for_subject :: "int \<Rightarrow> string \<Rightarrow> string \<Rightarrow> ('w, relationship_record list) eff"

definition bare_user :: "int \<Rightarrow> pydict" where
  "bare_user user_id = [(''id'', PInt user_id), (''roles'', PList []), (''permissions'', PList [])]"

text \<open>\<open>contexts.get(id) or get_user_context(id) or {...}\<close>: an empty context counts as missing.\<close>

definition impact_context :: "'w impact_analyzer \<Rightarrow> (int \<times> pydict) list \<Rightarrow> int \<Rightarrow> ('w, pydict) eff" where
  "impact_context ia contexts user_id = catch_all
     (case dget contexts user_id of
        Some (kv # d) \<Rightarrow> ret (kv # d)
      | _ \<Rightarrow> bnd (im_user_context ia user_id) (\<lambda>found. ret (case found of Some (kv # d) \<Rightarrow> kv # d | _ \<Rightarrow> bare_user user_id)))
     (\<lambda>_. ret (bare_user user_id))"

definition with_relations :: "pydict \<Rightarrow> relationship_record list \<Rightarrow> pydict" where
  "with_relations user rows = dset user ''relations'' (PList (map (\<lambda>r. PDict (relationship_to_dict r)) rows))"

definition enrich_user :: "'w impact_analyzer \<Rightarrow> int \<Rightarrow> pydict \<Rightarrow> relationship_record list option \<Rightarrow> ('w, pydict) eff" where
  "enrich_user ia tenant_id user prefetched = (case int_value (pget user ''id'') of
     None \<Rightarrow> ret user
   | Some i \<Rightarrow> (case prefetched of
       Some rows \<Rightarrow> ret (with_relations user rows)
     | None \<Rightarrow> bnd (im_list_for_subject ia tenant_id ''user'' (py_str (pget user ''id''))) (\<lambda>rows.
         ret (with_relations user rows))))"

definition own_document :: "int \<Rightarrow> pydict" where
  "own_document user_id = [(''resource_type'', PStr ''document''), (''resource_id'', PStr (''user-'' @ int_str user_id)),
     (''owner_id'', PInt user_id)]"

definition candidate_resources :: "'w impact_analyzer \<Rightarrow> int \<Rightarrow> int \<Rightarrow> ('w, pydict list) eff" where
  "candidate_resources ia tenant_id user_id =
     bnd (im_list_for_subject ia tenant_id ''user'' (int_str user_id)) (\<lambda>rows.
       ret (own_document user_id # map (\<lambda>r. [(''resource_type'', PStr (rr_object_type r)),
         (''resource_id'', PStr (rr_object_id r)), (''owner_id'', PInt user_id)]) rows))"

text \<open>Whether a user gains or loses access to one of the resources.\<close>

fun resource_impact :: "engine \<Rightarrow> engine \<Rightarrow> pydict \<Rightarrow> string \<Rightarrow> pydict list \<Rightarrow> (bool \<times> bool) result" where
  "resource_impact before_engine after_engine user action [] = Inr (False, False)"
| "resource_impact before_engine after_engine user action (resource # resources) =
     ebind (decide before_engine (Structured (plain_input user resource action [])) None None) (\<lambda>before.
     ebind (decide after_engine (Structured (plain_input user resource action [])) None None) (\<lambda>after.
     ebind (resource_impact before_engine after_engine user action resources) (\<lambda>(gained, lost).
       Inr (gained \<or> \<not> ad_allowed before \<and> ad_allowed after, lost \<or> ad_allowed before \<and> \<not> ad_allowed after))))"

definition user_and_resources :: "'w impact_analyzer \<Rightarrow> int \<Rightarrow> (int \<times> pydict) list
    \<Rightarrow> (string \<times> relationship_record list) list \<Rightarrow> int \<Rightarrow> ('w, (pydict \<times> pydict list) option) eff" where
  "user_and_resources ia tenant_id contexts prefetched user_id =
     bnd (impact_context ia contexts user_id) (\<lambda>context.
     catch_all (bnd (enrich_user ia tenant_id context (dget prefetched (int_str user_id))) (\<lambda>user.
                bnd (candidate_resources ia tenant_id user_id) (\<lambda>resources. ret (Some (user, resources)))))
       (\<lambda>_. ret None))"

fun analyze_users :: "'w impact_analyzer \<Rightarrow> int \<Rightarrow> engine \<Rightarrow> engine \<Rightarrow> string \<Rightarrow> (int \<times> pydict) list
    \<Rightarrow> (string \<times> relationship_record list) list \<Rightarrow> int list \<Rightarrow> ('w, int list \<times> int list) eff" where
  "analyze_users ia tenant_id before_engine after_engine action contexts prefetched [] = ret ([], [])"
| "analyze_users ia tenant_id before_engine after_engine action contexts prefetched (i # is) =
     bnd (user_and_resources ia tenant_id contexts prefetched i) (\<lambda>found. case found of
       None \<Rightarrow> analyze_users ia tenant_id before_engine after_engine action contexts prefetched is
     | Some (user, resources) \<Rightarrow>
         bnd (lift (resource_impact before_engine after_engine user action resources)) (\<lambda>(gained, lost).
         bnd (analyze_users ia tenant_id before_engine after_engine action contexts prefetched is) (\<lambda>(gs, ls).
           ret (if gained then i # gs else gs, if lost then i # ls else ls))))"

text \<open>The users' part of \<open>analyze_policy_change\<close>, after the two engines are built.\<close>

definition users_impact :: "'w impact_analyzer \<Rightarrow> tenant_record \<Rightarrow> string \<Rightarrow> engine \<Rightarrow> engine
    \<Rightarrow> ('w, impact_result) eff" where
  "users_impact ia tenant action before_engine after_engine =
     bnd (catch_all (bnd (im_list_user_ids ia) (\<lambda>ids. ret (Some ids))) (\<lambda>_. ret None)) (\<lambda>user_ids. case user_ids of
       None \<Rightarrow> ret \<lparr>ir_gained_access = [], ir_lost_access = []\<rparr>
     | Some ids \<Rightarrow>
         bnd (catch_all (im_user_contexts ia ids) (\<lambda>_. ret [])) (\<lambda>contexts.
         bnd (catch_all (im_list_for_subjects ia (tr_id tenant) ''user'' (map int_str ids)) (\<lambda>_. ret [])) (\<lambda>prefetched.
         bnd (analyze_users ia (tr_id tenant) before_engine after_engine action contexts prefetched ids)
           (\<lambda>(gained, lost). ret \<lparr>ir_gained_access = sort (remdups gained), ir_lost_access = sort (remdups lost)\<rparr>))))"

definition analyze_policy_change :: "'w impact_analyzer \<Rightarrow> (string \<Rightarrow> pyval result) \<Rightarrow> string \<Rightarrow> string
    \<Rightarrow> ('w, impact_result) eff" where
  "analyze_policy_change ia load tenant_key policy_change =
     bnd (tp_get_or_create (im_tenants ia) tenant_key) (\<lambda>tenant.
     bnd (im_list_current ia (tr_id tenant) ''active'') (\<lambda>current.
     bnd (lift (dsl_to_policy load policy_change)) (\<lambda>changed.
     bnd (lift (new_engine (map (\<lambda>p. PolicyDef (pr_definition p)) current) ''first_match'' None)) (\<lambda>before_engine.
     bnd (lift (changed_engine current changed)) (\<lambda>after_engine.
       users_impact ia tenant (py_str (pget changed ''action'')) before_engine after_engine)))))"

section \<open>Simulation requests\<close>

definition descriptor_resource :: "string \<Rightarrow> pydict" where
  "descriptor_resource text = (case split1 (CHR '':'') text of (resource_type, suffix) \<Rightarrow>
     [(''resource_type'', PStr resource_type),
      (''resource_id'', PStr (case suffix of Some rid \<Rightarrow> rid | None \<Rightarrow> resource_type))])"

definition normalize_request :: "pydict \<Rightarrow> pydict \<times> pydict \<times> string \<times> pydict" where
  "normalize_request raw =
     ((case pget raw ''user'' of PStr t \<Rightarrow> [(''id'', PStr t)] | PDict d \<Rightarrow> d | _ \<Rightarrow> []),
      (case pget raw ''resource'' of PStr t \<Rightarrow> descriptor_resource t | PDict d \<Rightarrow> d | _ \<Rightarrow> []),
      (case pget raw ''action'' of PStr t \<Rightarrow> t | _ \<Rightarrow> []),
      (case por (pget raw ''context'') (PDict []) of PDict d \<Rightarrow> d | _ \<Rightarrow> []))"

section \<open>An extra policy\<close>

text \<open>The engine with the change, read from the policy language.\<close>

definition changed_effect :: "pydict \<Rightarrow> decision_value" where
  "changed_effect changed = (if pget changed ''effect'' = PStr ''allow'' then Allow else Deny)"

lemma dsl_block_effect: "dsl_block d = Inr (e, v) \<Longrightarrow> e = ''allow'' \<or> e = ''deny''"
  by (auto simp: dsl_block_def split: option.splits)

lemma dsl_document_shape:
  assumes "dsl_document data = Inr changed"
  shows "\<exists>a e p c. changed = [(''action'', PStr a), (''effect'', PStr e), (''priority'', PInt p), (''conditions'', PDict c)]
    \<and> (e = ''allow'' \<or> e = ''deny'')"
proof -
  obtain d where d: "data = PDict d" using assms by (cases data) (simp_all add: dsl_document_def)
  with assms obtain e v where b: "dsl_block d = Inr (e, v)"
    by (cases "dsl_block d") (auto simp: dsl_document_def split: if_split_asm)
  define allowed where "allowed = (e = ''allow'' \<or> e = ''deny'')"
  have "allowed" using dsl_block_effect [OF b] by (simp add: allowed_def)
  moreover have "\<exists>a p c. changed = [(''action'', PStr a), (''effect'', PStr e), (''priority'', PInt p), (''conditions'', PDict c)]"
    using assms d b
    by (cases v) (auto simp: dsl_document_def ebind_eq_Inr split: if_split_asm pyval.split_asm)
  ultimately show ?thesis unfolding allowed_def by blast
qed

lemma changed_parses:
  assumes "dsl_to_policy load change = Inr changed"
  shows "\<exists>d. parse_policy_arg (PolicyRaw (changed_definition changed)) = Inr d \<and> pd_effect d = changed_effect changed"
proof -
  from assms obtain data where "dsl_document data = Inr changed" by (auto simp: dsl_to_policy_def ebind_eq_Inr)
  with dsl_document_shape obtain a e p c where
    s: "changed = [(''action'', PStr a), (''effect'', PStr e), (''priority'', PInt p), (''conditions'', PDict c)]"
    "e = ''allow'' \<or> e = ''deny''" by blast
  from s(2) show ?thesis
    by (elim disjE) (simp_all add: s(1) changed_effect_def parse_policy_arg_def from_dict_def changed_definition_def
      dget_or_def effect_of_def)
qed

text \<open>A change that allows takes no access from anyone, one that denies gives none.\<close>

lemma changed_engine_monotone:
  assumes "dsl_to_policy load change = Inr changed" "changed_engine current changed = Inr after_engine"
    "new_engine (map (\<lambda>p. PolicyDef (pr_definition p)) current) ''first_match'' None = Inr before_engine"
    "in_compiled_graph inp = None" "decide_structured before_engine inp = Inr before"
    "decide_structured after_engine inp = Inr after"
  shows "changed_effect changed = Allow \<Longrightarrow> ad_allowed before \<Longrightarrow> ad_allowed after"
    "changed_effect changed = Deny \<Longrightarrow> ad_allowed after \<Longrightarrow> ad_allowed before"
proof -
  obtain d where d: "parse_policy_arg (PolicyRaw (changed_definition changed)) = Inr d" "pd_effect d = changed_effect changed"
    using changed_parses [OF assms(1)] by blast
  obtain us vs where n: "dg_nodes (eng_graph before_engine) = us @ vs" "dg_nodes (eng_graph after_engine) = us @ node_of d # vs"
    using compile_changed [OF assms(2) [unfolded changed_engine_def] assms(3) d(1)] by blast
  note policies = decide_policies [OF assms(4-6)]
  note extra = graph_loop_extra [of us "node_of d" vs inp None]
  show "ad_allowed after" if "changed_effect changed = Allow" "ad_allowed before"
  proof (rule ccontr)
    assume "\<not> ad_allowed after"
    with policies that extra(1) d(2) show False by (auto simp: graph_evaluate_def n)
  qed
  show "ad_allowed before" if "changed_effect changed = Deny" "ad_allowed after"
  proof (rule ccontr)
    assume "\<not> ad_allowed before"
    with policies that extra(2) d(2) show False by (auto simp: graph_evaluate_def n)
  qed
qed

lemma resource_impact_monotone:
  assumes "dsl_to_policy load change = Inr changed" "changed_engine current changed = Inr after_engine"
    "new_engine (map (\<lambda>p. PolicyDef (pr_definition p)) current) ''first_match'' None = Inr before_engine"
  shows "resource_impact before_engine after_engine user action resources = Inr (gained, lost) \<Longrightarrow>
    (changed_effect changed = Allow \<longrightarrow> \<not> lost) \<and> (changed_effect changed = Deny \<longrightarrow> \<not> gained)"
proof (induction resources arbitrary: gained lost)
  case (Cons resource resources)
  let ?inp = "plain_input user resource action []"
  from Cons.prems obtain before after g l where s:
    "decide before_engine (Structured ?inp) None None = Inr before"
    "decide after_engine (Structured ?inp) None None = Inr after"
    "resource_impact before_engine after_engine user action resources = Inr (g, l)"
    "gained = (g \<or> \<not> ad_allowed before \<and> ad_allowed after)" "lost = (l \<or> ad_allowed before \<and> \<not> ad_allowed after)"
    by (auto simp: ebind_eq_Inr)
  have d: "in_compiled_graph ?inp = None" "decide_structured before_engine ?inp = Inr before"
    "decide_structured after_engine ?inp = Inr after"
    using s(1,2) by (simp_all add: plain_input_def decide_def normalize_input_def)
  show ?case using changed_engine_monotone [OF assms d] Cons.IH [OF s(3)] s(4,5) by auto
qed simp

lemma analyze_users_monotone:
  assumes "dsl_to_policy load change = Inr changed" "changed_engine current changed = Inr after_engine"
    "new_engine (map (\<lambda>p. PolicyDef (pr_definition p)) current) ''first_match'' None = Inr before_engine"
  shows "analyze_users ia tenant_id before_engine after_engine action contexts prefetched is w = (Inr (gs, ls), w') \<Longrightarrow>
    (changed_effect changed = Allow \<longrightarrow> ls = []) \<and> (changed_effect changed = Deny \<longrightarrow> gs = [])"
proof (induction "is" arbitrary: w gs ls)
  case Nil
  then show ?case by (simp add: ret_def)
next
  case (Cons i "is")
  then show ?case
    by (auto simp: bnd_Inr_iff lift_def ret_def split: option.splits prod.splits if_splits
        dest!: Cons.IH resource_impact_monotone [OF assms])
qed

lemma users_impact_monotone:
  assumes "dsl_to_policy load change = Inr changed" "changed_engine current changed = Inr after_engine"
    "new_engine (map (\<lambda>p. PolicyDef (pr_definition p)) current) ''first_match'' None = Inr before_engine"
    "users_impact ia tenant action before_engine after_engine w = (Inr impact, w')"
  shows "(changed_effect changed = Allow \<longrightarrow> ir_lost_access impact = [])
    \<and> (changed_effect changed = Deny \<longrightarrow> ir_gained_access impact = [])"
proof -
  from assms(4) obtain found w1 where f: "(case found of
       None \<Rightarrow> ret \<lparr>ir_gained_access = [], ir_lost_access = []\<rparr>
     | Some ids \<Rightarrow>
         bnd (catch_all (im_user_contexts ia ids) (\<lambda>_. ret [])) (\<lambda>contexts.
         bnd (catch_all (im_list_for_subjects ia (tr_id tenant) ''user'' (map int_str ids)) (\<lambda>_. ret [])) (\<lambda>prefetched.
         bnd (analyze_users ia (tr_id tenant) before_engine after_engine action contexts prefetched ids)
           (\<lambda>(gained, lost). ret \<lparr>ir_gained_access = sort (remdups gained), ir_lost_access = sort (remdups lost)\<rparr>)))) w1
      = (Inr impact, w')"
    unfolding users_impact_def by (elim bnd_InrE)
  show ?thesis
  proof (cases found)
    case None
    then show ?thesis using f by (auto simp: ret_def)
  next
    case (Some ids)
    with f obtain contexts prefetched gained lost w2 w3 where
      "analyze_users ia (tr_id tenant) before_engine after_engine action contexts prefetched ids w2 = (Inr (gained, lost), w3)"
      "impact = \<lparr>ir_gained_access = sort (remdups gained), ir_lost_access = sort (remdups lost)\<rparr>"
      by (auto simp: ret_def elim!: bnd_InrE)
    with analyze_users_monotone [OF assms(1-3)] show ?thesis by fastforce
  qed
qed

lemma impact_monotone_core:
  assumes "analyze_policy_change ia load tenant_key change w = (Inr impact, w')"
  shows "\<exists>changed. dsl_to_policy load change = Inr changed
    \<and> (changed_effect changed = Allow \<longrightarrow> ir_lost_access impact = [])
    \<and> (changed_effect changed = Deny \<longrightarrow> ir_gained_access impact = [])"
proof -
  from assms obtain tenant current changed before_engine after_engine w2 where s:
    "dsl_to_policy load change = Inr changed" "changed_engine current changed = Inr after_engine"
    "new_engine (map (\<lambda>p. PolicyDef (pr_definition p)) current) ''first_match'' None = Inr before_engine"
    and rest: "users_impact ia tenant (py_str (pget changed ''action'')) before_engine after_engine w2 = (Inr impact, w')"
    by (auto simp: analyze_policy_change_def bnd_Inr_iff lift_def)
  show ?thesis
  proof (intro exI conjI)
    show "dsl_to_policy load change = Inr changed" by (rule s(1))
    show "changed_effect changed = Allow \<longrightarrow> ir_lost_access impact = []"
      using users_impact_monotone [OF s rest] by blast
    show "changed_effect changed = Deny \<longrightarrow> ir_gained_access impact = []"
      using users_impact_monotone [OF s rest] by blast
  qed
qed

text \<open>
  C32. The impact analysis is monotone: whatever the users, their relationships and the stored policies
  are, a change that allows is never reported to take access away, and a change that denies is never
  reported to give it.
\<close>

theorem impact_monotone:
  assumes "analyze_policy_change ia load tenant_key change w = (Inr impact, w')"
  shows "\<exists>changed. dsl_to_policy load change = Inr changed
    \<and> (if changed_effect changed = Allow then ir_lost_access impact = [] else ir_gained_access impact = [])"
  using impact_monotone_core [OF assms] by (metis decision_value.exhaust)

definition two_users :: "unit impact_analyzer" where
  "two_users = \<lparr>im_tenants = as_tenants tiny, im_list_current = (\<lambda>t ps. ret [tiny_policy]), im_list_user_ids = ret [7, 8],
     im_user_contexts = (\<lambda>ids. ret [(7, [(''id'', PInt 7), (''role'', PStr ''guest'')])]), im_user_context = (\<lambda>i. ret None),
     im_list_for_subjects = (\<lambda>t ty ids. ret []), im_list_for_subject = (\<lambda>t ty sid. ret [])\<rparr>"

definition deny_guests :: "string \<Rightarrow> pyval result" where
  "deny_guests document = Inr (PDict [(''deny'', PDict [(''action'', PStr ''read''), (''priority'', PInt 5),
     (''when'', PDict [(''role'', PStr ''guest'')])])])"

theorem impact_monotone_witness:
  "analyze_policy_change two_users deny_guests ''acme'' ''deny guests'' () = (Inr \<lparr>ir_gained_access = [], ir_lost_access = [7]\<rparr>, ())
   \<and> (\<exists>changed. dsl_to_policy deny_guests ''deny guests'' = Inr changed \<and> changed_effect changed = Deny)"
proof -
  have run: "analyze_policy_change two_users deny_guests ''acme'' ''deny guests'' ()
      = (Inr \<lparr>ir_gained_access = [], ir_lost_access = [7]\<rparr>, ())" by code_simp
  from impact_monotone [OF run] have "\<exists>changed. dsl_to_policy deny_guests ''deny guests'' = Inr changed \<and> changed_effect changed = Deny"
    by (auto split: if_splits) (metis decision_value.exhaust)
  with run show ?thesis by blast
qed

end
