(* ===== verification/Listings.thy ===== *)
theory Listings
  imports Identity Pagination
begin

text \<open>
  The audit listing (\<open>SqlAuditRepository.list_page\<close> of \<open>infrastructure/repositories/audit.py\<close>) and the
  contract that all cursor listings of the program share: a page is cut from the rows in order, the
  next page starts after the row its cursor describes. The contract is a locale, interpreted on the
  listings of relationships, policies, roles, permissions and audit records.
\<close>

section \<open>Times\<close>

text \<open>
  \<open>datetime.fromisoformat\<close> on the texts \<open>isoformat\<close> prints, with or without microseconds; other ISO
  spellings count as invalid. A time is held as its \<open>isoformat\<close> text.
\<close>

definition number_at :: "string \<Rightarrow> nat \<Rightarrow> nat \<Rightarrow> int" where
  "number_at s from n = digits_val (take n (drop from s))"

definition digits_at :: "string \<Rightarrow> nat \<Rightarrow> nat \<Rightarrow> bool" where
  "digits_at s from n = (length (take n (drop from s)) = n \<and> list_all is_digit (take n (drop from s)))"

definition days_in_month :: "int \<Rightarrow> int \<Rightarrow> int" where
  "days_in_month year month =
     (if month = 2 then (if year mod 4 = 0 \<and> (year mod 100 \<noteq> 0 \<or> year mod 400 = 0) then 29 else 28)
      else if month = 4 \<or> month = 6 \<or> month = 9 \<or> month = 11 then 30 else 31)"

definition iso_seconds :: "string \<Rightarrow> bool" where
  "iso_seconds s = (length s = 19 \<and> digits_at s 0 4 \<and> s ! 4 = CHR ''-'' \<and> digits_at s 5 2 \<and> s ! 7 = CHR ''-''
     \<and> digits_at s 8 2 \<and> s ! 10 = CHR ''T'' \<and> digits_at s 11 2 \<and> s ! 13 = CHR '':'' \<and> digits_at s 14 2
     \<and> s ! 16 = CHR '':'' \<and> digits_at s 17 2 \<and> 1 \<le> number_at s 0 4
     \<and> 1 \<le> number_at s 5 2 \<and> number_at s 5 2 \<le> 12
     \<and> 1 \<le> number_at s 8 2 \<and> number_at s 8 2 \<le> days_in_month (number_at s 0 4) (number_at s 5 2)
     \<and> number_at s 11 2 < 24 \<and> number_at s 14 2 < 60 \<and> number_at s 17 2 < 60)"

definition from_isoformat :: "string \<Rightarrow> string result" where
  "from_isoformat s =
     (if iso_seconds s then Inr s
      else if iso_seconds (take 19 s) \<and> length s = 26 \<and> s ! 19 = CHR ''.'' \<and> digits_at s 20 6
      then Inr (if number_at s 20 6 = 0 then take 19 s else s)
      else Inl (ValueError (''Invalid isoformat string: '' @ quoted s)))"

definition iso_time :: "string \<Rightarrow> bool" where
  "iso_time s = (from_isoformat s = Inr s)"

section \<open>The audit listing\<close>

text \<open>
  A field of a JSON column as text. PostgreSQL gives the stored text of any value, with the blanks that
  \<open>json.dumps\<close> writes; SQLite's \<open>json_extract\<close> gives the value, and only a text, or an array or object
  (rendered without blanks), can equal the text it is compared with.
\<close>

fun stored_json :: "pyval \<Rightarrow> string" where
  "stored_json (PList xs) = ''['' @ join '', '' (map stored_json xs) @ '']''"
| "stored_json (PTuple xs) = ''['' @ join '', '' (map stored_json xs) @ '']''"
| "stored_json (PDict d) = ''{'' @ join '', '' (map (\<lambda>(k, v). ascii_json (PStr k) @ '': '' @ stored_json v) d) @ ''}''"
| "stored_json v = ascii_json v"

definition json_field :: "string \<Rightarrow> pydict \<Rightarrow> string \<Rightarrow> string option" where
  "json_field dialect column key = (case dget column key of
     None \<Rightarrow> None
   | Some v \<Rightarrow> (case v of PStr s \<Rightarrow> Some s | PNone \<Rightarrow> None
       | _ \<Rightarrow> if dialect = ''postgresql'' then Some (stored_json v)
              else if is_list v \<or> is_dict v then Some (ascii_json v) else None))"

record audit_filter =
  af_user_id :: "string option"
  af_resource_id :: "string option"
  af_decision :: "string option"
  af_start_time :: "string option"
  af_end_time :: "string option"

definition wants :: "string option \<Rightarrow> (string \<Rightarrow> bool) \<Rightarrow> bool" where
  "wants wanted test = (case wanted of None \<Rightarrow> True | Some t \<Rightarrow> t = [] \<or> test t)"

definition audit_wanted :: "string \<Rightarrow> audit_filter \<Rightarrow> audit_row \<Rightarrow> bool" where
  "audit_wanted dialect f a =
     (wants (af_user_id f) (\<lambda>t. json_field dialect (au_user a) ''id'' = Some t)
      \<and> wants (af_resource_id f) (\<lambda>t. json_field dialect (au_resource a) ''id'' = Some t
          \<or> json_field dialect (au_resource a) ''resource_id'' = Some t)
      \<and> wants (af_decision f) (\<lambda>t. au_decision a = upper_ascii t)
      \<and> (case af_start_time f of None \<Rightarrow> True | Some t \<Rightarrow> t \<le> au_created_at a)
      \<and> (case af_end_time f of None \<Rightarrow> True | Some t \<Rightarrow> au_created_at a \<le> t))"

text \<open>Newest first: the rows in descending order of time and id.\<close>

definition audit_order :: "audit_row \<Rightarrow> string \<times> int" where
  "audit_order a = (au_created_at a, au_id a)"

definition audit_rows :: "string \<Rightarrow> int \<Rightarrow> audit_filter \<Rightarrow> database \<Rightarrow> audit_row list" where
  "audit_rows dialect tenant_id f db = rev (sort_key audit_order
     (filter (\<lambda>a. au_tenant a = tenant_id \<and> audit_wanted dialect f a) (db_audit db)))"

definition audit_cursor :: "audit_row \<Rightarrow> pydict" where
  "audit_cursor a = [(''created_at'', PStr (au_created_at a)), (''id'', PInt (au_id a))]"

definition after_audit_cursor :: "pydict \<Rightarrow> (audit_row \<Rightarrow> bool) result" where
  "after_audit_cursor c =
     ebind (cursor_text c ''created_at'') (\<lambda>t. ebind (from_isoformat t) (\<lambda>created_at.
     ebind (cursor_int c ''id'') (\<lambda>i.
       Inr (\<lambda>a. au_created_at a < created_at \<or> (au_created_at a = created_at \<and> au_id a < i)))))"

definition list_audit_page :: "string \<Rightarrow> int \<Rightarrow> nat \<Rightarrow> pydict option \<Rightarrow> audit_filter
    \<Rightarrow> (database, audit_row list \<times> pydict option) eff" where
  "list_audit_page dialect tenant_id limit cursor f db =
     (ebind (case cursor of None \<Rightarrow> Inr (\<lambda>a. True) | Some c \<Rightarrow> after_audit_cursor c) (\<lambda>wanted.
        let (page, has_next) = page_of limit (filter wanted (audit_rows dialect tenant_id f db))
        in Inr (page, if has_next \<and> page \<noteq> [] then Some (audit_cursor (last page)) else None)), db)"

section \<open>The contract of a cursor listing\<close>

text \<open>A client that follows the cursors from a given one on and joins the items.\<close>

fun follow :: "nat \<Rightarrow> (pydict option \<Rightarrow> ('a list \<times> pydict option) result) \<Rightarrow> pydict option \<Rightarrow> 'a list option" where
  "follow 0 fetch cursor = None"
| "follow (Suc n) fetch cursor = (case fetch cursor of
     Inl e \<Rightarrow> None
   | Inr (items, None) \<Rightarrow> Some items
   | Inr (items, Some c) \<Rightarrow> map_option (\<lambda>rest. items @ rest) (follow n fetch (Some c)))"

definition cut_page :: "('r \<Rightarrow> 'a) \<Rightarrow> ('r \<Rightarrow> pydict) \<Rightarrow> nat \<Rightarrow> 'r list \<Rightarrow> ('a list \<times> pydict option) result" where
  "cut_page item cursor_of limit rows = (let (page, has_next) = page_of limit rows in
     Inr (map item page, if has_next \<and> page \<noteq> [] then Some (cursor_of (last page)) else None))"

text \<open>
  \<open>rows\<close> are the rows of the listing in order, \<open>after r\<close> the rows behind \<open>r\<close>, \<open>good\<close> the rows whose
  cursor reads back, \<open>valid\<close> the page sizes that are served.
\<close>

locale cursor_listing =
  fixes valid :: "nat \<Rightarrow> bool" and fetch :: "nat \<Rightarrow> pydict option \<Rightarrow> ('a list \<times> pydict option) result"
    and rows :: "'r list" and after :: "'r \<Rightarrow> 'r \<Rightarrow> bool" and good :: "'r \<Rightarrow> bool"
    and item :: "'r \<Rightarrow> 'a" and cursor_of :: "'r \<Rightarrow> pydict"
  assumes first_page: "valid limit \<Longrightarrow> fetch limit None = cut_page item cursor_of limit rows"
    and next_page: "valid limit \<Longrightarrow> good r \<Longrightarrow> fetch limit (Some (cursor_of r)) = cut_page item cursor_of limit (filter (after r) rows)"
    and irrefl: "\<not> after r r" and asym: "after r s \<Longrightarrow> \<not> after s r"
begin

lemma filter_behind: "sorted_wrt after (xs @ y # ys) \<Longrightarrow> filter (after y) (xs @ y # ys) = ys"
  using irrefl asym by (auto simp: sorted_wrt_append filter_empty_conv filter_id_conv)

lemma follow_from:
  assumes "sorted_wrt after (pre @ rest)" "rows = pre @ rest" "\<forall>r \<in> set rows. good r" "0 < limit" "valid limit" "length rest < n"
    and "cursor = (if pre = [] then None else Some (cursor_of (last pre)))"
  shows "follow n (fetch limit) cursor = Some (map item rest)"
  using assms
proof (induction n arbitrary: pre rest cursor)
  case (Suc n)
  have page: "fetch limit cursor = cut_page item cursor_of limit rest"
  proof (cases pre rule: rev_cases)
    case Nil
    then show ?thesis using Suc.prems first_page by simp
  next
    case (snoc ys y)
    then have "filter (after y) (ys @ y # rest) = rest" using Suc.prems(1) by (intro filter_behind) simp
    then show ?thesis using Suc.prems snoc next_page [of limit y] by simp
  qed
  show ?case
  proof (cases "length rest > limit")
    case False
    then show ?thesis by (simp add: page cut_page_def page_of_simps)
  next
    case True
    have ne: "take limit rest \<noteq> []" using True Suc.prems(4) by auto
    have "follow n (fetch limit) (Some (cursor_of (last (take limit rest)))) = Some (map item (drop limit rest))"
      using Suc.prems True ne by (intro Suc.IH [of "pre @ take limit rest"]) auto
    then have "follow (Suc n) (fetch limit) cursor = Some (map item (take limit rest) @ map item (drop limit rest))"
      using True ne by (simp add: page cut_page_def page_of_simps)
    then show ?thesis by (simp flip: map_append)
  qed
qed simp

lemma follow_all:
  assumes "sorted_wrt after rows" "\<forall>r \<in> set rows. good r" "0 < limit" "valid limit"
  shows "follow (length rows + 1) (fetch limit) None = Some (map item rows)"
  using assms by (intro follow_from [of "[]"]) simp_all

end

section \<open>The listings of the program\<close>

definition edge_page :: "int \<Rightarrow> string \<Rightarrow> string \<Rightarrow> database \<Rightarrow> nat \<Rightarrow> pydict option
    \<Rightarrow> (relationship_record list \<times> pydict option) result" where
  "edge_page tid st sid db limit cursor = fst (list_for_subject_page tid st sid limit cursor db)"

lemma edge_page_eq: "edge_page tid st sid db limit cursor = (case (case cursor of None \<Rightarrow> Inr (\<lambda>r. True) | Some c \<Rightarrow> after_subject_cursor c) of
    Inl e \<Rightarrow> Inl e
  | Inr wanted \<Rightarrow> cut_page rel_edge subject_cursor limit (filter wanted (sort_key subject_order (subject_rows db tid st sid))))"
  by (simp add: edge_page_def list_for_subject_page_def cut_page_def filter_sort split: sum.split)

interpretation edges: cursor_listing "\<lambda>limit. True" "edge_page tid st sid db" "sort_key subject_order (subject_rows db tid st sid)"
  "\<lambda>r x. subject_order r < subject_order x" "\<lambda>r. True" rel_edge subject_cursor for tid st sid db
  by unfold_locales (auto simp: edge_page_eq after_subject_cursor_row)

text \<open>The current policies of a tenant whatever their state, as the listing orders them.\<close>

definition listed_policies :: "int \<Rightarrow> database \<Rightarrow> (version_row \<times> policy_row) list" where
  "listed_policies tid db = concat (map (\<lambda>v. case current_of db tid v of None \<Rightarrow> [] | Some p \<Rightarrow> [(v, p)])
     (sort_key version_order (db_versions db)))"

definition policy_cursor :: "version_row \<times> policy_row \<Rightarrow> pydict" where
  "policy_cursor r = [(''priority'', PInt (ve_priority (fst r))), (''id'', PInt (ve_id (fst r)))]"

definition policy_page :: "int \<Rightarrow> database \<Rightarrow> nat \<Rightarrow> pydict option \<Rightarrow> (policy_view list \<times> pydict option) result" where
  "policy_page tid db limit cursor = fst (list_current_policy_page tid limit cursor db)"

lemma concat_filter:
  "concat (map (\<lambda>v. case f v of None \<Rightarrow> [] | Some p \<Rightarrow> [(v, p)]) (filter P vs))
    = filter (P \<circ> fst) (concat (map (\<lambda>v. case f v of None \<Rightarrow> [] | Some p \<Rightarrow> [(v, p)]) vs))"
  by (induction vs) (auto split: option.split)

lemma after_policy_cursor_row:
  "after_policy_cursor (policy_cursor r) = Inr (\<lambda>v. version_order (fst r) < version_order v)"
  by (auto simp: after_policy_cursor_def policy_cursor_def cursor_int_def cursor_field_def version_order_def
      less_prod_def fun_eq_iff)

lemma policy_page_eq: "policy_page tid db limit cursor = (case (case cursor of None \<Rightarrow> Inr (\<lambda>v. True) | Some c \<Rightarrow> after_policy_cursor c) of
    Inl e \<Rightarrow> Inl e
  | Inr wanted \<Rightarrow> cut_page view_of_rows policy_cursor limit (filter (wanted \<circ> fst) (listed_policies tid db)))"
  by (simp add: policy_page_def list_current_policy_page_def cut_page_def listed_policies_def policy_cursor_def
      filter_sort [symmetric] concat_filter Let_def split: sum.split prod.split)

interpretation policies: cursor_listing "\<lambda>limit. True" "policy_page tid db" "listed_policies tid db"
  "\<lambda>r x. version_order (fst r) < version_order (fst x)" "\<lambda>r. True" view_of_rows policy_cursor for tid db
  by unfold_locales (auto simp: policy_page_eq after_policy_cursor_row o_def)

definition named_cursor :: "string \<Rightarrow> string \<times> int \<Rightarrow> pydict" where
  "named_cursor field r = [(field, PStr (fst r)), (''id'', PInt (snd r))]"

definition named_fetch :: "string \<Rightarrow> (string \<times> int) list \<Rightarrow> nat \<Rightarrow> pydict option
    \<Rightarrow> ((string \<times> int) list \<times> pydict option) result" where
  "named_fetch field rows limit cursor = named_page field rows (int limit) cursor"

abbreviation page_size :: "nat \<Rightarrow> bool" where
  "page_size limit \<equiv> 1 \<le> limit \<and> limit \<le> 100"

lemma after_named_cursor_row: "field \<noteq> ''id'' \<Longrightarrow> after_named_cursor field (named_cursor field r) = Inr (\<lambda>x. r < x)"
  by (auto simp: after_named_cursor_def named_cursor_def cursor_text_def cursor_int_def cursor_field_def
      less_prod_def fun_eq_iff split: prod.splits)

lemma named_fetch_eq: "page_size limit \<Longrightarrow> named_fetch field rows limit cursor =
    (case (case cursor of None \<Rightarrow> Inr (\<lambda>_. True) | Some c \<Rightarrow> after_named_cursor field c) of
       Inl e \<Rightarrow> Inl e
     | Inr wanted \<Rightarrow> cut_page (\<lambda>r. r) (named_cursor field) limit (filter wanted (sort rows)))"
  by (simp add: named_fetch_def named_page_def cut_page_def named_cursor_def filter_sort split: sum.split prod.split)

interpretation roles: cursor_listing page_size "named_fetch ''name'' rows" "sort rows" "(<)" "\<lambda>r. True" "\<lambda>r. r"
  "named_cursor ''name''" for rows
  by unfold_locales (auto simp: named_fetch_eq after_named_cursor_row)

interpretation permissions: cursor_listing page_size "named_fetch ''action'' rows" "sort rows" "(<)" "\<lambda>r. True" "\<lambda>r. r"
  "named_cursor ''action''" for rows
  by unfold_locales (auto simp: named_fetch_eq after_named_cursor_row)

definition audit_page :: "string \<Rightarrow> int \<Rightarrow> audit_filter \<Rightarrow> database \<Rightarrow> nat \<Rightarrow> pydict option
    \<Rightarrow> (audit_row list \<times> pydict option) result" where
  "audit_page dialect tid f db limit cursor = fst (list_audit_page dialect tid limit cursor f db)"

lemma audit_page_eq: "audit_page dialect tid f db limit cursor =
    (case (case cursor of None \<Rightarrow> Inr (\<lambda>_. True) | Some c \<Rightarrow> after_audit_cursor c) of
       Inl e \<Rightarrow> Inl e
     | Inr wanted \<Rightarrow> cut_page (\<lambda>r. r) audit_cursor limit (filter wanted (audit_rows dialect tid f db)))"
  by (simp add: audit_page_def list_audit_page_def cut_page_def split: sum.split)

lemma after_audit_cursor_row:
  "iso_time (au_created_at r) \<Longrightarrow> after_audit_cursor (audit_cursor r) = Inr (\<lambda>x. audit_order x < audit_order r)"
  by (auto simp: after_audit_cursor_def audit_cursor_def cursor_text_def cursor_int_def cursor_field_def iso_time_def
      audit_order_def less_prod_def fun_eq_iff)

interpretation records: cursor_listing "\<lambda>limit. True" "audit_page dialect tid f db" "audit_rows dialect tid f db"
  "\<lambda>r x. audit_order x < audit_order r" "\<lambda>r. iso_time (au_created_at r)" "\<lambda>r. r" audit_cursor for dialect tid f db
  by unfold_locales (auto simp: audit_page_eq after_audit_cursor_row)

section \<open>Every listing is complete\<close>

lemma sorted_concat:
  assumes "sorted_wrt R vs" "\<And>v x. x \<in> set (f v) \<Longrightarrow> g x = v" "\<And>v. length (f v) \<le> 1"
  shows "sorted_wrt (\<lambda>x y. R (g x) (g y)) (concat (map f vs))"
  using assms(1)
proof (induction vs)
  case (Cons v vs)
  have "sorted_wrt (\<lambda>x y. R (g x) (g y)) (f v)"
    using assms(3) [of v] by (cases "f v" rule: list.exhaust) auto
  moreover have "R (g x) (g y)" if "x \<in> set (f v)" "y \<in> set (concat (map f vs))" for x y
    using that Cons.prems assms(2) by auto
  ultimately show ?case using Cons by (simp add: sorted_wrt_append)
qed simp

lemma sorted_by_key:
  assumes "distinct (map i xs)" "\<And>x y. key x = key y \<Longrightarrow> i x = i y"
  shows "sorted_wrt (\<lambda>x y. key x < (key y :: 'k :: linorder)) (sort_key key xs)"
proof (rule strictly_sorted)
  show "inj_on key (set xs)" using assms unfolding distinct_map by (metis (mono_tags, lifting) inj_on_def)
  show "distinct xs" using assms(1) by (simp add: distinct_map)
qed

text \<open>Rows carry unique ids in every table.\<close>

definition distinct_ids :: "database \<Rightarrow> bool" where
  "distinct_ids db = (distinct (map rel_id (db_relationships db)) \<and> distinct (map ve_id (db_versions db))
     \<and> distinct (map ro_id (db_roles db)) \<and> distinct (map pe_id (db_permissions db))
     \<and> distinct (map au_id (db_audit db)) \<and> (\<forall>a \<in> set (db_audit db). iso_time (au_created_at a)))"

lemma subject_rows_sorted:
  assumes "distinct_ids db"
  shows "sorted_wrt (\<lambda>r x. subject_order r < subject_order x) (sort_key subject_order (subject_rows db tid st sid))"
  using assms
  by (intro sorted_by_key [of rel_id]) (auto simp: distinct_ids_def subject_rows_def distinct_map inj_on_def subject_order_def)

lemma listed_policies_sorted:
  assumes "distinct_ids db"
  shows "sorted_wrt (\<lambda>r x. version_order (fst r) < version_order (fst x)) (listed_policies tid db)"
  unfolding listed_policies_def
proof (rule sorted_concat [where g = fst])
  show "sorted_wrt (\<lambda>r x. version_order r < version_order x) (sort_key version_order (db_versions db))"
    using assms by (intro sorted_by_key [of ve_id]) (auto simp: distinct_ids_def version_order_def)
qed (auto split: option.splits)

lemma audit_rows_sorted:
  assumes "distinct_ids db"
  shows "sorted_wrt (\<lambda>r x. audit_order x < audit_order r) (audit_rows dialect tid f db)"
  unfolding audit_rows_def sorted_wrt_rev using assms
  by (intro sorted_by_key [of au_id]) (auto simp: distinct_ids_def audit_order_def distinct_map inj_on_def)

lemma named_rows_sorted: "distinct (map snd rows) \<Longrightarrow> sorted_wrt (<) (sort rows)"
  using sorted_by_key [of snd rows "\<lambda>x. x"] by simp

lemma db_names_sorted:
  assumes "distinct_ids db"
  shows "sorted_wrt (<) (sort (map (\<lambda>r. (ro_name r, ro_id r)) (db_roles db)))"
    "sorted_wrt (<) (sort (map (\<lambda>p. (pe_action p, pe_id p)) (db_permissions db)))"
  using assms by (auto intro!: named_rows_sorted simp: distinct_ids_def o_def)

text \<open>
  C24. Every cursor listing is complete: following the cursors from the first page, with any page size
  that is served, ends and gives each row exactly once in the order of the listing; this holds of the
  relationships of a subject, the policies of a tenant, the roles, the permissions and the filtered
  audit records, newest first.
\<close>

theorem listings_complete:
  assumes "distinct_ids db" "1 \<le> limit" "limit \<le> 100"
  shows "follow (length (subject_rows db tid st sid) + 1) (edge_page tid st sid db limit) None
      = Some (map rel_edge (sort_key subject_order (subject_rows db tid st sid)))
    \<and> follow (length (listed_policies tid db) + 1) (policy_page tid db limit) None
      = Some (map view_of_rows (listed_policies tid db))
    \<and> follow (length (db_roles db) + 1) (named_fetch ''name'' (map (\<lambda>r. (ro_name r, ro_id r)) (db_roles db)) limit) None
      = Some (sort (map (\<lambda>r. (ro_name r, ro_id r)) (db_roles db)))
    \<and> follow (length (db_permissions db) + 1)
        (named_fetch ''action'' (map (\<lambda>p. (pe_action p, pe_id p)) (db_permissions db)) limit) None
      = Some (sort (map (\<lambda>p. (pe_action p, pe_id p)) (db_permissions db)))
    \<and> follow (length (audit_rows dialect tid f db) + 1) (audit_page dialect tid f db limit) None
      = Some (audit_rows dialect tid f db)"
proof (intro conjI)
  show "follow (length (subject_rows db tid st sid) + 1) (edge_page tid st sid db limit) None
      = Some (map rel_edge (sort_key subject_order (subject_rows db tid st sid)))"
    using edges.follow_all [OF subject_rows_sorted] assms by simp
  show "follow (length (listed_policies tid db) + 1) (policy_page tid db limit) None
      = Some (map view_of_rows (listed_policies tid db))"
    using policies.follow_all [OF listed_policies_sorted] assms by simp
  show "follow (length (db_roles db) + 1) (named_fetch ''name'' (map (\<lambda>r. (ro_name r, ro_id r)) (db_roles db)) limit) None
      = Some (sort (map (\<lambda>r. (ro_name r, ro_id r)) (db_roles db)))"
    using roles.follow_all [OF db_names_sorted(1)] assms by simp
  show "follow (length (db_permissions db) + 1)
        (named_fetch ''action'' (map (\<lambda>p. (pe_action p, pe_id p)) (db_permissions db)) limit) None
      = Some (sort (map (\<lambda>p. (pe_action p, pe_id p)) (db_permissions db)))"
    using permissions.follow_all [OF db_names_sorted(2)] assms by simp
  have "\<forall>a \<in> set (audit_rows dialect tid f db). iso_time (au_created_at a)"
    using assms(1) by (auto simp: distinct_ids_def audit_rows_def)
  then show "follow (length (audit_rows dialect tid f db) + 1) (audit_page dialect tid f db limit) None
      = Some (audit_rows dialect tid f db)"
    using records.follow_all [OF audit_rows_sorted] assms by simp
qed

definition logged :: "int \<Rightarrow> pyval \<Rightarrow> string \<Rightarrow> audit_row" where
  "logged i user t = \<lparr>au_id = i, au_tenant = 1, au_principal_type = ''jwt'', au_principal_id = ''p'', au_correlation_id = None,
     au_user = [(''id'', user)], au_action = ''read'', au_resource = [], au_decision = ''DENY'', au_matched = [],
     au_reason = None, au_rules = [], au_failed = [], au_created_at = t\<rparr>"

definition busy_database :: database where
  "busy_database = three_edges\<lparr>db_roles := [\<lparr>ro_id = 4, ro_name = ''ops''\<rparr>, \<lparr>ro_id = 5, ro_name = ''dev''\<rparr>],
     db_audit := [logged 6 (PInt 7) ''2024-01-01T00:00:00'', logged 7 (PStr ''7'') ''2024-01-01T00:00:00.000001'',
       logged 8 (PStr ''7'') ''2024-01-01T00:00:00'']\<rparr>"

definition by_user :: "string \<Rightarrow> audit_filter" where
  "by_user u = \<lparr>af_user_id = Some u, af_resource_id = None, af_decision = Some ''deny'', af_start_time = None, af_end_time = None\<rparr>"

theorem listings_complete_witness:
  "follow 4 (edge_page 1 ''user'' ''7'' busy_database 2) None = Some [demo_edge ''a'', demo_edge ''b'', demo_edge ''c'']
   \<and> follow 3 (audit_page ''sqlite'' 1 (by_user ''7'') busy_database 2) None
      = Some [logged 7 (PStr ''7'') ''2024-01-01T00:00:00.000001'', logged 8 (PStr ''7'') ''2024-01-01T00:00:00'']"
proof -
  have ids: "distinct_ids busy_database" by code_simp
  have lens: "length (subject_rows busy_database 1 ''user'' ''7'') + 1 = 4"
    "length (audit_rows ''sqlite'' 1 (by_user ''7'') busy_database) + 1 = 3" by code_simp+
  have rows: "map rel_edge (sort_key subject_order (subject_rows busy_database 1 ''user'' ''7''))
      = [demo_edge ''a'', demo_edge ''b'', demo_edge ''c'']"
    "audit_rows ''sqlite'' 1 (by_user ''7'') busy_database
      = [logged 7 (PStr ''7'') ''2024-01-01T00:00:00.000001'', logged 8 (PStr ''7'') ''2024-01-01T00:00:00'']"
    by code_simp+
  have limits: "1 \<le> (2 :: nat)" "(2 :: nat) \<le> 100" by simp_all
  from listings_complete [OF ids limits, where tid = 1 and st = "''user''" and sid = "''7''"
      and dialect = "''sqlite''" and f = "by_user ''7''"]
  show ?thesis unfolding lens unfolding rows by (elim conjE) (intro conjI)
qed

text \<open>
  The filter by user id depends on the database: with PostgreSQL it finds the records of a user whose
  id is a number, with SQLite it does not.
\<close>

lemma user_filter_depends_on_dialect:
  assumes "dget (au_user a) ''id'' = Some (PInt i)"
  shows "audit_wanted ''postgresql'' (by_user (int_str i)) a = (au_decision a = ''DENY'')"
    and "\<not> audit_wanted ''sqlite'' (by_user (int_str i)) a"
proof -
  have "ascii_json (PInt i) = int_str i"
  proof -
    have plain: "ascii_char c = [c]" if "is_digit c \<or> c = CHR ''-''" for c
      using that by (auto simp: ascii_char_def Let_def is_digit_def code_def)
    have "map ascii_char (int_str i) = map (\<lambda>c. [c]) (int_str i)" by (intro map_cong refl plain int_str_chars)
    then have "concat (map ascii_char (int_str i)) = concat (map (\<lambda>c. [c]) (int_str i))" by (rule arg_cong)
    then show ?thesis unfolding ascii_json_def json_text.simps concat_map_singleton by simp
  qed
  then have field: "json_field ''postgresql'' (au_user a) ''id'' = Some (int_str i)" "json_field ''sqlite'' (au_user a) ''id'' = None"
    using assms by (simp_all add: json_field_def is_list_def is_dict_def)
  have deny: "upper_ascii ''deny'' = ''DENY''" by code_simp
  have filter: "audit_wanted dialect (by_user (int_str i)) a
      = (json_field dialect (au_user a) ''id'' = Some (int_str i) \<and> au_decision a = upper_ascii ''deny'')" for dialect
    using int_str_nonempty [of i] by (simp add: audit_wanted_def by_user_def wants_def)
  show "audit_wanted ''postgresql'' (by_user (int_str i)) a = (au_decision a = ''DENY'')"
    and "\<not> audit_wanted ''sqlite'' (by_user (int_str i)) a"
    unfolding filter field deny by simp_all
qed

end
