(* ===== verification/Seeding.thy ===== *)
theory Seeding
  imports Listings Settings
begin

text \<open>
  The demo data of \<open>services/seeding.py\<close> and \<open>config/sample_data.py\<close>: one tenant, user, role, two
  permissions, a relationship and two policies, inserted where they are missing, after clearing what a
  former run left when asked to. Clearing deletes rows that others refer to: PostgreSQL removes the
  dependent rows with them, SQLite, which checks no foreign keys here, leaves them.
\<close>

section \<open>The sample\<close>

definition sample_user_id :: int where
  "sample_user_id = 1"

definition sample_external_id :: string where
  "sample_external_id = ''sample-manager''"

definition sample_role :: string where
  "sample_role = ''manager''"

definition sample_permissions :: "string list" where
  "sample_permissions = [''approve_payment'', ''view_project'']"

definition sample_relationship :: relationship_record where
  "sample_relationship = \<lparr>rr_subject_type = ''user'', rr_subject_id = ''1'', rr_relation = ''member_of'',
     rr_object_type = ''team'', rr_object_id = ''engineering''\<rparr>"

record seed_summary =
  ss_tenant_key :: string
  ss_created_tenant :: bool
  ss_created_user :: bool
  ss_created_role :: bool
  ss_created_permissions :: int
  ss_created_relationships :: int
  ss_created_policies :: int

section \<open>Inserting what is missing\<close>

definition tenant_by_key :: "string \<Rightarrow> database \<Rightarrow> tenant_record option" where
  "tenant_by_key tenant_key db = find (\<lambda>t. tr_key t = tenant_key) (db_tenants db)"

definition role_by_name :: "database \<Rightarrow> role_row option" where
  "role_by_name db = find (\<lambda>r. ro_name r = sample_role) (db_roles db)"

definition ensure_tenant :: "string \<Rightarrow> database \<Rightarrow> tenant_record \<times> database" where
  "ensure_tenant tenant_key db = (case tenant_by_key tenant_key db of
     Some t \<Rightarrow> (t, db)
   | None \<Rightarrow> (let t = new_tenant (db_next_id db) tenant_key in
       (t, db\<lparr>db_tenants := db_tenants db @ [t], db_next_id := db_next_id db + 1\<rparr>)))"

definition ensure_role :: "database \<Rightarrow> int \<times> database" where
  "ensure_role db = (case role_by_name db of Some r \<Rightarrow> (ro_id r, db) | None \<Rightarrow> (db_next_id db, insert_role sample_role db))"

definition add_once :: "'a \<Rightarrow> 'a list \<Rightarrow> 'a list" where
  "add_once x xs = (if x \<in> set xs then xs else xs @ [x])"

definition ensure_permission :: "int \<Rightarrow> string \<Rightarrow> database \<Rightarrow> int \<times> database" where
  "ensure_permission role_id action db =
     (let (created, permission_id, db1) = (case find (\<lambda>p. pe_action p = action) (db_permissions db) of
            Some p \<Rightarrow> (0, pe_id p, db) | None \<Rightarrow> (1, db_next_id db, insert_permission action db))
      in (created, db1\<lparr>db_role_permissions := add_once (role_id, permission_id) (db_role_permissions db1)\<rparr>))"

fun ensure_permissions :: "int \<Rightarrow> string list \<Rightarrow> database \<Rightarrow> int \<times> database" where
  "ensure_permissions role_id [] db = (0, db)"
| "ensure_permissions role_id (action # actions) db =
     (let (n, db1) = ensure_permission role_id action db; (m, db2) = ensure_permissions role_id actions db1
      in (n + m, db2))"

definition ensure_user :: "int \<Rightarrow> database \<Rightarrow> bool \<times> database" where
  "ensure_user role_id db =
     (let created = \<not> list_ex (\<lambda>u. us_id u = sample_user_id) (db_users db);
          db1 = (if created
            then db\<lparr>db_users := db_users db @ [\<lparr>us_id = sample_user_id, us_external_id = Some sample_external_id\<rparr>]\<rparr>
            else db)
      in (created, db1\<lparr>db_user_roles := add_once (sample_user_id, role_id) (db_user_roles db1)\<rparr>))"

definition ensure_relationship :: "int \<Rightarrow> database \<Rightarrow> int \<times> database" where
  "ensure_relationship tenant_id db =
     (if list_ex (\<lambda>r. rel_tenant r = tenant_id \<and> rel_edge r = sample_relationship) (db_relationships db) then (0, db)
      else (1, db\<lparr>db_relationships := db_relationships db
                @ [\<lparr>rel_id = db_next_id db, rel_tenant = tenant_id, rel_edge = sample_relationship\<rparr>],
              db_next_id := db_next_id db + 1\<rparr>))"

definition ensure_policy :: "int \<Rightarrow> pydict \<Rightarrow> database \<Rightarrow> int \<times> database" where
  "ensure_policy tenant_id policy db =
     (let policy_key = py_str (pget policy ''policy_key'') in
      if find_policy db tenant_id policy_key \<noteq> None then (0, db)
      else (1, db\<lparr>
        db_policies := db_policies db @ [\<lparr>po_id = db_next_id db, po_tenant = tenant_id, po_key = policy_key, po_current = 1\<rparr>],
        db_versions := db_versions db @ [\<lparr>ve_id = db_next_id db + 1, ve_tenant = tenant_id, ve_policy = db_next_id db,
          ve_version = 1, ve_action = py_str (pget policy ''action''), ve_effect = py_str (pget policy ''effect''),
          ve_priority = (case pget policy ''priority'' of PInt i \<Rightarrow> i | _ \<Rightarrow> 0),
          ve_conditions = (case pget policy ''conditions'' of PDict c \<Rightarrow> c | _ \<Rightarrow> []),
          ve_created_by = Some ''seed-data'', ve_state = ''active''\<rparr>],
        db_next_id := db_next_id db + 2\<rparr>))"

fun ensure_policies :: "int \<Rightarrow> pydict list \<Rightarrow> database \<Rightarrow> int \<times> database" where
  "ensure_policies tenant_id [] db = (0, db)"
| "ensure_policies tenant_id (policy # policies) db =
     (let (n, db1) = ensure_policy tenant_id policy db; (m, db2) = ensure_policies tenant_id policies db1
      in (n + m, db2))"

section \<open>Clearing\<close>

text \<open>What \<open>ON DELETE CASCADE\<close> removes: rows whose tenant, policy, user, role or permission is gone.\<close>

definition delete_orphans :: "database \<Rightarrow> database" where
  "delete_orphans db =
     (let tenant = (\<lambda>i. i \<in> set (map tr_id (db_tenants db))); role = (\<lambda>i. i \<in> set (map ro_id (db_roles db))) in db\<lparr>
        db_relationships := filter (\<lambda>r. tenant (rel_tenant r)) (db_relationships db),
        db_acl := filter (\<lambda>a. tenant (ar_tenant_id a)) (db_acl db),
        db_policies := filter (\<lambda>p. tenant (po_tenant p)) (db_policies db),
        db_versions := filter (\<lambda>v. tenant (ve_tenant v) \<and> (\<exists>p \<in> set (db_policies db). po_id p = ve_policy v \<and> tenant (po_tenant p)))
          (db_versions db),
        db_audit := filter (\<lambda>a. tenant (au_tenant a)) (db_audit db),
        db_models := filter (\<lambda>m. tenant (mo_tenant m)) (db_models db),
        db_user_roles := filter (\<lambda>(u, r). u \<in> set (map us_id (db_users db)) \<and> role r) (db_user_roles db),
        db_role_permissions := filter (\<lambda>(r, p). role r \<and> p \<in> set (map pe_id (db_permissions db))) (db_role_permissions db)\<rparr>)"

definition delete_sample_rows :: "tenant_record \<Rightarrow> database \<Rightarrow> database" where
  "delete_sample_rows tenant db =
     (let role = role_by_name db; is_role = (\<lambda>i. map_option ro_id role = Some i);
          is_permission = (\<lambda>i. \<exists>p \<in> set (db_permissions db). pe_id p = i \<and> pe_action p \<in> set sample_permissions) in db\<lparr>
        db_user_roles := filter (\<lambda>(u, r). u \<noteq> sample_user_id
          \<or> \<not> list_ex (\<lambda>x. us_id x = sample_user_id) (db_users db)) (db_user_roles db),
        db_role_permissions := filter (\<lambda>(r, p). \<not> is_role r \<and> \<not> is_permission p) (db_role_permissions db),
        db_versions := filter (\<lambda>v. ve_tenant v \<noteq> tr_id tenant) (db_versions db),
        db_policies := filter (\<lambda>p. po_tenant p \<noteq> tr_id tenant) (db_policies db),
        db_relationships := filter (\<lambda>r. rel_tenant r \<noteq> tr_id tenant) (db_relationships db),
        db_roles := filter (\<lambda>r. \<not> is_role (ro_id r)) (db_roles db),
        db_permissions := filter (\<lambda>p. \<not> is_permission (pe_id p)) (db_permissions db),
        db_users := filter (\<lambda>u. us_id u \<noteq> sample_user_id) (db_users db),
        db_tenants := filter (\<lambda>t. tr_id t \<noteq> tr_id tenant) (db_tenants db)\<rparr>)"

definition clear_sample_data :: "string \<Rightarrow> string \<Rightarrow> database \<Rightarrow> database" where
  "clear_sample_data dialect tenant_key db = (case tenant_by_key tenant_key db of
     None \<Rightarrow> db
   | Some tenant \<Rightarrow> (let db1 = delete_sample_rows tenant db in
       if dialect = ''postgresql'' then delete_orphans db1 else db1))"

section \<open>Seeding\<close>

definition seed_demo_data :: "string \<Rightarrow> string \<Rightarrow> bool \<Rightarrow> database \<Rightarrow> seed_summary \<times> database" where
  "seed_demo_data dialect tenant_key reset db =
     (let db0 = (if reset then clear_sample_data dialect tenant_key db else db);
          (tenant, db1) = ensure_tenant tenant_key db0;
          (role_id, db2) = ensure_role db1;
          (permissions, db3) = ensure_permissions role_id sample_permissions db2;
          (user, db4) = ensure_user role_id db3;
          (relationships, db5) = ensure_relationship (tr_id tenant) db4;
          (policies, db6) = ensure_policies (tr_id tenant) sample_policy_definitions db5
      in (\<lparr>ss_tenant_key = tr_key tenant, ss_created_tenant = (tenant_by_key tenant_key db0 = None),
           ss_created_user = user, ss_created_role = (role_by_name db1 = None), ss_created_permissions = permissions,
           ss_created_relationships = relationships, ss_created_policies = policies\<rparr>, db6))"

section \<open>A second run changes nothing\<close>

lemma set_add_once [simp]: "set (add_once x xs) = insert x (set xs)" "x \<in> set xs \<Longrightarrow> add_once x xs = xs"
  by (auto simp: add_once_def)

lemma find_snoc: "find P (xs @ [x]) = (case find P xs of Some y \<Rightarrow> Some y | None \<Rightarrow> if P x then Some x else None)"
  by (induction xs) auto

text \<open>What a step leaves as it was.\<close>

lemma ensure_frames:
  "ensure_tenant k db = (t, db') \<Longrightarrow> db_roles db' = db_roles db"
  "ensure_role db = (r, db') \<Longrightarrow> db_tenants db' = db_tenants db"
  "ensure_permission r a db = (n, db') \<Longrightarrow> db_tenants db' = db_tenants db \<and> db_roles db' = db_roles db"
  "ensure_user r db = (u, db') \<Longrightarrow> db_tenants db' = db_tenants db \<and> db_roles db' = db_roles db
     \<and> db_permissions db' = db_permissions db \<and> db_role_permissions db' = db_role_permissions db"
  "ensure_relationship i db = (n, db') \<Longrightarrow> db_tenants db' = db_tenants db \<and> db_roles db' = db_roles db
     \<and> db_permissions db' = db_permissions db \<and> db_role_permissions db' = db_role_permissions db
     \<and> db_users db' = db_users db \<and> db_user_roles db' = db_user_roles db"
  "ensure_policy i p db = (n, db') \<Longrightarrow> db_tenants db' = db_tenants db \<and> db_roles db' = db_roles db
     \<and> db_permissions db' = db_permissions db \<and> db_role_permissions db' = db_role_permissions db
     \<and> db_users db' = db_users db \<and> db_user_roles db' = db_user_roles db \<and> db_relationships db' = db_relationships db"
  by (auto simp: ensure_tenant_def ensure_role_def ensure_permission_def ensure_user_def ensure_relationship_def
      ensure_policy_def insert_role_def insert_permission_def Let_def split: option.splits if_splits)

lemma ensure_permissions_frame:
  "ensure_permissions r as db = (n, db') \<Longrightarrow> db_tenants db' = db_tenants db \<and> db_roles db' = db_roles db"
  by (induction as arbitrary: db n db') (auto split: prod.splits dest!: ensure_frames(3))

lemma ensure_policies_frame:
  "ensure_policies i ps db = (n, db') \<Longrightarrow> db_tenants db' = db_tenants db \<and> db_roles db' = db_roles db
     \<and> db_permissions db' = db_permissions db \<and> db_role_permissions db' = db_role_permissions db
     \<and> db_users db' = db_users db \<and> db_user_roles db' = db_user_roles db \<and> db_relationships db' = db_relationships db"
proof (induction ps arbitrary: db n db')
  case (Cons p ps)
  then show ?case by (auto split: prod.splits dest!: ensure_frames(6))
qed simp

lemma ensure_tenant_again: "ensure_tenant k db = (t, db') \<Longrightarrow> tenant_by_key k db' = Some t"
  by (auto simp: ensure_tenant_def tenant_by_key_def find_snoc new_tenant_def Let_def split: option.splits)

lemma ensure_role_again: "ensure_role db = (r, db') \<Longrightarrow> \<exists>x. role_by_name db' = Some x \<and> ro_id x = r"
  by (auto simp: ensure_role_def role_by_name_def find_snoc insert_role_def split: option.splits)

definition linked :: "int \<Rightarrow> string \<Rightarrow> database \<Rightarrow> bool" where
  "linked r a db = (\<exists>p. find (\<lambda>p. pe_action p = a) (db_permissions db) = Some p \<and> (r, pe_id p) \<in> set (db_role_permissions db))"

lemma ensure_permission_links: "ensure_permission r a db = (n, db') \<Longrightarrow> linked r a db'"
  by (auto simp: ensure_permission_def linked_def find_snoc insert_permission_def Let_def split: option.splits)

lemma ensure_permission_keeps: "ensure_permission r a db = (n, db') \<Longrightarrow> linked r b db \<Longrightarrow> linked r b db'"
  by (auto simp: ensure_permission_def linked_def find_snoc insert_permission_def Let_def split: option.splits)

lemma ensure_permission_linked: "linked r a db \<Longrightarrow> ensure_permission r a db = (0, db)"
  by (auto simp: ensure_permission_def linked_def)

lemma ensure_permissions_keeps: "ensure_permissions r as db = (n, db') \<Longrightarrow> linked r b db \<Longrightarrow> linked r b db'"
  by (induction as arbitrary: db n db') (auto split: prod.splits dest: ensure_permission_keeps)

lemma ensure_permissions_links: "ensure_permissions r as db = (n, db') \<Longrightarrow> \<forall>a \<in> set as. linked r a db'"
  by (induction as arbitrary: db n db')
    (auto split: prod.splits dest: ensure_permission_links ensure_permissions_keeps)

lemma ensure_permissions_again: "\<forall>a \<in> set as. linked r a db \<Longrightarrow> ensure_permissions r as db = (0, db)"
  by (induction as) (simp_all add: ensure_permission_linked)

lemma ensure_user_again: "ensure_user r db = (u, db') \<Longrightarrow>
    list_ex (\<lambda>u. us_id u = sample_user_id) (db_users db') \<and> (sample_user_id, r) \<in> set (db_user_roles db')"
  by (auto simp: ensure_user_def Let_def list_ex_iff)

lemma ensure_relationship_again: "ensure_relationship i db = (n, db') \<Longrightarrow>
    list_ex (\<lambda>r. rel_tenant r = i \<and> rel_edge r = sample_relationship) (db_relationships db')"
  by (auto simp: ensure_relationship_def list_ex_iff split: if_splits)

lemma find_policy_snoc: "find_policy db i k \<noteq> None \<Longrightarrow> db_policies db' = db_policies db @ ps \<Longrightarrow> find_policy db' i k \<noteq> None"
  by (auto simp: find_policy_def find_None_iff)

lemma ensure_policy_adds:
  assumes "ensure_policy i p db = (n, db')"
  shows "\<exists>ps. db_policies db' = db_policies db @ ps" "find_policy db' i (py_str (pget p ''policy_key'')) \<noteq> None"
  using assms by (auto simp: ensure_policy_def Let_def find_policy_def find_snoc split: if_splits option.splits)

lemma ensure_policies_adds:
  "ensure_policies i ps db = (n, db') \<Longrightarrow> (\<exists>qs. db_policies db' = db_policies db @ qs)
    \<and> (\<forall>p \<in> set ps. find_policy db' i (py_str (pget p ''policy_key'')) \<noteq> None)"
proof (induction ps arbitrary: db n db')
  case (Cons p ps)
  obtain n1 db1 n2 where s: "ensure_policy i p db = (n1, db1)" "ensure_policies i ps db1 = (n2, db')"
    using Cons.prems by (auto split: prod.splits)
  obtain qs where qs: "db_policies db' = db_policies db1 @ qs"
    "\<forall>p \<in> set ps. find_policy db' i (py_str (pget p ''policy_key'')) \<noteq> None"
    using Cons.IH [OF s(2)] by blast
  have "find_policy db' i (py_str (pget p ''policy_key'')) \<noteq> None"
    using ensure_policy_adds(2) [OF s(1)] qs(1) by (rule find_policy_snoc)
  then show ?case using ensure_policy_adds(1) [OF s(1)] qs by auto
qed simp

lemma ensure_policies_again:
  "\<forall>p \<in> set ps. find_policy db i (py_str (pget p ''policy_key'')) \<noteq> None \<Longrightarrow> ensure_policies i ps db = (0, db)"
  by (induction ps) (simp_all add: ensure_policy_def)

text \<open>The steps of a run.\<close>

definition seed_start :: "string \<Rightarrow> string \<Rightarrow> bool \<Rightarrow> database \<Rightarrow> database" where
  "seed_start dialect tenant_key reset db = (if reset then clear_sample_data dialect tenant_key db else db)"

lemma seed_steps:
  assumes "seed_demo_data dialect k reset db = (summary, db')"
  obtains t a r b n c u d m e l where
    "ensure_tenant k (seed_start dialect k reset db) = (t, a)" "ensure_role a = (r, b)"
    "ensure_permissions r sample_permissions b = (n, c)" "ensure_user r c = (u, d)"
    "ensure_relationship (tr_id t) d = (m, e)" "ensure_policies (tr_id t) sample_policy_definitions e = (l, db')"
  using assms unfolding seed_demo_data_def seed_start_def [symmetric] by (auto simp: Let_def split: prod.splits)

text \<open>
  Seeding is idempotent, on any database and for any tenant: the second run reports that it created
  nothing and leaves every table as the first one left it.
\<close>

lemma seed_idempotent:
  assumes "seed_demo_data dialect tenant_key reset db = (summary, db1)"
  shows "seed_demo_data dialect tenant_key False db1 =
    (\<lparr>ss_tenant_key = tenant_key, ss_created_tenant = False, ss_created_user = False, ss_created_role = False,
      ss_created_permissions = 0, ss_created_relationships = 0, ss_created_policies = 0\<rparr>, db1)"
proof -
  from seed_steps [OF assms] obtain t a r b n c u d m e l where
    steps: "ensure_tenant tenant_key (seed_start dialect tenant_key reset db) = (t, a)" "ensure_role a = (r, b)"
      "ensure_permissions r sample_permissions b = (n, c)" "ensure_user r c = (u, d)"
      "ensure_relationship (tr_id t) d = (m, e)" "ensure_policies (tr_id t) sample_policy_definitions e = (l, db1)" .
  note frames = ensure_frames(2) [OF steps(2)] ensure_permissions_frame [OF steps(3)] ensure_frames(4) [OF steps(4)]
    ensure_frames(5) [OF steps(5)] ensure_policies_frame [OF steps(6)]
  have tenant: "tenant_by_key tenant_key db1 = Some t"
    using ensure_tenant_again [OF steps(1)] frames by (simp add: tenant_by_key_def)
  obtain x where role: "role_by_name db1 = Some x" "ro_id x = r"
    using ensure_role_again [OF steps(2)] frames by (auto simp: role_by_name_def)
  have perms: "ensure_permissions r sample_permissions db1 = (0, db1)"
    using ensure_permissions_links [OF steps(3)] frames by (intro ensure_permissions_again) (simp add: linked_def)
  have user: "ensure_user r db1 = (False, db1)"
    using ensure_user_again [OF steps(4)] frames by (simp add: ensure_user_def)
  have edge: "ensure_relationship (tr_id t) db1 = (0, db1)"
    using ensure_relationship_again [OF steps(5)] frames by (simp add: ensure_relationship_def)
  have policies: "ensure_policies (tr_id t) sample_policy_definitions db1 = (0, db1)"
    using ensure_policies_adds [OF steps(6)] by (intro ensure_policies_again) blast
  have key: "tr_key t = tenant_key" using tenant by (auto simp: tenant_by_key_def find_Some_iff)
  show ?thesis
    by (simp add: seed_demo_data_def ensure_tenant_def ensure_role_def tenant role perms user edge policies key Let_def)
qed

lemma seed_idempotent_example:
  "snd (seed_demo_data ''sqlite'' ''default'' False (snd (seed_demo_data ''sqlite'' ''default'' True empty_database)))
     = snd (seed_demo_data ''sqlite'' ''default'' True empty_database)
   \<and> map po_key (db_policies (snd (seed_demo_data ''sqlite'' ''default'' True empty_database))) = [''approve-manager'', ''view-owner'']"
proof -
  let ?s = "seed_demo_data ''sqlite'' ''default'' True empty_database"
  have "seed_demo_data ''sqlite'' ''default'' True empty_database = (fst ?s, snd ?s)" by simp
  from seed_idempotent [OF this] have "snd (seed_demo_data ''sqlite'' ''default'' False (snd ?s)) = snd ?s"
    by (simp only: snd_conv)
  moreover have "map po_key (db_policies (snd ?s)) = [''approve-manager'', ''view-owner'']" by code_simp
  ultimately show ?thesis by blast
qed

section \<open>What a reset forgets\<close>

lemma reset_restarts_versions:
  assumes "seed_demo_data dialect tenant_key True db = (summary, db')" "distinct (map tr_key (db_tenants db))"
  shows "\<exists>t. tenant_by_key tenant_key db' = Some t \<and> tr_policy_version t = 1 \<and> tr_revision t = 1"
proof -
  let ?db0 = "seed_start dialect tenant_key True db"
  from seed_steps [OF assms(1)] obtain t a r b n c u d m e l where
    steps: "ensure_tenant tenant_key ?db0 = (t, a)" "ensure_role a = (r, b)" "ensure_permissions r sample_permissions b = (n, c)"
      "ensure_user r c = (u, d)" "ensure_relationship (tr_id t) d = (m, e)"
      "ensure_policies (tr_id t) sample_policy_definitions e = (l, db')" .
  have tenant: "tenant_by_key tenant_key db' = Some t"
    using ensure_tenant_again [OF steps(1)] ensure_frames(2) [OF steps(2)] ensure_permissions_frame [OF steps(3)]
      ensure_frames(4) [OF steps(4)] ensure_frames(5) [OF steps(5)] ensure_policies_frame [OF steps(6)]
    by (simp add: tenant_by_key_def)
  have "tenant_by_key tenant_key ?db0 = None"
  proof (cases "tenant_by_key tenant_key db")
    case (Some x)
    then have x: "x \<in> set (db_tenants db)" "tr_key x = tenant_key" by (auto simp: tenant_by_key_def find_Some_iff)
    have "db_tenants ?db0 = filter (\<lambda>y. tr_id y \<noteq> tr_id x) (db_tenants db)"
      using Some by (simp add: seed_start_def clear_sample_data_def delete_sample_rows_def delete_orphans_def Let_def)
    moreover have "y = x" if "y \<in> set (db_tenants db)" "tr_key y = tenant_key" for y
      using assms(2) x that by (auto simp: distinct_map inj_on_def)
    ultimately show ?thesis by (auto simp: tenant_by_key_def find_None_iff)
  qed (simp add: seed_start_def clear_sample_data_def)
  then have "t = new_tenant (db_next_id ?db0) tenant_key" using steps(1) by (simp add: ensure_tenant_def Let_def)
  then show ?thesis using tenant by (simp add: new_tenant_def)
qed

text \<open>A user other than the sample user holds the sample role: its link dangles after a reset on SQLite.\<close>

definition two_managers :: database where
  "two_managers = (snd (seed_demo_data ''sqlite'' ''default'' False empty_database))
     \<lparr>db_users := [\<lparr>us_id = 1, us_external_id = None\<rparr>, \<lparr>us_id = 2, us_external_id = None\<rparr>],
      db_user_roles := [(1, 2), (2, 2)]\<rparr>"

lemma reset_leaves_dangling_links:
  "rbac_ok True two_managers \<and> \<not> rbac_ok True (snd (seed_demo_data ''sqlite'' ''default'' True two_managers))
    \<and> rbac_ok True (snd (seed_demo_data ''postgresql'' ''default'' True two_managers))"
  by code_simp

section \<open>The invariants\<close>

lemma rbac_ok_role: "rbac_ok strict db \<Longrightarrow> ensure_role db = (r, db') \<Longrightarrow> rbac_ok strict db' \<and> r \<in> ro_id ` set (db_roles db')"
proof (cases "role_by_name db")
  case None
  assume "rbac_ok strict db" "ensure_role db = (r, db')"
  moreover have "\<not> list_ex (\<lambda>r. ro_name r = sample_role) (db_roles db)"
    using None by (simp add: role_by_name_def find_None_iff list_ex_iff)
  ultimately show ?thesis using None insert_role_ok by (auto simp: ensure_role_def insert_role_def)
next
  case (Some x)
  then have "x \<in> set (db_roles db)" by (auto simp: role_by_name_def find_Some_iff)
  moreover assume "rbac_ok strict db" "ensure_role db = (r, db')"
  ultimately show ?thesis using Some by (auto simp: ensure_role_def)
qed

lemma rbac_ok_link: "rbac_ok strict db \<Longrightarrow> r \<in> ro_id ` set (db_roles db) \<Longrightarrow> p \<in> pe_id ` set (db_permissions db) \<Longrightarrow>
    rbac_ok strict (db\<lparr>db_role_permissions := add_once (r, p) (db_role_permissions db)\<rparr>)"
  by (auto simp: rbac_ok_def)

lemma rbac_ok_permission:
  assumes "rbac_ok strict db" "ensure_permission r a db = (n, db')" "r \<in> ro_id ` set (db_roles db)"
  shows "rbac_ok strict db'"
proof (cases "find (\<lambda>p. pe_action p = a) (db_permissions db)")
  case None
  then have "rbac_ok strict (insert_permission a db)"
    using assms(1) by (intro insert_permission_ok) (auto simp: find_None_iff list_ex_iff)
  then have "rbac_ok strict ((insert_permission a db)\<lparr>db_role_permissions
      := add_once (r, db_next_id db) (db_role_permissions (insert_permission a db))\<rparr>)"
    using assms(3) by (intro rbac_ok_link) (auto simp: insert_permission_def)
  then show ?thesis using None assms(2) by (auto simp: ensure_permission_def Let_def)
next
  case (Some p)
  then have "pe_id p \<in> pe_id ` set (db_permissions db)" by (auto simp: find_Some_iff)
  then show ?thesis using Some assms rbac_ok_link by (auto simp: ensure_permission_def)
qed

lemma rbac_ok_permissions:
  "rbac_ok strict db \<Longrightarrow> ensure_permissions r as db = (n, db') \<Longrightarrow> r \<in> ro_id ` set (db_roles db) \<Longrightarrow> rbac_ok strict db'"
proof (induction as arbitrary: db n)
  case (Cons a as)
  then obtain n1 db1 n2 where s: "ensure_permission r a db = (n1, db1)" "ensure_permissions r as db1 = (n2, db')"
    by (auto split: prod.splits)
  then show ?case using Cons.IH [OF rbac_ok_permission [OF Cons.prems(1) s(1) Cons.prems(3)] s(2)]
      ensure_frames(3) [OF s(1)] Cons.prems(3) by simp
qed simp

lemma rbac_ok_user:
  assumes "rbac_ok strict db" "ensure_user r db = (u, db')" "r \<in> ro_id ` set (db_roles db)"
  shows "rbac_ok strict db'"
proof -
  have "set (db_user_roles db') = insert (sample_user_id, r) (set (db_user_roles db))" "db_next_id db' = db_next_id db"
    using assms(2) by (auto simp: ensure_user_def Let_def)
  then show ?thesis using assms(1,3) ensure_frames(4) [OF assms(2)] by (simp add: rbac_ok_def)
qed

lemma ensure_ids:
  "ensure_tenant k db = (t, db') \<Longrightarrow> rbac_tables db' = rbac_tables db \<and> db_next_id db \<le> db_next_id db'"
  "ensure_relationship i db = (n, db') \<Longrightarrow> rbac_tables db' = rbac_tables db \<and> db_next_id db \<le> db_next_id db'"
  "ensure_policy i p db = (m, db') \<Longrightarrow> rbac_tables db' = rbac_tables db \<and> db_next_id db \<le> db_next_id db'"
  by (auto simp: ensure_tenant_def ensure_relationship_def ensure_policy_def rbac_tables_def Let_def
      split: option.splits if_splits)

lemma ensure_policies_ids:
  "ensure_policies i ps db = (m, db') \<Longrightarrow> rbac_tables db' = rbac_tables db \<and> db_next_id db \<le> db_next_id db'"
proof (induction ps arbitrary: db m)
  case (Cons p ps)
  then show ?case by (auto split: prod.splits dest!: ensure_ids(3)) fastforce+
qed simp

lemma clear_rbac_ok:
  assumes "rbac_ok strict db" "strict \<Longrightarrow> dialect = ''postgresql''"
  shows "rbac_ok strict (clear_sample_data dialect k db)"
proof (cases "tenant_by_key k db")
  case (Some t)
  let ?db = "delete_sample_rows t db"
  have "rbac_ok strict (delete_orphans ?db)" "rbac_ok False ?db"
    using assms(1) by (auto simp: rbac_ok_def delete_orphans_def delete_sample_rows_def Let_def distinct_map_filter)
  then show ?thesis using Some assms(2) by (cases strict) (auto simp: clear_sample_data_def Let_def)
qed (simp add: clear_sample_data_def assms(1))

lemma seed_rbac_ok:
  assumes "rbac_ok strict db" "seed_demo_data dialect k reset db = (summary, db')" "reset \<Longrightarrow> strict \<Longrightarrow> dialect = ''postgresql''"
  shows "rbac_ok strict db'"
proof -
  have ok0: "rbac_ok strict (seed_start dialect k reset db)" using assms(1,3) clear_rbac_ok by (simp add: seed_start_def)
  from seed_steps [OF assms(2)] obtain t a r b n c u d m e l where
    steps: "ensure_tenant k (seed_start dialect k reset db) = (t, a)" "ensure_role a = (r, b)"
      "ensure_permissions r sample_permissions b = (n, c)" "ensure_user r c = (u, d)"
      "ensure_relationship (tr_id t) d = (m, e)" "ensure_policies (tr_id t) sample_policy_definitions e = (l, db')" .
  have "rbac_ok strict a" using ensure_ids(1) [OF steps(1)] ok0 rbac_ok_cong by meson
  then have b: "rbac_ok strict b" "r \<in> ro_id ` set (db_roles b)" using rbac_ok_role [OF _ steps(2)] by simp_all
  then have "rbac_ok strict c" "r \<in> ro_id ` set (db_roles c)"
    using rbac_ok_permissions [OF _ steps(3)] ensure_permissions_frame [OF steps(3)] by simp_all
  then have "rbac_ok strict d" using rbac_ok_user [OF _ steps(4)] by simp
  then have "rbac_ok strict e" using ensure_ids(2) [OF steps(5)] rbac_ok_cong by meson
  then show ?thesis using ensure_policies_ids [OF steps(6)] rbac_ok_cong by meson
qed

end
