(* ===== verification/Routes.thy ===== *)
theory Routes
  imports Deployment Middleware PolicyTools Seeding
begin

text \<open>
  The routes (\<open>api/routes/\<close>, \<open>api/responses.py\<close>, \<open>api/service_modes.py\<close>): what each handler does
  once FastAPI has matched the path and validated the parameters into an \<open>api_call\<close>, with the checks
  of its dependencies, its error mapping and the document it answers. The asynchronous variants of the
  authorization calls run the same functions in a thread, and log lines are left out.
\<close>

section \<open>Envelopes\<close>

definition success_response :: "pyval \<Rightarrow> string option \<Rightarrow> int option \<Rightarrow> string option \<Rightarrow> pydict \<Rightarrow> pyval" where
  "success_response data request_id limit next_cursor meta = PDict [(''data'', data),
     (''meta'', PDict [(''request_id'', ostr_val request_id), (''limit'', oint_val limit),
        (''next_cursor'', ostr_val next_cursor), (''extra'', PDict meta)]),
     (''error'', PNone)]"

definition answer_with :: "http_request \<Rightarrow> pyval \<Rightarrow> pyval" where
  "answer_with request data = success_response data (rq_id request) None None []"

definition page_answer :: "http_request \<Rightarrow> int \<Rightarrow> pydict option \<Rightarrow> pydict \<Rightarrow> pydict list \<Rightarrow> pyval" where
  "page_answer request limit next_cursor meta rows =
     success_response (PList (map PDict rows)) (rq_id request) (Some limit) (map_option encode_cursor next_cursor) meta"

definition warnings_meta :: "string list \<Rightarrow> pydict" where
  "warnings_meta warnings = (if warnings = [] then [] else [(''warnings'', PList (map PStr warnings))])"

section \<open>The surroundings\<close>

text \<open>
  What is not part of the program: digests and tokens, the file, YAML and JSON parsers, the credentials
  FastAPI reads from the Authorization header, and the probes of the database and of Redis (\<open>None\<close>: no
  client, \<open>Some None\<close>: it answered, else the error).
\<close>

record environment =
  en_settings :: settings
  en_auth :: auth_ports
  en_digest :: "pyval \<Rightarrow> string"
  en_files :: file_ports
  en_credentials :: "http_request \<Rightarrow> (string \<times> string) option"
  en_dialect :: string
  en_database_error :: "string option"
  en_redis_probe :: "string option option"

text \<open>
  The service that is wired for a request. Opening its session first initialises a SQLite database, which
  startup did already: \<open>initialize_database\<close> is cached, so that a process whose startup succeeded does nothing
  there (\<open>initialized_once\<close> in \<open>Storage\<close>), and one whose startup failed serves no request. The failure of a first
  initialisation inside a request, in a process that runs no startup, is left out.
\<close>

definition service_of :: "environment \<Rightarrow> http_request \<Rightarrow> site auth_service" where
  "service_of env request =
     build_service (en_settings env) (en_digest env) (au_parse_json (en_auth env))
       (\<lambda>paths. lift (load_policies_from_paths (en_files env) paths)) (rq_id request)"

definition site_impact :: "site impact_analyzer" where
  "site_impact = \<lparr>im_tenants = site_tenants, im_list_current = (\<lambda>t ps. on_world (on_db (list_current_policies t ps))),
     im_list_user_ids = on_world (on_db list_user_ids), im_user_contexts = (\<lambda>ids. on_world (on_db (get_user_contexts ids))),
     im_user_context = (\<lambda>i. on_world (on_db (get_user_context i))),
     im_list_for_subjects = (\<lambda>t ty ids. on_world (on_db (list_for_subjects t ty ids))),
     im_list_for_subject = (\<lambda>t ty sid. on_world (on_db (list_for_subject t ty sid)))\<rparr>"

definition tenant_for :: "string \<Rightarrow> (site, tenant_record) eff" where
  "tenant_for tenant_key = tp_get_or_create site_tenants tenant_key"

definition sql_guarded :: "('w, 'a) eff \<Rightarrow> ('w, 'a) eff" where
  "sql_guarded m = catch m is_sql_error (\<lambda>_. throw db_error)"

definition value_guarded :: "('w, 'a) eff \<Rightarrow> ('w, 'a) eff" where
  "value_guarded m = catch m (\<lambda>e. is_value_error e \<or> is_sql_error e) (\<lambda>e. throw (api_errors e))"

definition invalid :: "string \<Rightarrow> exn" where
  "invalid message = ApiError 422 VALIDATION_ERROR message []"

definition with_limit :: "int \<Rightarrow> ('w, 'a) eff \<Rightarrow> ('w, 'a) eff" where
  "with_limit limit m = (if limit < 1 \<or> limit > 100 then throw bad_limit else m)"

section \<open>Access checks\<close>

record access_payload =
  ap_user :: pydict
  ap_action :: string
  ap_resource :: pydict
  ap_context :: pydict
  ap_consistency :: string
  ap_revision :: "int option"

record batch_payload =
  bp_user :: pydict
  bp_items :: "batch_item list"
  bp_consistency :: string
  bp_revision :: "int option"

definition trace_doc :: "authorization_decision \<Rightarrow> pyval" where
  "trace_doc d = PList (map (\<lambda>s. PDict (step_to_dict s)) (ad_explain_trace d))"

definition verdict_doc :: "authorization_decision \<Rightarrow> pydict" where
  "verdict_doc d = [(''decision'', PStr (decision_text (ad_decision d))),
     (''matched_policies'', PList (map PStr (ad_matched_policies d))), (''reason'', ostr_val (ad_reason d)),
     (''policy_id'', ostr_val (ad_policy_id d)), (''explain_trace'', trace_doc d)]"

definition access_doc :: "auth_result \<Rightarrow> pyval" where
  "access_doc r = PDict ((''allowed'', PBool (ad_allowed (res_decision r))) # verdict_doc (res_decision r)
     @ [(''revision'', PInt (res_revision r))])"

text \<open>\<open>except AttributeValidationError\<close>, \<open>except SQLAlchemyError\<close>\<close>

definition access_guarded :: "('w, 'a) eff \<Rightarrow> ('w, 'a) eff" where
  "access_guarded m = catch m
     (\<lambda>e. (case e of AttributeValidationError _ \<Rightarrow> True | _ \<Rightarrow> False) \<or> is_sql_error e)
     (\<lambda>e. throw (if is_sql_error e then db_error else invalid (exn_text e)))"

definition checked_policy_set :: "string \<Rightarrow> string result" where
  "checked_policy_set policy_set = (let normalized = lower (strip policy_set) in
     if normalized \<in> {''active'', ''draft'', ''archived''} then Inr normalized
     else Inl (invalid ''policy_set must be one of active, draft, archived''))"

definition access_request :: "string \<Rightarrow> pydict \<Rightarrow> access_payload \<Rightarrow> string \<Rightarrow> auth_request" where
  "access_request tenant_key p payload policy_set =
     \<lparr>rq_tenant_key = tenant_key, rq_principal = p, rq_user = ap_user payload, rq_action = ap_action payload,
      rq_resource = ap_resource payload, rq_context = Some (ap_context payload), rq_consistency = ap_consistency payload,
      rq_revision = ap_revision payload, rq_audit = True, rq_policy_set = policy_set\<rparr>"

definition check_access_route :: "environment \<Rightarrow> http_request \<Rightarrow> pydict \<Rightarrow> access_payload \<Rightarrow> string \<Rightarrow> (site, pyval) eff" where
  "check_access_route env request p payload policy_set =
     bnd (lift (resolve_request_tenant_key request p (en_settings env))) (\<lambda>tenant_key.
     bnd (lift (checked_policy_set policy_set)) (\<lambda>normalized_policy_set.
     bnd (access_guarded (authorize (service_of env request) (access_request tenant_key p payload normalized_policy_set)))
       (\<lambda>result. ret (answer_with request (access_doc result)))))"

definition simulate_access :: "environment \<Rightarrow> http_request \<Rightarrow> pydict \<Rightarrow> access_payload \<Rightarrow> (site, pyval) eff" where
  "simulate_access env request p payload =
     bnd (lift (resolve_request_tenant_key request p (en_settings env))) (\<lambda>tenant_key.
     bnd (access_guarded (simulate (service_of env request) tenant_key p (ap_user payload) (ap_action payload)
            (ap_resource payload) (Some (ap_context payload)))) (\<lambda>d.
     bnd (get_revision site_tenants tenant_key) (\<lambda>revision.
       ret (answer_with request (PDict (verdict_doc d
         @ [(''failed_conditions'', PList (map PStr (ad_failed_conditions d))), (''revision'', PInt revision)]))))))"

definition batch_doc :: "batch_item list \<Rightarrow> auth_result list \<Rightarrow> pyval" where
  "batch_doc items results = PDict [
     (''results'', PList (map (\<lambda>(item, r). PDict [(''action'', PStr (bi_action item)),
        (''allowed'', PBool (ad_allowed (res_decision r))), (''revision'', PInt (res_revision r))]) (zip items results))),
     (''revision'', case results of [] \<Rightarrow> PNone | r # _ \<Rightarrow> PInt (res_revision r))]"

definition check_access_batch :: "environment \<Rightarrow> http_request \<Rightarrow> pydict \<Rightarrow> batch_payload \<Rightarrow> string \<Rightarrow> (site, pyval) eff" where
  "check_access_batch env request p payload policy_set =
     bnd (lift (resolve_request_tenant_key request p (en_settings env))) (\<lambda>tenant_key.
     bnd (lift (checked_policy_set policy_set)) (\<lambda>normalized_policy_set.
     bnd (access_guarded (authorize_batch (service_of env request)
            \<lparr>bq_tenant_key = tenant_key, bq_principal = p, bq_user = bp_user payload, bq_items = bp_items payload,
             bq_context = None, bq_consistency = bp_consistency payload, bq_revision = bp_revision payload,
             bq_policy_set = normalized_policy_set\<rparr>)) (\<lambda>results.
       ret (answer_with request (batch_doc (bp_items payload) results)))))"

section \<open>Access control lists\<close>

record acl_payload =
  lp_subject_type :: string
  lp_subject_id :: string
  lp_resource_type :: string
  lp_resource_id :: string
  lp_action :: string
  lp_effect :: string

definition acl_out :: "acl_payload \<Rightarrow> int \<Rightarrow> int \<Rightarrow> string option \<Rightarrow> pydict" where
  "acl_out payload acl_id tenant_id created_at =
     [(''subject_type'', PStr (lp_subject_type payload)), (''subject_id'', PStr (lp_subject_id payload)),
      (''resource_type'', PStr (lp_resource_type payload)), (''resource_id'', PStr (lp_resource_id payload)),
      (''action'', PStr (lp_action payload)), (''effect'', PStr (lp_effect payload)),
      (''id'', PInt acl_id), (''tenant_id'', PInt tenant_id), (''created_at'', ostr_val created_at)]"

definition acl_row_out :: "acl_record \<Rightarrow> pydict" where
  "acl_row_out row = acl_out \<lparr>lp_subject_type = ar_subject_type row, lp_subject_id = ar_subject_id row,
      lp_resource_type = ar_resource_type row, lp_resource_id = ar_resource_id row, lp_action = ar_action row,
      lp_effect = ar_effect row\<rparr> (ar_id row) (ar_tenant_id row) (ar_created_at row)"

text \<open>\<open>decision_cache.bump_namespace\<close> and the revision, after a write\<close>

definition tenant_changed :: "string \<Rightarrow> (site, unit) eff" where
  "tenant_changed tenant_key =
     bnd (on_world (bump_namespace world_cache tenant_key)) (\<lambda>_.
     bnd (bump_revision site_tenants tenant_key) (\<lambda>_. ret ()))"

definition create_acl :: "http_request \<Rightarrow> admin_access \<Rightarrow> acl_payload \<Rightarrow> (site, pyval) eff" where
  "create_acl request access payload =
     bnd (tenant_for (aa_tenant_key access)) (\<lambda>tenant.
     if lp_effect payload \<notin> {''allow'', ''deny''} then throw (invalid ''effect must be allow or deny'')
     else bnd (sql_guarded
        (bnd (on_world (on_db (Repositories.create_acl_entry (tr_id tenant) (lp_subject_type payload) (lp_subject_id payload)
                (lp_resource_type payload) (lp_resource_id payload) (lp_action payload) (lp_effect payload)))) (\<lambda>acl_id.
         bnd (on_world (on_db (get_acl_entry (tr_id tenant) acl_id))) (\<lambda>created.
         bnd (invalidate_resource site_index (tr_id tenant) (lp_resource_type payload) (lp_resource_id payload)) (\<lambda>_.
         bnd (tenant_changed (tr_key tenant)) (\<lambda>_. ret (acl_id, created))))))) (\<lambda>(acl_id, created).
       ret (answer_with request (PDict (acl_out payload acl_id (tr_id tenant)
         (case created of None \<Rightarrow> None | Some row \<Rightarrow> ar_created_at row))))))"

definition list_acl :: "http_request \<Rightarrow> admin_access \<Rightarrow> string \<Rightarrow> string \<Rightarrow> (site, pyval) eff" where
  "list_acl request access resource_type resource_id =
     bnd (tenant_for (aa_tenant_key access)) (\<lambda>tenant.
     bnd (sql_guarded (on_world (on_db (list_resource_acl (tr_id tenant) resource_type resource_id)))) (\<lambda>rows.
       ret (answer_with request (PList (map (\<lambda>row. PDict (acl_row_out row)) rows)))))"

definition delete_acl :: "http_request \<Rightarrow> admin_access \<Rightarrow> int \<Rightarrow> (site, pyval) eff" where
  "delete_acl request access acl_id =
     bnd (tenant_for (aa_tenant_key access)) (\<lambda>tenant.
     bnd (sql_guarded
        (bnd (on_world (on_db (get_acl_entry (tr_id tenant) acl_id))) (\<lambda>target.
         bnd (on_world (on_db (Repositories.delete_acl_entry (tr_id tenant) acl_id))) (\<lambda>_.
         bnd (case target of None \<Rightarrow> ret ()
              | Some row \<Rightarrow> invalidate_resource site_index (tr_id tenant) (ar_resource_type row) (ar_resource_id row)) (\<lambda>_.
           tenant_changed (tr_key tenant)))))) (\<lambda>_.
       ret (answer_with request (PDict [(''acl_id'', PInt acl_id)]))))"

section \<open>Relationships\<close>

definition list_edges :: "environment \<Rightarrow> http_request \<Rightarrow> admin_access \<Rightarrow> string \<Rightarrow> string \<Rightarrow> int \<Rightarrow> string option
    \<Rightarrow> (site, pyval) eff" where
  "list_edges env request access subject_type subject_id limit cursor = with_limit limit
     (bnd (sql_guarded (bnd (lift (decode_cursor (fp_json (en_files env)) cursor)) (\<lambda>decoded.
         on_world (list_relationships_page world_relationships (aa_tenant_key access) subject_type subject_id
           (nat limit) decoded)))) (\<lambda>(rows, next_cursor).
       ret (page_answer request limit next_cursor [] rows)))"

definition create_edge :: "http_request \<Rightarrow> admin_access \<Rightarrow> relationship_record \<Rightarrow> (site, pyval) eff" where
  "create_edge request access edge =
     bnd (catch (on_world (create_relationship world_relationships (aa_tenant_key access) edge)) is_sql_error
        (\<lambda>e. throw (case e of IntegrityError _ \<Rightarrow> ApiError 409 CONFLICT ''relationship exists'' [] | _ \<Rightarrow> db_error)))
       (\<lambda>row_id. ret (answer_with request (PDict (relationship_to_dict edge @ [(''id'', PInt row_id)]))))"

section \<open>Policies\<close>

record policy_payload =
  pp_action :: string
  pp_effect :: string
  pp_priority :: int
  pp_state :: string
  pp_conditions :: pydict

definition policy_out :: "policy_view \<Rightarrow> string \<Rightarrow> pydict" where
  "policy_out v state = [(''id'', PInt (pv_id v)), (''action'', PStr (pv_action v)), (''effect'', PStr (pv_effect v)),
     (''priority'', PInt (pv_priority v)), (''state'', PStr state), (''conditions'', PDict (pv_conditions v))]"

text \<open>A row of the listing carries no state: \<open>PolicyOut\<close> fills in its default.\<close>

definition listed_policy_out :: "pydict \<Rightarrow> pydict" where
  "listed_policy_out item = [(''id'', pget item ''id''), (''action'', pget item ''action''), (''effect'', pget item ''effect''),
     (''priority'', pget item ''priority''), (''state'', dget_or item ''state'' (PStr ''active'')),
     (''conditions'', pget item ''conditions'')]"

definition lint_tenant :: "string \<Rightarrow> (site, string list) eff" where
  "lint_tenant tenant_key = bnd (tenant_for tenant_key) (\<lambda>tenant. on_world (on_db (lint (tr_id tenant))))"

definition list_policies_route :: "environment \<Rightarrow> http_request \<Rightarrow> admin_access \<Rightarrow> int \<Rightarrow> string option \<Rightarrow> (site, pyval) eff" where
  "list_policies_route env request access limit cursor = with_limit limit
     (bnd (sql_guarded
        (bnd (bnd (lift (decode_cursor (fp_json (en_files env)) cursor)) (\<lambda>decoded.
           on_world (list_policies_page world_policies (aa_tenant_key access) (nat limit) decoded))) (\<lambda>page.
         bnd (lint_tenant (aa_tenant_key access)) (\<lambda>warnings. ret (page, warnings)))))
       (\<lambda>((items, next_cursor), warnings).
         ret (page_answer request limit next_cursor (warnings_meta warnings) (map listed_policy_out items))))"

definition checked_policy :: "policy_payload \<Rightarrow> unit result" where
  "checked_policy payload =
     (if pp_effect payload \<notin> {''allow'', ''deny''} then Inl (invalid ''effect must be allow or deny'')
      else if pp_state payload \<notin> {''draft'', ''active'', ''archived''}
      then Inl (invalid ''state must be one of draft, active, archived'')
      else Inr ())"

definition save_policy :: "http_request \<Rightarrow> pydict \<Rightarrow> admin_access \<Rightarrow> string \<Rightarrow> policy_payload \<Rightarrow> (site, pyval) eff" where
  "save_policy request p access policy_key payload =
     bnd (lift (checked_policy payload)) (\<lambda>_.
     bnd (sql_guarded (on_world (create_policy world_policies (aa_tenant_key access) policy_key (pp_action payload)
            (pp_effect payload) (pp_priority payload) (pp_conditions payload) (Some (py_str (pget p ''id'')))
            (pp_state payload)))) (\<lambda>result.
     bnd (lint_tenant (aa_tenant_key access)) (\<lambda>warnings.
       ret (success_response (PDict (policy_out result (pv_state result))) (rq_id request) None None
         (warnings_meta warnings)))))"

definition create_policy_route :: "http_request \<Rightarrow> pydict \<Rightarrow> admin_access \<Rightarrow> policy_payload \<Rightarrow> (site, pyval) eff" where
  "create_policy_route request p access payload = save_policy request p access
     (py_str (por (pget (pp_conditions payload) ''policy_key'') (PStr (pp_action payload)))) payload"

definition update_policy_route :: "http_request \<Rightarrow> pydict \<Rightarrow> admin_access \<Rightarrow> string \<Rightarrow> policy_payload \<Rightarrow> (site, pyval) eff" where
  "update_policy_route request p access policy_key payload = save_policy request p access policy_key payload"

definition dsl_payload :: "pydict \<Rightarrow> policy_payload" where
  "dsl_payload policy = \<lparr>pp_action = py_str (pget policy ''action''), pp_effect = py_str (pget policy ''effect''),
     pp_priority = (case pget policy ''priority'' of PInt i \<Rightarrow> i | _ \<Rightarrow> 100), pp_state = ''active'',
     pp_conditions = (case pget policy ''conditions'' of PDict c \<Rightarrow> c | _ \<Rightarrow> [])\<rparr>"

definition create_policy_from_dsl :: "environment \<Rightarrow> http_request \<Rightarrow> pydict \<Rightarrow> admin_access \<Rightarrow> string \<Rightarrow> (site, pyval) eff" where
  "create_policy_from_dsl env request p access dsl =
     bnd (catch (lift (dsl_to_policy (fp_yaml (en_files env)) dsl)) is_value_error (\<lambda>e. throw (invalid (exn_text e)))) (\<lambda>policy.
       create_policy_route request p access (dsl_payload policy))"

definition delete_policy_route :: "http_request \<Rightarrow> admin_access \<Rightarrow> string \<Rightarrow> (site, pyval) eff" where
  "delete_policy_route request access policy_key =
     bnd (sql_guarded (on_world (delete_policy world_policies (aa_tenant_key access) policy_key))) (\<lambda>_.
       ret (answer_with request (PDict [(''policy_key'', PStr policy_key)])))"

definition rollback_policy_route :: "http_request \<Rightarrow> admin_access \<Rightarrow> string \<Rightarrow> int \<Rightarrow> (site, pyval) eff" where
  "rollback_policy_route request access policy_key version =
     bnd (catch (on_world (rollback_policy world_policies (aa_tenant_key access) policy_key version))
        (\<lambda>e. is_value_error e \<or> is_sql_error e)
        (\<lambda>e. throw (if is_value_error e then ApiError 404 NOT_FOUND (exn_text e) [] else db_error)))
       (\<lambda>(current_policy_key, current_version). ret (answer_with request
         (PDict [(''policy_key'', PStr current_policy_key), (''current_version'', PInt current_version)])))"

section \<open>Audit\<close>

definition audit_out :: "audit_row \<Rightarrow> pydict" where
  "audit_out a = [(''id'', PInt (au_id a)), (''principal_type'', PStr (au_principal_type a)),
     (''principal_id'', PStr (au_principal_id a)), (''correlation_id'', ostr_val (au_correlation_id a)),
     (''user'', PDict (au_user a)), (''action'', PStr (au_action a)), (''resource'', PDict (au_resource a)),
     (''decision'', PStr (au_decision a)), (''matched_policies'', PList (map PStr (au_matched a))),
     (''reason'', ostr_val (au_reason a)), (''evaluated_rules'', PList (map PDict (au_rules a))),
     (''failed_conditions'', PList (map PStr (au_failed a))), (''created_at'', PStr (au_created_at a))]"

definition list_audit_logs :: "environment \<Rightarrow> http_request \<Rightarrow> admin_access \<Rightarrow> int \<Rightarrow> string option \<Rightarrow> audit_filter
    \<Rightarrow> (site, pyval) eff" where
  "list_audit_logs env request access limit cursor wanted = with_limit limit
     (bnd (tenant_for (aa_tenant_key access)) (\<lambda>tenant.
      bnd (sql_guarded (bnd (lift (decode_cursor (fp_json (en_files env)) cursor)) (\<lambda>decoded.
          on_world (on_db (list_audit_page (en_dialect env) (tr_id tenant) (nat limit) decoded wanted)))))
        (\<lambda>(items, next_cursor). ret (page_answer request limit next_cursor [] (map audit_out items)))))"

section \<open>Roles and permissions\<close>

definition named_out :: "string \<Rightarrow> int \<times> string \<Rightarrow> pydict" where
  "named_out field r = [(''id'', PInt (fst r)), (field, PStr (snd r))]"

definition named_listing :: "environment \<Rightarrow> http_request \<Rightarrow> string \<Rightarrow> int \<Rightarrow> string option
    \<Rightarrow> (pydict option \<Rightarrow> (world, (string \<times> int) list \<times> pydict option) eff) \<Rightarrow> (site, pyval) eff" where
  "named_listing env request field limit cursor fetch = with_limit limit
     (bnd (lift (decode_cursor (fp_json (en_files env)) cursor)) (\<lambda>decoded.
      bnd (on_world (fetch decoded)) (\<lambda>(rows, next_cursor).
        ret (page_answer request limit next_cursor [] (map (\<lambda>(n, i). named_out field (i, n)) rows)))))"

definition role_permissions_route :: "http_request \<Rightarrow> int \<Rightarrow> (site, pyval) eff" where
  "role_permissions_route request role_id = bnd (on_world (list_role_permissions role_id)) (\<lambda>ps.
     ret (answer_with request (PList (map (\<lambda>p. PDict (named_out ''action'' (pe_id p, pe_action p))) ps))))"

definition permission_roles_route :: "http_request \<Rightarrow> int \<Rightarrow> (site, pyval) eff" where
  "permission_roles_route request permission_id = bnd (on_world (list_permission_roles permission_id)) (\<lambda>rs.
     ret (answer_with request (PList (map (\<lambda>r. PDict (named_out ''name'' (ro_id r, ro_name r))) rs))))"

definition permission_out :: "int \<Rightarrow> (site, pyval) eff" where
  "permission_out permission_id s = (case find_permission (w_db (st_world s)) permission_id of
     Some p \<Rightarrow> (Inr (PDict (named_out ''action'' (pe_id p, pe_action p))), s)
   | None \<Rightarrow> (Inl (not_found ''permission''), s))"

definition link_route :: "http_request \<Rightarrow> admin_access \<Rightarrow> int \<Rightarrow> int \<Rightarrow> (site, pyval) eff" where
  "link_route request access role_id permission_id =
     bnd (on_world (add_permission_to_role (aa_tenant_key access) role_id permission_id)) (\<lambda>_.
     bnd (permission_out permission_id) (\<lambda>doc. ret (answer_with request doc)))"

definition unlink_route :: "http_request \<Rightarrow> admin_access \<Rightarrow> int \<Rightarrow> int \<Rightarrow> (site, pyval) eff" where
  "unlink_route request access role_id permission_id =
     bnd (on_world (remove_permission_from_role (aa_tenant_key access) role_id permission_id)) (\<lambda>_.
       ret (answer_with request (PDict [(''role_id'', PInt role_id), (''permission_id'', PInt permission_id)])))"

section \<open>Authorization models\<close>

definition model_out :: "model_row \<Rightarrow> pydict" where
  "model_out m = [(''id'', PInt (mo_id m)), (''tenant_id'', PInt (mo_tenant m)), (''schema'', PStr (mo_schema_text m)),
     (''parsed'', PDict (mo_schema_json m)), (''compiled'', PDict (mo_compiled_json m))]"

definition model_route :: "http_request \<Rightarrow> (world, model_row) eff \<Rightarrow> (site, pyval) eff" where
  "model_route request m = bnd (on_world m) (\<lambda>record. ret (answer_with request (PDict (model_out record))))"

section \<open>Simulation, impact and playground\<close>

definition short_verdict :: "authorization_decision \<Rightarrow> pydict" where
  "short_verdict d = [(''allowed'', PBool (ad_allowed d)), (''decision'', PStr (decision_text (ad_decision d))),
     (''reason'', ostr_val (ad_reason d)), (''policy_id'', ostr_val (ad_policy_id d))]"

definition simulate_policy :: "environment \<Rightarrow> http_request \<Rightarrow> admin_access \<Rightarrow> string option \<Rightarrow> pydict \<Rightarrow> (site, pyval) eff" where
  "simulate_policy env request access policy_change raw =
     (case normalize_request raw of (user, resource, action, context) \<Rightarrow>
      if str_or policy_change [] = [] then throw (invalid ''policy_change is required'')
      else bnd (value_guarded (simulate_policy_change (service_of env request) (fp_yaml (en_files env)) (aa_tenant_key access)
             user action resource context (str_or policy_change []))) (\<lambda>r.
        ret (answer_with request (PDict [(''decision_before'', PDict (short_verdict (sim_before r))),
          (''decision_after'', PDict (short_verdict (sim_after r)))]))))"

definition impact_analysis :: "environment \<Rightarrow> http_request \<Rightarrow> admin_access \<Rightarrow> string \<Rightarrow> (site, pyval) eff" where
  "impact_analysis env request access policy_change =
     bnd (value_guarded (analyze_policy_change site_impact (fp_yaml (en_files env)) (aa_tenant_key access) policy_change)) (\<lambda>r.
       ret (answer_with request (PDict [(''gained_access'', PList (map PInt (ir_gained_access r))),
         (''lost_access'', PList (map PInt (ir_lost_access r)))])))"

record playground_policy =
  pg_action :: string
  pg_effect :: string
  pg_priority :: int
  pg_policy_id :: "string option"
  pg_conditions :: pydict

definition playground_dump :: "playground_policy \<Rightarrow> pydict" where
  "playground_dump p = [(''action'', PStr (pg_action p)), (''effect'', PStr (pg_effect p)), (''priority'', PInt (pg_priority p)),
     (''policy_id'', ostr_val (pg_policy_id p)), (''conditions'', PDict (pg_conditions p))]"

definition playground_evaluate :: "http_request \<Rightarrow> playground_policy list \<Rightarrow> pydict \<Rightarrow> pydict \<Rightarrow> string \<Rightarrow> pydict
    \<Rightarrow> (site, pyval) eff" where
  "playground_evaluate request policies user resource action context =
     bnd (lift (new_engine (map (\<lambda>p. PolicyRaw (playground_dump p)) policies) ''first_match'' None)) (\<lambda>eng.
     bnd (lift (decide eng (Structured (plain_input user resource action context)) None None)) (\<lambda>d.
       ret (answer_with request (PDict (short_verdict d @ [(''explain_trace'', trace_doc d)])))))"

section \<open>Probes, sample data and login\<close>

definition alive :: "http_request \<Rightarrow> pyval" where
  "alive request = answer_with request (PDict [(''status'', PStr ''ok'')])"

definition probe_doc :: "string option \<Rightarrow> pyval" where
  "probe_doc failure = PDict (case failure of None \<Rightarrow> [(''status'', PStr ''ok'')]
     | Some detail \<Rightarrow> [(''status'', PStr ''error''), (''detail'', PStr detail)])"

definition redis_status :: "environment \<Rightarrow> pyval" where
  "redis_status env = (if \<not> nonempty (se_redis_url (en_settings env)) then PDict [(''status'', PStr ''not_configured'')]
     else probe_doc (case en_redis_probe env of None \<Rightarrow> Some ''redis client unavailable'' | Some failure \<Rightarrow> failure))"

definition is_ready :: "environment \<Rightarrow> bool" where
  "is_ready env = (en_database_error env = None
     \<and> (\<not> nonempty (se_redis_url (en_settings env)) \<or> en_redis_probe env = Some None))"

definition readiness :: "environment \<Rightarrow> http_request \<Rightarrow> http_response" where
  "readiness env request = json_response (if is_ready env then 200 else 503)
     (answer_with request (PDict [(''status'', PStr (if is_ready env then ''ok'' else ''degraded'')),
       (''checks'', PDict [(''database'', probe_doc (en_database_error env)), (''redis'', redis_status env)])]))"

definition is_local_dev :: "settings \<Rightarrow> bool" where
  "is_local_dev s = (lower (strip (se_environment s)) \<in> {''development'', ''dev'', ''local''})"

definition local_dev_only :: "environment \<Rightarrow> (site, 'a) eff \<Rightarrow> (site, 'a) eff" where
  "local_dev_only env m =
     (if is_local_dev (en_settings env) then m else throw (ApiError 404 NOT_FOUND ''not found'' []))"

definition sample_environment :: pydict where
  "sample_environment = [
     (''KEYNETRA_ENV'', PStr ''development''), (''KEYNETRA_DEBUG'', PStr ''true''),
     (''KEYNETRA_DATABASE_URL'', PStr ''sqlite+pysqlite:///./keynetra.db''),
     (''KEYNETRA_REDIS_URL'', PStr ''redis://localhost:6379/0''), (''KEYNETRA_API_KEYS'', PStr ''devkey''),
     (''KEYNETRA_JWT_SECRET'', PStr ''change-me''), (''KEYNETRA_JWT_ALGORITHM'', PStr ''HS256''),
     (''KEYNETRA_CORS_ALLOW_ORIGINS'', PStr ''http://localhost:5173,http://127.0.0.1:5173''),
     (''KEYNETRA_CORS_ALLOW_CREDENTIALS'', PStr ''true''), (''KEYNETRA_CORS_ALLOW_METHODS'', PStr ''*''),
     (''KEYNETRA_CORS_ALLOW_HEADERS'', PStr ''*''),
     (''KEYNETRA_POLICIES_JSON'', PStr (json_text (PList (map PDict default_policies)))),
     (''KEYNETRA_POLICIES_CACHE_TTL_SECONDS'', PStr ''5''), (''KEYNETRA_DECISION_CACHE_TTL_SECONDS'', PStr ''5''),
     (''KEYNETRA_SERVICE_TIMEOUT_SECONDS'', PStr ''2.0''), (''KEYNETRA_CRITICAL_RETRY_ATTEMPTS'', PStr ''3''),
     (''KEYNETRA_RESILIENCE_MODE'', PStr ''fail_closed''),
     (''KEYNETRA_RESILIENCE_FALLBACK_BEHAVIOR'', PStr ''static''), (''KEYNETRA_RATE_LIMIT_PER_MINUTE'', PStr ''60''),
     (''KEYNETRA_RATE_LIMIT_BURST'', PStr ''60''), (''KEYNETRA_RATE_LIMIT_WINDOW_SECONDS'', PStr ''60''),
     (''KEYNETRA_OTEL_ENABLED'', PStr ''false''), (''KEYNETRA_SERVICE_MODE'', PStr ''all''),
     (''KEYNETRA_POLICY_EVENTS_CHANNEL'', PStr ''keynetra:policy_events'')]"

definition sample_bootstrap_document :: pydict where
  "sample_bootstrap_document = [(''env'', PDict sample_environment),
     (''sample'', PDict [(''tenant_key'', PStr default_tenant_key),
        (''user'', PDict [(''id'', PInt sample_user_id), (''external_id'', PStr sample_external_id)]),
        (''role'', PDict [(''name'', PStr sample_role)]),
        (''permissions'', PList (map (\<lambda>a. PDict [(''action'', PStr a)]) sample_permissions)),
        (''relationships'', PList [PDict (relationship_to_dict sample_relationship)]),
        (''policies'', PList (map PDict sample_policy_definitions))]),
     (''commands'', PDict [(''seed'', PStr ''PYTHONPATH=core keynetra seed-data --reset''),
        (''start'', PStr ''PYTHONPATH=core keynetra start --host 0.0.0.0 --port 8000'')])]"

definition get_sample_data :: "environment \<Rightarrow> http_request \<Rightarrow> (site, pyval) eff" where
  "get_sample_data env request = local_dev_only env (ret (answer_with request (PDict sample_bootstrap_document)))"

definition summary_doc :: "seed_summary \<Rightarrow> pydict" where
  "summary_doc s = [(''tenant_key'', PStr (ss_tenant_key s)), (''created_tenant'', PBool (ss_created_tenant s)),
     (''created_user'', PBool (ss_created_user s)), (''created_role'', PBool (ss_created_role s)),
     (''created_permissions'', PInt (ss_created_permissions s)),
     (''created_relationships'', PInt (ss_created_relationships s)), (''created_policies'', PInt (ss_created_policies s))]"

definition seed_sample_data :: "environment \<Rightarrow> http_request \<Rightarrow> bool \<Rightarrow> (site, pyval) eff" where
  "seed_sample_data env request reset = local_dev_only env
     (bnd (on_world (on_db (\<lambda>db. case seed_demo_data (en_dialect env) default_tenant_key reset db of
         (summary, db') \<Rightarrow> (Inr summary, db')))) (\<lambda>summary. ret (answer_with request (PDict (summary_doc summary)))))"

definition login_route :: "environment \<Rightarrow> http_request \<Rightarrow> string \<Rightarrow> string \<Rightarrow> (site, pyval) eff" where
  "login_route env request username password =
     bnd (lift (admin_login (en_settings env) (en_auth env) username password)) (\<lambda>doc.
       ret (answer_with request (PDict doc)))"

end
