(* ===== verification/Api.thy ===== *)
theory Api
  imports Routes
begin

text \<open>
  The whole HTTP interface as one function: the endpoints of \<open>api/routes/\<close> as the constructors of
  \<open>api_call\<close> (their parameters as FastAPI validated them), the service mode that mounts them
  (\<open>api/service_modes.py\<close>), the dependencies every endpoint declares, and the status it answers with.
  \<open>/metrics\<close> is left out.
\<close>

section \<open>Endpoints\<close>

datatype open_endpoint = Health | Live | Ready | SampleData | SeedSample bool | Login string string

datatype access_endpoint =
    CheckAccess access_payload string | Simulate access_payload | CheckBatch batch_payload string

datatype tenant_endpoint =
    CreateAcl acl_payload | ListAcl string string | DeleteAcl int
  | ListEdges string string int "string option" | CreateEdge relationship_record
  | ListPolicies int "string option" | CreatePolicy policy_payload | UpdatePolicy string policy_payload
  | CreateFromDsl string | DeletePolicy string | RollbackPolicy string int
  | ListAudit int "string option" audit_filter
  | CreateModel string | GetModel
  | SimulatePolicy "string option" pydict | ImpactAnalysis string
  | Playground "playground_policy list" pydict pydict string pydict

datatype rbac_endpoint =
    ListRoles int "string option" | CreateRole string | UpdateRole int string | DeleteRole int
  | RolePermissions int | LinkPermission int int | UnlinkPermission int int
  | ListPermissions int "string option" | CreatePermission string | UpdatePermission int string
  | DeletePermission int | PermissionRoles int

text \<open>
  Open endpoints depend on no principal, access endpoints on a principal, the others on a principal
  with a management role.
\<close>

datatype api_call =
    OpenCall open_endpoint | AccessCall access_endpoint | TenantCall tenant_endpoint | RbacCall rbac_endpoint

fun tenant_role :: "tenant_endpoint \<Rightarrow> management_role" where
  "tenant_role (CreateAcl _) = Developer"
| "tenant_role (ListAcl _ _) = Viewer"
| "tenant_role (DeleteAcl _) = Admin"
| "tenant_role (ListEdges _ _ _ _) = Viewer"
| "tenant_role (CreateEdge _) = Developer"
| "tenant_role (ListPolicies _ _) = Viewer"
| "tenant_role (CreatePolicy _) = Developer"
| "tenant_role (UpdatePolicy _ _) = Developer"
| "tenant_role (CreateFromDsl _) = Developer"
| "tenant_role (DeletePolicy _) = Admin"
| "tenant_role (RollbackPolicy _ _) = Admin"
| "tenant_role (ListAudit _ _ _) = Viewer"
| "tenant_role (CreateModel _) = Developer"
| "tenant_role GetModel = Viewer"
| "tenant_role (SimulatePolicy _ _) = Viewer"
| "tenant_role (ImpactAnalysis _) = Viewer"
| "tenant_role (Playground _ _ _ _ _) = Developer"

fun rbac_role :: "rbac_endpoint \<Rightarrow> management_role" where
  "rbac_role (ListRoles _ _) = Viewer"
| "rbac_role (CreateRole _) = Admin"
| "rbac_role (UpdateRole _ _) = Developer"
| "rbac_role (DeleteRole _) = Admin"
| "rbac_role (RolePermissions _) = Viewer"
| "rbac_role (LinkPermission _ _) = Developer"
| "rbac_role (UnlinkPermission _ _) = Developer"
| "rbac_role (ListPermissions _ _) = Viewer"
| "rbac_role (CreatePermission _) = Admin"
| "rbac_role (UpdatePermission _ _) = Developer"
| "rbac_role (DeletePermission _) = Admin"
| "rbac_role (PermissionRoles _) = Viewer"

definition required_role :: "api_call \<Rightarrow> management_role option" where
  "required_role call = (case call of TenantCall e \<Rightarrow> Some (tenant_role e) | RbacCall e \<Rightarrow> Some (rbac_role e) | _ \<Rightarrow> None)"

definition tenant_status :: "tenant_endpoint \<Rightarrow> int" where
  "tenant_status e = (case e of
     CreateAcl _ \<Rightarrow> 201 | CreateEdge _ \<Rightarrow> 201 | CreatePolicy _ \<Rightarrow> 201 | CreateFromDsl _ \<Rightarrow> 201 | CreateModel _ \<Rightarrow> 201
   | _ \<Rightarrow> 200)"

definition rbac_status :: "rbac_endpoint \<Rightarrow> int" where
  "rbac_status e = (case e of
     CreateRole _ \<Rightarrow> 201 | LinkPermission _ _ \<Rightarrow> 201 | CreatePermission _ \<Rightarrow> 201 | _ \<Rightarrow> 200)"

definition service_mode :: "settings \<Rightarrow> string" where
  "service_mode s = lower (if se_service_mode s = [] then ''all'' else se_service_mode s)"

definition mounted :: "settings \<Rightarrow> api_call \<Rightarrow> bool" where
  "mounted s call = (case call of
     AccessCall _ \<Rightarrow> service_mode s \<in> {''all'', ''access-api'', ''policy-engine''}
   | OpenCall e \<Rightarrow> e \<in> {Health, Live, Ready} \<or> service_mode s \<in> {''all'', ''policy-store''}
   | _ \<Rightarrow> service_mode s \<in> {''all'', ''policy-store''})"

section \<open>Handlers\<close>

definition answered :: "int \<Rightarrow> (site, pyval) eff \<Rightarrow> (site, http_response) eff" where
  "answered status m = bnd m (\<lambda>doc. ret (json_response status doc))"

definition open_call :: "environment \<Rightarrow> http_request \<Rightarrow> open_endpoint \<Rightarrow> (site, http_response) eff" where
  "open_call env request e = (case e of
     Ready \<Rightarrow> ret (readiness env request)
   | SampleData \<Rightarrow> answered 200 (get_sample_data env request)
   | SeedSample reset \<Rightarrow> answered 200 (seed_sample_data env request reset)
   | Login username password \<Rightarrow> answered 200 (login_route env request username password)
   | _ \<Rightarrow> answered 200 (ret (alive request)))"

definition access_call :: "environment \<Rightarrow> http_request \<Rightarrow> pydict \<Rightarrow> access_endpoint \<Rightarrow> (site, pyval) eff" where
  "access_call env request p e = (case e of
     CheckAccess payload policy_set \<Rightarrow> check_access_route env request p payload policy_set
   | Simulate payload \<Rightarrow> simulate_access env request p payload
   | CheckBatch payload policy_set \<Rightarrow> check_access_batch env request p payload policy_set)"

definition tenant_call :: "environment \<Rightarrow> http_request \<Rightarrow> pydict \<Rightarrow> admin_access \<Rightarrow> tenant_endpoint \<Rightarrow> (site, pyval) eff" where
  "tenant_call env request p access e = (case e of
     CreateAcl payload \<Rightarrow> create_acl request access payload
   | ListAcl resource_type resource_id \<Rightarrow> list_acl request access resource_type resource_id
   | DeleteAcl acl_id \<Rightarrow> delete_acl request access acl_id
   | ListEdges subject_type subject_id limit cursor \<Rightarrow> list_edges env request access subject_type subject_id limit cursor
   | CreateEdge edge \<Rightarrow> create_edge request access edge
   | ListPolicies limit cursor \<Rightarrow> list_policies_route env request access limit cursor
   | CreatePolicy payload \<Rightarrow> create_policy_route request p access payload
   | UpdatePolicy policy_key payload \<Rightarrow> update_policy_route request p access policy_key payload
   | CreateFromDsl dsl \<Rightarrow> create_policy_from_dsl env request p access dsl
   | DeletePolicy policy_key \<Rightarrow> delete_policy_route request access policy_key
   | RollbackPolicy policy_key version \<Rightarrow> rollback_policy_route request access policy_key version
   | ListAudit limit cursor wanted \<Rightarrow> list_audit_logs env request access limit cursor wanted
   | CreateModel schema_text \<Rightarrow> model_route request (create_auth_model (aa_tenant_key access) schema_text)
   | GetModel \<Rightarrow> model_route request (get_auth_model (aa_tenant_key access))
   | SimulatePolicy policy_change raw \<Rightarrow> simulate_policy env request access policy_change raw
   | ImpactAnalysis policy_change \<Rightarrow> impact_analysis env request access policy_change
   | Playground policies user resource action context \<Rightarrow>
       playground_evaluate request policies user resource action context)"

text \<open>Creating and renaming answers the row without an envelope.\<close>

definition named_answer :: "string \<Rightarrow> (world, int \<times> string) eff \<Rightarrow> (site, pyval) eff" where
  "named_answer field m = bnd (on_world m) (\<lambda>r. ret (PDict (named_out field r)))"

definition deleted_answer :: "http_request \<Rightarrow> string \<Rightarrow> (world, int) eff \<Rightarrow> (site, pyval) eff" where
  "deleted_answer request field m = bnd (on_world m) (\<lambda>i. ret (answer_with request (PDict [(field, PInt i)])))"

definition rbac_endpoint_call :: "environment \<Rightarrow> http_request \<Rightarrow> admin_access \<Rightarrow> rbac_endpoint \<Rightarrow> (site, pyval) eff" where
  "rbac_endpoint_call env request access e = (let t = aa_tenant_key access in case e of
     ListRoles limit cursor \<Rightarrow> named_listing env request ''name'' limit cursor (list_roles limit)
   | CreateRole name \<Rightarrow> named_answer ''name'' (create_role t name)
   | UpdateRole role_id name \<Rightarrow> named_answer ''name'' (update_role t role_id name)
   | DeleteRole role_id \<Rightarrow> deleted_answer request ''role_id'' (delete_role t role_id)
   | RolePermissions role_id \<Rightarrow> role_permissions_route request role_id
   | LinkPermission role_id permission_id \<Rightarrow> link_route request access role_id permission_id
   | UnlinkPermission role_id permission_id \<Rightarrow> unlink_route request access role_id permission_id
   | ListPermissions limit cursor \<Rightarrow> named_listing env request ''action'' limit cursor (list_permissions limit)
   | CreatePermission action \<Rightarrow> named_answer ''action'' (create_permission t action)
   | UpdatePermission permission_id action \<Rightarrow> named_answer ''action'' (update_permission t permission_id action)
   | DeletePermission permission_id \<Rightarrow> deleted_answer request ''permission_id'' (delete_permission t permission_id)
   | PermissionRoles permission_id \<Rightarrow> permission_roles_route request permission_id)"

section \<open>The process\<close>

text \<open>
  The state of one process: the site and the key sets fetched so far. \<open>build_services\<close> makes the
  indexer anew for every request; a refresh an earlier one left pending runs on caches only, as a step
  of its own.
\<close>

record node =
  nd_site :: site
  nd_jwks :: jwks_state

definition on_site :: "(site, 'a) eff \<Rightarrow> (node, 'a) eff" where
  "on_site m n = (case m (nd_site n) of (r, s) \<Rightarrow> (r, n\<lparr>nd_site := s\<rparr>))"

definition on_jwks :: "(jwks_state, 'a) eff \<Rightarrow> (node, 'a) eff" where
  "on_jwks m n = (case m (nd_jwks n) of (r, j) \<Rightarrow> (r, n\<lparr>nd_jwks := j\<rparr>))"

definition fresh_indexer :: "(site, unit) eff" where
  "fresh_indexer s = (Inr (), s\<lparr>st_indexer := new_indexer\<rparr>)"

definition authenticated :: "environment \<Rightarrow> http_request \<Rightarrow> (node, pydict) eff" where
  "authenticated env request = on_jwks (get_principal (en_settings env) (en_auth env) (en_credentials env request)
     (header request ''X-API-Key''))"

definition managed :: "environment \<Rightarrow> http_request \<Rightarrow> management_role \<Rightarrow> int
    \<Rightarrow> (pydict \<Rightarrow> admin_access \<Rightarrow> (site, pyval) eff) \<Rightarrow> (node, http_response) eff" where
  "managed env request minimum_role status respond = bnd (authenticated env request) (\<lambda>p.
     bnd (on_site fresh_indexer) (\<lambda>_.
     bnd (lift (require_management_role minimum_role request p (en_settings env))) (\<lambda>access.
       on_site (answered status (respond p access)))))"

definition dispatch :: "environment \<Rightarrow> api_call \<Rightarrow> http_request \<Rightarrow> (node, http_response) eff" where
  "dispatch env call request = (case call of
     OpenCall e \<Rightarrow> on_site (open_call env request e)
   | AccessCall e \<Rightarrow> bnd (authenticated env request) (\<lambda>p.
       bnd (on_site fresh_indexer) (\<lambda>_. on_site (answered 200 (access_call env request p e))))
   | TenantCall e \<Rightarrow> managed env request (tenant_role e) (tenant_status e) (\<lambda>p access. tenant_call env request p access e)
   | RbacCall e \<Rightarrow> managed env request (rbac_role e) (rbac_status e) (\<lambda>p access. rbac_endpoint_call env request access e))"

text \<open>\<open>route\<close> finds the endpoint of a method and path and validates its parameters; \<open>Inl\<close> is the answer when it cannot.\<close>

definition routes :: "environment \<Rightarrow> (http_request \<Rightarrow> exn + api_call) \<Rightarrow> node app" where
  "routes env route request = (case route request of
     Inl e \<Rightarrow> throw e
   | Inr call \<Rightarrow> if \<not> mounted (en_settings env) call then throw (HTTPException 404 ''Not Found'')
       else dispatch env call request)"

end
