(* ===== verification/Confinement.thy ===== *)
theory Confinement
  imports PolicyTools
begin

text \<open>
  Frames of effectful calls: \<open>keeps P Q m\<close> says that the call keeps an invariant of the world and that
  what it returns has a property. A service whose collaborators keep an invariant, its audit writes only
  for the tenants it may own, keeps that invariant with every check, batch, simulation and impact
  analysis: these are the locales \<open>reading_service\<close> and \<open>confined_service\<close>, interpreted on the deployed
  site in \<open>System\<close>.
\<close>

section \<open>Frames\<close>

definition keeps :: "('w \<Rightarrow> bool) \<Rightarrow> ('a \<Rightarrow> bool) \<Rightarrow> ('w, 'a) eff \<Rightarrow> bool" where
  "keeps P Q m = (preserves P m \<and> (\<forall>w x. P w \<longrightarrow> fst (m w) = Inr x \<longrightarrow> Q x))"

lemma keeps_preserves: "keeps P Q m \<Longrightarrow> preserves P m"
  by (simp add: keeps_def)

lemma keepsI:
  assumes "\<And>w x w'. P w \<Longrightarrow> m w = (Inr x, w') \<Longrightarrow> P w' \<and> Q x" "\<And>w e w'. P w \<Longrightarrow> m w = (Inl e, w') \<Longrightarrow> P w'"
  shows "keeps P Q m"
  unfolding keeps_def preserves_def
proof (intro conjI allI impI)
  fix w assume "P w"
  obtain r w' where run: "m w = (r, w')" by (cases "m w") simp
  show "P (snd (m w))" using assms [OF \<open>P w\<close>] run by (cases r) auto
next
  fix w x assume "P w" "fst (m w) = Inr x"
  then show "Q x" using assms(1) [of w x "snd (m w)"] by (cases "m w") simp
qed

lemma keeps_Inr: "keeps P Q m \<Longrightarrow> m w = (Inr x, w') \<Longrightarrow> P w \<Longrightarrow> P w' \<and> Q x"
  unfolding keeps_def using preserves_run [of P m w "Inr x" w'] by force

lemma keeps_Inl: "keeps P Q m \<Longrightarrow> m w = (Inl e, w') \<Longrightarrow> P w \<Longrightarrow> P w'"
  unfolding keeps_def using preserves_run [of P m w "Inl e" w'] by blast

named_theorems keeps_rules \<open>frames of composed calls\<close>

lemma keeps_basic [keeps_rules]:
  "Q x \<Longrightarrow> keeps P Q (ret x)" "keeps P Q (throw e)" "(\<And>x. r = Inr x \<Longrightarrow> Q x) \<Longrightarrow> keeps P Q (lift r)"
  by (auto simp: keeps_def)

lemma keeps_bnd:
  assumes m: "keeps P Q m" and f: "\<And>x. Q x \<Longrightarrow> keeps P R (f x)"
  shows "keeps P R (bnd m f)"
proof (rule keepsI)
  fix w y w' assume "P w" "bnd m f w = (Inr y, w')"
  then obtain x w1 where "m w = (Inr x, w1)" "f x w1 = (Inr y, w')" by (auto simp: bnd_Inr_iff)
  then show "P w' \<and> R y" using keeps_Inr [OF m] keeps_Inr [OF f] \<open>P w\<close> by blast
next
  fix w e w' assume *: "P w" "bnd m f w = (Inl e, w')"
  show "P w'"
  proof (cases "m w")
    case (Pair r w1)
    show ?thesis
    proof (cases r)
      case (Inl d)
      then show ?thesis using Pair * keeps_Inl [OF m] by auto
    next
      case (Inr x)
      then show ?thesis using Pair * keeps_Inr [OF m] keeps_Inl [OF f] by fastforce
    qed
  qed
qed

lemma preserves_bnd_value: "keeps P Q m \<Longrightarrow> (\<And>x. Q x \<Longrightarrow> preserves P (f x)) \<Longrightarrow> preserves P (bnd m f)"
  using keeps_bnd [of P Q m "\<lambda>_. True" f] by (simp add: keeps_def)

lemma keeps_after: "preserves P m \<Longrightarrow> (\<And>x. keeps P Q (f x)) \<Longrightarrow> keeps P Q (bnd m f)"
  by (rule keeps_bnd [of P "\<lambda>_. True"]) (simp_all add: keeps_def)

lemma preserves_after_lift: "(\<And>x. r = Inr x \<Longrightarrow> preserves P (f x)) \<Longrightarrow> preserves P (bnd (lift r) f)"
  by (auto simp: preserves_def bnd_def split: sum.splits)

lemma keeps_catch: "keeps P Q m \<Longrightarrow> (\<And>e. keeps P Q (h e)) \<Longrightarrow> keeps P Q (catch m p h)"
  by (rule keepsI) (auto simp: catch_def split: prod.splits sum.splits if_splits dest: keeps_Inr keeps_Inl)

lemma keeps_with_timeout: "keeps P Q m \<Longrightarrow> keeps P Q (with_timeout sched t m)"
  by (auto simp: keeps_def preserves_with_timeout)
    (auto simp: with_timeout_def split: schedule.splits prod.splits sum.splits exn.splits)

lemma keeps_mono: "keeps P Q m \<Longrightarrow> (\<And>x. Q x \<Longrightarrow> R x) \<Longrightarrow> keeps P R m"
  by (auto simp: keeps_def)

section \<open>A service that stays within its tenants\<close>

text \<open>Everything but its audit writes keeps the invariant.\<close>

locale reading_service =
  fixes svc :: "'w auth_service" and P :: "'w \<Rightarrow> bool" and owns :: "tenant_record \<Rightarrow> bool" and key_ok :: "string \<Rightarrow> bool"
  assumes tenant: "key_ok k \<Longrightarrow> keeps P owns (tp_get_or_create (as_tenants svc) k)"
    and defaults: "preserves P (as_load_policies svc)"
    and list_current: "preserves P (as_list_current svc i ps)"
    and user_context: "preserves P (as_user_context svc u)"
    and list_for_subject: "preserves P (as_list_for_subject svc i ty sid)"
    and policy_cache: "preserves P (as_policy_cache_get svc k v)" "preserves P (as_policy_cache_set svc k v policies)"
    and relationship_cache: "preserves P (as_relationship_cache_get svc i ty sid)"
      "preserves P (as_relationship_cache_set svc i ty sid rows)"
    and key_maker: "preserves P (as_make_key svc k v inp r)"
    and decision_cache: "preserves P (as_decision_get svc k)" "preserves P (as_decision_set svc k cd ttl)"
    and index: "as_index svc = Some build \<Longrightarrow> preserves P (build i ty rid a)"
    and model: "as_get_model svc = Some get \<Longrightarrow> preserves P (get i)"
    and models: "preserves P (as_model_get svc k)" "preserves P (as_model_set svc k g)"
    and graphs: "preserves P (as_graph_set svc k v dg)"
    and schedule: "P w \<Longrightarrow> P (snd (as_schedule svc w))"
begin

lemma timed_keeps:
  assumes "keeps P Q m"
  shows "keeps P Q (timed svc m)"
proof -
  have "keeps P Q (with_timeout sched t m)" for sched t by (rule keeps_with_timeout [OF assms])
  then show ?thesis
    using schedule by (auto simp: keeps_def preserves_def timed_def split: prod.split) (metis snd_conv, metis fst_conv snd_conv)
qed

lemma timed_preserves: "preserves P m \<Longrightarrow> preserves P (timed svc m)"
  using timed_keeps [of "\<lambda>_. True" m] by (simp add: keeps_def)

lemma safe_get_preserves: "preserves P m \<Longrightarrow> preserves P (safe_get svc m)"
  unfolding safe_get_def by (intro preserves_rules timed_preserves)

lemma safe_write_preserves: "preserves P m \<Longrightarrow> preserves P (safe_write svc m)"
  unfolding safe_write_def by (intro preserves_rules timed_preserves)

lemmas safe_preserves = safe_get_preserves safe_write_preserves

lemma fallback_preserves: "preserves P (fallback_decision svc inp reason)"
  unfolding fallback_decision_def default_policy_eval_def by (auto intro!: preserves_rules defaults)

lemma hydrate_preserves: "preserves P (hydrate_user svc i user)"
proof -
  have relationships: "preserves P (user_relationships svc i sid)" for sid
    unfolding user_relationships_def safe_relationship_cache_get_def safe_relationship_cache_set_def
    by (auto intro!: preserves_rules safe_preserves timed_preserves relationship_cache list_for_subject split: option.split)
  show ?thesis unfolding hydrate_user_def Let_def
    by (auto intro!: preserves_rules timed_preserves user_context relationships split: option.split)
qed

lemma input_preserves: "preserves P (build_authorization_input svc i k user action resource context)"
proof -
  have "preserves P (permission_graph_for svc i k)" unfolding permission_graph_for_def Let_def
    by (auto intro!: preserves_rules models model split: option.split prod.split)
  moreover have "preserves P (index_for svc i action resource)" unfolding index_for_def Let_def
    by (auto intro!: index split: option.split prod.split)
  ultimately show ?thesis unfolding build_authorization_input_def by (intro preserves_rules)
qed

lemma build_input_keeps:
  "key_ok k \<Longrightarrow> keeps P (\<lambda>r. owns (snd r)) (build_input_of svc k user action resource context)"
  unfolding build_input_of_def
  by (intro keeps_after [OF preserves_basic(3)] keeps_bnd [OF timed_keeps [OF tenant]] keeps_after hydrate_preserves
      input_preserves keeps_rules) simp_all

lemma engine_preserves: "preserves P (build_engine svc k i v s)"
proof -
  have "preserves P (engine_from svc gk v policies)" for gk policies
    unfolding engine_from_def by (intro preserves_rules graphs)
  moreover have "preserves P (load_current_policies svc i s')" for s'
    unfolding load_current_policies_def by (intro preserves_rules list_current)
  ultimately show ?thesis
    unfolding build_engine_def safe_policy_cache_get_def safe_policy_cache_set_def Let_def
    by (auto intro!: preserves_rules safe_preserves timed_preserves policy_cache defaults split: option.split)
qed

lemma lookup_preserves: "preserves P (cache_lookup svc mode t ps revision inp)"
  unfolding cache_lookup_def safe_cache_get_def
  by (auto intro!: preserves_rules safe_preserves key_maker decision_cache)

lemma decide_preserves: "preserves P (decide_and_store svc eng inp key)"
  unfolding decide_and_store_def safe_cache_set_def
  by (auto intro!: preserves_rules safe_preserves decision_cache split: option.split)

text \<open>The call writes no audit record, or one that keeps the invariant.\<close>

abbreviation audit_kept :: "auth_request \<Rightarrow> bool" where
  "audit_kept rq \<equiv> rq_audit rq \<longrightarrow>
     (\<forall>t inp d. owns t \<longrightarrow> preserves P (safe_audit_write svc (tr_id t) (rq_principal rq) inp d))"

lemma answer_preserves: "audit_kept rq \<Longrightarrow> owns t \<Longrightarrow> preserves P (answer svc rq inp t)"
  unfolding answer_def
  by (auto intro!: preserves_rules lookup_preserves engine_preserves decide_preserves split: sum.split)

lemma authorize_keeps:
  assumes "key_ok (rq_tenant_key rq)" "audit_kept rq"
  shows "preserves P (authorize svc rq)"
  unfolding preserves_def
proof (intro allI impI)
  fix w assume "P w"
  let ?build = "build_input_of svc (rq_tenant_key rq) (rq_user rq) (rq_action rq) (rq_resource rq) (context_of (rq_context rq)) w"
  note built = build_input_keeps [OF assms(1)]
  have reply: "preserves P (bnd (fallback_decision svc inp reason) (\<lambda>d. ret (mk_result d False n)))" for inp reason n
    by (intro preserves_rules fallback_preserves)
  have answer: "preserves P (catch_all (answer svc rq inp t)
      (\<lambda>_. bnd (fallback_decision svc inp reason) (\<lambda>d. ret (mk_result d False n))))" if "owns t" for inp t reason n
    by (intro preserves_rules answer_preserves fallback_preserves that assms(2))
  obtain r w1 where run: "?build = (r, w1)" by (cases ?build) simp
  show "P (snd (authorize svc rq w))"
  proof (cases r)
    case (Inl e)
    then have "P w1" using keeps_Inl [OF built] run \<open>P w\<close> by blast
    then show ?thesis using preserves_D [OF reply] by (simp add: authorize_def run Inl del: bnd_cases)
  next
    case (Inr x)
    then have "P w1" "owns (snd x)" using keeps_Inr [OF built] run \<open>P w\<close> by blast+
    then show ?thesis using preserves_D [OF answer] by (cases x) (simp add: authorize_def run Inr)
  qed
qed

lemma simulate_change_preserves:
  "key_ok k \<Longrightarrow> preserves P (simulate_policy_change svc load k user action resource context change)"
  unfolding simulate_policy_change_def
  by (auto intro!: preserves_rules keeps_preserves [OF tenant] keeps_preserves [OF build_input_keeps] authorize_keeps
      list_current simp: simulator_request_def split: prod.split)

text \<open>The same service without its models.\<close>

lemma without_models: "reading_service (svc\<lparr>as_get_model := None\<rparr>) P owns key_ok"
  by unfold_locales (auto intro: tenant defaults list_current user_context list_for_subject policy_cache relationship_cache
      key_maker decision_cache index models graphs schedule)

end

locale confined_service = reading_service svc P owns key_ok
  for svc :: "'w auth_service" and P :: "'w \<Rightarrow> bool" and owns :: "tenant_record \<Rightarrow> bool" and key_ok :: "string \<Rightarrow> bool" +
  assumes audit: "owns t \<Longrightarrow> preserves P (as_audit_write svc (tr_id t) ty pid inp d c)"
begin

lemma audit_preserves: "owns t \<Longrightarrow> preserves P (safe_audit_write svc (tr_id t) who inp d)"
  unfolding safe_audit_write_def by (intro safe_preserves audit)

lemma authorize_preserves: "key_ok (rq_tenant_key rq) \<Longrightarrow> preserves P (authorize svc rq)"
  by (intro authorize_keeps) (simp_all add: audit_preserves)

lemma simulate_preserves: "key_ok k \<Longrightarrow> preserves P (simulate svc k who user action resource context)"
  unfolding simulate_def by (intro preserves_rules authorize_preserves) simp

lemma batch_preserves:
  assumes "key_ok (bq_tenant_key bq)"
  shows "preserves P (authorize_batch svc bq)"
proof -
  have prepared: "keeps P (\<lambda>s. owns (fst s)) (batch_setup svc bq)"
    unfolding batch_setup_def
    by (intro keeps_bnd [OF timed_keeps [OF tenant [OF assms]]] keeps_after hydrate_preserves engine_preserves keeps_rules) simp
  have ready: "keeps P (\<lambda>r. case r of None \<Rightarrow> True | Some s \<Rightarrow> owns (fst s))
      (catch (bnd (batch_setup svc bq) (\<lambda>s. ret (Some s))) batch_recovers (\<lambda>_. ret None))"
    by (intro keeps_catch keeps_bnd [OF prepared] keeps_rules) simp_all
  have decision: "preserves P (batch_decision svc bq t user eng item)" for t user eng item
    unfolding batch_decision_def
    by (auto intro!: preserves_rules input_preserves lookup_preserves decide_preserves split: sum.split)
  have loop: "preserves P (batch_loop svc bq t user eng memo items)" if "owns t" for t user eng memo items
    by (induction items arbitrary: memo)
      (auto intro!: preserves_rules decision audit_preserves [OF that] split: option.split prod.split)
  have fallback: "preserves P (batch_fallback svc bq)"
    unfolding batch_fallback_def by (intro preserves_rules fallback_preserves)
  show ?thesis unfolding authorize_batch_def
    by (intro preserves_bnd preserves_basic preserves_bnd_value [OF ready])
      (auto intro!: loop fallback split: option.split)
qed

end

end
