(* ===== verification/System.thy ===== *)
theory System
  imports Api Confinement
begin

text \<open>
  What the composed application guarantees. Caches, stores and the indexer never touch the tables, so a
  property of the database is kept by every call whose table operations keep it: the locale
  \<open>reading_frame\<close> for the endpoints that only look, extended by \<open>database_frame\<close> for the checks, which
  are audited, and by \<open>managed_database\<close> for the writing ones. Interpreted on three properties of the database they give who may change the tables,
  the separation of the tenants and the integrity of the tables.
\<close>

section \<open>Calls that leave the database alone\<close>

abbreviation of_world :: "(database \<Rightarrow> bool) \<Rightarrow> world \<Rightarrow> bool" where
  "of_world I w \<equiv> I (w_db w)"

abbreviation of_site :: "(database \<Rightarrow> bool) \<Rightarrow> site \<Rightarrow> bool" where
  "of_site I s \<equiv> I (w_db (st_world s))"

lemma reads_preserve: "(\<And>w. snd (m w) = w) \<Longrightarrow> preserves P m"
  by (simp add: preserves_def)

lemma preserves_Pair [simp]: "preserves P (Pair r)"
  by (simp add: preserves_def)

lemma on_db_keeps: "keeps I Q m \<Longrightarrow> keeps (of_world I) Q (on_db m)"
  by (simp add: keeps_def preserves_def on_db_def split: prod.splits) fastforce

lemma on_db_preserves: "preserves I m \<Longrightarrow> preserves (of_world I) (on_db m)"
  by (auto simp: preserves_def on_db_def split: prod.splits)

lemma on_world_keeps: "keeps P Q m \<Longrightarrow> keeps (\<lambda>s. P (st_world s)) Q (on_world m)"
  by (simp add: keeps_def preserves_def on_world_def split: prod.splits) fastforce

lemma on_world_preserves: "preserves P m \<Longrightarrow> preserves (\<lambda>s. P (st_world s)) (on_world m)"
  by (auto simp: preserves_def on_world_def split: prod.splits)

text \<open>A cache backend that keeps an invariant of its world.\<close>

locale framed_cache =
  fixes ops :: "'b cache_ops" and P :: "'b \<Rightarrow> bool"
  assumes get: "preserves P (co_get ops k)" and set: "preserves P (co_set ops k v ttl)"
    and delete: "preserves P (co_delete ops k)" and incr: "preserves P (co_incr ops k)"
begin

lemma namespaces: "preserves P (first_namespace ops ks)"
  by (induction ks) (auto intro!: preserves_rules get split: option.split cache_text.split)

lemma policy_cache:
  "preserves P (policy_cache_get ops t v)" "preserves P (policy_cache_set ops t v ps)"
  "preserves P (policy_cache_invalidate ops t)"
  unfolding policy_cache_get_def policy_cache_set_def policy_cache_invalidate_def policy_cache_key_def
  by (intro preserves_rules get set incr)+

lemma relationship_cache:
  "preserves P (relationship_cache_get ops t ty sid)" "preserves P (relationship_cache_set ops ttl t ty sid rs)"
  "preserves P (relationship_cache_invalidate ops t ty sid)"
  unfolding relationship_cache_get_def relationship_cache_set_def relationship_cache_invalidate_def
  by (intro preserves_rules get set delete)+

lemma decision_cache:
  "preserves P (decision_cache_get ops k)" "preserves P (decision_cache_set ops k cd ttl)"
  "preserves P (make_key ops digest t v inp r)" "preserves P (bump_namespace ops t)"
  unfolding decision_cache_get_def decision_cache_set_def make_key_def tenant_namespace_def bump_namespace_def
  by (auto intro!: preserves_rules get set incr split: option.split pyval.split)

lemma acl_cache:
  "preserves P (acl_cache_get ops t ty rid a)" "preserves P (acl_cache_set ops ttl t ty rid a acls)"
  "preserves P (acl_cache_invalidate ops t ty rid)"
  unfolding acl_cache_get_def acl_cache_set_def acl_cache_invalidate_def acl_cache_key_def
  by (intro preserves_rules get set incr namespaces)+

lemma index_cache:
  "preserves P (index_cache_get ops t ty rid a)" "preserves P (index_cache_set ops ttl t ty rid a es)"
  "preserves P (index_cache_invalidate ops t ty rid)" "preserves P (index_cache_invalidate_tenant ops t)"
  "preserves P (index_cache_invalidate_global ops)"
  unfolding index_cache_get_def index_cache_set_def index_cache_invalidate_def index_cache_invalidate_tenant_def
    index_cache_invalidate_global_def index_cache_key_def
  by (intro preserves_rules get set incr namespaces)+

end

lemma on_cache_preserves: "preserves (of_world I) (on_cache m)"
  by (auto simp: preserves_def on_cache_def split: prod.split)

interpretation cached: framed_cache world_cache "of_world I" for I
  by unfold_locales (simp_all add: world_cache_def on_cache_preserves)

lemmas caches_preserve = cached.policy_cache cached.relationship_cache cached.decision_cache cached.acl_cache
  cached.index_cache

lemma stores_preserve:
  "preserves (of_world I) (graphs_set k v g)" "preserves (of_world I) (graphs_invalidate k)"
  "preserves (of_world I) (models_set k pg)" "preserves (of_world I) (publish k v)"
  by (simp_all add: preserves_def graphs_set_def graphs_invalidate_def models_set_def publish_def)

lemma rows_preserve:
  "preserves I (list_for_subject t ty sid)" "preserves I (list_for_object t ty sid)"
  "preserves I (list_for_subjects t ty sids)" "preserves I (list_resource_acl t ty rid)"
  "preserves I (get_acl_entry t i)" "preserves I (find_matching_acl t ty rid a)"
  "preserves I (list_current_policies t ps)" "preserves I (list_current_policy_views t ps)"
  "preserves I (get_user_context u)" "preserves I list_user_ids" "preserves I (get_user_contexts us)"
  "preserves I (get_model t)" "preserves I (list_for_subject_page t ty sid n c)" "preserves I (list_current_policy_page t n c)"
  "preserves I (lint t)" "preserves I (list_audit_page dialect t n c wanted)"
  by (rule reads_preserve; simp add: list_for_subject_def list_for_object_def list_for_subjects_def list_resource_acl_def
      get_acl_entry_def find_matching_acl_def list_current_policies_def list_current_policy_views_def
      get_user_context_def list_user_ids_def get_user_contexts_def get_model_def
      list_for_subject_page_def list_current_policy_page_def lint_def bnd_def list_audit_page_def Let_def split: prod.split sum.split)+

lemma index_preserves:
  "preserves (of_site I) (build_resource_index site_index t ty rid a)"
  "preserves (of_site I) (invalidate_resource site_index t ty rid)"
  "preserves (of_site I) (run_refresh site_index key)"
proof -
  have update: "preserves (of_site I) (update_indexer site_index f)" for f
    by (simp add: preserves_def update_indexer_def site_index_def)
  have memo: "preserves (of_site I) (memo_get site_index key)" "preserves (of_site I) (memo_set site_index key es)" for key es
    by (simp_all add: preserves_def memo_get_def memo_set_def update_indexer_def site_index_def split: option.split)
  have rebuild: "preserves (of_site I) (rebuild_resource_index site_index t ty rid a)" for t ty rid a
    unfolding rebuild_resource_index_def Let_def
    by (auto intro!: preserves_rules on_world_preserves caches_preserve on_db_preserves rows_preserve
        simp: site_index_def split: option.split)
  show "preserves (of_site I) (build_resource_index site_index t ty rid a)"
    unfolding build_resource_index_def schedule_background_refresh_def Let_def
    by (auto intro!: preserves_rules update memo rebuild on_world_preserves caches_preserve
        simp: site_index_def [THEN arg_cong [of _ _ ip_index_get]] split: option.split)
  show "preserves (of_site I) (invalidate_resource site_index t ty rid)"
    unfolding invalidate_resource_def
    by (intro preserves_rules update) (auto intro!: on_world_preserves caches_preserve simp: site_index_def)
  obtain t ty rid a where key: "key = (t, ty, rid, a)" by (cases key)
  have "preserves (of_site I) (bnd (rebuild_resource_index site_index t ty rid a) (memo_set site_index key))"
    by (intro preserves_rules rebuild memo)
  moreover have "preserves (of_site I) (finish_refresh site_index key)" unfolding finish_refresh_def by (rule update)
  ultimately show "preserves (of_site I) (run_refresh site_index key)"
    by (auto simp: preserves_def run_refresh_def key split: prod.split)
qed

lemmas refresh_preserves = index_preserves(3)

section \<open>Reading and checking\<close>

text \<open>
  A property of the tables that survives the creation of a tenant. \<open>owns\<close> are the tenants a call may act
  for, \<open>key_ok\<close> their keys.
\<close>

locale reading_frame =
  fixes I :: "database \<Rightarrow> bool" and owns :: "tenant_record \<Rightarrow> bool" and key_ok :: "string \<Rightarrow> bool"
  assumes get_or_create: "key_ok k \<Longrightarrow> keeps I owns (tenant_get_or_create k)"
    and owned_key: "owns t \<Longrightarrow> key_ok (tr_key t)"

sublocale reading_frame \<subseteq> service: reading_service "service_of env request" "of_site I" owns key_ok for env request
proof unfold_locales
  show "preserves (of_site I) (as_load_policies (service_of env request))"
    by (auto simp: service_of_def build_service_def load_policies_def intro!: preserves_rules split: option.split)
  show "preserves (of_site I) (build i ty rid a)" if "as_index (service_of env request) = Some build" for build i ty rid a
    using that by (auto simp: service_of_def build_service_def intro: index_preserves)
  show "preserves (of_site I) (get i)" if "as_get_model (service_of env request) = Some get" for get i
    using that by (auto simp: service_of_def build_service_def site_model_text_def
        intro!: preserves_rules on_world_preserves on_db_preserves rows_preserve)
  show "preserves (of_site I) (as_model_get (service_of env request) k)" for k
    by (simp add: preserves_def service_of_def build_service_def site_model_get_def)
  show "of_site I (snd (as_schedule (service_of env request) w))" if "of_site I w" for w
    using that by (simp add: service_of_def build_service_def next_schedule_def split: list.split)
qed (auto simp: service_of_def build_service_def site_tenants_def world_tenants_def
    intro!: on_world_keeps on_world_preserves on_db_keeps on_db_preserves get_or_create rows_preserve
      caches_preserve stores_preserve)

context reading_frame begin

lemma world_tenant: "key_ok k \<Longrightarrow> keeps (of_world I) owns (tp_get_or_create world_tenants k)"
  by (simp add: world_tenants_def on_db_keeps get_or_create)

lemma tenant_for_keeps: "key_ok k \<Longrightarrow> keeps (of_site I) owns (tenant_for k)"
  using on_world_keeps [OF world_tenant] by (simp add: tenant_for_def site_tenants_def)

lemmas site_tenant = tenant_for_keeps [unfolded tenant_for_def]

lemma db_reads: "(\<And>db. snd (m db) = db) \<Longrightarrow> preserves (of_site I) (on_world (on_db m))"
  by (intro on_world_preserves on_db_preserves reads_preserve)

lemma site_db: "preserves I m \<Longrightarrow> preserves (of_site I) (on_world (on_db m))"
  by (intro on_world_preserves on_db_preserves)

lemmas site_rows = rows_preserve [of I, THEN site_db]

lemma with_limit_preserves: "preserves P m \<Longrightarrow> preserves P (with_limit limit m)"
  by (simp add: with_limit_def)

lemma guarded_preserve:
  assumes "preserves P m"
  shows "preserves P (sql_guarded m)" "preserves P (value_guarded m)" "preserves P (access_guarded m)"
  using assms unfolding sql_guarded_def value_guarded_def access_guarded_def by (auto intro!: preserves_rules)

lemma lint_preserves: "key_ok k \<Longrightarrow> preserves (of_site I) (lint_tenant k)"
  unfolding lint_tenant_def by (intro preserves_bnd keeps_preserves [OF tenant_for_keeps] site_rows)

lemma pages_preserve:
  "key_ok k \<Longrightarrow> preserves (of_world I) (list_relationships_page world_relationships k ty sid n c)"
  "key_ok k \<Longrightarrow> preserves (of_world I) (list_policies_page world_policies k n c)"
  unfolding list_relationships_page_def list_policies_page_def
  by (auto simp: world_relationships_def world_policies_def
      intro!: preserves_rules keeps_preserves [OF world_tenant] on_db_preserves rows_preserve)

lemma impact_ports:
  "preserves (of_site I) (im_list_current site_impact t ps)" "preserves (of_site I) (im_list_user_ids site_impact)"
  "preserves (of_site I) (im_user_contexts site_impact us)" "preserves (of_site I) (im_user_context site_impact u)"
  "preserves (of_site I) (im_list_for_subjects site_impact t ty sids)"
  "preserves (of_site I) (im_list_for_subject site_impact t ty sid)"
  "key_ok k \<Longrightarrow> preserves (of_site I) (tp_get_or_create (im_tenants site_impact) k)"
  by (simp_all add: site_impact_def site_rows keeps_preserves [OF site_tenant])

lemma impact_preserves:
  assumes "key_ok k"
  shows "preserves (of_site I) (analyze_policy_change site_impact load k change)"
proof -
  have contexts: "preserves (of_site I) (impact_context site_impact contexts u)" for contexts u
    unfolding impact_context_def by (auto intro!: preserves_rules impact_ports split: option.split list.split)
  have found: "preserves (of_site I) (user_and_resources site_impact i contexts prefetched u)" for i contexts prefetched u
    unfolding user_and_resources_def enrich_user_def candidate_resources_def
    by (auto intro!: preserves_rules contexts impact_ports split: option.split)
  have users: "preserves (of_site I) (analyze_users site_impact i b a action contexts prefetched us)"
    for i b a action contexts prefetched us
    by (induction us) (auto intro!: preserves_rules found split: option.split)
  have "preserves (of_site I) (users_impact site_impact t action b a)" for t action b a
    unfolding users_impact_def by (auto intro!: preserves_rules users impact_ports split: option.split)
  then show ?thesis
    unfolding analyze_policy_change_def by (intro preserves_rules impact_ports assms)
qed

lemma viewing_endpoint_preserves:
  assumes "tenant_role e = Viewer \<or> (\<exists>policies user resource action context. e = Playground policies user resource action context)"
    and "key_ok (aa_tenant_key access)"
  shows "preserves (of_site I) (tenant_call env request p access e)"
proof -
  note tenant = keeps_preserves [OF tenant_for_keeps [OF assms(2)]]
  note world = keeps_preserves [OF on_db_keeps [OF get_or_create [OF assms(2)]]]
  show ?thesis
    using assms(1)
    by (cases e)
      (auto simp: tenant_call_def list_acl_def list_edges_def list_policies_route_def list_audit_logs_def model_route_def
        get_auth_model_def simulate_policy_def impact_analysis_def playground_evaluate_def
        intro!: preserves_rules with_limit_preserves guarded_preserve tenant site_rows lint_preserves on_world_preserves
          pages_preserve assms(2) world on_db_preserves rows_preserve service.simulate_change_preserves impact_preserves
        split: option.split prod.split)
qed

lemma listing_roles_preserves:
  assumes "rbac_role e = Viewer"
  shows "preserves (of_site I) (rbac_endpoint_call env request access e)"
proof -
  have rows: "preserves (of_world I) (list_roles n c)" "preserves (of_world I) (list_permissions n c)"
    "preserves (of_world I) (list_role_permissions i)" "preserves (of_world I) (list_permission_roles i)" for n c i
    by (simp_all add: preserves_def list_roles_def list_permissions_def list_role_permissions_def list_permission_roles_def)
  show ?thesis
    using assms
    by (cases e) (auto simp: rbac_endpoint_call_def named_listing_def role_permissions_route_def permission_roles_route_def
        intro!: preserves_rules with_limit_preserves on_world_preserves rows split: prod.split)
qed

lemma open_endpoint_preserves:
  "(\<forall>reset. e \<noteq> SeedSample reset) \<Longrightarrow> preserves (of_site I) (open_call env request e)"
  by (cases e) (auto simp: open_call_def answered_def get_sample_data_def local_dev_only_def login_route_def
      intro!: preserves_rules)

end

text \<open>It survives audit records as well.\<close>

locale database_frame = reading_frame I owns key_ok
  for I :: "database \<Rightarrow> bool" and owns :: "tenant_record \<Rightarrow> bool" and key_ok :: "string \<Rightarrow> bool" +
  assumes recorded: "owns t \<Longrightarrow> preserves I (audit_write (tr_id t) ty pid inp d c)"

sublocale database_frame \<subseteq> audited: confined_service "service_of env request" "of_site I" owns key_ok for env request
  by unfold_locales (auto simp: service_of_def build_service_def intro!: on_world_preserves on_db_preserves recorded)

context database_frame begin

lemma access_endpoint_preserves:
  assumes "\<And>k. resolve_request_tenant_key request p (en_settings env) = Inr k \<Longrightarrow> key_ok k"
  shows "preserves (of_site I) (access_call env request p e)"
proof (cases e)
  case (CheckAccess payload policy_set)
  then show ?thesis
    unfolding access_call_def check_access_route_def
    by (auto intro!: preserves_after_lift preserves_rules guarded_preserve audited.authorize_preserves assms
        simp: access_request_def)
next
  case (Simulate payload)
  then show ?thesis
    unfolding access_call_def simulate_access_def get_revision_def
    by (auto intro!: preserves_after_lift preserves_rules guarded_preserve audited.simulate_preserves
        keeps_preserves [OF site_tenant] assms)
next
  case (CheckBatch payload policy_set)
  then show ?thesis
    unfolding access_call_def check_access_batch_def
    by (auto intro!: preserves_after_lift preserves_rules guarded_preserve audited.batch_preserves assms)
qed

end

section \<open>Writing\<close>

text \<open>The writes on the tables of one tenant, and the writes on the role tables, that the endpoints make.\<close>

inductive tenant_write :: "int \<Rightarrow> database \<Rightarrow> database \<Rightarrow> bool" where
  version: "tenant_write i db (snd (create_policy_version i k a e pr co cb st db))"
| rollback: "tenant_write i db (snd (rollback_policy_row i k v db))"
| delete: "tenant_write i db (snd (delete_policy_rows i k db))"
| relate: "tenant_write i db (snd (create_relationship_row i edge db))"
| grant_acl: "tenant_write i db (snd (create_acl_entry i sty sid rty rid a e db))"
| revoke_acl: "tenant_write i db (snd (delete_acl_entry i acl_id db))"
| set_model: "tenant_write i db (snd (upsert_model i text json compiled db))"

inductive rbac_write :: "database \<Rightarrow> database \<Rightarrow> bool" where
  add_role: "\<not> list_ex (\<lambda>r. ro_name r = name) (db_roles db) \<Longrightarrow> rbac_write db (insert_role name db)"
| change_role: "\<not> list_ex (\<lambda>r. ro_name r = name \<and> ro_id r \<noteq> i) (db_roles db) \<Longrightarrow> rbac_write db (rename_role i name db)"
| drop_role: "rbac_write db (remove_role i db)"
| add_permission: "\<not> list_ex (\<lambda>p. pe_action p = action) (db_permissions db) \<Longrightarrow> rbac_write db (insert_permission action db)"
| change_permission: "\<not> list_ex (\<lambda>p. pe_action p = action \<and> pe_id p \<noteq> i) (db_permissions db) \<Longrightarrow>
    rbac_write db (rename_permission i action db)"
| drop_permission: "rbac_write db (remove_permission i db)"
| add_link: "find_role db r \<noteq> None \<Longrightarrow> find_permission db p \<noteq> None \<Longrightarrow>
    rbac_write db (db\<lparr>db_role_permissions := db_role_permissions db @ [(r, p)]\<rparr>)"
| drop_link: "rbac_write db (db\<lparr>db_role_permissions := filter Q (db_role_permissions db)\<rparr>)"

locale managed_database = database_frame I owns key_ok
  for I :: "database \<Rightarrow> bool" and owns :: "tenant_record \<Rightarrow> bool" and key_ok :: "string \<Rightarrow> bool" +
  assumes bumped: "owns t \<Longrightarrow> keeps I owns (tenant_bump_revision t)" "owns t \<Longrightarrow> keeps I owns (tenant_bump_policy_version t)"
    and written: "owns t \<Longrightarrow> tenant_write (tr_id t) db db' \<Longrightarrow> I db \<Longrightarrow> I db'"
    and granted: "rbac_write db db' \<Longrightarrow> I db \<Longrightarrow> I db'"
begin

lemma write_preserves: "owns t \<Longrightarrow> (\<And>db. tenant_write (tr_id t) db (snd (m db))) \<Longrightarrow> preserves I m"
  unfolding preserves_def using written by blast

lemma tenant_writes:
  assumes "owns t"
  shows "preserves I (create_policy_version (tr_id t) k a e pr co cb st)" "preserves I (rollback_policy_row (tr_id t) k v)"
    "preserves I (delete_policy_rows (tr_id t) k)" "preserves I (create_relationship_row (tr_id t) edge)"
    "preserves I (create_acl_entry (tr_id t) sty sid rty rid a e)" "preserves I (delete_acl_entry (tr_id t) acl_id)"
    "preserves I (upsert_model (tr_id t) text json compiled)"
  by (rule write_preserves [OF assms], rule tenant_write.intros)+

lemma bump_preserves:
  "key_ok k \<Longrightarrow> preserves (of_world I) (bump_revision world_tenants k)"
  unfolding bump_revision_def
  by (intro preserves_bnd_value [OF world_tenant]) (auto simp: world_tenants_def
      intro!: preserves_rules keeps_preserves [OF on_db_keeps [OF bumped(1)]])

lemma publish_preserves:
  assumes "owns t"
  shows "preserves (of_world I) (publish_change world_policies t)"
proof -
  have bump: "keeps (of_world I) owns (tp_bump_policy_version world_tenants t)"
    by (simp add: world_tenants_def on_db_keeps bumped assms)
  have ports: "ps_tenants world_policies = world_tenants" "ps_publish world_policies = publish"
    "ps_policy_cache_invalidate world_policies = policy_cache_invalidate world_cache"
    "ps_bump_namespace world_policies = bump_namespace world_cache" "ps_graphs_set world_policies = graphs_set"
    "ps_graphs_invalidate world_policies = graphs_invalidate"
    "ps_list_current world_policies = (\<lambda>t s. on_db (list_current_policies t s))"
    by (simp_all add: world_policies_def)
  show ?thesis unfolding publish_change_def compile_and_store_def ports
    by (intro preserves_bnd_value [OF bump])
      (intro preserves_rules caches_preserve bump_preserves owned_key stores_preserve on_db_preserves rows_preserve; assumption)
qed

lemma policy_writes_preserve:
  assumes "key_ok k"
  shows "preserves (of_world I) (create_policy world_policies k pk a e pr co cb st)"
    "preserves (of_world I) (rollback_policy world_policies k pk v)" "preserves (of_world I) (delete_policy world_policies k pk)"
proof -
  note tenant = preserves_bnd_value [OF world_tenant [OF assms]]
  have tenants: "ps_tenants world_policies = world_tenants"
    and ports: "\<And>t. owns t \<Longrightarrow> preserves (of_world I) (ps_create_version world_policies (tr_id t) pk a e pr co cb st')"
      "\<And>t. owns t \<Longrightarrow> preserves (of_world I) (ps_rollback world_policies (tr_id t) pk v)"
      "\<And>t. owns t \<Longrightarrow> preserves (of_world I) (ps_delete world_policies (tr_id t) pk)" for st'
    by (simp_all add: world_policies_def on_db_preserves tenant_writes)
  show "preserves (of_world I) (create_policy world_policies k pk a e pr co cb st)"
    "preserves (of_world I) (rollback_policy world_policies k pk v)" "preserves (of_world I) (delete_policy world_policies k pk)"
    unfolding create_policy_def rollback_policy_def delete_policy_def tenants
    by (intro tenant preserves_rules ports publish_preserves; assumption)+
qed

lemma relationship_writes_preserve:
  assumes "key_ok k"
  shows "preserves (of_world I) (create_relationship world_relationships k edge)"
proof -
  have ports: "rs_tenants world_relationships = world_tenants" "rs_bump_namespace world_relationships = bump_namespace world_cache"
    "rs_cache_invalidate world_relationships = relationship_cache_invalidate world_cache"
    "rs_index_invalidate_tenant world_relationships = Some (index_cache_invalidate_tenant world_cache)"
    "rs_create world_relationships = (\<lambda>t e. on_db (create_relationship_row t e))"
    by (simp_all add: world_relationships_def)
  show ?thesis unfolding create_relationship_def ports option.case
    by (intro preserves_bnd_value [OF world_tenant [OF assms]])
      (intro preserves_rules caches_preserve bump_preserves owned_key on_db_preserves tenant_writes; assumption)
qed

lemma tenant_changed_preserves: "key_ok k \<Longrightarrow> preserves (of_site I) (tenant_changed k)"
proof -
  assume "key_ok k"
  have "tp_get_or_create site_tenants k = on_world (tp_get_or_create world_tenants k)"
    and bump: "tp_bump_revision site_tenants t = on_world (tp_bump_revision world_tenants t)" for t
    by (simp_all add: site_tenants_def)
  then have "keeps (of_site I) owns (tp_get_or_create site_tenants k)"
    using on_world_keeps [OF world_tenant [OF \<open>key_ok k\<close>]] by simp
  moreover have "preserves (of_site I) (tp_bump_revision site_tenants t)" if "owns t" for t
    using that by (auto simp: bump world_tenants_def intro!: on_world_preserves on_db_preserves keeps_preserves [OF bumped(1)])
  ultimately show ?thesis unfolding tenant_changed_def bump_revision_def
    by (intro preserves_bnd on_world_preserves caches_preserve preserves_bnd_value [of _ owns]) (auto intro!: preserves_rules)
qed

lemma acl_writes_preserve:
  assumes "key_ok (aa_tenant_key access)"
  shows "preserves (of_site I) (create_acl request access payload)" "preserves (of_site I) (delete_acl request access acl_id)"
  unfolding create_acl_def delete_acl_def
  by (auto intro!: preserves_bnd_value [OF tenant_for_keeps [OF assms]] preserves_rules guarded_preserve site_rows
      site_db tenant_writes index_preserves tenant_changed_preserves owned_key split: option.split prod.split)

lemma model_write_preserves:
  assumes "key_ok k"
  shows "preserves (of_world I) (create_auth_model k text)"
  unfolding create_auth_model_def
  by (intro preserves_bnd_value [OF on_db_keeps [OF get_or_create [OF assms]]])
    (intro preserves_rules on_db_preserves tenant_writes stores_preserve bump_preserves assms; assumption)

lemma tenant_endpoint_preserves:
  assumes "key_ok (aa_tenant_key access)"
  shows "preserves (of_site I) (tenant_call env request p access e)"
proof -
  have save: "preserves (of_site I) (save_policy request p access policy_key payload)" for policy_key payload
    unfolding save_policy_def
    by (intro preserves_rules guarded_preserve on_world_preserves policy_writes_preserve lint_preserves assms)
  show ?thesis
  proof (cases "tenant_role e = Viewer \<or> (\<exists>policies user resource action context. e = Playground policies user resource action context)")
    case True
    then show ?thesis by (rule viewing_endpoint_preserves [OF _ assms])
  next
    case False
    then show ?thesis
      by (cases e) (auto simp: tenant_call_def create_edge_def create_policy_route_def update_policy_route_def
          create_policy_from_dsl_def delete_policy_route_def rollback_policy_route_def model_route_def
          intro!: preserves_rules acl_writes_preserve assms guarded_preserve save on_world_preserves policy_writes_preserve
            relationship_writes_preserve model_write_preserves split: prod.split exn.split)
  qed
qed

lemma committed_write:
  assumes "key_ok k" "rbac_write (w_db w) (f (w_db w))" "I (w_db w)"
  shows "I (w_db (snd (write_then_commit k f w)))" "I (w_db (snd (bnd (write_then_commit k f) (\<lambda>_. ret x) w)))"
proof -
  have "preserves (of_world I) (catch (committed k) is_sql_error (\<lambda>_. throw db_error))"
    unfolding committed_def by (intro preserves_rules caches_preserve bump_preserves assms)
  then have "I (w_db (snd (catch (committed k) is_sql_error (\<lambda>_. throw db_error) (w\<lparr>w_db := f (w_db w)\<rparr>))))"
    using granted [OF assms(2,3)] by (simp add: preserves_def)
  moreover have "write_then_commit k f w = catch (committed k) is_sql_error (\<lambda>_. throw db_error) (w\<lparr>w_db := f (w_db w)\<rparr>)"
    by (simp add: write_then_commit_def catch_def bnd_def on_db_def)
  ultimately show "I (w_db (snd (write_then_commit k f w)))" by simp
  then show "I (w_db (snd (bnd (write_then_commit k f) (\<lambda>_. ret x) w)))"
    by (cases "write_then_commit k f w"; cases "fst (write_then_commit k f w)") auto
qed

lemma rbac_handlers_preserve:
  assumes "key_ok k"
  shows "preserves (of_world I) (create_role k name)" "preserves (of_world I) (update_role k i name)"
    "preserves (of_world I) (delete_role k i)" "preserves (of_world I) (add_permission_to_role k i j)"
    "preserves (of_world I) (remove_permission_from_role k i j)" "preserves (of_world I) (create_permission k name)"
    "preserves (of_world I) (update_permission k i name)" "preserves (of_world I) (delete_permission k i)"
  by (auto simp: preserves_def create_role_def update_role_def delete_role_def add_permission_to_role_def
      remove_permission_from_role_def create_permission_def update_permission_def delete_permission_def
      intro!: committed_write [OF assms] rbac_write.intros)

lemma rbac_endpoint_preserves:
  assumes "key_ok (aa_tenant_key access)"
  shows "preserves (of_site I) (rbac_endpoint_call env request access e)"
proof (cases "rbac_role e = Viewer")
  case False
  have "preserves (of_site I) (permission_out i)" for i
    by (simp add: preserves_def permission_out_def split: option.split)
  with False show ?thesis
    by (cases e) (auto simp: rbac_endpoint_call_def named_answer_def deleted_answer_def link_route_def unlink_route_def
        intro!: preserves_rules on_world_preserves rbac_handlers_preserve assms)
qed (rule listing_roles_preserves)

end

section \<open>Requests\<close>

abbreviation node_db :: "node \<Rightarrow> database" where
  "node_db n \<equiv> w_db (st_world (nd_site n))"

abbreviation of_node :: "(database \<Rightarrow> bool) \<Rightarrow> node \<Rightarrow> bool" where
  "of_node I n \<equiv> I (node_db n)"

definition principal_of :: "environment \<Rightarrow> http_request \<Rightarrow> node \<Rightarrow> pydict result" where
  "principal_of env request n = fst (get_principal (en_settings env) (en_auth env) (en_credentials env request)
     (header request ''X-API-Key'') (nd_jwks n))"

lemma on_site_D: "preserves (of_site I) m \<Longrightarrow> of_node I n \<Longrightarrow> of_node I (snd (on_site m n))"
  by (auto simp: on_site_def dest: preserves_run split: prod.split)

lemma on_site_fresh: "on_site fresh_indexer n = (Inr (), n\<lparr>nd_site := (nd_site n)\<lparr>st_indexer := new_indexer\<rparr>\<rparr>)"
  by (simp add: on_site_def fresh_indexer_def)

lemma authenticated_principal:
  "\<exists>n1. authenticated env request n = (principal_of env request n, n1) \<and> nd_site n1 = nd_site n"
proof -
  obtain r j where "get_principal (en_settings env) (en_auth env) (en_credentials env request)
      (header request ''X-API-Key'') (nd_jwks n) = (r, j)" by force
  then show ?thesis by (intro exI [of _ "n\<lparr>nd_jwks := j\<rparr>"]) (simp add: authenticated_def on_jwks_def principal_of_def)
qed

lemma authenticated_run:
  obtains n1 where "authenticated env request n = (principal_of env request n, n1)" "node_db n1 = node_db n"
  using authenticated_principal [of env request n] by auto

lemma answered_preserves: "preserves (of_site I) m \<Longrightarrow> preserves (of_site I) (answered status m)"
  unfolding answered_def by (intro preserves_rules)

text \<open>What an endpoint with dependencies keeps, it keeps for the principals and roles that pass them.\<close>

lemma checked_keeps:
  assumes "of_node I n" "\<And>p. principal_of env request n = Inr p \<Longrightarrow> preserves (of_site I) (access_call env request p e)"
  shows "of_node I (snd (dispatch env (AccessCall e) request n))"
proof -
  obtain n1 where run: "authenticated env request n = (principal_of env request n, n1)" "node_db n1 = node_db n"
    by (rule authenticated_run)
  show ?thesis
    using run assms(1) on_site_D [OF answered_preserves [OF assms(2)]]
    by (cases "principal_of env request n") (simp_all add: dispatch_def on_site_fresh)
qed

lemma managed_keeps:
  assumes "of_node I n"
    and "\<And>p access. principal_of env request n = Inr p \<Longrightarrow> require_management_role m request p (en_settings env) = Inr access
      \<Longrightarrow> preserves (of_site I) (respond p access)"
  shows "of_node I (snd (managed env request m status respond n))"
proof -
  obtain n1 where run: "authenticated env request n = (principal_of env request n, n1)" "node_db n1 = node_db n"
    by (rule authenticated_run)
  show ?thesis
  proof (cases "principal_of env request n")
    case principal: (Inr p)
    then show ?thesis
      using run assms(1) on_site_D [OF answered_preserves [OF assms(2) [OF principal]]]
      by (cases "require_management_role m request p (en_settings env)") (simp_all add: managed_def on_site_fresh)
  qed (use run assms(1) in \<open>simp add: managed_def\<close>)
qed

lemma routes_keep:
  assumes "of_node I n"
    and "\<And>call. route request = Inr call \<Longrightarrow> mounted (en_settings env) call \<Longrightarrow> of_node I (snd (dispatch env call request n))"
  shows "of_node I (snd (routes env route request n))"
  using assms by (cases "route request") (simp_all add: routes_def)


section \<open>Who may change the tables\<close>

text \<open>The tables that hold policies, access control lists, relationships, models, users and roles.\<close>

definition protected_tables :: "database \<Rightarrow> (policy_row list \<times> version_row list \<times> acl_record list \<times> relationship_row list
    \<times> model_row list) \<times> user_row list \<times> role_row list \<times> permission_row list \<times> (int \<times> int) list \<times> (int \<times> int) list" where
  "protected_tables db = ((db_policies db, db_versions db, db_acl db, db_relationships db, db_models db), rbac_tables db)"

interpretation protected: database_frame "\<lambda>db. protected_tables db = x" "\<lambda>t. True" "\<lambda>k. True" for x
proof unfold_locales
  show "keeps (\<lambda>db. protected_tables db = x) (\<lambda>t. True) (tenant_get_or_create k)" for k
    by (rule keepsI) (auto simp: tenant_get_or_create_def protected_tables_def rbac_tables_def Let_def split: option.splits)
  show "preserves (\<lambda>db. protected_tables db = x) (audit_write (tr_id t) ty pid inp d c)" for t ty pid inp d c
    by (simp add: preserves_def audit_write_def protected_tables_def rbac_tables_def)
qed simp

definition permitted :: "environment \<Rightarrow> http_request \<Rightarrow> node \<Rightarrow> management_role \<Rightarrow> bool" where
  "permitted env request n m \<longleftrightarrow> (\<exists>p access. principal_of env request n = Inr p
     \<and> require_management_role m request p (en_settings env) = Inr access)"

lemma permittedI:
  "principal_of env request n = Inr p \<Longrightarrow> require_management_role m request p (en_settings env) = Inr access \<Longrightarrow>
   permitted env request n m"
  by (auto simp: permitted_def)

lemma role_above_viewer: "m \<noteq> Viewer \<Longrightarrow> Developer \<le> m"
  by (cases m) (simp_all add: less_eq_management_role_def)

text \<open>
  C3. The tables of policies, access control lists, relationships, models, users and roles change only
  through a mounted management endpoint that asks for at least the developer role, for a caller who
  authenticated and holds the role it asks for, or through the sample data endpoint of a local
  environment, which asks for nothing. Checks, simulations, listings and logins never change them.
\<close>

theorem table_changes_permitted:
  assumes "routes env route request n = (r, n')" "protected_tables (node_db n') \<noteq> protected_tables (node_db n)"
  shows "\<exists>call. route request = Inr call \<and> mounted (en_settings env) call
    \<and> ((\<exists>m. required_role call = Some m \<and> Developer \<le> m \<and> permitted env request n m)
       \<or> (\<exists>reset. call = OpenCall (SeedSample reset) \<and> is_local_dev (en_settings env)))"
proof (rule ccontr)
  assume none: "\<not> ?thesis"
  let ?I = "\<lambda>db. protected_tables db = protected_tables (node_db n)"
  have "of_node ?I (snd (dispatch env call request n))"
    if call: "route request = Inr call" "mounted (en_settings env) call" for call
  proof -
    have refused: "m = Viewer" if "required_role call = Some m" "permitted env request n m" for m
      using none call that role_above_viewer [of m] by metis
    have unseeded: "call \<noteq> OpenCall (SeedSample reset)" if "is_local_dev (en_settings env)" for reset
      using none call that by metis
    show ?thesis
    proof (cases call)
      case (OpenCall e)
      have "preserves (of_site ?I) (open_call env request e)"
      proof (cases "\<exists>reset. e = SeedSample reset")
        case True
        then have "\<not> is_local_dev (en_settings env)" using unseeded OpenCall by blast
        with True show ?thesis
          by (auto simp: open_call_def answered_def seed_sample_data_def local_dev_only_def intro!: preserves_rules)
      qed (use protected.open_endpoint_preserves in blast)
      then show ?thesis unfolding OpenCall dispatch_def api_call.case by (rule on_site_D) simp
    next
      case (AccessCall e)
      show ?thesis unfolding AccessCall
        by (rule checked_keeps) (auto intro: protected.access_endpoint_preserves)
    next
      case (TenantCall e)
      have viewer: "tenant_role e = Viewer" if "permitted env request n (tenant_role e)"
        by (rule refused [OF _ that]) (simp add: TenantCall required_role_def)
      show ?thesis unfolding TenantCall dispatch_def api_call.case
        by (rule managed_keeps [OF refl], rule protected.viewing_endpoint_preserves)
          (rule disjI1, rule viewer, rule permittedI, assumption+, simp)
    next
      case (RbacCall e)
      have viewer: "rbac_role e = Viewer" if "permitted env request n (rbac_role e)"
        by (rule refused [OF _ that]) (simp add: RbacCall required_role_def)
      show ?thesis unfolding RbacCall dispatch_def api_call.case
        by (rule managed_keeps [OF refl], rule protected.listing_roles_preserves)
          (rule viewer, rule permittedI, assumption+)
    qed
  qed
  then have "of_node ?I (snd (routes env route request n))" by (rule routes_keep [OF refl])
  then show False using assms(2) unfolding assms(1) snd_conv by contradiction
qed

section \<open>Tenants are separate\<close>

definition tenants_ok :: "database \<Rightarrow> bool" where
  "tenants_ok db = (distinct (map tr_id (db_tenants db)) \<and> distinct (map tr_key (db_tenants db))
     \<and> (\<forall>t \<in> set (db_tenants db). tr_id t < db_next_id db))"

lemma wf_tenants_iff: "wf_tenants w \<longleftrightarrow> tenants_ok (w_db w)"
  by (simp add: wf_tenants_def tenants_ok_def)

text \<open>
  Every version belongs to a policy of its tenant, and the current version of every policy exists. With
  that the tables are intact; in the strict sense no link of a role dangles either.
\<close>

definition versions_ok :: "database \<Rightarrow> bool" where
  "versions_ok db = ((\<forall>v \<in> set (db_versions db). \<exists>p \<in> set (db_policies db). po_id p = ve_policy v \<and> po_tenant p = ve_tenant v)
     \<and> (\<forall>p \<in> set (db_policies db). \<exists>v \<in> set (db_versions db).
          ve_policy v = po_id p \<and> ve_tenant v = po_tenant p \<and> ve_version v = po_current p))"

definition tables_ok :: "bool \<Rightarrow> database \<Rightarrow> bool" where
  "tables_ok strict db = (tenants_ok db \<and> wf_policies db \<and> versions_ok db \<and> rbac_ok strict db)"

lemma versions_ok_cong:
  "db_policies db' = db_policies db \<Longrightarrow> db_versions db' = db_versions db \<Longrightarrow> versions_ok db \<Longrightarrow> versions_ok db'"
  by (simp add: versions_ok_def)

lemma version_policy_id: "wf_policies db \<Longrightarrow> versions_ok db \<Longrightarrow> v \<in> set (db_versions db) \<Longrightarrow> ve_policy v < db_next_id db"
  by (fastforce simp: versions_ok_def wf_policies_def)

text \<open>The row of a tenant and all rows of its tables.\<close>

definition tenant_rows :: "int \<Rightarrow> database \<Rightarrow> tenant_record list \<times> policy_row list \<times> version_row list \<times> acl_record list
    \<times> relationship_row list \<times> model_row list \<times> audit_row list" where
  "tenant_rows i db = (filter (\<lambda>t. tr_id t = i) (db_tenants db), filter (\<lambda>p. po_tenant p = i) (db_policies db),
     filter (\<lambda>v. ve_tenant v = i) (db_versions db), filter (\<lambda>a. ar_tenant_id a = i) (db_acl db),
     filter (\<lambda>r. rel_tenant r = i) (db_relationships db), filter (\<lambda>m. mo_tenant m = i) (db_models db),
     filter (\<lambda>a. au_tenant a = i) (db_audit db))"




lemma tenants_ok_cong:
  "db_tenants db' = db_tenants db \<Longrightarrow> db_next_id db \<le> db_next_id db' \<Longrightarrow> tenants_ok db \<Longrightarrow> tenants_ok db'"
  by (fastforce simp: tenants_ok_def)

lemma wf_policies_cong:
  "db_policies db' = db_policies db \<Longrightarrow> db_versions db' = db_versions db \<Longrightarrow> db_next_id db \<le> db_next_id db' \<Longrightarrow>
   wf_policies db \<Longrightarrow> wf_policies db'"
  by (fastforce simp: wf_policies_def)

lemma create_version_frame:
  "create_policy_version i k a e pr co cb st db = (r, db') \<Longrightarrow> db_tenants db' = db_tenants db \<and> rbac_tables db' = rbac_tables db
    \<and> db_next_id db \<le> db_next_id db' \<and> db_acl db' = db_acl db \<and> db_relationships db' = db_relationships db
    \<and> db_models db' = db_models db \<and> db_audit db' = db_audit db"
  by (auto simp: create_policy_version_def rbac_tables_def Let_def split: if_splits option.splits)

lemma tenant_write_frame:
  assumes "tenant_write i db db'"
  shows "db_tenants db' = db_tenants db \<and> rbac_tables db' = rbac_tables db \<and> db_next_id db \<le> db_next_id db'"
  using assms
proof cases
  case (version k a e pr co cb st)
  then show ?thesis using create_version_frame [OF surjective_pairing] by simp
qed (auto simp: rollback_policy_row_def delete_policy_rows_def create_relationship_row_def create_acl_entry_def
    delete_acl_entry_def upsert_model_def rbac_tables_def Let_def split: option.split)

lemma create_version_wf: "wf_policies db \<Longrightarrow> wf_policies (snd (create_policy_version i k a e pr co cb st db))"
  using create_wf [of db i k a e pr co cb st] create_error [of i k a e pr co cb st db]
  by (cases "create_policy_version i k a e pr co cb st db"; cases "fst (create_policy_version i k a e pr co cb st db)") auto

lemma tenant_write_wf: "tenant_write i db db' \<Longrightarrow> wf_policies db \<Longrightarrow> wf_policies db'"
  by (erule tenant_write.cases)
    (auto simp: create_version_wf rollback_wf delete_wf create_relationship_row_def create_acl_entry_def
      delete_acl_entry_def upsert_model_def Let_def intro: wf_policies_cong split: option.split)





lemma rbac_write_frame:
  "rbac_write db db' \<Longrightarrow> db_next_id db \<le> db_next_id db' \<and> db_tenants db' = db_tenants db \<and> db_policies db' = db_policies db
     \<and> db_versions db' = db_versions db \<and> (\<forall>j. tenant_rows j db' = tenant_rows j db)"
  by (erule rbac_write.cases)
    (auto simp: insert_role_def rename_role_def remove_role_def insert_permission_def rename_permission_def
      remove_permission_def tenant_rows_def)


lemma get_or_create_tenants:
  assumes "tenants_ok db" "tenant_get_or_create k db = (Inr t, db')"
  shows "tenants_ok db'" "tr_key t = k" "t \<in> set (db_tenants db')"
    "db_tenants db' = db_tenants db \<or> db_tenants db' = db_tenants db @ [t] \<and> tr_id t = db_next_id db"
  using assms
  by (auto simp: tenant_get_or_create_def new_tenant_def tenants_ok_def Let_def find_None_iff find_Some_iff split: option.splits)
    force+

lemma get_or_create_frame:
  "tenant_get_or_create k db = (Inr t, db') \<Longrightarrow> db_policies db' = db_policies db \<and> db_versions db' = db_versions db
    \<and> db_next_id db \<le> db_next_id db' \<and> rbac_tables db' = rbac_tables db
    \<and> (\<forall>j. snd (tenant_rows j db') = snd (tenant_rows j db))"
  by (auto simp: tenant_get_or_create_def tenant_rows_def rbac_tables_def Let_def split: option.splits)

lemma get_or_create_never_fails: "tenant_get_or_create k db \<noteq> (Inl e, db')"
  by (simp add: tenant_get_or_create_def Let_def split: option.split)

lemma update_tenant_frame:
  "update_tenant f t db = (r, db') \<Longrightarrow> db_policies db' = db_policies db \<and> db_versions db' = db_versions db
    \<and> db_next_id db' = db_next_id db \<and> rbac_tables db' = rbac_tables db \<and> (\<forall>j. snd (tenant_rows j db') = snd (tenant_rows j db))"
  by (auto simp: update_tenant_def tenant_rows_def rbac_tables_def split: option.splits)

lemma update_tenant_ok:
  assumes "update_tenant f t db = (r, db')" "\<And>t. tr_id (f t) = tr_id t" "\<And>t. tr_key (f t) = tr_key t" "tenants_ok db"
  shows "tenants_ok db'" "r = Inr t' \<Longrightarrow> \<exists>x \<in> set (db_tenants db). tr_id x = tr_id t \<and> t' = f x"
    "j \<noteq> tr_id t \<Longrightarrow> filter (\<lambda>t. tr_id t = j) (db_tenants db') = filter (\<lambda>t. tr_id t = j) (db_tenants db)"
proof -
  let ?g = "\<lambda>x. if tr_id x = tr_id t then f x else x"
  have maps: "map tr_id (map ?g ts) = map tr_id ts" "map tr_key (map ?g ts) = map tr_key ts" for ts
    using assms(2,3) by simp_all
  have others: "filter (\<lambda>t. tr_id t = j) (map ?g ts) = filter (\<lambda>t. tr_id t = j) ts" if "j \<noteq> tr_id t" for ts
    using that assms(2) by (induction ts) auto
  have db: "db_tenants db' \<in> {db_tenants db, map ?g (db_tenants db)}" "db_next_id db' = db_next_id db"
    using assms(1) by (auto simp: update_tenant_def split: option.splits)
  then show "tenants_ok db'" using assms(2,4) maps [of "db_tenants db"] by (auto simp: tenants_ok_def simp del: map_map) fastforce
  show "\<exists>x \<in> set (db_tenants db). tr_id x = tr_id t \<and> t' = f x" if "r = Inr t'"
    using assms(1) that by (auto simp: update_tenant_def find_Some_iff split: option.splits)
  show "filter (\<lambda>t. tr_id t = j) (db_tenants db') = filter (\<lambda>t. tr_id t = j) (db_tenants db)" if "j \<noteq> tr_id t"
    using db(1) others [OF that] by auto
qed

lemmas table_congs = tenants_ok_cong wf_policies_cong versions_ok_cong rbac_ok_cong

lemma same_policy: "wf_policies db \<Longrightarrow> p \<in> set (db_policies db) \<Longrightarrow> q \<in> set (db_policies db) \<Longrightarrow> po_id p = po_id q \<Longrightarrow> p = q"
  by (auto simp: wf_policies_def distinct_map inj_on_def)

text \<open>Both parts survive when a policy points to another of its versions.\<close>

lemma set_current_versions:
  assumes "wf_policies db" "versions_ok db" "p \<in> set (db_policies db)" "set vs \<supseteq> set (db_versions db)"
    "\<forall>v \<in> set vs. v \<notin> set (db_versions db) \<longrightarrow> ve_policy v = po_id p \<and> ve_tenant v = po_tenant p"
    "\<exists>v \<in> set vs. ve_policy v = po_id p \<and> ve_tenant v = po_tenant p \<and> ve_version v = n"
  shows "versions_ok (db\<lparr>db_policies := set_current (po_id p) n (db_policies db), db_versions := vs, db_next_id := i\<rparr>)"
proof -
  let ?ps = "set_current (po_id p) n (db_policies db)"
  have kept: "\<exists>y \<in> set ?ps. po_id y = po_id x \<and> po_tenant y = po_tenant x" if "x \<in> set (db_policies db)" for x
  proof -
    have "(if po_id x = po_id p then x\<lparr>po_current := n\<rparr> else x) \<in> set ?ps" using that by (simp add: set_current_def)
    then show ?thesis by (intro bexI [of _ "if po_id x = po_id p then x\<lparr>po_current := n\<rparr> else x"]) auto
  qed
  have "\<exists>y \<in> set ?ps. po_id y = ve_policy v \<and> po_tenant y = ve_tenant v" if "v \<in> set vs" for v
  proof (cases "v \<in> set (db_versions db)")
    case True
    then obtain x where "x \<in> set (db_policies db)" "po_id x = ve_policy v" "po_tenant x = ve_tenant v"
      using assms(2) by (auto simp: versions_ok_def)
    then show ?thesis using kept by fastforce
  next
    case False
    then show ?thesis using kept [OF assms(3)] assms(5) that by auto
  qed
  moreover have "\<exists>v \<in> set vs. ve_policy v = po_id q \<and> ve_tenant v = po_tenant q \<and> ve_version v = po_current q"
    if q: "q \<in> set ?ps" for q
  proof -
    obtain x where x: "x \<in> set (db_policies db)" "q = (if po_id x = po_id p then x\<lparr>po_current := n\<rparr> else x)"
      using q by (auto simp: set_current_def)
    show ?thesis
    proof (cases "po_id x = po_id p")
      case True
      then have "x = p" using same_policy [OF assms(1) x(1) assms(3)] by simp
      then show ?thesis using x(2) assms(6) by simp
    next
      case False
      then show ?thesis using x assms(2,4) by (auto simp: versions_ok_def) blast
    qed
  qed
  ultimately show ?thesis by (simp add: versions_ok_def)
qed

lemma create_version_versions:
  assumes "wf_policies db" "versions_ok db"
  shows "versions_ok (snd (create_policy_version i k a e pr co cb st db))"
proof (cases "create_policy_version i k a e pr co cb st db")
  case (Pair r db')
  show ?thesis
  proof (cases r)
    case (Inl x)
    then show ?thesis using create_error [of i k a e pr co cb st db] Pair assms(2) by simp
  next
    case (Inr view)
    with Pair have run: "create_policy_version i k a e pr co cb st db = (Inr view, db')" by simp
    then have "versions_ok db'"
    proof (cases rule: create_cases)
      case new
      then show ?thesis using assms(2) by (fastforce simp: versions_ok_def)
    next
      case (next_version p)
      have p: "p \<in> set (db_policies db)" "po_tenant p = i" using find_policy_Some [OF next_version(1)] by simp_all
      have "versions_ok (db\<lparr>db_policies := set_current (po_id p) (po_current p + 1) (db_policies db),
          db_versions := db_versions db', db_next_id := db_next_id db'\<rparr>)"
        using p next_version(3) by (intro set_current_versions [OF assms p(1)]) auto
      then show ?thesis by (rule versions_ok_cong [rotated 2]) (simp_all add: next_version(2))
    qed
    then show ?thesis by (simp add: run)
  qed
qed

lemma rollback_versions:
  assumes "wf_policies db" "versions_ok db"
  shows "versions_ok (snd (rollback_policy_row i k n db))"
proof (cases "find_policy db i k")
  case (Some p)
  have p: "p \<in> set (db_policies db)" "po_tenant p = i" using find_policy_Some [OF Some] by simp_all
  show ?thesis
  proof (cases "list_ex (\<lambda>v. ve_tenant v = i \<and> ve_policy v = po_id p \<and> ve_version v = n) (db_versions db)")
    case True
    have "versions_ok (db\<lparr>db_policies := set_current (po_id p) n (db_policies db), db_versions := db_versions db,
        db_next_id := db_next_id db\<rparr>)"
      using p(2) True by (intro set_current_versions [OF assms p(1)]) (auto simp: list_ex_iff)
    then show ?thesis by (rule versions_ok_cong [rotated 2]) (simp_all add: rollback_policy_row_def Some True)
  qed (simp add: rollback_policy_row_def Some assms(2))
qed (simp add: rollback_policy_row_def assms(2))

lemma delete_versions:
  assumes "wf_policies db" "versions_ok db"
  shows "versions_ok (snd (delete_policy_rows i k db))"
proof (cases "find_policy db i k")
  case (Some p)
  have p: "p \<in> set (db_policies db)" "po_tenant p = i" using find_policy_Some [OF Some] by simp_all
  have "ve_policy v \<noteq> po_id p" if "v \<in> set (db_versions db)" "\<not> (ve_tenant v = i \<and> ve_policy v = po_id p)" for v
    using that assms(2) p same_policy [OF assms(1) _ p(1)] unfolding versions_ok_def by metis
  then show ?thesis using Some assms(2) by (auto simp: delete_policy_rows_def versions_ok_def) metis+
qed (simp add: delete_policy_rows_def assms(2))

lemma tenant_write_versions:
  assumes "tenant_write i db db'" "wf_policies db" "versions_ok db"
  shows "versions_ok db'"
  using assms(1)
proof cases
  case (version k a e pr co cb st)
  then show ?thesis using create_version_versions assms(2,3) by simp
next
  case (rollback k v)
  then show ?thesis using rollback_versions assms(2,3) by simp
next
  case (delete k)
  then show ?thesis using delete_versions assms(2,3) by simp
qed (use assms(3) in \<open>auto simp: create_relationship_row_def create_acl_entry_def delete_acl_entry_def upsert_model_def Let_def
    intro: versions_ok_cong split: option.split\<close>)




text \<open>A sample policy is inserted as the first version of a new policy is, a sample relationship as any other.\<close>

lemma ensure_policy_creates:
  assumes "wf_policies db" "versions_ok db" "ensure_policy i p db = (m, db')"
  shows "db' = db \<or> tenant_write i db db'"
proof (cases "find_policy db i (py_str (pget p ''policy_key''))")
  case None
  have "\<not> list_ex (\<lambda>v. ve_policy v = db_next_id db \<and> ve_version v = 1) (db_versions db)"
    using version_policy_id [OF assms(1,2)] by (fastforce simp: list_ex_iff)
  then have "db' = snd (create_policy_version i (py_str (pget p ''policy_key'')) (py_str (pget p ''action''))
      (py_str (pget p ''effect'')) (case pget p ''priority'' of PInt i \<Rightarrow> i | _ \<Rightarrow> 0)
      (case pget p ''conditions'' of PDict c \<Rightarrow> c | _ \<Rightarrow> []) (Some ''seed-data'') ''active'' db)"
    using None assms(3) by (auto simp: ensure_policy_def create_policy_version_def Let_def)
  then show ?thesis using tenant_write.version by simp
qed (use assms(3) in \<open>simp add: ensure_policy_def\<close>)

lemma ensure_relationship_creates: "ensure_relationship i db = (n, db') \<Longrightarrow> db' = db \<or> tenant_write i db db'"
  using tenant_write.relate [of i db sample_relationship]
  by (auto simp: ensure_relationship_def create_relationship_row_def split: if_splits)

lemma ensure_rbac_frame:
  "ensure_role db = (r, db') \<Longrightarrow> db_tenants db' = db_tenants db \<and> db_policies db' = db_policies db \<and> db_versions db' = db_versions db
     \<and> db_next_id db \<le> db_next_id db' \<and> (\<forall>j. tenant_rows j db' = tenant_rows j db)"
  "ensure_user r db = (u, db') \<Longrightarrow> db_tenants db' = db_tenants db \<and> db_policies db' = db_policies db \<and> db_versions db' = db_versions db
     \<and> db_next_id db \<le> db_next_id db' \<and> (\<forall>j. tenant_rows j db' = tenant_rows j db)"
  "ensure_permission r a db = (n, db') \<Longrightarrow> db_tenants db' = db_tenants db \<and> db_policies db' = db_policies db
     \<and> db_versions db' = db_versions db \<and> db_next_id db \<le> db_next_id db' \<and> (\<forall>j. tenant_rows j db' = tenant_rows j db)"
  by (auto simp: ensure_role_def ensure_user_def ensure_permission_def insert_role_def insert_permission_def tenant_rows_def Let_def
      split: option.splits)

lemma ensure_permissions_tables:
  "ensure_permissions r as db = (n, db') \<Longrightarrow> db_tenants db' = db_tenants db \<and> db_policies db' = db_policies db
     \<and> db_versions db' = db_versions db \<and> db_next_id db \<le> db_next_id db' \<and> (\<forall>j. tenant_rows j db' = tenant_rows j db)"
proof (induction as arbitrary: db n)
  case (Cons a as)
  then obtain k db1 l where run: "ensure_permission r a db = (k, db1)" "ensure_permissions r as db1 = (l, db')"
    by (auto split: prod.splits)
  show ?case using ensure_rbac_frame(3) [OF run(1)] Cons.IH [OF run(2)] by simp
qed simp

lemma ensure_tenant_creates: "ensure_tenant k db = (t, db') \<Longrightarrow> tenant_get_or_create k db = (Inr t, db')"
  by (auto simp: ensure_tenant_def tenant_get_or_create_def tenant_by_key_def Let_def split: option.splits)

text \<open>Clearing takes a policy away with its versions, on any database.\<close>

lemma cleared_tables:
  assumes "tenants_ok db" "wf_policies db" "versions_ok db"
  shows "tenants_ok (clear_sample_data dialect k db)" "wf_policies (clear_sample_data dialect k db)"
    "versions_ok (clear_sample_data dialect k db)"
proof -
  let ?rows = "\<lambda>t. delete_sample_rows t db"
  have rows: "tenants_ok (?rows t) \<and> wf_policies (?rows t) \<and> versions_ok (?rows t)" for t
    using assms by (fastforce simp: tenants_ok_def wf_policies_def versions_ok_def delete_sample_rows_def Let_def distinct_map_filter)
  have orphans: "tenants_ok (delete_orphans d) \<and> wf_policies (delete_orphans d) \<and> versions_ok (delete_orphans d)"
    if "tenants_ok d \<and> wf_policies d \<and> versions_ok d" for d
    using that by (fastforce simp: tenants_ok_def wf_policies_def versions_ok_def delete_orphans_def Let_def distinct_map_filter)
  show "tenants_ok (clear_sample_data dialect k db)" "wf_policies (clear_sample_data dialect k db)"
    "versions_ok (clear_sample_data dialect k db)"
    using assms rows orphans by (auto simp: clear_sample_data_def Let_def split: option.split)
qed




lemma seeding_preserves:
  assumes "\<And>db summary db'. I db \<Longrightarrow> seed_demo_data (en_dialect env) default_tenant_key reset db = (summary, db') \<Longrightarrow> I db'"
  shows "preserves (of_site I) (open_call env request (SeedSample reset))"
proof -
  have "preserves I (\<lambda>db. case seed_demo_data (en_dialect env) default_tenant_key reset db of
      (summary, db') \<Rightarrow> (Inr summary :: seed_summary result, db'))"
    using assms by (auto simp: preserves_def split: prod.split)
  then have "preserves (of_site I) (seed_sample_data env request reset)"
    unfolding seed_sample_data_def local_dev_only_def by (auto intro!: preserves_rules on_world_preserves on_db_preserves)
  then show ?thesis unfolding open_call_def open_endpoint.case by (rule answered_preserves)
qed



section \<open>The tables stay intact\<close>

lemma rbac_write_ok: "rbac_write db db' \<Longrightarrow> rbac_ok strict db \<Longrightarrow> rbac_ok strict db'"
  by (erule rbac_write.cases)
    (simp_all add: insert_role_ok rename_role_ok remove_role_ok insert_permission_ok rename_permission_ok
      remove_permission_ok link_ok unlink_ok)


lemma update_keeps_intact:
  assumes "\<And>t. tr_id (f t) = tr_id t" "\<And>t. tr_key (f t) = tr_key t"
  shows "keeps (tables_ok strict) (\<lambda>_. True) (update_tenant f t)"
proof -
  have "tables_ok strict db'" if "tables_ok strict db" "update_tenant f t db = (r, db')" for db r db'
    using that update_tenant_frame [OF that(2)] update_tenant_ok(1) [OF that(2) assms] table_congs [of db' db]
    by (simp add: tables_ok_def)
  then show ?thesis by (intro keepsI) blast+
qed

interpretation intact: managed_database "tables_ok strict" "\<lambda>t. True" "\<lambda>k. True" for strict
proof unfold_locales
  show "keeps (tables_ok strict) (\<lambda>t. True) (tenant_get_or_create k)" for k
  proof (rule keepsI)
    fix db t db' assume db: "tables_ok strict db" "tenant_get_or_create k db = (Inr t, db')"
    then show "tables_ok strict db' \<and> True"
      using get_or_create_tenants(1) [OF _ db(2)] get_or_create_frame [OF db(2)] table_congs [of db' db]
      by (simp add: tables_ok_def)
  qed (simp add: get_or_create_never_fails)
  show "keeps (tables_ok strict) (\<lambda>t. True) (tenant_bump_revision t)" "keeps (tables_ok strict) (\<lambda>t. True) (tenant_bump_policy_version t)" for t
    unfolding tenant_bump_revision_def tenant_bump_policy_version_def by (intro update_keeps_intact; simp)+
  show "preserves (tables_ok strict) (audit_write (tr_id t) ty pid inp d c)" for t ty pid inp d c
    using table_congs by (simp add: preserves_def audit_write_def tables_ok_def rbac_tables_def)
  show "tables_ok strict db'" if "tenant_write (tr_id t) db db'" "tables_ok strict db" for t db db'
    using that(2) tenant_write_frame [OF that(1)] tenant_write_wf [OF that(1)] tenant_write_versions [OF that(1)]
      table_congs [of db' db] by (simp add: tables_ok_def)
  show "tables_ok strict db'" if "rbac_write db db'" "tables_ok strict db" for db db'
    using that(2) rbac_write_frame [OF that(1)] rbac_write_ok [OF that(1)] table_congs [of db' db] by (simp add: tables_ok_def)
qed simp_all

text \<open>Seeding keeps them too. A reset leaves links of the sample role where foreign keys are not followed.\<close>

lemma ensure_policies_intact: "tables_ok strict db \<Longrightarrow> ensure_policies i ps db = (m, db') \<Longrightarrow> tables_ok strict db'"
proof (induction ps arbitrary: db m)
  case (Cons p ps)
  then obtain k db1 l where run: "ensure_policy i p db = (k, db1)" "ensure_policies i ps db1 = (l, db')"
    by (auto split: prod.splits)
  have "wf_policies db" "versions_ok db" using Cons.prems(1) by (simp_all add: tables_ok_def)
  then have "tables_ok strict db1"
    using ensure_policy_creates [OF _ _ run(1)] intact.written [of "new_tenant i k" for k] Cons.prems(1)
    by (auto simp: new_tenant_def)
  then show ?case using Cons.IH run(2) by blast
qed simp

lemma seed_intact:
  assumes "tables_ok strict db" "seed_demo_data dialect k reset db = (summary, db')"
    "reset \<Longrightarrow> strict \<Longrightarrow> dialect = ''postgresql''"
  shows "tables_ok strict db'"
proof -
  have start: "tables_ok strict (seed_start dialect k reset db)"
    using assms(1,3) cleared_tables clear_rbac_ok by (auto simp: seed_start_def tables_ok_def)
  from seed_steps [OF assms(2)] obtain t a r b n c u d m e l where
    steps: "ensure_tenant k (seed_start dialect k reset db) = (t, a)" "ensure_role a = (r, b)"
      "ensure_permissions r sample_permissions b = (n, c)" "ensure_user r c = (u, d)"
      "ensure_relationship (tr_id t) d = (m, e)" "ensure_policies (tr_id t) sample_policy_definitions e = (l, db')" .
  have a: "tables_ok strict a" using keeps_Inr [OF intact.get_or_create ensure_tenant_creates [OF steps(1)] start] by simp
  then have "rbac_ok strict a" by (simp add: tables_ok_def)
  from rbac_ok_role [OF this steps(2)] have b: "rbac_ok strict b" "r \<in> ro_id ` set (db_roles b)" by simp_all
  then have "rbac_ok strict d"
    using rbac_ok_permissions [OF _ steps(3)] ensure_permissions_frame [OF steps(3)] rbac_ok_user [OF _ steps(4)] by simp
  then have "tables_ok strict d"
    using a ensure_rbac_frame(1) [OF steps(2)] ensure_permissions_tables [OF steps(3)] ensure_rbac_frame(2) [OF steps(4)]
      table_congs(1-3) [of d a] by (simp add: tables_ok_def)
  then have "tables_ok strict e"
    using ensure_relationship_creates [OF steps(5)] intact.written [of t] by blast
  then show ?thesis using ensure_policies_intact [OF _ steps(6)] by blast
qed

text \<open>
  The life of a process: any request in any environment (other clocks, keys and files), pending refreshes
  of the access index, and whatever leaves the tables alone, the clock of the database included. A strict
  life has no reset of the sample data on a database that does not follow its foreign keys.
\<close>

inductive node_step :: "bool \<Rightarrow> node \<Rightarrow> node \<Rightarrow> bool" for strict where
  request: "(strict \<Longrightarrow> route request = Inr (OpenCall (SeedSample True)) \<Longrightarrow> en_dialect env = ''postgresql'') \<Longrightarrow>
    node_step strict n (snd (routes env route request n))"
| refresh: "key \<in> set (ix_threads (st_indexer (nd_site n))) \<Longrightarrow>
    node_step strict n (snd (on_site (run_refresh site_index key) n))"
| elsewhere: "node_db n' = (node_db n)\<lparr>db_clock := now\<rparr> \<Longrightarrow> node_step strict n n'"

lemma open_intact:
  assumes "e = SeedSample True \<Longrightarrow> strict \<Longrightarrow> en_dialect env = ''postgresql''"
  shows "preserves (of_site (tables_ok strict)) (open_call env request e)"
proof (cases "\<exists>reset. e = SeedSample reset")
  case True
  then obtain reset where e: "e = SeedSample reset" by blast
  show ?thesis unfolding e
  proof (rule seeding_preserves)
    fix db summary db' assume "tables_ok strict db" "seed_demo_data (en_dialect env) default_tenant_key reset db = (summary, db')"
    then show "tables_ok strict db'" by (rule seed_intact) (use assms e in auto)
  qed
qed (use intact.open_endpoint_preserves in blast)

lemma routes_intact:
  assumes "tables_ok strict (node_db n)"
    "strict \<Longrightarrow> route request = Inr (OpenCall (SeedSample True)) \<Longrightarrow> en_dialect env = ''postgresql''"
  shows "tables_ok strict (node_db (snd (routes env route request n)))"
proof (rule routes_keep [where I = "tables_ok strict", OF assms(1)])
  fix call assume call: "route request = Inr call"
  show "tables_ok strict (node_db (snd (dispatch env call request n)))"
  proof (cases call)
    case (OpenCall e)
    have "preserves (of_site (tables_ok strict)) (open_call env request e)"
      using assms(2) call OpenCall by (intro open_intact) simp
    then show ?thesis unfolding OpenCall dispatch_def api_call.case using assms(1) by (rule on_site_D)
  next
    case (AccessCall e)
    show ?thesis unfolding AccessCall
      by (rule checked_keeps [where I = "tables_ok strict", OF assms(1)], rule intact.access_endpoint_preserves, simp)
  next
    case (TenantCall e)
    show ?thesis unfolding TenantCall dispatch_def api_call.case
      by (rule managed_keeps [where I = "tables_ok strict", OF assms(1)], rule intact.tenant_endpoint_preserves, simp)
  next
    case (RbacCall e)
    show ?thesis unfolding RbacCall dispatch_def api_call.case
      by (rule managed_keeps [where I = "tables_ok strict", OF assms(1)], rule intact.rbac_endpoint_preserves, simp)
  qed
qed

lemma node_step_intact: "node_step strict n n' \<Longrightarrow> tables_ok strict (node_db n) \<Longrightarrow> tables_ok strict (node_db n')"
proof (induction rule: node_step.induct)
  case (request route request env n)
  then show ?case by (intro routes_intact) simp_all
next
  case (refresh key n)
  then show ?case using on_site_D [where I = "tables_ok strict", OF refresh_preserves] by simp
next
  case (elsewhere n' n now)
  then show ?case by (simp add: tables_ok_def tenants_ok_def wf_policies_def versions_ok_def rbac_ok_def)
qed

text \<open>
  C7. The tables stay intact in the life of a process, for any sequence of requests with any outcome,
  resets of the sample data on any database included, interleaved with background refreshes: tenant ids and
  keys, policy ids, keys and version numbers, role and permission ids and names are unique, every version
  belongs to a policy of its tenant, and every policy has its current version (\<open>strict\<close> false). As long as the
  sample data is not reset on a database that does not follow its foreign keys, as SQLite here, no link of
  a role dangles either (\<open>strict\<close> true); such a reset can leave dangling links
  (\<open>reset_leaves_dangling_links\<close>).
\<close>

theorem tables_stay_intact:
  assumes "(node_step strict)\<^sup>*\<^sup>* n n'" "tables_ok strict (node_db n)"
  shows "tables_ok strict (node_db n')"
  using assms by (induction rule: rtranclp_induct) (auto intro: node_step_intact)

section \<open>Checks are answered\<close>

lemma get_principal_Inl: "fst (get_principal s au authorization x_api_key st) = Inl e \<Longrightarrow> \<exists>detail. e = unauthorized detail"
  by (auto simp: get_principal_def principal_of_api_key_def bnd_def catch_def Let_def
      split: if_splits option.splits prod.splits sum.splits)

definition bad_policy_set :: exn where
  "bad_policy_set = invalid ''policy_set must be one of active, draft, archived''"

lemma checked_policy_set_Inl: "checked_policy_set ps = Inl e \<Longrightarrow> e = bad_policy_set"
  by (auto simp: checked_policy_set_def bad_policy_set_def Let_def split: if_splits)

lemma resolve_Inl: "resolve_request_tenant_key request p s = Inl e \<Longrightarrow> e = missing_tenant"
  by (auto simp: resolve_request_tenant_key_def split: option.splits if_splits)

lemma check_access_runs:
  assumes "resolve_request_tenant_key request p (en_settings env) = Inr k" "checked_policy_set policy_set = Inr ps"
  shows "\<exists>result s'. authorize (service_of env request) (access_request k p payload ps) s = (Inr result, s')
    \<and> check_access_route env request p payload policy_set s = (Inr (answer_with request (access_doc result)), s')"
proof -
  obtain result s' where run: "authorize (service_of env request) (access_request k p payload ps) s = (Inr result, s')"
    using authorize_answers [of "service_of env request" "access_request k p payload ps" s] by blast
  then have "access_guarded (authorize (service_of env request) (access_request k p payload ps)) s = (Inr result, s')"
    by (simp add: access_guarded_def)
  then show ?thesis using run assms by (simp add: check_access_route_def)
qed

lemma check_access_results:
  "\<exists>r s'. check_access_route env request p payload policy_set s = (r, s')
    \<and> (case (resolve_request_tenant_key request p (en_settings env), checked_policy_set policy_set) of
         (Inr k, Inr ps) \<Rightarrow> (\<exists>result. authorize (service_of env request) (access_request k p payload ps) s = (Inr result, s')
           \<and> r = Inr (answer_with request (access_doc result)))
       | _ \<Rightarrow> r \<in> {Inl missing_tenant, Inl bad_policy_set})"
proof (cases "resolve_request_tenant_key request p (en_settings env)")
  case (Inl e)
  then show ?thesis using resolve_Inl by (simp add: check_access_route_def bnd_def)
next
  case k: (Inr k)
  show ?thesis
  proof (cases "checked_policy_set policy_set")
    case (Inl e)
    then show ?thesis using checked_policy_set_Inl k by (simp add: check_access_route_def bnd_def)
  next
    case (Inr ps)
    from check_access_runs [OF k this, of payload s] show ?thesis using k Inr by auto
  qed
qed

lemma refused_check_status:
  "rs_status (the (handled_response missing_tenant)) = 422" "rs_status (the (handled_response bad_policy_set)) = 422"
  "handled_response missing_tenant \<noteq> None" "handled_response bad_policy_set \<noteq> None"
  by (simp_all add: handled_response_def missing_tenant_def bad_policy_set_def invalid_def)

text \<open>
  C6. Every access check on a service that mounts it gets an answer, and its status says why: 401 without
  a principal, 422 without a tenant or with an unknown policy set, else 200 with the document of the
  decision that the service makes; no failure of a cache, the tables or a policy surfaces.
\<close>

theorem checks_answered:
  assumes "route request = Inr (AccessCall (CheckAccess payload policy_set))"
    "mounted (en_settings env) (AccessCall (CheckAccess payload policy_set))"
  shows "\<exists>response n'. handle_api_errors (routes env route) request n = (Inr response, n')
    \<and> (case principal_of env request n of
         Inl _ \<Rightarrow> rs_status response = 401
       | Inr p \<Rightarrow> (case (resolve_request_tenant_key request p (en_settings env), checked_policy_set policy_set) of
           (Inr k, Inr ps) \<Rightarrow> (\<exists>result s'. authorize (service_of env request) (access_request k p payload ps)
                   ((nd_site n)\<lparr>st_indexer := new_indexer\<rparr>) = (Inr result, s')
               \<and> response = json_response 200 (answer_with request (access_doc result)))
         | _ \<Rightarrow> rs_status response = 422))"
proof -
  obtain n1 where run: "authenticated env request n = (principal_of env request n, n1)" "nd_site n1 = nd_site n"
    using authenticated_principal by blast
  have routed: "routes env route request n = dispatch env (AccessCall (CheckAccess payload policy_set)) request n"
    using assms by (simp add: routes_def)
  show ?thesis
  proof (cases "principal_of env request n")
    case (Inl e)
    then obtain detail where "e = unauthorized detail" unfolding principal_of_def using get_principal_Inl by blast
    then show ?thesis using Inl run(1)
      by (simp add: handle_api_errors_def catch_def routed dispatch_def handled_response_def unauthorized_def)
  next
    case (Inr p)
    let ?s = "(nd_site n)\<lparr>st_indexer := new_indexer\<rparr>"
    have step: "dispatch env (AccessCall (CheckAccess payload policy_set)) request n =
        on_site (answered 200 (check_access_route env request p payload policy_set)) (n1\<lparr>nd_site := ?s\<rparr>)"
      using Inr run by (simp add: dispatch_def on_site_fresh access_call_def)
    obtain r s' where route: "check_access_route env request p payload policy_set ?s = (r, s')"
      and outcome: "case (resolve_request_tenant_key request p (en_settings env), checked_policy_set policy_set) of
         (Inr k, Inr ps) \<Rightarrow> (\<exists>result. authorize (service_of env request) (access_request k p payload ps) ?s = (Inr result, s')
           \<and> r = Inr (answer_with request (access_doc result)))
       | _ \<Rightarrow> r \<in> {Inl missing_tenant, Inl bad_policy_set}"
      using check_access_results [of env request p payload policy_set ?s] by blast
    have "handle_api_errors (routes env route) request n = (case r of
        Inl e \<Rightarrow> if handled_response e \<noteq> None then Inr (the (handled_response e)) else Inl e
      | Inr doc \<Rightarrow> Inr (json_response 200 doc), n1\<lparr>nd_site := s'\<rparr>)"
      using route by (simp add: handle_api_errors_def catch_def routed step on_site_def answered_def bnd_def split: sum.splits)
    then show ?thesis using Inr outcome refused_check_status by (auto split: sum.splits)
  qed
qed
section \<open>A small deployment\<close>

text \<open>An empty process in development mode with one API key, which there means the role of an administrator.\<close>

definition demo_env :: environment where
  "demo_env = \<lparr>en_settings = default_settings\<lparr>se_api_keys := Some ''devkey''\<rparr>,
     en_auth = \<lparr>au_sha256 = (\<lambda>t. t), au_parse_json = (\<lambda>_. None),
       au_tokens = \<lparr>tl_unverified_header = (\<lambda>_. Inl (JWTError [])), tl_decode_with_key = (\<lambda>_ _ _ _ _. Inl (JWTError [])),
         tl_decode = (\<lambda>_ _ _. Inl (JWTError [])), tl_encode = (\<lambda>_ _ _. [])\<rparr>,
       au_fetch = (\<lambda>_. Inl (RuntimeError [])), au_now = 0\<rparr>,
     en_digest = (\<lambda>_. ''d''),
     en_files = \<lparr>fp_kind = (\<lambda>_. Directory []), fp_read = (\<lambda>_. Inl (RuntimeError [])), fp_yaml = (\<lambda>_. Inl (RuntimeError [])),
       fp_json = (\<lambda>_. Inl (RuntimeError [])), fp_toml = (\<lambda>_. Inl (RuntimeError []))\<rparr>,
     en_credentials = (\<lambda>_. None), en_dialect = ''sqlite'', en_database_error = None, en_redis_probe = None\<rparr>"

definition demo_call :: http_request where
  "demo_call = \<lparr>rq_method = ''POST'', rq_path = ''/roles'', rq_headers = [(''x-api-key'', ''devkey'')], rq_body = [],
     rq_client = None, rq_tenant = None, rq_id = Some ''r1''\<rparr>"

definition idle_node :: "world \<Rightarrow> node" where
  "idle_node w = \<lparr>nd_site = \<lparr>st_world = w, st_indexer = new_indexer, st_schedules = []\<rparr>, nd_jwks = no_jwks\<rparr>"

abbreviation add_ops :: "http_request \<Rightarrow> exn + api_call" where
  "add_ops request \<equiv> Inr (RbacCall (CreateRole ''ops''))"

abbreviation reset_sample :: "http_request \<Rightarrow> exn + api_call" where
  "reset_sample request \<equiv> Inr (OpenCall (SeedSample True))"

lemma demo_principal: "\<exists>p. principal_of demo_env demo_call (idle_node w) = Inr p
    \<and> resolve_request_tenant_key demo_call p (en_settings demo_env) = Inr ''default''"
proof -
  have "case fst (get_principal (en_settings demo_env) (en_auth demo_env) (en_credentials demo_env demo_call)
      (header demo_call ''X-API-Key'') no_jwks) of
      Inr p \<Rightarrow> resolve_request_tenant_key demo_call p (en_settings demo_env) = Inr ''default'' | Inl _ \<Rightarrow> False"
    by code_simp
  then show ?thesis by (auto simp: principal_of_def idle_node_def split: sum.splits)
qed

lemma demo_result: "db_roles (node_db (snd (routes demo_env add_ops demo_call (idle_node empty_world)))) = [\<lparr>ro_id = 1, ro_name = ''ops''\<rparr>]"
  by code_simp

theorem table_changes_permitted_witness:
  "\<exists>r n'. routes demo_env add_ops demo_call (idle_node empty_world) = (r, n')
    \<and> db_roles (node_db n') = [\<lparr>ro_id = 1, ro_name = ''ops''\<rparr>] \<and> permitted demo_env demo_call (idle_node empty_world) Admin"
proof -
  obtain r n' where run: "routes demo_env add_ops demo_call (idle_node empty_world) = (r, n')" by force
  then have roles: "db_roles (node_db n') = [\<lparr>ro_id = 1, ro_name = ''ops''\<rparr>]" using demo_result by simp
  then have "protected_tables (node_db n') \<noteq> protected_tables (node_db (idle_node empty_world))"
    by (simp add: protected_tables_def rbac_tables_def idle_node_def empty_world_def empty_database_def)
  from table_changes_permitted [OF run this] have "permitted demo_env demo_call (idle_node empty_world) Admin"
    by (auto simp: required_role_def)
  with run roles show ?thesis by blast
qed


theorem tables_stay_intact_witness:
  "tables_ok True (node_db (snd (routes demo_env add_ops demo_call (idle_node empty_world))))
    \<and> tables_ok False (node_db (snd (routes demo_env reset_sample demo_call (idle_node empty_world))))"
proof -
  have start: "tables_ok strict (node_db (idle_node empty_world))" for strict
    by (simp add: idle_node_def tables_ok_def tenants_ok_def wf_policies_def versions_ok_def rbac_ok_def empty_world_def
        empty_database_def)
  have "(node_step True)\<^sup>*\<^sup>* (idle_node empty_world) (snd (routes demo_env add_ops demo_call (idle_node empty_world)))"
    by (rule r_into_rtranclp, rule node_step.request) simp
  moreover have "(node_step False)\<^sup>*\<^sup>* (idle_node empty_world) (snd (routes demo_env reset_sample demo_call (idle_node empty_world)))"
    by (rule r_into_rtranclp, rule node_step.request) simp
  ultimately show ?thesis using tables_stay_intact start by blast
qed

definition demo_check :: "http_request \<Rightarrow> exn + api_call" where
  "demo_check request = Inr (AccessCall (CheckAccess \<lparr>ap_user = [(''id'', PStr ''u1'')], ap_action = ''read'', ap_resource = [],
     ap_context = [], ap_consistency = ''eventual'', ap_revision = None\<rparr> '' Active ''))"

theorem checks_answered_witness:
  "\<exists>response n'. handle_api_errors (routes demo_env demo_check) demo_call (idle_node empty_world) = (Inr response, n')
     \<and> rs_status response = 200"
proof -
  let ?payload = "\<lparr>ap_user = [(''id'', PStr ''u1'')], ap_action = ''read'', ap_resource = [], ap_context = [],
     ap_consistency = ''eventual'', ap_revision = None\<rparr>"
  have call: "demo_check demo_call = Inr (AccessCall (CheckAccess ?payload '' Active ''))" by (simp add: demo_check_def)
  have mounted: "mounted (en_settings demo_env) (AccessCall (CheckAccess ?payload '' Active ''))" by code_simp
  have set: "checked_policy_set '' Active '' = Inr ''active''" by code_simp
  obtain p where p: "principal_of demo_env demo_call (idle_node empty_world) = Inr p"
    "resolve_request_tenant_key demo_call p (en_settings demo_env) = Inr ''default''" using demo_principal by blast
  from checks_answered [where route = demo_check and request = demo_call and n = "idle_node empty_world", OF call mounted] show ?thesis by (auto simp: p set)
qed

end
