(* ===== verification/RedisCache.thy ===== *)
theory RedisCache
  imports Caches
begin

text \<open>
  The caches over Redis (\<open>RedisCacheBackend\<close> of \<open>infrastructure/cache/backends.py\<close>) and the messages
  about policy changes: publishing (\<open>infrastructure/cache/policy_distribution.py\<close>) and the listener of the
  server (\<open>api/main.py\<close>). The client of redis-py is a parameter: an operation returns or raises and may
  change the server's state \<open>'r\<close>. Log lines are left out.
\<close>

section \<open>The backend\<close>

record 'r redis_client =
  rc_get :: "string \<Rightarrow> ('r, cache_text option) eff"
  rc_set :: "string \<Rightarrow> cache_text \<Rightarrow> ('r, unit) eff"
  rc_setex :: "string \<Rightarrow> int \<Rightarrow> cache_text \<Rightarrow> ('r, unit) eff"
  rc_delete :: "string \<Rightarrow> ('r, unit) eff"
  rc_incr :: "string \<Rightarrow> ('r, int) eff"
  rc_publish :: "string \<Rightarrow> cache_text \<Rightarrow> ('r, unit) eff"

text \<open>
  \<open>except (ConnectionError, OSError, RuntimeError, ValueError)\<close>: the built-in classes, of which
  \<open>ConnectionError\<close> and \<open>TimeoutError\<close> are an \<open>OSError\<close>. The errors of redis-py are classes of their
  own and none of these.
\<close>

definition backend_error :: "exn \<Rightarrow> bool" where
  "backend_error e = (case e of OSError _ \<Rightarrow> True | ConnectionError _ \<Rightarrow> True | TimeoutError _ \<Rightarrow> True | RuntimeError _ \<Rightarrow> True
     | ValueError _ \<Rightarrow> True | AttributeValidationError _ \<Rightarrow> True | _ \<Rightarrow> False)"

definition redis_get :: "'r redis_client \<Rightarrow> string \<Rightarrow> ('r, cache_text option) eff" where
  "redis_get client key = catch (rc_get client key) backend_error (\<lambda>_. ret None)"

definition redis_set :: "'r redis_client \<Rightarrow> string \<Rightarrow> cache_text \<Rightarrow> int option \<Rightarrow> ('r, unit) eff" where
  "redis_set client key v ttl_seconds = catch
     (case ttl_seconds of None \<Rightarrow> rc_set client key v | Some ttl \<Rightarrow> rc_setex client key (max 1 ttl) v)
     backend_error (\<lambda>_. ret ())"

definition redis_delete :: "'r redis_client \<Rightarrow> string \<Rightarrow> ('r, unit) eff" where
  "redis_delete client key = catch (rc_delete client key) backend_error (\<lambda>_. ret ())"

definition redis_incr :: "'r redis_client \<Rightarrow> string \<Rightarrow> ('r, int) eff" where
  "redis_incr client key = catch (rc_incr client key) backend_error (\<lambda>_. ret 0)"

definition redis_ops :: "'r redis_client \<Rightarrow> 'r cache_ops" where
  "redis_ops client = \<lparr>co_get = redis_get client, co_set = redis_set client, co_delete = redis_delete client,
     co_incr = redis_incr client\<rparr>"

text \<open>
  A server that answers: \<open>GET\<close> reads what \<open>SET\<close>, \<open>SETEX\<close>, \<open>DEL\<close> and \<open>INCR\<close> left, and \<open>INCR\<close>
  counts from zero.
\<close>

definition redis_answers :: "'r redis_client \<Rightarrow> ('r \<Rightarrow> string \<Rightarrow> cache_text option) \<Rightarrow> bool" where
  "redis_answers client look =
     ((\<forall>k s. \<exists>s'. rc_get client k s = (Inr (look s k), s') \<and> look s' = look s)
    \<and> (\<forall>k v s. \<exists>s'. rc_set client k v s = (Inr (), s') \<and> look s' = (look s)(k := Some v))
    \<and> (\<forall>k ttl v s. 1 \<le> ttl \<longrightarrow> (\<exists>s'. rc_setex client k ttl v s = (Inr (), s') \<and> look s' = (look s)(k := Some v)))
    \<and> (\<forall>k s. \<exists>s'. rc_delete client k s = (Inr (), s') \<and> look s' = (look s)(k := None))
    \<and> (\<forall>k s n. (case look s k of None \<Rightarrow> Inr 0 | Some t \<Rightarrow> text_int t) = Inr n \<longrightarrow>
         (\<exists>s'. rc_incr client k s = (Inr (n + 1), s') \<and> look s' = (look s)(k := Some (Plain (int_str (n + 1)))))))"

lemma redis_is_backend:
  assumes "redis_answers client look"
  shows "cache_backend (redis_ops client) look"
proof
  show "\<exists>s'. co_get (redis_ops client) k s = (Inr (look s k), s') \<and> look s' = look s" for k s
  proof -
    obtain s' where "rc_get client k s = (Inr (look s k), s')" "look s' = look s"
      using assms unfolding redis_answers_def by meson
    then show ?thesis by (simp add: redis_ops_def redis_get_def)
  qed
  show "\<exists>s'. co_set (redis_ops client) k v ttl s = (Inr (), s') \<and> look s' = (look s)(k := Some v)" for k v ttl s
  proof (cases ttl)
    case None
    obtain s' where "rc_set client k v s = (Inr (), s')" "look s' = (look s)(k := Some v)"
      using assms unfolding redis_answers_def by meson
    with None show ?thesis by (simp add: redis_ops_def redis_set_def)
  next
    case (Some t)
    have "1 \<le> max 1 t" by simp
    then obtain s' where "rc_setex client k (max 1 t) v s = (Inr (), s')" "look s' = (look s)(k := Some v)"
      using assms unfolding redis_answers_def by meson
    with Some show ?thesis by (simp add: redis_ops_def redis_set_def)
  qed
  show "\<exists>s'. co_delete (redis_ops client) k s = (Inr (), s') \<and> look s' = (look s)(k := None)" for k s
  proof -
    obtain s' where "rc_delete client k s = (Inr (), s')" "look s' = (look s)(k := None)"
      using assms unfolding redis_answers_def by meson
    then show ?thesis by (simp add: redis_ops_def redis_delete_def)
  qed
  fix s k n
  assume "(case look s k of None \<Rightarrow> Inr 0 | Some t \<Rightarrow> text_int t) = Inr n"
  then obtain s' where "rc_incr client k s = (Inr (n + 1), s')" "look s' = (look s)(k := Some (Plain (int_str (n + 1))))"
    using assms unfolding redis_answers_def by meson
  then show "\<exists>s'. co_incr (redis_ops client) k s = (Inr (n + 1), s')
      \<and> look s' = (look s)(k := Some (Plain (int_str (n + 1))))"
    by (simp add: redis_ops_def redis_incr_def)
qed

section \<open>An unreachable server\<close>

definition unreachable :: "'r redis_client \<Rightarrow> bool" where
  "unreachable client = (\<forall>k v ttl s. (\<exists>e. backend_error e \<and> rc_get client k s = (Inl e, s))
     \<and> (\<exists>e. backend_error e \<and> rc_set client k v s = (Inl e, s))
     \<and> (\<exists>e. backend_error e \<and> rc_setex client k ttl v s = (Inl e, s))
     \<and> (\<exists>e. backend_error e \<and> rc_delete client k s = (Inl e, s))
     \<and> (\<exists>e. backend_error e \<and> rc_incr client k s = (Inl e, s)))"

lemma unreachable_ops:
  assumes "unreachable client"
  shows "redis_get client k s = (Inr None, s)" "redis_set client k v ttl s = (Inr (), s)"
    "redis_delete client k s = (Inr (), s)" "redis_incr client k s = (Inr 0, s)"
proof -
  have *: "\<exists>e. backend_error e \<and> rc_get client k s = (Inl e, s)" "\<exists>e. backend_error e \<and> rc_set client k v s = (Inl e, s)"
    "\<And>ttl. \<exists>e. backend_error e \<and> rc_setex client k ttl v s = (Inl e, s)"
    "\<exists>e. backend_error e \<and> rc_delete client k s = (Inl e, s)" "\<exists>e. backend_error e \<and> rc_incr client k s = (Inl e, s)"
    using assms unfolding unreachable_def by blast+
  show "redis_get client k s = (Inr None, s)" using *(1) by (auto simp: redis_get_def)
  show "redis_set client k v ttl s = (Inr (), s)"
    using *(2) *(3) by (cases ttl) (auto simp: redis_set_def, metis catch_cases(2) eff_basic(1))
  show "redis_delete client k s = (Inr (), s)" using *(4) by (auto simp: redis_delete_def)
  show "redis_incr client k s = (Inr 0, s)" using *(5) by (auto simp: redis_incr_def)
qed

text \<open>
  While Redis is unreachable every policy lookup is a miss, and an invalidation is lost without an
  error: the counter it should have raised is as before when the server is back.
\<close>

lemma unreachable_is_a_miss:
  assumes "unreachable client"
  shows "policy_cache_get (redis_ops client) tenant_key version s = (Inr None, s)"
    "policy_cache_set (redis_ops client) tenant_key version ps s = (Inr (), s)"
    "policy_cache_invalidate (redis_ops client) tenant_key s = (Inr (), s)"
    "bump_namespace (redis_ops client) tenant_key s = (Inr 0, s)"
  using unreachable_ops [OF assms]
  by (simp_all add: redis_ops_def policy_cache_get_def policy_cache_key_def policy_cache_set_def
      policy_cache_invalidate_def bump_namespace_def read_rows_def)

text \<open>
  Every process uses the same server: from a state whose counters a run of such operations has
  left, an invalidation by one of them hides all policies stored for the tenant from all.
\<close>

lemma redis_invalidation:
  assumes "redis_answers client look" "namespaces_fresh n (look s)" "n < counter_limit"
    "policy_cache_invalidate (redis_ops client) tenant_key s = (r, s')"
  shows "fst (policy_cache_get (redis_ops client) tenant_key version s') = Inr None"
proof -
  have backend: "cache_backend (redis_ops client) look" by (rule redis_is_backend [OF assms(1)])
  show ?thesis
    by (rule cache_backend.policy_invalidate_fresh [OF backend assms(2-4)])
qed

section \<open>Messages\<close>

definition policy_event :: "string \<Rightarrow> int \<Rightarrow> pyval" where
  "policy_event tenant_key policy_version =
     PDict [(''tenant_key'', PStr tenant_key), (''policy_version'', PInt policy_version)]"

definition publish_policy_update :: "'r redis_client option \<Rightarrow> string \<Rightarrow> string \<Rightarrow> int \<Rightarrow> ('r, unit) eff" where
  "publish_policy_update client channel tenant_key policy_version = (case client of
     None \<Rightarrow> ret ()
   | Some c \<Rightarrow> catch (rc_publish c channel (json_dumps (policy_event tenant_key policy_version)))
       backend_error (\<lambda>_. ret ()))"

text \<open>
  The listener (\<open>run\<close> in \<open>_start_policy_subscriber\<close> of \<open>api/main.py\<close>) on one message, the type of the
  message and its data. \<open>json.loads\<close> raises a \<open>ValueError\<close> for a text that is not JSON and a \<open>TypeError\<close>
  for no text; both are logged. A JSON value that is no object has no \<open>get\<close>.
\<close>

definition message_error :: "exn \<Rightarrow> bool" where
  "message_error e = (case e of ValueError _ \<Rightarrow> True | AttributeValidationError _ \<Rightarrow> True | TypeError _ \<Rightarrow> True
     | _ \<Rightarrow> False)"

definition on_message :: "'b cache_ops \<Rightarrow> string \<Rightarrow> cache_text option \<Rightarrow> ('b, unit) eff" where
  "on_message ops message_type data =
     (if message_type \<noteq> ''message'' then ret ()
      else case Option.bind data json_loads of
        None \<Rightarrow> ret ()
      | Some (PDict payload) \<Rightarrow> (case pget payload ''tenant_key'' of
          PStr tenant_key \<Rightarrow> catch (policy_cache_invalidate ops tenant_key) message_error (\<lambda>_. ret ())
        | _ \<Rightarrow> ret ())
      | Some v \<Rightarrow> lift (no_attribute_get v))"

fun listen :: "'b cache_ops \<Rightarrow> (string \<times> cache_text option) list \<Rightarrow> ('b, unit) eff" where
  "listen ops [] = ret ()"
| "listen ops ((message_type, data) # messages) = bnd (on_message ops message_type data) (\<lambda>_. listen ops messages)"

text \<open>A published change invalidates the policies of its tenant; a message that is no object ends the listener.\<close>

lemma published_invalidates:
  assumes "cache_backend ops look" "n < counter_limit" "namespaces_fresh n (look b)"
  obtains b' where "on_message ops ''message'' (Some (json_dumps (policy_event tenant_key policy_version))) b = (Inr (), b')"
    "fst (policy_cache_get ops tenant_key version b') = Inr None"
proof -
  obtain r b' where run: "policy_cache_invalidate ops tenant_key b = (r, b')" by fastforce
  from assms(3) obtain c where c: "0 \<le> c \<and> c \<le> n \<and> look b (policy_namespace_key tenant_key)
      = (if c = 0 then None else Some (Plain (int_str c)))"
    unfolding namespaces_fresh_def policies_held_def by blast
  then have "c < counter_limit" using assms(2) by (meson order.strict_trans1)
  then have "(case look b (policy_namespace_key tenant_key) of None \<Rightarrow> Inr 0 | Some t \<Rightarrow> text_int t) = Inr c"
    using text_int_counter(2) [of c] c by (simp split: if_splits)
  from cache_backend.incr_law [OF assms(1) this] have "r = Inr ()"
    using run by (auto simp: policy_cache_invalidate_def)
  moreover have "fst (policy_cache_get ops tenant_key version b') = Inr None"
    by (rule cache_backend.policy_invalidate_fresh [OF assms(1,3,2) run])
  ultimately show ?thesis using that run by (simp add: on_message_def policy_event_def)
qed

lemma non_object_ends_listener:
  "\<exists>e. listen ops [(''message'', Some (json_dumps (PList []))), m] b = (Inl e, b)"
  by (simp add: on_message_def no_attribute_get_def bnd_def)

end
