(* ===== verification/Bootstrap.thy ===== *)
theory Bootstrap
  imports Routes RedisCache
begin

text \<open>
  How a process comes up: the configuration file (\<open>config/config_loader.py\<close>) and the environment
  variables it sets, the embedded facade (\<open>headless.py\<close>), and the startup of the server with the
  tables, stores and sample data it prepares (\<open>api/main.py\<close>). The file system and the YAML, JSON and TOML parsers are
  the \<open>file_ports\<close>; the environment of the process is a dictionary of texts.
\<close>

section \<open>Configuration files\<close>

record file_config =
  fc_database_url :: "string option"
  fc_redis_url :: "string option"
  fc_policy_paths :: "string list"
  fc_model_paths :: "string list"
  fc_seed_data :: "bool option"
  fc_server_host :: "string option"
  fc_server_port :: "int option"

definition config_section :: "pydict \<Rightarrow> string \<Rightarrow> string \<Rightarrow> pyval" where
  "config_section payload section_name key = (case pget payload section_name of
     PDict section_obj \<Rightarrow> pget section_obj key | _ \<Rightarrow> PNone)"

definition as_str :: "pyval \<Rightarrow> string option" where
  "as_str v = (case v of
     PNone \<Rightarrow> None
   | PStr s \<Rightarrow> (let trimmed = strip s in if trimmed = [] then None else Some trimmed)
   | _ \<Rightarrow> Some (py_str v))"

text \<open>\<open>int(value)\<close>; only \<open>TypeError\<close> and \<open>ValueError\<close> are caught, so an infinite float escapes.\<close>

definition as_int :: "pyval \<Rightarrow> int option result" where
  "as_int v = (case v of
     PNone \<Rightarrow> Inr None
   | _ \<Rightarrow> (case py_int v of
       Inr i \<Rightarrow> Inr (Some i)
     | Inl e \<Rightarrow> if is_value_error e \<or> is_type_error e then Inr None else Inl e))"

definition as_bool :: "pyval \<Rightarrow> bool option" where
  "as_bool v = (case v of
     PBool b \<Rightarrow> Some b
   | PStr s \<Rightarrow> (let normalized = lower (strip s) in
       if normalized \<in> {''true'', ''1'', ''yes'', ''on''} then Some True
       else if normalized \<in> {''false'', ''0'', ''no'', ''off''} then Some False else None)
   | _ \<Rightarrow> None)"

definition texts_of :: "pyval \<Rightarrow> string list" where
  "texts_of v = (case v of PList items \<Rightarrow> concat (map (\<lambda>x. case x of PStr s \<Rightarrow> [s] | _ \<Rightarrow> []) items) | _ \<Rightarrow> [])"

text \<open>\<open>dict.fromkeys\<close> keeps the first of equal keys.\<close>

definition first_of_each :: "string list \<Rightarrow> string list" where
  "first_of_each xs = rev (remdups (rev xs))"

definition paths_from_payload :: "pydict \<Rightarrow> string \<Rightarrow> string \<Rightarrow> string list" where
  "paths_from_payload payload section_name plural_key =
     (let out = texts_of (pget payload plural_key)
        @ (case pget payload section_name of
             PDict section_obj \<Rightarrow>
               (case pget section_obj ''path'' of PStr single \<Rightarrow> [single] | _ \<Rightarrow> []) @ texts_of (pget section_obj ''paths'')
           | _ \<Rightarrow> [])
      in first_of_each (map strip (filter (\<lambda>path. path \<noteq> [] \<and> strip path \<noteq> []) out)))"

definition normalize_config :: "pydict \<Rightarrow> file_config result" where
  "normalize_config payload =
     ebind (as_int (config_section payload ''server'' ''port'')) (\<lambda>server_port.
       Inr \<lparr>fc_database_url = as_str (config_section payload ''database'' ''url''),
            fc_redis_url = as_str (config_section payload ''redis'' ''url''),
            fc_policy_paths = paths_from_payload payload ''policies'' ''policy_paths'',
            fc_model_paths = paths_from_payload payload ''models'' ''model_paths'',
            fc_seed_data = as_bool (pget payload ''seed_data''),
            fc_server_host = as_str (config_section payload ''server'' ''host''), fc_server_port = server_port\<rparr>)"

definition load_config_file :: "file_ports \<Rightarrow> string \<Rightarrow> file_config result" where
  "load_config_file fp path = (let suffix = lower (path_suffix path) in
     ebind (fp_read fp path) (\<lambda>raw.
     ebind (if suffix = ''.yaml'' \<or> suffix = ''.yml'' then fp_yaml fp raw
            else if suffix = ''.json'' then fp_json fp raw
            else if suffix = ''.toml'' then fp_toml fp raw
            else Inl (ValueError (''unsupported config file format: '' @ path_suffix path))) (\<lambda>payload.
       case payload of
         PNone \<Rightarrow> normalize_config []
       | PDict d \<Rightarrow> normalize_config d
       | _ \<Rightarrow> Inl (ValueError ''configuration root must be an object''))))"

definition env_set :: "string \<Rightarrow> string option \<Rightarrow> string dict \<Rightarrow> string dict" where
  "env_set key v environ = (case v of None \<Rightarrow> environ | Some t \<Rightarrow> dset environ key t)"

definition env_text :: "string \<Rightarrow> string option \<Rightarrow> string dict \<Rightarrow> string dict" where
  "env_text key v = env_set key (if nonempty v then v else None)"

definition env_paths :: "string \<Rightarrow> string list \<Rightarrow> string dict \<Rightarrow> string dict" where
  "env_paths key paths = env_set key (if paths = [] then None else Some (join '','' paths))"

definition apply_config_to_environment :: "file_config \<Rightarrow> string dict \<Rightarrow> string dict" where
  "apply_config_to_environment c environ =
     env_set ''KEYNETRA_SERVER_PORT'' (map_option int_str (fc_server_port c))
     (env_text ''KEYNETRA_SERVER_HOST'' (fc_server_host c)
     (env_set ''KEYNETRA_AUTO_SEED_SAMPLE_DATA'' (map_option (\<lambda>b. if b then ''true'' else ''false'') (fc_seed_data c))
     (env_paths ''KEYNETRA_MODEL_PATHS'' (fc_model_paths c)
     (env_paths ''KEYNETRA_POLICY_PATHS'' (fc_policy_paths c)
     (env_text ''KEYNETRA_REDIS_URL'' (fc_redis_url c)
     (env_text ''KEYNETRA_DATABASE_URL'' (fc_database_url c) environ))))))"

section \<open>The embedded facade\<close>

record keynetra =
  kn_engine :: engine
  kn_permission_graph :: "permission_graph option"

definition default_graph :: "compiled_model \<Rightarrow> permission_graph" where
  "default_graph compiled = \<lparr>pg_tenant_key = ''default'', pg_model = compiled\<rparr>"

definition facade_engine :: "pydict list \<Rightarrow> engine result" where
  "facade_engine policies = new_engine (map PolicyRaw policies) ''first_match'' None"

definition from_config :: "file_ports \<Rightarrow> string \<Rightarrow> keynetra result" where
  "from_config fp path =
     ebind (load_config_file fp path) (\<lambda>config.
     ebind (load_policies_from_paths fp (fc_policy_paths config)) (\<lambda>loaded.
     ebind (facade_engine (if loaded = [] then default_policies else loaded)) (\<lambda>eng.
     ebind (load_authorization_model_from_paths fp (fc_model_paths config)) (\<lambda>schema.
       if str_or schema [] = [] then Inr \<lparr>kn_engine = eng, kn_permission_graph = None\<rparr>
       else ebind (compile_authorization_schema (str_or schema [])) (\<lambda>compiled.
         Inr \<lparr>kn_engine = eng, kn_permission_graph = Some (default_graph compiled)\<rparr>)))))"

definition facade_load_policies :: "file_ports \<Rightarrow> string \<Rightarrow> keynetra \<Rightarrow> keynetra result" where
  "facade_load_policies fp path kn =
     ebind (load_policies_from_paths fp [path]) (\<lambda>loaded.
       if loaded = [] then Inl (ValueError ''no policies found in the provided path'')
       else ebind (facade_engine loaded) (\<lambda>eng. Inr (kn\<lparr>kn_engine := eng\<rparr>)))"

definition facade_load_model :: "file_ports \<Rightarrow> string \<Rightarrow> keynetra \<Rightarrow> keynetra result" where
  "facade_load_model fp path kn =
     ebind (load_authorization_model_from_file fp path) (\<lambda>schema.
     ebind (compile_authorization_schema schema) (\<lambda>compiled.
       Inr (kn\<lparr>kn_permission_graph := Some (default_graph compiled)\<rparr>)))"

text \<open>The facade parses subjects and resources exactly as the engine's own \<open>check_access\<close> does.\<close>

definition facade_check_access :: "keynetra \<Rightarrow> descriptor \<Rightarrow> string \<Rightarrow> descriptor \<Rightarrow> pydict option
    \<Rightarrow> authorization_decision result" where
  "facade_check_access kn subject action resource context =
     decide (kn_engine kn) (Structured ((plain_input (normalize_subject subject) (normalize_resource resource) action
       (case context of None \<Rightarrow> [] | Some c \<Rightarrow> c))\<lparr>in_permission_graph := kn_permission_graph kn\<rparr>)) None None"

section \<open>Startup\<close>

definition is_runtime_error :: "exn \<Rightarrow> bool" where
  "is_runtime_error e = (case e of RuntimeError _ \<Rightarrow> True | _ \<Rightarrow> False)"

definition is_production :: "settings \<Rightarrow> bool" where
  "is_production s = (lower (strip (se_environment s)) \<in> {''prod'', ''production''})"

text \<open>\<open>except (ValueError, RuntimeError)\<close>: logged, and fatal in production only.\<close>

definition bootstrap_guarded :: "settings \<Rightarrow> string \<Rightarrow> (world, unit) eff \<Rightarrow> (world, unit) eff" where
  "bootstrap_guarded s message m = catch m (\<lambda>e. is_value_error e \<or> is_runtime_error e)
     (\<lambda>_. if is_production s then throw (BootstrapError message) else ret ())"

definition configured_engine :: "environment \<Rightarrow> ('w, engine) eff" where
  "configured_engine env =
     bnd (load_policies (au_parse_json (en_auth env)) (\<lambda>paths. lift (load_policies_from_paths (en_files env) paths))
       (en_settings env)) (\<lambda>policies. lift (facade_engine policies))"

definition bootstrap_policies :: "environment \<Rightarrow> (world, unit) eff" where
  "bootstrap_policies env = bootstrap_guarded (en_settings env) ''policy bootstrap failed''
     (bnd (configured_engine env) (\<lambda>eng. graphs_set default_tenant_key 1 (eng_graph eng)))"

definition configured_graph :: "environment \<Rightarrow> permission_graph option result" where
  "configured_graph env =
     ebind (load_authorization_model_from_paths (en_files env) (parsed_model_paths (en_settings env))) (\<lambda>schema.
       if str_or schema [] = [] then Inr None
       else ebind (compile_authorization_schema (str_or schema [])) (\<lambda>compiled.
         Inr (Some \<lparr>pg_tenant_key = default_tenant_key, pg_model = compiled\<rparr>)))"

definition bootstrap_model :: "environment \<Rightarrow> (world, unit) eff" where
  "bootstrap_model env =
     (if parsed_model_paths (en_settings env) = [] then ret ()
      else bootstrap_guarded (en_settings env) ''authorization model bootstrap failed''
        (bnd (lift (configured_graph env)) (\<lambda>g. case g of
           None \<Rightarrow> ret () | Some graph \<Rightarrow> models_set default_tenant_key graph)))"

definition seeds_at_startup :: "settings \<Rightarrow> bool" where
  "seeds_at_startup s = (is_local_dev s \<and> se_auto_seed_sample_data s
     \<and> lower (strip (se_service_mode s)) \<in> {''all'', ''policy-store''})"

definition seed_at_startup :: "environment \<Rightarrow> (world, unit) eff" where
  "seed_at_startup env = on_db (\<lambda>db. (Inr (), snd (seed_demo_data (en_dialect env) default_tenant_key False db)))"

text \<open>\<open>initialize\<close> connects to the database and creates missing tables.\<close>

definition run_startup :: "environment \<Rightarrow> (world, unit) eff \<Rightarrow> (world, unit) eff" where
  "run_startup env initialize =
     bnd (catch_all initialize (\<lambda>_. throw (BootstrapError ''database initialization failed''))) (\<lambda>_.
     bnd (bootstrap_policies env) (\<lambda>_.
     bnd (bootstrap_model env) (\<lambda>_.
       if seeds_at_startup (en_settings env) then seed_at_startup env else ret ())))"

lemma load_policies_world:
  "load_policies parse_json (\<lambda>paths. lift (f paths)) s w = (fst (load_policies parse_json (\<lambda>paths. lift (f paths)) s ()), w)"
  by (simp add: load_policies_def ret_def lift_def bnd_def split: sum.split)

lemma configured_engine_world: "configured_engine env w = (fst (configured_engine env ()), w)"
  unfolding configured_engine_def bnd_def
  by (subst load_policies_world) (simp add: lift_def split: sum.split prod.split)

lemma bootstrap_policies_run:
  "bootstrap_policies env w = (case fst (configured_engine env ()) of
     Inr eng \<Rightarrow> (Inr (), w\<lparr>w_graphs := policy_store_set (w_graphs w) (default_tenant_key, 1) (eng_graph eng)\<rparr>)
   | Inl e \<Rightarrow> (if is_value_error e \<or> is_runtime_error e
       then if is_production (en_settings env) then Inl (BootstrapError ''policy bootstrap failed'') else Inr ()
       else Inl e, w))"
  unfolding bootstrap_policies_def bootstrap_guarded_def bnd_def
  by (subst configured_engine_world) (simp add: catch_def graphs_set_def split: sum.split)

lemma no_model_paths: "parsed_model_paths (en_settings env) = [] \<Longrightarrow> configured_graph env = Inr None"
  by (simp add: configured_graph_def load_authorization_model_from_paths_def)

lemma bootstrap_model_run:
  "bootstrap_model env w = (case configured_graph env of
     Inr None \<Rightarrow> (Inr (), w)
   | Inr (Some g) \<Rightarrow> (Inr (), w\<lparr>w_models := model_store_set (w_models w) default_tenant_key g\<rparr>)
   | Inl e \<Rightarrow> (if is_value_error e \<or> is_runtime_error e
       then if is_production (en_settings env) then Inl (BootstrapError ''authorization model bootstrap failed'') else Inr ()
       else Inl e, w))"
  by (cases "parsed_model_paths (en_settings env) = []")
    (auto simp: bootstrap_model_def no_model_paths bootstrap_guarded_def bnd_def catch_def models_set_def
      split: sum.split option.split)

text \<open>
  What startup accepts of a configured part: one that loads, and outside production also one whose
  loading ends in a \<open>ValueError\<close> or a \<open>RuntimeError\<close>.
\<close>

definition accepted_part :: "bool \<Rightarrow> 'a result \<Rightarrow> bool" where
  "accepted_part production part = (case part of
     Inr _ \<Rightarrow> True | Inl e \<Rightarrow> \<not> production \<and> (is_value_error e \<or> is_runtime_error e))"

text \<open>
  C28. Once the database is there, startup succeeds exactly when the configured policies and the
  configured model are accepted: in production both have to load and compile, elsewhere a
  \<open>ValueError\<close> or a \<open>RuntimeError\<close> in them does not stop it. The stores then hold what was compiled.
  A startup that fails fails with \<open>BootstrapError\<close> in production or with the exception of the policies or of
  the model. The tables change only by seeding the sample data, which takes a local environment, the
  flag for it and a mode that manages policies.
\<close>

theorem startup_strict_in_production:
  assumes "run_startup env initialize w = (r, w')" "initialize w = (Inr (), w0)"
  shows "(r = Inr () \<longleftrightarrow> accepted_part (is_production (en_settings env)) (fst (configured_engine env ()))
        \<and> accepted_part (is_production (en_settings env)) (configured_graph env))
    \<and> (\<forall>eng. r = Inr () \<and> fst (configured_engine env ()) = Inr eng \<longrightarrow>
        policy_store_get (w_graphs w') (default_tenant_key, 1) = Some (eng_graph eng))
    \<and> (\<forall>g. r = Inr () \<and> configured_graph env = Inr (Some g) \<longrightarrow>
        model_store_get (w_models w') default_tenant_key = Some g)
    \<and> (\<forall>e. r = Inl e \<longrightarrow>
        (is_production (en_settings env) \<and>
          (e = BootstrapError ''policy bootstrap failed'' \<or> e = BootstrapError ''authorization model bootstrap failed''))
        \<or> (fst (configured_engine env ()) = Inl e \<or> configured_graph env = Inl e)
            \<and> \<not> is_value_error e \<and> \<not> is_runtime_error e)
    \<and> w_db w' = (if r = Inr () \<and> seeds_at_startup (en_settings env)
        then snd (seed_demo_data (en_dialect env) default_tenant_key False (w_db w0)) else w_db w0)"
proof -
  have start: "run_startup env initialize w = bnd (bootstrap_policies env) (\<lambda>_. bnd (bootstrap_model env) (\<lambda>_.
      if seeds_at_startup (en_settings env) then seed_at_startup env else ret ())) w0"
    using assms(2) by (simp add: run_startup_def)
  note steps = bnd_def bootstrap_policies_run bootstrap_model_run seed_at_startup_def on_db_def accepted_part_def
    policy_store_get_def policy_store_set_def model_store_get_def model_store_set_def
  show ?thesis
    using assms(1) start
    by (cases "fst (configured_engine env ())"; cases "configured_graph env")
      (auto simp: steps split: option.splits if_splits)
qed

definition broken_startup :: environment where
  "broken_startup = \<lparr>en_settings = prod_settings\<lparr>se_policy_paths := Some ''policies.txt''\<rparr>, en_auth = demo_auth,
     en_digest = (\<lambda>_. []), en_files = \<lparr>fp_kind = (\<lambda>_. RegularFile), fp_read = (\<lambda>_. Inr []), fp_yaml = (\<lambda>_. Inr PNone),
       fp_json = (\<lambda>_. Inr PNone), fp_toml = (\<lambda>_. Inr PNone)\<rparr>,
     en_credentials = (\<lambda>_. None), en_dialect = ''postgresql'', en_database_error = None, en_redis_probe = None\<rparr>"

lemma broken_engine: "\<exists>e. fst (configured_engine broken_startup w) = Inl e"
proof -
  have paths: "comma_list ''policies.txt'' = [''policies.txt'']" and suffix: "lower (path_suffix ''policies.txt'') = ''.txt''"
    by code_simp+
  then have "load_policies_from_paths (en_files broken_startup) [''policies.txt'']
      = Inl (ValueError (''unsupported policy format: '' @ path_suffix ''policies.txt''))"
    by (simp add: load_policies_from_paths_def policy_files_def broken_startup_def load_policies_from_file_def)
  then show ?thesis
    by (simp add: configured_engine_def load_policies_def broken_startup_def parsed_policy_paths_def optional_list_def paths
        prod_settings_def default_settings_def str_or_def bnd_def)
qed

theorem startup_strict_in_production_witness:
  "fst (run_startup broken_startup (ret ()) empty_world) \<noteq> Inr ()
    \<and> w_db (snd (run_startup broken_startup (ret ()) empty_world)) = empty_database"
proof -
  obtain r w' where run: "run_startup broken_startup (ret ()) empty_world = (r, w')" by fastforce
  have "lower (strip ''prod'') = ''prod''" by code_simp
  then have prod: "is_production (en_settings broken_startup)" "\<not> seeds_at_startup (en_settings broken_startup)"
    by (simp_all add: is_production_def seeds_at_startup_def is_local_dev_def broken_startup_def prod_settings_def
        default_settings_def)
  have "ret () empty_world = (Inr (), empty_world)" by simp
  from startup_strict_in_production [OF run this] have "r \<noteq> Inr () \<and> w_db w' = w_db empty_world"
    using prod broken_engine [of "()"] by (auto simp: accepted_part_def)
  moreover have "w_db empty_world = empty_database" by (simp add: empty_world_def)
  ultimately show ?thesis by (simp add: run)
qed

section \<open>The configuration reaches the settings\<close>

lemma strip_strip: "strip (strip s) = strip s"
proof -
  have ends: "dropWhile P xs = [] \<or> \<not> P (hd (dropWhile P xs))" for P and xs :: string
    by (metis hd_dropWhile)
  have last: "strip s = [] \<or> \<not> is_space (last (strip s))"
    using ends [of is_space "rev (lstrip s)"] by (auto simp: strip_def rstrip_def last_rev)
  have "\<not> is_space (hd (strip s))" if "strip s \<noteq> []"
  proof -
    obtain ys where "lstrip s = strip s @ ys"
      unfolding strip_def rstrip_def by (metis rev_append rev_rev_ident takeWhile_dropWhile_id)
    then show ?thesis using that ends [of is_space s] by (auto simp: lstrip_def hd_append)
  qed
  with last show ?thesis by (intro strip_id) blast
qed

lemma split_char_absent: "c \<notin> set w \<Longrightarrow> split_char c w = [w]"
  by (induction w) auto

lemma split_char_sep: "c \<notin> set w \<Longrightarrow> split_char c (w @ c # s) = w # split_char c s"
  by (induction w) (auto split: list.splits)

lemma split_join_char:
  "ws \<noteq> [] \<Longrightarrow> \<forall>w \<in> set ws. c \<notin> set w \<Longrightarrow> split_char c (join [c] ws) = ws"
proof (induction "[c]" ws rule: join.induct)
  case (2 x)
  then show ?case by (simp add: split_char_absent)
next
  case (3 x y ys)
  then show ?case by (simp add: split_char_sep)
qed simp

lemma configured_paths: "p \<in> set (paths_from_payload payload section_name plural_key) \<Longrightarrow> p \<noteq> [] \<and> strip p = p"
  by (auto simp: paths_from_payload_def first_of_each_def Let_def strip_strip)

lemma paths_read_back:
  assumes "ps \<noteq> []" "\<forall>p \<in> set ps. p \<noteq> [] \<and> strip p = p" "\<forall>p \<in> set ps. CHR '','' \<notin> set p"
  shows "optional_list (Some (join '','' ps)) = ps"
proof -
  have "split_char (CHR '','') (join '','' ps) = ps" using split_join_char [OF assms(1,3)] .
  moreover have "map strip ps = ps" "filter (\<lambda>x. x \<noteq> []) ps = ps"
    using assms(2) by (simp_all add: map_idI filter_id_conv)
  moreover have "join '','' ps \<noteq> []" using assms(1,2) by (metis join_nonempty)
  ultimately show ?thesis by (simp add: optional_list_def comma_list_def)
qed

text \<open>
  What \<open>pydantic-settings\<close> makes of the variables a configuration file can set: a text as it is, an
  integer from its digits, the texts \<open>true\<close> and \<open>false\<close> as the truth values, and the default without one.
\<close>

definition reads_environment :: "string dict \<Rightarrow> settings \<Rightarrow> bool" where
  "reads_environment environ s =
     (se_database_url s = dget_or environ ''KEYNETRA_DATABASE_URL'' (se_database_url default_settings)
    \<and> se_redis_url s = dget environ ''KEYNETRA_REDIS_URL''
    \<and> se_policy_paths s = dget environ ''KEYNETRA_POLICY_PATHS''
    \<and> se_model_paths s = dget environ ''KEYNETRA_MODEL_PATHS''
    \<and> (\<forall>b. dget environ ''KEYNETRA_AUTO_SEED_SAMPLE_DATA'' = Some (if b then ''true'' else ''false'')
        \<longrightarrow> se_auto_seed_sample_data s = b)
    \<and> se_server_host s = dget_or environ ''KEYNETRA_SERVER_HOST'' (se_server_host default_settings)
    \<and> (case dget environ ''KEYNETRA_SERVER_PORT'' of None \<Rightarrow> True | Some t \<Rightarrow> parse_int t = Some (se_server_port s)))"

lemma dget_env [simp]:
  "dget (env_set k v e) k' = (if k' = k \<and> v \<noteq> None then v else dget e k')"
  "dget (env_text k v e) k' = (if k' = k \<and> nonempty v then v else dget e k')"
  "dget (env_paths k ps e) k' = (if k' = k \<and> ps \<noteq> [] then Some (join '','' ps) else dget e k')"
  by (auto simp: env_set_def env_text_def env_paths_def nonempty_def str_or_def split: option.split)

lemma applied_config:
  "dget (apply_config_to_environment c environ) ''KEYNETRA_POLICY_PATHS'' =
     (if fc_policy_paths c = [] then dget environ ''KEYNETRA_POLICY_PATHS'' else Some (join '','' (fc_policy_paths c)))"
  "dget (apply_config_to_environment c environ) ''KEYNETRA_MODEL_PATHS'' =
     (if fc_model_paths c = [] then dget environ ''KEYNETRA_MODEL_PATHS'' else Some (join '','' (fc_model_paths c)))"
  "nonempty (fc_database_url c) \<Longrightarrow> dget (apply_config_to_environment c environ) ''KEYNETRA_DATABASE_URL'' = fc_database_url c"
  "nonempty (fc_redis_url c) \<Longrightarrow> dget (apply_config_to_environment c environ) ''KEYNETRA_REDIS_URL'' = fc_redis_url c"
  "nonempty (fc_server_host c) \<Longrightarrow> dget (apply_config_to_environment c environ) ''KEYNETRA_SERVER_HOST'' = fc_server_host c"
  "fc_seed_data c = Some b \<Longrightarrow> dget (apply_config_to_environment c environ) ''KEYNETRA_AUTO_SEED_SAMPLE_DATA''
     = Some (if b then ''true'' else ''false'')"
  "fc_server_port c = Some port \<Longrightarrow> dget (apply_config_to_environment c environ) ''KEYNETRA_SERVER_PORT'' = Some (int_str port)"
  by (simp_all add: apply_config_to_environment_def)

text \<open>
  C35. What a configuration file says is what the settings read from the environment hold after it is
  applied: the same policy and model paths, provided none contains a comma, the same addresses, port
  and flag; and paths it leaves out stay those of the environment.
\<close>

theorem config_reaches_settings:
  assumes "normalize_config payload = Inr c" "reads_environment (apply_config_to_environment c environ) s"
    and commas: "\<forall>p \<in> set (fc_policy_paths c @ fc_model_paths c). CHR '','' \<notin> set p"
  shows "parsed_policy_paths s = (if fc_policy_paths c = []
        then optional_list (dget environ ''KEYNETRA_POLICY_PATHS'') else fc_policy_paths c)
    \<and> parsed_model_paths s = (if fc_model_paths c = []
        then optional_list (dget environ ''KEYNETRA_MODEL_PATHS'') else fc_model_paths c)
    \<and> (nonempty (fc_database_url c) \<longrightarrow> fc_database_url c = Some (se_database_url s))
    \<and> (nonempty (fc_redis_url c) \<longrightarrow> fc_redis_url c = se_redis_url s)
    \<and> (nonempty (fc_server_host c) \<longrightarrow> fc_server_host c = Some (se_server_host s))
    \<and> (\<forall>b. fc_seed_data c = Some b \<longrightarrow> se_auto_seed_sample_data s = b)
    \<and> (\<forall>port. fc_server_port c = Some port \<and> \<bar>port\<bar> < 10 ^ 18 \<longrightarrow> se_server_port s = port)"
proof -
  let ?e = "apply_config_to_environment c environ"
  note read = assms(2) [unfolded reads_environment_def]
  have paths: "\<forall>p \<in> set (fc_policy_paths c). p \<noteq> [] \<and> strip p = p" "\<forall>p \<in> set (fc_model_paths c). p \<noteq> [] \<and> strip p = p"
  proof -
    have "fc_policy_paths c = paths_from_payload payload ''policies'' ''policy_paths''"
      "fc_model_paths c = paths_from_payload payload ''models'' ''model_paths''"
      using assms(1) by (auto simp: normalize_config_def ebind_eq_Inr)
    then show "\<forall>p \<in> set (fc_policy_paths c). p \<noteq> [] \<and> strip p = p" "\<forall>p \<in> set (fc_model_paths c). p \<noteq> [] \<and> strip p = p"
      using configured_paths by metis+
  qed
  have "optional_list (dget ?e ''KEYNETRA_POLICY_PATHS'') = (if fc_policy_paths c = []
      then optional_list (dget environ ''KEYNETRA_POLICY_PATHS'') else fc_policy_paths c)"
    using paths_read_back [OF _ paths(1)] commas by (simp add: applied_config(1))
  moreover have "optional_list (dget ?e ''KEYNETRA_MODEL_PATHS'') = (if fc_model_paths c = []
      then optional_list (dget environ ''KEYNETRA_MODEL_PATHS'') else fc_model_paths c)"
    using paths_read_back [OF _ paths(2)] commas by (simp add: applied_config(2))
  moreover have "fc_database_url c = Some (se_database_url s)" if "nonempty (fc_database_url c)"
    using read applied_config(3) [OF that, of environ] that by (auto simp: dget_or_def nonempty_def str_or_def split: option.splits)
  moreover have "fc_server_host c = Some (se_server_host s)" if "nonempty (fc_server_host c)"
    using read applied_config(5) [OF that, of environ] that by (auto simp: dget_or_def nonempty_def str_or_def split: option.splits)
  moreover have "fc_redis_url c = se_redis_url s" if "nonempty (fc_redis_url c)"
    using read applied_config(4) [OF that, of environ] by simp
  moreover have "se_auto_seed_sample_data s = b" if "fc_seed_data c = Some b" for b
    using read applied_config(6) [OF that, of environ] by simp
  moreover have "se_server_port s = port" if "fc_server_port c = Some port" "\<bar>port\<bar> < 10 ^ 18" for port
    using read applied_config(7) [OF that(1), of environ] parse_int_str [OF that(2)] by simp
  ultimately show ?thesis using read by (simp add: parsed_policy_paths_def parsed_model_paths_def)
qed

definition demo_payload :: pydict where
  "demo_payload = [(''policies'', PDict [(''path'', PStr '' rules.yaml '')]), (''server'', PDict [(''port'', PInt 8088)])]"

definition demo_config :: file_config where
  "demo_config = \<lparr>fc_database_url = None, fc_redis_url = None, fc_policy_paths = [''rules.yaml''], fc_model_paths = [],
     fc_seed_data = None, fc_server_host = None, fc_server_port = Some 8088\<rparr>"

definition demo_settings :: settings where
  "demo_settings = default_settings\<lparr>se_policy_paths := Some ''rules.yaml'', se_server_port := 8088\<rparr>"

theorem config_reaches_settings_witness:
  "parsed_policy_paths demo_settings = [''rules.yaml''] \<and> se_server_port demo_settings = 8088"
proof -
  have strips: "strip '' rules.yaml '' = ''rules.yaml''" by code_simp
  have config: "normalize_config demo_payload = Inr demo_config"
    by (simp add: normalize_config_def demo_payload_def demo_config_def config_section_def as_int_def as_str_def as_bool_def
        paths_from_payload_def texts_of_def first_of_each_def strips)
  have "parse_int (int_str 8088) = Some 8088" by (rule parse_int_str) simp
  then have "reads_environment (apply_config_to_environment demo_config []) demo_settings"
    by (simp add: reads_environment_def apply_config_to_environment_def demo_config_def demo_settings_def default_settings_def
        dget_or_def nonempty_def str_or_def)
  from config_reaches_settings [OF config this] show ?thesis by (simp add: demo_config_def)
qed

text \<open>The variable separates paths by commas, so a path with a comma is read as two.\<close>

lemma comma_splits_path: "optional_list (Some (join '','' [''rules,v2.yaml''])) = [''rules'', ''v2.yaml'']"
  by code_simp

text \<open>Without any policy file the facade decides by the sample policies.\<close>

lemma facade_defaults:
  assumes "load_config_file fp path = Inr config" "fc_policy_paths config = []" "fc_model_paths config = []"
  shows "from_config fp path = ebind (facade_engine default_policies)
    (\<lambda>eng. Inr \<lparr>kn_engine = eng, kn_permission_graph = None\<rparr>)"
  using assms by (simp add: from_config_def load_policies_from_paths_def load_authorization_model_from_paths_def)

text \<open>With no model the facade and the engine agree on every question.\<close>

lemma facade_agrees:
  "kn_permission_graph kn = None \<Longrightarrow>
    facade_check_access kn subject action resource context = check_access (kn_engine kn) subject action resource context"
  by (simp add: facade_check_access_def check_access_def plain_input_def)

end
