(* ===== verification/Operations.thy ===== *)
theory Operations
  imports System Bootstrap
begin

text \<open>
  The command line (\<open>cli.py\<close>) and what it calls: the check for destructive migrations
  (\<open>migrations.py\<close>) and the readiness checks (\<open>services/doctor.py\<close>). A command prints lines or JSON
  documents and ends with an exit code; a usage error is \<open>BadParameter\<close>. The HTTP client, alembic and
  the probes of the database and of Redis are parameters, and the settings are those read after the
  configuration file of the command was applied. Starting the server, the OpenAPI commands and the requests of the benchmark
  are in \<open>Console\<close>.
\<close>

section \<open>Destructive migrations\<close>

definition word_here :: "string \<Rightarrow> string \<Rightarrow> bool" where
  "word_here w s = (starts_with w s \<and> (case drop (length w) s of [] \<Rightarrow> True | c # _ \<Rightarrow> \<not> is_word c))"

text \<open>\<open>re.search(r"\bdrop_(?:table|column)\b", text)\<close>; the flag says that a word character comes before.\<close>

fun drops_from :: "bool \<Rightarrow> string \<Rightarrow> bool" where
  "drops_from in_word [] = False"
| "drops_from in_word (c # s) =
     (\<not> in_word \<and> (word_here ''drop_table'' (c # s) \<or> word_here ''drop_column'' (c # s)) \<or> drops_from (is_word c) s)"

definition is_quote :: "char \<Rightarrow> bool" where
  "is_quote c = (code c = 39 \<or> code c = 34)"

text \<open>\<open>revision\s*=\s*['"]([^'"]+)['"]\<close> at the head of the text\<close>

definition revision_here :: "string \<Rightarrow> string option" where
  "revision_here s =
     (if \<not> starts_with ''revision'' s then None
      else case dropWhile is_space (drop 8 s) of
        [] \<Rightarrow> None
      | c # t \<Rightarrow> if c \<noteq> CHR ''='' then None
          else (case dropWhile is_space t of
            [] \<Rightarrow> None
          | q # u \<Rightarrow>
              (let name = takeWhile (\<lambda>x. \<not> is_quote x) u
               in if is_quote q \<and> name \<noteq> [] \<and> length name < length u then Some name else None)))"

text \<open>The first match at the start of a line.\<close>

fun revision_from :: "bool \<Rightarrow> string \<Rightarrow> string option" where
  "revision_from line_start [] = None"
| "revision_from line_start (c # s) =
     (case if line_start then revision_here (c # s) else None of
        Some r \<Rightarrow> Some r | None \<Rightarrow> revision_from (code c = 10) s)"

text \<open>The content of a file, \<open>None\<close> when it is gone.\<close>

definition parse_revision_file :: "string option \<Rightarrow> string option \<times> bool" where
  "parse_revision_file content = (case content of
     None \<Rightarrow> (None, False) | Some text \<Rightarrow> (revision_from True text, drops_from False text))"

definition find_destructive_revisions :: "string option list \<Rightarrow> string set \<Rightarrow> string list" where
  "find_destructive_revisions files applied = sort (List.map_filter (\<lambda>content.
     case parse_revision_file content of
       (Some revision, True) \<Rightarrow> if revision \<noteq> [] \<and> revision \<notin> applied then Some revision else None
     | _ \<Rightarrow> None) files)"

section \<open>Commands\<close>

datatype printed = Line string | Document pyval

record command_output =
  ou_lines :: "printed list"
  ou_code :: int

definition printed :: "printed list \<Rightarrow> command_output" where
  "printed ls = \<lparr>ou_lines = ls, ou_code = 0\<rparr>"

definition failed :: "printed list \<Rightarrow> command_output" where
  "failed ls = \<lparr>ou_lines = ls, ou_code = 1\<rparr>"

text \<open>\<open>typer.BadParameter\<close>: the message, and exit code 2.\<close>

definition bad_parameter :: "string \<Rightarrow> command_output" where
  "bad_parameter message = \<lparr>ou_lines = [Line message], ou_code = 2\<rparr>"

text \<open>The revisions of the table \<open>alembic_version\<close>: none when it cannot be read.\<close>

definition read_applied_revisions :: "string list result \<Rightarrow> string set" where
  "read_applied_revisions rows = (case rows of Inl _ \<Rightarrow> {} | Inr versions \<Rightarrow> set versions)"

definition migrate :: "string option list \<Rightarrow> string list result \<Rightarrow> (string \<Rightarrow> ('w, unit) eff) \<Rightarrow> string \<Rightarrow> bool
    \<Rightarrow> ('w, command_output) eff" where
  "migrate files rows upgrade revision confirm_destructive =
     (let destructive = find_destructive_revisions files (read_applied_revisions rows)
      in if destructive \<noteq> [] \<and> \<not> confirm_destructive
         then ret (failed ([Line ''Destructive migrations detected:''] @ map (\<lambda>r. Line (''  - '' @ r)) destructive
           @ [Line ''Re-run with --confirm-destructive to apply them.'']))
         else bnd (upgrade revision) (\<lambda>_. ret (printed [Line (''Migrations applied up to '' @ revision @ ''.'')])))"

lemma drops_from_iff:
  "drops_from in_word s \<longleftrightarrow> (\<exists>u v. s = u @ v \<and> (word_here ''drop_table'' v \<or> word_here ''drop_column'' v)
     \<and> (if u = [] then \<not> in_word else \<not> is_word (last u)))"
proof (induction s arbitrary: in_word)
  case Nil
  then show ?case by (simp add: word_here_def starts_with_def)
next
  case (Cons c s)
  let ?w = "\<lambda>v. word_here ''drop_table'' v \<or> word_here ''drop_column'' v"
  have "(\<exists>u v. c # s = u @ v \<and> ?w v \<and> (if u = [] then \<not> in_word else \<not> is_word (last u)))
      \<longleftrightarrow> \<not> in_word \<and> ?w (c # s) \<or> (\<exists>u v. s = u @ v \<and> ?w v \<and> (if u = [] then \<not> is_word c else \<not> is_word (last u)))"
    (is "?l \<longleftrightarrow> ?r")
  proof
    assume ?l
    then obtain u v where uv: "c # s = u @ v" "?w v" "if u = [] then \<not> in_word else \<not> is_word (last u)" by blast
    then show ?r by (cases u) (auto split: if_splits)
  next
    assume ?r
    then show ?l
    proof
      assume "\<not> in_word \<and> ?w (c # s)"
      then show ?l by (intro exI [of _ "[]"] exI [of _ "c # s"]) simp
    next
      assume "\<exists>u v. s = u @ v \<and> ?w v \<and> (if u = [] then \<not> is_word c else \<not> is_word (last u))"
      then obtain u v where "s = u @ v" "?w v" "if u = [] then \<not> is_word c else \<not> is_word (last u)" by blast
      then show ?l by (intro exI [of _ "c # u"] exI [of _ v]) auto
    qed
  qed
  then show ?case by (simp add: Cons.IH)
qed

lemma revision_from_nonempty: "revision_from b s = Some r \<Longrightarrow> r \<noteq> []"
  by (induction s arbitrary: b) (auto simp: revision_here_def Let_def split: if_splits option.splits list.splits)

lemma destructive_found:
  assumes "Some text \<in> set files" "revision_from True text = Some r" "drops_from False text" "r \<notin> applied"
  shows "r \<in> set (find_destructive_revisions files applied)"
proof -
  have "parse_revision_file (Some text) = (Some r, True)" using assms(2,3) by (simp add: parse_revision_file_def)
  then show ?thesis
    using assms(1,4) revision_from_nonempty [OF assms(2)]
    unfolding find_destructive_revisions_def set_sort List.map_filter_def by (force simp: image_iff)
qed

text \<open>
  C38. A migration that was not confirmed upgrades nothing past a destructive revision: when it
  succeeds, every revision file that names \<open>drop_table\<close> or \<open>drop_column\<close> as a word anywhere is one the
  database already has, and when it refuses it changes nothing.
\<close>

theorem unconfirmed_migration_destroys_nothing:
  assumes "migrate files rows upgrade revision False w = (Inr out, w')" "Some text \<in> set files"
    and "revision_from True text = Some r" "text = u @ call @ v" "call \<in> {''drop_table'', ''drop_column''}"
    and "u = [] \<or> \<not> is_word (last u)" "v = [] \<or> \<not> is_word (hd v)"
  shows "(ou_code out = 0 \<longrightarrow> r \<in> read_applied_revisions rows) \<and> (ou_code out \<noteq> 0 \<longrightarrow> w' = w)"
proof -
  have "word_here call (call @ v)" using assms(7) by (cases v) (simp_all add: word_here_def starts_with_def)
  with assms(5) have "word_here ''drop_table'' (call @ v) \<or> word_here ''drop_column'' (call @ v)" by blast
  then have "drops_from False text"
    unfolding drops_from_iff using assms(4,6) by - (rule exI [of _ u], rule exI [of _ "call @ v"], auto)
  then have "find_destructive_revisions files (read_applied_revisions rows) = [] \<Longrightarrow> r \<in> read_applied_revisions rows"
    using destructive_found [OF assms(2,3)] by fastforce
  with assms(1) show ?thesis
    by (auto simp: migrate_def Let_def failed_def printed_def bnd_def split: if_splits sum.splits prod.splits)
qed

definition demo_revision :: string where
  "demo_revision = ''revision = '' @ [char_of (39 :: nat)] @ ''a'' @ [char_of (39 :: nat)] @ [char_of (10 :: nat)]"

theorem unconfirmed_migration_destroys_nothing_witness:
  "\<exists>out. migrate [Some (demo_revision @ ''drop_table'' @ ''()'')] (Inr []) (\<lambda>_ (n :: nat). (Inr (), n + 1)) ''head'' False 0
     = (Inr out, 0) \<and> ou_code out \<noteq> 0"
proof -
  let ?files = "[Some (demo_revision @ ''drop_table'' @ ''()'')]" and ?upgrade = "\<lambda>_ (n :: nat). (Inr () :: unit result, n + 1)"
  obtain r w' where run: "migrate ?files (Inr []) ?upgrade ''head'' False 0 = (r, w')" by fastforce
  have revision: "revision_from True (demo_revision @ ''drop_table'' @ ''()'') = Some ''a''" by code_simp
  obtain out where out: "r = Inr out"
    using run by (auto simp: migrate_def Let_def bnd_def split: if_splits)
  have ends: "\<not> is_word (last demo_revision)" "\<not> is_word (hd ''()'')" by code_simp+
  have "(ou_code out = 0 \<longrightarrow> ''a'' \<in> read_applied_revisions (Inr [])) \<and> (ou_code out \<noteq> 0 \<longrightarrow> w' = 0)"
  proof (rule unconfirmed_migration_destroys_nothing [OF run [unfolded out] _ revision,
        where u = demo_revision and call = "''drop_table''" and v = "''()''"])
    show "Some (demo_revision @ ''drop_table'' @ ''()'') \<in> set ?files" by simp
    show "demo_revision = [] \<or> \<not> is_word (last demo_revision)" "''()'' = [] \<or> \<not> is_word (hd ''()'')"
      using ends by blast+
  qed (rule refl, simp)
  then show ?thesis using run by (auto simp: out read_applied_revisions_def)
qed

text \<open>
  The database knows only its newest revision, so once it has moved past a destructive one that one
  is reported again, and every later migration is refused without the confirmation.
\<close>

lemma applied_still_reported:
  "find_destructive_revisions
     [Some (demo_revision @ ''op.drop_column()''), Some (''revision = '' @ [char_of (39 :: nat)] @ ''b'' @ [char_of (39 :: nat)])]
     {''b''} = [''a'']"
  by code_simp

text \<open>And what is dropped by another name is not seen.\<close>

lemma drop_all_not_seen: "find_destructive_revisions [Some (demo_revision @ ''metadata.drop_all(bind)'')] {} = []"
  by code_simp

section \<open>Explaining a decision\<close>

text \<open>
  \<open>int(value) if value.isdigit() else value\<close>. The superscript digits count as digits, but \<open>int()\<close>
  does not read them.
\<close>

definition cli_scalar :: "string \<Rightarrow> pyval result" where
  "cli_scalar v =
     (if v \<noteq> [] \<and> list_all (\<lambda>c. is_digit c \<or> code c \<in> {178, 179, 185}) v
      then ebind (py_int (PStr v)) (\<lambda>i. Inr (PInt i)) else Inr (PStr v))"

text \<open>\<open>_build_authorization_service\<close>: the service of the routes, but without the repository of the models.\<close>

definition cli_service :: "environment \<Rightarrow> site auth_service" where
  "cli_service env =
     (build_service (en_settings env) (en_digest env) (au_parse_json (en_auth env))
       (\<lambda>paths. lift (load_policies_from_paths (en_files env) paths)) None)\<lparr>as_get_model := None\<rparr>"

definition explain_request :: "pyval \<Rightarrow> string \<Rightarrow> pyval \<Rightarrow> pydict \<Rightarrow> auth_request" where
  "explain_request user action resource context =
     \<lparr>rq_tenant_key = default_tenant_key, rq_principal = [(''type'', PStr ''cli''), (''id'', PStr ''cli'')],
      rq_user = [(''id'', user)], rq_action = action, rq_resource = [(''id'', resource)], rq_context = Some context,
      rq_consistency = ''eventual'', rq_revision = None, rq_audit = False, rq_policy_set = ''active''\<rparr>"

text \<open>\<open>json.loads\<close>, which raises a \<open>ValueError\<close> for a text that is not JSON.\<close>

definition load_json :: "environment \<Rightarrow> string \<Rightarrow> pyval result" where
  "load_json env text = (case au_parse_json (en_auth env) text of
     None \<Rightarrow> Inl (ValueError ''invalid JSON'') | Some v \<Rightarrow> Inr v)"

definition explain_doc :: "authorization_decision \<Rightarrow> pyval" where
  "explain_doc d = PDict [(''allowed'', PBool (ad_allowed d)), (''decision'', PStr (decision_text (ad_decision d))),
     (''reason'', ostr_val (ad_reason d)), (''policy_id'', ostr_val (ad_policy_id d)),
     (''matched_policies'', PList (map PStr (ad_matched_policies d))), (''explain_trace'', trace_doc d)]"

definition explain :: "environment \<Rightarrow> string \<Rightarrow> string \<Rightarrow> string \<Rightarrow> string \<Rightarrow> (site, command_output) eff" where
  "explain env user resource action context =
     bnd (lift (cli_scalar user)) (\<lambda>user_id.
     bnd (lift (cli_scalar resource)) (\<lambda>resource_id.
     bnd (lift (load_json env context)) (\<lambda>value.
     bnd (lift (if truthy value then dict_of value else Inr [])) (\<lambda>context_payload.
     bnd (authorize (cli_service env) (explain_request user_id action resource_id context_payload)) (\<lambda>result.
       ret (printed [Document (explain_doc (res_decision result))]))))))"

section \<open>Looking changes nothing\<close>

text \<open>
  A database that is another one, or that one with a new row of a tenant it did not have: no other row of
  any table, and nothing of another tenant, differs.
\<close>

definition only_tenant_added :: "string \<Rightarrow> database \<Rightarrow> database \<Rightarrow> bool" where
  "only_tenant_added key db db' \<longleftrightarrow> db' = db \<or>
     (\<forall>t \<in> set (db_tenants db). tr_key t \<noteq> key)
       \<and> db' = db\<lparr>db_tenants := db_tenants db @ [new_tenant (db_next_id db) key], db_next_id := db_next_id db + 1\<rparr>"

lemma get_or_create_adds:
  assumes "only_tenant_added key db0 db" "tenant_get_or_create key db = (r, db')"
  shows "only_tenant_added key db0 db'" "r = Inr t \<Longrightarrow> tr_key t = key"
  using assms
  by (auto simp: tenant_get_or_create_def only_tenant_added_def new_tenant_def Let_def find_None_iff find_Some_iff
      split: option.splits)

interpretation unchanged: reading_frame "only_tenant_added key db0" "\<lambda>t. tr_key t = key" "\<lambda>k. k = key" for key db0
  by unfold_locales (auto intro!: keepsI dest: get_or_create_adds)

definition no_request :: http_request where
  "no_request = \<lparr>rq_method = [], rq_path = [], rq_headers = [], rq_body = [], rq_client = None, rq_tenant = None, rq_id = None\<rparr>"

lemma explain_preserves:
  "preserves (of_site (only_tenant_added default_tenant_key db0)) (explain env user resource action context)"
proof -
  have "cli_service env = (service_of env no_request)\<lparr>as_get_model := None\<rparr>"
    by (simp add: cli_service_def service_of_def no_request_def)
  then have "reading_service (cli_service env) (of_site (only_tenant_added default_tenant_key db0))
      (\<lambda>t. tr_key t = default_tenant_key) (\<lambda>k. k = default_tenant_key)"
    using unchanged.service.without_models by simp
  then have "preserves (of_site (only_tenant_added default_tenant_key db0))
      (authorize (cli_service env) (explain_request u a r c))" for u a r c
    by (rule reading_service.authorize_keeps) (simp_all add: explain_request_def)
  then show ?thesis unfolding explain_def by (intro preserves_rules)
qed

lemma looked_at: "preserves (of_site (only_tenant_added key (w_db (st_world s)))) m \<Longrightarrow>
    only_tenant_added key (w_db (st_world s)) (w_db (st_world (snd (m s))))"
  by (drule preserves_D [where w = s]) (simp_all add: only_tenant_added_def)

text \<open>
  C8. Looking changes nothing: an endpoint open to viewers (a listing, the simulation of a policy change,
  its impact), the playground and the command \<open>explain\<close> leave every row of every table as it was, the
  audit log, the revisions and the policy versions included. All that may happen is that the tenant of
  the caller, when the database does not have it yet, gets its row: the tenant of the request, or the
  default tenant for the command.
\<close>

theorem looking_changes_nothing:
  "(tenant_role e = Viewer \<or> (\<exists>policies user resource action context. e = Playground policies user resource action context)
      \<longrightarrow> only_tenant_added (aa_tenant_key access) (w_db (st_world s))
            (w_db (st_world (snd (tenant_call env request p access e s)))))
    \<and> (rbac_role e' = Viewer
      \<longrightarrow> only_tenant_added (aa_tenant_key access) (w_db (st_world s))
            (w_db (st_world (snd (rbac_endpoint_call env request access e' s)))))
    \<and> only_tenant_added default_tenant_key (w_db (st_world s))
        (w_db (st_world (snd (explain env subject resource action context s))))"
  using unchanged.viewing_endpoint_preserves [THEN looked_at] unchanged.listing_roles_preserves [THEN looked_at]
    explain_preserves [THEN looked_at] by (intro conjI impI) simp_all

definition demo_access :: admin_access where
  "demo_access = \<lparr>aa_tenant_key = ''acme'', aa_role = Viewer, aa_principal = []\<rparr>"

theorem looking_changes_nothing_witness:
  "only_tenant_added ''acme'' (w_db (st_world empty_site))
      (w_db (st_world (snd (tenant_call demo_env demo_call [] demo_access (ImpactAnalysis ''allow: read'') empty_site))))
    \<and> only_tenant_added ''acme'' (w_db (st_world empty_site))
      (w_db (st_world (snd (rbac_endpoint_call demo_env demo_call demo_access (RolePermissions 1) empty_site))))"
  using looking_changes_nothing [of "ImpactAnalysis ''allow: read''" demo_access empty_site demo_env demo_call "[]" "RolePermissions 1"]
  by (simp add: demo_access_def)

section \<open>Access control lists\<close>

definition acl_result :: "int \<Rightarrow> string \<Rightarrow> command_output" where
  "acl_result acl_id tenant_key =
     printed [Document (PDict [(''acl_id'', PInt acl_id), (''tenant_key'', PStr tenant_key)])]"

text \<open>The effect is stored as it was typed, and the revision stays.\<close>

definition acl_add :: "acl_payload \<Rightarrow> string \<Rightarrow> (world, command_output) eff" where
  "acl_add payload tenant_key =
     bnd (tp_get_or_create world_tenants tenant_key) (\<lambda>tenant.
     bnd (on_db (create_acl_entry (tr_id tenant) (lp_subject_type payload) (lp_subject_id payload)
            (lp_resource_type payload) (lp_resource_id payload) (lp_action payload) (lp_effect payload))) (\<lambda>acl_id.
     bnd (acl_cache_invalidate world_cache (tr_id tenant) (lp_resource_type payload) (lp_resource_id payload)) (\<lambda>_.
     bnd (index_cache_invalidate_tenant world_cache (tr_id tenant)) (\<lambda>_.
     bnd (bump_namespace world_cache tenant_key) (\<lambda>_.
       ret (acl_result acl_id tenant_key))))))"

definition acl_list :: "string \<Rightarrow> string \<Rightarrow> string \<Rightarrow> (world, command_output) eff" where
  "acl_list resource_type resource_id tenant_key =
     bnd (tp_get_or_create world_tenants tenant_key) (\<lambda>tenant.
     bnd (on_db (list_resource_acl (tr_id tenant) resource_type resource_id)) (\<lambda>rows.
       ret (printed [Document (PList (map (\<lambda>row. PDict (acl_to_dict row)) rows))])))"

definition acl_remove :: "int \<Rightarrow> string \<Rightarrow> (world, command_output) eff" where
  "acl_remove acl_id tenant_key =
     bnd (tp_get_or_create world_tenants tenant_key) (\<lambda>tenant.
     bnd (on_db (get_acl_entry (tr_id tenant) acl_id)) (\<lambda>target.
     bnd (on_db (delete_acl_entry (tr_id tenant) acl_id)) (\<lambda>_.
     bnd (case target of None \<Rightarrow> ret () | Some row \<Rightarrow>
        bnd (acl_cache_invalidate world_cache (tr_id tenant) (ar_resource_type row) (ar_resource_id row)) (\<lambda>_.
          index_cache_invalidate_tenant world_cache (tr_id tenant))) (\<lambda>_.
     bnd (bump_namespace world_cache tenant_key) (\<lambda>_.
       ret (acl_result acl_id tenant_key))))))"

section \<open>Sample data and policies\<close>

definition seed_data :: "environment \<Rightarrow> (world, unit) eff \<Rightarrow> bool \<Rightarrow> (world, command_output) eff" where
  "seed_data env initialize reset = bnd initialize (\<lambda>_.
     bnd (on_db (\<lambda>db. case seed_demo_data (en_dialect env) default_tenant_key reset db of (summary, db') \<Rightarrow> (Inr summary, db')))
       (\<lambda>summary. ret (printed [Document (PDict (summary_doc summary))])))"

definition compile_policies :: "environment \<Rightarrow> string list \<Rightarrow> command_output result" where
  "compile_policies env paths =
     (let configured = (if paths = [] then parsed_policy_paths (en_settings env) else paths) in
      if configured = [] then Inr (bad_parameter ''no policy paths configured'')
      else ebind (load_policies_from_paths (en_files env) configured) (\<lambda>policies.
        if policies = [] then Inr (bad_parameter ''no policy definitions found'')
        else ebind (facade_engine policies) (\<lambda>eng.
          Inr (printed [Document (PDict [(''compiled_policies'', PInt (int (length policies))), (''strategy'', PStr ''first_match''),
            (''policy_ids'', PList (map (\<lambda>p. PStr (policy_id_of p)) (eng_policies eng)))])]))))"

definition or_dash :: "string option \<Rightarrow> string" where
  "or_dash v = str_or v ''-''"

definition test_line :: "policy_test_result \<Rightarrow> printed" where
  "test_line r = Line (''['' @ (if tr_passed r then ''PASS'' else ''FAIL'') @ ''] '' @ tr_name r @ '': expected='' @ tr_expected r
     @ '' actual='' @ tr_actual r @ '' policy_id='' @ or_dash (tr_policy_id r) @ '' reason='' @ or_dash (tr_reason r))"

definition test_policy :: "(string \<Rightarrow> pyval result) \<Rightarrow> (pyval \<Rightarrow> string) \<Rightarrow> string \<Rightarrow> command_output result" where
  "test_policy load dump document = ebind (validate_policy_test_suite load dump document) (\<lambda>results.
     Inr \<lparr>ou_lines = map test_line results, ou_code = (if list_all tr_passed results then 0 else 1)\<rparr>)"

section \<open>Requests to a server\<close>

definition effective_config_path :: "string option \<Rightarrow> string option \<Rightarrow> string option" where
  "effective_config_path given explicit =
     (if nonempty explicit then explicit
      else case given of Some path \<Rightarrow> if strip path = [] then None else Some path | None \<Rightarrow> None)"

definition resolve_url :: "settings \<Rightarrow> string option \<Rightarrow> string \<Rightarrow> bool \<Rightarrow> string" where
  "resolve_url s explicit_url suffix use_settings =
     (if nonempty explicit_url then str_or explicit_url []
      else if \<not> use_settings then ''http://localhost:8000'' @ suffix
      else (let host = (if se_server_host s = ''0.0.0.0'' then ''127.0.0.1'' else se_server_host s)
            in ''http://'' @ host @ '':'' @ int_str (se_server_port s) @ suffix))"

text \<open>\<open>start\<close> and \<open>serve\<close>: with a configuration the default values of the options give way to it.\<close>

definition server_address :: "settings \<Rightarrow> bool \<Rightarrow> string \<Rightarrow> int \<Rightarrow> string \<times> int" where
  "server_address s config_active host port =
     (if \<not> config_active \<or> host \<noteq> ''0.0.0.0'' then host else se_server_host s,
      if \<not> config_active \<or> port \<noteq> 8000 then port else se_server_port s)"

record client_call =
  cc_url :: string
  cc_body :: "pydict option"
  cc_headers :: "string dict"

text \<open>The HTTP client answers with a status and a text, or raises.\<close>

type_synonym 'w http_client = "client_call \<Rightarrow> ('w, nat \<times> string) eff"

definition sent :: "'w http_client \<Rightarrow> client_call \<Rightarrow> ('w, command_output) eff" where
  "sent client call = bnd (client call) (\<lambda>(status, body).
     if 200 \<le> status \<and> status < 300 then ret (printed [Line body]) else throw (HTTPException status body))"

definition key_header :: "string \<Rightarrow> string dict" where
  "key_header api_key = [(''X-API-Key'', api_key)]"

definition check_command :: "environment \<Rightarrow> 'w http_client \<Rightarrow> bool \<Rightarrow> string option \<Rightarrow> string \<Rightarrow> string \<Rightarrow> string \<Rightarrow> string
    \<Rightarrow> string \<Rightarrow> ('w, command_output) eff" where
  "check_command env client config_active url api_key user action resource context =
     bnd (lift (load_json env user)) (\<lambda>user_obj.
     bnd (lift (load_json env resource)) (\<lambda>res_obj.
     bnd (lift (load_json env context)) (\<lambda>context_obj.
       sent client \<lparr>cc_url = resolve_url (en_settings env) url ''/check-access'' config_active,
         cc_body = Some [(''user'', user_obj), (''action'', PStr action), (''resource'', res_obj), (''context'', context_obj)],
         cc_headers = key_header api_key\<rparr>)))"

definition simulate_command :: "environment \<Rightarrow> 'w http_client \<Rightarrow> bool \<Rightarrow> string option \<Rightarrow> string \<Rightarrow> string \<Rightarrow> string \<Rightarrow> string
    \<Rightarrow> string \<Rightarrow> string \<Rightarrow> ('w, command_output) eff" where
  "simulate_command env client config_active url api_key policy_change user action resource context =
     bnd (lift (load_json env user)) (\<lambda>user_obj.
     bnd (lift (load_json env resource)) (\<lambda>res_obj.
     bnd (lift (load_json env context)) (\<lambda>context_obj.
       sent client \<lparr>cc_url = resolve_url (en_settings env) url ''/simulate-policy'' config_active,
         cc_body = Some [(''simulate'', PDict [(''policy_change'', PStr policy_change)]),
           (''request'', PDict [(''user'', user_obj), (''action'', PStr action), (''resource'', res_obj), (''context'', context_obj)])],
         cc_headers = key_header api_key\<rparr>)))"

definition impact_command :: "environment \<Rightarrow> 'w http_client \<Rightarrow> bool \<Rightarrow> string option \<Rightarrow> string \<Rightarrow> string \<Rightarrow> ('w, command_output) eff" where
  "impact_command env client config_active url api_key policy_change =
     sent client \<lparr>cc_url = resolve_url (en_settings env) url ''/impact-analysis'' config_active,
       cc_body = Some [(''policy_change'', PStr policy_change)], cc_headers = key_header api_key\<rparr>"

definition model_apply :: "'w http_client \<Rightarrow> string \<Rightarrow> string \<Rightarrow> string \<Rightarrow> ('w, command_output) eff" where
  "model_apply client url api_key schema =
     sent client \<lparr>cc_url = url, cc_body = Some [(''schema'', PStr schema)], cc_headers = key_header api_key\<rparr>"

definition model_show :: "'w http_client \<Rightarrow> string \<Rightarrow> string \<Rightarrow> ('w, command_output) eff" where
  "model_show client url api_key = sent client \<lparr>cc_url = url, cc_body = None, cc_headers = key_header api_key\<rparr>"

definition admin_login_command :: "environment \<Rightarrow> 'w http_client \<Rightarrow> bool \<Rightarrow> string option \<Rightarrow> string \<Rightarrow> string
    \<Rightarrow> ('w, command_output) eff" where
  "admin_login_command env client config_active url username password =
     sent client \<lparr>cc_url = resolve_url (en_settings env) url ''/admin/login'' config_active,
       cc_body = Some [(''username'', PStr username), (''password'', PStr password)],
       cc_headers = [(''Content-Type'', ''application/json'')]\<rparr>"

section \<open>Readiness\<close>

record doctor_check =
  dk_name :: string
  dk_ok :: bool
  dk_message :: string
  dk_details :: pydict

definition is_set :: "string dict \<Rightarrow> string \<Rightarrow> bool" where
  "is_set environ key = nonempty (dget environ key)"

definition advice :: "bool \<Rightarrow> string \<Rightarrow> string list" where
  "advice wanted message = (if wanted then [message] else [])"

definition has_api_key_auth :: "(string \<Rightarrow> string) \<Rightarrow> settings \<Rightarrow> bool" where
  "has_api_key_auth sha256 s = (parsed_api_key_hashes sha256 s \<noteq> {})"

definition has_jwt_auth :: "settings \<Rightarrow> bool" where
  "has_jwt_auth s = (se_jwt_secret s \<noteq> ''change-me'' \<or> nonempty (se_oidc_jwks_url s))"

definition weak_jwt_secret :: "settings \<Rightarrow> bool" where
  "weak_jwt_secret s = (strip (se_jwt_secret s) = ''change-me'')"

definition env_ok :: "(string \<Rightarrow> string) \<Rightarrow> string dict \<Rightarrow> settings \<Rightarrow> bool" where
  "env_ok sha256 environ s = (is_set environ ''KEYNETRA_DATABASE_URL'' \<and> is_set environ ''KEYNETRA_REDIS_URL''
     \<and> (has_api_key_auth sha256 s \<or> has_jwt_auth s) \<and> (is_development s \<or> \<not> weak_jwt_secret s))"

definition remediation :: "(string \<Rightarrow> string) \<Rightarrow> string dict \<Rightarrow> settings \<Rightarrow> string list" where
  "remediation sha256 environ s =
     advice (\<not> is_set environ ''KEYNETRA_DATABASE_URL'') ''Set KEYNETRA_DATABASE_URL to a reachable production database.''
     @ advice (\<not> is_set environ ''KEYNETRA_REDIS_URL'') ''Set KEYNETRA_REDIS_URL to enable distributed cache and invalidation.''
     @ advice (\<not> (has_api_key_auth sha256 s \<or> has_jwt_auth s))
         ''Configure KEYNETRA_API_KEYS/KEYNETRA_API_KEY_HASHES or JWT/OIDC settings before deployment.''
     @ advice (\<not> is_development s \<and> weak_jwt_secret s) ''Set KEYNETRA_JWT_SECRET to a strong non-default value.''
     @ advice (nonempty (se_admin_username s) \<and> lower (str_or (se_admin_username s) []) = ''admin'')
         ''Avoid default admin username; set KEYNETRA_ADMIN_USERNAME to a unique value.''
     @ advice (nonempty (se_admin_username s) \<and> \<not> nonempty (se_admin_password_hash s))
         ''Set KEYNETRA_ADMIN_PASSWORD_HASH and remove KEYNETRA_ADMIN_PASSWORD.''"

definition check_env :: "(string \<Rightarrow> string) \<Rightarrow> string dict \<Rightarrow> settings \<Rightarrow> doctor_check" where
  "check_env sha256 environ s =
     \<lparr>dk_name = ''env_variables'', dk_ok = env_ok sha256 environ s,
      dk_message = (if env_ok sha256 environ s then ''required environment is configured''
        else ''missing required environment configuration''),
      dk_details = [(''KEYNETRA_DATABASE_URL'', PBool (is_set environ ''KEYNETRA_DATABASE_URL'')),
        (''KEYNETRA_REDIS_URL'', PBool (is_set environ ''KEYNETRA_REDIS_URL'')),
        (''auth_configured'', PBool (has_api_key_auth sha256 s \<or> has_jwt_auth s)),
        (''has_api_key_auth'', PBool (has_api_key_auth sha256 s)), (''has_jwt_auth'', PBool (has_jwt_auth s)),
        (''weak_jwt_secret'', PBool (weak_jwt_secret s)),
        (''weak_admin_username'', PBool (nonempty (se_admin_username s) \<and> lower (str_or (se_admin_username s) []) = ''admin'')),
        (''missing_admin_password_hash'', PBool (nonempty (se_admin_username s) \<and> \<not> nonempty (se_admin_password_hash s))),
        (''remediation'', PList (map PStr (remediation sha256 environ s)))]\<rparr>"

text \<open>The probes answer nothing or the text of the error.\<close>

definition check_database :: "environment \<Rightarrow> doctor_check" where
  "check_database env = (case en_database_error env of
     None \<Rightarrow> \<lparr>dk_name = ''database'', dk_ok = True, dk_message = ''database reachable'',
       dk_details = [(''database_url'', PStr (se_database_url (en_settings env)))]\<rparr>
   | Some e \<Rightarrow> \<lparr>dk_name = ''database'', dk_ok = False, dk_message = ''database unreachable'', dk_details = [(''error'', PStr e)]\<rparr>)"

definition check_redis :: "environment \<Rightarrow> doctor_check" where
  "check_redis env = (case en_redis_probe env of
     None \<Rightarrow> \<lparr>dk_name = ''redis'', dk_ok = False, dk_message = ''redis client not configured'', dk_details = []\<rparr>
   | Some None \<Rightarrow> \<lparr>dk_name = ''redis'', dk_ok = True, dk_message = ''redis reachable'', dk_details = []\<rparr>
   | Some (Some e) \<Rightarrow> \<lparr>dk_name = ''redis'', dk_ok = False, dk_message = ''redis unreachable'', dk_details = [(''error'', PStr e)]\<rparr>)"

text \<open>The heads of the scripts, and the rows of \<open>alembic_version\<close> or the error in reading them.\<close>

definition check_migrations :: "string list \<Rightarrow> string + string list \<Rightarrow> doctor_check" where
  "check_migrations heads rows = (case rows of
     Inl e \<Rightarrow> \<lparr>dk_name = ''migrations'', dk_ok = False, dk_message = ''could not read migration state'',
       dk_details = [(''error'', PStr e)]\<rparr>
   | Inr versions \<Rightarrow> (let expected = sort heads; applied = sort versions; ok = (applied = expected) in
       \<lparr>dk_name = ''migrations'', dk_ok = ok,
        dk_message = (if ok then ''migrations applied'' else ''database is not at migration head''),
        dk_details = [(''expected_heads'', PList (map PStr expected)), (''applied_heads'', PList (map PStr applied))]\<rparr>))"

definition run_core_doctor :: "environment \<Rightarrow> string dict \<Rightarrow> string list \<Rightarrow> string + string list \<Rightarrow> doctor_check list" where
  "run_core_doctor env environ heads rows =
     [check_env (au_sha256 (en_auth env)) environ (en_settings env), check_database env, check_redis env,
      check_migrations heads rows]"

definition check_doc :: "doctor_check \<Rightarrow> pyval" where
  "check_doc c = PDict [(''name'', PStr (dk_name c)), (''ok'', PBool (dk_ok c)), (''message'', PStr (dk_message c)),
     (''details'', PDict (dk_details c))]"

definition doctor_doc :: "doctor_check list \<Rightarrow> pydict" where
  "doctor_doc checks = [(''service'', PStr ''core''), (''ok'', PBool (list_all dk_ok checks)),
     (''checks'', PList (map check_doc checks)), (''remediation_count'', PInt (int (length (filter (\<lambda>c. \<not> dk_ok c) checks))))]"

text \<open>The SaaS checks are not part of the repository: \<open>saas\<close> is their result, \<open>None\<close> when they cannot be imported.\<close>

definition doctor :: "doctor_check list \<Rightarrow> pydict option \<Rightarrow> string \<Rightarrow> command_output" where
  "doctor checks saas service =
     (let normalized = lower (strip service);
          report = (\<lambda>doc ok. \<lparr>ou_lines = [Document (PDict doc)], ou_code = (if ok then 0 else 1)\<rparr>)
      in if normalized = ''core'' then report (doctor_doc checks) (list_all dk_ok checks)
         else if normalized = ''saas'' then (case saas of
            None \<Rightarrow> bad_parameter ''SaaS backend is not importable in this environment.''
          | Some result \<Rightarrow> report result (truthy (pget result ''ok'')))
         else bad_parameter ''service must be one of: core, saas'')"

definition finding_of :: "doctor_check \<Rightarrow> pyval" where
  "finding_of c = PDict [(''check'', PStr (dk_name c)), (''message'', PStr (dk_message c)),
     (''remediation'', (case pget (dk_details c) ''remediation'' of PList items \<Rightarrow> PList items | _ \<Rightarrow> PList []))]"

definition config_doctor :: "environment \<Rightarrow> doctor_check list \<Rightarrow> command_output" where
  "config_doctor env checks =
     (let findings = map finding_of (filter (\<lambda>c. \<not> dk_ok c) checks) in
      \<lparr>ou_lines = [Document (PDict [(''service'', PStr ''core''), (''ok'', PBool (list_all dk_ok checks)),
          (''environment'', PStr (se_environment (en_settings env))), (''findings'', PList findings)])],
       ou_code = (if findings = [] then 0 else 1)\<rparr>)"

text \<open>Both commands succeed exactly when every check does.\<close>

lemma doctor_exit_codes:
  "ou_code (doctor checks saas ''core'') = 0 \<longleftrightarrow> list_all dk_ok checks"
  "ou_code (config_doctor env checks) = 0 \<longleftrightarrow> list_all dk_ok checks"
proof -
  have "lower (strip ''core'') = ''core''" by code_simp
  then show "ou_code (doctor checks saas ''core'') = 0 \<longleftrightarrow> list_all dk_ok checks" by (simp add: doctor_def Let_def)
  show "ou_code (config_doctor env checks) = 0 \<longleftrightarrow> list_all dk_ok checks"
    by (auto simp: config_doctor_def Let_def filter_empty_conv list_all_iff)
qed

text \<open>
  Settings accepted for the environment \<open>prod\<close> pass the first check as soon as both addresses are set in
  the environment; but on its own the check takes an empty secret for a configured authentication.
\<close>

lemma accepted_passes_doctor:
  assumes "validate_settings sha256 s = Inr s'" "se_environment s' = ''prod''"
  shows "env_ok sha256 environ s' \<longleftrightarrow> is_set environ ''KEYNETRA_DATABASE_URL'' \<and> is_set environ ''KEYNETRA_REDIS_URL''"
proof -
  have "strip ''change-me'' = ''change-me''" by code_simp
  moreover have "\<not> is_development s'" using assms(2) by (simp add: is_development_def dev_environments_def)
  moreover note validate_settings_Inr(3) [OF assms(1)]
  ultimately show ?thesis
    using assms(2) by (auto simp: security_error_def Let_def auth_enabled_def env_ok_def has_api_key_auth_def has_jwt_auth_def
        weak_jwt_secret_def split: if_splits)
qed

lemma empty_secret_counts:
  "has_jwt_auth (prod_settings\<lparr>se_jwt_secret := []\<rparr>) \<and> \<not> auth_enabled sha256 (prod_settings\<lparr>se_jwt_secret := []\<rparr>)"
  by (simp add: has_jwt_auth_def auth_enabled_def prod_settings_def default_settings_def parsed_api_key_hashes_def
      parsed_api_keys_def optional_list_def nonempty_def)

section \<open>Measurements\<close>

text \<open>Durations are exact rationals.\<close>

definition percentile_of :: "rat list \<Rightarrow> rat \<Rightarrow> rat" where
  "percentile_of values percentile =
     (if values = [] then 0
      else let sorted_vals = sort values;
               k = of_nat (length sorted_vals - 1) * (percentile / 100);
               lower_index = nat \<lfloor>k\<rfloor>;
               upper_index = min (lower_index + 1) (length sorted_vals - 1);
               weight = k - of_nat lower_index
           in (1 - weight) * sorted_vals ! lower_index + weight * sorted_vals ! upper_index)"

definition benchmark :: "int \<Rightarrow> int \<Rightarrow> (client_call \<Rightarrow> nat \<Rightarrow> ('w, rat list) eff) \<Rightarrow> string \<Rightarrow> string
    \<Rightarrow> ('w, command_output + (string \<times> rat) list) eff" where
  "benchmark requests concurrency run url api_key =
     (if requests < 1 then ret (Inl (bad_parameter ''requests must be greater than zero''))
      else if concurrency < 1 then ret (Inl (bad_parameter ''concurrency must be greater than zero''))
      else bnd (run \<lparr>cc_url = url, cc_body = Some [(''user'', PDict [(''id'', PInt 1)]), (''action'', PStr ''check''),
             (''resource'', PDict [(''amount'', PInt 1)]), (''context'', PDict [])], cc_headers = key_header api_key\<rparr> (nat requests)) (\<lambda>durations.
        if durations = [] then ret (Inl (failed [Line ''No successful samples collected.'']))
        else (let total_time = sum_list durations in
          ret (Inr [(''requests'', of_nat (length durations)), (''p50(ms)'', percentile_of durations 50 * 1000),
            (''p95(ms)'', percentile_of durations 95 * 1000), (''p99(ms)'', percentile_of durations 99 * 1000),
            (''throughput'', if total_time > 0 then of_nat (length durations) / total_time else 0)]))))"

lemma sorted_interpolation:
  assumes "sorted (xs :: rat list)" "i \<le> j" "j < length xs" "0 \<le> w" "w \<le> 1"
  shows "xs ! i \<le> (1 - w) * xs ! i + w * xs ! j \<and> (1 - w) * xs ! i + w * xs ! j \<le> xs ! j"
proof -
  have "xs ! i \<le> xs ! j" using assms(1-3) by (rule sorted_nth_mono)
  moreover from this assms(4) have "w * xs ! i \<le> w * xs ! j" by (rule mult_left_mono)
  moreover from \<open>xs ! i \<le> xs ! j\<close> assms(5) have "(1 - w) * xs ! i \<le> (1 - w) * xs ! j" by (intro mult_left_mono) simp_all
  ultimately show ?thesis by (simp add: algebra_simps)
qed

text \<open>A percentile lies between the shortest and the longest duration.\<close>

lemma percentile_bounds:
  assumes "values \<noteq> []" "0 \<le> percentile" "percentile \<le> 100"
  shows "Min (set values) \<le> percentile_of values percentile \<and> percentile_of values percentile \<le> Max (set values)"
proof -
  define xs where "xs = sort values"
  define k where "k = of_nat (length xs - 1) * (percentile / 100)"
  define i where "i = nat \<lfloor>k\<rfloor>"
  define j where "j = min (i + 1) (length xs - 1)"
  have "xs \<noteq> []" using assms(1) by (metis length_0_conv length_sort xs_def)
  then have n: "0 < length xs" by simp
  have "0 \<le> k" using assms(2) by (simp add: k_def)
  have "k \<le> of_nat (length xs - 1) * 1" unfolding k_def using assms(3) by (intro mult_left_mono) simp_all
  then have "\<lfloor>k\<rfloor> \<le> int (length xs - 1)" by (simp add: floor_le_iff)
  then have "i \<le> length xs - 1" by (simp add: i_def nat_le_iff)
  then have ij: "i \<le> j" "j < length xs" using n unfolding j_def by linarith+
  have floor: "of_nat i = (of_int \<lfloor>k\<rfloor> :: rat)" using \<open>0 \<le> k\<close> by (simp add: i_def)
  then have "0 \<le> k - of_nat i" "k - of_nat i \<le> 1" by linarith+
  note bounds = sorted_interpolation [OF _ ij this]
  have interpolated: "percentile_of values percentile = (1 - (k - of_nat i)) * xs ! i + (k - of_nat i) * xs ! j"
    using assms(1) by (simp add: percentile_of_def Let_def xs_def k_def i_def j_def)
  have "xs ! i \<in> set values" "xs ! j \<in> set values"
    using ij nth_mem [of _ xs] by (simp_all add: xs_def)
  then have "Min (set values) \<le> xs ! i" "xs ! j \<le> Max (set values)" by simp_all
  with bounds interpolated show ?thesis by (simp add: xs_def)
qed

section \<open>The command and the endpoint\<close>

lemma with_acl_bnd:
  "bnd (on_db (create_acl_entry i sty sid rty rid a e)) f w = f (db_next_id (w_db w))
     (w\<lparr>w_db := snd (create_acl_entry i sty sid rty rid a e (w_db w))\<rparr>)"
  by (simp add: create_acl_entry_def bnd_def on_db_def)

lemma acl_add_tables:
  assumes "acl_add payload k w = (Inr out, w')"
  obtains t db where "tenant_get_or_create k (w_db w) = (Inr t, db)" "out = acl_result (db_next_id db) k"
    "w_db w' = snd (create_acl_entry (tr_id t) (lp_subject_type payload) (lp_subject_id payload) (lp_resource_type payload)
       (lp_resource_id payload) (lp_action payload) (lp_effect payload) db)"
proof -
  from assms obtain t w1 where t: "tp_get_or_create world_tenants k w = (Inr t, w1)"
    by (auto simp: acl_add_def bnd_Inr_iff)
  then obtain db where db: "tenant_get_or_create k (w_db w) = (Inr t, db)" "w_db w1 = db"
    by (auto simp: world_tenants_def on_db_def split: prod.splits)
  let ?db = "snd (create_acl_entry (tr_id t) (lp_subject_type payload) (lp_subject_id payload) (lp_resource_type payload)
      (lp_resource_id payload) (lp_action payload) (lp_effect payload) db)"
  let ?rest = "\<lambda>i. bnd (acl_cache_invalidate world_cache (tr_id t) (lp_resource_type payload) (lp_resource_id payload)) (\<lambda>_.
      bnd (index_cache_invalidate_tenant world_cache (tr_id t)) (\<lambda>_. bnd (bump_namespace world_cache k) (\<lambda>_. ret (acl_result i k))))"
  have rest: "?rest (db_next_id db) (w1\<lparr>w_db := ?db\<rparr>) = (Inr out, w')"
    using assms by (simp add: acl_add_def t with_acl_bnd db(2))
  have "preserves (of_world (\<lambda>db. db = ?db)) (?rest i)" for i
    by (intro preserves_rules caches_preserve)
  from preserves_run [OF this _ rest] have "w_db w' = ?db" by simp
  moreover have "out = acl_result (db_next_id db) k" using rest by (auto simp: bnd_Inr_iff)
  ultimately show ?thesis using that db(1) by blast
qed

lemma get_or_create_again:
  assumes "tenant_get_or_create k db = (Inr t, db')" "db_tenants db'' = db_tenants db'"
  shows "tr_key t = k \<and> tenant_get_or_create k db'' = (Inr t, db'')"
proof (cases "find (\<lambda>t. tr_key t = k) (db_tenants db)")
  case None
  with assms show ?thesis by (auto simp: tenant_get_or_create_def new_tenant_def Let_def find_snoc)
next
  case (Some t')
  then have "tr_key t' = k" by (auto simp: find_Some_iff)
  with Some assms show ?thesis by (auto simp: tenant_get_or_create_def)
qed

lemma site_calls:
  "tenant_for k s = (Inr t, s') \<longleftrightarrow> (\<exists>db. tenant_get_or_create k (w_db (st_world s)) = (Inr t, db)
     \<and> s' = s\<lparr>st_world := (st_world s)\<lparr>w_db := db\<rparr>\<rparr>)"
  by (auto simp: tenant_for_def site_tenants_def world_tenants_def on_world_def on_db_def split: prod.splits)

lemma tenant_changed_tables:
  assumes "tenant_changed k s = (Inr u, s')" "tenant_get_or_create k (w_db (st_world s)) = (Inr t, w_db (st_world s))"
  shows "w_db (st_world s') = snd (tenant_bump_revision t (w_db (st_world s)))"
proof -
  let ?db = "w_db (st_world s)"
  from assms(1) obtain n s1 where ns: "on_world (bump_namespace world_cache k) s = (Inr n, s1)"
    and rev: "bnd (bump_revision site_tenants k) (\<lambda>_. ret ()) s1 = (Inr u, s')"
    by (auto simp: tenant_changed_def bnd_Inr_iff)
  have "preserves (of_site (\<lambda>db. db = ?db)) (on_world (bump_namespace world_cache k))"
    by (intro on_world_preserves caches_preserve)
  from preserves_run [OF this _ ns] have "w_db (st_world s1) = ?db" by simp
  with rev assms(2) show ?thesis
    by (auto simp: bump_revision_def site_tenants_def world_tenants_def on_world_def on_db_def bnd_Inr_iff
        split: prod.splits)
qed

lemma create_acl_tables:
  assumes "create_acl request access payload s = (Inr doc, s')"
  obtains t db where "tenant_get_or_create (aa_tenant_key access) (w_db (st_world s)) = (Inr t, db)"
    "w_db (st_world s') = snd (tenant_bump_revision t (snd (create_acl_entry (tr_id t) (lp_subject_type payload)
       (lp_subject_id payload) (lp_resource_type payload) (lp_resource_id payload) (lp_action payload) (lp_effect payload) db)))"
proof -
  from assms obtain t s0 where "tenant_for (aa_tenant_key access) s = (Inr t, s0)"
    by (auto simp: create_acl_def bnd_Inr_iff)
  then obtain db where db: "tenant_get_or_create (aa_tenant_key access) (w_db (st_world s)) = (Inr t, db)"
    and t: "tenant_for (aa_tenant_key access) s = (Inr t, s\<lparr>st_world := (st_world s)\<lparr>w_db := db\<rparr>\<rparr>)"
    by (auto simp: site_calls)
  let ?db = "snd (create_acl_entry (tr_id t) (lp_subject_type payload) (lp_subject_id payload) (lp_resource_type payload)
      (lp_resource_id payload) (lp_action payload) (lp_effect payload) db)"
  let ?s = "s\<lparr>st_world := (st_world s)\<lparr>w_db := ?db\<rparr>\<rparr>"
  have unguarded: "m w = (Inr x, w')" if "sql_guarded m w = (Inr x, w')" for m :: "(site, 'b) eff" and w w' x
    using that by (auto simp: sql_guarded_def catch_def split: prod.splits sum.splits if_splits)
  from assms obtain u v s1 s2 where change: "invalidate_resource site_index (tr_id t) (lp_resource_type payload)
        (lp_resource_id payload) ?s = (Inr u, s1)" "tenant_changed (tr_key t) s1 = (Inr v, s2)" "s' = s2"
    by (auto simp: create_acl_def t bnd_Inr_iff on_world_def on_db_def create_acl_entry_def get_acl_entry_def
        split: if_splits prod.splits dest!: unguarded)
  have "preserves (of_site (\<lambda>db. db = ?db)) (invalidate_resource site_index (tr_id t) (lp_resource_type payload)
      (lp_resource_id payload))" by (rule index_preserves)
  from preserves_run [OF this _ change(1)] have s1: "w_db (st_world s1) = ?db" by simp
  have "db_tenants ?db = db_tenants db" by (simp add: create_acl_entry_def)
  from get_or_create_again [OF db this] tenant_changed_tables [OF change(2)] s1 change(3)
  have "w_db (st_world s') = snd (tenant_bump_revision t ?db)" by simp
  with db that show ?thesis by blast
qed

text \<open>
  C29. The command and the endpoint agree: adding an entry with \<open>acl add\<close> and with \<open>POST /acl\<close> leaves the
  same tables, the new entry included, except that the endpoint also advances the revision of the
  tenant.
\<close>

theorem acl_command_agrees:
  assumes "acl_add payload (aa_tenant_key access) (st_world s) = (Inr out, w1)"
    and "create_acl request access payload s = (Inr doc, s2)"
  shows "\<exists>t. tenant_get_or_create (aa_tenant_key access) (w_db w1) = (Inr t, w_db w1)
    \<and> w_db (st_world s2) = snd (tenant_bump_revision t (w_db w1))"
proof -
  from create_acl_tables [OF assms(2)] obtain t db where route:
    "tenant_get_or_create (aa_tenant_key access) (w_db (st_world s)) = (Inr t, db)"
    "w_db (st_world s2) = snd (tenant_bump_revision t (snd (create_acl_entry (tr_id t) (lp_subject_type payload)
       (lp_subject_id payload) (lp_resource_type payload) (lp_resource_id payload) (lp_action payload) (lp_effect payload) db)))"
    by blast
  from acl_add_tables [OF assms(1)] route(1) have w1: "w_db w1 = snd (create_acl_entry (tr_id t) (lp_subject_type payload)
       (lp_subject_id payload) (lp_resource_type payload) (lp_resource_id payload) (lp_action payload) (lp_effect payload) db)"
    by (metis Pair_inject sum.inject(2))
  then have "db_tenants (w_db w1) = db_tenants db" by (simp add: create_acl_entry_def)
  from get_or_create_again [OF route(1) this] route(2) w1 show ?thesis by metis
qed

definition demo_acl :: acl_payload where
  "demo_acl = \<lparr>lp_subject_type = ''user'', lp_subject_id = ''ann'', lp_resource_type = ''doc'', lp_resource_id = ''1'',
     lp_action = ''read'', lp_effect = ''allow''\<rparr>"

theorem acl_command_agrees_witness:
  "\<exists>t. tenant_get_or_create ''acme'' (w_db (snd (acl_add demo_acl ''acme'' empty_world)))
      = (Inr t, w_db (snd (acl_add demo_acl ''acme'' empty_world)))
    \<and> w_db (st_world (snd (create_acl demo_call demo_access demo_acl empty_site)))
      = snd (tenant_bump_revision t (w_db (snd (acl_add demo_acl ''acme'' empty_world))))"
proof -
  have "\<exists>out w1. acl_add demo_acl ''acme'' empty_world = (Inr out, w1) \<and> True" by (rule exists_Inr) code_simp
  moreover have "\<exists>doc s2. create_acl demo_call demo_access demo_acl empty_site = (Inr doc, s2) \<and> True"
    by (rule exists_Inr) code_simp
  ultimately obtain out w1 doc s2 where runs: "acl_add demo_acl ''acme'' empty_world = (Inr out, w1)"
    "create_acl demo_call demo_access demo_acl empty_site = (Inr doc, s2)" by blast
  have "aa_tenant_key demo_access = ''acme''" "st_world empty_site = empty_world"
    by (simp_all add: demo_access_def empty_site_def)
  with acl_command_agrees [of demo_acl demo_access empty_site out w1 demo_call doc s2] runs show ?thesis by simp
qed

text \<open>The command does not look at the effect; the endpoint refuses any but the two.\<close>

lemma acl_add_any_effect:
  "\<exists>out w. acl_add (demo_acl\<lparr>lp_effect := ''maybe''\<rparr>) ''acme'' empty_world = (Inr out, w)"
  "\<exists>e s. create_acl demo_call demo_access (demo_acl\<lparr>lp_effect := ''maybe''\<rparr>) empty_site = (Inl e, s)"
proof -
  have "\<exists>out w. acl_add (demo_acl\<lparr>lp_effect := ''maybe''\<rparr>) ''acme'' empty_world = (Inr out, w) \<and> True"
    by (rule exists_Inr) code_simp
  then show "\<exists>out w. acl_add (demo_acl\<lparr>lp_effect := ''maybe''\<rparr>) ''acme'' empty_world = (Inr out, w)" by blast
  show "\<exists>e s. create_acl demo_call demo_access (demo_acl\<lparr>lp_effect := ''maybe''\<rparr>) empty_site = (Inl e, s)"
    by (simp add: create_acl_def bnd_def tenant_for_def site_tenants_def world_tenants_def on_world_def on_db_def
        demo_access_def demo_acl_def empty_site_def empty_world_def empty_database_def tenant_get_or_create_def Let_def)
qed

text \<open>The command explains without the authorization models of the tenants.\<close>

lemma explain_without_models: "as_get_model (cli_service env) = None"
  by (simp add: cli_service_def)

end
