(* ===== verification/Metrics.thy ===== *)
theory Metrics
  imports Complex_Main Prelude
begin

text \<open>
  The metrics (\<open>observability/metrics.py\<close>, \<open>observability/http_metrics.py\<close>). A registry is the list of
  the samples so far: \<open>labels(..).inc()\<close> appends one to a counter, \<open>labels(..).observe(v)\<close> one with its
  value to a histogram. With \<open>prometheus_client\<close> missing nothing is recorded (\<open>None\<close>). Values are exact
  rationals; what the program never reads back is left at that.
\<close>

section \<open>The registry\<close>

record sample =
  sm_metric :: string
  sm_labels :: "string dict"
  sm_value :: "rat option"

type_synonym registry = "sample list option"

definition inc :: "string \<Rightarrow> string dict \<Rightarrow> registry \<Rightarrow> registry" where
  "inc metric labels r =
     map_option (\<lambda>samples. samples @ [\<lparr>sm_metric = metric, sm_labels = labels, sm_value = None\<rparr>]) r"

definition observe :: "string \<Rightarrow> string dict \<Rightarrow> rat \<Rightarrow> registry \<Rightarrow> registry" where
  "observe metric labels v r =
     map_option (\<lambda>samples. samples @ [\<lparr>sm_metric = metric, sm_labels = labels, sm_value = Some v\<rparr>]) r"

text \<open>What a scrape reports for a counter.\<close>

definition counted :: "string \<Rightarrow> string dict \<Rightarrow> sample list \<Rightarrow> nat" where
  "counted metric labels samples = length (filter (\<lambda>s. sm_metric s = metric \<and> sm_labels s = labels) samples)"

section \<open>Labels\<close>

definition text_or :: "string option \<Rightarrow> string \<Rightarrow> string" where
  "text_or v d = (case v of None \<Rightarrow> d | Some s \<Rightarrow> if s = [] then d else s)"

definition filled :: "string \<Rightarrow> string \<Rightarrow> string" where
  "filled s d = (if s = [] then d else s)"

definition tenant_label :: "string option \<Rightarrow> string" where
  "tenant_label tenant = filled (strip (text_or tenant ''default'')) ''default''"

definition cache_types :: "string list" where
  "cache_types = [''policy'', ''acl'', ''relationship'', ''access_index'', ''decision'']"

definition cache_type_label :: "string \<Rightarrow> string" where
  "cache_type_label cache_type = (let v = lower (strip (filled cache_type ''unknown'')) in
     if v \<in> set cache_types then v else ''unknown'')"

section \<open>Recording\<close>

definition record_access_check :: "string option \<Rightarrow> string \<Rightarrow> registry \<Rightarrow> registry" where
  "record_access_check tenant decision =
     inc ''keynetra_access_checks_total'' [(''tenant'', tenant_label tenant), (''decision'', decision)]"

definition record_acl_match :: "string option \<Rightarrow> registry \<Rightarrow> registry" where
  "record_acl_match tenant = inc ''keynetra_acl_matches_total'' [(''tenant'', tenant_label tenant)]"

definition record_policy_evaluation :: "string option \<Rightarrow> registry \<Rightarrow> registry" where
  "record_policy_evaluation tenant = inc ''keynetra_policy_evaluations_total'' [(''tenant'', tenant_label tenant)]"

definition record_relationship_traversal :: "string option \<Rightarrow> registry \<Rightarrow> registry" where
  "record_relationship_traversal tenant = inc ''keynetra_relationship_traversals_total'' [(''tenant'', tenant_label tenant)]"

definition record_policy_compilation :: "string option \<Rightarrow> registry \<Rightarrow> registry" where
  "record_policy_compilation tenant = inc ''keynetra_policy_compilations_total'' [(''tenant'', tenant_label tenant)]"

definition record_revision_update :: "string option \<Rightarrow> registry \<Rightarrow> registry" where
  "record_revision_update tenant = inc ''keynetra_revision_updates_total'' [(''tenant'', tenant_label tenant)]"

definition observe_access_check_latency :: "string option \<Rightarrow> string \<Rightarrow> rat \<Rightarrow> registry \<Rightarrow> registry" where
  "observe_access_check_latency tenant stage v =
     observe ''keynetra_access_check_latency_seconds'' [(''tenant'', tenant_label tenant), (''stage'', stage)] v"

definition record_cache_hit :: "string \<Rightarrow> registry \<Rightarrow> registry" where
  "record_cache_hit cache_type = inc ''keynetra_cache_hits_total'' [(''cache_type'', cache_type_label cache_type)]"

definition record_cache_miss :: "string \<Rightarrow> registry \<Rightarrow> registry" where
  "record_cache_miss cache_type = inc ''keynetra_cache_misses_total'' [(''cache_type'', cache_type_label cache_type)]"

definition record_cache_event :: "string \<Rightarrow> string \<Rightarrow> registry \<Rightarrow> registry" where
  "record_cache_event cache_name outcome r =
     (let cache = cache_type_label cache_name;
          outcome_label = lower (strip outcome);
          r1 = inc ''keynetra_cache_events_total'' [(''cache_name'', cache), (''outcome'', filled outcome_label ''miss'')] r
      in if cache = ''unknown'' then r1
         else let r2 = (if outcome_label = ''hit'' then record_cache_hit cache r1 else record_cache_miss cache r1)
              in if outcome_label = ''fallback'' then inc ''keynetra_cache_fallback_total'' [(''cache_name'', cache)] r2
                 else r2)"

definition observe_decision_latency :: "string \<Rightarrow> rat \<Rightarrow> registry \<Rightarrow> registry" where
  "observe_decision_latency tenant_key v = observe ''keynetra_decision_latency_seconds'' [(''tenant_key'', tenant_key)] v"

definition record_api_error :: "string \<Rightarrow> registry \<Rightarrow> registry" where
  "record_api_error error_code = inc ''keynetra_api_errors_total'' [(''code'', error_code)]"

definition record_bootstrap_failure :: "string \<Rightarrow> registry \<Rightarrow> registry" where
  "record_bootstrap_failure stage = inc ''keynetra_bootstrap_failures_total'' [(''stage'', stage)]"

definition record_auth_failure :: "string \<Rightarrow> registry \<Rightarrow> registry" where
  "record_auth_failure reason = inc ''keynetra_auth_failures_total'' [(''reason'', reason)]"

definition record_jwks_fetch :: "string \<Rightarrow> registry \<Rightarrow> registry" where
  "record_jwks_fetch outcome = inc ''keynetra_jwks_fetch_total'' [(''outcome'', outcome)]"

definition record_access_index_rebuild :: "string \<Rightarrow> registry \<Rightarrow> registry" where
  "record_access_index_rebuild mode = inc ''keynetra_access_index_rebuilds_total'' [(''mode'', mode)]"

definition observe_db_query_latency :: "string \<Rightarrow> rat \<Rightarrow> registry \<Rightarrow> registry" where
  "observe_db_query_latency operation v =
     observe ''keynetra_db_query_latency_seconds'' [(''operation'', filled operation ''unknown'')] (max 0 v)"

definition record_http_request :: "string \<Rightarrow> string \<Rightarrow> string \<Rightarrow> int \<Rightarrow> rat \<Rightarrow> registry \<Rightarrow> registry" where
  "record_http_request tenant endpoint_path method status duration_seconds r =
     (let labels = [(''tenant'', filled (strip (filled tenant ''unknown'')) ''unknown''),
            (''endpoint'', filled (strip (filled endpoint_path ''/'')) ''/''),
            (''method'', filled (upper_ascii (strip (filled method ''GET''))) ''GET''), (''status'', int_str status)]
      in observe ''keynetra_http_request_duration_seconds'' labels (max 0 duration_seconds)
           (inc ''keynetra_http_requests_total'' labels r))"

section \<open>Every event of a cache is a hit or a miss\<close>

definition hits :: "string \<Rightarrow> sample list \<Rightarrow> nat" where
  "hits cache = counted ''keynetra_cache_hits_total'' [(''cache_type'', cache)]"

definition misses :: "string \<Rightarrow> sample list \<Rightarrow> nat" where
  "misses cache = counted ''keynetra_cache_misses_total'' [(''cache_type'', cache)]"

definition fallbacks :: "string \<Rightarrow> sample list \<Rightarrow> nat" where
  "fallbacks cache = counted ''keynetra_cache_fallback_total'' [(''cache_name'', cache)]"

definition record_events :: "(string \<times> string) list \<Rightarrow> registry \<Rightarrow> registry" where
  "record_events = fold (\<lambda>(cache_name, outcome). record_cache_event cache_name outcome)"

lemma cache_type_label_fixed: "c \<in> set cache_types \<Longrightarrow> cache_type_label c = c"
  "cache_type_label s = ''unknown'' \<or> cache_type_label s \<in> set cache_types" "''unknown'' \<notin> set cache_types"
proof -
  have "list_all (\<lambda>c. cache_type_label c = c) cache_types" by code_simp
  then show "c \<in> set cache_types \<Longrightarrow> cache_type_label c = c" by (simp add: list_all_iff)
  show "cache_type_label s = ''unknown'' \<or> cache_type_label s \<in> set cache_types" by (simp add: cache_type_label_def Let_def)
  show "''unknown'' \<notin> set cache_types" by (simp add: cache_types_def)
qed

text \<open>The samples of one event.\<close>

definition plain_sample :: "string \<Rightarrow> string dict \<Rightarrow> sample" where
  "plain_sample metric labels = \<lparr>sm_metric = metric, sm_labels = labels, sm_value = None\<rparr>"

definition event_samples :: "string \<Rightarrow> string \<Rightarrow> sample list" where
  "event_samples cache outcome =
     plain_sample ''keynetra_cache_events_total'' [(''cache_name'', cache), (''outcome'', filled outcome ''miss'')]
     # (if cache = ''unknown'' then []
        else plain_sample (if outcome = ''hit'' then ''keynetra_cache_hits_total'' else ''keynetra_cache_misses_total'')
               [(''cache_type'', cache)]
          # (if outcome = ''fallback'' then [plain_sample ''keynetra_cache_fallback_total'' [(''cache_name'', cache)]] else []))"

lemma inc_some: "inc m l (Some ss) = Some (ss @ [plain_sample m l])"
  by (simp add: inc_def plain_sample_def)

lemma record_cache_event_samples:
  "record_cache_event cache_name outcome (Some ss)
     = Some (ss @ event_samples (cache_type_label cache_name) (lower (strip outcome)))"
proof -
  have "cache_type_label (cache_type_label cache_name) = cache_type_label cache_name"
    if "cache_type_label cache_name \<noteq> ''unknown''" using that cache_type_label_fixed(1,2) by blast
  then show ?thesis
    by (simp add: record_cache_event_def record_cache_hit_def record_cache_miss_def inc_some event_samples_def Let_def)
qed

lemma counted_append: "counted m l (ss @ ts) = counted m l ss + counted m l ts"
  by (simp add: counted_def)

lemma counted_simps [simp]:
  "counted m l [] = 0"
  "counted m l (plain_sample m' l' # ss) = (if m' = m \<and> l' = l then 1 else 0) + counted m l ss"
  by (simp_all add: counted_def plain_sample_def)

lemma event_counts:
  assumes "c \<in> set cache_types"
  shows "hits c (event_samples n outcome) = (if n = c \<and> outcome = ''hit'' then 1 else 0)"
    "misses c (event_samples n outcome) = (if n = c \<and> outcome \<noteq> ''hit'' then 1 else 0)"
    "fallbacks c (event_samples n outcome) = (if n = c \<and> outcome = ''fallback'' then 1 else 0)"
proof -
  have c: "c \<noteq> ''unknown''" using assms cache_type_label_fixed(3) by metis
  show "hits c (event_samples n outcome) = (if n = c \<and> outcome = ''hit'' then 1 else 0)"
    using c by (simp add: hits_def event_samples_def)
  show "misses c (event_samples n outcome) = (if n = c \<and> outcome \<noteq> ''hit'' then 1 else 0)"
    using c by (cases "n = c"; cases "outcome = ''hit''"; simp add: misses_def event_samples_def)
  show "fallbacks c (event_samples n outcome) = (if n = c \<and> outcome = ''fallback'' then 1 else 0)"
    using c by (cases "n = c"; cases "outcome = ''hit''"; cases "outcome = ''fallback''"; simp add: fallbacks_def event_samples_def)
qed

lemma one_event:
  assumes "record_cache_event cache_name outcome (Some ss) = Some ss'" "c \<in> set cache_types"
  shows "hits c ss' = hits c ss + (if cache_type_label cache_name = c \<and> lower (strip outcome) = ''hit'' then 1 else 0)"
    "misses c ss' = misses c ss + (if cache_type_label cache_name = c \<and> lower (strip outcome) \<noteq> ''hit'' then 1 else 0)"
    "fallbacks c ss' = fallbacks c ss + (if cache_type_label cache_name = c \<and> lower (strip outcome) = ''fallback'' then 1 else 0)"
  using assms(1) event_counts [OF assms(2), of "cache_type_label cache_name" "lower (strip outcome)"]
  by (auto simp: record_cache_event_samples hits_def misses_def fallbacks_def counted_append)

text \<open>
  For each of the five caches the hits and misses add up to the events recorded for it, whatever the
  outcomes are called, and a fallback is counted as a miss too.
\<close>

lemma cache_events_add_up:
  assumes "record_events es (Some ss) = Some ss'" "c \<in> set cache_types"
  shows "hits c ss' + misses c ss' = hits c ss + misses c ss + length (filter (\<lambda>(n, _). cache_type_label n = c) es)
    \<and> fallbacks c ss' + misses c ss \<le> fallbacks c ss + misses c ss'"
  using assms(1)
proof (induction es arbitrary: ss)
  case Nil
  then show ?case by (simp add: record_events_def)
next
  case (Cons e es)
  obtain n outcome where e: "e = (n, outcome)" by fastforce
  obtain ss1 where one: "record_cache_event n outcome (Some ss) = Some ss1"
    by (simp add: record_cache_event_samples)
  have "record_events es (Some ss1) = Some ss'" using Cons.prems by (simp add: record_events_def e one)
  note rest = Cons.IH [OF this]
  have "''fallback'' \<noteq> ''hit''" by simp
  then show ?case using rest one_event [OF one assms(2)] by (auto simp: e split: if_splits)
qed

lemma nothing_recorded: "record_events es None = None"
  by (induction es) (auto simp: record_events_def record_cache_event_def record_cache_hit_def record_cache_miss_def inc_def Let_def)

section \<open>Every sample is one its metric declares\<close>

text \<open>
  The declarations at the head of the two modules: the kind of each metric and its label names. A call of
  \<open>labels\<close> with other names raises in \<open>prometheus_client\<close>, and only a histogram observes values.
\<close>

datatype metric_kind = Counter | Histogram

definition core_metrics :: "(string \<times> metric_kind \<times> string list) list" where
  "core_metrics = [
     (''keynetra_access_checks_total'', Counter, [''tenant'', ''decision'']),
     (''keynetra_acl_matches_total'', Counter, [''tenant'']),
     (''keynetra_policy_evaluations_total'', Counter, [''tenant'']),
     (''keynetra_relationship_traversals_total'', Counter, [''tenant'']),
     (''keynetra_policy_compilations_total'', Counter, [''tenant'']),
     (''keynetra_revision_updates_total'', Counter, [''tenant'']),
     (''keynetra_access_check_latency_seconds'', Histogram, [''tenant'', ''stage'']),
     (''keynetra_cache_hits_total'', Counter, [''cache_type'']),
     (''keynetra_cache_misses_total'', Counter, [''cache_type'']),
     (''keynetra_decision_latency_seconds'', Histogram, [''tenant_key'']),
     (''keynetra_cache_events_total'', Counter, [''cache_name'', ''outcome'']),
     (''keynetra_api_errors_total'', Counter, [''code'']),
     (''keynetra_bootstrap_failures_total'', Counter, [''stage'']),
     (''keynetra_cache_fallback_total'', Counter, [''cache_name'']),
     (''keynetra_auth_failures_total'', Counter, [''reason'']),
     (''keynetra_jwks_fetch_total'', Counter, [''outcome'']),
     (''keynetra_access_index_rebuilds_total'', Counter, [''mode'']),
     (''keynetra_db_query_latency_seconds'', Histogram, [''operation''])]"

definition http_metrics :: "(string \<times> metric_kind \<times> string list) list" where
  "http_metrics = [
     (''keynetra_http_requests_total'', Counter, [''tenant'', ''endpoint'', ''method'', ''status'']),
     (''keynetra_http_request_duration_seconds'', Histogram, [''tenant'', ''endpoint'', ''method'', ''status''])]"

definition sample_ok :: "sample \<Rightarrow> bool" where
  "sample_ok s = ((case dget (core_metrics @ http_metrics) (sm_metric s) of
     None \<Rightarrow> False
   | Some (kind, names) \<Rightarrow> map fst (sm_labels s) = names \<and> (sm_value s = None \<longleftrightarrow> kind = Counter))
     \<and> (sm_metric s \<in> {''keynetra_db_query_latency_seconds'', ''keynetra_http_request_duration_seconds''} \<longrightarrow>
        0 \<le> the (sm_value s)))"

text \<open>The calls the program makes.\<close>

datatype recording =
    AccessCheck "string option" string
  | AclMatch "string option"
  | PolicyEvaluation "string option"
  | RelationshipTraversal "string option"
  | PolicyCompilation "string option"
  | RevisionUpdate "string option"
  | StageLatency "string option" string rat
  | CacheHit string
  | CacheMiss string
  | CacheEvent string string
  | DecisionLatency string rat
  | ApiErrorSeen string
  | BootstrapFailure string
  | AuthFailure string
  | JwksFetch string
  | IndexRebuild string
  | QueryLatency string rat
  | HttpRequest string string string int rat

fun record_call :: "recording \<Rightarrow> registry \<Rightarrow> registry" where
  "record_call (AccessCheck tenant d) = record_access_check tenant d"
| "record_call (AclMatch tenant) = record_acl_match tenant"
| "record_call (PolicyEvaluation tenant) = record_policy_evaluation tenant"
| "record_call (RelationshipTraversal tenant) = record_relationship_traversal tenant"
| "record_call (PolicyCompilation tenant) = record_policy_compilation tenant"
| "record_call (RevisionUpdate tenant) = record_revision_update tenant"
| "record_call (StageLatency tenant stage v) = observe_access_check_latency tenant stage v"
| "record_call (CacheHit c) = record_cache_hit c"
| "record_call (CacheMiss c) = record_cache_miss c"
| "record_call (CacheEvent c outcome) = record_cache_event c outcome"
| "record_call (DecisionLatency tenant v) = observe_decision_latency tenant v"
| "record_call (ApiErrorSeen c) = record_api_error c"
| "record_call (BootstrapFailure stage) = record_bootstrap_failure stage"
| "record_call (AuthFailure reason) = record_auth_failure reason"
| "record_call (JwksFetch outcome) = record_jwks_fetch outcome"
| "record_call (IndexRebuild mode) = record_access_index_rebuild mode"
| "record_call (QueryLatency operation v) = observe_db_query_latency operation v"
| "record_call (HttpRequest tenant path m status v) = record_http_request tenant path m status v"

definition registry_ok :: "registry \<Rightarrow> bool" where
  "registry_ok r = (case r of None \<Rightarrow> True | Some samples \<Rightarrow> list_all sample_ok samples)"

lemma registry_ok_sample [simp]:
  "registry_ok (inc metric labels r) \<longleftrightarrow> registry_ok r \<and> (r \<noteq> None \<longrightarrow> sample_ok \<lparr>sm_metric = metric, sm_labels = labels, sm_value = None\<rparr>)"
  "registry_ok (observe metric labels v r) \<longleftrightarrow> registry_ok r \<and> (r \<noteq> None \<longrightarrow> sample_ok \<lparr>sm_metric = metric, sm_labels = labels, sm_value = Some v\<rparr>)"
  by (auto simp: registry_ok_def inc_def observe_def split: option.split)

lemmas recording_defs = record_access_check_def record_acl_match_def record_policy_evaluation_def
  record_relationship_traversal_def record_policy_compilation_def record_revision_update_def
  observe_access_check_latency_def record_cache_hit_def record_cache_miss_def observe_decision_latency_def
  record_api_error_def record_bootstrap_failure_def record_auth_failure_def record_jwks_fetch_def
  record_access_index_rebuild_def observe_db_query_latency_def

lemma record_call_ok: "registry_ok r \<Longrightarrow> registry_ok (record_call c r)"
proof (cases c)
  case (CacheEvent c' outcome)
  then show "registry_ok r \<Longrightarrow> registry_ok (record_call c r)"
    by (simp add: record_cache_event_def Let_def recording_defs sample_ok_def core_metrics_def)
next
  case (HttpRequest tenant path m status v)
  then show "registry_ok r \<Longrightarrow> registry_ok (record_call c r)"
    by (simp add: record_http_request_def Let_def sample_ok_def core_metrics_def http_metrics_def)
qed (simp_all add: recording_defs sample_ok_def core_metrics_def)

lemma core_metrics_distinct: "distinct (map fst (core_metrics @ http_metrics))"
  by code_simp

text \<open>
  Whatever is recorded, in any order: every sample belongs to a declared metric, carries exactly its
  label names in their order, and has a value exactly for a histogram, which is never negative for the
  durations of queries and HTTP requests; so no recording call can be refused
  by the metrics library for its labels.
\<close>

lemma samples_conform:
  "list_all sample_ok (case fold record_call calls (Some []) of None \<Rightarrow> [] | Some samples \<Rightarrow> samples)"
proof -
  have "registry_ok r \<Longrightarrow> registry_ok (fold record_call calls r)" for r
    by (induction calls arbitrary: r) (simp_all add: record_call_ok)
  from this [of "Some []"] show ?thesis by (auto simp: registry_ok_def split: option.splits)
qed

end
