(* ===== verification/Logging.thy ===== *)
theory Logging
  imports Middleware Metrics
begin

text \<open>
  The log (\<open>infrastructure/logging.py\<close>) and who writes to it around a request: the request id with its
  correlation id, the version and error handlers, the request log of \<open>api/middleware/logging.py\<close> and the
  failed authentications of \<open>config/security.py\<close>. A line is the dictionary the formatter renders; the
  time, the durations and the traceback are parameters. \<open>Middleware\<close> describes the same layers without
  their log, and the theorem below says that nothing else differs.
\<close>

section \<open>Records and their format\<close>

text \<open>The message of a record is a dictionary, or anything else, which is rendered as a text.\<close>

record log_record =
  lr_msg :: "pydict + string"
  lr_level :: string
  lr_logger :: string

definition set_default :: "string \<Rightarrow> pyval \<Rightarrow> pydict \<Rightarrow> pydict" where
  "set_default k v d = (if dget d k = None then d @ [(k, v)] else d)"

definition format_record :: "string \<Rightarrow> log_record \<Rightarrow> pydict" where
  "format_record now r = set_default ''logger'' (PStr (lr_logger r)) (set_default ''level'' (PStr (lr_level r))
     (set_default ''timestamp'' (PStr now) (case lr_msg r of Inl d \<Rightarrow> d | Inr message \<Rightarrow> [(''message'', PStr message)])))"

lemma dget_set_default [simp]:
  "dget (set_default k v d) k' = (if k' = k then Some (case dget d k of None \<Rightarrow> v | Some u \<Rightarrow> u) else dget d k')"
  by (auto simp: set_default_def map_add_def split: option.splits)

lemma distinct_set_default: "distinct (map fst d) \<Longrightarrow> distinct (map fst (set_default k v d))"
  by (auto simp: set_default_def map_of_eq_None_iff)

text \<open>Every line has a time, a level and a logger, and says what the record said.\<close>

lemma format_record_shape:
  "dget (format_record now r) ''timestamp'' \<noteq> None" "dget (format_record now r) ''level'' \<noteq> None"
  "dget (format_record now r) ''logger'' \<noteq> None"
  "lr_msg r = Inl d \<Longrightarrow> dget d k = Some v \<Longrightarrow> dget (format_record now r) k = Some v"
  "lr_msg r = Inr m \<Longrightarrow> dget (format_record now r) ''message'' = Some (PStr m)"
  by (auto simp: format_record_def)

section \<open>The root logger\<close>

datatype log_handler = JsonHandler | RichHandler bool | OtherHandler string

record root_logger =
  rl_handlers :: "log_handler list"
  rl_level :: string
  rl_json :: bool
  rl_rich :: bool

definition json_configured :: "root_logger \<Rightarrow> root_logger" where
  "json_configured lg = lg\<lparr>rl_handlers := [JsonHandler], rl_level := ''INFO'', rl_json := True\<rparr>"

definition force_color :: "string dict \<Rightarrow> bool" where
  "force_color environ = (lower (strip (dget_or environ ''KEYNETRA_FORCE_COLOR'' ''1'')) \<notin> {''0'', ''false'', ''no''})"

text \<open>\<open>rich\<close>: the package of that name is installed.\<close>

definition configure_rich_logging :: "bool \<Rightarrow> string dict \<Rightarrow> root_logger \<Rightarrow> root_logger" where
  "configure_rich_logging rich environ lg =
     (if rl_rich lg then lg
      else if \<not> rich then json_configured lg
      else lg\<lparr>rl_handlers := [RichHandler (force_color environ)], rl_level := ''INFO'', rl_rich := True\<rparr>)"

definition configure_json_logging :: "bool \<Rightarrow> string dict \<Rightarrow> root_logger \<Rightarrow> root_logger" where
  "configure_json_logging rich environ lg =
     (if lower (strip (dget_or environ ''KEYNETRA_LOG_FORMAT'' ''json'')) = ''rich''
      then configure_rich_logging rich environ lg
      else if rl_json lg then lg else json_configured lg)"

lemma configured_once:
  "configure_json_logging rich environ (configure_json_logging rich environ lg) = configure_json_logging rich environ lg"
  by (simp add: configure_json_logging_def configure_rich_logging_def json_configured_def)

lemma one_handler:
  "\<not> rl_json lg \<Longrightarrow> \<not> rl_rich lg \<Longrightarrow> length (rl_handlers (configure_json_logging rich environ lg)) = 1"
  by (simp add: configure_json_logging_def configure_rich_logging_def json_configured_def)

text \<open>The flags are never taken back: once both formats were configured the last one stays.\<close>

lemma format_stays:
  assumes "rl_json lg" "rl_rich lg"
  shows "configure_json_logging rich environ lg = lg"
  using assms by (simp add: configure_json_logging_def configure_rich_logging_def)

section \<open>Events and the correlation id\<close>

text \<open>
  The world with the log of the process, the context variable of the request and what the layers left in
  \<open>request.state\<close>, which they share.
\<close>

record 'w observed =
  ob_rest :: 'w
  ob_request_id :: "string option"
  ob_tenant :: "string option"
  ob_correlation :: "string option"
  ob_lines :: "pydict list"
  ob_metrics :: registry

definition set_correlation_id :: "string option \<Rightarrow> ('w observed, string option) eff" where
  "set_correlation_id i w = (Inr (ob_correlation w), w\<lparr>ob_correlation := i\<rparr>)"

definition reset_correlation_id :: "string option \<Rightarrow> ('w observed, unit) eff" where
  "reset_correlation_id token w = (Inr (), w\<lparr>ob_correlation := token\<rparr>)"

definition log_event :: "string \<Rightarrow> pydict \<Rightarrow> ('w observed, unit) eff" where
  "log_event event named w = (Inr (),
     w\<lparr>ob_lines := ob_lines w @ [set_default ''correlation_id'' (ostr_val (ob_correlation w)) ((''event'', PStr event) # named)]\<rparr>)"

definition recorded :: "(registry \<Rightarrow> registry) \<Rightarrow> ('w observed, unit) eff" where
  "recorded f w = (Inr (), w\<lparr>ob_metrics := f (ob_metrics w)\<rparr>)"

text \<open>\<open>try: m finally: f\<close>\<close>

definition finally_do :: "('w, 'a) eff \<Rightarrow> ('w, unit) eff \<Rightarrow> ('w, 'a) eff" where
  "finally_do m f w = (case m w of (r, w') \<Rightarrow> (case f w' of (Inl e, w'') \<Rightarrow> (Inl e, w'') | (Inr _, w'') \<Rightarrow> (r, w'')))"

section \<open>The layers with their log\<close>

text \<open>A layer hands its state of the request on by the request, and leaves it for the layers around it.\<close>

definition noted :: "'w observed app \<Rightarrow> 'w observed app" where
  "noted app request w = app request (w\<lparr>ob_request_id := rq_id request, ob_tenant := rq_tenant request\<rparr>)"

definition tenant_for_logs :: "string option \<Rightarrow> string" where
  "tenant_for_logs tenant = (case normalize_tenant_key tenant of None \<Rightarrow> ''unknown'' | Some t \<Rightarrow> t)"

definition correlated_dispatch :: "string \<Rightarrow> 'w observed app \<Rightarrow> 'w observed app" where
  "correlated_dispatch new_id call_next request =
     (let request_id = request_id_of new_id request in
      bnd (set_correlation_id (Some request_id)) (\<lambda>token.
        finally_do (bnd (call_next (request\<lparr>rq_id := Some request_id\<rparr>)) (\<lambda>response.
            ret (set_header ''X-Request-Id'' request_id response)))
          (reset_correlation_id token)))"

definition version_fields :: "http_request \<Rightarrow> pydict" where
  "version_fields request = [(''api_version'', PStr (requested_version request)), (''path'', PStr (rq_path request)),
     (''method'', PStr (rq_method request)), (''request_id'', ostr_val (rq_id request)),
     (''tenant_id'', PStr (tenant_for_logs (rq_tenant request)))]"

definition logged_version_dispatch :: "'w observed app \<Rightarrow> 'w observed app" where
  "logged_version_dispatch call_next request = (let v = requested_version request in
     if v \<notin> set supported_versions then ret (unsupported_version_response v)
     else bnd (log_event ''api_version_used'' (version_fields (with_header_tenant request))) (\<lambda>_.
       bnd (call_next (with_header_tenant request)) (\<lambda>response. ret (set_header ''X-API-Version'' v response))))"

definition completed_fields :: "http_request \<Rightarrow> http_response \<Rightarrow> pyval \<Rightarrow> string option \<Rightarrow> string option \<Rightarrow> pydict" where
  "completed_fields request response duration_ms request_id tenant =
     [(''method'', PStr (rq_method request)), (''path'', PStr (rq_path request)), (''status_code'', PInt (rs_status response)),
      (''duration_ms'', duration_ms), (''request_id'', ostr_val request_id), (''tenant_id'', PStr (tenant_for_logs tenant))]"

text \<open>\<open>duration\<close> is the time the call took and \<open>millis\<close> renders it in milliseconds.\<close>

definition request_logging_dispatch :: "rat \<Rightarrow> (rat \<Rightarrow> pyval) \<Rightarrow> 'w observed app \<Rightarrow> 'w observed app" where
  "request_logging_dispatch duration millis call_next request =
     bnd (call_next request) (\<lambda>response w.
       bnd (log_event ''request_completed''
          (completed_fields request response (millis duration) (ob_request_id w) (ob_tenant w))) (\<lambda>_.
       bnd (recorded (record_http_request (tenant_for_logs (ob_tenant w)) (rq_path request) (rq_method request)
          (rs_status response) duration)) (\<lambda>_. ret response)) w)"

definition error_logged :: "http_request \<Rightarrow> exn \<Rightarrow> ('w observed, unit) eff" where
  "error_logged request e = (case e of
     ApiError status c message details \<Rightarrow>
       bnd (recorded (record_api_error (error_code_text c))) (\<lambda>_ w.
         log_event ''api_error'' [(''code'', PStr (error_code_text c)), (''message'', PStr message),
           (''request_id'', ostr_val (rq_id request)), (''tenant_id'', PStr (tenant_for_logs (ob_tenant w)))] w)
   | HTTPException status detail \<Rightarrow> recorded (record_api_error (error_code_text (http_error_code status)))
   | _ \<Rightarrow> ret ())"

definition logged_api_errors :: "'w observed app \<Rightarrow> 'w observed app" where
  "logged_api_errors call_next request =
     catch (call_next request) (\<lambda>e. handled_response e \<noteq> None) (\<lambda>e.
       bnd (error_logged request e) (\<lambda>_. ret (the (handled_response e))))"

text \<open>The outermost handler; \<open>traceback\<close> renders the exception with its calls.\<close>

definition unhandled_logged :: "(exn \<Rightarrow> string) \<Rightarrow> (exn \<Rightarrow> string) \<Rightarrow> exn \<Rightarrow> ('w observed, unit) eff" where
  "unhandled_logged describe traceback e =
     bnd (recorded (record_api_error (error_code_text INTERNAL_ERROR))) (\<lambda>_ w.
       log_event ''unhandled_exception'' [(''request_id'', ostr_val (ob_request_id w)),
         (''tenant_id'', PStr (tenant_for_logs (ob_tenant w))), (''error'', PStr (describe e)),
         (''traceback'', PStr (traceback e))] w)"

definition logged_server_errors :: "settings \<Rightarrow> (exn \<Rightarrow> string) \<Rightarrow> (exn \<Rightarrow> string) \<Rightarrow> 'w observed limited app
    \<Rightarrow> 'w observed limited app" where
  "logged_server_errors s describe traceback call_next request =
     catch_all (call_next request) (\<lambda>e.
       bnd (on_inner (unhandled_logged describe traceback e)) (\<lambda>_. ret (internal_error_response s describe e)))"

text \<open>\<open>_log_failed_auth\<close>\<close>

definition log_failed_auth :: "http_request \<Rightarrow> string \<Rightarrow> string option \<Rightarrow> ('w observed, unit) eff" where
  "log_failed_auth request reason api_key =
     bnd (recorded (record_auth_failure reason)) (\<lambda>_ w.
       log_event ''auth_failed'' [(''reason'', PStr reason), (''path'', PStr (rq_path request)),
         (''method'', PStr (rq_method request)), (''request_id'', ostr_val (rq_id request)),
         (''tenant_id'', PStr (tenant_for_logs (ob_tenant w))), (''client_host'', ostr_val (rq_client request)),
         (''api_key_prefix'', (let p = take 12 (str_or api_key []) in if p = [] then PNone else PStr p))] w)"

text \<open>The layers inside the limiter, as \<open>create_app\<close> adds them: the request log around the version.\<close>

definition logged_stack :: "string \<Rightarrow> rat \<Rightarrow> (rat \<Rightarrow> pyval) \<Rightarrow> 'w observed app \<Rightarrow> 'w observed app" where
  "logged_stack new_id duration millis routes =
     noted (request_logging_dispatch duration millis (logged_version_dispatch (noted (tenant_dispatch (noted
       (correlated_dispatch new_id (noted (logged_api_errors routes))))))))"

section \<open>What the log says of a request\<close>

lemma observed_calls [simp]:
  "set_correlation_id i w = (Inr (ob_correlation w), w\<lparr>ob_correlation := i\<rparr>)"
  "reset_correlation_id token w = (Inr (), w\<lparr>ob_correlation := token\<rparr>)"
  "recorded f w = (Inr (), w\<lparr>ob_metrics := f (ob_metrics w)\<rparr>)"
  by (simp_all add: set_correlation_id_def reset_correlation_id_def recorded_def)

lemma log_event_run [simp]:
  "log_event event named w = (Inr (),
     w\<lparr>ob_lines := ob_lines w @ [set_default ''correlation_id'' (ostr_val (ob_correlation w)) ((''event'', PStr event) # named)]\<rparr>)"
  by (simp add: log_event_def)

text \<open>
  Routes that log as the program does: through \<open>log_event\<close> alone, so that every line carries the
  correlation id of the moment, and whose answers the log does not change (\<open>plain\<close>).
\<close>

definition logs_told :: "'w observed app \<Rightarrow> 'w app \<Rightarrow> bool" where
  "logs_told routes plain = (\<forall>request w r w'. routes request w = (r, w') \<longrightarrow>
     plain request (ob_rest w) = (r, ob_rest w') \<and> ob_correlation w' = ob_correlation w \<and> ob_request_id w' = ob_request_id w
     \<and> (\<exists>ls. ob_lines w' = ob_lines w @ ls
          \<and> (\<forall>l \<in> set ls. dget l ''correlation_id'' = Some (ostr_val (ob_correlation w)))))"

lemma logs_toldD:
  assumes "logs_told routes plain" "routes request w = (r, w')"
  obtains ls where "plain request (ob_rest w) = (r, ob_rest w')" "ob_correlation w' = ob_correlation w"
    "ob_request_id w' = ob_request_id w" "ob_lines w' = ob_lines w @ ls"
    "\<forall>l \<in> set ls. dget l ''correlation_id'' = Some (ostr_val (ob_correlation w))"
  using assms unfolding logs_told_def by blast

lemma error_logged_run: "error_logged request e w = (r, w') \<Longrightarrow> r = Inr () \<and> ob_rest w' = ob_rest w"
  by (cases e) (auto simp: error_logged_def)

lemma error_logged_context:
  "error_logged request e w = (r, w') \<Longrightarrow> ob_correlation w' = ob_correlation w \<and> ob_request_id w' = ob_request_id w"
  by (cases e) (auto simp: error_logged_def)

lemma error_logged_lines:
  "error_logged request e w = (r, w') \<Longrightarrow> \<exists>ls. ob_lines w' = ob_lines w @ ls
     \<and> (\<forall>l \<in> set ls. dget l ''correlation_id'' = Some (ostr_val (ob_correlation w)))"
  by (cases e) (auto simp: error_logged_def)

lemma errors_told:
  assumes "logs_told routes plain"
  shows "logs_told (logged_api_errors routes) (handle_api_errors plain)"
  unfolding logs_told_def
proof (intro allI impI)
  fix request w r w' assume run: "logged_api_errors routes request w = (r, w')"
  obtain r1 w1 where inner: "routes request w = (r1, w1)" by fastforce
  from logs_toldD [OF assms inner] obtain ls where ls: "plain request (ob_rest w) = (r1, ob_rest w1)"
    "ob_correlation w1 = ob_correlation w" "ob_request_id w1 = ob_request_id w" "ob_lines w1 = ob_lines w @ ls"
    "\<forall>l \<in> set ls. dget l ''correlation_id'' = Some (ostr_val (ob_correlation w))" by blast
  show "handle_api_errors plain request (ob_rest w) = (r, ob_rest w') \<and> ob_correlation w' = ob_correlation w
    \<and> ob_request_id w' = ob_request_id w \<and> (\<exists>ls. ob_lines w' = ob_lines w @ ls
         \<and> (\<forall>l \<in> set ls. dget l ''correlation_id'' = Some (ostr_val (ob_correlation w))))"
  proof (cases "\<exists>e. r1 = Inl e \<and> handled_response e \<noteq> None")
    case True
    then obtain e where e: "r1 = Inl e" "handled_response e \<noteq> None" by blast
    obtain r2 w2 where logged: "error_logged request e w1 = (r2, w2)" by fastforce
    from error_logged_run [OF logged] error_logged_context [OF logged] error_logged_lines [OF logged] obtain ls2 where ls2: "r2 = Inr ()" "ob_rest w2 = ob_rest w1"
      "ob_correlation w2 = ob_correlation w1" "ob_request_id w2 = ob_request_id w1" "ob_lines w2 = ob_lines w1 @ ls2"
      "\<forall>l \<in> set ls2. dget l ''correlation_id'' = Some (ostr_val (ob_correlation w1))" by blast
    have "(r, w') = (Inr (the (handled_response e)), w2)"
      using run inner e logged ls2(1) by (simp add: logged_api_errors_def)
    then show ?thesis using ls ls2 e by (auto simp: handle_api_errors_def)
  next
    case False
    then have "(r, w') = (r1, w1)" using run inner by (cases r1) (auto simp: logged_api_errors_def)
    then show ?thesis using ls False by (cases r1) (auto simp: handle_api_errors_def)
  qed
qed

lemma correlated_run:
  assumes "logs_told app plain" "correlated_dispatch new_id (noted app) request w = (r, w')"
  obtains ls where "request_id_dispatch new_id plain request (ob_rest w) = (r, ob_rest w')"
    "ob_correlation w' = ob_correlation w" "ob_request_id w' = Some (request_id_of new_id request)" "ob_lines w' = ob_lines w @ ls"
    "\<forall>l \<in> set ls. dget l ''correlation_id'' = Some (PStr (request_id_of new_id request))"
proof -
  let ?id = "request_id_of new_id request"
  let ?w = "w\<lparr>ob_correlation := Some ?id, ob_request_id := Some ?id, ob_tenant := rq_tenant request\<rparr>"
  obtain r1 w1 where inner: "app (request\<lparr>rq_id := Some ?id\<rparr>) ?w = (r1, w1)" by fastforce
  note told = assms(1) [unfolded logs_told_def, rule_format, OF inner]
  then have plain: "plain (request\<lparr>rq_id := Some ?id\<rparr>) (ob_rest w) = (r1, ob_rest w1)" "ob_request_id w1 = Some ?id"
    by simp_all
  from told obtain ls where ls: "ob_lines w1 = ob_lines w @ ls"
    "\<forall>l \<in> set ls. dget l ''correlation_id'' = Some (PStr ?id)" by (elim conjE exE) simp
  have "(r, w') = (case r1 of Inl e \<Rightarrow> Inl e | Inr response \<Rightarrow> Inr (set_header ''X-Request-Id'' ?id response),
      w1\<lparr>ob_correlation := ob_correlation w\<rparr>)"
    using assms(2) inner by (auto simp: correlated_dispatch_def Let_def finally_do_def noted_def bnd_def split: sum.splits)
  then show ?thesis using that plain ls by (auto simp: request_id_dispatch_def Let_def bnd_def split: sum.splits)
qed

lemma good_tenant:
  "\<not> bad_tenant request \<Longrightarrow> tenant_dispatch app request = app (request\<lparr>rq_tenant := normalize_tenant_key (header request ''X-Tenant-Id'')\<rparr>)"
  by (auto simp: tenant_dispatch_def bad_tenant_def split: option.split)

lemma refused_tenant: "bad_tenant request \<Longrightarrow> tenant_dispatch app request = ret invalid_tenant_response"
  by (auto simp: tenant_dispatch_def bad_tenant_def split: option.splits)

lemma tenant_run:
  assumes "logs_told app plain" "tenant_dispatch (noted (correlated_dispatch new_id (noted app))) request w = (r, w')"
    "ob_request_id w = rq_id request"
  shows "tenant_dispatch (request_id_dispatch new_id plain) request (ob_rest w) = (r, ob_rest w')
    \<and> ob_correlation w' = ob_correlation w
    \<and> ob_request_id w' = (if bad_tenant request then rq_id request else Some (request_id_of new_id request))
    \<and> (\<exists>ls. ob_lines w' = ob_lines w @ ls
         \<and> (\<forall>l \<in> set ls. dget l ''correlation_id'' = Some (PStr (request_id_of new_id request))))"
proof (cases "bad_tenant request")
  case True
  with assms(2,3) show ?thesis by (auto simp: refused_tenant)
next
  case False
  let ?request = "request\<lparr>rq_tenant := normalize_tenant_key (header request ''X-Tenant-Id'')\<rparr>"
  let ?w = "w\<lparr>ob_request_id := rq_id request, ob_tenant := rq_tenant ?request\<rparr>"
  have "correlated_dispatch new_id (noted app) ?request ?w = (r, w')"
    using assms(2) False by (simp add: good_tenant noted_def)
  from correlated_run [OF assms(1) this] obtain ls where
    "request_id_dispatch new_id plain ?request (ob_rest ?w) = (r, ob_rest w')" "ob_correlation w' = ob_correlation ?w"
    "ob_request_id w' = Some (request_id_of new_id ?request)" "ob_lines w' = ob_lines ?w @ ls"
    "\<forall>l \<in> set ls. dget l ''correlation_id'' = Some (PStr (request_id_of new_id ?request))" .
  with False show ?thesis by (simp add: good_tenant)
qed

lemma bad_tenant_with [simp]: "bad_tenant (with_header_tenant request) = bad_tenant request"
  by (simp add: bad_tenant_def)

lemma rq_id_with [simp]: "rq_id (with_header_tenant request) = rq_id request"
  by (simp add: with_header_tenant_def split: option.split)

lemma version_run:
  assumes "logs_told app plain" "ob_request_id w = rq_id request"
    "logged_version_dispatch (noted (tenant_dispatch (noted (correlated_dispatch new_id (noted app))))) request w = (r, w')"
  shows "version_dispatch (tenant_dispatch (request_id_dispatch new_id plain)) request (ob_rest w) = (r, ob_rest w')
    \<and> ob_correlation w' = ob_correlation w
    \<and> ob_request_id w' = (if bad_version request \<or> bad_tenant request then rq_id request else Some (request_id_of new_id request))
    \<and> (\<exists>ls. ob_lines w' = ob_lines w @ ls
         \<and> (\<forall>l \<in> set (tl ls). dget l ''correlation_id'' = Some (PStr (request_id_of new_id request))))"
proof (cases "bad_version request")
  case True
  with assms(2,3) show ?thesis
    by (auto simp: logged_version_dispatch_def version_dispatch_def Let_def bad_version_def)
next
  case False
  let ?request = "with_header_tenant request"
  define line where "line = set_default ''correlation_id'' (ostr_val (ob_correlation w))
    ((''event'', PStr ''api_version_used'') # version_fields ?request)"
  let ?w = "w\<lparr>ob_lines := ob_lines w @ [line], ob_request_id := rq_id request, ob_tenant := rq_tenant ?request\<rparr>"
  obtain r1 w1 where inner: "tenant_dispatch (noted (correlated_dispatch new_id (noted app))) ?request ?w = (r1, w1)"
    by fastforce
  have start: "ob_request_id ?w = rq_id ?request" by simp
  from tenant_run [OF assms(1) inner start] obtain ls where ls:
    "tenant_dispatch (request_id_dispatch new_id plain) ?request (ob_rest w) = (r1, ob_rest w1)"
    "ob_correlation w1 = ob_correlation w"
    "ob_request_id w1 = (if bad_tenant request then rq_id request else Some (request_id_of new_id request))"
    "ob_lines w1 = ob_lines w @ line # ls"
    "\<forall>l \<in> set ls. dget l ''correlation_id'' = Some (PStr (request_id_of new_id request))"
    by (elim conjE exE) simp
  have outer: "(r, w') = (case r1 of Inl e \<Rightarrow> Inl e
      | Inr response \<Rightarrow> Inr (set_header ''X-API-Version'' (requested_version request) response), w1)"
    using assms(3) inner False
    by (cases r1) (auto simp: logged_version_dispatch_def Let_def bad_version_def noted_def line_def bnd_def)
  have "version_dispatch (tenant_dispatch (request_id_dispatch new_id plain)) request (ob_rest w) = (r, ob_rest w')"
    using ls(1) outer False by (cases r1) (auto simp: version_dispatch_def Let_def bad_version_def)
  moreover have "\<exists>ls'. ob_lines w' = ob_lines w @ ls'
      \<and> (\<forall>l \<in> set (tl ls'). dget l ''correlation_id'' = Some (PStr (request_id_of new_id request)))"
    using ls(4,5) outer by (intro exI [of _ "line # ls"]) simp
  ultimately show ?thesis using ls(2,3) outer False by simp
qed

definition completed_line :: "http_request \<Rightarrow> http_response \<Rightarrow> pyval \<Rightarrow> 'w observed \<Rightarrow> pydict" where
  "completed_line request response duration_ms w = set_default ''correlation_id'' (ostr_val (ob_correlation w))
     ((''event'', PStr ''request_completed'') # completed_fields request response duration_ms (ob_request_id w) (ob_tenant w))"

lemma stack_run:
  assumes "logs_told routes plain" "logged_stack new_id duration millis routes request w = (r, w')"
  obtains w1 ls where "inner_stack new_id plain request (ob_rest w) = (r, ob_rest w1)" "ob_correlation w1 = ob_correlation w"
    "ob_request_id w1 = (if bad_version request \<or> bad_tenant request then rq_id request else Some (request_id_of new_id request))"
    "ob_lines w1 = ob_lines w @ ls" "\<forall>l \<in> set (tl ls). dget l ''correlation_id'' = Some (PStr (request_id_of new_id request))"
    "ob_rest w' = ob_rest w1" "ob_correlation w' = ob_correlation w1"
    "\<forall>response. r = Inr response \<longrightarrow> ob_lines w' = ob_lines w1 @ [completed_line request response (millis duration) w1]"
proof -
  let ?w = "w\<lparr>ob_request_id := rq_id request, ob_tenant := rq_tenant request\<rparr>"
  let ?app = "logged_version_dispatch (noted (tenant_dispatch (noted (correlated_dispatch new_id (noted (logged_api_errors routes))))))"
  obtain r1 w1 where inner: "?app request ?w = (r1, w1)" by fastforce
  have start: "ob_request_id ?w = rq_id request" by simp
  from version_run [OF errors_told [OF assms(1)] start inner] obtain ls where ls:
    "inner_stack new_id plain request (ob_rest w) = (r1, ob_rest w1)" "ob_correlation w1 = ob_correlation w"
    "ob_request_id w1 = (if bad_version request \<or> bad_tenant request then rq_id request else Some (request_id_of new_id request))"
    "ob_lines w1 = ob_lines w @ ls"
    "\<forall>l \<in> set (tl ls). dget l ''correlation_id'' = Some (PStr (request_id_of new_id request))"
    unfolding inner_stack_def by (elim conjE exE) simp
  have "r = r1" "ob_rest w' = ob_rest w1" "ob_correlation w' = ob_correlation w1"
    "\<forall>response. r = Inr response \<longrightarrow> ob_lines w' = ob_lines w1 @ [completed_line request response (millis duration) w1]"
    using assms(2) inner
    by (cases r1; auto simp: logged_stack_def noted_def request_logging_dispatch_def bnd_def completed_line_def)+
  with that ls show ?thesis by blast
qed

text \<open>
  C30. The log observes and tells the truth: behind the limiter a request is answered, and changes the
  program, exactly as without any log. When it is answered, the last line is the one of the request log,
  with the status of the answer and the request id the caller gets; every line the routes and the error
  handlers write carries that id as its correlation id. The request log itself and the line about the
  version, which come from outside the layer of the request id, keep the correlation id of their own
  context, which is none for a request of the server.
\<close>

theorem request_log_truthful:
  assumes "logs_told routes plain" "logged_stack new_id duration millis routes request w = (r, w')"
  shows "inner_stack new_id plain request (ob_rest w) = (r, ob_rest w') \<and> ob_correlation w' = ob_correlation w
    \<and> (\<forall>response. r = Inr response \<longrightarrow> (\<exists>ls line. ob_lines w' = ob_lines w @ ls @ [line]
        \<and> dget line ''event'' = Some (PStr ''request_completed'') \<and> dget line ''status_code'' = Some (PInt (rs_status response))
        \<and> dget line ''request_id'' = Some (ostr_val (if bad_version request \<or> bad_tenant request
             then rq_id request else Some (request_id_of new_id request)))
        \<and> dget line ''correlation_id'' = Some (ostr_val (ob_correlation w))
        \<and> (\<forall>l \<in> set (tl ls). dget l ''correlation_id'' = Some (PStr (request_id_of new_id request)))))"
proof -
  from stack_run [OF assms] obtain w1 ls where run: "inner_stack new_id plain request (ob_rest w) = (r, ob_rest w1)"
    "ob_correlation w1 = ob_correlation w"
    "ob_request_id w1 = (if bad_version request \<or> bad_tenant request then rq_id request else Some (request_id_of new_id request))"
    "ob_lines w1 = ob_lines w @ ls" "\<forall>l \<in> set (tl ls). dget l ''correlation_id'' = Some (PStr (request_id_of new_id request))"
    "ob_rest w' = ob_rest w1" "ob_correlation w' = ob_correlation w1"
    "\<forall>response. r = Inr response \<longrightarrow> ob_lines w' = ob_lines w1 @ [completed_line request response (millis duration) w1]" .
  have "dget (completed_line request response d w1) ''event'' = Some (PStr ''request_completed'')"
    "dget (completed_line request response d w1) ''status_code'' = Some (PInt (rs_status response))"
    "dget (completed_line request response d w1) ''request_id'' = Some (ostr_val (ob_request_id w1))"
    "dget (completed_line request response d w1) ''correlation_id'' = Some (ostr_val (ob_correlation w1))" for response d
    by (simp_all add: completed_line_def completed_fields_def)
  note line = this [unfolded run(2,3)]
  have "\<forall>response. r = Inr response \<longrightarrow> ob_lines w' = ob_lines w @ ls @ [completed_line request response (millis duration) w1]"
    using run(4,8) by simp
  with run(1,2,5,6,7) line show ?thesis by metis
qed

definition ok_answer :: http_response where
  "ok_answer = \<lparr>rs_status = 200, rs_headers = [], rs_body = ''ok'', rs_media_type = None\<rparr>"

definition listing_routes :: "unit observed app" where
  "listing_routes request = bnd (log_event ''policies_listed'' []) (\<lambda>_. ret ok_answer)"

definition quiet_start :: "unit observed" where
  "quiet_start = \<lparr>ob_rest = (), ob_request_id = None, ob_tenant = None, ob_correlation = None, ob_lines = [], ob_metrics = None\<rparr>"

theorem request_log_truthful_witness:
  "\<exists>response w' ls line. logged_stack ''n1'' 0 (\<lambda>_. PNone) listing_routes (plain_request None) quiet_start = (Inr response, w')
    \<and> ob_lines w' = ls @ [line] \<and> dget line ''request_id'' = Some (PStr ''r1'') \<and> dget line ''correlation_id'' = Some PNone"
proof -
  have told: "logs_told listing_routes (\<lambda>_. ret ok_answer)"
    by (auto simp: logs_told_def listing_routes_def)
  obtain r w' where run: "logged_stack ''n1'' 0 (\<lambda>_. PNone) listing_routes (plain_request None) quiet_start = (r, w')"
    by fastforce
  note said = request_log_truthful [OF told run]
  then have "inner_stack ''n1'' (\<lambda>_. ret ok_answer) (plain_request None) () = (r, ob_rest w')"
    by (simp add: quiet_start_def)
  then obtain response where r: "r = Inr response"
    by (auto simp: inner_stack_eq handle_api_errors_def catch_def bnd_def ret_def)
  from said obtain ls line where "ob_lines w' = ls @ [line]" "dget line ''request_id'' = Some (PStr ''r1'')"
    "dget line ''correlation_id'' = Some PNone"
    unfolding r by (auto simp: quiet_start_def)
  with run r show ?thesis by blast
qed

text \<open>
  What the layers outside the request log answer is not logged: a request over the limit, and one that
  is replayed, leave no line.
\<close>

lemma limited_not_logged:
  fixes st :: "'w observed limited"
  assumes "consume s sha256 None now request st = (Inr (Limited limit retry_after), st')"
    "upper_ascii (rq_method request) \<noteq> ''OPTIONS''" "rq_path request \<notin> set exempt_paths"
  shows "rate_limit_dispatch s sha256 None now app request st = (Inr (limited_response limit retry_after), st')
    \<and> ob_lines (li_inner st') = ob_lines (li_inner st)"
  using assms by (auto simp: rate_limit_dispatch_def consume_def on_buckets_def Let_def split: prod.splits)

text \<open>A short key that was refused is in the log as it was sent.\<close>

lemma short_key_logged:
  assumes "length key \<le> 12" "key \<noteq> []"
  shows "\<exists>line. ob_lines (snd (log_failed_auth request ''invalid_api_key'' (Some key) w)) = ob_lines w @ [line]
    \<and> dget line ''api_key_prefix'' = Some (PStr key)"
  using assms by (simp add: log_failed_auth_def)

end
