(* ===== verification/Storage.thy ===== *)
theory Storage
  imports Bootstrap Logging
begin

text \<open>
  What a process keeps between requests: the database sessions and the timing of their statements
  (\<open>infrastructure/storage/session.py\<close>), the cached settings and the Redis client
  (\<open>config/settings.py\<close>, \<open>config/redis_client.py\<close>), the configuration a command loads (\<open>cli.py\<close>) and the
  user contexts in Redis (\<open>infrastructure/cache/user_cache.py\<close>). \<open>lru_cache\<close> keeps the results of its last
  128 arguments; no process uses more URLs, so nothing is evicted here. A call that raises is not kept.
\<close>

section \<open>Engines\<close>

record engine_options =
  eo_url :: string
  eo_check_same_thread :: bool
  eo_static_pool :: bool
  eo_pool_pre_ping :: bool

definition in_memory_url :: "string \<Rightarrow> bool" where
  "in_memory_url database_url =
     (starts_with ''sqlite+pysqlite:///:memory:'' database_url \<or> database_url = ''sqlite:///:memory:'')"

definition engine_for_url :: "string \<Rightarrow> engine_options" where
  "engine_for_url database_url =
     (if in_memory_url database_url
      then \<lparr>eo_url = database_url, eo_check_same_thread = False, eo_static_pool = True, eo_pool_pre_ping = False\<rparr>
      else \<lparr>eo_url = database_url, eo_check_same_thread = True, eo_static_pool = False, eo_pool_pre_ping = True\<rparr>)"

text \<open>The tables exist once \<open>create_all\<close> ran for the URL; \<open>'w\<close> holds the databases.\<close>

record 'w storage =
  so_engines :: "(string \<times> engine_options) list"
  so_initialized :: "string list"
  so_open :: nat
  so_rest :: 'w

definition create_engine_for_url :: "string \<Rightarrow> ('w storage, engine_options) eff" where
  "create_engine_for_url database_url st = (case dget (so_engines st) database_url of
     Some e \<Rightarrow> (Inr e, st)
   | None \<Rightarrow> (Inr (engine_for_url database_url), st\<lparr>so_engines := (database_url, engine_for_url database_url) # so_engines st\<rparr>))"

definition initialize_database :: "(engine_options \<Rightarrow> ('w, unit) eff) \<Rightarrow> string \<Rightarrow> ('w storage, unit) eff" where
  "initialize_database create_all database_url st =
     (if database_url \<in> set (so_initialized st) then (Inr (), st)
      else if \<not> starts_with ''sqlite'' database_url then (Inr (), st\<lparr>so_initialized := database_url # so_initialized st\<rparr>)
      else bnd (create_engine_for_url database_url) (\<lambda>engine st1.
        case create_all engine (so_rest st1) of
          (Inl e, w) \<Rightarrow> (Inl e, st1\<lparr>so_rest := w\<rparr>)
        | (Inr _, w) \<Rightarrow> (Inr (), st1\<lparr>so_rest := w, so_initialized := database_url # so_initialized st1\<rparr>)) st)"

text \<open>\<open>get_db\<close>: the session of a request is closed when the request ends, however it ends.\<close>

definition open_session :: "('w storage, unit) eff" where
  "open_session st = (Inr (), st\<lparr>so_open := so_open st + 1\<rparr>)"

definition close_session :: "('w storage, unit) eff" where
  "close_session st = (Inr (), st\<lparr>so_open := so_open st - 1\<rparr>)"

definition with_db :: "(engine_options \<Rightarrow> ('w, unit) eff) \<Rightarrow> settings \<Rightarrow> ('w storage, 'a) eff \<Rightarrow> ('w storage, 'a) eff" where
  "with_db create_all s body =
     bnd (initialize_database create_all (se_database_url s)) (\<lambda>_.
     bnd (create_engine_for_url (se_database_url s)) (\<lambda>_.
     bnd open_session (\<lambda>_. finally_do body close_session)))"

lemma initialized_once:
  assumes "initialize_database create_all url st = (Inr (), st')"
  shows "initialize_database other url st' = (Inr (), st')"
    "\<not> starts_with ''sqlite'' url \<Longrightarrow> so_rest st' = so_rest st"
proof -
  have "url \<in> set (so_initialized st')"
    using assms by (auto simp: initialize_database_def bnd_def split: if_splits prod.splits sum.splits)
  then show "initialize_database other url st' = (Inr (), st')" by (simp add: initialize_database_def)
  show "\<not> starts_with ''sqlite'' url \<Longrightarrow> so_rest st' = so_rest st"
    using assms by (auto simp: initialize_database_def split: if_splits)
qed

text \<open>Every session that was opened is closed, provided the body itself leaves none open.\<close>

lemma sessions_closed:
  assumes "\<And>st. so_open (snd (body st)) = so_open st"
  shows "so_open (snd (with_db create_all s body st)) = so_open st"
proof -
  have initialize: "so_open (snd (initialize_database create_all url st)) = so_open st" for url st
    by (auto simp: initialize_database_def create_engine_for_url_def bnd_def split: option.split prod.split sum.split)
  have engine: "\<exists>e st'. create_engine_for_url url st = (Inr e, st') \<and> so_open st' = so_open st" for url and st :: "'a storage"
    by (simp add: create_engine_for_url_def split: option.split)
  obtain r st1 where i: "initialize_database create_all (se_database_url s) st = (r, st1)" by fastforce
  obtain e st2 where e: "create_engine_for_url (se_database_url s) st1 = (Inr e, st2)" "so_open st2 = so_open st1"
    using engine by blast
  show ?thesis
  proof (cases r)
    case (Inl x)
    then show ?thesis using i initialize [of "se_database_url s" st] by (simp add: with_db_def)
  next
    case (Inr u)
    obtain r3 st3 where b: "body (st2\<lparr>so_open := so_open st2 + 1\<rparr>) = (r3, st3)" by fastforce
    then have "so_open st3 = so_open st2 + 1" using assms [of "st2\<lparr>so_open := so_open st2 + 1\<rparr>"] by simp
    then show ?thesis
      using i e b Inr initialize [of "se_database_url s" st]
      by (simp add: with_db_def open_session_def close_session_def finally_do_def)
  qed
qed

section \<open>The timing of statements\<close>

text \<open>\<open>statement.strip().split(" ", 1)[0].upper()\<close>; SQL keywords are ASCII.\<close>

definition operation_name :: "string \<Rightarrow> string" where
  "operation_name statement = filled (upper_ascii (fst (split1 (CHR '' '') (strip statement)))) ''UNKNOWN''"

text \<open>A connection keeps the start times of its statements, the newest last; time is the argument \<open>now\<close>.\<close>

type_synonym start_times = "rat list"

definition before_cursor_execute :: "rat \<Rightarrow> start_times \<Rightarrow> start_times" where
  "before_cursor_execute now starts = starts @ [now]"

definition after_cursor_execute :: "rat \<Rightarrow> string \<Rightarrow> start_times \<times> registry \<Rightarrow> start_times \<times> registry" where
  "after_cursor_execute now statement st = (case st of (starts, r) \<Rightarrow>
     if starts = [] then st
     else (butlast starts, observe_db_query_latency (operation_name statement) (now - last starts) r))"

text \<open>
  A statement that runs: its time is observed, whatever started before it on the connection. The driver
  calls the second hook only after a success, so a statement that fails leaves its start behind.
\<close>

lemma statement_timed:
  "after_cursor_execute t2 statement (before_cursor_execute t1 starts, r)
     = (starts, observe_db_query_latency (operation_name statement) (t2 - t1) r)"
  by (simp add: after_cursor_execute_def before_cursor_execute_def)

lemma failed_statement_leaks: "length (before_cursor_execute now starts) = length starts + 1"
  by (simp add: before_cursor_execute_def)

section \<open>Settings and the Redis client of a process\<close>

text \<open>
  \<open>read\<close> is what \<open>pydantic-settings\<close> makes of the environment, \<open>connect\<close> the construction of a client
  from a URL, \<open>None\<close> when the package \<open>redis\<close> is missing.
\<close>

record 'c process =
  pr_environ :: "string dict"
  pr_settings :: "settings option"
  pr_redis :: "'c option option"

definition get_settings :: "(string dict \<Rightarrow> settings result) \<Rightarrow> ('c process, settings) eff" where
  "get_settings read p = (case pr_settings p of
     Some s \<Rightarrow> (Inr s, p)
   | None \<Rightarrow> (case read (pr_environ p) of Inl e \<Rightarrow> (Inl e, p) | Inr s \<Rightarrow> (Inr s, p\<lparr>pr_settings := Some s\<rparr>)))"

definition reset_settings_cache :: "'c process \<Rightarrow> 'c process" where
  "reset_settings_cache p = p\<lparr>pr_settings := None\<rparr>"

definition get_redis :: "(string dict \<Rightarrow> settings result) \<Rightarrow> (string \<Rightarrow> 'c) option \<Rightarrow> ('c process, 'c option) eff" where
  "get_redis read connect p = (case pr_redis p of
     Some client \<Rightarrow> (Inr client, p)
   | None \<Rightarrow> bnd (get_settings read) (\<lambda>s p1.
       let client = (if nonempty (se_redis_url s) then map_option (\<lambda>f. f (str_or (se_redis_url s) [])) connect else None)
       in (Inr client, p1\<lparr>pr_redis := Some client\<rparr>)) p)"

text \<open>\<open>_load_config\<close> and \<open>cli_root\<close>\<close>

definition load_config :: "file_ports \<Rightarrow> string \<Rightarrow> ('c process, unit) eff" where
  "load_config fp path = bnd (lift (load_config_file fp path)) (\<lambda>cfg p.
     (Inr (), (reset_settings_cache (p\<lparr>pr_environ := dset (apply_config_to_environment cfg (pr_environ p)) ''KEYNETRA_CONFIG'' path\<rparr>))
        \<lparr>pr_redis := None\<rparr>))"

definition maybe_load_config :: "file_ports \<Rightarrow> string option \<Rightarrow> ('c process, unit) eff" where
  "maybe_load_config fp effective = (case effective of None \<Rightarrow> ret ()
     | Some path \<Rightarrow> if path = [] then ret () else load_config fp path)"

definition cli_root :: "file_ports \<Rightarrow> string option \<Rightarrow> ('c process, string option) eff" where
  "cli_root fp config = bnd (maybe_load_config fp config) (\<lambda>_. ret config)"

text \<open>
  A loaded configuration is never hidden by what was cached before: the next settings and the next
  client are those of the new environment.
\<close>

lemma config_not_stale:
  assumes "load_config fp path p = (Inr (), p')" "get_settings read p' = (r, p2)"
  shows "r = read (pr_environ p')" "dget (pr_environ p') ''KEYNETRA_CONFIG'' = Some path"
    "get_redis read connect p' = (client, p3) \<Longrightarrow> read (pr_environ p') = Inr s \<Longrightarrow> \<not> nonempty (se_redis_url s) \<Longrightarrow> client = Inr None"
  using assms by (auto simp: load_config_def reset_settings_cache_def get_settings_def get_redis_def bnd_def Let_def
      split: sum.splits)

text \<open>
  Two configurations in one command mix: what the file of the command leaves out is still what the
  global file said.
\<close>

lemma configurations_mix:
  assumes "load_config fp global p = (Inr (), p1)" "load_config fp path p1 = (Inr (), p2)"
    "load_config_file fp global = Inr g" "load_config_file fp path = Inr c"
    "nonempty (fc_database_url g)" "fc_database_url c = None"
  shows "dget (pr_environ p2) ''KEYNETRA_DATABASE_URL'' = fc_database_url g"
  using assms by (auto simp: load_config_def reset_settings_cache_def bnd_def nonempty_def str_or_def
      apply_config_to_environment_def split: option.splits)

section \<open>User contexts in Redis\<close>

text \<open>\<open>except (ConnectionError, RuntimeError, ValueError, TypeError)\<close>; other errors of the system escape.\<close>

definition user_cache_error :: "exn \<Rightarrow> bool" where
  "user_cache_error e = (case e of ConnectionError _ \<Rightarrow> True | RuntimeError _ \<Rightarrow> True | ValueError _ \<Rightarrow> True
     | AttributeValidationError _ \<Rightarrow> True | TypeError _ \<Rightarrow> True | _ \<Rightarrow> False)"

definition get_cached_user_context :: "'r redis_client option \<Rightarrow> string \<Rightarrow> ('r, pydict option) eff" where
  "get_cached_user_context client key = (case client of
     None \<Rightarrow> ret None
   | Some c \<Rightarrow> bnd (catch (rc_get c key) user_cache_error (\<lambda>_. ret None)) (\<lambda>raw.
       ret (case raw of None \<Rightarrow> None | Some t \<Rightarrow>
         if t = Plain [] then None
         else (case json_loads t of Some (PDict d) \<Rightarrow> Some d | _ \<Rightarrow> None))))"

definition set_cached_user_context :: "'r redis_client option \<Rightarrow> string \<Rightarrow> pydict \<Rightarrow> int \<Rightarrow> ('r, unit) eff" where
  "set_cached_user_context client key ctx ttl_seconds = (case client of
     None \<Rightarrow> ret ()
   | Some c \<Rightarrow> catch (rc_setex c key (max 1 ttl_seconds) (Encoded (stable_doc (PDict ctx)))) user_cache_error (\<lambda>_. ret ()))"

lemma user_context_read_back:
  assumes "redis_answers c look" "set_cached_user_context (Some c) key ctx ttl s = (r, s')"
  shows "r = Inr ()" "fst (get_cached_user_context (Some c) key s') = Inr (Some (sort_key fst (stable_items ctx)))"
proof -
  have "1 \<le> max 1 ttl" by simp
  then obtain s1 where s1: "rc_setex c key (max 1 ttl) (Encoded (stable_doc (PDict ctx))) s = (Inr (), s1)"
    "look s1 = (look s)(key := Some (Encoded (stable_doc (PDict ctx))))"
    using assms(1) unfolding redis_answers_def by meson
  then have s': "r = Inr ()" "s' = s1" using assms(2) by (auto simp: set_cached_user_context_def)
  obtain s2 where "rc_get c key s1 = (Inr (look s1 key), s2)"
    using assms(1) unfolding redis_answers_def by meson
  then show "fst (get_cached_user_context (Some c) key s') = Inr (Some (sort_key fst (stable_items ctx)))"
    using s' s1(2) by (simp add: get_cached_user_context_def json_loads_def)
  show "r = Inr ()" by (fact s'(1))
qed

end
