(* ===== verification/Console.thy ===== *)
theory Console
  imports Operations Storage
begin

text \<open>
  The rest of the command line (\<open>cli.py\<close>): starting the server with its start screen, the OpenAPI
  contract, and the concurrent requests of the benchmark. The package \<open>rich\<close>, uvicorn, the renderers of
  JSON and YAML and the answers of the benchmarked server are parameters. The drawing of the panels is
  left out; their rows are here, with the markup of \<open>rich\<close>.
\<close>

section \<open>Starting the server\<close>

definition runtime_rows :: "settings \<Rightarrow> string \<Rightarrow> int \<Rightarrow> bool \<Rightarrow> string option \<Rightarrow> (string \<times> string) list" where
  "runtime_rows s host port reload config_path =
    [(''Mode'', ''[bright_magenta]'' @ se_service_mode s @ ''[/bright_magenta]''),
     (''Environment'', ''[cyan]'' @ se_environment s @ ''[/cyan]''),
     (''Server'', ''[green]http://'' @ host @ '':'' @ int_str port @ ''[/green]''),
     (''Reload'', if reload then ''[green]enabled[/green]'' else ''[yellow]disabled[/yellow]''),
     (''Config File'', text_or config_path ''not provided'')]"

definition storage_rows :: "settings \<Rightarrow> (string \<times> string) list" where
  "storage_rows s =
    [(''Database'', se_database_url s),
     (''Redis'', text_or (se_redis_url s) ''disabled''),
     (''Policy Paths'', filled (join '', '' (parsed_policy_paths s)) ''default''),
     (''Model Paths'', filled (join '', '' (parsed_model_paths s)) ''none'')]"

definition security_rows :: "settings \<Rightarrow> (string \<times> string) list" where
  "security_rows s =
    [(''Auth'', ''api-key + jwt + admin-login''),
     (''Admin User'', text_or (se_admin_username s) ''disabled''),
     (''Rate Limit'', int_str (se_rate_limit_per_minute s) @ ''/min'')]"

definition startup_screen :: "bool \<Rightarrow> settings \<Rightarrow> string \<Rightarrow> int \<Rightarrow> bool \<Rightarrow> string option \<Rightarrow> printed list" where
  "startup_screen rich s host port reload config_path =
     (if \<not> rich then [Line (''KeyNetra starting on http://'' @ host @ '':'' @ int_str port @ '' mode='' @ se_service_mode s)]
      else map (\<lambda>(label, v). Line (label @ '': '' @ v))
        (runtime_rows s host port reload config_path @ storage_rows s @ security_rows s))"

text \<open>
  \<open>uvicorn\<close> is called with all options, and once more without the two newer ones when they are not known.
\<close>

definition run_server :: "(string dict \<Rightarrow> settings result) \<Rightarrow> bool \<Rightarrow> (bool \<Rightarrow> string \<Rightarrow> int \<Rightarrow> ('c process, unit) eff)
    \<Rightarrow> string \<Rightarrow> int \<Rightarrow> bool \<Rightarrow> ('c process, printed list) eff" where
  "run_server read rich uvicorn host port reload =
     bnd (get_settings read) (\<lambda>s p.
       bnd (\<lambda>p. (Inr (), p\<lparr>pr_environ := dset (pr_environ p) ''KEYNETRA_LOG_FORMAT'' ''rich''\<rparr>)) (\<lambda>_.
       bnd (catch (uvicorn True host port) is_type_error (\<lambda>_. uvicorn False host port)) (\<lambda>_.
         ret (startup_screen rich s host port reload (dget (pr_environ p) ''KEYNETRA_CONFIG'')))) p)"

definition serve :: "file_ports \<Rightarrow> (string dict \<Rightarrow> settings result) \<Rightarrow> bool \<Rightarrow> (bool \<Rightarrow> string \<Rightarrow> int \<Rightarrow> ('c process, unit) eff)
    \<Rightarrow> string option \<Rightarrow> string option \<Rightarrow> string \<Rightarrow> int \<Rightarrow> bool \<Rightarrow> ('c process, printed list) eff" where
  "serve fp read rich uvicorn given explicit host port reload =
     (let effective = effective_config_path given explicit in
      bnd (maybe_load_config fp effective) (\<lambda>_.
      bnd (if effective \<noteq> None then bnd (get_settings read) (\<lambda>s. ret (server_address s True host port))
           else ret (host, port)) (\<lambda>(h, n).
        run_server read rich uvicorn h n reload)))"

section \<open>The OpenAPI contract\<close>

text \<open>Files are a dictionary from paths to texts; \<open>yaml\<close> is missing without its package.\<close>

definition contract_text :: "(pyval \<Rightarrow> string) \<Rightarrow> (pyval \<Rightarrow> string) \<Rightarrow> pyval \<Rightarrow> string \<Rightarrow> string" where
  "contract_text json yaml payload path = (if lower (path_suffix path) = ''.json'' then json payload else yaml payload)"

definition generate_openapi :: "(pyval \<Rightarrow> string) \<Rightarrow> (pyval \<Rightarrow> string) option \<Rightarrow> pyval \<Rightarrow> string
    \<Rightarrow> (string dict, command_output) eff" where
  "generate_openapi json yaml payload path files = (case yaml of
     None \<Rightarrow> (Inr (bad_parameter ''pyyaml is required to generate yaml contracts''), files)
   | Some y \<Rightarrow> (Inr (printed [Line path]), dset files path (contract_text json y payload path)))"

definition check_openapi :: "(pyval \<Rightarrow> string) \<Rightarrow> (pyval \<Rightarrow> string) option \<Rightarrow> pyval \<Rightarrow> string
    \<Rightarrow> (string dict, command_output) eff" where
  "check_openapi json yaml payload path files = (case yaml of
     None \<Rightarrow> (Inr (bad_parameter ''pyyaml is required to check yaml contracts''), files)
   | Some y \<Rightarrow> (case dget files path of
       None \<Rightarrow> (Inr (bad_parameter (''contract file not found: '' @ path)), files)
     | Some expected \<Rightarrow>
         (if contract_text json y payload path \<noteq> expected
          then (Inr (failed [Document (PDict [(''ok'', PBool False), (''message'', PStr ''OpenAPI contract drift detected.''),
                  (''contract'', PStr path)])]), files)
          else (Inr (printed [Document (PDict [(''ok'', PBool True), (''contract'', PStr path)])]), files))))"

lemma generated_contract_passes:
  assumes "generate_openapi json yaml payload path files = (Inr out, files')" "ou_code out = 0"
  shows "\<exists>out'. check_openapi json yaml payload path files' = (Inr out', files') \<and> ou_code out' = 0"
  using assms by (auto simp: generate_openapi_def check_openapi_def bad_parameter_def printed_def split: option.splits)

lemma drift_found:
  assumes "dget files path = Some expected" "contract_text json y payload path \<noteq> expected"
  shows "\<exists>out. check_openapi json (Some y) payload path files = (Inr out, files) \<and> ou_code out = 1"
  using assms by (simp add: check_openapi_def failed_def)

section \<open>The requests of the benchmark\<close>

text \<open>
  \<open>_run_benchmark\<close>: as many tasks as requests, of which the semaphore lets \<open>concurrency\<close> run at a time.
  A task ends with the time its request took, or with an exception, which ends the whole run.
\<close>

record bench =
  bn_waiting :: nat
  bn_running :: nat
  bn_durations :: "rat list"
  bn_error :: "exn option"

definition bench_start :: "nat \<Rightarrow> bench" where
  "bench_start requests = \<lparr>bn_waiting = requests, bn_running = 0, bn_durations = [], bn_error = None\<rparr>"

inductive bench_step :: "nat \<Rightarrow> bench \<Rightarrow> bench \<Rightarrow> bool" for concurrency :: nat where
  acquire: "bn_error b = None \<Longrightarrow> 0 < bn_waiting b \<Longrightarrow> bn_running b < concurrency \<Longrightarrow>
    bench_step concurrency b (b\<lparr>bn_waiting := bn_waiting b - 1, bn_running := bn_running b + 1\<rparr>)"
| respond: "bn_error b = None \<Longrightarrow> 0 < bn_running b \<Longrightarrow>
    bench_step concurrency b (b\<lparr>bn_running := bn_running b - 1, bn_durations := bn_durations b @ [elapsed]\<rparr>)"
| raise: "bn_error b = None \<Longrightarrow> 0 < bn_running b \<Longrightarrow>
    bench_step concurrency b (b\<lparr>bn_running := bn_running b - 1, bn_error := Some e\<rparr>)"

inductive_cases bench_stepE: "bench_step concurrency b b'"

inductive bench_run :: "nat \<Rightarrow> nat \<Rightarrow> bench \<Rightarrow> bench \<Rightarrow> bool" for concurrency :: nat where
  start: "bench_run concurrency 0 b b"
| step: "bench_run concurrency n b b' \<Longrightarrow> bench_step concurrency b' b'' \<Longrightarrow> bench_run concurrency (Suc n) b b''"

definition bench_ok :: "nat \<Rightarrow> nat \<Rightarrow> bench \<Rightarrow> bool" where
  "bench_ok concurrency requests b = (bn_running b \<le> concurrency
     \<and> bn_waiting b + bn_running b + length (bn_durations b) + (if bn_error b = None then 0 else 1) = requests)"

lemma bench_step_ok: "bench_step concurrency b b' \<Longrightarrow> bench_ok concurrency requests b \<Longrightarrow> bench_ok concurrency requests b'"
  by (auto simp: bench_ok_def elim: bench_stepE)

text \<open>Every step uses up two units of a request, one to start it and one to end it.\<close>

lemma bench_step_measure:
  "bench_step concurrency b b' \<Longrightarrow> 2 * bn_waiting b + bn_running b = Suc (2 * bn_waiting b' + bn_running b')"
  by (auto elim: bench_stepE)

lemma bench_run_ok:
  assumes "bench_run concurrency n (bench_start requests) b"
  shows "bench_ok concurrency requests b \<and> n + 2 * bn_waiting b + bn_running b = 2 * requests"
  using assms
proof (induction n "bench_start requests" b)
  case start
  then show ?case by (simp add: bench_start_def bench_ok_def)
next
  case (step n b b')
  then show ?case using bench_step_ok bench_step_measure [OF step(3)] by fastforce
qed

lemma bench_progress:
  assumes "bn_error b = None" "0 < bn_waiting b + bn_running b" "0 < concurrency"
  shows "\<exists>b'. bench_step concurrency b b'"
proof (cases "0 < bn_running b")
  case True
  then show ?thesis using assms(1) bench_step.respond by blast
next
  case False
  then show ?thesis using assms bench_step.acquire [of b concurrency] by auto
qed

text \<open>
  The benchmark comes to an end, in every interleaving of its requests: never more than the given
  number are under way, no run takes more than two steps for a request, and a run that cannot go on was
  ended by an exception or has the times of all requests.
\<close>

lemma benchmark_ends:
  assumes "bench_run concurrency n (bench_start requests) b" "1 \<le> concurrency"
  shows "bn_running b \<le> concurrency \<and> n \<le> 2 * requests
    \<and> ((\<nexists>b'. bench_step concurrency b b') \<longrightarrow> bn_error b \<noteq> None \<or> length (bn_durations b) = requests)"
proof -
  have ok: "bench_ok concurrency requests b" "n + 2 * bn_waiting b + bn_running b = 2 * requests"
    using bench_run_ok [OF assms(1)] by simp_all
  have "bn_error b \<noteq> None \<or> length (bn_durations b) = requests" if "\<nexists>b'. bench_step concurrency b b'"
  proof (cases "bn_error b")
    case None
    then have "bn_waiting b + bn_running b = 0" using that bench_progress [of b concurrency] assms(2) by fastforce
    then show ?thesis using ok None by (simp add: bench_ok_def)
  qed simp
  then show ?thesis using ok by (simp add: bench_ok_def)
qed

text \<open>Without the check of the command, a semaphore of zero would wait forever.\<close>

lemma zero_concurrency_waits: "\<not> bench_step 0 (bench_start requests) b"
  by (auto simp: bench_start_def elim: bench_stepE)

lemma benchmark_ends_example:
  "\<exists>b. bench_run 1 2 (bench_start 1) b \<and> bn_running b \<le> 1 \<and> length (bn_durations b) = 1"
proof -
  let ?b1 = "\<lparr>bn_waiting = 0, bn_running = 1, bn_durations = [], bn_error = None\<rparr>"
  let ?b2 = "\<lparr>bn_waiting = 0, bn_running = 0, bn_durations = [3], bn_error = None\<rparr>"
  have "bench_step 1 (bench_start 1) ?b1" using bench_step.acquire [of "bench_start 1" 1] by (simp add: bench_start_def)
  moreover have "bench_step 1 ?b1 ?b2" using bench_step.respond [of ?b1 1 3] by simp
  ultimately have run: "bench_run 1 (Suc (Suc 0)) (bench_start 1) ?b2"
    by (intro bench_run.step) (rule bench_run.start)
  have "(1 :: nat) \<le> 1" by simp
  from benchmark_ends [OF run this] have "bn_running ?b2 \<le> 1
      \<and> ((\<nexists>b'. bench_step 1 ?b2 b') \<longrightarrow> bn_error ?b2 \<noteq> None \<or> length (bn_durations ?b2) = 1)" by blast
  then show ?thesis using run by (intro exI [of _ ?b2]) (simp add: numeral_2_eq_2)
qed

end
