(* ===== verification/Server.thy ===== *)
theory Server
  imports Storage System
begin

text \<open>
  The server around the application (\<open>api/main.py\<close>): the application \<open>create_app\<close> assembles, the
  subscription to policy changes and the life of the process from startup to shutdown. The CORS layer and
  the OpenTelemetry instrumentation belong to libraries and are parameters.
\<close>

section \<open>The application\<close>

text \<open>Routes that log nothing themselves.\<close>

definition quietly :: "'w app \<Rightarrow> 'w observed app" where
  "quietly api request w = (case api request (ob_rest w) of (r, x) \<Rightarrow> (r, w\<lparr>ob_rest := x\<rparr>))"

lemma quietly_told: "logs_told (quietly api) api"
  by (auto simp: logs_told_def quietly_def split: prod.splits)

text \<open>The layers of \<open>create_app\<close>, from the outside in: the one added last runs first.\<close>

definition server_application :: "settings \<Rightarrow> (exn \<Rightarrow> string) \<Rightarrow> (exn \<Rightarrow> string)
    \<Rightarrow> 'w observed limited idempotency_repository \<Rightarrow> (string \<Rightarrow> string) \<Rightarrow> 'w observed redis_script option
    \<Rightarrow> ('w observed limited app \<Rightarrow> 'w observed limited app) \<Rightarrow> rat \<Rightarrow> string \<Rightarrow> rat \<Rightarrow> (rat \<Rightarrow> pyval)
    \<Rightarrow> 'w observed app \<Rightarrow> 'w observed limited app" where
  "server_application s describe traceback repository sha256 redis cors now new_id duration millis api =
     logged_server_errors s describe traceback
       (cors (idempotency_dispatch repository sha256
         (rate_limit_dispatch s sha256 redis now (logged_stack new_id duration millis api))))"

definition is_import_error :: "exn \<Rightarrow> bool" where
  "is_import_error e = (case e of ImportError _ \<Rightarrow> True | _ \<Rightarrow> False)"

definition strict :: "settings \<Rightarrow> bool" where
  "strict s = (se_environment s \<in> {''prod'', ''production''})"

text \<open>
  The instrumentation of OpenTelemetry: a missing package is logged, a \<open>RuntimeError\<close> is counted and fatal
  in production. Here the environment is compared as it is. \<open>describe\<close> is the \<open>repr\<close> of an exception.
\<close>

definition otel_error :: "settings \<Rightarrow> (exn \<Rightarrow> string) \<Rightarrow> exn \<Rightarrow> ('w observed, unit) eff" where
  "otel_error s describe e =
     (if is_import_error e then log_event ''otel_disabled'' [(''reason'', PStr ''instrumentor_not_installed'')]
      else bnd (recorded (record_bootstrap_failure ''otel'')) (\<lambda>_.
        bnd (log_event ''otel_init_failed'' [(''reason'', PStr (describe e))]) (\<lambda>_.
          if strict s then throw (BootstrapError ''failed to initialize OTel instrumentation'') else ret ())))"

definition create_app :: "settings \<Rightarrow> (exn \<Rightarrow> string) \<Rightarrow> bool \<Rightarrow> ('w observed, unit) eff \<Rightarrow> 'w observed limited app
    \<Rightarrow> ('w observed, 'w observed limited app) eff" where
  "create_app s describe otel_enabled instrument app =
     bnd (if otel_enabled then catch instrument (\<lambda>e. is_import_error e \<or> is_runtime_error e) (otel_error s describe)
          else ret ())
       (\<lambda>_. ret app)"

section \<open>The subscription to policy changes\<close>

text \<open>The operations of a subscription, and what \<open>app.state\<close> remembers of it.\<close>

record 'w pubsub =
  ps_subscribe :: "string \<Rightarrow> ('w observed, unit) eff"
  ps_close :: "('w observed, unit) eff"

record 'w served =
  sd_subscription :: "'w pubsub option"
  sd_rest :: "'w observed"

definition on_rest :: "('w observed, 'a) eff \<Rightarrow> ('w served, 'a) eff" where
  "on_rest m st = (case m (sd_rest st) of (r, w) \<Rightarrow> (r, st\<lparr>sd_rest := w\<rparr>))"

definition remember :: "'w pubsub \<Rightarrow> ('w served, unit) eff" where
  "remember ps st = (Inr (), st\<lparr>sd_subscription := Some ps\<rparr>)"

definition subscriber_error :: "settings \<Rightarrow> (exn \<Rightarrow> string) \<Rightarrow> exn \<Rightarrow> ('w observed, unit) eff" where
  "subscriber_error s describe e =
     (if is_import_error e then log_event ''policy_subscriber_unavailable'' [(''reason'', PStr (describe e))]
      else bnd (recorded (record_bootstrap_failure ''policy_subscriber'')) (\<lambda>_.
        bnd (log_event ''policy_subscriber_failed'' [(''reason'', PStr (describe e))]) (\<lambda>_.
          if strict s then throw (BootstrapError ''policy subscriber startup failed'') else ret ())))"

definition start_policy_subscriber :: "settings \<Rightarrow> (exn \<Rightarrow> string) \<Rightarrow> 'w pubsub option \<Rightarrow> ('w served, unit) eff" where
  "start_policy_subscriber s describe client = (case client of
     None \<Rightarrow> ret ()
   | Some ps \<Rightarrow> catch (bnd (on_rest (ps_subscribe ps (se_policy_events_channel s))) (\<lambda>_. remember ps))
       (\<lambda>e. is_import_error e \<or> is_runtime_error e) (\<lambda>e. on_rest (subscriber_error s describe e)))"

definition close_error :: "exn \<Rightarrow> bool" where
  "close_error e = (case e of RuntimeError _ \<Rightarrow> True | OSError _ \<Rightarrow> True | ConnectionError _ \<Rightarrow> True | TimeoutError _ \<Rightarrow> True
     | ValueError _ \<Rightarrow> True | AttributeValidationError _ \<Rightarrow> True | _ \<Rightarrow> False)"

definition stop_policy_subscriber :: "(exn \<Rightarrow> string) \<Rightarrow> ('w served, unit) eff" where
  "stop_policy_subscriber describe st = (case sd_subscription st of
     None \<Rightarrow> (Inr (), st)
   | Some ps \<Rightarrow> on_rest (catch (ps_close ps) close_error (\<lambda>e.
       log_event ''policy_subscriber_close_failed'' [(''reason'', PStr (describe e))])) st)"

text \<open>\<open>_lifespan\<close>; \<open>serve\<close> is the time between startup and shutdown.\<close>

definition lifespan :: "settings \<Rightarrow> (exn \<Rightarrow> string) \<Rightarrow> ('w observed, unit) eff \<Rightarrow> 'w pubsub option \<Rightarrow> ('w served, 'a) eff
    \<Rightarrow> ('w served, 'a) eff" where
  "lifespan s describe startup client serve =
     bnd (on_rest startup) (\<lambda>_. bnd (start_policy_subscriber s describe client) (\<lambda>_.
       finally_do serve (stop_policy_subscriber describe)))"

text \<open>
  Nothing is served unless startup and the subscription succeeded. A failing subscription stops a
  production server; an error of redis-py, which is no \<open>RuntimeError\<close>, stops every server.
\<close>

lemma unserved:
  assumes "startup (sd_rest st) = (Inl e, w)"
  shows "lifespan s describe startup client serve st = (Inl e, st\<lparr>sd_rest := w\<rparr>)"
  using assms by (simp add: lifespan_def on_rest_def)

lemma failing_subscription:
  assumes "startup (sd_rest st) = (Inr (), w)" "ps_subscribe ps (se_policy_events_channel s) w = (Inl e, w1)"
  shows "\<not> is_import_error e \<Longrightarrow> \<not> is_runtime_error e \<Longrightarrow>
      lifespan s describe startup (Some ps) serve st = (Inl e, st\<lparr>sd_rest := w1\<rparr>)"
    "is_runtime_error e \<Longrightarrow> strict s \<Longrightarrow>
      fst (lifespan s describe startup (Some ps) serve st) = Inl (BootstrapError ''policy subscriber startup failed'')"
    "is_runtime_error e \<Longrightarrow> \<not> strict s \<Longrightarrow>
      \<exists>w2. lifespan s describe startup (Some ps) serve st = finally_do serve (stop_policy_subscriber describe) (st\<lparr>sd_rest := w2\<rparr>)"
  using assms by (auto simp: lifespan_def on_rest_def start_policy_subscriber_def subscriber_error_def is_import_error_def
      is_runtime_error_def split: exn.splits)

text \<open>However serving ends, the subscription it used is closed: the last call on it is \<open>close\<close>.\<close>

lemma subscription_closed:
  assumes "startup (sd_rest st) = (Inr (), w)" "ps_subscribe ps (se_policy_events_channel s) w = (Inr (), w1)"
    and "serve (st\<lparr>sd_rest := w1, sd_subscription := Some ps\<rparr>) = (r, st2)" "sd_subscription st2 = Some ps"
    and closes: "\<And>v. gone (snd (ps_close ps v))" and kept: "\<And>v event named. gone v \<Longrightarrow> gone (snd (log_event event named v))"
  shows "gone (sd_rest (snd (lifespan s describe startup (Some ps) serve st)))"
proof -
  have "st\<lparr>sd_rest := w1, sd_subscription := Some ps\<rparr> = (st\<lparr>sd_rest := w1\<rparr>)\<lparr>sd_subscription := Some ps\<rparr>" by simp
  then have run: "lifespan s describe startup (Some ps) serve st = finally_do serve (stop_policy_subscriber describe)
      (st\<lparr>sd_rest := w1, sd_subscription := Some ps\<rparr>)"
    using assms(1,2) by (simp add: lifespan_def on_rest_def start_policy_subscriber_def remember_def)
  obtain r3 v where v: "ps_close ps (sd_rest st2) = (r3, v)" by fastforce
  then have "gone v" using closes [of "sd_rest st2"] by simp
  then have "gone (sd_rest (snd (stop_policy_subscriber describe st2)))"
    using assms(4) v kept [of v]
    by (cases r3) (auto simp: stop_policy_subscriber_def on_rest_def catch_def)
  then show ?thesis using assms(3) by (auto simp: run finally_do_def split: prod.split sum.split)
qed

text \<open>The whole server, on the routes of the program.\<close>

definition keynetra_app :: "environment \<Rightarrow> (http_request \<Rightarrow> exn + api_call) \<Rightarrow> (exn \<Rightarrow> string) \<Rightarrow> (exn \<Rightarrow> string)
    \<Rightarrow> node observed limited idempotency_repository \<Rightarrow> (string \<Rightarrow> string) \<Rightarrow> node observed redis_script option
    \<Rightarrow> (node observed limited app \<Rightarrow> node observed limited app) \<Rightarrow> rat \<Rightarrow> string \<Rightarrow> rat \<Rightarrow> (rat \<Rightarrow> pyval)
    \<Rightarrow> node observed limited app" where
  "keynetra_app env route describe traceback repository sha256 redis cors now new_id duration millis =
     server_application (en_settings env) describe traceback repository sha256 redis cors now new_id duration millis
       (quietly (routes env route))"

text \<open>Behind the limiter its answers and effects are those of the stack without a log.\<close>

lemma served_as_unlogged:
  assumes "logged_stack new_id duration millis (quietly (routes env route)) request w = (r, w')"
  shows "inner_stack new_id (routes env route) request (ob_rest w) = (r, ob_rest w')"
  using stack_run [OF quietly_told assms] by metis

end
