(* ===== verification/Ports.thy ===== *)
theory Ports
  imports Api
begin

text \<open>
  The interfaces between the services and the infrastructure (\<open>services/interfaces.py\<close>): a record of
  operations for each, the implementations on the tables and caches of the program, the container of one
  request (\<open>api/dependencies.py\<close>) and the services built from it. The last lemmas say that these are the
  services the other theories are about. After them come what a database without policy states answers,
  the search by several objects, and the access routes' own way to a tenant and to the asynchronous calls.
\<close>

section \<open>Repositories\<close>

text \<open>
  A cursor that is returned is the document it encodes, as in \<open>Repositories\<close>, and the policy set is an
  argument of the views, as the implementation has it (the protocol leaves it at its default). The users
  belong to no tenant, so the implementation lists all of them for any.
\<close>

record 'w tenant_repository_port =
  tn_get_or_create :: "string \<Rightarrow> ('w, tenant_record) eff"
  tn_get_by_id :: "int \<Rightarrow> ('w, tenant_record option) eff"
  tn_bump_policy_version :: "tenant_record \<Rightarrow> ('w, tenant_record) eff"
  tn_bump_revision :: "tenant_record \<Rightarrow> ('w, tenant_record) eff"

record 'w policy_repository_port =
  pl_list_current_policies :: "int \<Rightarrow> string \<Rightarrow> ('w, policy_record list) eff"
  pl_list_current_policy_views :: "int \<Rightarrow> string \<Rightarrow> ('w, policy_view list) eff"
  pl_list_current_policy_page :: "int \<Rightarrow> nat \<Rightarrow> pydict option \<Rightarrow> ('w, policy_view list \<times> pydict option) eff"
  pl_create_policy_version :: "int \<Rightarrow> string \<Rightarrow> string \<Rightarrow> string \<Rightarrow> int \<Rightarrow> pydict \<Rightarrow> string option \<Rightarrow> string \<Rightarrow> ('w, policy_view) eff"
  pl_rollback_policy :: "int \<Rightarrow> string \<Rightarrow> int \<Rightarrow> ('w, string \<times> int) eff"
  pl_delete_policy :: "int \<Rightarrow> string \<Rightarrow> ('w, unit) eff"

record 'w auth_model_repository_port =
  am_get_model :: "int \<Rightarrow> ('w, model_row option) eff"
  am_upsert_model :: "int \<Rightarrow> string \<Rightarrow> pydict \<Rightarrow> pydict \<Rightarrow> ('w, model_row) eff"

record 'w user_repository_port =
  ur_get_user_context :: "int \<Rightarrow> ('w, pydict option) eff"
  ur_list_user_ids :: "int \<Rightarrow> ('w, int list) eff"

record 'w relationship_repository_port =
  rl_list_for_subject :: "int \<Rightarrow> string \<Rightarrow> string \<Rightarrow> ('w, relationship_record list) eff"
  rl_list_for_subject_page :: "int \<Rightarrow> string \<Rightarrow> string \<Rightarrow> nat \<Rightarrow> pydict option
    \<Rightarrow> ('w, relationship_record list \<times> pydict option) eff"
  rl_list_for_object :: "int \<Rightarrow> string \<Rightarrow> string \<Rightarrow> ('w, relationship_record list) eff"
  rl_create :: "int \<Rightarrow> relationship_record \<Rightarrow> ('w, int) eff"

record 'w audit_repository_port =
  ap_write :: "int \<Rightarrow> string \<Rightarrow> string \<Rightarrow> authorization_input \<Rightarrow> authorization_decision \<Rightarrow> string option \<Rightarrow> ('w, unit) eff"
  ap_list_page :: "int \<Rightarrow> nat \<Rightarrow> pydict option \<Rightarrow> audit_filter \<Rightarrow> ('w, audit_row list \<times> pydict option) eff"

record 'w acl_repository_port =
  ac_create_acl_entry :: "int \<Rightarrow> string \<Rightarrow> string \<Rightarrow> string \<Rightarrow> string \<Rightarrow> string \<Rightarrow> string \<Rightarrow> ('w, int) eff"
  ac_list_resource_acl :: "int \<Rightarrow> string \<Rightarrow> string \<Rightarrow> ('w, acl_record list) eff"
  ac_get_acl_entry :: "int \<Rightarrow> int \<Rightarrow> ('w, acl_record option) eff"
  ac_find_matching_acl :: "int \<Rightarrow> string \<Rightarrow> string \<Rightarrow> string \<Rightarrow> ('w, acl_record list) eff"
  ac_delete_acl_entry :: "int \<Rightarrow> int \<Rightarrow> ('w, unit) eff"

section \<open>Caches and the publisher\<close>

record 'w policy_cache_port =
  pc_get :: "string \<Rightarrow> int \<Rightarrow> ('w, policy_record list option) eff"
  pc_set :: "string \<Rightarrow> int \<Rightarrow> policy_record list \<Rightarrow> ('w, unit) eff"
  pc_invalidate :: "string \<Rightarrow> ('w, unit) eff"

record 'w relationship_cache_port =
  rch_get :: "int \<Rightarrow> string \<Rightarrow> string \<Rightarrow> ('w, relationship_record list option) eff"
  rch_set :: "int \<Rightarrow> string \<Rightarrow> string \<Rightarrow> relationship_record list \<Rightarrow> ('w, unit) eff"
  rch_invalidate :: "int \<Rightarrow> string \<Rightarrow> string \<Rightarrow> ('w, unit) eff"

record 'w acl_cache_port =
  ach_get :: "int \<Rightarrow> string \<Rightarrow> string \<Rightarrow> string \<Rightarrow> ('w, acl_record list option) eff"
  ach_set :: "int \<Rightarrow> string \<Rightarrow> string \<Rightarrow> string \<Rightarrow> acl_record list \<Rightarrow> ('w, unit) eff"
  ach_invalidate :: "int \<Rightarrow> string \<Rightarrow> string \<Rightarrow> ('w, unit) eff"

record 'w access_index_cache_port =
  ixc_get :: "int \<Rightarrow> string \<Rightarrow> string \<Rightarrow> string \<Rightarrow> ('w, access_index_entry list option) eff"
  ixc_set :: "int \<Rightarrow> string \<Rightarrow> string \<Rightarrow> string \<Rightarrow> access_index_entry list \<Rightarrow> ('w, unit) eff"
  ixc_invalidate :: "int \<Rightarrow> string \<Rightarrow> string \<Rightarrow> ('w, unit) eff"
  ixc_invalidate_tenant :: "int \<Rightarrow> ('w, unit) eff"
  ixc_invalidate_global :: "('w, unit) eff"

text \<open>Nothing in the program implements this one.\<close>

record 'w role_binding_port =
  rb_list_user_ids :: "int \<Rightarrow> ('w, int list) eff"
  rb_invalidate :: "int \<Rightarrow> string \<Rightarrow> string \<Rightarrow> ('w, unit) eff"

record 'w decision_cache_port =
  dc_get :: "string \<Rightarrow> ('w, cached_decision option) eff"
  dc_set :: "string \<Rightarrow> cached_decision \<Rightarrow> int \<Rightarrow> ('w, unit) eff"
  dc_make_key :: "string \<Rightarrow> int \<Rightarrow> authorization_input \<Rightarrow> int option \<Rightarrow> ('w, string) eff"
  dc_bump_namespace :: "string \<Rightarrow> ('w, int) eff"

record 'w policy_event_publisher =
  pe_publish_policy_update :: "string \<Rightarrow> int \<Rightarrow> ('w, unit) eff"

section \<open>The implementations\<close>

definition sql_tenants :: "world tenant_repository_port" where
  "sql_tenants = \<lparr>tn_get_or_create = (\<lambda>k. on_db (tenant_get_or_create k)), tn_get_by_id = (\<lambda>i. on_db (tenant_by_id i)),
     tn_bump_policy_version = (\<lambda>t. on_db (tenant_bump_policy_version t)),
     tn_bump_revision = (\<lambda>t. on_db (tenant_bump_revision t))\<rparr>"

definition sql_policies :: "world policy_repository_port" where
  "sql_policies = \<lparr>pl_list_current_policies = (\<lambda>t s. on_db (list_current_policies t s)),
     pl_list_current_policy_views = (\<lambda>t s. on_db (list_current_policy_views t s)),
     pl_list_current_policy_page = (\<lambda>t n c. on_db (list_current_policy_page t n c)),
     pl_create_policy_version = (\<lambda>t k a e pr co cb st. on_db (create_policy_version t k a e pr co cb st)),
     pl_rollback_policy = (\<lambda>t k v. on_db (rollback_policy_row t k v)), pl_delete_policy = (\<lambda>t k. on_db (delete_policy_rows t k))\<rparr>"

definition sql_models :: "world auth_model_repository_port" where
  "sql_models = \<lparr>am_get_model = (\<lambda>t. on_db (get_model t)), am_upsert_model = (\<lambda>t s j c. on_db (upsert_model t s j c))\<rparr>"

definition sql_users :: "world user_repository_port" where
  "sql_users = \<lparr>ur_get_user_context = (\<lambda>i. on_db (get_user_context i)), ur_list_user_ids = (\<lambda>_. on_db list_user_ids)\<rparr>"

definition sql_relationships :: "world relationship_repository_port" where
  "sql_relationships = \<lparr>rl_list_for_subject = (\<lambda>t st sid. on_db (list_for_subject t st sid)),
     rl_list_for_subject_page = (\<lambda>t st sid n c. on_db (list_for_subject_page t st sid n c)),
     rl_list_for_object = (\<lambda>t ot oid. on_db (list_for_object t ot oid)),
     rl_create = (\<lambda>t e. on_db (create_relationship_row t e))\<rparr>"

definition sql_audit :: "string \<Rightarrow> world audit_repository_port" where
  "sql_audit dialect = \<lparr>ap_write = (\<lambda>t ty i inp d c. on_db (audit_write t ty i inp d c)),
     ap_list_page = (\<lambda>t n c f. on_db (list_audit_page dialect t n c f))\<rparr>"

definition sql_acl :: "world acl_repository_port" where
  "sql_acl = \<lparr>ac_create_acl_entry = (\<lambda>t sty sid rty rid a e. on_db (create_acl_entry t sty sid rty rid a e)),
     ac_list_resource_acl = (\<lambda>t ty i. on_db (list_resource_acl t ty i)), ac_get_acl_entry = (\<lambda>t i. on_db (get_acl_entry t i)),
     ac_find_matching_acl = (\<lambda>t ty i a. on_db (find_matching_acl t ty i a)),
     ac_delete_acl_entry = (\<lambda>t i. on_db (delete_acl_entry t i))\<rparr>"

definition policy_cache_on :: "'w cache_ops \<Rightarrow> 'w policy_cache_port" where
  "policy_cache_on ops = \<lparr>pc_get = policy_cache_get ops, pc_set = policy_cache_set ops, pc_invalidate = policy_cache_invalidate ops\<rparr>"

definition relationship_cache_on :: "'w cache_ops \<Rightarrow> 'w relationship_cache_port" where
  "relationship_cache_on ops = \<lparr>rch_get = relationship_cache_get ops, rch_set = relationship_cache_set ops 30,
     rch_invalidate = relationship_cache_invalidate ops\<rparr>"

definition acl_cache_on :: "'w cache_ops \<Rightarrow> 'w acl_cache_port" where
  "acl_cache_on ops = \<lparr>ach_get = acl_cache_get ops, ach_set = acl_cache_set ops 30, ach_invalidate = acl_cache_invalidate ops\<rparr>"

definition access_index_cache_on :: "'w cache_ops \<Rightarrow> 'w access_index_cache_port" where
  "access_index_cache_on ops = \<lparr>ixc_get = index_cache_get ops, ixc_set = index_cache_set ops 30,
     ixc_invalidate = index_cache_invalidate ops, ixc_invalidate_tenant = index_cache_invalidate_tenant ops,
     ixc_invalidate_global = index_cache_invalidate_global ops\<rparr>"

definition decision_cache_on :: "'w cache_ops \<Rightarrow> (pyval \<Rightarrow> string) \<Rightarrow> 'w decision_cache_port" where
  "decision_cache_on ops digest = \<lparr>dc_get = decision_cache_get ops, dc_set = decision_cache_set ops,
     dc_make_key = make_key ops digest, dc_bump_namespace = bump_namespace ops\<rparr>"

section \<open>The container\<close>

record 'w container =
  ct_settings :: settings
  ct_tenants :: "'w tenant_repository_port"
  ct_policies :: "'w policy_repository_port"
  ct_users :: "'w user_repository_port"
  ct_relationships :: "'w relationship_repository_port"
  ct_acl :: "'w acl_repository_port"
  ct_audit :: "'w audit_repository_port"
  ct_models :: "'w auth_model_repository_port"
  ct_policy_cache :: "'w policy_cache_port"
  ct_relationship_cache :: "'w relationship_cache_port"
  ct_acl_cache :: "'w acl_cache_port"
  ct_index_cache :: "'w access_index_cache_port"
  ct_decision_cache :: "'w decision_cache_port"
  ct_publisher :: "'w policy_event_publisher"

definition build_services :: "settings \<Rightarrow> string \<Rightarrow> (pyval \<Rightarrow> string) \<Rightarrow> world container" where
  "build_services s dialect digest = \<lparr>ct_settings = s, ct_tenants = sql_tenants, ct_policies = sql_policies,
     ct_users = sql_users, ct_relationships = sql_relationships, ct_acl = sql_acl, ct_audit = sql_audit dialect,
     ct_models = sql_models, ct_policy_cache = policy_cache_on world_cache,
     ct_relationship_cache = relationship_cache_on world_cache, ct_acl_cache = acl_cache_on world_cache,
     ct_index_cache = access_index_cache_on world_cache, ct_decision_cache = decision_cache_on world_cache digest,
     ct_publisher = \<lparr>pe_publish_policy_update = publish\<rparr>\<rparr>"

definition tenants_of :: "'w container \<Rightarrow> 'w tenant_repo" where
  "tenants_of c = \<lparr>tp_get_or_create = tn_get_or_create (ct_tenants c),
     tp_bump_policy_version = tn_bump_policy_version (ct_tenants c), tp_bump_revision = tn_bump_revision (ct_tenants c)\<rparr>"

definition policy_service_of :: "'w container \<Rightarrow> (string \<Rightarrow> ('w, unit) eff)
    \<Rightarrow> (string \<Rightarrow> int \<Rightarrow> decision_graph \<Rightarrow> ('w, unit) eff) \<Rightarrow> 'w policy_service" where
  "policy_service_of c drop_graphs keep_graph = \<lparr>ps_tenants = tenants_of c,
     ps_create_version = pl_create_policy_version (ct_policies c), ps_rollback = pl_rollback_policy (ct_policies c),
     ps_delete = pl_delete_policy (ct_policies c), ps_list_current = pl_list_current_policies (ct_policies c),
     ps_list_views = pl_list_current_policy_views (ct_policies c), ps_list_page = pl_list_current_policy_page (ct_policies c),
     ps_policy_cache_invalidate = pc_invalidate (ct_policy_cache c), ps_bump_namespace = dc_bump_namespace (ct_decision_cache c),
     ps_graphs_invalidate = drop_graphs, ps_graphs_set = keep_graph, ps_publish = pe_publish_policy_update (ct_publisher c)\<rparr>"

definition relationship_service_of :: "'w container \<Rightarrow> 'w relationship_service" where
  "relationship_service_of c = \<lparr>rs_tenants = tenants_of c, rs_list_for_subject = rl_list_for_subject (ct_relationships c),
     rs_list_page = rl_list_for_subject_page (ct_relationships c), rs_create = rl_create (ct_relationships c),
     rs_cache_get = rch_get (ct_relationship_cache c), rs_cache_set = rch_set (ct_relationship_cache c),
     rs_cache_invalidate = rch_invalidate (ct_relationship_cache c),
     rs_index_invalidate_tenant = Some (ixc_invalidate_tenant (ct_index_cache c)),
     rs_bump_namespace = dc_bump_namespace (ct_decision_cache c)\<rparr>"

text \<open>
  The services of the other theories are those built from the container: the policy and relationship
  service as they are, the authorization service and the indexer field by field, on the site around the
  world.
\<close>

lemma policy_service_wired: "policy_service_of (build_services s dialect digest) graphs_invalidate graphs_set = world_policies"
  by (simp add: policy_service_of_def build_services_def world_policies_def tenants_of_def world_tenants_def sql_tenants_def
      sql_policies_def policy_cache_on_def decision_cache_on_def)

lemma relationship_service_wired: "relationship_service_of (build_services s dialect digest) = world_relationships"
  by (simp add: relationship_service_of_def build_services_def world_relationships_def tenants_of_def world_tenants_def
      sql_tenants_def sql_relationships_def relationship_cache_on_def access_index_cache_on_def decision_cache_on_def)

lemma authorization_service_wired:
  fixes s dialect digest parse_json load_files request_id
  defines "svc \<equiv> build_service s digest parse_json load_files request_id" and "c \<equiv> build_services s dialect digest"
  shows "as_settings svc = ct_settings c"
    "tp_get_or_create (as_tenants svc) k = on_world (tn_get_or_create (ct_tenants c) k)"
    "as_list_current svc t p = on_world (pl_list_current_policies (ct_policies c) t p)"
    "as_user_context svc i = on_world (ur_get_user_context (ct_users c) i)"
    "as_list_for_subject svc t ty i' = on_world (rl_list_for_subject (ct_relationships c) t ty i')"
    "as_audit_write svc t ty pid inp d cid = on_world (ap_write (ct_audit c) t ty pid inp d cid)"
    "as_policy_cache_get svc k v = on_world (pc_get (ct_policy_cache c) k v)"
    "as_policy_cache_set svc k v ps = on_world (pc_set (ct_policy_cache c) k v ps)"
    "as_relationship_cache_get svc t ty i' = on_world (rch_get (ct_relationship_cache c) t ty i')"
    "as_relationship_cache_set svc t ty i' rs = on_world (rch_set (ct_relationship_cache c) t ty i' rs)"
    "as_make_key svc k v inp r = on_world (dc_make_key (ct_decision_cache c) k v inp r)"
    "as_decision_get svc k = on_world (dc_get (ct_decision_cache c) k)"
    "as_decision_set svc k cd ttl = on_world (dc_set (ct_decision_cache c) k cd ttl)"
    "the (as_get_model svc) t = bnd (on_world (am_get_model (ct_models c) t)) (\<lambda>m. ret (map_option mo_schema_text m))"
  by (simp_all add: svc_def c_def build_service_def build_services_def site_tenants_def world_tenants_def sql_tenants_def
      sql_policies_def sql_users_def sql_relationships_def sql_audit_def policy_cache_on_def relationship_cache_on_def
      decision_cache_on_def sql_models_def site_model_text_def)

lemma indexer_wired:
  fixes s dialect digest
  defines "c \<equiv> build_services s dialect digest"
  shows "ip_index_get site_index t ty i a = on_world (ixc_get (ct_index_cache c) t ty i a)"
    "ip_index_set site_index t ty i a es = on_world (ixc_set (ct_index_cache c) t ty i a es)"
    "ip_index_invalidate site_index t ty i = on_world (ixc_invalidate (ct_index_cache c) t ty i)"
    "ip_index_invalidate_tenant site_index t = on_world (ixc_invalidate_tenant (ct_index_cache c) t)"
    "ip_acl_get site_index t ty i a = on_world (ach_get (ct_acl_cache c) t ty i a)"
    "ip_acl_set site_index t ty i a acls = on_world (ach_set (ct_acl_cache c) t ty i a acls)"
    "ip_acl_invalidate site_index t ty i = on_world (ach_invalidate (ct_acl_cache c) t ty i)"
    "ip_find_acl site_index t ty i a = on_world (ac_find_matching_acl (ct_acl c) t ty i a)"
    "ip_list_for_object site_index t ty i = on_world (rl_list_for_object (ct_relationships c) t ty i)"
  by (simp_all add: c_def build_services_def site_index_def access_index_cache_on_def acl_cache_on_def sql_acl_def
      sql_relationships_def)

section \<open>Databases from before policy states\<close>

text \<open>
  Without the column \<open>state\<close> the query fails with an \<open>OperationalError\<close> and a second one reads the
  current versions of the tenant, whatever policy set was asked for. The conditions of such a row may be
  a JSON text; \<open>raw\<close> gives what the column of a version holds.
\<close>

definition legacy_conditions :: "(string \<Rightarrow> pyval option) \<Rightarrow> pyval \<Rightarrow> pydict" where
  "legacy_conditions parse_json v =
     (case (case v of PStr text \<Rightarrow> (case parse_json text of Some u \<Rightarrow> u | None \<Rightarrow> PDict []) | _ \<Rightarrow> v) of
        PDict d \<Rightarrow> d | _ \<Rightarrow> [])"

definition legacy_current_policy_rows :: "(string \<Rightarrow> pyval option) \<Rightarrow> (version_row \<Rightarrow> pyval) \<Rightarrow> database \<Rightarrow> int
    \<Rightarrow> (version_row \<times> policy_row) list" where
  "legacy_current_policy_rows parse_json raw db tenant_id =
     List.map_filter (\<lambda>v. map_option (\<lambda>p. (v\<lparr>ve_conditions := legacy_conditions parse_json (raw v), ve_state := ''active''\<rparr>, p))
         (current_of db tenant_id v))
       (sort_key version_order (db_versions db))"

definition list_policies_any :: "bool \<Rightarrow> (string \<Rightarrow> pyval option) \<Rightarrow> (version_row \<Rightarrow> pyval) \<Rightarrow> int \<Rightarrow> string
    \<Rightarrow> (database, policy_record list) eff" where
  "list_policies_any has_state parse_json raw tenant_id policy_set db =
     (if has_state then list_current_policies tenant_id policy_set db
      else (Inr (map policy_of_rows (legacy_current_policy_rows parse_json raw db tenant_id)), db))"

text \<open>There every policy set is the current one.\<close>

lemma legacy_ignores_policy_set:
  "list_policies_any False parse_json raw t policy_set = list_policies_any False parse_json raw t other"
  by (simp add: list_policies_any_def fun_eq_iff)

section \<open>Relationships of several objects\<close>

definition objects_order :: "relationship_row \<Rightarrow> string \<times> string \<times> string \<times> string \<times> string \<times> int" where
  "objects_order r = (rr_object_type (rel_edge r), rr_object_id (rel_edge r), object_order r)"

definition list_for_objects :: "int \<Rightarrow> (string \<times> string) list
    \<Rightarrow> (database, ((string \<times> string) \<times> relationship_record list) list) eff" where
  "list_for_objects tenant_id objects db =
     (let rows = sort_key objects_order (filter (\<lambda>r. rel_tenant r = tenant_id
            \<and> (rr_object_type (rel_edge r), rr_object_id (rel_edge r)) \<in> set objects) (db_relationships db));
          grouped = foldl (\<lambda>d x. dset d x []) [] objects
      in (Inr (if objects = [] then []
               else foldl (\<lambda>d r. let k = (rr_object_type (rel_edge r), rr_object_id (rel_edge r)) in
                      dset d k (dget_or d k [] @ [rel_edge r])) grouped rows), db))"

lemma dget_grouped:
  "dget (foldl (\<lambda>d r. dset d (key r) (dget_or d (key r) [] @ [edge r])) d rows) x
     = (if x \<in> key ` set rows then Some (dget_or d x [] @ map edge (filter (\<lambda>r. key r = x) rows)) else dget d x)"
  by (induction rows arbitrary: d) (auto simp: dget_or_def image_iff filter_empty_conv split: option.splits)

lemma dget_groups: "dget (foldl (\<lambda>d x. dset d x v) d objects) x = (if x \<in> set objects then Some v else dget d x)"
  by (induction objects arbitrary: d) auto

text \<open>For each object asked for, exactly its relationships.\<close>

lemma list_for_objects_complete:
  assumes "list_for_objects tenant_id objects db = (Inr groups, db')" "x \<in> set objects"
  shows "\<exists>rs. dget groups x = Some rs \<and> set rs = {rel_edge r |r. r \<in> set (db_relationships db) \<and> rel_tenant r = tenant_id
    \<and> (rr_object_type (rel_edge r), rr_object_id (rel_edge r)) = x}"
proof -
  let ?key = "\<lambda>r. (rr_object_type (rel_edge r), rr_object_id (rel_edge r))"
  let ?rows = "sort_key objects_order (filter (\<lambda>r. rel_tenant r = tenant_id \<and> ?key r \<in> set objects) (db_relationships db))"
  have groups: "groups = foldl (\<lambda>d r. dset d (?key r) (dget_or d (?key r) [] @ [rel_edge r]))
      (foldl (\<lambda>d x. dset d x []) [] objects) ?rows"
    using assms by (auto simp: list_for_objects_def Let_def split: if_splits)
  have "dget groups x = Some (map rel_edge (filter (\<lambda>r. ?key r = x) ?rows))"
    unfolding groups dget_grouped [where key = ?key and edge = rel_edge] using assms(2)
    by (auto simp: dget_groups dget_or_def image_iff filter_empty_conv)
  moreover have "set (map rel_edge (filter (\<lambda>r. ?key r = x) ?rows)) = {rel_edge r |r. r \<in> set (db_relationships db)
      \<and> rel_tenant r = tenant_id \<and> ?key r = x}"
    using assms(2) by auto
  ultimately show ?thesis by blast
qed

section \<open>The tenant and the calls of the access routes\<close>

text \<open>
  \<open>_resolve_tenant_key\<close> of \<open>api/routes/access.py\<close> also writes the tenant to the state of the request; with
  no settings at hand it counts as development.
\<close>

definition resolve_access_tenant :: "http_request \<Rightarrow> pydict \<Rightarrow> settings option \<Rightarrow> (string \<times> http_request) result" where
  "resolve_access_tenant request p s =
     (let found = (\<lambda>t. Inr (t, request\<lparr>rq_tenant := Some t\<rparr>)) in
      case normalize_tenant_key (or_else (header request ''X-Tenant-Id'') (rq_tenant request)) of
        Some requested \<Rightarrow> found requested
      | None \<Rightarrow> (case tenant_from_principal p of
          Some principal_tenant \<Rightarrow> found principal_tenant
        | None \<Rightarrow> if (case s of None \<Rightarrow> False | Some cfg \<Rightarrow> se_strict_tenancy cfg) then Inl missing_tenant
                   else if (case s of None \<Rightarrow> True | Some cfg \<Rightarrow> is_development cfg) then found default_tenant_key
                   else Inl missing_tenant))"

text \<open>It finds the tenant the management endpoints find.\<close>

lemma resolve_access_tenant_agrees:
  "resolve_access_tenant request p (Some s)
     = ebind (resolve_request_tenant_key request p s) (\<lambda>t. Inr (t, request\<lparr>rq_tenant := Some t\<rparr>))"
  by (simp add: resolve_access_tenant_def resolve_request_tenant_key_def Let_def split: option.split)

text \<open>\<open>asyncio.to_thread\<close> runs the call on a thread of its own and waits for it.\<close>

definition to_thread :: "('w, 'a) eff \<Rightarrow> ('w, 'a) eff" where
  "to_thread call w = call w"

definition authorize_async :: "'w auth_service \<Rightarrow> auth_request \<Rightarrow> ('w, auth_result) eff" where
  "authorize_async svc rq = to_thread (authorize svc rq)"

definition authorize_batch_async :: "'w auth_service \<Rightarrow> batch_request \<Rightarrow> ('w, auth_result list) eff" where
  "authorize_batch_async svc rq = to_thread (authorize_batch svc rq)"

definition call_service :: "'w auth_service \<Rightarrow> auth_request \<Rightarrow> ('w, auth_result) eff" where
  "call_service svc rq = (if se_async_authorization_enabled (as_settings svc) then authorize_async svc rq else authorize svc rq)"

lemma same_either_way: "call_service svc rq = authorize svc rq"
  by (simp add: call_service_def authorize_async_def to_thread_def fun_eq_iff)

end
