(* ===== verification/Schemas.thy ===== *)
theory Schemas
  imports System
begin

text \<open>
  The declared shapes of answers (\<open>domain/schemas/\<close> and the models next to the routes) and what it means
  that a document has one: the declared fields with values of exactly their types. The theorem says that
  the answers of every handler have the shape its route declares.
\<close>

section \<open>Types of fields\<close>

text \<open>
  A model is its fields: name, type and whether it is required. \<open>TDict t\<close> is \<open>dict[str, t]\<close>, a time is
  held as its ISO text. Fields a model does not declare are ignored.
\<close>

datatype field_type = TInt | TStr | TBool | TNull | TAny | TTime | TEither field_type field_type
  | TList field_type | TDict field_type | TModel "(string \<times> field_type \<times> bool) list"

fun conforms :: "field_type \<Rightarrow> pyval \<Rightarrow> bool"
  and fields_conform :: "(string \<times> field_type \<times> bool) list \<Rightarrow> pydict \<Rightarrow> bool" where
  "conforms TInt v = (case v of PInt _ \<Rightarrow> True | _ \<Rightarrow> False)"
| "conforms TStr v = (case v of PStr _ \<Rightarrow> True | _ \<Rightarrow> False)"
| "conforms TBool v = (case v of PBool _ \<Rightarrow> True | _ \<Rightarrow> False)"
| "conforms TNull v = (v = PNone)"
| "conforms TAny v = True"
| "conforms TTime v = (case v of PStr _ \<Rightarrow> True | _ \<Rightarrow> False)"
| "conforms (TEither s t) v = (conforms s v \<or> conforms t v)"
| "conforms (TList t) v = (case v of PList xs \<Rightarrow> list_all (conforms t) xs | _ \<Rightarrow> False)"
| "conforms (TDict t) v = (case v of PDict d \<Rightarrow> list_all (\<lambda>(k, x). conforms t x) d | _ \<Rightarrow> False)"
| "conforms (TModel fs) v = (case v of PDict d \<Rightarrow> fields_conform fs d | _ \<Rightarrow> False)"
| "fields_conform [] d = True"
| "fields_conform ((name, t, required) # fs) d =
     ((case dget d name of None \<Rightarrow> \<not> required | Some v \<Rightarrow> conforms t v) \<and> fields_conform fs d)"

abbreviation TOptional :: "field_type \<Rightarrow> field_type" where
  "TOptional t \<equiv> TEither t TNull"

abbreviation TObject :: field_type where
  "TObject \<equiv> TDict TAny"

section \<open>The models\<close>

definition access_decision_response :: field_type where
  "access_decision_response = TModel [(''allowed'', TBool, True), (''decision'', TStr, True),
     (''matched_policies'', TList TStr, False), (''reason'', TOptional TStr, False), (''policy_id'', TOptional TStr, False),
     (''explain_trace'', TList TObject, False), (''revision'', TOptional TInt, False)]"

definition simulation_response :: field_type where
  "simulation_response = TModel [(''decision'', TStr, True), (''matched_policies'', TList TStr, True),
     (''reason'', TOptional TStr, False), (''policy_id'', TOptional TStr, False), (''explain_trace'', TList TObject, False),
     (''failed_conditions'', TList TStr, False), (''revision'', TOptional TInt, False)]"

definition batch_access_result :: field_type where
  "batch_access_result = TModel [(''action'', TStr, True), (''allowed'', TBool, True), (''revision'', TOptional TInt, False)]"

definition batch_access_response :: field_type where
  "batch_access_response = TModel [(''results'', TList batch_access_result, True), (''revision'', TOptional TInt, False)]"

definition meta_body :: field_type where
  "meta_body = TModel [(''request_id'', TOptional TStr, False), (''limit'', TOptional TInt, False),
     (''next_cursor'', TOptional TStr, False), (''extra'', TObject, False)]"

definition success_of :: "field_type \<Rightarrow> field_type" where
  "success_of payload = TModel [(''data'', payload, True), (''meta'', meta_body, False), (''error'', TNull, False)]"

definition error_response :: field_type where
  "error_response = TModel [(''data'', TNull, False), (''error'',
     TModel [(''code'', TStr, True), (''message'', TStr, True), (''details'', TAny, False)], True)]"

definition named_model :: "string \<Rightarrow> field_type" where
  "named_model field = TModel [(''id'', TInt, True), (field, TStr, True)]"

abbreviation role_out_model :: field_type where
  "role_out_model \<equiv> named_model ''name''"

abbreviation permission_out_model :: field_type where
  "permission_out_model \<equiv> named_model ''action''"

definition policy_out_model :: field_type where
  "policy_out_model = TModel [(''id'', TInt, True), (''action'', TStr, True), (''effect'', TStr, True),
     (''priority'', TInt, True), (''state'', TStr, False), (''conditions'', TObject, True)]"

definition acl_create_fields :: "(string \<times> field_type \<times> bool) list" where
  "acl_create_fields = [(''subject_type'', TStr, True), (''subject_id'', TStr, True), (''resource_type'', TStr, True),
     (''resource_id'', TStr, True), (''action'', TStr, True), (''effect'', TStr, True)]"

definition acl_out_model :: field_type where
  "acl_out_model = TModel (acl_create_fields
     @ [(''id'', TInt, True), (''tenant_id'', TInt, True), (''created_at'', TOptional TTime, False)])"

definition relationship_fields :: "(string \<times> field_type \<times> bool) list" where
  "relationship_fields = [(''subject_type'', TStr, True), (''subject_id'', TStr, True), (''relation'', TStr, True),
     (''object_type'', TStr, True), (''object_id'', TStr, True)]"

definition relationship_out_model :: field_type where
  "relationship_out_model = TModel (relationship_fields @ [(''id'', TInt, True)])"

definition audit_record_out :: field_type where
  "audit_record_out = TModel [(''id'', TInt, True), (''principal_type'', TStr, True), (''principal_id'', TStr, True),
     (''correlation_id'', TOptional TStr, False), (''user'', TObject, True), (''action'', TStr, True),
     (''resource'', TObject, True), (''decision'', TStr, True), (''matched_policies'', TList TAny, True),
     (''reason'', TOptional TStr, False), (''evaluated_rules'', TList TAny, True), (''failed_conditions'', TList TAny, True),
     (''created_at'', TTime, True)]"

definition admin_login_response :: field_type where
  "admin_login_response = TModel [(''access_token'', TStr, True), (''token_type'', TStr, False), (''expires_in'', TInt, True),
     (''role'', TStr, False), (''tenant_key'', TStr, True)]"

definition auth_model_out :: field_type where
  "auth_model_out = TModel [(''id'', TInt, True), (''tenant_id'', TInt, True), (''schema'', TStr, True),
     (''parsed'', TObject, True), (''compiled'', TObject, True)]"

definition policy_simulation_response :: field_type where
  "policy_simulation_response = TModel [(''decision_before'', TObject, True), (''decision_after'', TObject, True)]"

definition impact_analysis_response :: field_type where
  "impact_analysis_response = TModel [(''gained_access'', TList TInt, False), (''lost_access'', TList TInt, False)]"

section \<open>The response model of every route\<close>

fun open_model :: "open_endpoint \<Rightarrow> field_type" where
  "open_model Health = TDict TStr"
| "open_model Live = TDict TStr"
| "open_model Ready = TObject"
| "open_model SampleData = TObject"
| "open_model (SeedSample _) = TObject"
| "open_model (Login _ _) = admin_login_response"

fun access_model :: "access_endpoint \<Rightarrow> field_type" where
  "access_model (CheckAccess _ _) = access_decision_response"
| "access_model (Simulate _) = simulation_response"
| "access_model (CheckBatch _ _) = batch_access_response"

fun tenant_model :: "tenant_endpoint \<Rightarrow> field_type" where
  "tenant_model (CreateAcl _) = acl_out_model"
| "tenant_model (ListAcl _ _) = TList acl_out_model"
| "tenant_model (DeleteAcl _) = TDict TInt"
| "tenant_model (ListEdges _ _ _ _) = TList (TDict TStr)"
| "tenant_model (CreateEdge _) = relationship_out_model"
| "tenant_model (ListPolicies _ _) = TList policy_out_model"
| "tenant_model (CreatePolicy _) = policy_out_model"
| "tenant_model (UpdatePolicy _ _) = policy_out_model"
| "tenant_model (CreateFromDsl _) = policy_out_model"
| "tenant_model (DeletePolicy _) = TDict TStr"
| "tenant_model (RollbackPolicy _ _) = TDict (TEither TInt TStr)"
| "tenant_model (ListAudit _ _ _) = TList audit_record_out"
| "tenant_model (CreateModel _) = auth_model_out"
| "tenant_model GetModel = auth_model_out"
| "tenant_model (SimulatePolicy _ _) = policy_simulation_response"
| "tenant_model (ImpactAnalysis _) = impact_analysis_response"
| "tenant_model (Playground _ _ _ _ _) = TObject"

text \<open>Creating and renaming a role or permission answers without an envelope.\<close>

fun rbac_model :: "rbac_endpoint \<Rightarrow> field_type" where
  "rbac_model (ListRoles _ _) = success_of (TList role_out_model)"
| "rbac_model (CreateRole _) = role_out_model"
| "rbac_model (UpdateRole _ _) = role_out_model"
| "rbac_model (DeleteRole _) = success_of (TDict TInt)"
| "rbac_model (RolePermissions _) = success_of (TList permission_out_model)"
| "rbac_model (LinkPermission _ _) = success_of permission_out_model"
| "rbac_model (UnlinkPermission _ _) = success_of (TDict TInt)"
| "rbac_model (ListPermissions _ _) = success_of (TList permission_out_model)"
| "rbac_model (CreatePermission _) = permission_out_model"
| "rbac_model (UpdatePermission _ _) = permission_out_model"
| "rbac_model (DeletePermission _) = success_of (TDict TInt)"
| "rbac_model (PermissionRoles _) = success_of (TList role_out_model)"

definition response_model :: "api_call \<Rightarrow> field_type" where
  "response_model call = (case call of
     OpenCall e \<Rightarrow> success_of (open_model e)
   | AccessCall e \<Rightarrow> success_of (access_model e)
   | TenantCall e \<Rightarrow> success_of (tenant_model e)
   | RbacCall e \<Rightarrow> rbac_model e)"

section \<open>Every document conforms\<close>

lemma conforms_ostr [simp]: "(case ostr_val v of PStr x \<Rightarrow> True | _ \<Rightarrow> False) \<or> ostr_val v = PNone"
  by (cases v) simp_all

lemma conforms_dict [simp]: "conforms TObject (PDict d)" "conforms (TList TObject) (PList (map (\<lambda>x. PDict (f x)) xs))"
  by (auto simp: list_all_iff)

lemma conforms_texts [simp]: "conforms (TList TStr) (PList (map PStr xs))"
  "conforms (TList TAny) (PList vs)" "conforms (TList TInt) (PList (map PInt is))"
  by (simp_all add: list_all_iff)

lemma conforms_rows: "(\<And>x. x \<in> set xs \<Longrightarrow> conforms t (f x)) \<Longrightarrow> conforms (TList t) (PList (map f xs))"
  by (simp add: list_all_iff)

lemma success_conforms:
  assumes "conforms t data"
  shows "conforms (success_of t) (success_response data request_id limit next_cursor meta)"
  using assms by (cases limit) (simp_all add: success_of_def success_response_def meta_body_def oint_val_def list_all_iff split_beta)

lemma answer_conforms: "conforms t data \<Longrightarrow> conforms (success_of t) (answer_with request data)"
  unfolding answer_with_def by (rule success_conforms)

lemma page_conforms:
  "(\<And>row. row \<in> set rows \<Longrightarrow> conforms t (PDict row)) \<Longrightarrow> conforms (success_of (TList t)) (page_answer request limit next_cursor meta rows)"
  unfolding page_answer_def by (intro success_conforms conforms_rows)

lemma documents_conform:
  "conforms access_decision_response (access_doc r)"
  "conforms simulation_response (PDict (verdict_doc d
     @ [(''failed_conditions'', PList (map PStr (ad_failed_conditions d))), (''revision'', PInt revision)]))"
  "conforms batch_access_response (batch_doc items results)"
  "conforms acl_out_model (PDict (acl_out payload acl_id tenant_id created_at))"
  "conforms relationship_out_model (PDict (relationship_to_dict edge @ [(''id'', PInt i)]))"
  "conforms (TDict TStr) (PDict (relationship_to_dict edge))"
  "conforms policy_out_model (PDict (policy_out v state))"
  "conforms policy_out_model (PDict (listed_policy_out (policy_view_row v)))"
  "conforms audit_record_out (PDict (audit_out a))"
  "conforms auth_model_out (PDict (model_out m))"
  "conforms (named_model field) (PDict (named_out field x)) \<or> field = ''id''"
proof -
  note docs = access_decision_response_def access_doc_def verdict_doc_def trace_doc_def simulation_response_def
    batch_access_response_def batch_access_result_def batch_doc_def acl_out_model_def acl_create_fields_def acl_out_def
    relationship_out_model_def relationship_fields_def relationship_to_dict_def
  note docs' = policy_out_model_def policy_out_def listed_policy_out_def policy_view_row_def audit_record_out_def audit_out_def
    auth_model_out_def model_out_def named_model_def named_out_def
  show "conforms access_decision_response (access_doc r)" by (simp add: docs list_all_iff split_beta)
  show "conforms simulation_response (PDict (verdict_doc d
     @ [(''failed_conditions'', PList (map PStr (ad_failed_conditions d))), (''revision'', PInt revision)]))"
    by (simp add: docs list_all_iff split_beta)
  show "conforms batch_access_response (batch_doc items results)"
    by (cases results) (auto simp: docs list_all_iff split_beta)
  show "conforms acl_out_model (PDict (acl_out payload acl_id tenant_id created_at))" by (simp add: docs)
  show "conforms relationship_out_model (PDict (relationship_to_dict edge @ [(''id'', PInt i)]))"
    "conforms (TDict TStr) (PDict (relationship_to_dict edge))" by (simp_all add: docs)
  show "conforms policy_out_model (PDict (policy_out v state))" "conforms auth_model_out (PDict (model_out m))"
    by (simp_all add: docs' list_all_iff split_beta)
  show "conforms policy_out_model (PDict (listed_policy_out (policy_view_row v)))"
    by (simp add: docs' dget_or_def list_all_iff split_beta)
  show "conforms audit_record_out (PDict (audit_out a))" by (simp add: docs' list_all_iff split_beta)
  show "conforms (named_model field) (PDict (named_out field x)) \<or> field = ''id''" by (simp add: docs')
qed

text \<open>A call whose value, when it returns one, conforms.\<close>

definition answers :: "field_type \<Rightarrow> ('w, pyval) eff \<Rightarrow> bool" where
  "answers t m = (\<forall>w doc w'. m w = (Inr doc, w') \<longrightarrow> conforms t doc)"

definition gives :: "('a \<Rightarrow> bool) \<Rightarrow> ('w, 'a) eff \<Rightarrow> bool" where
  "gives Q m = (\<forall>w x w'. m w = (Inr x, w') \<longrightarrow> Q x)"

named_theorems answers_rules \<open>what composed calls answer\<close>

lemma answers_basic [answers_rules]:
  "conforms t doc \<Longrightarrow> answers t (ret doc)" "answers t (throw e)"
  "(\<And>x. answers t (f x)) \<Longrightarrow> answers t (bnd m f)"
  by (auto simp: answers_def bnd_Inr_iff)

lemma answers_value: "gives Q m \<Longrightarrow> (\<And>x. Q x \<Longrightarrow> answers t (f x)) \<Longrightarrow> answers t (bnd m f)"
  unfolding answers_def gives_def bnd_Inr_iff by blast

lemma answers_limit [answers_rules]: "answers t m \<Longrightarrow> answers t (with_limit limit m)"
  by (simp add: with_limit_def answers_basic)

lemma gives_rules:
  "Q x \<Longrightarrow> gives Q (ret x)" "(\<And>y. gives Q (f y)) \<Longrightarrow> gives Q (bnd call f)" "gives Q (throw e)"
  "gives Q m \<Longrightarrow> gives Q (sql_guarded m)" "gives Q k \<Longrightarrow> gives Q (on_world k)"
  by (auto simp: gives_def bnd_Inr_iff sql_guarded_def catch_def on_world_def split: prod.splits sum.splits if_splits)

lemma access_answers: "answers (success_of (access_model e)) (access_call env request p e)"
  by (cases e) (auto simp: access_call_def check_access_route_def simulate_access_def check_access_batch_def
      intro!: answers_rules answer_conforms documents_conform)

lemma edges_given: "gives (\<lambda>(rows, c). \<exists>es. rows = map relationship_to_dict es) (list_relationships_page svc k st sid n c)"
  unfolding list_relationships_page_def by (intro gives_rules) (auto simp: gives_def split: prod.splits)

lemma policies_given: "gives (\<lambda>(items, c). \<exists>vs. items = map policy_view_row vs) (list_policies_page svc k n c)"
  unfolding list_policies_page_def by (intro gives_rules) (auto simp: gives_def split: prod.splits)

lemma edge_texts [simp]: "list_all (\<lambda>(k, v). conforms TStr v) (relationship_to_dict edge)"
  by (simp add: relationship_to_dict_def)

lemma any_entries [simp]: "list_all (\<lambda>(k, v). conforms TAny v) d"
  by (auto simp: list_all_iff)

lemma int_items [simp]: "list_all (conforms TInt) (map PInt is)"
  by (auto simp: list_all_iff)

lemma answered_doc:
  assumes "answered status m s = (Inr response, s')" "answers t m"
  shows "\<exists>doc. response = json_response (rs_status response) doc \<and> conforms t doc"
proof -
  from assms(1) obtain doc w where "m s = (Inr doc, w)" "response = json_response status doc"
    by (auto simp: answered_def bnd_Inr_iff)
  with assms(2) show ?thesis unfolding answers_def by (intro exI [of _ doc]) auto
qed

lemma tenant_answers: "answers (success_of (tenant_model e)) (tenant_call env request p access e)"
proof (cases e)
  case (ListEdges st sid n c)
  have "gives (\<lambda>(rows, next_cursor). \<exists>es. rows = map relationship_to_dict es)
      (sql_guarded (bnd (lift (decode_cursor (fp_json (en_files env)) c)) (\<lambda>decoded.
         on_world (list_relationships_page world_relationships (aa_tenant_key access) st sid (nat n) decoded))))"
    by (intro gives_rules edges_given)
  note given = answers_value [OF this]
  have "answers (success_of (TList (TDict TStr))) (list_edges env request access st sid n c)"
    unfolding list_edges_def by (intro answers_limit given) (auto intro!: answers_rules page_conforms documents_conform)
  then show ?thesis by (simp add: ListEdges tenant_call_def)
next
  case (ListPolicies n c)
  have "gives (\<lambda>((items, next_cursor), warnings). \<exists>vs. items = map policy_view_row vs)
      (sql_guarded (bnd (bnd (lift (decode_cursor (fp_json (en_files env)) c)) (\<lambda>decoded.
           on_world (list_policies_page world_policies (aa_tenant_key access) (nat n) decoded))) (\<lambda>page.
         bnd (lint_tenant (aa_tenant_key access)) (\<lambda>warnings. ret (page, warnings)))))" (is "gives _ (sql_guarded (bnd ?m _))")
  proof -
    have "gives (\<lambda>(items, next_cursor). \<exists>vs. items = map policy_view_row vs) ?m" by (intro gives_rules policies_given)
    then have "gives (\<lambda>((items, next_cursor), warnings). \<exists>vs. items = map policy_view_row vs)
        (bnd ?m (\<lambda>page. bnd (lint_tenant (aa_tenant_key access)) (\<lambda>warnings. ret (page, warnings))))"
      unfolding gives_def bnd_Inr_iff by fastforce
    then show ?thesis by (rule gives_rules(4))
  qed
  note given = answers_value [OF this]
  have "answers (success_of (TList policy_out_model)) (list_policies_route env request access n c)"
    unfolding list_policies_route_def by (intro answers_limit given) (auto intro!: answers_rules page_conforms documents_conform)
  then show ?thesis by (simp add: ListPolicies tenant_call_def)
qed (auto simp: tenant_call_def create_acl_def list_acl_def delete_acl_def create_edge_def create_policy_route_def
    update_policy_route_def create_policy_from_dsl_def save_policy_def delete_policy_route_def rollback_policy_route_def
    list_audit_logs_def model_route_def simulate_policy_def impact_analysis_def playground_evaluate_def
    acl_row_out_def policy_simulation_response_def impact_analysis_response_def
    intro!: answers_rules answer_conforms page_conforms success_conforms conforms_rows documents_conform split: prod.split)

lemma named_conforms [simp]:
  "conforms role_out_model (PDict (named_out ''name'' x))" "conforms permission_out_model (PDict (named_out ''action'' x))"
  by (simp_all add: named_model_def named_out_def)

lemma rbac_answers: "answers (rbac_model e) (rbac_endpoint_call env request access e)"
proof -
  have permission: "gives (conforms permission_out_model) (permission_out i)" for i
    by (auto simp: gives_def permission_out_def split: option.splits)
  have "answers (success_of permission_out_model) (link_route request access i j)" for i j
    unfolding link_route_def by (intro answers_basic(3) answers_value [OF permission]) (auto intro!: answers_rules answer_conforms)
  then show ?thesis
    by (cases e) (auto simp: rbac_endpoint_call_def named_listing_def named_answer_def deleted_answer_def
        role_permissions_route_def permission_roles_route_def unlink_route_def Let_def
        intro!: answers_rules answer_conforms page_conforms conforms_rows split: prod.split)
qed

lemma open_answers:
  assumes "open_call env request e s = (Inr response, s')"
  shows "\<exists>doc. response = json_response (rs_status response) doc \<and> conforms (success_of (open_model e)) doc"
proof -
  have login: "gives (\<lambda>d. conforms admin_login_response (PDict d)) (lift (admin_login cfg au u p))" for cfg au u p
    by (auto simp: gives_def admin_login_def admin_login_response_def ebind_eq_Inr split: if_splits)
  have alive: "answers (success_of (TDict TStr)) (ret (alive request))"
    by (auto simp: alive_def intro!: answers_rules answer_conforms)
  have ready: "conforms (success_of TObject) (answer_with request (PDict d))" for d
    by (intro answer_conforms) (simp add: list_all_iff split_beta)
  show ?thesis
  proof (cases e)
    case (Login u p)
    have "answers (success_of admin_login_response) (login_route env request u p)"
      unfolding login_route_def by (intro answers_value [OF login]) (auto intro!: answers_rules answer_conforms)
    then show ?thesis using assms answered_doc by (auto simp: Login open_call_def)
  next
    case Ready
    then show ?thesis using assms ready by (auto simp: open_call_def readiness_def)
  next
    case SampleData
    have "answers (success_of TObject) (get_sample_data env request)"
      by (auto simp: get_sample_data_def local_dev_only_def intro!: answers_rules ready)
    then show ?thesis using assms answered_doc by (auto simp: SampleData open_call_def)
  next
    case (SeedSample reset)
    have "answers (success_of TObject) (seed_sample_data env request reset)"
      by (auto simp: seed_sample_data_def local_dev_only_def intro!: answers_rules ready)
    then show ?thesis using assms answered_doc by (auto simp: SeedSample open_call_def)
  next
    case Health
    then show ?thesis using assms answered_doc [OF _ alive] by (simp add: open_call_def)
  next
    case Live
    then show ?thesis using assms answered_doc [OF _ alive] by (simp add: open_call_def)
  qed
qed

text \<open>
  C15. Every answer of every endpoint has the shape its route declares: whatever the request and the
  state, a handler that returns a document returns one whose fields have exactly the types of the
  response model, none of the required ones missing.
\<close>

theorem answers_conform:
  assumes "dispatch env call request n = (Inr response, n')"
  shows "\<exists>doc. response = json_response (rs_status response) doc \<and> conforms (response_model call) doc"
proof -
  have doc: "\<exists>doc. response = json_response (rs_status response) doc \<and> conforms t doc"
    if "on_site (answered status m) v = (Inr response, v')" "answers t m" for status t v v' and m :: "(site, pyval) eff"
    using that answered_doc [of status m "nd_site v" response _ t] by (auto simp: on_site_def split: prod.splits)
  show ?thesis
  proof (cases call)
    case (OpenCall e)
    then show ?thesis using assms open_answers [of env request e]
      by (auto simp: dispatch_def response_model_def on_site_def split: prod.splits)
  next
    case (AccessCall e)
    then show ?thesis using assms doc access_answers
      by (auto simp: dispatch_def response_model_def bnd_Inr_iff)
  next
    case (TenantCall e)
    then show ?thesis using assms doc tenant_answers
      by (auto simp: dispatch_def response_model_def managed_def bnd_Inr_iff)
  next
    case (RbacCall e)
    then show ?thesis using assms doc rbac_answers
      by (auto simp: dispatch_def response_model_def managed_def bnd_Inr_iff)
  qed
qed

theorem answers_conform_witness:
  "\<exists>response n'. dispatch demo_env (OpenCall Health) demo_call (idle_node empty_world) = (Inr response, n')
    \<and> rs_status response = 200 \<and> (\<exists>doc. response = json_response 200 doc \<and> conforms (success_of (TDict TStr)) doc)"
proof -
  let ?response = "json_response 200 (alive demo_call)"
  have run: "dispatch demo_env (OpenCall Health) demo_call (idle_node empty_world) = (Inr ?response, idle_node empty_world)"
    by (simp add: dispatch_def open_call_def answered_def on_site_def idle_node_def)
  have status: "rs_status ?response = 200" by (simp add: json_response_def)
  from answers_conform [OF run] have "\<exists>doc. ?response = json_response 200 doc \<and> conforms (success_of (TDict TStr)) doc"
    unfolding status by (simp only: response_model_def api_call.case open_model.simps)
  with run status show ?thesis by blast
qed

end
